(* ===== verification/Prelude.thy ===== *)
theory Prelude
  imports Main "HOL-Library.List_Lexorder" "HOL-Library.Char_ord" "HOL-Library.Product_Lexorder"
begin

text \<open>
  Shared vocabulary of the development: exceptions as values and the two combinators every
  handler is written with (\<open>bindE\<close> for a call that may throw, \<open>require\<close> for a guard that
  throws when it fails), loops that may throw (\<open>foldE\<close>, \<open>mapE\<close>), database tables as lists of
  rows with the queries and bulk updates of the Prisma client, JSON values and the few string
  operations of JavaScript the services use.  The inversion rules \<open>bindE_Inr\<close>,
  \<open>require_Inr\<close>, \<open>foldE_inv\<close> and the table rules in \<open>table_simps\<close> carry the
  proofs of the component theories.
\<close>

named_theorems res_simps
named_theorems table_simps

section \<open>Exceptions as values\<close>

text \<open>
  The exception classes of NestJS that the services throw, each with its \<open>code\<close> field and the
  list-valued detail (\<open>blockers\<close>, \<open>fields\<close>) some of them carry; \<open>RangeError\<close> of the
  money helpers; the Prisma errors \<open>P2002\<close> (unique constraint) and \<open>P2025\<close> (row of an
  \<open>update\<close> not found); the error class of the delivery-rate resolution.  The
  human-readable messages are not modelled.
\<close>

datatype http_class = BadRequest | Forbidden | NotFound | Conflict | ServiceUnavailable

datatype exn =
    Http http_class string "string list"
  | RangeError string
  | PrismaError string
  | RateResolutionError string

type_synonym 'a result = "exn + 'a"

abbreviation conflict :: "string \<Rightarrow> exn" where
  "conflict c \<equiv> Http Conflict c []"

abbreviation badRequest :: "string \<Rightarrow> exn" where
  "badRequest c \<equiv> Http BadRequest c []"

abbreviation forbidden :: "string \<Rightarrow> exn" where
  "forbidden c \<equiv> Http Forbidden c []"

abbreviation notFound :: "string \<Rightarrow> exn" where
  "notFound c \<equiv> Http NotFound c []"

abbreviation unavailable :: "string \<Rightarrow> exn" where
  "unavailable c \<equiv> Http ServiceUnavailable c []"

fun bindE :: "'e + 'a \<Rightarrow> ('a \<Rightarrow> 'e + 'b) \<Rightarrow> 'e + 'b" where
  "bindE (Inl e) k = Inl e"
| "bindE (Inr x) k = k x"

definition require :: "bool \<Rightarrow> 'e \<Rightarrow> 'e + 'a \<Rightarrow> 'e + 'a" where
  "require c e k = (if c then k else Inl e)"

definition some_or :: "'a option \<Rightarrow> 'e \<Rightarrow> 'e + 'a" where
  "some_or m e = (case m of None \<Rightarrow> Inl e | Some x \<Rightarrow> Inr x)"

lemma bindE_Inr [simp, res_simps]: "bindE m k = Inr y \<longleftrightarrow> (\<exists>x. m = Inr x \<and> k x = Inr y)"
  by (cases m) auto

lemma bindE_Inl [res_simps]: "bindE m k = Inl e \<longleftrightarrow> m = Inl e \<or> (\<exists>x. m = Inr x \<and> k x = Inl e)"
  by (cases m) auto

lemma require_Inr [simp, res_simps]: "require c e k = Inr y \<longleftrightarrow> c \<and> k = Inr y"
  by (simp add: require_def)

lemma require_Inl [res_simps]: "require c e k = Inl x \<longleftrightarrow> (\<not> c \<and> x = e) \<or> (c \<and> k = Inl x)"
  by (auto simp: require_def)

lemma require_True [simp]: "require True e k = k"
  by (simp add: require_def)

lemma require_False [simp]: "require False e k = Inl e"
  by (simp add: require_def)

lemma bindE_require [simp]: "bindE (require c e k) f = require c e (bindE k f)"
  by (simp add: require_def)

lemma bindE_assoc: "bindE (bindE m f) g = bindE m (\<lambda>x. bindE (f x) g)"
  by (cases m) auto

lemma some_or_Inr [simp, res_simps]: "some_or m e = Inr x \<longleftrightarrow> m = Some x"
  by (simp add: some_or_def split: option.splits)

lemma some_or_Inl [res_simps]: "some_or m e = Inl x \<longleftrightarrow> m = None \<and> x = e"
  by (auto simp: some_or_def split: option.splits)

lemma some_or_simps [simp]: "some_or (Some x) e = Inr x" "some_or None e = Inl e"
  by (simp_all add: some_or_def)

section \<open>Loops that may throw\<close>

fun foldE :: "('x \<Rightarrow> 's \<Rightarrow> 'e + 's) \<Rightarrow> 'x list \<Rightarrow> 's \<Rightarrow> 'e + 's" where
  "foldE f [] s = Inr s"
| "foldE f (x # xs) s = bindE (f x s) (foldE f xs)"

fun mapE :: "('x \<Rightarrow> 'e + 'y) \<Rightarrow> 'x list \<Rightarrow> 'e + 'y list" where
  "mapE f [] = Inr []"
| "mapE f (x # xs) = bindE (f x) (\<lambda>y. bindE (mapE f xs) (\<lambda>ys. Inr (y # ys)))"

lemma foldE_inv:
  assumes "foldE f xs s = Inr t" and "P s"
    and step: "\<And>x s t. x \<in> set xs \<Longrightarrow> f x s = Inr t \<Longrightarrow> P s \<Longrightarrow> P t"
  shows "P t"
  using assms
proof (induction xs arbitrary: s)
  case Nil
  then show ?case by simp
next
  case (Cons x xs)
  from Cons.prems(1) obtain s1 where 1: "f x s = Inr s1" "foldE f xs s1 = Inr t" by auto
  from 1(1) Cons.prems(2) have "P s1" by (rule Cons.prems(3) [of x, rotated 1]) simp
  from 1(2) this show ?case
    by (rule Cons.IH) (auto intro: Cons.prems(3))
qed

lemma foldE_append:
  "foldE f (xs @ ys) s = bindE (foldE f xs s) (foldE f ys)"
  by (induction xs arbitrary: s) (auto split: sum.splits, metis bindE.simps old.sum.exhaust)

lemma mapE_Inr: "mapE f xs = Inr ys \<longleftrightarrow> list_all2 (\<lambda>x y. f x = Inr y) xs ys"
  by (induction xs arbitrary: ys) (auto simp: list_all2_Cons1)

lemma mapE_length: "mapE f xs = Inr ys \<Longrightarrow> length ys = length xs"
  by (auto simp: mapE_Inr dest: list_all2_lengthD)

lemma mapE_set: "mapE f xs = Inr ys \<Longrightarrow> y \<in> set ys \<Longrightarrow> \<exists>x\<in>set xs. f x = Inr y"
  by (fastforce simp: mapE_Inr list_all2_conv_all_nth in_set_conv_nth)

section \<open>Tables\<close>

text \<open>
  A table is the list of its rows in insertion order.  \<open>findFirst\<close>/\<open>findUnique\<close> are
  \<open>List.find\<close>, \<open>findMany\<close> is \<open>filter\<close>, \<open>updateMany\<close> is \<open>update_where\<close> with the
  affected-row count \<open>count_where\<close>, \<open>create\<close> is \<open>create_row\<close>, which throws Prisma's
  \<open>P2002\<close> when the new row clashes with one already there on a unique column.
\<close>

definition update_where :: "('r \<Rightarrow> bool) \<Rightarrow> ('r \<Rightarrow> 'r) \<Rightarrow> 'r list \<Rightarrow> 'r list" where
  "update_where P f t = map (\<lambda>r. if P r then f r else r) t"

definition count_where :: "('r \<Rightarrow> bool) \<Rightarrow> 'r list \<Rightarrow> nat" where
  "count_where P t = length (filter P t)"

definition create_row :: "('r \<Rightarrow> 'r \<Rightarrow> bool) \<Rightarrow> 'r \<Rightarrow> 'r list \<Rightarrow> 'r list result" where
  "create_row clash r t =
     require (\<not> list_ex (clash r) t) (PrismaError ''P2002'') (Inr (t @ [r]))"

definition sum_by :: "('r \<Rightarrow> int) \<Rightarrow> 'r list \<Rightarrow> int" where
  "sum_by g t = sum_list (map g t)"

lemma sum_by_simps [simp]:
  "sum_by g [] = 0" "sum_by g (r # t) = g r + sum_by g t"
  by (simp_all add: sum_by_def)

lemma sum_by_append [simp]: "sum_by g (xs @ ys) = sum_by g xs + sum_by g ys"
  by (simp add: sum_by_def)

lemma update_where_simps [simp]:
  "update_where P f [] = []"
  "update_where P f (r # t) = (if P r then f r else r) # update_where P f t"
  by (simp_all add: update_where_def)

lemma set_update_where [table_simps]:
  "x \<in> set (update_where P f t) \<longleftrightarrow> (\<exists>r\<in>set t. x = (if P r then f r else r))"
  by (auto simp: update_where_def)

lemma map_update_where [table_simps]:
  "(\<And>r. r \<in> set t \<Longrightarrow> P r \<Longrightarrow> k (f r) = k r) \<Longrightarrow> map k (update_where P f t) = map k t"
  by (induction t) auto

lemma length_update_where [simp]: "length (update_where P f t) = length t"
  by (simp add: update_where_def)

lemma update_where_none [simp]: "(\<And>r. r \<in> set t \<Longrightarrow> \<not> P r) \<Longrightarrow> update_where P f t = t"
  by (induction t) auto

lemma create_row_Inr [simp, table_simps]:
  "create_row clash r t = Inr t' \<longleftrightarrow> \<not> list_ex (clash r) t \<and> t' = t @ [r]"
  by (auto simp: create_row_def)

lemma find_SomeD: "List.find P t = Some r \<Longrightarrow> r \<in> set t \<and> P r"
  by (auto simp: find_Some_iff)

lemma find_append:
  "List.find P (xs @ ys) = (case List.find P xs of Some x \<Rightarrow> Some x | None \<Rightarrow> List.find P ys)"
  by (induction xs) auto

lemma find_snoc:
  "List.find P (xs @ [x]) = (case List.find P xs of Some y \<Rightarrow> Some y | None \<Rightarrow> if P x then Some x else None)"
  by (induction xs) auto

lemma find_update_where:
  assumes "\<And>x. P (f x) = P x"
  shows "List.find P (update_where Q f t) = map_option (\<lambda>x. if Q x then f x else x) (List.find P t)"
  using assms by (induction t) auto

lemma find_None_all: "List.find P t = None \<longleftrightarrow> (\<forall>x\<in>set t. \<not> P x)"
  by (auto simp: find_None_iff)

lemma find_key:
  assumes "distinct (map k t)" and "r \<in> set t"
  shows "List.find (\<lambda>x. k x = k r) t = Some r"
  using assms
proof (induction t)
  case Nil
  then show ?case by simp
next
  case (Cons a t)
  then show ?case by (cases "a = r") (auto simp: rev_image_eqI)
qed

lemma key_unique:
  "distinct (map k t) \<Longrightarrow> r \<in> set t \<Longrightarrow> s \<in> set t \<Longrightarrow> k r = k s \<Longrightarrow> r = s"
  by (auto simp: distinct_map inj_on_def)

lemma filter_key_one:
  assumes "distinct (map k t)" and "v \<in> k ` set t"
  shows "length (filter (\<lambda>x. k x = v) t) = 1"
  using assms
proof (induction t)
  case (Cons a t)
  show ?case
  proof (cases "k a = v")
    case True
    have "k x \<noteq> v" if "x \<in> set t" for x using Cons.prems(1) True imageI [OF that, of k] by auto
    then have "filter (\<lambda>x. k x = v) t = []" by (simp add: filter_empty_conv)
    with True show ?thesis by simp
  next
    case False
    with Cons show ?thesis by simp
  qed
qed simp

lemma distinct_snoc_key:
  "distinct (map k t) \<Longrightarrow> (\<And>x. x \<in> set t \<Longrightarrow> k x \<noteq> k r) \<Longrightarrow> distinct (map k (t @ [r]))"
  by (auto dest: sym)

lemma sum_by_cong: "(\<And>r. r \<in> set t \<Longrightarrow> g r = h r) \<Longrightarrow> sum_by g t = sum_by h t"
  by (induction t) auto

lemma sum_by_filter_le:
  "(\<And>r. r \<in> set t \<Longrightarrow> 0 \<le> g r) \<Longrightarrow> (\<And>r. r \<in> set t \<Longrightarrow> P r \<Longrightarrow> Q r) \<Longrightarrow>
   sum_by g (filter P t) \<le> sum_by g (filter Q t)"
  by (induction t) (auto simp: add_increasing add_mono)

lemma sum_by_nonneg: "(\<And>r. r \<in> set t \<Longrightarrow> 0 \<le> g r) \<Longrightarrow> 0 \<le> sum_by g t"
  by (induction t) auto

lemma sum_by_filter_split:
  "sum_by g (filter P t) = sum_by g (filter (\<lambda>r. P r \<and> Q r) t) + sum_by g (filter (\<lambda>r. P r \<and> \<not> Q r) t)"
  by (induction t) auto

section \<open>JSON values\<close>

datatype json =
    JNull
  | JBool bool
  | JNum int
  | JStr string
  | JArr "json list"
  | JObj "(string \<times> json) list"

fun jopt :: "('a \<Rightarrow> json) \<Rightarrow> 'a option \<Rightarrow> json" where
  "jopt f None = JNull"
| "jopt f (Some x) = f x"

fun jfield :: "string \<Rightarrow> json \<Rightarrow> json option" where
  "jfield k (JObj fs) = map_of fs k"
| "jfield k _ = None"

section \<open>Strings of JavaScript\<close>

text \<open>
  Strings are lists of code units up to 255.  \<open>trim\<close> strips the white space of that range:
  tab to carriage return (9 to 13), space (32) and no-break space (160).  The empty string is
  falsy, which \<open>nonempty\<close> and \<open>or_null\<close> (\<open>x || null\<close>) express.
\<close>

definition js_space :: "char \<Rightarrow> bool" where
  "js_space c = (let n = (of_char c :: nat) in (9 \<le> n \<and> n \<le> 13) \<or> n = 32 \<or> n = 160)"

definition trim :: "string \<Rightarrow> string" where
  "trim s = rev (dropWhile js_space (rev (dropWhile js_space s)))"

definition or_null :: "string option \<Rightarrow> string option" where
  "or_null s = (case s of None \<Rightarrow> None | Some t \<Rightarrow> if t = [] then None else Some t)"

definition trim_or_null :: "string option \<Rightarrow> string option" where
  "trim_or_null s = or_null (map_option trim s)"

fun digits :: "nat \<Rightarrow> string" where
  "digits n = (if n < 10 then [char_of (48 + n)] else digits (n div 10) @ [char_of (48 + n mod 10)])"

declare digits.simps [simp del]

text \<open>The decimal text of a non-negative integer, with equations that compute on \<open>int\<close>.\<close>

definition int_text :: "int \<Rightarrow> string" where
  "int_text i = digits (nat i)"

lemma int_text_code [code]:
  "int_text i = (if i < 10 then [char_of (48 + max 0 i)] else int_text (i div 10) @ [char_of (48 + i mod 10)])"
proof (cases "i < 10")
  case True
  then have "nat i < 10" by linarith
  have "char_of (48 + nat i) = (char_of (int (48 + nat i)) :: char)" by (simp only: char_of_nat)
  also have "int (48 + nat i) = 48 + max 0 i" by simp
  finally show ?thesis using True \<open>nat i < 10\<close> by (simp add: int_text_def digits.simps [of "nat i"])
next
  case False
  then have "\<not> nat i < 10" by linarith
  have "char_of (48 + nat i mod 10) = (char_of (int (48 + nat i mod 10)) :: char)" by (simp only: char_of_nat)
  also have "int (48 + nat i mod 10) = 48 + i mod 10" using False by (simp add: zmod_int)
  finally show ?thesis using False \<open>\<not> nat i < 10\<close>
    by (simp add: int_text_def digits.simps [of "nat i"] nat_div_distrib)
qed

definition pad_start :: "nat \<Rightarrow> char \<Rightarrow> string \<Rightarrow> string" where
  "pad_start n c s = replicate (n - length s) c @ s"

text \<open>
  \<open>localeCompare\<close> on the strings that occur (identifiers and ASCII keys): alphabetical without regard to case,
  a lower-case letter before its upper-case form when nothing else distinguishes two keys.
\<close>

definition fold_case :: "char \<Rightarrow> nat" where
  "fold_case c = (let n = of_char c in if 65 \<le> n \<and> n \<le> 90 then n + 32 else n)"

definition swap_case :: "char \<Rightarrow> nat" where
  "swap_case c = (let n = of_char c
                  in if 65 \<le> n \<and> n \<le> 90 then n + 32 else if 97 \<le> n \<and> n \<le> 122 then n - 32 else n)"

definition locale_key :: "string \<Rightarrow> nat list \<times> nat list" where
  "locale_key s = (map fold_case s, map swap_case s)"

text \<open>
  \<open>/^[A-Za-z0-9._~:+-]{16,128}$/\<close>, the idempotency-key pattern the checkout, inventory and
  cash services share.
\<close>

definition idempotency_key_char :: "char \<Rightarrow> bool" where
  "idempotency_key_char c =
     (let n = (of_char c :: nat)
      in (65 \<le> n \<and> n \<le> 90) \<or> (97 \<le> n \<and> n \<le> 122) \<or> (48 \<le> n \<and> n \<le> 57) \<or>
         c \<in> set ''._~:+-'')"

definition idempotency_key_pattern :: "string \<Rightarrow> bool" where
  "idempotency_key_pattern s = (16 \<le> length s \<and> length s \<le> 128 \<and> list_all idempotency_key_char s)"

end
