(* ===== verification/Schema.thy ===== *)
theory Schema
  imports Prelude
begin

text \<open>
  The request environment and the stock tables of \<open>prisma/schema.prisma\<close>: product variants,
  batches, locations, inventory items, stock movements, reservations, adjustments, transfers and
  the audit log.  Ids are strings; a time is a number of milliseconds since the epoch; the
  columns \<open>createdAt\<close>/\<open>updatedAt\<close> and display texts no service decides on are left out.
  A row is created with the next id of Prisma's generator: the letter \<open>c\<close> and a text (\<open>cuid\<close>
  applied to the running number \<open>seq\<close>) about which nothing is assumed; an id already in use is a
  unique-constraint violation like any other.
\<close>

section \<open>Requests\<close>

record env =
  now :: int
  actor :: string
  requestId :: string
  req_ip :: "string option"
  req_remoteAddress :: "string option"
  req_userAgent :: "string option"
  cuid :: "nat \<Rightarrow> string"
  sha256 :: "string \<Rightarrow> string"
  encrypt :: "string \<Rightarrow> string"
  random_hex :: string

section \<open>Rows\<close>

datatype movement_type =
    INITIAL_STOCK | PURCHASE_RECEIPT | MANUAL_ADJUSTMENT | RESERVATION | RESERVATION_RELEASE
  | ORDER_CONFIRMED | ORDER_CANCELLED | DELIVERY_REFUSED_RETURN | DELIVERY_FAILED_RETURN
  | CUSTOMER_RETURN | DAMAGE | EXPIRY | TRANSFER_IN | TRANSFER_OUT

datatype reservation_state = RS_ACTIVE | RS_CONSUMED | RS_RELEASED | RS_EXPIRED

datatype reservation_source = SRC_CART | SRC_CHECKOUT | SRC_ORDER

datatype adjustment_status = PENDING_APPROVAL | APPROVED | REJECTED | APPLIED | EXPIRED

datatype supplier_status = SUPPLIER_ACTIVE | SUPPLIER_SUSPENDED | SUPPLIER_ARCHIVED

datatype actor_type = ACTOR_CUSTOMER | ACTOR_ADMIN | ACTOR_COURIER | ACTOR_SYSTEM

datatype audit_outcome = SUCCESS | FAILURE | DENIED

record audit_log =
  audit_id :: string
  audit_actorUserId :: "string option"
  audit_actorType :: actor_type
  audit_action :: string
  audit_resourceType :: string
  audit_resourceId :: "string option"
  audit_outcome :: audit_outcome
  audit_requestId :: string
  audit_ipAddress :: "string option"
  audit_userAgent :: "string option"
  audit_before :: json
  audit_after :: json

record location =
  loc_id :: string
  loc_code :: string
  loc_name :: string
  loc_address :: "string option"
  loc_active :: bool
  loc_fulfillsOrders :: bool

record supplier =
  sup_id :: string
  sup_status :: supplier_status

record batch =
  batch_id :: string
  batch_variantId :: string
  batch_supplierId :: "string option"
  batch_number :: string
  batch_supplierReference :: "string option"
  batch_manufacturedAt :: "int option"
  batch_expiryDate :: "int option"
  batch_receivedAt :: "int option"
  batch_archivedAt :: "int option"

record item =
  item_id :: string
  item_variantId :: string
  item_locationId :: string
  item_batchId :: "string option"
  item_lotKey :: string
  item_onHand :: int
  item_version :: int

record movement =
  mv_id :: string
  mv_itemId :: string
  mv_locationId :: string
  mv_batchId :: "string option"
  mv_type :: movement_type
  mv_delta :: int
  mv_onHandAfter :: int
  mv_referenceType :: "string option"
  mv_referenceId :: "string option"
  mv_reasonCode :: "string option"
  mv_note :: "string option"
  mv_actorUserId :: "string option"
  mv_requestId :: "string option"
  mv_keyHash :: "string option"
  mv_fingerprint :: "string option"
  mv_occurredAt :: int

record reservation =
  res_id :: string
  res_itemId :: string
  res_sourceType :: reservation_source
  res_sourceId :: string
  res_activeKey :: "string option"
  res_quantity :: int
  res_state :: reservation_state
  res_orderId :: "string option"
  res_orderItemId :: "string option"
  res_expiresAt :: int
  res_consumedAt :: "int option"
  res_releasedAt :: "int option"
  res_releaseReason :: "string option"

record adjustment =
  adj_id :: string
  adj_itemId :: string
  adj_delta :: int
  adj_reasonCode :: string
  adj_note :: "string option"
  adj_status :: adjustment_status
  adj_requestedBy :: string
  adj_approvedBy :: "string option"
  adj_decisionReason :: "string option"
  adj_expectedVersion :: int
  adj_onHandBefore :: int
  adj_requestedAt :: int
  adj_expiresAt :: "int option"
  adj_decidedAt :: "int option"
  adj_appliedAt :: "int option"
  adj_movementId :: "string option"

record transfer_row =
  xf_id :: string
  xf_sourceItemId :: string
  xf_destinationItemId :: string
  xf_quantity :: int
  xf_keyHash :: string
  xf_fingerprint :: string
  xf_requestedBy :: string
  xf_note :: "string option"
  xf_sourceMovementId :: string
  xf_destinationMovementId :: string
  xf_occurredAt :: int

text \<open>A product variant with the columns the inventory, catalogue and checkout services read.\<close>

datatype publication_status = DRAFT | PUBLISHED | SUSPENDED | ARCHIVED

record variant =
  var_id :: string
  var_productId :: string
  var_nameFr :: string
  var_nameAr :: string
  var_sku :: string
  var_priceMillimes :: int
  var_promotionalPriceMillimes :: "int option"
  var_taxRateBps :: int
  var_weightGrams :: int
  var_lowStockThreshold :: int
  var_publicationStatus :: publication_status
  var_archivedAt :: "int option"
  var_deletedAt :: "int option"
  var_version :: int

section \<open>The stock part of the database\<close>

record stock_db =
  seq :: nat
  audits :: "audit_log list"
  variants :: "variant list"
  suppliers :: "supplier list"
  batches :: "batch list"
  locations :: "location list"
  items :: "item list"
  movements :: "movement list"
  reservations :: "reservation list"
  adjustments :: "adjustment list"
  transfers :: "transfer_row list"

text \<open>A unique column that may be null: two nulls do not clash.\<close>

definition same_some :: "'a option \<Rightarrow> 'a option \<Rightarrow> bool" where
  "same_some a b = (a \<noteq> None \<and> a = b)"

definition fresh_id :: "env \<Rightarrow> 'a stock_db_scheme \<Rightarrow> string" where
  "fresh_id e db = CHR ''c'' # cuid e (seq db)"

lemma same_some_simps [simp]:
  "same_some None b = False" "same_some a None = False" "same_some (Some x) (Some y) = (x = y)"
  by (auto simp: same_some_def)

section \<open>Creating rows\<close>

text \<open>
  One \<open>create\<close> per table: the row gets the next id, and a clash on the primary key or on a
  unique constraint of the schema is \<open>P2002\<close>.
\<close>

definition item_key :: "item \<Rightarrow> string \<times> string \<times> string" where
  "item_key i = (item_variantId i, item_locationId i, item_lotKey i)"

definition create_audit :: "env \<Rightarrow> audit_log \<Rightarrow> 'a stock_db_scheme \<Rightarrow> (audit_log \<times> 'a stock_db_scheme) result" where
  "create_audit e row db =
     (let r = row\<lparr> audit_id := fresh_id e db \<rparr>
      in bindE (create_row (\<lambda>a b. audit_id a = audit_id b) r (audits db)) (\<lambda>t.
         Inr (r, db\<lparr> audits := t, seq := Suc (seq db) \<rparr>)))"

definition create_location :: "env \<Rightarrow> location \<Rightarrow> 'a stock_db_scheme \<Rightarrow> (location \<times> 'a stock_db_scheme) result" where
  "create_location e row db =
     (let r = row\<lparr> loc_id := fresh_id e db \<rparr>
      in bindE (create_row (\<lambda>a b. loc_id a = loc_id b \<or> loc_code a = loc_code b) r (locations db)) (\<lambda>t.
         Inr (r, db\<lparr> locations := t, seq := Suc (seq db) \<rparr>)))"

definition create_batch :: "env \<Rightarrow> batch \<Rightarrow> 'a stock_db_scheme \<Rightarrow> (batch \<times> 'a stock_db_scheme) result" where
  "create_batch e row db =
     (let r = row\<lparr> batch_id := fresh_id e db \<rparr>
      in bindE (create_row (\<lambda>a b. batch_id a = batch_id b
                   \<or> (batch_variantId a = batch_variantId b \<and> batch_number a = batch_number b))
                 r (batches db)) (\<lambda>t.
         Inr (r, db\<lparr> batches := t, seq := Suc (seq db) \<rparr>)))"

definition create_item :: "env \<Rightarrow> item \<Rightarrow> 'a stock_db_scheme \<Rightarrow> (item \<times> 'a stock_db_scheme) result" where
  "create_item e row db =
     (let r = row\<lparr> item_id := fresh_id e db \<rparr>
      in bindE (create_row (\<lambda>a b. item_id a = item_id b \<or> item_key a = item_key b) r (items db)) (\<lambda>t.
         Inr (r, db\<lparr> items := t, seq := Suc (seq db) \<rparr>)))"

definition create_movement :: "env \<Rightarrow> movement \<Rightarrow> 'a stock_db_scheme \<Rightarrow> (movement \<times> 'a stock_db_scheme) result" where
  "create_movement e row db =
     (let r = row\<lparr> mv_id := fresh_id e db \<rparr>
      in bindE (create_row (\<lambda>a b. mv_id a = mv_id b \<or> same_some (mv_keyHash a) (mv_keyHash b))
                 r (movements db)) (\<lambda>t.
         Inr (r, db\<lparr> movements := t, seq := Suc (seq db) \<rparr>)))"

definition create_reservation :: "env \<Rightarrow> reservation \<Rightarrow> 'a stock_db_scheme \<Rightarrow> (reservation \<times> 'a stock_db_scheme) result" where
  "create_reservation e row db =
     (let r = row\<lparr> res_id := fresh_id e db \<rparr>
      in bindE (create_row (\<lambda>a b. res_id a = res_id b \<or> same_some (res_activeKey a) (res_activeKey b))
                 r (reservations db)) (\<lambda>t.
         Inr (r, db\<lparr> reservations := t, seq := Suc (seq db) \<rparr>)))"

definition create_adjustment :: "env \<Rightarrow> adjustment \<Rightarrow> 'a stock_db_scheme \<Rightarrow> (adjustment \<times> 'a stock_db_scheme) result" where
  "create_adjustment e row db =
     (let r = row\<lparr> adj_id := fresh_id e db \<rparr>
      in bindE (create_row (\<lambda>a b. adj_id a = adj_id b \<or> same_some (adj_movementId a) (adj_movementId b))
                 r (adjustments db)) (\<lambda>t.
         Inr (r, db\<lparr> adjustments := t, seq := Suc (seq db) \<rparr>)))"

definition create_transfer :: "env \<Rightarrow> transfer_row \<Rightarrow> 'a stock_db_scheme \<Rightarrow> (transfer_row \<times> 'a stock_db_scheme) result" where
  "create_transfer e row db =
     (let r = row\<lparr> xf_id := fresh_id e db \<rparr>
      in bindE (create_row (\<lambda>a b. xf_id a = xf_id b \<or> xf_keyHash a = xf_keyHash b
                   \<or> xf_sourceMovementId a = xf_sourceMovementId b
                   \<or> xf_destinationMovementId a = xf_destinationMovementId b) r (transfers db)) (\<lambda>t.
         Inr (r, db\<lparr> transfers := t, seq := Suc (seq db) \<rparr>)))"

text \<open>Inversion of the creates: the row written and the database after it.\<close>

lemma create_audit_Inr [simp, res_simps]:
  "create_audit e row db = Inr p \<longleftrightarrow>
     (let r = row\<lparr> audit_id := fresh_id e db \<rparr>
      in \<not> (\<exists>x\<in>set (audits db). audit_id r = audit_id x)
         \<and> p = (r, db\<lparr> audits := audits db @ [r], seq := Suc (seq db) \<rparr>))"
  by (auto simp: create_audit_def Let_def list_ex_iff)

lemma create_location_Inr [simp, res_simps]:
  "create_location e row db = Inr p \<longleftrightarrow>
     (let r = row\<lparr> loc_id := fresh_id e db \<rparr>
      in \<not> (\<exists>x\<in>set (locations db). loc_id r = loc_id x \<or> loc_code r = loc_code x)
         \<and> p = (r, db\<lparr> locations := locations db @ [r], seq := Suc (seq db) \<rparr>))"
  by (auto simp: create_location_def Let_def list_ex_iff)

lemma create_batch_Inr [simp, res_simps]:
  "create_batch e row db = Inr p \<longleftrightarrow>
     (let r = row\<lparr> batch_id := fresh_id e db \<rparr>
      in \<not> (\<exists>x\<in>set (batches db). batch_id r = batch_id x
               \<or> (batch_variantId r = batch_variantId x \<and> batch_number r = batch_number x))
         \<and> p = (r, db\<lparr> batches := batches db @ [r], seq := Suc (seq db) \<rparr>))"
  by (auto simp: create_batch_def Let_def list_ex_iff)

lemma create_item_Inr [simp, res_simps]:
  "create_item e row db = Inr p \<longleftrightarrow>
     (let r = row\<lparr> item_id := fresh_id e db \<rparr>
      in \<not> (\<exists>x\<in>set (items db). item_id r = item_id x \<or> item_key r = item_key x)
         \<and> p = (r, db\<lparr> items := items db @ [r], seq := Suc (seq db) \<rparr>))"
  by (auto simp: create_item_def Let_def list_ex_iff)

lemma create_movement_Inr [simp, res_simps]:
  "create_movement e row db = Inr p \<longleftrightarrow>
     (let r = row\<lparr> mv_id := fresh_id e db \<rparr>
      in \<not> (\<exists>x\<in>set (movements db). mv_id r = mv_id x \<or> same_some (mv_keyHash r) (mv_keyHash x))
         \<and> p = (r, db\<lparr> movements := movements db @ [r], seq := Suc (seq db) \<rparr>))"
  by (auto simp: create_movement_def Let_def list_ex_iff)

lemma create_reservation_Inr [simp, res_simps]:
  "create_reservation e row db = Inr p \<longleftrightarrow>
     (let r = row\<lparr> res_id := fresh_id e db \<rparr>
      in \<not> (\<exists>x\<in>set (reservations db). res_id r = res_id x \<or> same_some (res_activeKey r) (res_activeKey x))
         \<and> p = (r, db\<lparr> reservations := reservations db @ [r], seq := Suc (seq db) \<rparr>))"
  by (auto simp: create_reservation_def Let_def list_ex_iff)

lemma create_adjustment_Inr [simp, res_simps]:
  "create_adjustment e row db = Inr p \<longleftrightarrow>
     (let r = row\<lparr> adj_id := fresh_id e db \<rparr>
      in \<not> (\<exists>x\<in>set (adjustments db). adj_id r = adj_id x \<or> same_some (adj_movementId r) (adj_movementId x))
         \<and> p = (r, db\<lparr> adjustments := adjustments db @ [r], seq := Suc (seq db) \<rparr>))"
  by (auto simp: create_adjustment_def Let_def list_ex_iff)

lemma create_transfer_Inr [simp, res_simps]:
  "create_transfer e row db = Inr p \<longleftrightarrow>
     (let r = row\<lparr> xf_id := fresh_id e db \<rparr>
      in \<not> (\<exists>x\<in>set (transfers db). xf_id r = xf_id x \<or> xf_keyHash r = xf_keyHash x
               \<or> xf_sourceMovementId r = xf_sourceMovementId x
               \<or> xf_destinationMovementId r = xf_destinationMovementId x)
         \<and> p = (r, db\<lparr> transfers := transfers db @ [r], seq := Suc (seq db) \<rparr>))"
  by (auto simp: create_transfer_def Let_def list_ex_iff)

end
