(* ===== verification/Stock.thy ===== *)
theory Stock
  imports Schema
begin

text \<open>
  What the stock tables promise, and the elementary changes every service composes its
  transactions from.  \<open>reserved t rs i\<close> is the quantity of item \<open>i\<close> held by reservations that are
  active and unexpired at time \<open>t\<close> (the aggregate query the services run), \<open>balanced\<close> says that
  the movements of an item form a running balance ending in its physical stock.
  \<open>stock_inv t\<close> is the contract: at time \<open>t\<close> no item is oversold, no stock is negative or leaves
  the range of a database integer, and the physical stock equals the ledger.
\<close>

named_theorems stock_intros

definition DATABASE_INT_MAX :: int where
  "DATABASE_INT_MAX = 2147483647"

definition active_at :: "int \<Rightarrow> reservation \<Rightarrow> bool" where
  "active_at t r = (res_state r = RS_ACTIVE \<and> res_expiresAt r > t)"

definition reserved :: "int \<Rightarrow> reservation list \<Rightarrow> string \<Rightarrow> int" where
  "reserved t rs iid = sum_by res_quantity (filter (\<lambda>r. res_itemId r = iid \<and> active_at t r) rs)"

definition available :: "int \<Rightarrow> 'a stock_db_scheme \<Rightarrow> item \<Rightarrow> int" where
  "available t db i = item_onHand i - reserved t (reservations db) (item_id i)"

section \<open>The ledger\<close>

fun balanced :: "int \<Rightarrow> movement list \<Rightarrow> bool" where
  "balanced a [] = True"
| "balanced a (m # ms) = (mv_onHandAfter m = a + mv_delta m \<and> balanced (a + mv_delta m) ms)"

definition item_movements :: "movement list \<Rightarrow> string \<Rightarrow> movement list" where
  "item_movements ms iid = filter (\<lambda>m. mv_itemId m = iid) ms"

definition ledger :: "movement list \<Rightarrow> string \<Rightarrow> int" where
  "ledger ms iid = sum_by mv_delta (item_movements ms iid)"

lemma balanced_append:
  "balanced a (xs @ ys) \<longleftrightarrow> balanced a xs \<and> balanced (a + sum_by mv_delta xs) ys"
  by (induction xs arbitrary: a) (auto simp: add.assoc)

lemma item_movements_snoc [simp]:
  "item_movements (ms @ [m]) iid = item_movements ms iid @ (if mv_itemId m = iid then [m] else [])"
  by (simp add: item_movements_def)

lemma ledger_snoc [simp]:
  "ledger (ms @ [m]) iid = ledger ms iid + (if mv_itemId m = iid then mv_delta m else 0)"
  by (simp add: ledger_def)

lemma balanced_last:
  "balanced a ms \<Longrightarrow> ms \<noteq> [] \<Longrightarrow> mv_onHandAfter (last ms) = a + sum_by mv_delta ms"
proof (induction ms arbitrary: a)
  case (Cons m ms)
  then show ?case by (cases "ms = []") (auto simp: add.assoc)
qed simp

text \<open>Changing a movement's reference does not touch the ledger.\<close>

lemma item_movements_update:
  assumes "\<And>m. mv_itemId (f m) = mv_itemId m"
  shows "item_movements (update_where P f ms) iid = update_where P f (item_movements ms iid)"
  using assms by (induction ms) (auto simp: item_movements_def)

lemma balanced_update:
  assumes "\<And>m. mv_delta (f m) = mv_delta m" and "\<And>m. mv_onHandAfter (f m) = mv_onHandAfter m"
  shows "balanced a (update_where P f ms) = balanced a ms"
  using assms by (induction ms arbitrary: a) auto

lemma sum_by_update:
  assumes "\<And>m. g (f m) = g m"
  shows "sum_by g (update_where P f ms) = sum_by g ms"
  using assms by (induction ms) auto

section \<open>Reservations\<close>

lemma reserved_simps [simp]:
  "reserved t [] iid = 0"
  "reserved t (r # rs) iid =
     (if res_itemId r = iid \<and> active_at t r then res_quantity r else 0) + reserved t rs iid"
  "reserved t (rs @ [r]) iid =
     reserved t rs iid + (if res_itemId r = iid \<and> active_at t r then res_quantity r else 0)"
  by (simp_all add: reserved_def)

definition reservations_ok :: "reservation list \<Rightarrow> bool" where
  "reservations_ok rs = (\<forall>r\<in>set rs. 0 < res_quantity r)"

lemma reserved_nonneg: "reservations_ok rs \<Longrightarrow> 0 \<le> reserved t rs iid"
  unfolding reserved_def reservations_ok_def by (rule sum_by_nonneg) auto

lemma reserved_antimono: "reservations_ok rs \<Longrightarrow> t \<le> t' \<Longrightarrow> reserved t' rs iid \<le> reserved t rs iid"
  unfolding reserved_def reservations_ok_def
  by (rule sum_by_filter_le) (auto simp: active_at_def)

text \<open>Closing reservations (any change that leaves item and quantity and activates nothing).\<close>

lemma reserved_update_le:
  assumes "reservations_ok rs"
    and "\<And>r. res_itemId (f r) = res_itemId r" and "\<And>r. res_quantity (f r) = res_quantity r"
    and "\<And>r. active_at t (f r) \<Longrightarrow> active_at t r"
  shows "reserved t (update_where P f rs) iid \<le> reserved t rs iid"
  using assms by (induction rs) (auto simp: reservations_ok_def)

lemma reservations_ok_update:
  "reservations_ok rs \<Longrightarrow> (\<And>r. res_quantity (f r) = res_quantity r) \<Longrightarrow>
   reservations_ok (update_where P f rs)"
  by (auto simp: reservations_ok_def set_update_where)

section \<open>The contract\<close>

definition item_ok :: "int \<Rightarrow> movement list \<Rightarrow> reservation list \<Rightarrow> item \<Rightarrow> bool" where
  "item_ok t ms rs i =
     (0 \<le> item_onHand i \<and> item_onHand i \<le> DATABASE_INT_MAX
      \<and> item_onHand i = ledger ms (item_id i) \<and> balanced 0 (item_movements ms (item_id i))
      \<and> reserved t rs (item_id i) \<le> item_onHand i)"

definition stock_inv :: "int \<Rightarrow> 'a stock_db_scheme \<Rightarrow> bool" where
  "stock_inv t db =
     (distinct (map item_id (items db)) \<and> distinct (map item_key (items db))
      \<and> (\<forall>i\<in>set (items db). item_ok t (movements db) (reservations db) i)
      \<and> reservations_ok (reservations db)
      \<and> (\<forall>m\<in>set (movements db). mv_itemId m \<in> item_id ` set (items db))
      \<and> (\<forall>r\<in>set (reservations db). res_itemId r \<in> item_id ` set (items db)))"

lemma stock_invD:
  assumes "stock_inv t db"
  shows "distinct (map item_id (items db))" "distinct (map item_key (items db))"
    and "reservations_ok (reservations db)"
    and "i \<in> set (items db) \<Longrightarrow> item_ok t (movements db) (reservations db) i"
    and "m \<in> set (movements db) \<Longrightarrow> mv_itemId m \<in> item_id ` set (items db)"
    and "r \<in> set (reservations db) \<Longrightarrow> res_itemId r \<in> item_id ` set (items db)"
  using assms by (auto simp: stock_inv_def)

text \<open>The contract reads three tables only, and time works for it.\<close>

lemma stock_inv_cong:
  assumes "items db' = items db" "movements db' = movements db" "reservations db' = reservations db"
  shows "stock_inv t db' = stock_inv t db"
  using assms by (simp add: stock_inv_def)

lemma stock_inv_later: "stock_inv t db \<Longrightarrow> t \<le> t' \<Longrightarrow> stock_inv t' db"
  unfolding stock_inv_def item_ok_def by (meson order_trans reserved_antimono)

lemma fresh_item_empty:
  assumes "stock_inv t db" and "iid \<notin> item_id ` set (items db)"
  shows "item_movements (movements db) iid = []" and "reserved t (reservations db) iid = 0"
    and "ledger (movements db) iid = 0"
proof -
  show e: "item_movements (movements db) iid = []"
    using stock_invD(5) [OF assms(1)] assms(2)
    by (auto simp: item_movements_def filter_empty_conv)
  then show "ledger (movements db) iid = 0" by (simp add: ledger_def)
  have "filter (\<lambda>r. res_itemId r = iid \<and> active_at t r) (reservations db) = []"
    using stock_invD(6) [OF assms(1)] assms(2) by (auto simp: filter_empty_conv)
  then show "reserved t (reservations db) iid = 0" by (simp add: reserved_def)
qed

section \<open>Elementary changes\<close>

definition set_on_hand :: "int \<Rightarrow> item \<Rightarrow> item" where
  "set_on_hand q i = i\<lparr> item_onHand := q, item_version := item_version i + 1 \<rparr>"

lemma set_on_hand_simps [simp]:
  "item_id (set_on_hand q i) = item_id i" "item_key (set_on_hand q i) = item_key i"
  "item_onHand (set_on_hand q i) = q" "item_version (set_on_hand q i) = item_version i + 1"
  "item_variantId (set_on_hand q i) = item_variantId i"
  "item_locationId (set_on_hand q i) = item_locationId i"
  "item_batchId (set_on_hand q i) = item_batchId i" "item_lotKey (set_on_hand q i) = item_lotKey i"
  by (simp_all add: set_on_hand_def item_key_def)

text \<open>\<open>{ increment: q }\<close> works on the row as it is now.\<close>

definition add_on_hand :: "int \<Rightarrow> item \<Rightarrow> item" where
  "add_on_hand q i = set_on_hand (item_onHand i + q) i"

lemma add_on_hand_simps [simp]:
  "item_id (add_on_hand q i) = item_id i" "item_key (add_on_hand q i) = item_key i"
  "item_onHand (add_on_hand q i) = item_onHand i + q"
  "item_version (add_on_hand q i) = item_version i + 1"
  by (simp_all add: add_on_hand_def)

lemma update_where_unique:
  assumes "distinct (map k t)" and "r \<in> set t" and "f r = g r"
  shows "update_where (\<lambda>x. k x = k r) f t = update_where (\<lambda>x. k x = k r) g t"
  using assms key_unique [OF assms(1,2)] by (auto simp: update_where_def) metis

text \<open>A compare-and-set on id and version hits exactly the row that was read.\<close>

lemma update_where_cas:
  assumes "distinct (map k t)" and "r \<in> set t" and "Q r"
  shows "update_where (\<lambda>x. k x = k r \<and> Q x) f t = update_where (\<lambda>x. k x = k r) f t"
  using assms key_unique [OF assms(1,2)]
  by (auto simp: update_where_def) metis

lemma count_where_cas:
  assumes "distinct (map k t)" and "r \<in> set t"
  shows "count_where (\<lambda>x. k x = k r \<and> Q x) t = (if Q r then 1 else 0)"
  using assms
proof (induction t)
  case Nil
  then show ?case by simp
next
  case (Cons a t)
  show ?case
  proof (cases "a = r")
    case True
    then have "filter (\<lambda>x. k x = k r \<and> Q x) t = []"
      using Cons.prems(1) by (auto simp: filter_empty_conv image_iff)
    with True show ?thesis by (simp add: count_where_def)
  next
    case False
    then have "r \<in> set t" "k a \<noteq> k r" using Cons.prems by (auto simp: image_iff)
    with Cons show ?thesis by (simp add: count_where_def)
  qed
qed

lemma image_id_update [simp]:
  assumes "\<And>x. k (f x) = k x"
  shows "k ` set (update_where P f t) = k ` set t"
  using assms by (induction t) auto

text \<open>Posting a movement of an existing item together with its new physical stock.\<close>

lemma stock_inv_post [stock_intros]:
  assumes inv: "stock_inv t db" and i: "i \<in> set (items db)"
    and q: "0 \<le> q" "q \<le> DATABASE_INT_MAX" "reserved t (reservations db) (item_id i) \<le> q"
    and m: "mv_itemId m = item_id i" "mv_delta m = q - item_onHand i" "mv_onHandAfter m = q"
    and db': "items db' = update_where (\<lambda>x. item_id x = item_id i) (set_on_hand q) (items db)"
      "movements db' = movements db @ [m]" "reservations db' = reservations db"
  shows "stock_inv t db'"
proof -
  have ids: "map item_id (items db') = map item_id (items db)"
    "map item_key (items db') = map item_key (items db)"
    by (simp_all add: db' map_update_where)
  have "item_ok t (movements db') (reservations db') j" if j: "j \<in> set (items db')" for j
  proof -
    from j obtain x where x: "x \<in> set (items db)"
      "j = (if item_id x = item_id i then set_on_hand q x else x)"
      by (auto simp: db' set_update_where)
    have ok: "item_ok t (movements db) (reservations db) x" using stock_invD(4) [OF inv x(1)] .
    show ?thesis
    proof (cases "item_id x = item_id i")
      case True
      then have "x = i" using key_unique [OF stock_invD(1) [OF inv] x(1) i] by simp
      with ok x(2) q m show ?thesis
        by (simp add: item_ok_def db' balanced_append ledger_def)
    next
      case False
      with ok x(2) m show ?thesis by (simp add: item_ok_def db')
    qed
  qed
  moreover have "item_id ` set (items db') = item_id ` set (items db)" by (simp add: db')
  ultimately show ?thesis using inv i m ids by (auto simp: stock_inv_def db')
qed

lemma stock_inv_add [stock_intros]:
  assumes inv: "stock_inv t db" and i: "i \<in> set (items db)"
    and q: "0 \<le> q" "item_onHand i + q \<le> DATABASE_INT_MAX"
    and m: "mv_itemId m = item_id i" "mv_delta m = q" "mv_onHandAfter m = item_onHand i + q"
    and db': "items db' = update_where (\<lambda>x. item_id x = item_id i) (add_on_hand q) (items db)"
      "movements db' = movements db @ [m]" "reservations db' = reservations db"
  shows "stock_inv t db'"
proof -
  have ok: "item_ok t (movements db) (reservations db) i" using stock_invD(4) [OF inv i] .
  have upd: "items db' = update_where (\<lambda>x. item_id x = item_id i) (set_on_hand (item_onHand i + q)) (items db)"
    unfolding db' by (rule update_where_unique [OF stock_invD(1) [OF inv] i]) (simp add: add_on_hand_def)
  show ?thesis
    by (rule stock_inv_post [OF inv i _ _ _ m(1) _ m(3) upd db'(2,3)])
      (use ok q m(2) in \<open>auto simp: item_ok_def\<close>)
qed

text \<open>A new item with its first movement.\<close>

lemma stock_inv_new_item [stock_intros]:
  assumes inv: "stock_inv t db"
    and i: "item_id i \<notin> item_id ` set (items db)" "item_key i \<notin> item_key ` set (items db)"
      "0 \<le> item_onHand i" "item_onHand i \<le> DATABASE_INT_MAX"
    and m: "mv_itemId m = item_id i" "mv_delta m = item_onHand i" "mv_onHandAfter m = item_onHand i"
    and db': "items db' = items db @ [i]" "movements db' = movements db @ [m]"
      "reservations db' = reservations db"
  shows "stock_inv t db'"
proof -
  have "item_ok t (movements db') (reservations db') j" if j: "j \<in> set (items db')" for j
  proof (cases "j = i")
    case True
    with fresh_item_empty [OF inv i(1)] i m show ?thesis
      by (simp add: item_ok_def db')
  next
    case False
    then have "j \<in> set (items db)" using j by (simp add: db')
    moreover from this have "item_id j \<noteq> item_id i" using i(1) by (metis imageI)
    ultimately have "j \<in> set (items db)" "item_id j \<noteq> item_id i" by auto
    then have "item_ok t (movements db) (reservations db) j" "mv_itemId m \<noteq> item_id j"
      using stock_invD(4) [OF inv] m(1) by auto
    then show ?thesis by (simp add: item_ok_def db')
  qed
  with inv i m show ?thesis by (auto simp: stock_inv_def db')
qed

text \<open>A reservation of available stock.\<close>

lemma stock_inv_reserve [stock_intros]:
  assumes inv: "stock_inv t db" and i: "i \<in> set (items db)" "res_itemId r = item_id i"
    and q: "0 < res_quantity r" "res_quantity r \<le> available t db i"
    and db': "items db' = items db" "movements db' = movements db"
      "reservations db' = reservations db @ [r]"
  shows "stock_inv t db'"
proof -
  have "item_ok t (movements db') (reservations db') j" if "j \<in> set (items db)" for j
  proof -
    have ok: "item_ok t (movements db) (reservations db) j" using stock_invD(4) [OF inv that] .
    show ?thesis
    proof (cases "item_id j = item_id i")
      case True
      then have "j = i" using key_unique [OF stock_invD(1) [OF inv] that i(1)] by simp
      with ok q show ?thesis unfolding item_ok_def db' available_def by simp
    next
      case False
      with ok i(2) show ?thesis unfolding item_ok_def db' by simp
    qed
  qed
  then have "\<forall>j\<in>set (items db'). item_ok t (movements db') (reservations db') j"
    by (simp only: db'(1)) simp
  moreover have "reservations_ok (reservations db')"
    using stock_invD(3) [OF inv] q(1) by (simp add: reservations_ok_def db')
  moreover have "\<forall>x\<in>set (reservations db'). res_itemId x \<in> item_id ` set (items db')"
    using stock_invD(6) [OF inv] i by (simp add: db')
  moreover have "\<forall>m\<in>set (movements db'). mv_itemId m \<in> item_id ` set (items db')"
    using stock_invD(5) [OF inv] by (simp add: db')
  ultimately show ?thesis using stock_invD(1,2) [OF inv] by (simp add: stock_inv_def db'(1))
qed

text \<open>Closing reservations.\<close>

lemma stock_inv_close [stock_intros]:
  assumes inv: "stock_inv t db"
    and f: "\<And>r. res_itemId (f r) = res_itemId r" "\<And>r. res_quantity (f r) = res_quantity r"
      "\<And>r. active_at t (f r) \<Longrightarrow> active_at t r"
    and db': "items db' = items db" "movements db' = movements db"
      "reservations db' = update_where P f (reservations db)"
  shows "stock_inv t db'"
proof -
  note ok = stock_invD(3) [OF inv]
  have "item_ok t (movements db') (reservations db') j" if "j \<in> set (items db)" for j
    using stock_invD(4) [OF inv that] reserved_update_le [OF ok f, of P "item_id j"]
    by (simp add: item_ok_def db')
  moreover have "res_itemId r \<in> item_id ` set (items db)"
    if "r \<in> set (update_where P f (reservations db))" for r
    using that stock_invD(6) [OF inv] f(1) by (auto simp: set_update_where split: if_splits)
  ultimately show ?thesis using inv reservations_ok_update [OF ok f(2), of P]
    by (simp add: stock_inv_def db')
qed

text \<open>Closing one active reservation frees exactly its quantity.\<close>

lemma reserved_close_one:
  assumes d: "distinct (map res_id rs)" and r: "r \<in> set rs" "active_at t r"
    and f: "\<And>x. res_itemId (f x) = res_itemId x" "\<And>x. \<not> active_at t (f x)"
  shows "reserved t (update_where (\<lambda>x. res_id x = res_id r) f rs) (res_itemId r) =
         reserved t rs (res_itemId r) - res_quantity r"
  using d r
proof (induction rs)
  case Nil
  then show ?case by simp
next
  case (Cons a rs)
  show ?case
  proof (cases "a = r")
    case True
    then have "update_where (\<lambda>x. res_id x = res_id r) f rs = rs"
      using Cons.prems(1) by (intro update_where_none) (auto simp: image_iff)
    with True Cons.prems f show ?thesis by simp
  next
    case False
    then have "r \<in> set rs" "res_id a \<noteq> res_id r" using Cons.prems by (auto simp: image_iff)
    with Cons f show ?thesis by simp
  qed
qed

lemma reserved_movements_irrelevant [stock_intros]:
  assumes inv: "stock_inv t db"
    and f: "\<And>m. mv_itemId (f m) = mv_itemId m" "\<And>m. mv_delta (f m) = mv_delta m"
      "\<And>m. mv_onHandAfter (f m) = mv_onHandAfter m"
    and db': "items db' = items db" "reservations db' = reservations db"
      "movements db' = update_where P f (movements db)"
  shows "stock_inv t db'"
proof -
  have "item_ok t (movements db') (reservations db') j" if "j \<in> set (items db)" for j
    using stock_invD(4) [OF inv that] f
    by (simp add: item_ok_def db' ledger_def item_movements_update balanced_update sum_by_update)
  with inv f show ?thesis by (auto simp: stock_inv_def db' set_update_where)
qed

end
