(* ===== verification/Money.thy ===== *)
theory Money
  imports Prelude "HOL-Library.Log_Nat" "HOL-Library.Signed_Division"
begin

text \<open>
  The integer money arithmetic of \<open>common/money/money.ts\<close> and
  \<open>cash/cash-calculations.ts\<close>.  A JavaScript number is an IEEE double: the result of \<open>+\<close>
  or \<open>*\<close> on integers is the exact integer rounded to 53 significant bits, ties to even
  (\<open>js_round\<close>); \<open>Number.isSafeInteger\<close> is \<open>safe\<close>.  The lemmas show that the safe-integer
  checks catch every rounding of a single operation, so the helpers are exact whenever the
  running totals stay safe.
\<close>

section \<open>Numbers\<close>

definition MAX_SAFE_INTEGER :: int where
  "MAX_SAFE_INTEGER = 9007199254740991"

definition safe :: "int \<Rightarrow> bool" where
  "safe x = (- MAX_SAFE_INTEGER \<le> x \<and> x \<le> MAX_SAFE_INTEGER)"

definition js_round_nat :: "nat \<Rightarrow> nat" where
  "js_round_nat n =
     (if n \<le> 2 ^ 53 then n
      else let u = 2 ^ (floorlog 2 n - 53); q = n div u; r = n mod u
           in (if u < 2 * r \<or> (2 * r = u \<and> odd q) then Suc q else q) * u)"

definition js_round :: "int \<Rightarrow> int" where
  "js_round x = (if x < 0 then - int (js_round_nat (nat (- x))) else int (js_round_nat (nat x)))"

definition js_add :: "int \<Rightarrow> int \<Rightarrow> int" where
  "js_add a b = js_round (a + b)"

definition js_mul :: "int \<Rightarrow> int \<Rightarrow> int" where
  "js_mul a b = js_round (a * b)"

lemma js_round_nat_exact [simp]: "n \<le> 2 ^ 53 \<Longrightarrow> js_round_nat n = n"
  by (simp add: js_round_nat_def)

lemma js_round_nat_large:
  assumes "2 ^ 53 < n"
  shows "2 ^ 53 \<le> js_round_nat n"
proof -
  let ?e = "floorlog 2 n - 53"
  have n0: "0 < n" using assms by simp
  from floorlog_bounds [OF n0, of 2] have b: "2 ^ (floorlog 2 n - 1) \<le> n" "n < 2 ^ floorlog 2 n"
    by simp_all
  have "(2::nat) ^ 53 < 2 ^ floorlog 2 n" using assms b(2) by simp
  then have f: "53 < floorlog 2 n" by (rule power_less_imp_less_exp [rotated]) simp
  then have "floorlog 2 n - 1 = 52 + ?e" by simp
  with b(1) have "2 ^ (52 + ?e) \<le> n" by metis
  then have "2 ^ 52 * 2 ^ ?e \<le> n" by (simp only: power_add)
  then have q: "2 ^ 52 \<le> n div 2 ^ ?e" by (metis div_le_mono nonzero_mult_div_cancel_right power_not_zero zero_neq_numeral)
  have "(2::nat) ^ 53 = 2 ^ 52 * 2 ^ 1" by simp
  also have "\<dots> \<le> 2 ^ 52 * 2 ^ ?e" using f by (intro mult_left_mono power_increasing) auto
  also have "\<dots> \<le> (n div 2 ^ ?e) * 2 ^ ?e" using q by (rule mult_right_mono) simp
  also have "\<dots> \<le> js_round_nat n" using assms by (simp add: js_round_nat_def Let_def)
  finally show ?thesis .
qed

lemma js_round_exact: "safe x \<Longrightarrow> js_round x = x"
  by (auto simp: js_round_def safe_def MAX_SAFE_INTEGER_def)

lemma js_round_code [code]:
  "js_round x = (if \<bar>x\<bar> \<le> 9007199254740992 then x
     else if x < 0 then - int (js_round_nat (nat (- x))) else int (js_round_nat (nat x)))"
  by (auto simp: js_round_def)

lemma js_round_unsafe:
  assumes "\<not> safe x"
  shows "\<not> safe (js_round x)"
proof (cases "nat \<bar>x\<bar> \<le> 2 ^ 53")
  case True
  then have "js_round x = x" by (auto simp: js_round_def abs_if split: if_splits)
  with assms show ?thesis by simp
next
  case False
  then have "2 ^ 53 \<le> js_round_nat (nat \<bar>x\<bar>)" by (intro js_round_nat_large) simp
  then have "(2::int) ^ 53 \<le> int (js_round_nat (nat \<bar>x\<bar>))" by (metis of_nat_le_iff of_nat_numeral of_nat_power)
  then show ?thesis by (auto simp: js_round_def safe_def MAX_SAFE_INTEGER_def abs_if split: if_splits)
qed

text \<open>The safety check on a rounded result is the safety check on the exact result.\<close>

lemma safe_js_round [simp]: "safe (js_round x) \<longleftrightarrow> safe x"
  using js_round_exact js_round_unsafe by auto

lemma js_add_exact [simp]: "safe (a + b) \<Longrightarrow> js_add a b = a + b"
  by (simp add: js_add_def js_round_exact)

lemma js_mul_exact [simp]: "safe (a * b) \<Longrightarrow> js_mul a b = a * b"
  by (simp add: js_mul_def js_round_exact)

lemma safe_js_add [simp]: "safe (js_add a b) \<longleftrightarrow> safe (a + b)"
  by (simp add: js_add_def)

lemma safe_js_mul [simp]: "safe (js_mul a b) \<longleftrightarrow> safe (a * b)"
  by (simp add: js_mul_def)

lemma safe_0 [simp]: "safe 0" by (simp add: safe_def MAX_SAFE_INTEGER_def)

lemma safe_uminus [simp]: "safe (- x) \<longleftrightarrow> safe x" by (auto simp: safe_def)

lemma safe_between: "safe a \<Longrightarrow> safe b \<Longrightarrow> a \<le> x \<Longrightarrow> x \<le> b \<Longrightarrow> safe x"
  by (simp add: safe_def)

text \<open>Once a running total has left the safe range upwards, it never comes back by adding
  non-negative amounts.\<close>

lemma js_add_large: "2 ^ 53 \<le> a + b \<Longrightarrow> 2 ^ 53 \<le> js_add a b"
proof (cases "a + b = 2 ^ 53")
  case True
  then show ?thesis by (simp add: js_add_def js_round_def)
next
  case False
  assume "2 ^ 53 \<le> a + b"
  with False have "2 ^ 53 < nat (a + b)" by simp
  then have "2 ^ 53 \<le> js_round_nat (nat (a + b))" by (rule js_round_nat_large)
  then have "(2::int) ^ 53 \<le> int (js_round_nat (nat (a + b)))"
    by (metis of_nat_le_iff of_nat_numeral of_nat_power)
  with \<open>2 ^ 53 \<le> a + b\<close> show ?thesis by (simp add: js_add_def js_round_def)
qed

lemma foldl_js_add_large:
  "list_all (\<lambda>v. 0 \<le> v) vs \<Longrightarrow> 2 ^ 53 \<le> a \<Longrightarrow> 2 ^ 53 \<le> foldl js_add a vs"
proof (induction vs arbitrary: a)
  case Nil
  then show ?case by simp
next
  case (Cons v vs)
  then have "2 ^ 53 \<le> js_add a v" by (intro js_add_large) simp
  with Cons show ?case by simp
qed

lemma foldl_js_add_nonneg:
  assumes "list_all (\<lambda>v. 0 \<le> v) vs" and "0 \<le> a" and "safe a"
  shows "if safe (a + sum_list vs) then foldl js_add a vs = a + sum_list vs
         else 2 ^ 53 \<le> foldl js_add a vs"
  using assms
proof (induction vs arbitrary: a)
  case Nil
  then show ?case by simp
next
  case (Cons v vs)
  show ?case
  proof (cases "safe (a + v)")
    case True
    with Cons.prems Cons.IH [of "a + v"] show ?thesis by (simp add: add.assoc split: if_splits)
  next
    case False
    with Cons.prems have large: "2 ^ 53 \<le> a + v" by (simp add: safe_def MAX_SAFE_INTEGER_def)
    have "0 \<le> sum_list vs" using Cons.prems(1) by (induction vs) auto
    with large have "\<not> safe (a + sum_list (v # vs))" by (simp add: safe_def MAX_SAFE_INTEGER_def)
    moreover have "2 ^ 53 \<le> foldl js_add a (v # vs)"
      using foldl_js_add_large [OF _ js_add_large [OF large]] Cons.prems(1) by simp
    ultimately show ?thesis by simp
  qed
qed

lemma not_safe_large: "2 ^ 53 \<le> x \<Longrightarrow> \<not> safe x"
  by (simp add: safe_def MAX_SAFE_INTEGER_def)

section \<open>money.ts\<close>

definition assertMillimes :: "int \<Rightarrow> unit result" where
  "assertMillimes value =
     require (safe value) (RangeError ''Money must be a safe integer in millimes'') (Inr ())"

definition addMillimes :: "int list \<Rightarrow> int result" where
  "addMillimes values =
     bindE (mapE assertMillimes values) (\<lambda>_.
     let total = foldl js_add 0 values
     in bindE (assertMillimes total) (\<lambda>_. Inr total))"

definition multiplyMillimes :: "int \<Rightarrow> int \<Rightarrow> int result" where
  "multiplyMillimes unitPrice quantity =
     bindE (assertMillimes unitPrice) (\<lambda>_.
     require (safe quantity \<and> 0 \<le> quantity) (RangeError ''Invalid quantity'') (
     let total = js_mul unitPrice quantity
     in bindE (assertMillimes total) (\<lambda>_. Inr total)))"

text \<open>\<open>BigInt\<close> division truncates towards zero and the remainder takes the sign of the
  dividend: \<open>sdiv\<close> and \<open>smod\<close>.\<close>

definition calculateBasisPoints :: "int \<Rightarrow> int \<Rightarrow> int result" where
  "calculateBasisPoints amount basisPoints =
     bindE (assertMillimes amount) (\<lambda>_.
     require (0 \<le> basisPoints \<and> basisPoints \<le> 100000) (RangeError ''Invalid basis points'') (
     let numerator = amount * basisPoints;
         quotient = numerator sdiv 10000;
         remainder = numerator smod 10000;
         rounded = (if remainder > 5000 then quotient + 1
                    else if remainder < - 5000 then quotient - 1
                    else if remainder = 5000 then quotient + 1
                    else quotient);
         result = js_round rounded
     in bindE (assertMillimes result) (\<lambda>_. Inr result)))"

lemma assertMillimes_Inr [simp]: "assertMillimes v = Inr u \<longleftrightarrow> safe v"
  by (simp add: assertMillimes_def)

lemma assertMillimes_safe: "safe v \<Longrightarrow> assertMillimes v = Inr ()"
  by simp

lemma mapE_assertMillimes:
  "mapE assertMillimes vs =
     (if list_all safe vs then Inr (replicate (length vs) ())
      else Inl (RangeError ''Money must be a safe integer in millimes''))"
  by (induction vs) (auto simp: assertMillimes_def require_def)

text \<open>A successful sum is safe, and exact for one or two amounts of any sign.\<close>

lemma addMillimes_Inr:
  "addMillimes vs = Inr t \<longleftrightarrow>
     list_all safe vs \<and> safe (foldl js_add 0 vs) \<and> t = foldl js_add 0 vs"
  by (auto simp: addMillimes_def mapE_assertMillimes Let_def)

lemma addMillimes_2:
  "addMillimes [a, b] = Inr t \<longleftrightarrow> safe a \<and> safe b \<and> safe (a + b) \<and> t = a + b"
  by (auto simp: addMillimes_Inr js_add_exact)

lemma addMillimes_safe: "addMillimes vs = Inr t \<Longrightarrow> safe t"
  by (auto simp: addMillimes_Inr)

lemma addMillimes_nonneg_sum:
  assumes "list_all (\<lambda>v. 0 \<le> v) vs"
  shows "addMillimes vs =
     (if list_all safe vs \<and> safe (sum_list vs) then Inr (sum_list vs)
      else Inl (RangeError ''Money must be a safe integer in millimes''))"
  using foldl_js_add_nonneg [OF assms, of 0]
  by (auto simp: addMillimes_def mapE_assertMillimes Let_def assertMillimes_def safe_def
      MAX_SAFE_INTEGER_def require_def split: if_splits)

lemma addMillimes_nonneg_Inr:
  assumes "addMillimes vs = Inr t" and "list_all (\<lambda>v. 0 \<le> v) vs"
  shows "t = sum_list vs" and "0 \<le> t"
proof -
  show "t = sum_list vs"
    using assms by (simp add: addMillimes_nonneg_sum split: if_splits)
  moreover have "0 \<le> sum_list vs" using assms(2) by (induction vs) auto
  ultimately show "0 \<le> t" by simp
qed

lemma multiplyMillimes_Inr [simp]:
  "multiplyMillimes p q = Inr t \<longleftrightarrow> safe p \<and> safe q \<and> 0 \<le> q \<and> safe (p * q) \<and> t = p * q"
  by (auto simp: multiplyMillimes_def Let_def)

text \<open>Truncating quotient and remainder rounded as the code does is rounding to the nearest
  integer, halves upwards.\<close>

lemma basis_points_rounding:
  fixes n :: int
  shows "(if n smod 10000 > 5000 then n sdiv 10000 + 1
          else if n smod 10000 < - 5000 then n sdiv 10000 - 1
          else if n smod 10000 = 5000 then n sdiv 10000 + 1
          else n sdiv 10000) = (n + 5000) div 10000"
proof (cases "0 \<le> n")
  case True
  define q r where "q = n div 10000" and "r = n mod 10000"
  have n: "n = 10000 * q + r" "0 \<le> r" "r < 10000" by (simp_all add: q_def r_def)
  have "(n + 5000) div 10000 = (if 5000 \<le> r then q + 1 else q)"
    using n by (auto intro: int_div_pos_eq [where r = "if 5000 \<le> r then r - 5000 else r + 5000"])
  moreover from True have "n sdiv 10000 = q" "n smod 10000 = r"
    by (simp_all add: signed_divide_int_def signed_modulo_int_def sgn_if q_def r_def)
  ultimately show ?thesis using n by auto
next
  case False
  define q r where "q = (- n) div 10000" and "r = (- n) mod 10000"
  have n: "- n = 10000 * q + r" "0 \<le> r" "r < 10000" by (simp_all add: q_def r_def)
  have "(n + 5000) div 10000 = (if 5000 < r then - q - 1 else - q)"
    using n by (auto intro: int_div_pos_eq [where r = "if 5000 < r then 15000 - r else 5000 - r"])
  moreover from False have "n sdiv 10000 = - q" "n smod 10000 = - r"
    by (simp_all add: signed_divide_int_def signed_modulo_int_def sgn_if q_def r_def)
  ultimately show ?thesis using n by auto
qed

lemma calculateBasisPoints_eq:
  "calculateBasisPoints a b =
     (if \<not> safe a then Inl (RangeError ''Money must be a safe integer in millimes'')
      else if b < 0 \<or> 100000 < b then Inl (RangeError ''Invalid basis points'')
      else if safe ((a * b + 5000) div 10000) then Inr ((a * b + 5000) div 10000)
      else Inl (RangeError ''Money must be a safe integer in millimes''))"
  unfolding calculateBasisPoints_def Let_def basis_points_rounding
  by (auto simp: assertMillimes_def js_round_exact)

section \<open>cash-calculations.ts\<close>

definition MAX_MILLIMES :: int where
  "MAX_MILLIMES = 2000000000"

definition cash_assertMillimes :: "int \<Rightarrow> int result" where
  "cash_assertMillimes value =
     require (safe value \<and> 0 \<le> value \<and> value \<le> MAX_MILLIMES) (RangeError ''INVALID_MILLIMES'')
       (Inr value)"

definition sumMillimes :: "int list \<Rightarrow> int result" where
  "sumMillimes values =
     bindE (foldE (\<lambda>value sum. bindE (cash_assertMillimes value) (\<lambda>v. Inr (js_add sum v))) values 0)
       cash_assertMillimes"

definition cashDifference :: "int \<Rightarrow> int \<Rightarrow> int result" where
  "cashDifference expectedMillimes actualMillimes =
     bindE (cash_assertMillimes actualMillimes) (\<lambda>a.
     bindE (cash_assertMillimes expectedMillimes) (\<lambda>e. Inr (a - e)))"

definition millimes_ok :: "int \<Rightarrow> bool" where
  "millimes_ok v = (0 \<le> v \<and> v \<le> MAX_MILLIMES)"

lemma cash_assertMillimes_eq:
  "cash_assertMillimes v = (if millimes_ok v then Inr v else Inl (RangeError ''INVALID_MILLIMES''))"
  by (auto simp: cash_assertMillimes_def millimes_ok_def safe_def MAX_SAFE_INTEGER_def
      MAX_MILLIMES_def require_def)

lemma cashDifference_Inr [simp]:
  "cashDifference e a = Inr d \<longleftrightarrow> millimes_ok e \<and> millimes_ok a \<and> d = a - e"
  by (auto simp: cashDifference_def cash_assertMillimes_eq)

lemma cashDifference_ok: "millimes_ok e \<Longrightarrow> millimes_ok a \<Longrightarrow> cashDifference e a = Inr (a - e)"
  by simp

lemma sumMillimes_fold:
  "foldE (\<lambda>value sum. bindE (cash_assertMillimes value) (\<lambda>v. Inr (js_add sum v))) vs a =
     (if list_all millimes_ok vs then Inr (foldl js_add a vs)
      else Inl (RangeError ''INVALID_MILLIMES''))"
  by (induction vs arbitrary: a) (auto simp: cash_assertMillimes_eq)

lemma sumMillimes_eq:
  "sumMillimes vs =
     (if list_all millimes_ok vs \<and> sum_list vs \<le> MAX_MILLIMES then Inr (sum_list vs)
      else Inl (RangeError ''INVALID_MILLIMES''))"
proof (cases "list_all millimes_ok vs")
  case False
  then show ?thesis by (simp add: sumMillimes_def sumMillimes_fold)
next
  case True
  then have nn: "list_all (\<lambda>v. 0 \<le> v) vs" by (auto simp: list_all_iff millimes_ok_def)
  have pos: "0 \<le> sum_list vs" using nn by (induction vs) auto
  have "safe (sum_list vs) \<Longrightarrow> foldl js_add 0 vs = sum_list vs"
    and "\<not> safe (sum_list vs) \<Longrightarrow> 2 ^ 53 \<le> foldl js_add 0 vs"
    using foldl_js_add_nonneg [OF nn, of 0] by auto
  moreover have "sumMillimes vs = cash_assertMillimes (foldl js_add 0 vs)"
    using True by (simp add: sumMillimes_def sumMillimes_fold)
  ultimately show ?thesis using True pos
    by (cases "safe (sum_list vs)")
      (auto simp: cash_assertMillimes_eq millimes_ok_def safe_def MAX_SAFE_INTEGER_def MAX_MILLIMES_def)
qed

lemma sumMillimes_Inr:
  "sumMillimes vs = Inr t \<longleftrightarrow>
     list_all millimes_ok vs \<and> sum_list vs \<le> MAX_MILLIMES \<and> t = sum_list vs"
  by (auto simp: sumMillimes_eq)

lemma foldl_js_add_prefixes:
  assumes "\<forall>k\<le>length vs. safe (a + sum_list (take k vs))"
  shows "foldl js_add a vs = a + sum_list vs"
  using assms
proof (induction vs arbitrary: a)
  case (Cons v vs)
  have s: "safe (a + v)" using Cons.prems [rule_format, of 1] by simp
  have "\<forall>k\<le>length vs. safe (a + v + sum_list (take k vs))"
    using Cons.prems [rule_format, of "Suc _"] by (simp add: add.assoc)
  from Cons.IH [OF this] s show ?case by simp
qed simp

section \<open>Properties\<close>

text \<open>Property C33 (addMillimes_exact): for any number of amounts that are either all
  non-negative, or of any sign with running sums inside the safe range, \<open>addMillimes\<close> gives the mathematical
  sum when every amount and the sum are safe integers, and throws otherwise.  So the check on the
  total alone catches every rounding of a sum of amounts without sign; with signs it does not, and the bound on
  the running sums is needed.\<close>

theorem addMillimes_exact:
  assumes "list_all (\<lambda>v. 0 \<le> v) values \<or> (\<forall>k\<le>length values. safe (sum_list (take k values)))"
  shows "addMillimes values =
     (if list_all safe values \<and> safe (sum_list values) then Inr (sum_list values)
      else Inl (RangeError ''Money must be a safe integer in millimes''))"
  using assms
proof
  assume "list_all (\<lambda>v. 0 \<le> v) values"
  then show ?thesis by (rule addMillimes_nonneg_sum)
next
  assume p: "\<forall>k\<le>length values. safe (sum_list (take k values))"
  then have "foldl js_add 0 values = sum_list values" using foldl_js_add_prefixes [of "values" 0] by simp
  then show ?thesis
    by (cases "list_all safe values") (simp_all add: addMillimes_def mapE_assertMillimes Let_def assertMillimes_def require_def)
qed

theorem addMillimes_exact_witness:
  "addMillimes [37500, 7000, - 2500] = Inr 42000
   \<and> addMillimes [MAX_SAFE_INTEGER, 2, - 5] \<noteq> Inr (sum_list [MAX_SAFE_INTEGER, 2, - 5])"
proof
  have "\<forall>k\<le>length [37500, 7000, - 2500 :: int]. safe (sum_list (take k [37500, 7000, - 2500]))"
    by (auto simp: le_Suc_eq numeral_eq_Suc safe_def MAX_SAFE_INTEGER_def)
  then have "list_all (\<lambda>v. 0 \<le> v) [37500, 7000, - 2500 :: int]
      \<or> (\<forall>k\<le>length [37500, 7000, - 2500 :: int]. safe (sum_list (take k [37500, 7000, - 2500])))" by blast
  from addMillimes_exact [OF this] show "addMillimes [37500, 7000, - 2500] = Inr 42000"
    by (simp add: safe_def MAX_SAFE_INTEGER_def)
  show "addMillimes [MAX_SAFE_INTEGER, 2, - 5] \<noteq> Inr (sum_list [MAX_SAFE_INTEGER, 2, - 5])"
    by (simp add: addMillimes_Inr MAX_SAFE_INTEGER_def safe_def js_add_def js_round_def
      js_round_nat_def Let_def compute_floorlog)
qed

text \<open>\<open>calculateBasisPoints\<close> computes the amount
  times the basis points over 10000 rounded to the nearest millime with halves upwards, through
  an exact product, and throws exactly on an unsafe amount, basis points outside 0..100000, or
  an unsafe result.\<close>

theorem calculateBasisPoints_half_up:
  "calculateBasisPoints amount basisPoints =
     (if safe amount \<and> 0 \<le> basisPoints \<and> basisPoints \<le> 100000
         \<and> safe ((amount * basisPoints + 5000) div 10000)
      then Inr ((amount * basisPoints + 5000) div 10000)
      else if safe amount \<and> (basisPoints < 0 \<or> 100000 < basisPoints)
      then Inl (RangeError ''Invalid basis points'')
      else Inl (RangeError ''Money must be a safe integer in millimes''))"
  by (simp add: calculateBasisPoints_eq)

text \<open>\<open>sumMillimes\<close> returns the exact sum if and only if every
  amount lies in 0..2,000,000,000 and so does the sum, and throws \<open>RangeError\<close> in every other
  case.\<close>

theorem sumMillimes_total:
  "sumMillimes values =
     (if list_all millimes_ok values \<and> sum_list values \<le> MAX_MILLIMES then Inr (sum_list values)
      else Inl (RangeError ''INVALID_MILLIMES''))"
  by (rule sumMillimes_eq)

end
