(* ===== verification/Pricing.thy ===== *)
theory Pricing
  imports Money "HOL-Library.Multiset"
begin

text \<open>
  \<open>checkout/checkout-pricing.ts\<close>: the price of one order line and the choice of the delivery
  rates.  A rate applies when its geographic scope contains the destination
  (\<open>geographicRank\<close>), its bounds admit the order and, for the base rate, its type agrees with
  its scope; among the applicable rates the one of highest rank, then highest priority, is taken,
  and a tie is an error rather than a guess.
\<close>

section \<open>Order lines\<close>

record quote_line_input =
  listUnitPriceMillimes :: int
  promotionalUnitPriceMillimes :: "int option"
  line_quantity :: int
  taxRateBps :: int

record quote_line =
  listSubtotalMillimes :: int
  discountMillimes :: int
  taxableSubtotalMillimes :: int
  taxMillimes :: int
  totalMillimes :: int
  effectiveUnitPriceMillimes :: int

definition calculateQuoteLine :: "quote_line_input \<Rightarrow> quote_line result" where
  "calculateQuoteLine i =
     require (\<not> (listUnitPriceMillimes i < 0 \<or>
                 (case promotionalUnitPriceMillimes i of
                    None \<Rightarrow> False
                  | Some p \<Rightarrow> p < 0 \<or> p > listUnitPriceMillimes i)))
       (RangeError ''Invalid catalog price'') (
     let effective = (case promotionalUnitPriceMillimes i of
                        None \<Rightarrow> listUnitPriceMillimes i | Some p \<Rightarrow> p)
     in bindE (multiplyMillimes (listUnitPriceMillimes i) (line_quantity i)) (\<lambda>listSubtotal.
        bindE (multiplyMillimes effective (line_quantity i)) (\<lambda>effectiveSubtotal.
        bindE (addMillimes [listSubtotal, - effectiveSubtotal]) (\<lambda>discount.
        bindE (calculateBasisPoints effectiveSubtotal (taxRateBps i)) (\<lambda>tax.
        bindE (addMillimes [effectiveSubtotal, tax]) (\<lambda>total.
        Inr \<lparr> listSubtotalMillimes = listSubtotal,
              discountMillimes = discount,
              taxableSubtotalMillimes = effectiveSubtotal,
              taxMillimes = tax,
              totalMillimes = total,
              effectiveUnitPriceMillimes = effective \<rparr>))))))"

text \<open>The unit price charged, and the shape of every line the code accepts.\<close>

definition effective_price :: "quote_line_input \<Rightarrow> int" where
  "effective_price i = (case promotionalUnitPriceMillimes i of
                          None \<Rightarrow> listUnitPriceMillimes i | Some p \<Rightarrow> p)"

lemma calculateQuoteLine_Inr:
  assumes "calculateQuoteLine i = Inr l"
  shows "listSubtotalMillimes l = listUnitPriceMillimes i * line_quantity i"
    and "taxableSubtotalMillimes l = effective_price i * line_quantity i"
    and "discountMillimes l = listSubtotalMillimes l - taxableSubtotalMillimes l"
    and "taxMillimes l = (taxableSubtotalMillimes l * taxRateBps i + 5000) div 10000"
    and "totalMillimes l = taxableSubtotalMillimes l + taxMillimes l"
    and "effectiveUnitPriceMillimes l = effective_price i"
    and "0 \<le> effective_price i" and "effective_price i \<le> listUnitPriceMillimes i"
    and "0 \<le> line_quantity i" and "0 \<le> taxRateBps i" and "taxRateBps i \<le> 100000"
  using assms
  by (auto simp: calculateQuoteLine_def Let_def effective_price_def addMillimes_2
      calculateBasisPoints_eq split: option.splits if_splits)

lemma quote_line_nonneg:
  assumes "calculateQuoteLine i = Inr l"
  shows "0 \<le> listSubtotalMillimes l" and "0 \<le> taxableSubtotalMillimes l"
    and "0 \<le> discountMillimes l" and "0 \<le> taxMillimes l" and "0 \<le> totalMillimes l"
proof -
  note f = calculateQuoteLine_Inr [OF assms]
  show t: "0 \<le> taxableSubtotalMillimes l" using f by simp
  show "0 \<le> listSubtotalMillimes l" using f by simp
  have "effective_price i * line_quantity i \<le> listUnitPriceMillimes i * line_quantity i"
    using f by (intro mult_right_mono) auto
  then show "0 \<le> discountMillimes l" using f by simp
  have "0 \<le> taxableSubtotalMillimes l * taxRateBps i" using t f by simp
  then show x: "0 \<le> taxMillimes l" using f(4) by (simp add: pos_imp_zdiv_nonneg_iff)
  show "0 \<le> totalMillimes l" using t x f(5) by simp
qed

section \<open>Delivery rates\<close>

datatype quote_rate_type =
    BASE | GOVERNORATE | DELEGATION | LOCALITY
  | REMOTE_SURCHARGE | WEIGHT_SURCHARGE | OVERSIZE_SURCHARGE | EXPRESS_SURCHARGE

record quote_rate =
  rate_id :: string
  rate_type :: quote_rate_type
  rate_priority :: int
  rate_feeMillimes :: int
  rate_deliveryZoneId :: "string option"
  rate_governorateId :: "string option"
  rate_delegationId :: "string option"
  rate_localityId :: "string option"
  rate_minWeightGrams :: "int option"
  rate_maxWeightGrams :: "int option"
  rate_minOrderMillimes :: "int option"
  rate_maxOrderMillimes :: "int option"
  rate_maxCodMillimes :: "int option"
  rate_express :: bool

record rate_context =
  ctx_deliveryZoneId :: string
  ctx_governorateId :: string
  ctx_delegationId :: string
  ctx_localityId :: string
  ctx_orderMillimes :: int
  ctx_weightGrams :: int
  ctx_express :: bool

definition at_least :: "int option \<Rightarrow> int \<Rightarrow> bool" where
  "at_least b v = (case b of None \<Rightarrow> True | Some m \<Rightarrow> m \<le> v)"

definition at_most :: "int option \<Rightarrow> int \<Rightarrow> bool" where
  "at_most b v = (case b of None \<Rightarrow> True | Some m \<Rightarrow> v \<le> m)"

definition withinBounds :: "'a quote_rate_scheme \<Rightarrow> rate_context \<Rightarrow> bool" where
  "withinBounds rate c =
     (at_least (rate_minOrderMillimes rate) (ctx_orderMillimes c) \<and>
      at_most (rate_maxOrderMillimes rate) (ctx_orderMillimes c) \<and>
      at_most (rate_maxCodMillimes rate) (ctx_orderMillimes c) \<and>
      at_least (rate_minWeightGrams rate) (ctx_weightGrams c) \<and>
      at_most (rate_maxWeightGrams rate) (ctx_weightGrams c))"

definition geographicRank :: "'a quote_rate_scheme \<Rightarrow> rate_context \<Rightarrow> int" where
  "geographicRank rate c =
     (if rate_localityId rate = Some (ctx_localityId c) then 5
      else if rate_delegationId rate = Some (ctx_delegationId c) \<and> rate_localityId rate = None then 4
      else if rate_governorateId rate = Some (ctx_governorateId c) \<and> rate_delegationId rate = None
              \<and> rate_localityId rate = None then 3
      else if rate_deliveryZoneId rate = Some (ctx_deliveryZoneId c) \<and> rate_governorateId rate = None
              \<and> rate_delegationId rate = None \<and> rate_localityId rate = None then 2
      else if rate_deliveryZoneId rate = None \<and> rate_governorateId rate = None
              \<and> rate_delegationId rate = None \<and> rate_localityId rate = None then 1
      else - 1)"

definition baseTypeMatchesRank :: "'a quote_rate_scheme \<Rightarrow> int \<Rightarrow> bool" where
  "baseTypeMatchesRank rate rank =
     ((rank = 5 \<and> rate_type rate = LOCALITY) \<or>
      (rank = 4 \<and> rate_type rate = DELEGATION) \<or>
      (rank = 3 \<and> rate_type rate = GOVERNORATE) \<or>
      ((rank = 2 \<or> rank = 1) \<and> rate_type rate = BASE))"

text \<open>
  The comparator of \<open>chooseUnique\<close>: rank descending, priority descending, id ascending, as a
  sort key (the array sort is stable, and so is \<open>sort_key\<close>).
\<close>

definition rate_order :: "'a quote_rate_scheme \<times> int \<Rightarrow> int \<times> int \<times> nat list \<times> nat list" where
  "rate_order p = (- snd p, - rate_priority (fst p), locale_key (rate_id (fst p)))"

definition chooseUnique ::
  "('a quote_rate_scheme \<times> int) list \<Rightarrow> bool \<Rightarrow> 'a quote_rate_scheme option result" where
  "chooseUnique ranked required =
     (case sort_key rate_order ranked of
        [] \<Rightarrow> if required then Inl (RateResolutionError ''DELIVERY_RATE_MISSING'') else Inr None
      | [first] \<Rightarrow> Inr (Some (fst first))
      | first # second # _ \<Rightarrow>
          if snd second = snd first \<and> rate_priority (fst second) = rate_priority (fst first)
          then Inl (RateResolutionError ''DELIVERY_RATE_AMBIGUOUS'')
          else Inr (Some (fst first)))"

definition base_candidates ::
  "'a quote_rate_scheme list \<Rightarrow> rate_context \<Rightarrow> ('a quote_rate_scheme \<times> int) list" where
  "base_candidates rates c =
     concat (map (\<lambda>rate. let rank = geographicRank rate c
                         in if rank > 0 \<and> baseTypeMatchesRank rate rank \<and> withinBounds rate c
                            then [(rate, rank)] else []) rates)"

definition selectBaseRate ::
  "'a quote_rate_scheme list \<Rightarrow> rate_context \<Rightarrow> 'a quote_rate_scheme result" where
  "selectBaseRate rates c =
     bindE (chooseUnique (base_candidates rates c) True) (\<lambda>selected.
     some_or selected (RateResolutionError ''DELIVERY_RATE_MISSING''))"

definition surcharge_candidates ::
  "'a quote_rate_scheme list \<Rightarrow> rate_context \<Rightarrow> quote_rate_type \<Rightarrow> ('a quote_rate_scheme \<times> int) list" where
  "surcharge_candidates rates c type =
     concat (map (\<lambda>rate. let rank = geographicRank rate c;
                             expressAllowed = (type \<noteq> EXPRESS_SURCHARGE \<or> ctx_express c)
                         in if rate_type rate = type \<and> rank > 0 \<and> expressAllowed \<and> withinBounds rate c
                            then [(rate, rank)] else []) rates)"

definition selectSurchargeRate ::
  "'a quote_rate_scheme list \<Rightarrow> rate_context \<Rightarrow> quote_rate_type \<Rightarrow> 'a quote_rate_scheme option result" where
  "selectSurchargeRate rates c type = chooseUnique (surcharge_candidates rates c type) False"

section \<open>The choice is the unique best rate\<close>

text \<open>\<open>below q p\<close>: the candidate \<open>q\<close> loses to \<open>p\<close> on rank or, at equal rank, on priority.\<close>

definition below :: "'a quote_rate_scheme \<times> int \<Rightarrow> 'a quote_rate_scheme \<times> int \<Rightarrow> bool" where
  "below q p = ((snd q, rate_priority (fst q)) < (snd p, rate_priority (fst p)))"

definition unique_best :: "'a quote_rate_scheme \<Rightarrow> ('a quote_rate_scheme \<times> int) multiset \<Rightarrow> bool" where
  "unique_best r C = (\<exists>k M. C = add_mset (r, k) M \<and> (\<forall>q\<in>#M. below q (r, k)))"

lemma rate_order_below: "below q p \<Longrightarrow> rate_order p < rate_order q"
  by (auto simp: below_def rate_order_def less_prod_def)

lemma rate_order_not_below:
  "rate_order p \<le> rate_order q \<Longrightarrow>
   \<not> (snd q = snd p \<and> rate_priority (fst q) = rate_priority (fst p)) \<Longrightarrow> below q p"
  by (auto simp: below_def rate_order_def less_prod_def less_eq_prod_def)

lemma below_trans_order: "below q p \<Longrightarrow> rate_order q \<le> rate_order s \<Longrightarrow> below s p"
  by (auto simp: below_def rate_order_def less_prod_def less_eq_prod_def)

lemma chooseUnique_best:
  "chooseUnique ranked req = Inr (Some r) \<longleftrightarrow> unique_best r (mset ranked)"
proof
  let ?s = "sort_key rate_order ranked"
  have m: "mset ?s = mset ranked" by simp
  have srt: "sorted (map rate_order ?s)" by simp
  {
    assume c: "chooseUnique ranked req = Inr (Some r)"
    show "unique_best r (mset ranked)"
    proof (cases ?s)
      case Nil
      with c show ?thesis by (simp add: chooseUnique_def split: if_splits)
    next
      case (Cons p rest)
      have "\<forall>q\<in>set rest. below q p"
      proof (cases rest)
        case Nil
        then show ?thesis by simp
      next
        case (Cons p2 rest2)
        with \<open>?s = p # rest\<close> c have "\<not> (snd p2 = snd p \<and> rate_priority (fst p2) = rate_priority (fst p))"
          by (auto simp: chooseUnique_def split: if_splits)
        with srt \<open>?s = p # rest\<close> Cons have "below p2 p"
          by (auto intro: rate_order_not_below)
        with srt \<open>?s = p # rest\<close> Cons show ?thesis
          by (auto intro: below_trans_order)
      qed
      moreover have "p = (r, snd p)"
        using c Cons by (cases rest) (auto simp: chooseUnique_def split: if_splits)
      moreover have "mset ranked = add_mset p (mset rest)" using m Cons by simp
      ultimately show ?thesis by (auto simp: unique_best_def intro!: exI [of _ "snd p"])
    qed
  }
  {
    assume "unique_best r (mset ranked)"
    then obtain k M where M: "mset ranked = add_mset (r, k) M" and b: "\<forall>q\<in>#M. below q (r, k)"
      by (auto simp: unique_best_def)
    from m M obtain p rest where s: "?s = p # rest" by (cases ?s) auto
    have "(r, k) \<in> set ?s" using m M by (metis set_mset_add_mset_insert insertI1 set_mset_mset)
    then have le: "rate_order p \<le> rate_order (r, k)" using srt s by auto
    have "p = (r, k)"
    proof (rule ccontr)
      assume "p \<noteq> (r, k)"
      moreover have "p \<in># add_mset (r, k) M" using m M s by (metis list.set_intros(1) set_mset_mset)
      ultimately have "below p (r, k)" using b by auto
      with le show False using rate_order_below by fastforce
    qed
    moreover have "mset rest = M" using m M s \<open>p = (r, k)\<close> by simp
    then have "\<forall>q\<in>set rest. below q (r, k)" using b by auto
    ultimately show "chooseUnique ranked req = Inr (Some r)"
      using s by (cases rest) (auto simp: chooseUnique_def below_def)
  }
qed

lemma chooseUnique_cases:
  "chooseUnique ranked req =
     (if ranked = [] then (if req then Inl (RateResolutionError ''DELIVERY_RATE_MISSING'') else Inr None)
      else case chooseUnique ranked req of
             Inr (Some r) \<Rightarrow> Inr (Some r)
           | _ \<Rightarrow> Inl (RateResolutionError ''DELIVERY_RATE_AMBIGUOUS''))"
proof (cases "sort_key rate_order ranked")
  case Nil
  then have "ranked = []" by (metis mset_sort mset_zero_iff)
  then show ?thesis by (simp add: chooseUnique_def)
next
  case (Cons p rest)
  then have "ranked \<noteq> []" by auto
  with Cons show ?thesis by (cases rest) (auto simp: chooseUnique_def)
qed

lemma chooseUnique_result:
  "chooseUnique ranked req =
     (if ranked = [] then (if req then Inl (RateResolutionError ''DELIVERY_RATE_MISSING'') else Inr None)
      else if \<exists>r. unique_best r (mset ranked)
      then Inr (Some (THE r. unique_best r (mset ranked)))
      else Inl (RateResolutionError ''DELIVERY_RATE_AMBIGUOUS''))"
proof (cases "\<exists>r. unique_best r (mset ranked)")
  case True
  then obtain r where r: "unique_best r (mset ranked)" ..
  then have c: "chooseUnique ranked req = Inr (Some r)" by (simp add: chooseUnique_best)
  have "ranked \<noteq> []" using r by (auto simp: unique_best_def)
  moreover have "(THE r. unique_best r (mset ranked)) = r"
    using r by (rule the_equality) (use c in \<open>simp flip: chooseUnique_best [of _ req]\<close>)
  ultimately show ?thesis using c r by auto
next
  case False
  then have "\<And>r. chooseUnique ranked req \<noteq> Inr (Some r)" by (simp add: chooseUnique_best)
  with False show ?thesis
    by (subst chooseUnique_cases) (auto split: sum.splits option.splits)
qed

text \<open>The applicable base rates of a context, and their candidates.\<close>

definition base_applicable :: "rate_context \<Rightarrow> 'a quote_rate_scheme \<Rightarrow> bool" where
  "base_applicable c rate =
     (geographicRank rate c > 0 \<and> baseTypeMatchesRank rate (geographicRank rate c) \<and> withinBounds rate c)"

lemma base_candidates_eq:
  "base_candidates rates c =
     map (\<lambda>rate. (rate, geographicRank rate c)) (filter (base_applicable c) rates)"
  by (induction rates) (auto simp: base_candidates_def base_applicable_def Let_def)

definition surcharge_applicable :: "rate_context \<Rightarrow> quote_rate_type \<Rightarrow> 'a quote_rate_scheme \<Rightarrow> bool" where
  "surcharge_applicable c type rate =
     (rate_type rate = type \<and> geographicRank rate c > 0
      \<and> (type \<noteq> EXPRESS_SURCHARGE \<or> ctx_express c) \<and> withinBounds rate c)"

lemma surcharge_candidates_eq:
  "surcharge_candidates rates c type =
     map (\<lambda>rate. (rate, geographicRank rate c)) (filter (surcharge_applicable c type) rates)"
  by (induction rates) (auto simp: surcharge_candidates_def surcharge_applicable_def Let_def)

lemma selectBaseRate_Inr:
  "selectBaseRate rates c = Inr r \<longleftrightarrow> unique_best r (mset (base_candidates rates c))"
  by (auto simp: selectBaseRate_def chooseUnique_best)

lemma unique_best_mem:
  assumes "unique_best r (image_mset (\<lambda>rate. (rate, f rate)) M)"
  shows "r \<in># M"
proof -
  from assms obtain k N where "image_mset (\<lambda>rate. (rate, f rate)) M = add_mset (r, k) N"
    by (auto simp: unique_best_def)
  then have "(r, k) \<in># image_mset (\<lambda>rate. (rate, f rate)) M" by simp
  then show ?thesis by auto
qed

lemma selectBaseRate_applicable:
  "selectBaseRate rates c = Inr r \<Longrightarrow> r \<in> set rates \<and> base_applicable c r"
  by (auto simp: selectBaseRate_Inr base_candidates_eq dest!: unique_best_mem)

lemma selectSurchargeRate_applicable:
  "selectSurchargeRate rates c type = Inr (Some r) \<Longrightarrow>
     r \<in> set rates \<and> surcharge_applicable c type r"
  by (auto simp: selectSurchargeRate_def chooseUnique_best surcharge_candidates_eq
      dest!: unique_best_mem)

section \<open>Properties\<close>

text \<open>Property C25 (quote_line_correct): an order line the code accepts has the list price times
  the quantity as list subtotal, a discount equal to the price difference times the quantity, tax
  on the discounted subtotal rounded half up, a total of discounted subtotal plus tax, and no
  negative component.\<close>

theorem quote_line_correct:
  assumes "calculateQuoteLine i = Inr l"
  shows "listSubtotalMillimes l = listUnitPriceMillimes i * line_quantity i \<and>
    discountMillimes l = (listUnitPriceMillimes i - effective_price i) * line_quantity i \<and>
    taxMillimes l = (effective_price i * line_quantity i * taxRateBps i + 5000) div 10000 \<and>
    totalMillimes l = listSubtotalMillimes l - discountMillimes l + taxMillimes l \<and>
    0 \<le> discountMillimes l \<and> discountMillimes l \<le> listSubtotalMillimes l \<and>
    0 \<le> taxMillimes l \<and> 0 \<le> totalMillimes l"
proof -
  note f = calculateQuoteLine_Inr [OF assms] and n = quote_line_nonneg [OF assms]
  have "discountMillimes l = (listUnitPriceMillimes i - effective_price i) * line_quantity i"
    using f(1-3) by (simp add: left_diff_distrib)
  moreover have "discountMillimes l \<le> listSubtotalMillimes l" using f(3) n(2) by simp
  ultimately show ?thesis using f(1-5) n by simp
qed

theorem quote_line_correct_witness:
  "\<exists>l. calculateQuoteLine \<lparr> listUnitPriceMillimes = 12500,
          promotionalUnitPriceMillimes = Some 10000, line_quantity = 3, taxRateBps = 1900 \<rparr> = Inr l
       \<and> discountMillimes l = 7500 \<and> taxMillimes l = 5700 \<and> totalMillimes l = 35700"
proof -
  let ?i = "\<lparr> listUnitPriceMillimes = 12500, promotionalUnitPriceMillimes = Some 10000,
              line_quantity = 3, taxRateBps = 1900 \<rparr>"
  obtain l where l: "calculateQuoteLine ?i = Inr l"
    by (simp add: calculateQuoteLine_def addMillimes_2 calculateBasisPoints_eq safe_def
        MAX_SAFE_INTEGER_def)
  from quote_line_correct [OF l] l show ?thesis
    by (intro exI [of _ l]) (simp add: effective_price_def)
qed

text \<open>Property C26 (selectBaseRate_best): the base rate is the unique applicable rate of highest
  geographic rank and, at equal rank, highest priority; with no applicable rate the code throws
  \<open>DELIVERY_RATE_MISSING\<close> and without a unique best one \<open>DELIVERY_RATE_AMBIGUOUS\<close>.  The
  answer depends on the multiset of the rates only, never on the order the database returned
  them in or on their ids.\<close>

theorem selectBaseRate_best:
  "selectBaseRate rates c =
     (let A = image_mset (\<lambda>r. (r, geographicRank r c)) (filter_mset (base_applicable c) (mset rates))
      in if A = {#} then Inl (RateResolutionError ''DELIVERY_RATE_MISSING'')
         else if \<exists>r. unique_best r A then Inr (THE r. unique_best r A)
         else Inl (RateResolutionError ''DELIVERY_RATE_AMBIGUOUS''))"
proof -
  have A: "mset (base_candidates rates c) =
      image_mset (\<lambda>r. (r, geographicRank r c)) (filter_mset (base_applicable c) (mset rates))"
    by (simp add: base_candidates_eq)
  show ?thesis
    unfolding selectBaseRate_def Let_def A [symmetric]
    by (subst chooseUnique_result) auto
qed

text \<open>A surcharge lookup never fails for want of a rate:
  it answers \<open>None\<close> exactly when no rate of that type applies, the unique best one when there is
  one, and otherwise throws \<open>DELIVERY_RATE_AMBIGUOUS\<close>.\<close>

theorem selectSurchargeRate_optional:
  "selectSurchargeRate rates c type =
     (let A = image_mset (\<lambda>r. (r, geographicRank r c))
                (filter_mset (surcharge_applicable c type) (mset rates))
      in if A = {#} then Inr None
         else if \<exists>r. unique_best r A then Inr (Some (THE r. unique_best r A))
         else Inl (RateResolutionError ''DELIVERY_RATE_AMBIGUOUS''))"
proof -
  have A: "mset (surcharge_candidates rates c type) =
      image_mset (\<lambda>r. (r, geographicRank r c)) (filter_mset (surcharge_applicable c type) (mset rates))"
    by (simp add: surcharge_candidates_eq)
  show ?thesis
    unfolding selectSurchargeRate_def Let_def A [symmetric]
    by (subst chooseUnique_result) simp
qed

end
