(* ===== verification/ShopSchema.thy ===== *)
theory ShopSchema
  imports Stock Pricing
begin

text \<open>
  The tables of the shop beyond stock: the reference data an order is priced and checked against
  (settings, customers, catalogue, delivery geography, rates, legal documents), which no
  modelled service writes, and the tables the order life cycle writes.  \<open>shop_db\<close> extends
  \<open>stock_db\<close>, so every stock operation works on it unchanged.
\<close>

section \<open>Reference data\<close>

record setting =
  set_key :: string
  set_value :: json

record customer =
  cus_id :: string
  cus_userId :: string
  cus_userEmail :: "string option"
  cus_userIsCustomer :: bool
  cus_userActive :: bool
  cus_userDeletedAt :: "int option"
  cus_locale :: string
  cus_suspendedAt :: "int option"
  cus_anonymizedAt :: "int option"

datatype blocklist_status = BL_ACTIVE | BL_EXPIRED | BL_REVOKED

record blocklist_entry =
  bl_customerId :: "string option"
  bl_status :: blocklist_status
  bl_startsAt :: int
  bl_expiresAt :: "int option"

datatype restriction_status = RST_SCHEDULED | RST_ACTIVE | RST_EXPIRED | RST_REVOKED

record restriction =
  rst_productId :: "string option"
  rst_categoryId :: "string option"
  rst_brandId :: "string option"
  rst_status :: restriction_status
  rst_startsAt :: int
  rst_endsAt :: "int option"

text \<open>Brands and categories, with the columns that decide whether they are public.\<close>

record taxon =
  tax_id :: string
  tax_publicationStatus :: publication_status
  tax_archivedAt :: "int option"
  tax_suspendedAt :: "int option"
  tax_deletedAt :: "int option"

record product =
  prod_id :: string
  prod_brandId :: "string option"
  prod_categoryId :: string
  prod_nameFr :: string
  prod_nameAr :: string
  prod_warningFr :: "string option"
  prod_warningAr :: "string option"
  prod_minimumAge :: "int option"
  prod_publicationStatus :: publication_status
  prod_publishedAt :: "int option"
  prod_archivedAt :: "int option"
  prod_suspendedAt :: "int option"
  prod_deletedAt :: "int option"

record product_image =
  img_productId :: "string option"
  img_variantId :: "string option"
  img_approved :: bool
  img_deletedAt :: "int option"

record governorate =
  gov_id :: string
  gov_nameFr :: string
  gov_active :: bool

record delegation =
  del_id :: string
  del_governorateId :: string
  del_nameFr :: string
  del_active :: bool

record locality =
  lty_id :: string
  lty_delegationId :: string
  lty_nameFr :: string
  lty_active :: bool

record delivery_zone =
  zone_id :: string
  zone_code :: string
  zone_nameFr :: string
  zone_priority :: int
  zone_active :: bool
  zone_supported :: bool
  zone_temporarilySuspended :: bool
  zone_phoneConfirmationRequired :: bool
  zone_manualReviewRequired :: bool
  zone_minOrderMillimes :: "int option"
  zone_maxCodMillimes :: "int option"
  zone_freeDeliveryThresholdMillimes :: "int option"
  zone_estimatedMinDays :: "int option"
  zone_estimatedMaxDays :: "int option"
  zone_estimatedMinMinutes :: "int option"
  zone_estimatedMaxMinutes :: "int option"
  zone_paymentMethod :: "string option"
  zone_assignmentMode :: "string option"
  zone_driverCommunication :: "string option"

record zone_link =
  zl_zoneId :: string
  zl_localityId :: string
  zl_priorityOverride :: "int option"
  zl_active :: bool

record delivery_rate = quote_rate +
  rate_active :: bool
  rate_validFrom :: "int option"
  rate_validUntil :: "int option"

record pickup_location =
  pk_id :: string
  pk_code :: string
  pk_nameFr :: string
  pk_address :: string
  pk_active :: bool
  pk_minOrderMillimes :: "int option"
  pk_maxCodMillimes :: "int option"

record postal_code =
  pc_localityId :: string
  pc_code :: string
  pc_active :: bool

datatype legal_type = TERMS_AND_CONDITIONS | PRIVACY_POLICY | OTHER_DOCUMENT

record legal_version =
  lv_id :: string
  lv_type :: legal_type
  lv_locale :: string
  lv_version :: int
  lv_published :: bool
  lv_title :: string
  lv_contentHash :: string
  lv_effectiveAt :: "int option"
  lv_publishedAt :: "int option"
  lv_retiredAt :: "int option"

record reference_data =
  ref_storeSettings :: "setting list"
  ref_complianceSettings :: "setting list"
  ref_customers :: "customer list"
  ref_blocklist :: "blocklist_entry list"
  ref_products :: "product list"
  ref_brands :: "taxon list"
  ref_categories :: "taxon list"
  ref_images :: "product_image list"
  ref_restrictions :: "restriction list"
  ref_governorates :: "governorate list"
  ref_delegations :: "delegation list"
  ref_localities :: "locality list"
  ref_zones :: "delivery_zone list"
  ref_zoneLinks :: "zone_link list"
  ref_rates :: "delivery_rate list"
  ref_pickups :: "pickup_location list"
  ref_postalCodes :: "postal_code list"
  ref_legalVersions :: "legal_version list"

section \<open>The order life cycle\<close>

datatype order_status =
    PENDING_CONFIRMATION | CONFIRMED | ON_HOLD | PREPARING | READY_FOR_PICKUP | ASSIGNED_TO_COURIER
  | HANDED_TO_COURIER | IN_TRANSIT | OUT_FOR_DELIVERY | DELIVERY_ATTEMPTED | RESCHEDULED | DELIVERED
  | REFUSED | FAILED | RETURN_TO_SENDER | RETURNED | CANCELLED

text \<open>\<open>DeliveryStatus\<close> has the same members.\<close>

type_synonym delivery_status = order_status

datatype payment_status =
    PAYMENT_PENDING | CASH_EXPECTED | CASH_COLLECTED_BY_COURIER | CASH_COLLECTED_AT_STORE
  | CASH_PARTIALLY_COLLECTED | CASH_REMITTED | RECONCILIATION_DISCREPANCY | REFUNDED | PAYMENT_CANCELLED

datatype collection_status = EXPECTED | COLLECTED | PARTIALLY_COLLECTED | VOIDED | REMITTED

datatype cart_status = CART_ACTIVE | CART_CONVERTED | CART_ABANDONED | CART_EXPIRED

datatype method_type = COURIER | STORE_PICKUP | MANUAL_QUOTE

datatype age_result = NOT_REQUIRED | AGE_PENDING | AGE_PASSED | AGE_FAILED | AGE_REFUSED | UNABLE_TO_VERIFY

record cart_item =
  citem_id :: string
  citem_variantId :: string
  citem_quantity :: int

record cart =
  cart_id :: string
  cart_customerId :: "string option"
  cart_status :: cart_status
  cart_expiresAt :: "int option"
  cart_convertedAt :: "int option"
  cart_version :: int
  cart_updatedAt :: int
  cart_items :: "cart_item list"

record order =
  ord_id :: string
  ord_number :: string
  ord_customerId :: "string option"
  ord_cartId :: "string option"
  ord_customerName :: string
  ord_customerPhone :: string
  ord_customerEmail :: "string option"
  ord_status :: order_status
  ord_paymentStatus :: payment_status
  ord_subtotalMillimes :: int
  ord_discountTotalMillimes :: int
  ord_deliveryTotalMillimes :: int
  ord_taxTotalMillimes :: int
  ord_grandTotalMillimes :: int
  ord_expectedCodMillimes :: int
  ord_methodType :: method_type
  ord_methodSnapshot :: string
  ord_zoneId :: "string option"
  ord_rateId :: "string option"
  ord_pickupLocationId :: "string option"
  ord_feeRule :: json
  ord_instructions :: "string option"
  ord_ageConfirmedAt :: "int option"
  ord_minimumAge :: int
  ord_ageVerificationAtDelivery :: bool
  ord_phoneConfirmationRequired :: bool
  ord_manualReviewRequired :: bool
  ord_confirmedAt :: "int option"
  ord_cancelledAt :: "int option"
  ord_cancellationReason :: "string option"
  ord_version :: int
  ord_createdAt :: int

record order_item =
  oi_id :: string
  oi_orderId :: string
  oi_productId :: "string option"
  oi_variantId :: "string option"
  oi_productName :: string
  oi_variantName :: string
  oi_sku :: string
  oi_warningFr :: "string option"
  oi_warningAr :: "string option"
  oi_unitPriceMillimes :: int
  oi_unitDiscountMillimes :: int
  oi_taxRateBps :: int
  oi_unitTaxMillimes :: int
  oi_quantity :: int
  oi_lineSubtotalMillimes :: int
  oi_lineDiscountMillimes :: int
  oi_lineTaxMillimes :: int
  oi_lineTotalMillimes :: int

record order_address =
  oa_id :: string
  oa_orderId :: string
  oa_pickupContact :: bool
  oa_fullName :: string
  oa_phone :: string
  oa_governorateId :: "string option"
  oa_delegationId :: "string option"
  oa_localityId :: "string option"
  oa_governorateName :: string
  oa_delegationName :: string
  oa_localityName :: string
  oa_postalCode :: "string option"
  oa_street :: string
  oa_building :: "string option"
  oa_floor :: "string option"
  oa_apartment :: "string option"
  oa_landmark :: "string option"
  oa_instructions :: "string option"

datatype consent_type = CHECKOUT_AGE_CONFIRMATION | TERMS | PRIVACY

record order_consent =
  oc_id :: string
  oc_orderId :: string
  oc_type :: consent_type
  oc_granted :: bool
  oc_consentedAt :: int
  oc_documentVersion :: "(string \<times> string \<times> int \<times> string) option"
  oc_ipAddress :: "string option"
  oc_userAgent :: "string option"

record age_event =
  ae_id :: string
  ae_customerId :: "string option"
  ae_orderId :: "string option"
  ae_deliveryId :: "string option"
  ae_phase :: string
  ae_result :: age_result
  ae_minimumAge :: int
  ae_method :: string
  ae_reasonCode :: "string option"
  ae_verifierUserId :: "string option"
  ae_occurredAt :: int
  ae_ipAddress :: "string option"
  ae_userAgent :: "string option"

record status_history =
  sh_id :: string
  sh_orderId :: string
  sh_fromStatus :: "order_status option"
  sh_toStatus :: order_status
  sh_reasonCode :: "string option"
  sh_note :: "string option"
  sh_changedByUserId :: "string option"
  sh_requestId :: "string option"
  sh_createdAt :: int

datatype note_visibility = INTERNAL | CUSTOMER_VISIBLE | COURIER_VISIBLE

record order_note =
  on_id :: string
  on_orderId :: string
  on_authorUserId :: "string option"
  on_visibility :: note_visibility
  on_body :: string
  on_createdAt :: int

record delivery =
  dlv_id :: string
  dlv_orderId :: string
  dlv_courierId :: "string option"
  dlv_status :: delivery_status
  dlv_trackingNumber :: "string option"
  dlv_courierFeeMillimes :: "int option"
  dlv_internalNotes :: "string option"
  dlv_assignedAt :: "int option"
  dlv_handedToCourierAt :: "int option"
  dlv_deliveredAt :: "int option"
  dlv_nextAttemptAt :: "int option"
  dlv_ageVerificationRequired :: bool
  dlv_ageVerificationResult :: age_result
  dlv_cashCollectedResult :: "bool option"
  dlv_version :: int

record delivery_event =
  de_id :: string
  de_deliveryId :: string
  de_fromStatus :: "delivery_status option"
  de_toStatus :: delivery_status
  de_occurredAt :: int
  de_actorUserId :: "string option"
  de_source :: string
  de_reasonCode :: "string option"
  de_note :: "string option"
  de_payload :: json
  de_requestId :: "string option"

record collection =
  col_id :: string
  col_orderId :: string
  col_deliveryId :: "string option"
  col_courierId :: "string option"
  col_status :: collection_status
  col_expectedMillimes :: int
  col_collectedMillimes :: int
  col_collectedByUserId :: "string option"
  col_collectedAt :: "int option"
  col_evidenceObjectKey :: "string option"
  col_note :: "string option"
  col_keyHash :: "string option"
  col_requestHash :: "string option"

record idempotency_claim =
  clm_id :: string
  clm_keyHash :: string
  clm_audienceScope :: string
  clm_requestHash :: string
  clm_orderId :: "string option"
  clm_lockedAt :: int
  clm_completedAt :: "int option"
  clm_expiresAt :: int

record sequence_counter =
  sc_key :: string
  sc_value :: int

datatype notification_event =
    REGISTRATION | EMAIL_VERIFICATION | PASSWORD_RESET | ORDER_RECEIVED | ORDER_CONFIRMED_EVENT
  | ORDER_ON_HOLD | ORDER_PREPARING | HANDED_TO_COURIER_EVENT | OUT_FOR_DELIVERY_EVENT
  | DELIVERY_ATTEMPTED_EVENT | DELIVERY_RESCHEDULED | ORDER_DELIVERED | DELIVERY_REFUSED
  | DELIVERY_FAILED | ORDER_CANCELLED_EVENT | RETURN_UPDATE | SECURITY_ALERT | LOW_STOCK_ALERT
  | ADMIN_ORDER_CREATED

datatype notification_channel = EMAIL | SMS | CONSOLE

datatype notification_status =
    NT_QUEUED | NT_PROCESSING | NT_DELIVERED | NT_FAILED | NT_DEAD_LETTER | NT_CANCELLED

record notification =
  nt_id :: string
  nt_orderId :: "string option"
  nt_idempotencyKey :: string
  nt_event :: notification_event
  nt_channel :: notification_channel
  nt_recipientHash :: string
  nt_encryptedRecipient :: "string option"
  nt_locale :: string
  nt_payload :: json
  nt_status :: notification_status
  nt_scheduledAt :: int
  nt_deliveredAt :: "int option"

datatype outbox_status =
    OB_PENDING | OB_LEASED | OB_PUBLISHED | OB_PROCESSING | OB_RETRY | OB_PROCESSED | OB_DEAD_LETTER | OB_CANCELLED

record outbox_event =
  ob_id :: string
  ob_deterministicKey :: string
  ob_aggregateType :: string
  ob_aggregateId :: string
  ob_eventType :: string
  ob_eventVersion :: int
  ob_payload :: json
  ob_status :: outbox_status
  ob_availableAt :: int
  ob_leaseOwner :: "string option"
  ob_leaseExpiresAt :: "int option"
  ob_attemptCount :: int
  ob_maxAttempts :: int
  ob_lastAttemptAt :: "int option"
  ob_publishedAt :: "int option"
  ob_publishedJobId :: "string option"
  ob_processedAt :: "int option"
  ob_deadLetteredAt :: "int option"
  ob_safeErrorCode :: "string option"

section \<open>The database of the shop\<close>

record shop_db = stock_db +
  reference :: reference_data
  carts :: "cart list"
  orders :: "order list"
  order_items :: "order_item list"
  addresses :: "order_address list"
  consents :: "order_consent list"
  age_events :: "age_event list"
  histories :: "status_history list"
  order_notes :: "order_note list"
  deliveries :: "delivery list"
  delivery_events :: "delivery_event list"
  collections :: "collection list"
  claims :: "idempotency_claim list"
  counters :: "sequence_counter list"
  notifications :: "notification list"
  outbox :: "outbox_event list"

text \<open>A shop with nothing in it; concrete databases are built from it.\<close>

definition empty_reference :: reference_data where
  "empty_reference = \<lparr> ref_storeSettings = [], ref_complianceSettings = [], ref_customers = [],
     ref_blocklist = [], ref_products = [], ref_brands = [], ref_categories = [], ref_images = [],
     ref_restrictions = [], ref_governorates = [], ref_delegations = [], ref_localities = [],
     ref_zones = [], ref_zoneLinks = [], ref_rates = [], ref_pickups = [], ref_postalCodes = [],
     ref_legalVersions = [] \<rparr>"

definition empty_shop :: shop_db where
  "empty_shop = \<lparr> seq = 0, audits = [], variants = [], suppliers = [], batches = [], locations = [],
     items = [], movements = [], reservations = [], adjustments = [], transfers = [],
     reference = empty_reference, carts = [], orders = [], order_items = [], addresses = [],
     consents = [], age_events = [], histories = [], order_notes = [], deliveries = [],
     delivery_events = [], collections = [], claims = [], counters = [], notifications = [],
     outbox = [] \<rparr>"

section \<open>Creating rows\<close>

definition create_order :: "env \<Rightarrow> order \<Rightarrow> 'a shop_db_scheme \<Rightarrow> (order \<times> 'a shop_db_scheme) result" where
  "create_order e row db =
     (let r = row\<lparr> ord_id := fresh_id e db \<rparr>
      in bindE (create_row (\<lambda>a b. ord_id a = ord_id b \<or> ord_number a = ord_number b) r (orders db)) (\<lambda>t.
         Inr (r, db\<lparr> orders := t, seq := Suc (seq db) \<rparr>)))"

definition create_order_item :: "env \<Rightarrow> order_item \<Rightarrow> 'a shop_db_scheme \<Rightarrow> (order_item \<times> 'a shop_db_scheme) result" where
  "create_order_item e row db =
     (let r = row\<lparr> oi_id := fresh_id e db \<rparr>
      in bindE (create_row (\<lambda>a b. oi_id a = oi_id b) r (order_items db)) (\<lambda>t.
         Inr (r, db\<lparr> order_items := t, seq := Suc (seq db) \<rparr>)))"

definition create_order_address :: "env \<Rightarrow> order_address \<Rightarrow> 'a shop_db_scheme \<Rightarrow> (order_address \<times> 'a shop_db_scheme) result" where
  "create_order_address e row db =
     (let r = row\<lparr> oa_id := fresh_id e db \<rparr>
      in bindE (create_row (\<lambda>a b. oa_id a = oa_id b \<or> (oa_orderId a = oa_orderId b \<and> oa_pickupContact a = oa_pickupContact b)) r (addresses db)) (\<lambda>t.
         Inr (r, db\<lparr> addresses := t, seq := Suc (seq db) \<rparr>)))"

definition create_order_consent :: "env \<Rightarrow> order_consent \<Rightarrow> 'a shop_db_scheme \<Rightarrow> (order_consent \<times> 'a shop_db_scheme) result" where
  "create_order_consent e row db =
     (let r = row\<lparr> oc_id := fresh_id e db \<rparr>
      in bindE (create_row (\<lambda>a b. oc_id a = oc_id b \<or> (oc_orderId a = oc_orderId b \<and> oc_type a = oc_type b)) r (consents db)) (\<lambda>t.
         Inr (r, db\<lparr> consents := t, seq := Suc (seq db) \<rparr>)))"

definition create_age_event :: "env \<Rightarrow> age_event \<Rightarrow> 'a shop_db_scheme \<Rightarrow> (age_event \<times> 'a shop_db_scheme) result" where
  "create_age_event e row db =
     (let r = row\<lparr> ae_id := fresh_id e db \<rparr>
      in bindE (create_row (\<lambda>a b. ae_id a = ae_id b) r (age_events db)) (\<lambda>t.
         Inr (r, db\<lparr> age_events := t, seq := Suc (seq db) \<rparr>)))"

definition create_status_history :: "env \<Rightarrow> status_history \<Rightarrow> 'a shop_db_scheme \<Rightarrow> (status_history \<times> 'a shop_db_scheme) result" where
  "create_status_history e row db =
     (let r = row\<lparr> sh_id := fresh_id e db \<rparr>
      in bindE (create_row (\<lambda>a b. sh_id a = sh_id b) r (histories db)) (\<lambda>t.
         Inr (r, db\<lparr> histories := t, seq := Suc (seq db) \<rparr>)))"

definition create_order_note :: "env \<Rightarrow> order_note \<Rightarrow> 'a shop_db_scheme \<Rightarrow> (order_note \<times> 'a shop_db_scheme) result" where
  "create_order_note e row db =
     (let r = row\<lparr> on_id := fresh_id e db \<rparr>
      in bindE (create_row (\<lambda>a b. on_id a = on_id b) r (order_notes db)) (\<lambda>t.
         Inr (r, db\<lparr> order_notes := t, seq := Suc (seq db) \<rparr>)))"

definition create_delivery :: "env \<Rightarrow> delivery \<Rightarrow> 'a shop_db_scheme \<Rightarrow> (delivery \<times> 'a shop_db_scheme) result" where
  "create_delivery e row db =
     (let r = row\<lparr> dlv_id := fresh_id e db \<rparr>
      in bindE (create_row (\<lambda>a b. dlv_id a = dlv_id b \<or> dlv_orderId a = dlv_orderId b \<or> same_some (dlv_trackingNumber a) (dlv_trackingNumber b)) r (deliveries db)) (\<lambda>t.
         Inr (r, db\<lparr> deliveries := t, seq := Suc (seq db) \<rparr>)))"

definition create_delivery_event :: "env \<Rightarrow> delivery_event \<Rightarrow> 'a shop_db_scheme \<Rightarrow> (delivery_event \<times> 'a shop_db_scheme) result" where
  "create_delivery_event e row db =
     (let r = row\<lparr> de_id := fresh_id e db \<rparr>
      in bindE (create_row (\<lambda>a b. de_id a = de_id b) r (delivery_events db)) (\<lambda>t.
         Inr (r, db\<lparr> delivery_events := t, seq := Suc (seq db) \<rparr>)))"

definition create_collection :: "env \<Rightarrow> collection \<Rightarrow> 'a shop_db_scheme \<Rightarrow> (collection \<times> 'a shop_db_scheme) result" where
  "create_collection e row db =
     (let r = row\<lparr> col_id := fresh_id e db \<rparr>
      in bindE (create_row (\<lambda>a b. col_id a = col_id b \<or> same_some (col_keyHash a) (col_keyHash b)) r (collections db)) (\<lambda>t.
         Inr (r, db\<lparr> collections := t, seq := Suc (seq db) \<rparr>)))"

definition create_notification :: "env \<Rightarrow> notification \<Rightarrow> 'a shop_db_scheme \<Rightarrow> (notification \<times> 'a shop_db_scheme) result" where
  "create_notification e row db =
     (let r = row\<lparr> nt_id := fresh_id e db \<rparr>
      in bindE (create_row (\<lambda>a b. nt_id a = nt_id b \<or> nt_idempotencyKey a = nt_idempotencyKey b) r (notifications db)) (\<lambda>t.
         Inr (r, db\<lparr> notifications := t, seq := Suc (seq db) \<rparr>)))"

definition create_outbox_event :: "env \<Rightarrow> outbox_event \<Rightarrow> 'a shop_db_scheme \<Rightarrow> (outbox_event \<times> 'a shop_db_scheme) result" where
  "create_outbox_event e row db =
     (let r = row\<lparr> ob_id := fresh_id e db \<rparr>
      in bindE (create_row (\<lambda>a b. ob_id a = ob_id b \<or> ob_deterministicKey a = ob_deterministicKey b) r (outbox db)) (\<lambda>t.
         Inr (r, db\<lparr> outbox := t, seq := Suc (seq db) \<rparr>)))"

text \<open>Inversion of the creates.\<close>

lemma create_order_Inr [simp, res_simps]:
  "create_order e row db = Inr p \<longleftrightarrow>
     (let r = row\<lparr> ord_id := fresh_id e db \<rparr>
      in \<not> (\<exists>x\<in>set (orders db). ord_id r = ord_id x \<or> ord_number r = ord_number x)
         \<and> p = (r, db\<lparr> orders := orders db @ [r], seq := Suc (seq db) \<rparr>))"
  by (auto simp: create_order_def Let_def list_ex_iff)

lemma create_order_item_Inr [simp, res_simps]:
  "create_order_item e row db = Inr p \<longleftrightarrow>
     (let r = row\<lparr> oi_id := fresh_id e db \<rparr>
      in \<not> (\<exists>x\<in>set (order_items db). oi_id r = oi_id x)
         \<and> p = (r, db\<lparr> order_items := order_items db @ [r], seq := Suc (seq db) \<rparr>))"
  by (auto simp: create_order_item_def Let_def list_ex_iff)

lemma create_order_address_Inr [simp, res_simps]:
  "create_order_address e row db = Inr p \<longleftrightarrow>
     (let r = row\<lparr> oa_id := fresh_id e db \<rparr>
      in \<not> (\<exists>x\<in>set (addresses db). oa_id r = oa_id x \<or> (oa_orderId r = oa_orderId x \<and> oa_pickupContact r = oa_pickupContact x))
         \<and> p = (r, db\<lparr> addresses := addresses db @ [r], seq := Suc (seq db) \<rparr>))"
  by (auto simp: create_order_address_def Let_def list_ex_iff)

lemma create_order_consent_Inr [simp, res_simps]:
  "create_order_consent e row db = Inr p \<longleftrightarrow>
     (let r = row\<lparr> oc_id := fresh_id e db \<rparr>
      in \<not> (\<exists>x\<in>set (consents db). oc_id r = oc_id x \<or> (oc_orderId r = oc_orderId x \<and> oc_type r = oc_type x))
         \<and> p = (r, db\<lparr> consents := consents db @ [r], seq := Suc (seq db) \<rparr>))"
  by (auto simp: create_order_consent_def Let_def list_ex_iff)

lemma create_age_event_Inr [simp, res_simps]:
  "create_age_event e row db = Inr p \<longleftrightarrow>
     (let r = row\<lparr> ae_id := fresh_id e db \<rparr>
      in \<not> (\<exists>x\<in>set (age_events db). ae_id r = ae_id x)
         \<and> p = (r, db\<lparr> age_events := age_events db @ [r], seq := Suc (seq db) \<rparr>))"
  by (auto simp: create_age_event_def Let_def list_ex_iff)

lemma create_status_history_Inr [simp, res_simps]:
  "create_status_history e row db = Inr p \<longleftrightarrow>
     (let r = row\<lparr> sh_id := fresh_id e db \<rparr>
      in \<not> (\<exists>x\<in>set (histories db). sh_id r = sh_id x)
         \<and> p = (r, db\<lparr> histories := histories db @ [r], seq := Suc (seq db) \<rparr>))"
  by (auto simp: create_status_history_def Let_def list_ex_iff)

lemma create_order_note_Inr [simp, res_simps]:
  "create_order_note e row db = Inr p \<longleftrightarrow>
     (let r = row\<lparr> on_id := fresh_id e db \<rparr>
      in \<not> (\<exists>x\<in>set (order_notes db). on_id r = on_id x)
         \<and> p = (r, db\<lparr> order_notes := order_notes db @ [r], seq := Suc (seq db) \<rparr>))"
  by (auto simp: create_order_note_def Let_def list_ex_iff)

lemma create_delivery_Inr [simp, res_simps]:
  "create_delivery e row db = Inr p \<longleftrightarrow>
     (let r = row\<lparr> dlv_id := fresh_id e db \<rparr>
      in \<not> (\<exists>x\<in>set (deliveries db). dlv_id r = dlv_id x \<or> dlv_orderId r = dlv_orderId x \<or> same_some (dlv_trackingNumber r) (dlv_trackingNumber x))
         \<and> p = (r, db\<lparr> deliveries := deliveries db @ [r], seq := Suc (seq db) \<rparr>))"
  by (auto simp: create_delivery_def Let_def list_ex_iff)

lemma create_delivery_event_Inr [simp, res_simps]:
  "create_delivery_event e row db = Inr p \<longleftrightarrow>
     (let r = row\<lparr> de_id := fresh_id e db \<rparr>
      in \<not> (\<exists>x\<in>set (delivery_events db). de_id r = de_id x)
         \<and> p = (r, db\<lparr> delivery_events := delivery_events db @ [r], seq := Suc (seq db) \<rparr>))"
  by (auto simp: create_delivery_event_def Let_def list_ex_iff)

lemma create_collection_Inr [simp, res_simps]:
  "create_collection e row db = Inr p \<longleftrightarrow>
     (let r = row\<lparr> col_id := fresh_id e db \<rparr>
      in \<not> (\<exists>x\<in>set (collections db). col_id r = col_id x \<or> same_some (col_keyHash r) (col_keyHash x))
         \<and> p = (r, db\<lparr> collections := collections db @ [r], seq := Suc (seq db) \<rparr>))"
  by (auto simp: create_collection_def Let_def list_ex_iff)

lemma create_notification_Inr [simp, res_simps]:
  "create_notification e row db = Inr p \<longleftrightarrow>
     (let r = row\<lparr> nt_id := fresh_id e db \<rparr>
      in \<not> (\<exists>x\<in>set (notifications db). nt_id r = nt_id x \<or> nt_idempotencyKey r = nt_idempotencyKey x)
         \<and> p = (r, db\<lparr> notifications := notifications db @ [r], seq := Suc (seq db) \<rparr>))"
  by (auto simp: create_notification_def Let_def list_ex_iff)

lemma create_outbox_event_Inr [simp, res_simps]:
  "create_outbox_event e row db = Inr p \<longleftrightarrow>
     (let r = row\<lparr> ob_id := fresh_id e db \<rparr>
      in \<not> (\<exists>x\<in>set (outbox db). ob_id r = ob_id x \<or> ob_deterministicKey r = ob_deterministicKey x)
         \<and> p = (r, db\<lparr> outbox := outbox db @ [r], seq := Suc (seq db) \<rparr>))"
  by (auto simp: create_outbox_event_def Let_def list_ex_iff)

end
