(* ===== verification/Calendar.thy ===== *)
theory Calendar
  imports Prelude
begin

text \<open>
  The parts of JavaScript's \<open>Date\<close> and \<open>String\<close> that produce texts: \<open>getUTCFullYear\<close>,
  \<open>toISOString\<close> and \<open>toLocaleLowerCase('en-US')\<close>.  A time is a number of milliseconds since
  1970-01-01T00:00:00Z in the proleptic Gregorian calendar.
\<close>

definition civil_from_days :: "int \<Rightarrow> int \<times> int \<times> int" where
  "civil_from_days days =
     (let z = days + 719468;
          era = z div 146097;
          doe = z - era * 146097;
          yoe = (doe - doe div 1460 + doe div 36524 - doe div 146096) div 365;
          doy = doe - (365 * yoe + yoe div 4 - yoe div 100);
          mp = (5 * doy + 2) div 153;
          d = doy - (153 * mp + 2) div 5 + 1;
          m = (if mp < 10 then mp + 3 else mp - 9)
      in (yoe + era * 400 + (if m \<le> 2 then 1 else 0), m, d))"

definition utc_year :: "int \<Rightarrow> int" where
  "utc_year t = fst (civil_from_days (t div 86400000))"

definition two_digits :: "int \<Rightarrow> string" where
  "two_digits n = pad_start 2 CHR ''0'' (int_text n)"

definition iso_string :: "int \<Rightarrow> string" where
  "iso_string t =
     (case civil_from_days (t div 86400000) of (y, m, d) \<Rightarrow>
        let ms = t mod 86400000 in
        pad_start 4 CHR ''0'' (int_text y) @ ''-'' @ two_digits m @ ''-'' @ two_digits d @ ''T''
        @ two_digits (ms div 3600000) @ '':'' @ two_digits (ms div 60000 mod 60) @ '':''
        @ two_digits (ms div 1000 mod 60) @ ''.'' @ pad_start 3 CHR ''0'' (int_text (ms mod 1000)) @ ''Z'')"

lemma iso_string_examples:
  "iso_string 0 = ''1970-01-01T00:00:00.000Z''"
  "iso_string 1709210096789 = ''2024-02-29T12:34:56.789Z''"
  by code_simp+

text \<open>Case mapping of the letters of the Latin-1 range.\<close>

definition lower_char :: "char \<Rightarrow> char" where
  "lower_char c =
     (let n = (of_char c :: nat)
      in if (65 \<le> n \<and> n \<le> 90) \<or> (192 \<le> n \<and> n \<le> 222 \<and> n \<noteq> 215) then char_of (n + 32) else c)"

definition lower_case :: "string \<Rightarrow> string" where
  "lower_case = map lower_char"

lemma lower_case_Nil [simp]: "lower_case s = [] \<longleftrightarrow> s = []"
  by (simp add: lower_case_def)

end
