(* ===== verification/Outbox.thy ===== *)
theory Outbox
  imports ShopSchema Calendar
begin

text \<open>
  \<open>common/outbox\<close>: notifications are written together with the outbox event that dispatches
  them, in the transaction of the operation they report.  The lemmas show that every operation
  of this layer keeps the two tables in step, touches nothing else, and that the coalescing
  variant is idempotent.
\<close>

section \<open>notification-outbox.ts\<close>

definition dispatch_key :: "string \<Rightarrow> string" where
  "dispatch_key nid = ''notification-dispatch:v1:'' @ nid"

definition dispatch_event :: "notification \<Rightarrow> outbox_event" where
  "dispatch_event n =
     \<lparr> ob_id = [], ob_deterministicKey = dispatch_key (nt_id n), ob_aggregateType = ''Notification'',
       ob_aggregateId = nt_id n, ob_eventType = ''notification.dispatch.requested'',
       ob_eventVersion = 1, ob_payload = JObj [(''notificationId'', JStr (nt_id n))],
       ob_status = OB_PENDING, ob_availableAt = nt_scheduledAt n, ob_leaseOwner = None,
       ob_leaseExpiresAt = None, ob_attemptCount = 0, ob_maxAttempts = 8, ob_lastAttemptAt = None,
       ob_publishedAt = None, ob_publishedJobId = None, ob_processedAt = None, ob_deadLetteredAt = None,
       ob_safeErrorCode = None \<rparr>"

definition createNotificationWithOutbox ::
  "env \<Rightarrow> notification \<Rightarrow> 'a shop_db_scheme \<Rightarrow> (notification \<times> 'a shop_db_scheme) result" where
  "createNotificationWithOutbox e data db =
     bindE (create_notification e data db) (\<lambda>(n, db1).
     bindE (create_outbox_event e (dispatch_event n) db1) (\<lambda>(_, db2).
     Inr (n, db2)))"

text \<open>\<open>upsert\<close> with an empty update: the row found, or a new one; a new event is due at
  \<open>data.scheduledAt\<close>, also when its notification is an old one.\<close>

definition ensureNotificationWithOutbox ::
  "env \<Rightarrow> notification \<Rightarrow> 'a shop_db_scheme \<Rightarrow> (notification \<times> 'a shop_db_scheme) result" where
  "ensureNotificationWithOutbox e data db =
     bindE (case List.find (\<lambda>n. nt_idempotencyKey n = nt_idempotencyKey data) (notifications db) of
              Some n \<Rightarrow> Inr (n, db) | None \<Rightarrow> create_notification e data db) (\<lambda>(n, db1).
     bindE (case List.find (\<lambda>o'. ob_deterministicKey o' = dispatch_key (nt_id n)) (outbox db1) of
              Some _ \<Rightarrow> Inr db1
            | None \<Rightarrow> bindE (create_outbox_event e
                        (dispatch_event n\<lparr> ob_availableAt := nt_scheduledAt data \<rparr>) db1) (\<lambda>(_, db2). Inr db2))
       (\<lambda>db2. Inr (n, db2)))"

section \<open>operational-alerts.ts\<close>

definition store_setting :: "'a shop_db_scheme \<Rightarrow> string \<Rightarrow> json option" where
  "store_setting db k =
     map_option set_value (List.find (\<lambda>s. set_key s = k) (ref_storeSettings (reference db)))"

datatype alert_kind = ALERT_SECURITY | ALERT_LOW_STOCK | ALERT_ORDER

fun recipientKey :: "alert_kind \<Rightarrow> string" where
  "recipientKey ALERT_SECURITY = ''notifications.security_alert_email''"
| "recipientKey ALERT_LOW_STOCK = ''notifications.low_stock_alert_email''"
| "recipientKey ALERT_ORDER = ''notifications.order_alert_email''"

fun json_string :: "json option \<Rightarrow> string option" where
  "json_string (Some (JStr s)) = Some s"
| "json_string _ = None"

record alert_input =
  al_kind :: alert_kind
  al_event :: notification_event
  al_idempotencyKey :: string
  al_payload :: json
  al_scheduledAt :: int
  al_enabledKey :: "string option"

definition createOperationalAlertWithOutbox ::
  "env \<Rightarrow> alert_input \<Rightarrow> 'a shop_db_scheme \<Rightarrow> (bool \<times> 'a shop_db_scheme) result" where
  "createOperationalAlertWithOutbox e i db =
     (if (case or_null (al_enabledKey i) of
            None \<Rightarrow> False | Some k \<Rightarrow> store_setting db k \<noteq> Some (JBool True)) then Inr (False, db)
      else
        let recipient = (case json_string (store_setting db (recipientKey (al_kind i))) of
                           Some s \<Rightarrow> trim s | None \<Rightarrow> [])
        in if recipient = [] then Inr (False, db)
           else
             bindE (ensureNotificationWithOutbox e
               \<lparr> nt_id = [], nt_orderId = None, nt_idempotencyKey = al_idempotencyKey i,
                 nt_event = al_event i, nt_channel = EMAIL,
                 nt_recipientHash = sha256 e (lower_case recipient),
                 nt_encryptedRecipient = Some (encrypt e (lower_case recipient)),
                 nt_locale = (if store_setting db ''notifications.operational_alert_locale'' = Some (JStr ''ar'')
                              then ''ar-TN'' else ''fr-TN''),
                 nt_payload = al_payload i, nt_status = NT_QUEUED, nt_scheduledAt = al_scheduledAt i,
                 nt_deliveredAt = None \<rparr> db) (\<lambda>(_, db1).
             Inr (True, db1)))"

section \<open>order-notifications.ts\<close>

fun notificationEventForDeliveryStatus :: "delivery_status \<Rightarrow> notification_event option" where
  "notificationEventForDeliveryStatus CONFIRMED = Some ORDER_CONFIRMED_EVENT"
| "notificationEventForDeliveryStatus ON_HOLD = Some ORDER_ON_HOLD"
| "notificationEventForDeliveryStatus PREPARING = Some ORDER_PREPARING"
| "notificationEventForDeliveryStatus HANDED_TO_COURIER = Some HANDED_TO_COURIER_EVENT"
| "notificationEventForDeliveryStatus OUT_FOR_DELIVERY = Some OUT_FOR_DELIVERY_EVENT"
| "notificationEventForDeliveryStatus DELIVERY_ATTEMPTED = Some DELIVERY_ATTEMPTED_EVENT"
| "notificationEventForDeliveryStatus RESCHEDULED = Some DELIVERY_RESCHEDULED"
| "notificationEventForDeliveryStatus DELIVERED = Some ORDER_DELIVERED"
| "notificationEventForDeliveryStatus REFUSED = Some DELIVERY_REFUSED"
| "notificationEventForDeliveryStatus FAILED = Some DELIVERY_FAILED"
| "notificationEventForDeliveryStatus RETURN_TO_SENDER = Some RETURN_UPDATE"
| "notificationEventForDeliveryStatus RETURNED = Some RETURN_UPDATE"
| "notificationEventForDeliveryStatus _ = None"

text \<open>\<open>input.event.toLocaleLowerCase\<close> on the enum member.\<close>

fun event_name :: "notification_event \<Rightarrow> string" where
  "event_name REGISTRATION = ''registration''"
| "event_name EMAIL_VERIFICATION = ''email_verification''"
| "event_name PASSWORD_RESET = ''password_reset''"
| "event_name ORDER_RECEIVED = ''order_received''"
| "event_name ORDER_CONFIRMED_EVENT = ''order_confirmed''"
| "event_name ORDER_ON_HOLD = ''order_on_hold''"
| "event_name ORDER_PREPARING = ''order_preparing''"
| "event_name HANDED_TO_COURIER_EVENT = ''handed_to_courier''"
| "event_name OUT_FOR_DELIVERY_EVENT = ''out_for_delivery''"
| "event_name DELIVERY_ATTEMPTED_EVENT = ''delivery_attempted''"
| "event_name DELIVERY_RESCHEDULED = ''delivery_rescheduled''"
| "event_name ORDER_DELIVERED = ''order_delivered''"
| "event_name DELIVERY_REFUSED = ''delivery_refused''"
| "event_name DELIVERY_FAILED = ''delivery_failed''"
| "event_name ORDER_CANCELLED_EVENT = ''order_cancelled''"
| "event_name RETURN_UPDATE = ''return_update''"
| "event_name SECURITY_ALERT = ''security_alert''"
| "event_name LOW_STOCK_ALERT = ''low_stock_alert''"
| "event_name ADMIN_ORDER_CREATED = ''admin_order_created''"

record notification_target =
  tgt_id :: string
  tgt_orderNumber :: string
  tgt_customerEmail :: "string option"
  tgt_customerPhone :: string
  tgt_locale :: string

definition order_notification ::
  "env \<Rightarrow> notification_target \<Rightarrow> notification_event \<Rightarrow> int \<Rightarrow> string \<Rightarrow> notification_channel \<Rightarrow> string \<Rightarrow> notification" where
  "order_notification e target event scheduledAt discriminator channel recipient =
     \<lparr> nt_id = [], nt_orderId = Some (tgt_id target),
       nt_idempotencyKey = ''order:'' @ tgt_id target @ '':'' @ discriminator
                           @ (if channel = EMAIL then '':email'' else '':sms''),
       nt_event = event, nt_channel = channel,
       nt_recipientHash = sha256 e recipient, nt_encryptedRecipient = Some (encrypt e recipient),
       nt_locale = tgt_locale target,
       nt_payload = JObj [(''orderNumber'', JStr (tgt_orderNumber target))], nt_status = NT_QUEUED,
       nt_scheduledAt = scheduledAt, nt_deliveredAt = None \<rparr>"

definition createOrderNotificationsWithOutbox ::
  "env \<Rightarrow> notification_target \<Rightarrow> notification_event \<Rightarrow> int \<Rightarrow> string option \<Rightarrow> 'a shop_db_scheme
     \<Rightarrow> 'a shop_db_scheme result" where
  "createOrderNotificationsWithOutbox e target event scheduledAt idempotencyDiscriminator db =
     (let discriminator = (case idempotencyDiscriminator of Some d \<Rightarrow> d | None \<Rightarrow> event_name event);
          email = (case tgt_customerEmail target of Some m \<Rightarrow> lower_case (trim m) | None \<Rightarrow> []);
          smsEnabled = (store_setting db ''notifications.customer_order_sms.enabled'' = Some (JBool True))
      in bindE (if email \<noteq> [] then
                  bindE (createNotificationWithOutbox e
                    (order_notification e target event scheduledAt discriminator EMAIL email) db)
                    (\<lambda>(_, db1). Inr db1)
                else Inr db) (\<lambda>db1.
         if smsEnabled then
           bindE (createNotificationWithOutbox e
             (order_notification e target event scheduledAt discriminator SMS (tgt_customerPhone target)) db1)
             (\<lambda>(_, db2). Inr db2)
         else Inr db1))"

section \<open>The frame\<close>

text \<open>Nothing but the two tables and the id counter changes, and both tables only grow.\<close>

definition outbox_frame :: "'a shop_db_scheme \<Rightarrow> 'a shop_db_scheme \<Rightarrow> bool" where
  "outbox_frame db db' =
     (\<exists>ns os n. db' = db\<lparr> notifications := notifications db @ ns, outbox := outbox db @ os, seq := n \<rparr>)"

lemma outbox_frame_refl [simp]: "outbox_frame db db"
proof -
  have "db = db\<lparr> notifications := notifications db @ [], outbox := outbox db @ [], seq := seq db \<rparr>"
    by simp
  then show ?thesis unfolding outbox_frame_def by blast
qed

lemma outbox_frame_trans:
  assumes "outbox_frame a b" and "outbox_frame b c"
  shows "outbox_frame a c"
proof -
  from assms obtain ns os n ns' os' n' where
    b: "b = a\<lparr> notifications := notifications a @ ns, outbox := outbox a @ os, seq := n \<rparr>" and
    c: "c = b\<lparr> notifications := notifications b @ ns', outbox := outbox b @ os', seq := n' \<rparr>"
    unfolding outbox_frame_def by blast
  have "c = a\<lparr> notifications := notifications a @ (ns @ ns'), outbox := outbox a @ (os @ os'), seq := n' \<rparr>"
    using b c by simp
  then show ?thesis unfolding outbox_frame_def by blast
qed

lemma outbox_frameI:
  "db' = db\<lparr> notifications := notifications db @ ns, outbox := outbox db @ os, seq := n \<rparr> \<Longrightarrow> outbox_frame db db'"
  unfolding outbox_frame_def by blast

lemma create_notification_frame: "create_notification e d db = Inr (n, db') \<Longrightarrow> outbox_frame db db'"
  by (rule outbox_frameI [where ns = "[n]" and os = "[]" and n = "Suc (seq db)"]) (auto simp: Let_def)

lemma create_outbox_event_frame: "create_outbox_event e d db = Inr (n, db') \<Longrightarrow> outbox_frame db db'"
  by (rule outbox_frameI [where ns = "[]" and os = "[n]" and n = "Suc (seq db)"]) (auto simp: Let_def)

lemmas outbox_frames = outbox_frame_trans create_notification_frame create_outbox_event_frame

lemma createNotificationWithOutbox_frame:
  assumes "createNotificationWithOutbox e d db = Inr (n, db')"
  shows "outbox_frame db db'"
proof -
  from assms obtain o' db1 where "create_notification e d db = Inr (n, db1)"
    and "create_outbox_event e (dispatch_event n) db1 = Inr (o', db')"
    by (auto simp: createNotificationWithOutbox_def
        simp del: create_notification_Inr create_outbox_event_Inr)
  then show ?thesis by (blast intro: outbox_frames)
qed

lemma ensureNotificationWithOutbox_frame:
  assumes "ensureNotificationWithOutbox e d db = Inr (n, db')"
  shows "outbox_frame db db'"
proof -
  from assms obtain db1 where
    1: "(case List.find (\<lambda>n. nt_idempotencyKey n = nt_idempotencyKey d) (notifications db) of
              Some n \<Rightarrow> Inr (n, db) | None \<Rightarrow> create_notification e d db) = Inr (n, db1)" and
    2: "(case List.find (\<lambda>o'. ob_deterministicKey o' = dispatch_key (nt_id n)) (outbox db1) of
              Some _ \<Rightarrow> Inr db1
            | None \<Rightarrow> bindE (create_outbox_event e
                        (dispatch_event n\<lparr> ob_availableAt := nt_scheduledAt d \<rparr>) db1) (\<lambda>(_, db2). Inr db2))
         = Inr db'"
    by (auto simp: ensureNotificationWithOutbox_def simp del: create_notification_Inr create_outbox_event_Inr)
  have "outbox_frame db db1" using 1
    by (auto split: option.splits intro: create_notification_frame
        simp del: create_notification_Inr)
  moreover have "outbox_frame db1 db'" using 2
    by (auto split: option.splits intro: create_outbox_event_frame simp del: create_outbox_event_Inr)
  ultimately show ?thesis by (rule outbox_frame_trans)
qed

lemma createOperationalAlertWithOutbox_frame:
  "createOperationalAlertWithOutbox e i db = Inr (b, db') \<Longrightarrow> outbox_frame db db'"
  by (auto simp: createOperationalAlertWithOutbox_def Let_def split: if_splits
      intro: ensureNotificationWithOutbox_frame)

lemma createOrderNotificationsWithOutbox_frame:
  "createOrderNotificationsWithOutbox e t ev s d db = Inr db' \<Longrightarrow> outbox_frame db db'"
  by (auto simp: createOrderNotificationsWithOutbox_def Let_def split: if_splits
      intro: createNotificationWithOutbox_frame outbox_frame_trans)

lemma outbox_frame_same:
  assumes "outbox_frame db db'"
  shows "stock_db.truncate (db'\<lparr> seq := 0 \<rparr>) = stock_db.truncate (db\<lparr> seq := 0 \<rparr>)"
    and "reference db' = reference db" "carts db' = carts db" "orders db' = orders db"
      "order_items db' = order_items db" "addresses db' = addresses db" "consents db' = consents db"
      "histories db' = histories db" "deliveries db' = deliveries db"
      "collections db' = collections db" "claims db' = claims db" "counters db' = counters db"
    and "items db' = items db" "movements db' = movements db" "reservations db' = reservations db"
  using assms by (auto simp: outbox_frame_def stock_db.truncate_def)

lemma outbox_frame_stock: "outbox_frame db db' \<Longrightarrow> stock_inv t db' = stock_inv t db"
  by (rule stock_inv_cong) (auto simp: outbox_frame_def)

section \<open>Every notification has its dispatch event\<close>

definition outbox_inv :: "'a shop_db_scheme \<Rightarrow> bool" where
  "outbox_inv db =
     (distinct (map nt_id (notifications db)) \<and> distinct (map nt_idempotencyKey (notifications db))
      \<and> distinct (map ob_deterministicKey (outbox db))
      \<and> list_all (\<lambda>n. dispatch_key (nt_id n) \<in> ob_deterministicKey ` set (outbox db)) (notifications db))"

lemma outbox_inv_pair:
  assumes inv: "outbox_inv db"
    and n: "nt_id n \<notin> nt_id ` set (notifications db)"
      "nt_idempotencyKey n \<notin> nt_idempotencyKey ` set (notifications db)"
    and o': "ob_deterministicKey o' \<notin> ob_deterministicKey ` set (outbox db)"
      "ob_deterministicKey o' = dispatch_key (nt_id n)"
    and db': "notifications db' = notifications db @ [n]" "outbox db' = outbox db @ [o']"
  shows "outbox_inv db'"
  using inv n o' db' by (auto simp: outbox_inv_def list_all_iff)

lemma dispatch_event_key [simp]:
  "ob_deterministicKey (dispatch_event n) = dispatch_key (nt_id n)"
  by (simp add: dispatch_event_def)

lemma createNotificationWithOutbox_inv:
  assumes "outbox_inv db" and "createNotificationWithOutbox e d db = Inr (n, db')"
  shows "outbox_inv db'"
proof -
  from assms(2) obtain o' db1 where 1: "create_notification e d db = Inr (n, db1)"
    and 2: "create_outbox_event e (dispatch_event n) db1 = Inr (o', db')"
    by (auto simp: createNotificationWithOutbox_def
        simp del: create_notification_Inr create_outbox_event_Inr)
  show ?thesis
    by (rule outbox_inv_pair [OF assms(1), of n o']) (use 1 2 in \<open>auto simp: Let_def\<close>)
qed

lemma ensureNotificationWithOutbox_inv:
  assumes inv: "outbox_inv db" and run: "ensureNotificationWithOutbox e d db = Inr (n, db')"
  shows "outbox_inv db'"
proof (cases "List.find (\<lambda>n. nt_idempotencyKey n = nt_idempotencyKey d) (notifications db)")
  case None
  from run None obtain db1 where 1: "create_notification e d db = Inr (n, db1)" and
    2: "(case List.find (\<lambda>o'. ob_deterministicKey o' = dispatch_key (nt_id n)) (outbox db1) of
              Some _ \<Rightarrow> Inr db1
            | None \<Rightarrow> bindE (create_outbox_event e
                        (dispatch_event n\<lparr> ob_availableAt := nt_scheduledAt d \<rparr>) db1) (\<lambda>(_, db2). Inr db2))
         = Inr db'"
    by (auto simp: ensureNotificationWithOutbox_def simp del: create_notification_Inr create_outbox_event_Inr)
  show ?thesis
  proof (cases "List.find (\<lambda>o'. ob_deterministicKey o' = dispatch_key (nt_id n)) (outbox db1)")
    case None
    with 2 obtain o' where 3: "create_outbox_event e
        (dispatch_event n\<lparr> ob_availableAt := nt_scheduledAt d \<rparr>) db1 = Inr (o', db')"
      by (auto simp del: create_outbox_event_Inr)
    show ?thesis
      by (rule outbox_inv_pair [OF inv, of n o']) (use 1 3 in \<open>auto simp: Let_def\<close>)
  next
    case (Some o')
    with 2 have db': "db' = db1" by simp
    from Some have "o' \<in> set (outbox db1)" "ob_deterministicKey o' = dispatch_key (nt_id n)"
      by (auto dest: find_SomeD)
    then have "dispatch_key (nt_id n) \<in> ob_deterministicKey ` set (outbox db1)" by force
    with inv 1 show ?thesis unfolding db' by (auto simp: outbox_inv_def list_all_iff Let_def)
  qed
next
  case (Some m)
  with run have n: "n = m" and
    2: "(case List.find (\<lambda>o'. ob_deterministicKey o' = dispatch_key (nt_id n)) (outbox db) of
              Some _ \<Rightarrow> Inr db
            | None \<Rightarrow> bindE (create_outbox_event e
                        (dispatch_event n\<lparr> ob_availableAt := nt_scheduledAt d \<rparr>) db) (\<lambda>(_, db2). Inr db2))
         = Inr db'"
    by (auto simp: ensureNotificationWithOutbox_def simp del: create_outbox_event_Inr)
  from Some inv have "dispatch_key (nt_id m) \<in> ob_deterministicKey ` set (outbox db)"
    by (auto simp: outbox_inv_def list_all_iff dest: find_SomeD)
  then have "List.find (\<lambda>o'. ob_deterministicKey o' = dispatch_key (nt_id n)) (outbox db) \<noteq> None"
    unfolding n by (auto simp: find_None_iff)
  with 2 inv show ?thesis by auto
qed

lemma createOperationalAlertWithOutbox_inv:
  "outbox_inv db \<Longrightarrow> createOperationalAlertWithOutbox e i db = Inr (b, db') \<Longrightarrow> outbox_inv db'"
  by (auto simp: createOperationalAlertWithOutbox_def Let_def split: if_splits
      intro: ensureNotificationWithOutbox_inv)

lemma createOrderNotificationsWithOutbox_inv:
  "outbox_inv db \<Longrightarrow> createOrderNotificationsWithOutbox e t ev s d db = Inr db' \<Longrightarrow> outbox_inv db'"
  by (auto simp: createOrderNotificationsWithOutbox_def Let_def split: if_splits
      intro: createNotificationWithOutbox_inv)

text \<open>The layer as a transition system: any sequence of its operations.\<close>

inductive outbox_step :: "shop_db \<Rightarrow> shop_db \<Rightarrow> bool" where
  notified: "createOrderNotificationsWithOutbox e t ev s d db = Inr db' \<Longrightarrow> outbox_step db db'"
| alerted: "createOperationalAlertWithOutbox e i db = Inr (b, db') \<Longrightarrow> outbox_step db db'"
| ensured: "ensureNotificationWithOutbox e d db = Inr (n, db') \<Longrightarrow> outbox_step db db'"

lemma outbox_step_inv: "outbox_step db db' \<Longrightarrow> outbox_inv db \<Longrightarrow> outbox_inv db'"
  by (induction rule: outbox_step.induct)
    (auto intro: createOrderNotificationsWithOutbox_inv createOperationalAlertWithOutbox_inv
      ensureNotificationWithOutbox_inv)

lemma outbox_reachable: "outbox_step\<^sup>*\<^sup>* db db' \<Longrightarrow> outbox_inv db \<Longrightarrow> outbox_inv db'"
  by (induction rule: rtranclp_induct) (auto intro: outbox_step_inv)

lemma ensured_again:
  assumes "ensureNotificationWithOutbox e d db = Inr (n, db')"
    and "nt_idempotencyKey d' = nt_idempotencyKey d"
  shows "ensureNotificationWithOutbox e' d' db' = Inr (n, db')"
proof -
  from assms obtain db1 where
    1: "(case List.find (\<lambda>n. nt_idempotencyKey n = nt_idempotencyKey d) (notifications db) of
              Some n \<Rightarrow> Inr (n, db) | None \<Rightarrow> create_notification e d db) = Inr (n, db1)" and
    2: "(case List.find (\<lambda>o'. ob_deterministicKey o' = dispatch_key (nt_id n)) (outbox db1) of
              Some _ \<Rightarrow> Inr db1
            | None \<Rightarrow> bindE (create_outbox_event e
                        (dispatch_event n\<lparr> ob_availableAt := nt_scheduledAt d \<rparr>) db1) (\<lambda>(_, db2). Inr db2))
         = Inr db'"
    by (auto simp: ensureNotificationWithOutbox_def simp del: create_notification_Inr create_outbox_event_Inr)
  have "List.find (\<lambda>n. nt_idempotencyKey n = nt_idempotencyKey d) (notifications db1) = Some n"
  proof (cases "List.find (\<lambda>n. nt_idempotencyKey n = nt_idempotencyKey d) (notifications db)")
    case None
    with 1 show ?thesis by (auto simp: Let_def find_append)
  next
    case (Some m)
    with 1 show ?thesis by auto
  qed
  moreover have "notifications db' = notifications db1"
    using 2 by (auto split: option.splits simp: Let_def)
  moreover have "List.find (\<lambda>o'. ob_deterministicKey o' = dispatch_key (nt_id n)) (outbox db') \<noteq> None"
    using 2 by (auto split: option.splits simp: Let_def find_None_iff dest: find_SomeD)
  ultimately show ?thesis using assms(2) by (auto simp: ensureNotificationWithOutbox_def)
qed

section \<open>Properties\<close>

text \<open>Property C28 (notifications_dispatched_once): after any sequence of outbox operations on an
  empty outbox, every notification has exactly one dispatch event.\<close>

theorem notifications_dispatched_once:
  assumes "outbox_step\<^sup>*\<^sup>* db db'" and "notifications db = []" and "outbox db = []"
    and "n \<in> set (notifications db')"
  shows "count_where (\<lambda>o'. ob_deterministicKey o' = dispatch_key (nt_id n)) (outbox db') = 1"
proof -
  have "outbox_inv db'" by (rule outbox_reachable [OF assms(1)]) (simp add: outbox_inv_def assms)
  with assms(4) have "distinct (map ob_deterministicKey (outbox db'))"
    and "dispatch_key (nt_id n) \<in> ob_deterministicKey ` set (outbox db')"
    by (simp_all add: outbox_inv_def list_all_iff)
  then show ?thesis unfolding count_where_def by (rule filter_key_one)
qed

definition demo_notification :: notification where
  "demo_notification = \<lparr> nt_id = [], nt_orderId = None, nt_idempotencyKey = ''k'', nt_event = SECURITY_ALERT,
     nt_channel = EMAIL, nt_recipientHash = [], nt_encryptedRecipient = None, nt_locale = ''fr-TN'',
     nt_payload = JNull, nt_status = NT_QUEUED, nt_scheduledAt = 5, nt_deliveredAt = None \<rparr>"

definition outbox_demo_env :: env where
  "outbox_demo_env = \<lparr> now = 0, actor = ''u'', requestId = ''r'', req_ip = None, req_remoteAddress = None,
     req_userAgent = None, cuid = digits, sha256 = id, encrypt = id, random_hex = ''x'' \<rparr>"

lemma demo_ensured:
  "\<exists>n db'. ensureNotificationWithOutbox outbox_demo_env demo_notification empty_shop = Inr (n, db')
     \<and> notifications db' = [n]"
proof -
  have "case ensureNotificationWithOutbox outbox_demo_env demo_notification empty_shop of
          Inl _ \<Rightarrow> False | Inr p \<Rightarrow> map nt_id (notifications (snd p)) = [nt_id (fst p)]" by code_simp
  moreover have "notifications (snd p) = [fst p]"
    if "ensureNotificationWithOutbox outbox_demo_env demo_notification empty_shop = Inr p" for p
    using that by (cases p) (auto simp: ensureNotificationWithOutbox_def empty_shop_def Let_def)
  ultimately show ?thesis by (auto split: sum.splits)
qed

theorem notifications_dispatched_once_witness:
  "\<exists>n db'. outbox_step\<^sup>*\<^sup>* empty_shop db' \<and> n \<in> set (notifications db')
     \<and> count_where (\<lambda>o'. ob_deterministicKey o' = dispatch_key (nt_id n)) (outbox db') = 1"
proof -
  obtain n db' where r: "ensureNotificationWithOutbox outbox_demo_env demo_notification empty_shop = Inr (n, db')"
    and n: "notifications db' = [n]" using demo_ensured by blast
  have s: "outbox_step\<^sup>*\<^sup>* empty_shop db'" using outbox_step.ensured [OF r] by blast
  have "count_where (\<lambda>o'. ob_deterministicKey o' = dispatch_key (nt_id n)) (outbox db') = 1"
    by (rule notifications_dispatched_once [OF s]) (simp_all add: empty_shop_def n)
  moreover have "n \<in> set (notifications db')" using n by simp
  ultimately show ?thesis using s by blast
qed

text \<open>Once an alert has been raised, raising any alert with the same
  idempotency key writes nothing, whatever its content, recipient or time.\<close>

theorem alert_coalesced:
  assumes "createOperationalAlertWithOutbox e i db = Inr (True, db')"
    and "al_idempotencyKey i' = al_idempotencyKey i"
  shows "\<exists>b. createOperationalAlertWithOutbox e' i' db' = Inr (b, db')"
proof -
  from assms(1) obtain d n where "ensureNotificationWithOutbox e d db = Inr (n, db')"
    and k: "nt_idempotencyKey d = al_idempotencyKey i"
    by (force simp: createOperationalAlertWithOutbox_def Let_def split: if_splits)
  then have "nt_idempotencyKey d' = al_idempotencyKey i \<Longrightarrow> ensureNotificationWithOutbox e' d' db' = Inr (n, db')"
    for d' by (auto intro: ensured_again)
  then show ?thesis using assms(2) by (auto simp: createOperationalAlertWithOutbox_def Let_def)
qed

definition demo_alert :: "string \<Rightarrow> alert_input" where
  "demo_alert sku = \<lparr> al_kind = ALERT_LOW_STOCK, al_event = LOW_STOCK_ALERT, al_idempotencyKey = ''low:v1:h1'',
     al_payload = JObj [(''sku'', JStr sku)], al_scheduledAt = 1, al_enabledKey = None \<rparr>"

definition alert_shop :: shop_db where
  "alert_shop = empty_shop\<lparr> reference := empty_reference\<lparr> ref_storeSettings :=
     [\<lparr> set_key = ''notifications.low_stock_alert_email'', set_value = JStr '' Ops@Shop.tn '' \<rparr>] \<rparr> \<rparr>"

theorem alert_coalesced_witness:
  "\<exists>db' b. createOperationalAlertWithOutbox outbox_demo_env (demo_alert ''a'') alert_shop = Inr (True, db')
     \<and> createOperationalAlertWithOutbox outbox_demo_env (demo_alert ''b'') db' = Inr (b, db')"
proof -
  have "case createOperationalAlertWithOutbox outbox_demo_env (demo_alert ''a'') alert_shop of
          Inl _ \<Rightarrow> False | Inr p \<Rightarrow> fst p" by code_simp
  then obtain db' where 1: "createOperationalAlertWithOutbox outbox_demo_env (demo_alert ''a'') alert_shop = Inr (True, db')"
    by (auto split: sum.splits)
  have "\<exists>b. createOperationalAlertWithOutbox outbox_demo_env (demo_alert ''b'') db' = Inr (b, db')"
    by (rule alert_coalesced [OF 1]) (simp add: demo_alert_def)
  with 1 show ?thesis by blast
qed

end
