(* ===== verification/WorkerContracts.thy ===== *)
theory WorkerContracts
  imports Outbox
begin

text \<open>
  \<open>apps/worker/src/outbox-contracts.ts\<close>: the payloads the worker accepts, its error codes, the retry
  delay and the id of a queue job.  What the libraries decide is in \<open>worker_env\<close>, beside the settings of
  the worker: \<open>JSON.parse\<close>, the ISO date format of zod, and the parser of \<open>Date\<close>.
\<close>

section \<open>Errors\<close>

text \<open>\<open>WorkerDomainError\<close>, a payload that zod rejects, and everything the database client throws.\<close>

datatype worker_error = DomainError string | ZodError | Thrown exn

type_synonym 'a worker_result = "worker_error + 'a"

fun thrown :: "'a result \<Rightarrow> 'a worker_result" where
  "thrown (Inl x) = Inl (Thrown x)"
| "thrown (Inr a) = Inr a"

lemma thrown_Inr [simp, res_simps]: "thrown r = Inr a \<longleftrightarrow> r = Inr a"
  by (cases r) auto

text \<open>\<open>/^P\d{4}$/\<close>, the error codes of Prisma.\<close>

definition prisma_code :: "string \<Rightarrow> bool" where
  "prisma_code c = (length c = 5 \<and> hd c = CHR ''P'' \<and> list_all (\<lambda>x. x \<in> set ''0123456789'') (tl c))"

fun safeErrorCode :: "worker_error \<Rightarrow> string" where
  "safeErrorCode (DomainError c) = take 100 c"
| "safeErrorCode ZodError = ''EVENT_PAYLOAD_INVALID''"
| "safeErrorCode (Thrown (PrismaError c)) =
     (if prisma_code c then ''DATABASE_OPERATION_FAILED'' else ''OUTBOX_HANDLER_FAILED'')"
| "safeErrorCode (Thrown _) = ''OUTBOX_HANDLER_FAILED''"

section \<open>Settings\<close>

record worker_env =
  WORKER_INSTANCE_ID :: string
  OUTBOX_BATCH_SIZE :: nat
  OUTBOX_LEASE_MS :: int
  OUTBOX_PUBLISHED_LEASE_MS :: int
  OUTBOX_MAX_ATTEMPTS :: int
  OUTBOX_RETRY_BASE_MS :: int
  OUTBOX_RETRY_MAX_MS :: int
  RESERVATION_EXPIRY_INTERVAL_MS :: int
  RESERVATION_EXPIRY_BATCH_SIZE :: int
  NOTIFICATION_BRIDGE_ENABLED :: bool
  json_parse :: "string \<Rightarrow> json option"
  iso_datetime :: "string \<Rightarrow> bool"
  date_parse :: "string \<Rightarrow> int option"

section \<open>Payloads\<close>

definition RESERVATION_EXPIRY :: string where
  "RESERVATION_EXPIRY = ''inventory.reservations.expire.requested''"

definition NOTIFICATION_DISPATCH :: string where
  "NOTIFICATION_DISPATCH = ''notification.dispatch.requested''"

definition MEDIA_OBJECT_DELETE :: string where
  "MEDIA_OBJECT_DELETE = ''media.object.delete.requested''"

datatype event_payload =
    ReservationExpiry string int
  | NotificationDispatch string
  | MediaDeleteV1 string string
  | MediaDeleteV2 string "string list"

definition parseStoredJson :: "worker_env \<Rightarrow> json \<Rightarrow> json worker_result" where
  "parseStoredJson w payload =
     (case payload of
        JStr s \<Rightarrow>
          require (\<not> length s > 12288) (DomainError ''EVENT_PAYLOAD_TOO_LARGE'')
            (some_or (json_parse w s) (DomainError ''EVENT_PAYLOAD_INVALID''))
      | _ \<Rightarrow> Inr payload)"

text \<open>The character classes of the patterns.\<close>

definition lower_or_digit :: "char \<Rightarrow> bool" where
  "lower_or_digit c = (let n = (of_char c :: nat) in (97 \<le> n \<and> n \<le> 122) \<or> (48 \<le> n \<and> n \<le> 57))"

definition alphanumeric :: "char \<Rightarrow> bool" where
  "alphanumeric c = (lower_or_digit c \<or> (let n = (of_char c :: nat) in 65 \<le> n \<and> n \<le> 90))"

text \<open>\<open>/^[A-Za-z0-9_-]+$/\<close> with at most 30 characters.\<close>

definition worker_id_pattern :: "string \<Rightarrow> bool" where
  "worker_id_pattern s = (1 \<le> length s \<and> length s \<le> 30 \<and> list_all (\<lambda>c. alphanumeric c \<or> c \<in> set ''_-'') s)"

definition mediaBucketSchema :: "string \<Rightarrow> bool" where
  "mediaBucketSchema s =
     (3 \<le> length s \<and> length s \<le> 63 \<and> lower_or_digit (hd s) \<and> lower_or_digit (last s)
      \<and> list_all (\<lambda>c. lower_or_digit c \<or> c \<in> set ''.-'') s)"

definition mediaObjectKeySchema :: "string \<Rightarrow> bool" where
  "mediaObjectKeySchema s =
     (1 \<le> length s \<and> length s \<le> 1024 \<and> alphanumeric (hd s)
      \<and> list_all (\<lambda>c. alphanumeric c \<or> c \<in> set ''/_.-'') s)"

text \<open>\<open>z.strictObject\<close>: the fields named and no other.\<close>

fun strict_object :: "string list \<Rightarrow> json \<Rightarrow> bool" where
  "strict_object ks (JObj fs) = (set (map fst fs) = set ks)"
| "strict_object ks _ = False"

fun string_item :: "json \<Rightarrow> string option" where
  "string_item (JStr s) = Some s"
| "string_item _ = None"

definition parse_reservation_expiry :: "worker_env \<Rightarrow> json \<Rightarrow> event_payload worker_result" where
  "parse_reservation_expiry w p =
     (case (jfield ''cutoff'' p, jfield ''batchSize'' p) of
        (Some (JStr cutoff), Some (JNum n)) \<Rightarrow>
          require (strict_object [''cutoff'', ''batchSize''] p \<and> iso_datetime w cutoff \<and> 1 \<le> n \<and> n \<le> 200) ZodError
            (Inr (ReservationExpiry cutoff n))
      | _ \<Rightarrow> Inl ZodError)"

definition parse_notification_dispatch :: "json \<Rightarrow> event_payload worker_result" where
  "parse_notification_dispatch p =
     (case jfield ''notificationId'' p of
        Some (JStr nid) \<Rightarrow>
          require (strict_object [''notificationId''] p \<and> worker_id_pattern nid) ZodError (Inr (NotificationDispatch nid))
      | _ \<Rightarrow> Inl ZodError)"

definition parse_media_v1 :: "json \<Rightarrow> event_payload worker_result" where
  "parse_media_v1 p =
     (case (jfield ''bucket'' p, jfield ''objectKey'' p) of
        (Some (JStr bucket), Some (JStr key)) \<Rightarrow>
          require (strict_object [''bucket'', ''objectKey''] p \<and> mediaBucketSchema bucket \<and> mediaObjectKeySchema key)
            ZodError (Inr (MediaDeleteV1 bucket key))
      | _ \<Rightarrow> Inl ZodError)"

definition parse_media_v2 :: "json \<Rightarrow> event_payload worker_result" where
  "parse_media_v2 p =
     (case (jfield ''bucket'' p, jfield ''objectKeys'' p) of
        (Some (JStr bucket), Some (JArr ks)) \<Rightarrow>
          bindE (mapE (\<lambda>k. some_or (string_item k) ZodError) ks) (\<lambda>keys.
          require (strict_object [''bucket'', ''objectKeys''] p \<and> mediaBucketSchema bucket \<and> 1 \<le> length keys
              \<and> length keys \<le> 17 \<and> list_all mediaObjectKeySchema keys)
            ZodError (Inr (MediaDeleteV2 bucket keys)))
      | _ \<Rightarrow> Inl ZodError)"

definition parseEventPayload :: "worker_env \<Rightarrow> string \<Rightarrow> int \<Rightarrow> json \<Rightarrow> event_payload worker_result" where
  "parseEventPayload w eventType eventVersion payload =
     (if eventType = RESERVATION_EXPIRY then
        require (\<not> eventVersion \<noteq> 1) (DomainError ''EVENT_VERSION_UNSUPPORTED'') (parse_reservation_expiry w payload)
      else if eventType = NOTIFICATION_DISPATCH then
        require (\<not> eventVersion \<noteq> 1) (DomainError ''EVENT_VERSION_UNSUPPORTED'') (parse_notification_dispatch payload)
      else if eventType = MEDIA_OBJECT_DELETE then
        require (\<not> (eventVersion \<noteq> 1 \<and> eventVersion \<noteq> 2)) (DomainError ''EVENT_VERSION_UNSUPPORTED'')
          (if eventVersion = 1 then parse_media_v1 payload else parse_media_v2 payload)
      else Inl (DomainError ''EVENT_TYPE_UNSUPPORTED''))"

section \<open>Jobs and delays\<close>

definition deterministicJobId :: "env \<Rightarrow> string \<Rightarrow> string" where
  "deterministicJobId e deterministicKey = ''outbox-'' @ take 48 (sha256 e deterministicKey)"

definition exponentialRetryDelay :: "int \<Rightarrow> int \<Rightarrow> int \<Rightarrow> int" where
  "exponentialRetryDelay attemptCount baseMilliseconds maximumMilliseconds =
     (let exponent = max 0 (min 20 (attemptCount - 1))
      in min maximumMilliseconds (baseMilliseconds * 2 ^ nat exponent))"

lemma retry_delay_range:
  assumes "0 \<le> base" and "base \<le> maximum"
  shows "base \<le> exponentialRetryDelay n base maximum" and "exponentialRetryDelay n base maximum \<le> maximum"
proof -
  have "base * 1 \<le> base * 2 ^ k" for k :: nat by (rule mult_left_mono) (use assms in simp_all)
  then show "base \<le> exponentialRetryDelay n base maximum"
    using assms(2) by (simp add: exponentialRetryDelay_def Let_def)
  show "exponentialRetryDelay n base maximum \<le> maximum" by (simp add: exponentialRetryDelay_def Let_def)
qed

lemma retry_delay_mono:
  assumes "0 \<le> base" and "m \<le> n"
  shows "exponentialRetryDelay m base maximum \<le> exponentialRetryDelay n base maximum"
proof -
  have "nat (max 0 (min 20 (m - 1))) \<le> nat (max 0 (min 20 (n - 1)))" using assms(2) by (intro nat_mono) linarith
  then have "(2 :: int) ^ nat (max 0 (min 20 (m - 1))) \<le> 2 ^ nat (max 0 (min 20 (n - 1)))" by (intro power_increasing) simp_all
  then have "base * 2 ^ nat (max 0 (min 20 (m - 1))) \<le> base * 2 ^ nat (max 0 (min 20 (n - 1)))"
    by (rule mult_left_mono) (rule assms(1))
  then show ?thesis unfolding exponentialRetryDelay_def Let_def by (rule min.mono [OF order_refl])
qed

text \<open>A notification's own dispatch event is accepted.\<close>

lemma dispatch_event_accepted:
  "worker_id_pattern (nt_id n) \<Longrightarrow>
   parseEventPayload w (ob_eventType (dispatch_event n)) (ob_eventVersion (dispatch_event n)) (ob_payload (dispatch_event n))
     = Inr (NotificationDispatch (nt_id n))"
  by (simp add: parseEventPayload_def parse_notification_dispatch_def dispatch_event_def RESERVATION_EXPIRY_def
      NOTIFICATION_DISPATCH_def)

end
