(* ===== verification/Fingerprint.thy ===== *)
theory Fingerprint
  imports Schema
begin

text \<open>
  Request fingerprints: the services hash the JSON text of a canonicalised request and compare
  the hash when an idempotency key comes back.  \<open>stringify\<close> is \<open>JSON.stringify\<close> of the
  values that occur (objects with string keys, arrays, strings, integers, booleans, null),
  \<open>canonicalize\<close> orders the keys of every object by \<open>localeCompare\<close>.  The lemmas show that
  \<open>stringify\<close> is injective, so different canonical requests have different texts and only a
  collision of the hash can confuse them.
\<close>

section \<open>JSON text\<close>

definition hex_digit :: "nat \<Rightarrow> char" where
  "hex_digit n = (if n < 10 then char_of (48 + n) else char_of (87 + n))"

definition json_escape :: "char \<Rightarrow> string" where
  "json_escape c =
     (let n = (of_char c :: nat)
      in if n = 34 then [CHR 0x5C, CHR 0x22]
         else if n = 92 then [CHR 0x5C, CHR 0x5C]
         else if n = 8 then [CHR 0x5C, CHR ''b'']
         else if n = 9 then [CHR 0x5C, CHR ''t'']
         else if n = 10 then [CHR 0x5C, CHR ''n'']
         else if n = 12 then [CHR 0x5C, CHR ''f'']
         else if n = 13 then [CHR 0x5C, CHR ''r'']
         else if n < 32 then [CHR 0x5C, CHR ''u'', CHR ''0'', CHR ''0'', hex_digit (n div 16), hex_digit (n mod 16)]
         else [c])"

definition json_quote :: "string \<Rightarrow> string" where
  "json_quote s = CHR 0x22 # concat (map json_escape s) @ [CHR 0x22]"

definition json_number :: "int \<Rightarrow> string" where
  "json_number n = (if n < 0 then CHR ''-'' # digits (nat (- n)) else digits (nat n))"

lemma json_number_code [code]:
  "json_number n = (if n < 0 then CHR ''-'' # int_text (- n) else int_text n)"
  by (simp add: json_number_def int_text_def)

fun join_comma :: "string list \<Rightarrow> string" where
  "join_comma [] = []"
| "join_comma [s] = s"
| "join_comma (s # t # r) = s @ CHR '','' # join_comma (t # r)"

definition json_member :: "string \<times> string \<Rightarrow> string" where
  "json_member kv = json_quote (fst kv) @ CHR '':'' # snd kv"

primrec stringify :: "json \<Rightarrow> string" where
  "stringify JNull = ''null''"
| "stringify (JBool b) = (if b then ''true'' else ''false'')"
| "stringify (JNum n) = json_number n"
| "stringify (JStr s) = json_quote s"
| "stringify (JArr xs) = CHR ''['' # join_comma (map stringify xs) @ '']''"
| "stringify (JObj fs) =
     CHR ''{'' # join_comma (map json_member (map (map_prod id stringify) fs)) @ ''}''"

section \<open>Canonical form\<close>

primrec canonicalize :: "json \<Rightarrow> json" where
  "canonicalize JNull = JNull"
| "canonicalize (JBool b) = JBool b"
| "canonicalize (JNum n) = JNum n"
| "canonicalize (JStr s) = JStr s"
| "canonicalize (JArr xs) = JArr (map canonicalize xs)"
| "canonicalize (JObj fs) =
     JObj (sort_key (\<lambda>kv. locale_key (fst kv)) (map (map_prod id canonicalize) fs))"

definition request_fingerprint :: "env \<Rightarrow> json \<Rightarrow> string" where
  "request_fingerprint e value = sha256 e (stringify (canonicalize value))"

text \<open>\<open>{scope}\0{actorUserId}\0{key}\<close>.\<close>

definition idempotency_key_hash :: "env \<Rightarrow> string \<Rightarrow> string \<Rightarrow> string \<Rightarrow> string" where
  "idempotency_key_hash e scope actorUserId key =
     sha256 e (scope @ CHR 0x00 # actorUserId @ CHR 0x00 # key)"

section \<open>The text determines the value\<close>

lemma digits_all: "c \<in> set (digits n) \<Longrightarrow> 48 \<le> (of_char c :: nat) \<and> (of_char c :: nat) \<le> 57"
proof (induction n rule: less_induct)
  case (less n)
  have "n div 10 < n" if "\<not> n < 10" using that by simp
  note IH = less.IH [OF this]
  from less.prems show ?case
    by (subst (asm) digits.simps) (auto simp: of_char_of split: if_splits dest: IH)
qed

lemma digits_nonempty [simp]: "digits n \<noteq> []"
  by (subst digits.simps) simp

fun undigits :: "nat \<Rightarrow> string \<Rightarrow> nat" where
  "undigits a [] = a"
| "undigits a (c # s) = undigits (10 * a + (of_char c - 48)) s"

lemma undigits_append: "undigits a (s @ [c]) = 10 * undigits a s + (of_char c - 48)"
  by (induction s arbitrary: a) auto

lemma undigits_digits: "undigits 0 (digits n) = n"
proof (induction n rule: less_induct)
  case (less n)
  show ?case
  proof (cases "n < 10")
    case True
    then show ?thesis by (subst digits.simps) (simp add: of_char_of)
  next
    case False
    then have "undigits 0 (digits (n div 10)) = n div 10" using less by simp
    with False show ?thesis by (subst digits.simps) (simp add: undigits_append of_char_of)
  qed
qed

lemma digits_inj: "digits m = digits n \<Longrightarrow> m = n"
  by (metis undigits_digits)

definition digit :: "char \<Rightarrow> bool" where
  "digit c = (48 \<le> (of_char c :: nat) \<and> (of_char c :: nat) \<le> 57)"

text \<open>What may follow a value: nothing, a comma or a closing bracket.\<close>

definition follow :: "string \<Rightarrow> bool" where
  "follow x = (x = [] \<or> hd x \<in> {CHR '','', CHR '']'', CHR ''}''})"

lemma follow_simps [simp]:
  "follow []" "follow (CHR '','' # x)" "follow (CHR '']'' # x)" "follow (CHR ''}'' # x)"
  by (simp_all add: follow_def)

lemma digits_prefix:
  assumes "digits m @ x = digits n @ y" and "follow x" and "follow y"
  shows "m = n \<and> x = y"
proof -
  have t: "takeWhile digit (digits k @ z) = digits k" if "follow z" for k z
  proof -
    have "takeWhile digit z = []" using that by (cases z) (auto simp: follow_def digit_def)
    moreover have "\<And>c. c \<in> set (digits k) \<Longrightarrow> digit c" using digits_all by (auto simp: digit_def)
    ultimately show ?thesis by simp
  qed
  have "digits m = digits n" using t [OF assms(2), of m] t [OF assms(3), of n] assms(1) by simp
  with assms(1) digits_inj show ?thesis by auto
qed

definition unhex :: "char \<Rightarrow> nat" where
  "unhex c = (let n = of_char c in if n < 58 then n - 48 else n - 87)"

lemma unhex_hex_digit [simp]: "n < 16 \<Longrightarrow> unhex (hex_digit n) = n"
  by (simp add: unhex_def hex_digit_def of_char_of Let_def)

text \<open>Reading one escape off the left of a text.\<close>

definition unescape :: "string \<Rightarrow> char \<times> string" where
  "unescape s =
     (case s of
        [] \<Rightarrow> (CHR 0x00, [])
      | c # r \<Rightarrow>
          if c \<noteq> CHR 0x5C then (c, r)
          else if hd r = CHR ''b'' then (CHR 0x08, tl r)
          else if hd r = CHR ''t'' then (CHR 0x09, tl r)
          else if hd r = CHR ''n'' then (CHR 0x0A, tl r)
          else if hd r = CHR ''f'' then (CHR 0x0C, tl r)
          else if hd r = CHR ''r'' then (CHR 0x0D, tl r)
          else if hd r = CHR ''u'' then (char_of (16 * unhex (r ! 3) + unhex (r ! 4)), drop 5 r)
          else (hd r, tl r))"

lemma char_vals:
  "(of_char c :: nat) = 8 \<Longrightarrow> CHR 0x08 = c" "(of_char c :: nat) = 9 \<Longrightarrow> CHR 0x09 = c"
  "(of_char c :: nat) = 10 \<Longrightarrow> CHR 0x0A = c" "(of_char c :: nat) = 12 \<Longrightarrow> CHR 0x0C = c"
  "(of_char c :: nat) = 13 \<Longrightarrow> CHR 0x0D = c" "(of_char c :: nat) = 34 \<Longrightarrow> CHR 0x22 = c"
  "(of_char c :: nat) = 92 \<Longrightarrow> CHR 0x5C = c"
  by (rule of_char_eqI [where ?'a = nat], simp)+

lemma unescape_escape: "unescape (json_escape c @ x) = (c, x)"
proof -
  have "(of_char c :: nat) < 32 \<Longrightarrow> 16 * (of_char c div 16) + of_char c mod 16 = (of_char c :: nat)"
    by simp
  moreover have "(of_char c :: nat) \<noteq> 92 \<Longrightarrow> c \<noteq> CHR 0x5C" by auto
  moreover have "(of_char c :: nat) < 32 \<Longrightarrow> of_char c div 16 < (16 :: nat)" by simp
  ultimately show ?thesis
    by (simp add: json_escape_def unescape_def Let_def) (auto dest: char_vals)
qed

text \<open>No escape starts like another one: an escaped text can be read off from the left.\<close>

lemma json_escape_prefix: "json_escape c @ x = json_escape d @ y \<Longrightarrow> c = d \<and> x = y"
  by (metis unescape_escape prod.inject)

lemma json_escape_quote: "json_escape c @ x \<noteq> CHR 0x22 # y" "CHR 0x22 # y \<noteq> json_escape c @ x"
  by (auto simp: json_escape_def Let_def split: if_splits)

lemma json_quote_prefix:
  "json_quote s @ x = json_quote t @ y \<Longrightarrow> s = t \<and> x = y"
proof (induction s arbitrary: t)
  case Nil
  then show ?case
    by (cases t) (simp_all add: json_quote_def json_escape_quote)
next
  case (Cons c s)
  show ?case
  proof (cases t)
    case Nil
    with Cons.prems show ?thesis by (simp add: json_quote_def json_escape_quote)
  next
    case (Cons d t')
    with Cons.prems have "json_escape c @ (concat (map json_escape s) @ CHR 0x22 # x) =
        json_escape d @ (concat (map json_escape t') @ CHR 0x22 # y)"
      by (simp add: json_quote_def)
    from json_escape_prefix [OF this] Cons.IH [of t'] Cons show ?thesis
      by (simp add: json_quote_def)
  qed
qed

lemma digits_Cons: "digits n @ x = c # y \<Longrightarrow> digit c"
  using digits_all [of c n] by (cases "digits n") (auto simp: digit_def)

lemma digits_not:
  "\<not> digit c \<Longrightarrow> digits n @ x \<noteq> c # y" "\<not> digit c \<Longrightarrow> c # y \<noteq> digits n @ x"
  using digits_Cons by metis+

lemma not_digit [simp]:
  "\<not> digit CHR ''-''" "\<not> digit CHR '']''" "\<not> digit CHR ''}''" "\<not> digit CHR ''n''"
  "\<not> digit CHR ''t''" "\<not> digit CHR ''f''" "\<not> digit CHR 0x22" "\<not> digit CHR ''[''" "\<not> digit CHR ''{''"
  by (simp_all add: digit_def)

lemma json_number_prefix:
  assumes "json_number m @ x = json_number n @ y" and "follow x" and "follow y"
  shows "m = n \<and> x = y"
proof (cases "m < 0")
  case True
  with assms(1) have "n < 0" by (simp add: json_number_def digits_not split: if_splits)
  with True assms(1) have "digits (nat (- m)) @ x = digits (nat (- n)) @ y"
    by (simp add: json_number_def)
  from digits_prefix [OF this assms(2,3)] have "nat (- m) = nat (- n)" "x = y" by simp_all
  with True \<open>n < 0\<close> show ?thesis by (simp add: nat_eq_iff)
next
  case False
  with assms(1) have "\<not> n < 0" by (simp add: json_number_def digits_not split: if_splits)
  with False assms(1) have "digits (nat m) @ x = digits (nat n) @ y"
    by (simp add: json_number_def)
  from digits_prefix [OF this assms(2,3)] have "nat m = nat n" "x = y" by simp_all
  with False \<open>\<not> n < 0\<close> show ?thesis by (simp add: nat_eq_iff)
qed

text \<open>The first character of a text tells the kind of value.\<close>

definition json_kind :: "json \<Rightarrow> nat" where
  "json_kind j = (case j of JNull \<Rightarrow> 0 | JBool b \<Rightarrow> if b then 1 else 2 | JNum n \<Rightarrow> 3 | JStr s \<Rightarrow> 4
     | JArr xs \<Rightarrow> 5 | JObj fs \<Rightarrow> 6)"

definition char_kind :: "char \<Rightarrow> nat" where
  "char_kind c = (if c = CHR ''n'' then 0 else if c = CHR ''t'' then 1 else if c = CHR ''f'' then 2
     else if c = CHR 0x22 then 4 else if c = CHR ''['' then 5 else if c = CHR ''{'' then 6 else 3)"

lemma digit_kind: "digit c \<Longrightarrow> char_kind c = 3"
  by (auto simp: char_kind_def)

lemma stringify_kind: "char_kind (hd (stringify j @ x)) = json_kind j"
proof (cases j)
  case (JNum n)
  have "digit (hd (digits k @ x))" for k
    by (cases "digits k @ x") (use digits_Cons [of k x] in auto)
  with JNum show ?thesis
    by (auto simp: json_kind_def json_number_def digit_kind) (simp add: char_kind_def)
qed (auto simp: json_kind_def char_kind_def json_quote_def)

lemma stringify_kind_eq: "stringify a @ x = stringify b @ y \<Longrightarrow> json_kind a = json_kind b"
  by (metis stringify_kind)

lemma stringify_nonempty [simp]: "stringify j \<noteq> []"
  by (cases j) (auto simp: json_quote_def json_number_def)

lemma stringify_no_close: "stringify j @ x \<noteq> CHR '']'' # y"
proof
  assume eq: "stringify j @ x = CHR '']'' # y"
  then have "json_kind j = 3" using stringify_kind [of j x] by (simp add: char_kind_def)
  then obtain n where "j = JNum n" by (cases j) (auto simp: json_kind_def split: if_splits)
  with eq show False by (auto simp: json_number_def digits_not split: if_splits)
qed

definition prefix_free :: "('a \<Rightarrow> string) \<Rightarrow> 'a \<Rightarrow> bool" where
  "prefix_free f a = (\<forall>b x y. f a @ x = f b @ y \<longrightarrow> follow x \<longrightarrow> follow y \<longrightarrow> a = b \<and> x = y)"

text \<open>A comma-separated list with a closing bracket can be read off from the left when its
  elements can.\<close>

lemma join_comma_prefix:
  assumes "\<And>a. a \<in> set as \<Longrightarrow> prefix_free f a"
    and ne: "\<And>a u v. f a @ u \<noteq> e # v" and e: "e \<in> {CHR '']'', CHR ''}''}"
  shows "join_comma (map f as) @ e # x = join_comma (map f bs) @ e # y \<Longrightarrow> as = bs \<and> x = y"
  using assms(1)
proof (induction "map f as" arbitrary: as bs rule: join_comma.induct)
  case 1
  then have "e # x = join_comma (map f bs) @ e # y" "as = []" by simp_all
  with ne [of _ _ x, symmetric] show ?case
    by (cases bs rule: remdups_adj.cases) auto
next
  case (2 s)
  then obtain a where as: "as = [a]" "s = f a" by auto
  have pf: "prefix_free f a" using 2(3) as by simp
  from 2(2) as have eq: "f a @ e # x = join_comma (map f bs) @ e # y" by simp
  show ?case
  proof (cases bs)
    case Nil
    with eq ne show ?thesis by auto
  next
    case (Cons b bs')
    show ?thesis
    proof (cases bs')
      case Nil
      with Cons eq have "f a @ (e # x) = f b @ (e # y)" by simp
      with pf e have "a = b \<and> e # x = e # y"
        unfolding prefix_free_def by (metis follow_simps(3,4) insert_iff empty_iff)
      with Nil Cons as show ?thesis by simp
    next
      case (Cons b' bs'')
      with \<open>bs = b # bs'\<close> eq have
        "f a @ (e # x) = f b @ (CHR '','' # join_comma (map f bs') @ e # y)" by simp
      with pf e have "e # x = CHR '','' # join_comma (map f bs') @ e # y"
        unfolding prefix_free_def by (metis follow_simps(2,3,4) insert_iff empty_iff)
      with e show ?thesis by auto
    qed
  qed
next
  case (3 s t r)
  then obtain a a' r' where as: "as = a # a' # r'" by (metis map_eq_Cons_conv)
  have pf: "prefix_free f a" using 3(4) as by simp
  from 3(3) as have eq: "f a @ (CHR '','' # join_comma (map f (a' # r')) @ e # x) =
      join_comma (map f bs) @ e # y" by simp
  show ?case
  proof (cases bs)
    case Nil
    with eq ne show ?thesis by auto
  next
    case (Cons b bs')
    show ?thesis
    proof (cases bs')
      case Nil
      with Cons eq have "f a @ (CHR '','' # join_comma (map f (a' # r')) @ e # x) = f b @ (e # y)" by simp
      with pf e have "CHR '','' # join_comma (map f (a' # r')) @ e # x = e # y"
        unfolding prefix_free_def by (metis follow_simps(2,3,4) insert_iff empty_iff)
      with e show ?thesis by auto
    next
      case (Cons b' bs'')
      with \<open>bs = b # bs'\<close> eq have
        "f a @ (CHR '','' # join_comma (map f (a' # r')) @ e # x) =
         f b @ (CHR '','' # join_comma (map f bs') @ e # y)" by simp
      with pf have "a = b" and
        "join_comma (map f (a' # r')) @ e # x = join_comma (map f bs') @ e # y"
        unfolding prefix_free_def by (metis follow_simps(2) list.inject)+
      moreover from this 3(1) [of "a' # r'" bs'] 3(2,4) as have "a' # r' = bs' \<and> x = y" by simp
      ultimately show ?thesis using as \<open>bs = b # bs'\<close> by simp
    qed
  qed
qed

lemma json_member_no_close: "json_member kv @ u \<noteq> CHR ''}'' # v"
  by (simp add: json_member_def json_quote_def)

lemma stringify_prefix: "prefix_free stringify a"
proof (induction a)
  case (JArr as)
  show ?case unfolding prefix_free_def
  proof (intro allI impI)
    fix b x y assume eq: "stringify (JArr as) @ x = stringify b @ y" and "follow x" "follow y"
    from stringify_kind_eq [OF eq] obtain bs where b: "b = JArr bs"
      by (cases b) (auto simp: json_kind_def split: if_splits)
    from eq b have "join_comma (map stringify as) @ CHR '']'' # x = join_comma (map stringify bs) @ CHR '']'' # y"
      by simp
    from join_comma_prefix [OF JArr stringify_no_close _ this] b show "JArr as = b \<and> x = y" by simp
  qed
next
  case (JObj fs)
  let ?f = "\<lambda>kv. json_member (map_prod id stringify kv)"
  have pf: "prefix_free ?f kv" if kv: "kv \<in> set fs" for kv
    unfolding prefix_free_def
  proof (intro allI impI)
    fix kv' x y assume eq: "?f kv @ x = ?f kv' @ y" and xy: "follow x" "follow y"
    obtain k v k' v' where [simp]: "kv = (k, v)" "kv' = (k', v')" by (cases kv; cases kv')
    from eq have "json_quote k @ (CHR '':'' # stringify v @ x) = json_quote k' @ (CHR '':'' # stringify v' @ y)"
      by (simp add: json_member_def)
    from json_quote_prefix [OF this] have "k = k'" "stringify v @ x = stringify v' @ y" by simp_all
    moreover have "prefix_free stringify v" using JObj [of kv v] kv by simp
    ultimately show "kv = kv' \<and> x = y" using xy by (auto simp: prefix_free_def)
  qed
  show ?case unfolding prefix_free_def
  proof (intro allI impI)
    fix b x y assume eq: "stringify (JObj fs) @ x = stringify b @ y" and "follow x" "follow y"
    from stringify_kind_eq [OF eq] obtain bs where b: "b = JObj bs"
      by (cases b) (auto simp: json_kind_def split: if_splits)
    from eq b have "join_comma (map ?f fs) @ CHR ''}'' # x = join_comma (map ?f bs) @ CHR ''}'' # y"
      by (simp add: comp_def)
    from join_comma_prefix [OF pf json_member_no_close _ this] b show "JObj fs = b \<and> x = y" by simp
  qed
next
  case (JNum n)
  show ?case unfolding prefix_free_def
  proof (intro allI impI)
    fix b x y assume eq: "stringify (JNum n) @ x = stringify b @ y" and xy: "follow x" "follow y"
    from stringify_kind_eq [OF eq] obtain m where b: "b = JNum m"
      by (cases b) (auto simp: json_kind_def split: if_splits)
    with eq json_number_prefix [OF _ xy] show "JNum n = b \<and> x = y" by simp
  qed
next
  case (JStr s)
  show ?case unfolding prefix_free_def
  proof (intro allI impI)
    fix b x y assume eq: "stringify (JStr s) @ x = stringify b @ y"
    from stringify_kind_eq [OF eq] obtain t where b: "b = JStr t"
      by (cases b) (auto simp: json_kind_def split: if_splits)
    from eq b have "json_quote s @ x = json_quote t @ y" by simp
    from json_quote_prefix [OF this] b show "JStr s = b \<and> x = y" by simp
  qed
next
  case JNull
  show ?case unfolding prefix_free_def
  proof (intro allI impI)
    fix b x y assume eq: "stringify JNull @ x = stringify b @ y"
    from stringify_kind_eq [OF eq] have "b = JNull"
      by (cases b) (auto simp: json_kind_def split: if_splits)
    with eq show "JNull = b \<and> x = y" by simp
  qed
next
  case (JBool c)
  show ?case unfolding prefix_free_def
  proof (intro allI impI)
    fix b x y assume eq: "stringify (JBool c) @ x = stringify b @ y"
    from stringify_kind_eq [OF eq] have b: "b = JBool c"
      by (cases b; cases c) (simp_all add: json_kind_def split: if_splits)
    have "x = y" using eq unfolding b by (simp only: same_append_eq)
    with b show "JBool c = b \<and> x = y" by (simp only: simp_thms)
  qed
qed

lemma stringify_inj: "stringify a = stringify b \<longleftrightarrow> a = b"
  using stringify_prefix [of a] unfolding prefix_free_def by (metis append_Nil2 follow_simps(1))

definition hash_collision :: "env \<Rightarrow> string \<Rightarrow> string \<Rightarrow> bool" where
  "hash_collision e s t = (s \<noteq> t \<and> sha256 e s = sha256 e t)"

text \<open>Escaping, nesting and separators never make different canonical values look alike.\<close>

lemma fingerprint_texts:
  "request_fingerprint e a = request_fingerprint e b \<longleftrightarrow>
     canonicalize a = canonicalize b
     \<or> hash_collision e (stringify (canonicalize a)) (stringify (canonicalize b))"
  by (auto simp: request_fingerprint_def hash_collision_def stringify_inj)

end
