(* ===== verification/Inventory.thy ===== *)
theory Inventory
  imports Stock Fingerprint
begin

text \<open>
  \<open>inventory/admin-inventory.service.ts\<close>: creating locations and buckets, receiving batches,
  requesting and deciding adjustments under dual control, transfers between locations and the
  low-stock threshold.  A handler maps the request and the database to an exception, which rolls
  the transaction back, or to the response and the new database; \<open>decideAdjustment\<close>, which
  commits a rejection before it throws, returns the database in both cases.  The handlers with an
  idempotency key look the key up before their transaction: \<open>seen\<close> is the database at that
  moment and \<open>db\<close> the one the transaction runs on, so that concurrent requests in between are
  covered.
\<close>

section \<open>Pure helpers\<close>

datatype adjustment_operation = ADD | REMOVE | SET

record calculated_adjustment =
  quantityDelta :: int
  onHandAfter :: int

record calculated_transfer =
  sourceOnHandAfter :: int
  destinationOnHandAfter :: int

definition calculateInventoryTransfer :: "int \<Rightarrow> int \<Rightarrow> int \<Rightarrow> int \<Rightarrow> calculated_transfer result" where
  "calculateInventoryTransfer sourceOnHand sourceReserved destinationOnHand quantity =
     require (\<not> sourceOnHand - sourceReserved < quantity)
       (conflict ''INVENTORY_TRANSFER_AVAILABLE_QUANTITY_CONFLICT'') (
     require (\<not> destinationOnHand > DATABASE_INT_MAX - quantity)
       (conflict ''INVALID_RESULTING_STOCK'') (
     Inr \<lparr> sourceOnHandAfter = sourceOnHand - quantity,
           destinationOnHandAfter = destinationOnHand + quantity \<rparr>))"

definition calculateInventoryAdjustment ::
  "int \<Rightarrow> adjustment_operation \<Rightarrow> int option \<Rightarrow> int option \<Rightarrow> calculated_adjustment result" where
  "calculateInventoryAdjustment currentOnHand operation quantity targetOnHandQuantity =
     (if operation = SET then
        (case (targetOnHandQuantity, quantity) of
           (Some target, None) \<Rightarrow>
             require (target \<noteq> currentOnHand) (badRequest ''ZERO_INVENTORY_ADJUSTMENT'')
               (Inr \<lparr> quantityDelta = target - currentOnHand, onHandAfter = target \<rparr>)
         | _ \<Rightarrow> Inl (badRequest ''INVALID_INVENTORY_ADJUSTMENT_INPUT''))
      else
        (case (quantity, targetOnHandQuantity) of
           (Some q, None) \<Rightarrow>
             let delta = (if operation = ADD then q else - q);
                 after = currentOnHand + delta
             in require (\<not> (after < 0 \<or> after > DATABASE_INT_MAX)) (conflict ''INVALID_RESULTING_STOCK'')
                  (Inr \<lparr> quantityDelta = delta, onHandAfter = after \<rparr>)
         | _ \<Rightarrow> Inl (badRequest ''INVALID_INVENTORY_ADJUSTMENT_INPUT'')))"

fun allowed_reasons :: "adjustment_operation \<Rightarrow> string list" where
  "allowed_reasons ADD = [''STOCK_COUNT_CORRECTION'', ''OTHER'']"
| "allowed_reasons REMOVE = [''STOCK_COUNT_CORRECTION'', ''DAMAGE'', ''EXPIRY'', ''OTHER'']"
| "allowed_reasons SET = [''STOCK_COUNT_CORRECTION'', ''OTHER'']"

definition assertReasonAllowed :: "adjustment_operation \<Rightarrow> string \<Rightarrow> string option \<Rightarrow> unit result" where
  "assertReasonAllowed operation reason note =
     require (reason \<noteq> ''PURCHASE_RECEIPT'') (badRequest ''BATCH_RECEIPT_REQUIRED'') (
     require (List.member (allowed_reasons operation) reason)
       (badRequest ''INVALID_INVENTORY_ADJUSTMENT_REASON'') (
     require (\<not> (reason = ''OTHER'' \<and> trim_or_null note = None))
       (badRequest ''INVENTORY_ADJUSTMENT_NOTE_REQUIRED'') (
     Inr ())))"

definition movementType :: "adjustment_operation \<Rightarrow> string \<Rightarrow> movement_type" where
  "movementType operation reason =
     (if operation = ADD \<and> reason = ''PURCHASE_RECEIPT'' then PURCHASE_RECEIPT
      else if reason = ''DAMAGE'' then DAMAGE
      else if reason = ''EXPIRY'' then EXPIRY
      else MANUAL_ADJUSTMENT)"

text \<open>A \<open>YYYY-MM-DD\<close> text at midnight UTC, and the day of a time, in milliseconds.\<close>

definition days_from_civil :: "int \<Rightarrow> int \<Rightarrow> int \<Rightarrow> int" where
  "days_from_civil y m d =
     (let y' = (if m \<le> 2 then y - 1 else y);
          era = y' div 400;
          yoe = y' - era * 400;
          doy = (153 * (m + (if m > 2 then - 3 else 9)) + 2) div 5 + d - 1;
          doe = yoe * 365 + yoe div 4 - yoe div 100 + doy
      in era * 146097 + doe - 719468)"

definition DAY_MS :: int where
  "DAY_MS = 86400000"

definition utc_midnight :: "string \<Rightarrow> int" where
  "utc_midnight s =
     days_from_civil (int (undigits 0 (take 4 s))) (int (undigits 0 (take 2 (drop 5 s))))
       (int (undigits 0 (take 2 (drop 8 s)))) * DAY_MS"

definition utc_day :: "int \<Rightarrow> int" where
  "utc_day t = (t div DAY_MS) * DAY_MS"

lemma utc_midnight_examples:
  "utc_midnight ''1970-01-01'' = 0" "utc_midnight ''2024-02-29'' = 1709164800000"
  "utc_midnight ''2026-08-11'' = 1786406400000"
  by code_simp+

definition ADJUSTMENT_APPROVAL_TTL_MS :: int where
  "ADJUSTMENT_APPROVAL_TTL_MS = 24 * 60 * 60 * 1000"

section \<open>Audit rows\<close>

text \<open>\<open>requestMetadata\<close> and the fields each handler adds to it.\<close>

definition admin_audit :: "env \<Rightarrow> string \<Rightarrow> string \<Rightarrow> string \<Rightarrow> json \<Rightarrow> json \<Rightarrow> audit_log" where
  "admin_audit e action resourceType resourceId before after =
     \<lparr> audit_id = [], audit_actorUserId = Some (actor e), audit_actorType = ACTOR_ADMIN,
       audit_action = action, audit_resourceType = resourceType, audit_resourceId = Some resourceId,
       audit_outcome = SUCCESS, audit_requestId = requestId e,
       audit_ipAddress = Some (take 45 (case req_ip e of Some ip \<Rightarrow> ip
                                 | None \<Rightarrow> (case req_remoteAddress e of Some ip \<Rightarrow> ip
                                            | None \<Rightarrow> ''unknown''))),
       audit_userAgent = map_option (take 512) (or_null (req_userAgent e)),
       audit_before = before, audit_after = after \<rparr>"

text \<open>Turning a unique-constraint violation into a conflict of the service.\<close>

definition catch_P2002 :: "exn \<Rightarrow> 'a result \<Rightarrow> 'a result" where
  "catch_P2002 x r = (case r of Inl (PrismaError c) \<Rightarrow> if c = ''P2002'' then Inl x else r | _ \<Rightarrow> r)"

lemma catch_P2002_Inr [simp]: "catch_P2002 x r = Inr y \<longleftrightarrow> r = Inr y"
  by (auto simp: catch_P2002_def split: sum.splits exn.splits)

definition requireIdempotencyKey :: "string option \<Rightarrow> string result" where
  "requireIdempotencyKey value =
     (case or_null value of
        None \<Rightarrow> Inl (badRequest ''INVALID_IDEMPOTENCY_KEY'')
      | Some v \<Rightarrow> require (idempotency_key_pattern v) (badRequest ''INVALID_IDEMPOTENCY_KEY'') (Inr v))"

section \<open>createLocation and createItem\<close>

record create_location_input =
  cl_code :: string
  cl_name :: string
  cl_address :: "string option"
  cl_fulfillsOrders :: "bool option"

definition to_upper :: "string \<Rightarrow> string" where
  "to_upper s = map (\<lambda>c. let n = (of_char c :: nat) in if 97 \<le> n \<and> n \<le> 122 then char_of (n - 32) else c) s"

definition createLocation ::
  "env \<Rightarrow> create_location_input \<Rightarrow> 'a stock_db_scheme \<Rightarrow> (location \<times> 'a stock_db_scheme) result" where
  "createLocation e input db =
     catch_P2002 (conflict ''INVENTORY_LOCATION_CODE_CONFLICT'') (
     bindE (create_location e
              \<lparr> loc_id = [], loc_code = to_upper (trim (cl_code input)), loc_name = trim (cl_name input),
                loc_address = trim_or_null (cl_address input), loc_active = True,
                loc_fulfillsOrders = (case cl_fulfillsOrders input of Some b \<Rightarrow> b | None \<Rightarrow> True) \<rparr> db)
       (\<lambda>(created, db1).
     bindE (create_audit e
              (admin_audit e ''inventory.location.create'' ''InventoryLocation'' (loc_id created) JNull
                (JObj [(''code'', JStr (loc_code created)), (''active'', JBool (loc_active created)),
                       (''fulfillsOrders'', JBool (loc_fulfillsOrders created))])) db1)
       (\<lambda>(_, db2). Inr (created, db2))))"

record create_item_input =
  ci_variantId :: string
  ci_locationId :: string
  ci_batchId :: "string option"
  ci_initialQuantity :: int
  ci_note :: "string option"

record create_item_response =
  cr_id :: string
  cr_variantId :: string
  cr_locationId :: string
  cr_batchId :: "string option"
  cr_onHandQuantity :: int
  cr_version :: int
  cr_movementId :: string

definition find_open_variant :: "'a stock_db_scheme \<Rightarrow> string \<Rightarrow> variant option" where
  "find_open_variant db vid =
     List.find (\<lambda>v. var_id v = vid \<and> var_deletedAt v = None \<and> var_archivedAt v = None) (variants db)"

definition find_active_location :: "'a stock_db_scheme \<Rightarrow> string \<Rightarrow> location option" where
  "find_active_location db lid = List.find (\<lambda>l. loc_id l = lid \<and> loc_active l) (locations db)"

definition find_item :: "'a stock_db_scheme \<Rightarrow> string \<Rightarrow> item option" where
  "find_item db iid = List.find (\<lambda>i. item_id i = iid) (items db)"

definition find_bucket :: "'a stock_db_scheme \<Rightarrow> string \<Rightarrow> string \<Rightarrow> string \<Rightarrow> item option" where
  "find_bucket db vid lid lot = List.find (\<lambda>i. item_key i = (vid, lid, lot)) (items db)"

text \<open>A movement row with the columns every service fills in the same way.\<close>

definition movement_row :: "env \<Rightarrow> item \<Rightarrow> movement_type \<Rightarrow> int \<Rightarrow> int \<Rightarrow> movement" where
  "movement_row e i type delta after =
     \<lparr> mv_id = [], mv_itemId = item_id i, mv_locationId = item_locationId i, mv_batchId = item_batchId i,
       mv_type = type, mv_delta = delta, mv_onHandAfter = after, mv_referenceType = None,
       mv_referenceId = None, mv_reasonCode = None, mv_note = None, mv_actorUserId = Some (actor e),
       mv_requestId = Some (requestId e), mv_keyHash = None, mv_fingerprint = None,
       mv_occurredAt = now e \<rparr>"

definition createItem ::
  "env \<Rightarrow> create_item_input \<Rightarrow> 'a stock_db_scheme \<Rightarrow> (create_item_response \<times> 'a stock_db_scheme) result" where
  "createItem e input db =
     require (ci_initialQuantity input = 0) (badRequest ''INITIAL_STOCK_RECEIPT_REQUIRED'') (
     catch_P2002 (conflict ''INVENTORY_BUCKET_CONFLICT'') (
     let variant = find_open_variant db (ci_variantId input);
         location = find_active_location db (ci_locationId input);
         batch = (case or_null (ci_batchId input) of
                    None \<Rightarrow> None
                  | Some b \<Rightarrow> List.find (\<lambda>x. batch_id x = b \<and> batch_variantId x = ci_variantId input
                                            \<and> batch_archivedAt x = None) (batches db))
     in require (\<not> (variant = None \<or> location = None \<or> (or_null (ci_batchId input) \<noteq> None \<and> batch = None)))
          (badRequest ''INVALID_INVENTORY_BUCKET_REFERENCE'') (
        bindE (create_item e
                 \<lparr> item_id = [], item_variantId = ci_variantId input, item_locationId = ci_locationId input,
                   item_batchId = ci_batchId input,
                   item_lotKey = (case ci_batchId input of Some b \<Rightarrow> b | None \<Rightarrow> ''UNBATCHED''),
                   item_onHand = ci_initialQuantity input, item_version = 1 \<rparr> db) (\<lambda>(item, db1).
        bindE (create_movement e
                 ((movement_row e item INITIAL_STOCK (ci_initialQuantity input) (ci_initialQuantity input))
                    \<lparr> mv_referenceType := Some ''InventoryItem'', mv_referenceId := Some (item_id item),
                      mv_reasonCode := Some ''INITIAL_STOCK'', mv_note := trim_or_null (ci_note input) \<rparr>) db1)
          (\<lambda>(movement, db2).
        bindE (create_audit e
                 (admin_audit e ''inventory.item.create'' ''InventoryItem'' (item_id item) JNull
                   (JObj [(''variantId'', JStr (item_variantId item)), (''locationId'', JStr (item_locationId item)),
                          (''batchId'', jopt JStr (item_batchId item)), (''onHandQuantity'', JNum (item_onHand item)),
                          (''movementId'', JStr (mv_id movement)), (''version'', JNum (item_version item))])) db2)
          (\<lambda>(_, db3).
        Inr (\<lparr> cr_id = item_id item, cr_variantId = item_variantId item, cr_locationId = item_locationId item,
               cr_batchId = item_batchId item, cr_onHandQuantity = item_onHand item,
               cr_version = item_version item, cr_movementId = mv_id movement \<rparr>, db3)))))))"

section \<open>receiveBatch\<close>

record batch_receipt_input =
  bi_variantId :: string
  bi_locationId :: string
  bi_batchNumber :: string
  bi_supplierId :: "string option"
  bi_supplierReference :: "string option"
  bi_manufacturedAt :: "string option"
  bi_expiryDate :: string
  bi_quantity :: int
  bi_note :: "string option"

record batch_receipt_response =
  br_batchId :: string
  br_variantId :: string
  br_supplierId :: "string option"
  br_batchNumber :: string
  br_supplierReference :: "string option"
  br_manufacturedAt :: "int option"
  br_expiryDate :: "int option"
  br_receivedAt :: "int option"
  br_inventoryItemId :: string
  br_locationId :: string
  br_quantityReceived :: int
  br_onHandQuantity :: int
  br_version :: int
  br_movementId :: string
  br_replayed :: bool

definition batchReceiptResponse :: "batch \<Rightarrow> movement \<Rightarrow> int \<Rightarrow> bool \<Rightarrow> batch_receipt_response" where
  "batchReceiptResponse b m version replayed =
     \<lparr> br_batchId = batch_id b, br_variantId = batch_variantId b, br_supplierId = batch_supplierId b,
       br_batchNumber = batch_number b, br_supplierReference = batch_supplierReference b,
       br_manufacturedAt = batch_manufacturedAt b, br_expiryDate = batch_expiryDate b,
       br_receivedAt = batch_receivedAt b, br_inventoryItemId = mv_itemId m, br_locationId = mv_locationId m,
       br_quantityReceived = mv_delta m, br_onHandQuantity = mv_onHandAfter m, br_version = version,
       br_movementId = mv_id m, br_replayed = replayed \<rparr>"

definition find_movement_key :: "'a stock_db_scheme \<Rightarrow> string \<Rightarrow> movement option" where
  "find_movement_key db h = List.find (\<lambda>m. mv_keyHash m = Some h) (movements db)"

definition replayBatchReceipt ::
  "string \<Rightarrow> string \<Rightarrow> 'a stock_db_scheme \<Rightarrow> batch_receipt_response option result" where
  "replayBatchReceipt keyHash fingerprint db =
     (case find_movement_key db keyHash of
        None \<Rightarrow> Inr None
      | Some m \<Rightarrow>
          require (mv_fingerprint m = Some fingerprint) (conflict ''IDEMPOTENCY_KEY_REUSED'') (
          case (mv_type m = PURCHASE_RECEIPT, Option.bind (mv_batchId m) (\<lambda>b. List.find (\<lambda>x. batch_id x = b) (batches db))) of
            (True, Some b) \<Rightarrow>
              bindE (some_or (find_item db (mv_itemId m)) (PrismaError ''P2025'')) (\<lambda>i.
              Inr (Some (batchReceiptResponse b m (item_version i) True)))
          | _ \<Rightarrow> Inl (conflict ''INVENTORY_IDEMPOTENCY_RECORD_INVALID'')))"

definition receipt_json :: "batch_receipt_input \<Rightarrow> json" where
  "receipt_json input =
     JObj [(''variantId'', JStr (bi_variantId input)), (''locationId'', JStr (bi_locationId input)),
           (''quantity'', JNum (bi_quantity input)), (''expiryDate'', JStr (bi_expiryDate input)),
           (''batchNumber'', JStr (trim (bi_batchNumber input))),
           (''supplierId'', jopt JStr (bi_supplierId input)),
           (''supplierReference'', jopt JStr (trim_or_null (bi_supplierReference input))),
           (''manufacturedAt'', jopt JStr (bi_manufacturedAt input)),
           (''note'', jopt JStr (trim_or_null (bi_note input)))]"

text \<open>The batch a receipt goes to: an existing one with the same metadata or a new one.\<close>

definition batch_for_receipt ::
  "env \<Rightarrow> batch_receipt_input \<Rightarrow> 'a stock_db_scheme \<Rightarrow> (batch \<times> 'a stock_db_scheme) result" where
  "batch_for_receipt e input db =
     (let manufacturedAt = map_option utc_midnight (or_null (bi_manufacturedAt input));
          expiryDate = utc_midnight (bi_expiryDate input);
          batchNumber = trim (bi_batchNumber input)
      in case List.find (\<lambda>b. batch_variantId b = bi_variantId input \<and> batch_number b = batchNumber) (batches db) of
           Some b \<Rightarrow>
             require (batch_archivedAt b = None \<and> batch_supplierId b = bi_supplierId input
                      \<and> batch_supplierReference b = trim_or_null (bi_supplierReference input)
                      \<and> batch_manufacturedAt b = manufacturedAt \<and> batch_expiryDate b = Some expiryDate)
               (conflict ''BATCH_METADATA_CONFLICT'') (
             if batch_receivedAt b = None
             then Inr (b\<lparr> batch_receivedAt := Some (now e) \<rparr>,
                       db\<lparr> batches := update_where (\<lambda>x. batch_id x = batch_id b)
                                      (\<lambda>x. x\<lparr> batch_receivedAt := Some (now e) \<rparr>) (batches db) \<rparr>)
             else Inr (b, db))
         | None \<Rightarrow>
             create_batch e
               \<lparr> batch_id = [], batch_variantId = bi_variantId input, batch_supplierId = bi_supplierId input,
                 batch_number = batchNumber,
                 batch_supplierReference = trim_or_null (bi_supplierReference input),
                 batch_manufacturedAt = manufacturedAt, batch_expiryDate = Some expiryDate,
                 batch_receivedAt = Some (now e), batch_archivedAt = None \<rparr> db)"

definition receiveBatch_tx ::
  "env \<Rightarrow> batch_receipt_input \<Rightarrow> string \<Rightarrow> string \<Rightarrow> 'a stock_db_scheme \<Rightarrow>
   (batch_receipt_response \<times> 'a stock_db_scheme) result" where
  "receiveBatch_tx e input keyHash fingerprint db =
     (let variant = find_open_variant db (bi_variantId input);
          location = find_active_location db (bi_locationId input);
          supplier = (case or_null (bi_supplierId input) of None \<Rightarrow> None
                      | Some s \<Rightarrow> List.find (\<lambda>x. sup_id x = s \<and> sup_status x = SUPPLIER_ACTIVE) (suppliers db))
      in require (\<not> (variant = None \<or> location = None
                     \<or> (or_null (bi_supplierId input) \<noteq> None \<and> supplier = None)))
           (badRequest ''INVALID_BATCH_RECEIPT_REFERENCE'') (
         bindE (batch_for_receipt e input db) (\<lambda>(batch, db1).
         let found = find_bucket db1 (bi_variantId input) (bi_locationId input) (batch_id batch);
             onHandBefore = (case found of Some i \<Rightarrow> item_onHand i | None \<Rightarrow> 0)
         in require (\<not> onHandBefore > DATABASE_INT_MAX - bi_quantity input)
              (conflict ''INVALID_RESULTING_STOCK'') (
            bindE (case found of
                     Some i \<Rightarrow>
                       Inr (add_on_hand (bi_quantity input) i,
                            db1\<lparr> items := update_where (\<lambda>x. item_id x = item_id i)
                                     (add_on_hand (bi_quantity input)) (items db1) \<rparr>)
                   | None \<Rightarrow>
                       create_item e
                         \<lparr> item_id = [], item_variantId = bi_variantId input, item_locationId = bi_locationId input,
                           item_batchId = Some (batch_id batch), item_lotKey = batch_id batch,
                           item_onHand = bi_quantity input, item_version = 1 \<rparr> db1) (\<lambda>(item, db2).
            bindE (create_movement e
                     ((movement_row e item PURCHASE_RECEIPT (bi_quantity input) (item_onHand item))
                        \<lparr> mv_batchId := Some (batch_id batch),
                          mv_referenceType := Some ''ProductBatchReceipt'', mv_referenceId := Some (batch_id batch),
                          mv_reasonCode := Some ''PURCHASE_RECEIPT'', mv_note := trim_or_null (bi_note input),
                          mv_keyHash := Some keyHash, mv_fingerprint := Some fingerprint \<rparr>) db2) (\<lambda>(movement, db3).
            bindE (create_audit e
                     (admin_audit e ''inventory.batch.receive'' ''ProductBatch'' (batch_id batch)
                        (JObj [(''inventoryItemId'', JStr (item_id item)), (''onHandQuantity'', JNum onHandBefore)])
                        (JObj [(''inventoryItemId'', JStr (item_id item)),
                               (''locationId'', JStr (item_locationId item)),
                               (''batchNumber'', JStr (batch_number batch)),
                               (''expiryDate'', JStr (bi_expiryDate input)),
                               (''quantityReceived'', JNum (bi_quantity input)),
                               (''onHandQuantity'', JNum (item_onHand item)),
                               (''movementId'', JStr (mv_id movement))])) db3) (\<lambda>(_, db4).
            Inr (batchReceiptResponse batch movement (item_version item) False, db4))))))))"

text \<open>
  The whole handler.  A \<open>P2002\<close> from the transaction may come from a concurrent request with the
  same key that committed first: its receipt is looked up again on the committed database.
\<close>

definition receiveBatch ::
  "env \<Rightarrow> batch_receipt_input \<Rightarrow> string option \<Rightarrow> 'a stock_db_scheme \<Rightarrow> 'a stock_db_scheme \<Rightarrow>
   (batch_receipt_response \<times> 'a stock_db_scheme) result" where
  "receiveBatch e input idempotencyKey seen db =
     bindE (requireIdempotencyKey idempotencyKey) (\<lambda>normalizedKey.
     let keyHash = idempotency_key_hash e ''batch-receipt'' (actor e) normalizedKey;
         fingerprint = request_fingerprint e (receipt_json input)
     in bindE (replayBatchReceipt keyHash fingerprint seen) (\<lambda>replay.
        case replay of
          Some r \<Rightarrow> Inr (r, db)
        | None \<Rightarrow>
            let expiryDate = utc_midnight (bi_expiryDate input);
                manufacturedAt = map_option utc_midnight (or_null (bi_manufacturedAt input))
            in require (\<not> (expiryDate \<le> utc_day (now e)
                           \<or> (case manufacturedAt of Some m \<Rightarrow> m \<ge> expiryDate | None \<Rightarrow> False)))
                 (badRequest ''INVALID_BATCH_DATES'') (
               case receiveBatch_tx e input keyHash fingerprint db of
                 Inr x \<Rightarrow> Inr x
               | Inl err \<Rightarrow>
                   if err = PrismaError ''P2002''
                   then bindE (replayBatchReceipt keyHash fingerprint db) (\<lambda>raced.
                        case raced of Some r \<Rightarrow> Inr (r, db) | None \<Rightarrow> Inl err)
                   else Inl err)))"

section \<open>adjust\<close>

record adjust_input =
  ai_operation :: adjustment_operation
  ai_quantity :: "int option"
  ai_targetOnHandQuantity :: "int option"
  ai_reasonCode :: string
  ai_note :: "string option"
  ai_expectedVersion :: int

record adjust_response =
  ar_adjustmentId :: string
  ar_inventoryItemId :: string
  ar_status :: adjustment_status
  ar_requiresApproval :: bool
  ar_proposedOnHandQuantity :: int
  ar_currentOnHandQuantity :: int
  ar_reservedQuantity :: int
  ar_expectedVersion :: int
  ar_expiresAt :: int

fun adjustment_status_name :: "adjustment_status \<Rightarrow> string" where
  "adjustment_status_name PENDING_APPROVAL = ''PENDING_APPROVAL''"
| "adjustment_status_name APPROVED = ''APPROVED''"
| "adjustment_status_name REJECTED = ''REJECTED''"
| "adjustment_status_name APPLIED = ''APPLIED''"
| "adjustment_status_name EXPIRED = ''EXPIRED''"

definition adjust ::
  "env \<Rightarrow> string \<Rightarrow> adjust_input \<Rightarrow> 'a stock_db_scheme \<Rightarrow> (adjust_response \<times> 'a stock_db_scheme) result" where
  "adjust e iid input db =
     bindE (assertReasonAllowed (ai_operation input) (ai_reasonCode input) (ai_note input)) (\<lambda>_.
     bindE (some_or (find_item db iid) (notFound ''INVENTORY_ITEM_NOT_FOUND'')) (\<lambda>current.
     require (item_version current = ai_expectedVersion input) (conflict ''VERSION_CONFLICT'') (
     bindE (calculateInventoryAdjustment (item_onHand current) (ai_operation input) (ai_quantity input)
              (ai_targetOnHandQuantity input)) (\<lambda>adjustment.
     let reservedQuantity = reserved (now e) (reservations db) iid
     in require (\<not> onHandAfter adjustment < reservedQuantity)
          (conflict ''INVENTORY_RESERVED_QUANTITY_CONFLICT'') (
        bindE (create_adjustment e
                 \<lparr> adj_id = [], adj_itemId = iid, adj_delta = quantityDelta adjustment,
                   adj_reasonCode = ai_reasonCode input, adj_note = trim_or_null (ai_note input),
                   adj_status = PENDING_APPROVAL, adj_requestedBy = actor e, adj_approvedBy = None,
                   adj_decisionReason = None, adj_expectedVersion = item_version current,
                   adj_onHandBefore = item_onHand current, adj_requestedAt = now e,
                   adj_expiresAt = Some (now e + ADJUSTMENT_APPROVAL_TTL_MS), adj_decidedAt = None,
                   adj_appliedAt = None, adj_movementId = None \<rparr> db) (\<lambda>(rec, db1).
        bindE (create_audit e
                 (admin_audit e ''inventory.adjustment.request'' ''InventoryItem'' iid
                   (JObj [(''onHandQuantity'', JNum (item_onHand current)),
                          (''reservedQuantity'', JNum reservedQuantity), (''version'', JNum (item_version current))])
                   (JObj [(''onHandQuantity'', JNum (onHandAfter adjustment)),
                          (''quantityDelta'', JNum (quantityDelta adjustment)),
                          (''reasonCode'', JStr (ai_reasonCode input)),
                          (''expectedVersion'', JNum (item_version current)),
                          (''adjustmentId'', JStr (adj_id rec)),
                          (''status'', JStr (adjustment_status_name (adj_status rec)))])) db1) (\<lambda>(_, db2).
        Inr (\<lparr> ar_adjustmentId = adj_id rec, ar_inventoryItemId = iid, ar_status = adj_status rec,
               ar_requiresApproval = True, ar_proposedOnHandQuantity = onHandAfter adjustment,
               ar_currentOnHandQuantity = item_onHand current, ar_reservedQuantity = reservedQuantity,
               ar_expectedVersion = item_version current,
               ar_expiresAt = now e + ADJUSTMENT_APPROVAL_TTL_MS \<rparr>, db2))))))))"

section \<open>decideAdjustment\<close>

datatype decision = APPROVE | REJECT

record decide_input =
  di_decision :: decision
  di_reason :: "string option"

record decide_response =
  dr_adjustmentId :: string
  dr_inventoryItemId :: string
  dr_movementId :: "string option"
  dr_status :: adjustment_status
  dr_onHandQuantity :: "int option"
  dr_reservedQuantity :: "int option"
  dr_availableQuantity :: "int option"
  dr_version :: "int option"
  dr_replayed :: bool

datatype decide_outcome = Decided decide_response | OutcomeExpired | OutcomeStale

definition decide_result :: "adjustment \<Rightarrow> adjustment_status \<Rightarrow> string option \<Rightarrow> bool \<Rightarrow> decide_response" where
  "decide_result a status movementId replayed =
     \<lparr> dr_adjustmentId = adj_id a, dr_inventoryItemId = adj_itemId a, dr_movementId = movementId,
       dr_status = status, dr_onHandQuantity = None, dr_reservedQuantity = None,
       dr_availableQuantity = None, dr_version = None, dr_replayed = replayed \<rparr>"

definition close_adjustment ::
  "env \<Rightarrow> adjustment_status \<Rightarrow> string option \<Rightarrow> adjustment \<Rightarrow> adjustment" where
  "close_adjustment e status reason a =
     a\<lparr> adj_status := status, adj_approvedBy := Some (actor e), adj_decidedAt := Some (now e),
        adj_decisionReason := reason \<rparr>"

definition update_adjustment ::
  "string \<Rightarrow> (adjustment \<Rightarrow> adjustment) \<Rightarrow> 'a stock_db_scheme \<Rightarrow> 'a stock_db_scheme" where
  "update_adjustment aid f db =
     db\<lparr> adjustments := update_where (\<lambda>a. adj_id a = aid) f (adjustments db) \<rparr>"

text \<open>The approval branch: apply the correction to the stock it was requested for.\<close>

definition apply_adjustment ::
  "env \<Rightarrow> adjustment \<Rightarrow> string option \<Rightarrow> 'a stock_db_scheme \<Rightarrow> (decide_outcome \<times> 'a stock_db_scheme) result" where
  "apply_adjustment e pending decisionReason db =
     bindE (some_or (find_item db (adj_itemId pending)) (notFound ''INVENTORY_ITEM_NOT_FOUND'')) (\<lambda>current.
     if item_version current \<noteq> adj_expectedVersion pending \<or> item_onHand current \<noteq> adj_onHandBefore pending
     then bindE (create_audit e
                   (admin_audit e ''inventory.adjustment.reject_stale'' ''InventoryAdjustment'' (adj_id pending)
                     (JObj [(''status'', JStr (adjustment_status_name (adj_status pending))),
                            (''expectedVersion'', JNum (adj_expectedVersion pending)),
                            (''onHandBefore'', JNum (adj_onHandBefore pending))])
                     (JObj [(''status'', JStr ''REJECTED''), (''currentVersion'', JNum (item_version current)),
                            (''currentOnHandQuantity'', JNum (item_onHand current))]))
                   (update_adjustment (adj_id pending)
                     (close_adjustment e REJECTED (Some ''STALE_INVENTORY_VERSION'')) db)) (\<lambda>(_, db1).
          Inr (OutcomeStale, db1))
     else
       let after = item_onHand current + adj_delta pending;
           reservedQuantity = reserved (now e) (reservations db) (item_id current);
           hit = (\<lambda>i. item_id i = item_id current \<and> item_version i = adj_expectedVersion pending)
       in require (\<not> (after < 0 \<or> after > DATABASE_INT_MAX)) (conflict ''INVALID_RESULTING_STOCK'') (
          require (\<not> after < reservedQuantity) (conflict ''INVENTORY_RESERVED_QUANTITY_CONFLICT'') (
          require (count_where hit (items db) = 1) (conflict ''VERSION_CONFLICT'') (
          bindE (create_movement e
                   ((movement_row e current
                       (movementType (if adj_delta pending > 0 then ADD else REMOVE) (adj_reasonCode pending))
                       (adj_delta pending) after)
                      \<lparr> mv_referenceType := Some ''InventoryAdjustment'', mv_referenceId := Some (adj_id pending),
                        mv_reasonCode := Some (adj_reasonCode pending), mv_note := adj_note pending \<rparr>)
                   (db\<lparr> items := update_where hit (set_on_hand after) (items db) \<rparr>)) (\<lambda>(movement, db1).
          bindE (create_audit e
                   (admin_audit e ''inventory.adjustment.approve_apply'' ''InventoryAdjustment'' (adj_id pending)
                     (JObj [(''status'', JStr (adjustment_status_name (adj_status pending))),
                            (''onHandQuantity'', JNum (item_onHand current)),
                            (''reservedQuantity'', JNum reservedQuantity), (''version'', JNum (item_version current)),
                            (''requestedBy'', JStr (adj_requestedBy pending))])
                     (JObj [(''status'', JStr ''APPLIED''), (''onHandQuantity'', JNum after),
                            (''quantityDelta'', JNum (adj_delta pending)),
                            (''version'', JNum (item_version current + 1)), (''movementId'', JStr (mv_id movement)),
                            (''approvedBy'', JStr (actor e)), (''decisionReason'', jopt JStr decisionReason)]))
                   (update_adjustment (adj_id pending)
                     (\<lambda>a. (close_adjustment e APPLIED decisionReason a)
                        \<lparr> adj_appliedAt := Some (now e), adj_movementId := Some (mv_id movement) \<rparr>) db1)) (\<lambda>(_, db2).
          Inr (Decided ((decide_result pending APPLIED (Some (mv_id movement)) False)
                 \<lparr> dr_onHandQuantity := Some after, dr_reservedQuantity := Some reservedQuantity,
                   dr_availableQuantity := Some (after - reservedQuantity),
                   dr_version := Some (item_version current + 1) \<rparr>), db2)))))))"

definition decideAdjustment_tx ::
  "env \<Rightarrow> string \<Rightarrow> decision \<Rightarrow> string option \<Rightarrow> 'a stock_db_scheme \<Rightarrow> (decide_outcome \<times> 'a stock_db_scheme) result" where
  "decideAdjustment_tx e aid decision decisionReason db =
     bindE (some_or (List.find (\<lambda>a. adj_id a = aid) (adjustments db))
              (notFound ''INVENTORY_ADJUSTMENT_NOT_FOUND'')) (\<lambda>pending.
     require (adj_requestedBy pending \<noteq> actor e) (forbidden ''INVENTORY_DUAL_CONTROL_REQUIRED'') (
     if adj_status pending = APPLIED \<and> decision = APPROVE
     then Inr (Decided (decide_result pending (adj_status pending) (adj_movementId pending) True), db)
     else if adj_status pending = REJECTED \<and> decision = REJECT
     then Inr (Decided (decide_result pending (adj_status pending) None True), db)
     else require (adj_status pending = PENDING_APPROVAL) (conflict ''INVENTORY_ADJUSTMENT_ALREADY_DECIDED'') (
     if (case adj_expiresAt pending of Some x \<Rightarrow> x \<le> now e | None \<Rightarrow> False)
     then bindE (create_audit e
                   (admin_audit e ''inventory.adjustment.expire'' ''InventoryAdjustment'' aid
                     (JObj [(''status'', JStr (adjustment_status_name (adj_status pending)))])
                     (JObj [(''status'', JStr ''EXPIRED'')]))
                   (update_adjustment aid (close_adjustment e EXPIRED (Some ''APPROVAL_EXPIRED'')) db)) (\<lambda>(_, db1).
          Inr (OutcomeExpired, db1))
     else if decision = REJECT
     then bindE (create_audit e
                   (admin_audit e ''inventory.adjustment.reject'' ''InventoryAdjustment'' aid
                     (JObj [(''status'', JStr (adjustment_status_name (adj_status pending)))])
                     (JObj [(''status'', JStr ''REJECTED''), (''decisionReason'', jopt JStr decisionReason)]))
                   (update_adjustment aid (close_adjustment e REJECTED decisionReason) db)) (\<lambda>(_, db1).
          Inr (Decided (decide_result pending REJECTED None False), db1))
     else apply_adjustment e pending decisionReason db)))"

text \<open>A thrown transaction leaves the database as it was; the two outcomes that throw after the
  commit keep what the transaction wrote.\<close>

definition decideAdjustment ::
  "env \<Rightarrow> string \<Rightarrow> decide_input \<Rightarrow> 'a stock_db_scheme \<Rightarrow> decide_response result \<times> 'a stock_db_scheme" where
  "decideAdjustment e aid input db =
     (let decisionReason = trim_or_null (di_reason input)
      in if di_decision input = REJECT \<and> decisionReason = None
         then (Inl (badRequest ''INVENTORY_ADJUSTMENT_REJECTION_REASON_REQUIRED''), db)
         else case decideAdjustment_tx e aid (di_decision input) decisionReason db of
                Inl err \<Rightarrow> (Inl err, db)
              | Inr (OutcomeExpired, db') \<Rightarrow> (Inl (conflict ''INVENTORY_ADJUSTMENT_APPROVAL_EXPIRED''), db')
              | Inr (OutcomeStale, db') \<Rightarrow> (Inl (conflict ''INVENTORY_ADJUSTMENT_STALE''), db')
              | Inr (Decided r, db') \<Rightarrow> (Inr r, db'))"

section \<open>transfer\<close>

record transfer_input =
  ti_destinationLocationId :: string
  ti_quantity :: int
  ti_expectedSourceVersion :: int
  ti_note :: "string option"

record transfer_response =
  tr_transferId :: string
  tr_sourceInventoryItemId :: string
  tr_destinationInventoryItemId :: string
  tr_quantity :: int
  tr_sourceMovementId :: string
  tr_destinationMovementId :: string
  tr_sourceOnHandQuantity :: int
  tr_destinationOnHandQuantity :: int
  tr_occurredAt :: int
  tr_replayed :: bool

definition transferResponse :: "transfer_row \<Rightarrow> movement \<Rightarrow> movement \<Rightarrow> bool \<Rightarrow> transfer_response" where
  "transferResponse x src dst replayed =
     \<lparr> tr_transferId = xf_id x, tr_sourceInventoryItemId = xf_sourceItemId x,
       tr_destinationInventoryItemId = xf_destinationItemId x, tr_quantity = xf_quantity x,
       tr_sourceMovementId = mv_id src, tr_destinationMovementId = mv_id dst,
       tr_sourceOnHandQuantity = mv_onHandAfter src, tr_destinationOnHandQuantity = mv_onHandAfter dst,
       tr_occurredAt = xf_occurredAt x, tr_replayed = replayed \<rparr>"

definition find_movement :: "'a stock_db_scheme \<Rightarrow> string \<Rightarrow> movement option" where
  "find_movement db mid = List.find (\<lambda>m. mv_id m = mid) (movements db)"

definition replayTransfer :: "string \<Rightarrow> string \<Rightarrow> 'a stock_db_scheme \<Rightarrow> transfer_response option result" where
  "replayTransfer keyHash fingerprint db =
     (case List.find (\<lambda>x. xf_keyHash x = keyHash) (transfers db) of
        None \<Rightarrow> Inr None
      | Some x \<Rightarrow>
          require (xf_fingerprint x = fingerprint) (conflict ''IDEMPOTENCY_KEY_REUSED'') (
          bindE (some_or (find_movement db (xf_sourceMovementId x)) (PrismaError ''P2025'')) (\<lambda>src.
          bindE (some_or (find_movement db (xf_destinationMovementId x)) (PrismaError ''P2025'')) (\<lambda>dst.
          Inr (Some (transferResponse x src dst True))))))"

definition transfer_json :: "string \<Rightarrow> transfer_input \<Rightarrow> json" where
  "transfer_json sourceId input =
     JObj [(''sourceInventoryItemId'', JStr sourceId),
           (''destinationLocationId'', JStr (ti_destinationLocationId input)),
           (''quantity'', JNum (ti_quantity input)),
           (''expectedSourceVersion'', JNum (ti_expectedSourceVersion input)),
           (''note'', jopt JStr (trim_or_null (ti_note input)))]"

text \<open>Decrement the source, increment or create the destination bucket.\<close>

definition move_stock ::
  "env \<Rightarrow> item \<Rightarrow> item option \<Rightarrow> transfer_input \<Rightarrow> calculated_transfer \<Rightarrow> 'a stock_db_scheme \<Rightarrow>
   (item \<times> 'a stock_db_scheme) result" where
  "move_stock e source destination input calculated db =
     (let hit = (\<lambda>i. item_id i = item_id source \<and> item_version i = ti_expectedSourceVersion input)
      in require (count_where hit (items db) = 1) (conflict ''VERSION_CONFLICT'') (
         let db1 = db\<lparr> items := update_where hit (set_on_hand (sourceOnHandAfter calculated)) (items db) \<rparr>
         in case destination of
              Some d \<Rightarrow>
                bindE (some_or (find_item db1 (item_id d)) (PrismaError ''P2025'')) (\<lambda>row.
                Inr (add_on_hand (ti_quantity input) row,
                     db1\<lparr> items := update_where (\<lambda>i. item_id i = item_id d)
                              (add_on_hand (ti_quantity input)) (items db1) \<rparr>))
            | None \<Rightarrow>
                create_item e
                  \<lparr> item_id = [], item_variantId = item_variantId source,
                    item_locationId = ti_destinationLocationId input, item_batchId = item_batchId source,
                    item_lotKey = item_lotKey source, item_onHand = ti_quantity input, item_version = 1 \<rparr> db1))"

text \<open>The two movements, the transfer row that links them and the audit row.\<close>

definition record_transfer ::
  "env \<Rightarrow> item \<Rightarrow> item \<Rightarrow> int \<Rightarrow> int \<Rightarrow> transfer_input \<Rightarrow> string \<Rightarrow> string \<Rightarrow> string \<Rightarrow> 'a stock_db_scheme \<Rightarrow>
   (transfer_response \<times> 'a stock_db_scheme) result" where
  "record_transfer e source dest reservedQuantity sourceAfter input key keyHash fingerprint db1 =
     (let note = trim_or_null (ti_note input)
      in bindE (create_movement e
                  ((movement_row e source TRANSFER_OUT (- ti_quantity input) sourceAfter)
                     \<lparr> mv_referenceType := Some ''InventoryTransfer'',
                       mv_reasonCode := Some ''LOCATION_TRANSFER'', mv_note := note,
                       mv_keyHash := Some (idempotency_key_hash e ''transfer-out'' (actor e) key),
                       mv_fingerprint := Some fingerprint \<rparr>) db1) (\<lambda>(src, db2).
         bindE (create_movement e
                  ((movement_row e dest TRANSFER_IN (ti_quantity input) (item_onHand dest))
                     \<lparr> mv_referenceType := Some ''InventoryTransfer'',
                       mv_reasonCode := Some ''LOCATION_TRANSFER'', mv_note := note,
                       mv_keyHash := Some (idempotency_key_hash e ''transfer-in'' (actor e) key),
                       mv_fingerprint := Some fingerprint \<rparr>) db2) (\<lambda>(dst, db3).
         bindE (create_transfer e
                  \<lparr> xf_id = [], xf_sourceItemId = item_id source, xf_destinationItemId = item_id dest,
                    xf_quantity = ti_quantity input, xf_keyHash = keyHash, xf_fingerprint = fingerprint,
                    xf_requestedBy = actor e, xf_note = note, xf_sourceMovementId = mv_id src,
                    xf_destinationMovementId = mv_id dst, xf_occurredAt = now e \<rparr> db3) (\<lambda>(xf, db4).
         bindE (create_audit e
                  (admin_audit e ''inventory.transfer.apply'' ''InventoryTransfer'' (xf_id xf)
                    (JObj [(''sourceInventoryItemId'', JStr (item_id source)),
                           (''sourceLocationId'', JStr (item_locationId source)),
                           (''sourceOnHandQuantity'', JNum (item_onHand source)),
                           (''sourceReservedQuantity'', JNum reservedQuantity)])
                    (JObj [(''destinationInventoryItemId'', JStr (item_id dest)),
                           (''destinationLocationId'', JStr (item_locationId dest)),
                           (''quantity'', JNum (ti_quantity input)),
                           (''sourceOnHandQuantity'', JNum sourceAfter),
                           (''destinationOnHandQuantity'', JNum (item_onHand dest)),
                           (''sourceMovementId'', JStr (mv_id src)),
                           (''destinationMovementId'', JStr (mv_id dst))]))
                  (db4\<lparr> movements := update_where (\<lambda>m. mv_id m \<in> {mv_id src, mv_id dst})
                          (\<lambda>m. m\<lparr> mv_referenceId := Some (xf_id xf) \<rparr>) (movements db4) \<rparr>)) (\<lambda>(_, db5).
         Inr (transferResponse xf src dst False, db5))))))"

definition transfer_tx ::
  "env \<Rightarrow> string \<Rightarrow> string \<Rightarrow> transfer_input \<Rightarrow> string \<Rightarrow> string \<Rightarrow> string \<Rightarrow> 'a stock_db_scheme \<Rightarrow>
   (transfer_response \<times> 'a stock_db_scheme) result" where
  "transfer_tx e sourceId snapshotLocationId input key keyHash fingerprint db =
     (let locationIds = [snapshotLocationId, ti_destinationLocationId input]
      in require (count_where (\<lambda>l. loc_id l \<in> set locationIds \<and> loc_active l) (locations db) = 2)
           (badRequest ''INVENTORY_TRANSFER_LOCATION_UNAVAILABLE'') (
         bindE (some_or (find_item db sourceId) (notFound ''INVENTORY_ITEM_NOT_FOUND'')) (\<lambda>source.
         let destination = find_bucket db (item_variantId source) (ti_destinationLocationId input) (item_lotKey source)
         in require (item_version source = ti_expectedSourceVersion input) (conflict ''VERSION_CONFLICT'') (
            let reservedQuantity = reserved (now e) (reservations db) (item_id source)
            in bindE (calculateInventoryTransfer (item_onHand source) reservedQuantity
                        (case destination of Some d \<Rightarrow> item_onHand d | None \<Rightarrow> 0) (ti_quantity input)) (\<lambda>calculated.
               bindE (move_stock e source destination input calculated db) (\<lambda>(dest, db1).
               record_transfer e source dest reservedQuantity (sourceOnHandAfter calculated) input key
                 keyHash fingerprint db1))))))"

definition transfer ::
  "env \<Rightarrow> string \<Rightarrow> transfer_input \<Rightarrow> string option \<Rightarrow> 'a stock_db_scheme \<Rightarrow> 'a stock_db_scheme \<Rightarrow>
   (transfer_response \<times> 'a stock_db_scheme) result" where
  "transfer e sourceId input idempotencyKey seen db =
     bindE (requireIdempotencyKey idempotencyKey) (\<lambda>key.
     let keyHash = idempotency_key_hash e ''transfer'' (actor e) key;
         fingerprint = request_fingerprint e (transfer_json sourceId input)
     in bindE (replayTransfer keyHash fingerprint seen) (\<lambda>replay.
        case replay of
          Some r \<Rightarrow> Inr (r, db)
        | None \<Rightarrow>
            bindE (some_or (find_item seen sourceId) (notFound ''INVENTORY_ITEM_NOT_FOUND'')) (\<lambda>snapshot.
            require (item_locationId snapshot \<noteq> ti_destinationLocationId input)
              (badRequest ''INVENTORY_TRANSFER_SAME_LOCATION'') (
            case transfer_tx e sourceId (item_locationId snapshot) input key keyHash fingerprint db of
              Inr x \<Rightarrow> Inr x
            | Inl err \<Rightarrow>
                if err = PrismaError ''P2002''
                then bindE (replayTransfer keyHash fingerprint db) (\<lambda>raced.
                     case raced of Some r \<Rightarrow> Inr (r, db) | None \<Rightarrow> Inl err)
                else Inl err))))"

section \<open>updateThreshold\<close>

record threshold_input =
  th_lowStockThreshold :: int
  th_expectedVersion :: int

record threshold_response =
  tr_variantId :: string
  tr_lowStockThreshold :: int
  tr_version :: int

definition updateThreshold ::
  "env \<Rightarrow> string \<Rightarrow> threshold_input \<Rightarrow> 'a stock_db_scheme \<Rightarrow> (threshold_response \<times> 'a stock_db_scheme) result" where
  "updateThreshold e variantId input db =
     bindE (some_or (List.find (\<lambda>v. var_id v = variantId \<and> var_deletedAt v = None) (variants db))
              (notFound ''INVENTORY_VARIANT_NOT_FOUND'')) (\<lambda>current.
     require (var_version current = th_expectedVersion input) (conflict ''VERSION_CONFLICT'') (
     require (var_lowStockThreshold current \<noteq> th_lowStockThreshold input)
       (badRequest ''LOW_STOCK_THRESHOLD_UNCHANGED'') (
     let hit = (\<lambda>v. var_id v = variantId \<and> var_version v = th_expectedVersion input \<and> var_deletedAt v = None)
     in require (count_where hit (variants db) = 1) (conflict ''VERSION_CONFLICT'') (
        bindE (create_audit e
                 (admin_audit e ''inventory.low_stock_threshold.update'' ''ProductVariant'' variantId
                   (JObj [(''lowStockThreshold'', JNum (var_lowStockThreshold current)),
                          (''version'', JNum (var_version current))])
                   (JObj [(''lowStockThreshold'', JNum (th_lowStockThreshold input)),
                          (''version'', JNum (var_version current + 1))]))
                 (db\<lparr> variants := update_where hit
                         (\<lambda>v. v\<lparr> var_lowStockThreshold := th_lowStockThreshold input,
                                 var_version := var_version v + 1 \<rparr>) (variants db) \<rparr>)) (\<lambda>(_, db1).
        Inr (\<lparr> tr_variantId = variantId, tr_lowStockThreshold = th_lowStockThreshold input,
               tr_version = var_version current + 1 \<rparr>, db1))))))"

section \<open>getVariant\<close>

record item_view =
  iv_id :: string
  iv_lotKey :: string
  iv_location :: "location option"
  iv_batch :: "batch option"
  iv_onHandQuantity :: int
  iv_reservedQuantity :: int
  iv_availableQuantity :: int
  iv_committedQuantity :: int
  iv_version :: int

record variant_view =
  vv_id :: string
  vv_productId :: string
  vv_nameFr :: string
  vv_nameAr :: string
  vv_sku :: string
  vv_lowStockThreshold :: int
  vv_version :: int
  vv_onHandQuantity :: int
  vv_reservedQuantity :: int
  vv_availableQuantity :: int
  vv_committedQuantity :: int
  vv_items :: "item_view list"
  vv_asOf :: int

definition view_item :: "int \<Rightarrow> 'a stock_db_scheme \<Rightarrow> item \<Rightarrow> item_view" where
  "view_item t db i =
     (let r = sum_by res_quantity (filter (\<lambda>r. res_itemId r = item_id i \<and> active_at t r) (reservations db))
      in \<lparr> iv_id = item_id i, iv_lotKey = item_lotKey i,
           iv_location = List.find (\<lambda>l. loc_id l = item_locationId i) (locations db),
           iv_batch = Option.bind (item_batchId i) (\<lambda>b. List.find (\<lambda>x. batch_id x = b) (batches db)),
           iv_onHandQuantity = item_onHand i, iv_reservedQuantity = r,
           iv_availableQuantity = item_onHand i - r, iv_committedQuantity = 0,
           iv_version = item_version i \<rparr>)"

definition getVariant :: "int \<Rightarrow> string \<Rightarrow> 'a stock_db_scheme \<Rightarrow> variant_view result" where
  "getVariant t variantId db =
     bindE (some_or (List.find (\<lambda>v. var_id v = variantId \<and> var_deletedAt v = None) (variants db))
              (notFound ''INVENTORY_VARIANT_NOT_FOUND'')) (\<lambda>v.
     let is = map (view_item t db)
                (sort_key (\<lambda>i. (item_locationId i, item_lotKey i, item_id i))
                  (filter (\<lambda>i. item_variantId i = variantId) (items db)))
     in Inr \<lparr> vv_id = var_id v, vv_productId = var_productId v, vv_nameFr = var_nameFr v,
              vv_nameAr = var_nameAr v, vv_sku = var_sku v, vv_lowStockThreshold = var_lowStockThreshold v,
              vv_version = var_version v, vv_onHandQuantity = sum_by iv_onHandQuantity is,
              vv_reservedQuantity = sum_by iv_reservedQuantity is,
              vv_availableQuantity = sum_by iv_availableQuantity is, vv_committedQuantity = 0,
              vv_items = is, vv_asOf = t \<rparr>)"

section \<open>Listings\<close>

record 'r page =
  pg_items :: "'r list"
  pg_page :: nat
  pg_pageSize :: nat
  pg_total :: nat
  pg_totalPages :: nat

text \<open>\<open>skip: (page - 1) * limit, take: limit\<close> and \<open>Math.ceil(total / limit)\<close>.\<close>

definition paginate :: "nat \<Rightarrow> nat \<Rightarrow> 'r list \<Rightarrow> 'r page" where
  "paginate page limit rows =
     \<lparr> pg_items = take limit (drop ((page - 1) * limit) rows), pg_page = page, pg_pageSize = limit,
       pg_total = length rows, pg_totalPages = (length rows + limit - 1) div limit \<rparr>"

definition list_movements :: "string \<Rightarrow> nat \<Rightarrow> nat \<Rightarrow> 'a stock_db_scheme \<Rightarrow> movement page result" where
  "list_movements iid page limit db =
     bindE (some_or (find_item db iid) (notFound ''INVENTORY_ITEM_NOT_FOUND'')) (\<lambda>_.
     Inr (paginate page limit
            (rev (sort_key (\<lambda>m. (mv_occurredAt m, mv_id m))
               (filter (\<lambda>m. mv_itemId m = iid) (movements db))))))"

definition list_adjustments ::
  "adjustment_status option \<Rightarrow> nat \<Rightarrow> nat \<Rightarrow> 'a stock_db_scheme \<Rightarrow> (adjustment \<times> int) page" where
  "list_adjustments status page limit db =
     paginate page limit
       (map (\<lambda>a. (a, adj_onHandBefore a + adj_delta a))
         (rev (sort_key (\<lambda>a. (adj_requestedAt a, adj_id a))
            (filter (\<lambda>a. case status of None \<Rightarrow> True | Some x \<Rightarrow> adj_status a = x) (adjustments db)))))"

definition list_transfers :: "nat \<Rightarrow> nat \<Rightarrow> 'a stock_db_scheme \<Rightarrow> transfer_row page" where
  "list_transfers page limit db =
     paginate page limit (rev (sort_key (\<lambda>x. (xf_occurredAt x, xf_id x)) (transfers db)))"

definition list_locations :: "'a stock_db_scheme \<Rightarrow> location list" where
  "list_locations db = take 100 (sort_key (\<lambda>l. (loc_name l, loc_id l)) (filter loc_active (locations db)))"

end
