(* ===== verification/OutboxWorker.thy ===== *)
theory OutboxWorker
  imports WorkerContracts Inventory
begin

text \<open>
  The worker of the outbox (\<open>apps/worker/src\<close>): \<open>outbox-repository.ts\<close> claims, publishes and retries
  events, \<open>outbox-publisher.ts\<close> is one poll, \<open>outbox-sources.ts\<close> schedules recurring work, and the part of
  \<open>outbox-processor.ts\<close> that expires reservations and deletes media objects.  The queue and the object
  storage are outside the repository: adding a job and deleting an object are parameters that either
  fail with an error or do not.
\<close>

section \<open>Events\<close>

definition find_event :: "'a shop_db_scheme \<Rightarrow> string \<Rightarrow> outbox_event option" where
  "find_event db eid = List.find (\<lambda>v. ob_id v = eid) (outbox db)"

definition set_event :: "string \<Rightarrow> (outbox_event \<Rightarrow> outbox_event) \<Rightarrow> 'a shop_db_scheme \<Rightarrow> 'a shop_db_scheme" where
  "set_event eid f db = db\<lparr> outbox := update_where (\<lambda>v. ob_id v = eid) f (outbox db) \<rparr>"

text \<open>The updates of an event the worker makes.\<close>

definition processed_event :: "env \<Rightarrow> string option \<Rightarrow> outbox_event \<Rightarrow> outbox_event" where
  "processed_event e code v =
     v\<lparr> ob_status := OB_PROCESSED, ob_processedAt := Some (now e), ob_leaseOwner := None,
        ob_leaseExpiresAt := None, ob_safeErrorCode := code \<rparr>"

definition processing_event :: "env \<Rightarrow> worker_env \<Rightarrow> outbox_event \<Rightarrow> outbox_event" where
  "processing_event e w v =
     v\<lparr> ob_status := OB_PROCESSING, ob_leaseOwner := Some (WORKER_INSTANCE_ID w),
        ob_leaseExpiresAt := Some (now e + OUTBOX_LEASE_MS w) \<rparr>"

definition dead_event :: "env \<Rightarrow> string \<Rightarrow> outbox_event \<Rightarrow> outbox_event" where
  "dead_event e code v =
     v\<lparr> ob_status := OB_DEAD_LETTER, ob_deadLetteredAt := Some (now e), ob_safeErrorCode := Some code,
        ob_leaseOwner := None, ob_leaseExpiresAt := None \<rparr>"

definition retry_event :: "int \<Rightarrow> string \<Rightarrow> outbox_event \<Rightarrow> outbox_event" where
  "retry_event availableAt code v =
     v\<lparr> ob_status := OB_RETRY, ob_availableAt := availableAt, ob_safeErrorCode := Some code,
        ob_leaseOwner := None, ob_leaseExpiresAt := None \<rparr>"

section \<open>outbox-repository.ts\<close>

definition exhausted :: "outbox_event \<Rightarrow> bool" where
  "exhausted v =
     (ob_status v \<in> {OB_PENDING, OB_LEASED, OB_PUBLISHED, OB_PROCESSING, OB_RETRY} \<and> ob_attemptCount v \<ge> ob_maxAttempts v)"

definition exhaust_event :: "env \<Rightarrow> outbox_event \<Rightarrow> outbox_event" where
  "exhaust_event e v =
     v\<lparr> ob_status := OB_DEAD_LETTER, ob_deadLetteredAt := Some (now e),
        ob_safeErrorCode := Some (case ob_safeErrorCode v of Some c \<Rightarrow> c | None \<Rightarrow> ''ATTEMPTS_EXHAUSTED''),
        ob_leaseOwner := None, ob_leaseExpiresAt := None \<rparr>"

definition claimable :: "env \<Rightarrow> outbox_event \<Rightarrow> bool" where
  "claimable e v =
     (ob_attemptCount v < ob_maxAttempts v
      \<and> ((ob_status v \<in> {OB_PENDING, OB_RETRY} \<and> ob_availableAt v \<le> now e)
         \<or> (ob_status v \<in> {OB_LEASED, OB_PUBLISHED, OB_PROCESSING}
            \<and> (case ob_leaseExpiresAt v of None \<Rightarrow> False | Some t \<Rightarrow> t \<le> now e))))"

definition lease_event :: "env \<Rightarrow> worker_env \<Rightarrow> outbox_event \<Rightarrow> outbox_event" where
  "lease_event e w v =
     v\<lparr> ob_status := OB_LEASED, ob_leaseOwner := Some (WORKER_INSTANCE_ID w),
        ob_leaseExpiresAt := Some (now e + OUTBOX_LEASE_MS w), ob_attemptCount := ob_attemptCount v + 1,
        ob_lastAttemptAt := Some (now e), ob_safeErrorCode := None \<rparr>"

definition event_order :: "outbox_event \<Rightarrow> int \<times> string" where
  "event_order v = (ob_availableAt v, ob_id v)"

definition claimAvailable ::
  "env \<Rightarrow> worker_env \<Rightarrow> 'a shop_db_scheme \<Rightarrow> outbox_event list \<times> 'a shop_db_scheme" where
  "claimAvailable e w db =
     (let db1 = db\<lparr> outbox := update_where exhausted (exhaust_event e) (outbox db) \<rparr>;
          rows = take (OUTBOX_BATCH_SIZE w) (sort_key event_order (filter (claimable e) (outbox db1)));
          ids = map ob_id rows
      in if length ids = 0 then ([], db1)
         else
           let db2 = db1\<lparr> outbox := update_where (\<lambda>v. ob_id v \<in> set ids) (lease_event e w) (outbox db1) \<rparr>
           in (sort_key event_order (filter (\<lambda>v. ob_id v \<in> set ids \<and> ob_status v = OB_LEASED
                 \<and> ob_leaseOwner v = Some (WORKER_INSTANCE_ID w)) (outbox db2)), db2))"

definition markPublished ::
  "env \<Rightarrow> worker_env \<Rightarrow> string \<Rightarrow> string \<Rightarrow> 'a shop_db_scheme \<Rightarrow> bool \<times> 'a shop_db_scheme" where
  "markPublished e w eid jobId db =
     (let hit = (\<lambda>v. ob_id v = eid \<and> ob_status v = OB_LEASED \<and> ob_leaseOwner v = Some (WORKER_INSTANCE_ID w))
      in (count_where hit (outbox db) = 1,
          db\<lparr> outbox := update_where hit
                (\<lambda>v. v\<lparr> ob_status := OB_PUBLISHED, ob_publishedAt := Some (now e), ob_publishedJobId := Some jobId,
                        ob_leaseExpiresAt := Some (now e + OUTBOX_PUBLISHED_LEASE_MS w) \<rparr>) (outbox db) \<rparr>))"

datatype retry_outcome = RETRY_SCHEDULED | RETRY_DEAD_LETTER | RETRY_TERMINAL | RETRY_MISSING

definition finished :: "outbox_status \<Rightarrow> bool" where
  "finished s = (s \<in> {OB_PROCESSED, OB_DEAD_LETTER, OB_CANCELLED})"

definition scheduleRetry ::
  "env \<Rightarrow> worker_env \<Rightarrow> string \<Rightarrow> string \<Rightarrow> 'a shop_db_scheme \<Rightarrow> retry_outcome \<times> 'a shop_db_scheme" where
  "scheduleRetry e w eid errorCode db =
     (case find_event db eid of
        None \<Rightarrow> (RETRY_MISSING, db)
      | Some v \<Rightarrow>
          if finished (ob_status v) then (RETRY_TERMINAL, db)
          else if ob_attemptCount v \<ge> ob_maxAttempts v then
            (RETRY_DEAD_LETTER, set_event (ob_id v) (dead_event e (take 100 errorCode)) db)
          else
            let retryDelay = exponentialRetryDelay (ob_attemptCount v) (OUTBOX_RETRY_BASE_MS w) (OUTBOX_RETRY_MAX_MS w)
            in (RETRY_SCHEDULED, set_event (ob_id v) (retry_event (now e + retryDelay) (take 100 errorCode)) db))"

section \<open>outbox-publisher.ts\<close>

record outbox_job =
  job_outboxEventId :: string
  job_eventType :: string
  job_eventVersion :: int

text \<open>
  One claimed event: its payload is checked, a job with its deterministic id is added to the queue, and
  the event is marked as published; any error defers it.  \<open>add\<close> is the queue; the jobs added are kept.
\<close>

definition publish_event ::
  "env \<Rightarrow> worker_env \<Rightarrow> (string \<Rightarrow> outbox_job \<Rightarrow> worker_error option) \<Rightarrow> outbox_event
     \<Rightarrow> (string \<times> outbox_job) list \<times> 'a shop_db_scheme \<Rightarrow> (string \<times> outbox_job) list \<times> 'a shop_db_scheme" where
  "publish_event e w add v = (\<lambda>(jobs, db).
     let jobId = deterministicJobId e (ob_deterministicKey v);
         job = \<lparr> job_outboxEventId = ob_id v, job_eventType = ob_eventType v, job_eventVersion = ob_eventVersion v \<rparr>
     in case bindE (parseEventPayload w (ob_eventType v) (ob_eventVersion v) (ob_payload v)) (\<lambda>_.
               case add jobId job of Some x \<Rightarrow> Inl x | None \<Rightarrow> Inr ()) of
          Inl x \<Rightarrow> (jobs, snd (scheduleRetry e w (ob_id v) (safeErrorCode x) db))
        | Inr _ \<Rightarrow> (jobs @ [(jobId, job)], snd (markPublished e w (ob_id v) jobId db)))"

text \<open>\<open>polling\<close> is set while another poll of the same instance is under way.  The events are claimed at \<open>e\<close>
  and published at \<open>e'\<close>.\<close>

definition pollOnce ::
  "env \<Rightarrow> env \<Rightarrow> worker_env \<Rightarrow> (string \<Rightarrow> outbox_job \<Rightarrow> worker_error option) \<Rightarrow> bool \<Rightarrow> 'a shop_db_scheme
     \<Rightarrow> nat \<times> (string \<times> outbox_job) list \<times> 'a shop_db_scheme" where
  "pollOnce e e' w add polling db =
     (if polling then (0, [], db)
      else let (events, db1) = claimAvailable e w db
           in (length events, fold (publish_event e' w add) events ([], db1)))"

section \<open>outbox-sources.ts\<close>

definition upsert_event :: "env \<Rightarrow> outbox_event \<Rightarrow> 'a shop_db_scheme \<Rightarrow> 'a shop_db_scheme result" where
  "upsert_event e row db =
     (case List.find (\<lambda>v. ob_deterministicKey v = ob_deterministicKey row) (outbox db) of
        Some _ \<Rightarrow> Inr db
      | None \<Rightarrow> bindE (create_outbox_event e row db) (\<lambda>(_, db1). Inr db1))"

definition scheduled_event ::
  "worker_env \<Rightarrow> string \<Rightarrow> string \<Rightarrow> string \<Rightarrow> string \<Rightarrow> json \<Rightarrow> int \<Rightarrow> outbox_event" where
  "scheduled_event w key aggregateType aggregateId eventType payload availableAt =
     \<lparr> ob_id = [], ob_deterministicKey = key, ob_aggregateType = aggregateType, ob_aggregateId = aggregateId,
       ob_eventType = eventType, ob_eventVersion = 1, ob_payload = payload, ob_status = OB_PENDING,
       ob_availableAt = availableAt, ob_leaseOwner = None, ob_leaseExpiresAt = None, ob_attemptCount = 0,
       ob_maxAttempts = OUTBOX_MAX_ATTEMPTS w, ob_lastAttemptAt = None, ob_publishedAt = None,
       ob_publishedJobId = None, ob_processedAt = None, ob_deadLetteredAt = None, ob_safeErrorCode = None \<rparr>"

definition enqueueReservationExpiry :: "env \<Rightarrow> worker_env \<Rightarrow> 'a shop_db_scheme \<Rightarrow> 'a shop_db_scheme result" where
  "enqueueReservationExpiry e w db =
     (let bucket = now e div RESERVATION_EXPIRY_INTERVAL_MS w
      in upsert_event e
           (scheduled_event w (''reservation-expiry:v1:'' @ int_text bucket) ''Inventory'' ''reservations''
              RESERVATION_EXPIRY
              (JObj [(''cutoff'', JStr (iso_string (now e))), (''batchSize'', JNum (RESERVATION_EXPIRY_BATCH_SIZE w))])
              (now e)) db)"

definition bridge_notification :: "env \<Rightarrow> worker_env \<Rightarrow> notification \<Rightarrow> 'a shop_db_scheme \<Rightarrow> 'a shop_db_scheme result" where
  "bridge_notification e w n db =
     upsert_event e
       (scheduled_event w (dispatch_key (nt_id n)) ''Notification'' (nt_id n) NOTIFICATION_DISPATCH
          (JObj [(''notificationId'', JStr (nt_id n))]) (now e)) db"

definition bridgeNotifications :: "env \<Rightarrow> worker_env \<Rightarrow> 'a shop_db_scheme \<Rightarrow> 'a shop_db_scheme result" where
  "bridgeNotifications e w db =
     foldE (bridge_notification e w)
       (take (OUTBOX_BATCH_SIZE w) (sort_key (\<lambda>n. (nt_scheduledAt n, nt_id n))
          (filter (\<lambda>n. nt_status n = NT_QUEUED \<and> nt_scheduledAt n \<le> now e) (notifications db)))) db"

text \<open>
  The upserts are separate transactions: what was written before one of them fails stays.
\<close>

definition enqueueScheduledWork :: "env \<Rightarrow> worker_env \<Rightarrow> 'a shop_db_scheme \<Rightarrow> 'a shop_db_scheme result" where
  "enqueueScheduledWork e w db =
     bindE (enqueueReservationExpiry e w db) (\<lambda>db1.
     if NOTIFICATION_BRIDGE_ENABLED w then bridgeNotifications e w db1 else Inr db1)"

section \<open>Expiring reservations\<close>

fun source_name :: "reservation_source \<Rightarrow> string" where
  "source_name SRC_CART = ''CART''"
| "source_name SRC_CHECKOUT = ''CHECKOUT''"
| "source_name SRC_ORDER = ''ORDER''"

definition due_reservation :: "int \<Rightarrow> reservation \<Rightarrow> bool" where
  "due_reservation cutoff r = (res_state r = RS_ACTIVE \<and> res_expiresAt r \<le> cutoff)"

definition expired_row :: "env \<Rightarrow> reservation \<Rightarrow> reservation" where
  "expired_row e r =
     r\<lparr> res_state := RS_EXPIRED, res_activeKey := None, res_releasedAt := Some (now e),
        res_releaseReason := Some ''RESERVATION_EXPIRED'' \<rparr>"

definition expiry_movement :: "env \<Rightarrow> string \<Rightarrow> item \<Rightarrow> reservation \<Rightarrow> movement" where
  "expiry_movement e eid i r =
     \<lparr> mv_id = [], mv_itemId = item_id i, mv_locationId = item_locationId i, mv_batchId = item_batchId i,
       mv_type = RESERVATION_RELEASE, mv_delta = 0, mv_onHandAfter = item_onHand i,
       mv_referenceType = Some (if or_null (res_orderId r) \<noteq> None then ''ORDER'' else source_name (res_sourceType r)),
       mv_referenceId = Some (case res_orderId r of Some oid \<Rightarrow> oid | None \<Rightarrow> res_sourceId r),
       mv_reasonCode = Some ''RESERVATION_EXPIRED'', mv_note = None, mv_actorUserId = None,
       mv_requestId = Some (''outbox:'' @ eid), mv_keyHash = None, mv_fingerprint = None, mv_occurredAt = now e \<rparr>"

definition expiry_audit :: "env \<Rightarrow> string \<Rightarrow> reservation \<Rightarrow> audit_log" where
  "expiry_audit e eid r =
     \<lparr> audit_id = [], audit_actorUserId = None, audit_actorType = ACTOR_SYSTEM,
       audit_action = ''inventory.reservation.expired'', audit_resourceType = ''StockReservation'',
       audit_resourceId = Some (res_id r), audit_outcome = SUCCESS, audit_requestId = ''outbox:'' @ eid,
       audit_ipAddress = None, audit_userAgent = None,
       audit_before = JObj [(''state'', JStr ''ACTIVE''), (''quantity'', JNum (res_quantity r)),
         (''inventoryItemId'', JStr (res_itemId r))],
       audit_after = JObj [(''state'', JStr ''EXPIRED''), (''physicalQuantityDelta'', JNum 0)] \<rparr>"

definition expire_reservation ::
  "env \<Rightarrow> string \<Rightarrow> int \<Rightarrow> item list \<Rightarrow> reservation \<Rightarrow> nat \<times> 'a stock_db_scheme
     \<Rightarrow> (nat \<times> 'a stock_db_scheme) worker_result" where
  "expire_reservation e eid cutoff its r = (\<lambda>(releasedCount, db).
     case List.find (\<lambda>i. item_id i = res_itemId r) its of
       None \<Rightarrow> Inl (DomainError ''RESERVATION_INVARIANT_BREACH'')
     | Some i \<Rightarrow>
         require (\<not> (res_quantity r \<le> 0 \<or> res_expiresAt r > cutoff)) (DomainError ''RESERVATION_INVARIANT_BREACH'') (
         let hit = (\<lambda>x. res_id x = res_id r \<and> due_reservation cutoff x);
             db1 = db\<lparr> reservations := update_where hit (expired_row e) (reservations db) \<rparr>
         in if count_where hit (reservations db) \<noteq> 1 then Inr (releasedCount, db1)
            else
              bindE (thrown (create_movement e (expiry_movement e eid i r) db1)) (\<lambda>(_, db2).
              bindE (thrown (create_audit e (expiry_audit e eid r) db2)) (\<lambda>(_, db3).
              Inr (releasedCount + 1, db3)))))"

definition by_item :: "reservation \<Rightarrow> string \<times> string" where
  "by_item r = (res_itemId r, res_id r)"

definition expire_due ::
  "env \<Rightarrow> string \<Rightarrow> int \<Rightarrow> int \<Rightarrow> 'a stock_db_scheme \<Rightarrow> (nat \<times> 'a stock_db_scheme) worker_result" where
  "expire_due e eid cutoff batchSize db =
     (let locked = take (nat batchSize) (sort_key by_item (filter (due_reservation cutoff) (reservations db)))
      in if length locked = 0 then Inr (0, db)
         else
           let inventoryIds = sort (remdups (map res_itemId locked));
               rs = sort_key by_item (filter (\<lambda>r. res_id r \<in> set (map res_id locked) \<and> due_reservation cutoff r) (reservations db));
               its = sort_key item_id (filter (\<lambda>i. item_id i \<in> set inventoryIds) (items db))
           in require (\<not> length its \<noteq> length inventoryIds) (DomainError ''INVENTORY_ITEM_MISSING'')
                (foldE (expire_reservation e eid cutoff its) rs (0, db)))"

definition expireReservations ::
  "env \<Rightarrow> worker_env \<Rightarrow> string \<Rightarrow> string \<Rightarrow> int \<Rightarrow> 'a stock_db_scheme \<Rightarrow> (nat \<times> 'a stock_db_scheme) worker_result" where
  "expireReservations e w eid cutoffValue batchSize db =
     (case date_parse w cutoffValue of
        None \<Rightarrow> Inl (DomainError ''RESERVATION_CUTOFF_INVALID'')
      | Some cutoff \<Rightarrow>
          require (\<not> cutoff > now e + 5000) (DomainError ''RESERVATION_CUTOFF_INVALID'')
            (expire_due e eid cutoff batchSize db))"

section \<open>outbox-processor.ts: events without an external call\<close>

datatype process_outcome = PROCESSED | ALREADY_PROCESSED | TERMINAL

text \<open>
  The checks that begin every handler: a missing event is an error, a finished one is left alone, and
  the job must carry the type and version of its event.
\<close>

definition handled_before :: "outbox_event \<Rightarrow> process_outcome option" where
  "handled_before v =
     (if ob_status v = OB_PROCESSED then Some ALREADY_PROCESSED
      else if ob_status v \<in> {OB_DEAD_LETTER, OB_CANCELLED} then Some TERMINAL
      else None)"

definition job_event_payload :: "worker_env \<Rightarrow> outbox_job \<Rightarrow> outbox_event \<Rightarrow> event_payload worker_result" where
  "job_event_payload w job v =
     require (\<not> (ob_eventType v \<noteq> job_eventType job \<or> ob_eventVersion v \<noteq> job_eventVersion job))
       (DomainError ''OUTBOX_JOB_MISMATCH'') (
     bindE (parseStoredJson w (ob_payload v)) (parseEventPayload w (ob_eventType v) (ob_eventVersion v)))"

definition handle_payload ::
  "env \<Rightarrow> worker_env \<Rightarrow> string \<Rightarrow> event_payload \<Rightarrow> 'a shop_db_scheme \<Rightarrow> (nat \<times> 'a shop_db_scheme) worker_result" where
  "handle_payload e w eid p db =
     (case p of
        ReservationExpiry cutoff batchSize \<Rightarrow> expireReservations e w eid cutoff batchSize db
      | NotificationDispatch _ \<Rightarrow> Inl (DomainError ''OUTBOX_HANDLER_ROUTE_MISMATCH'')
      | _ \<Rightarrow> Inr (0, db))"

definition processTransaction ::
  "env \<Rightarrow> worker_env \<Rightarrow> outbox_job \<Rightarrow> 'a shop_db_scheme \<Rightarrow> ((process_outcome \<times> nat) \<times> 'a shop_db_scheme) worker_result" where
  "processTransaction e w job db =
     bindE (some_or (find_event db (job_outboxEventId job)) (DomainError ''OUTBOX_EVENT_MISSING'')) (\<lambda>v.
     case handled_before v of
       Some outcome \<Rightarrow> Inr ((outcome, 0), db)
     | None \<Rightarrow>
         bindE (job_event_payload w job v) (\<lambda>p.
         bindE (handle_payload e w (ob_id v) p (set_event (ob_id v) (processing_event e w) db)) (\<lambda>(affectedCount, db1).
         Inr ((PROCESSED, affectedCount), set_event (ob_id v) (processed_event e None) db1))))"

definition process_other :: "env \<Rightarrow> worker_env \<Rightarrow> outbox_job \<Rightarrow> 'a shop_db_scheme \<Rightarrow> 'a shop_db_scheme" where
  "process_other e w job db =
     (case processTransaction e w job db of
        Inr (_, db1) \<Rightarrow> db1
      | Inl x \<Rightarrow> snd (scheduleRetry e w (job_outboxEventId job) (safeErrorCode x) db))"

section \<open>outbox-processor.ts: media objects\<close>

datatype media_claim = MEDIA_DELETE "(string \<times> string) list" | MEDIA_DONE process_outcome

definition media_work :: "event_payload \<Rightarrow> (string \<times> string) list worker_result" where
  "media_work p =
     (case p of
        MediaDeleteV1 bucket key \<Rightarrow> Inr [(bucket, key)]
      | MediaDeleteV2 bucket keys \<Rightarrow> Inr (map (\<lambda>k. (bucket, k)) keys)
      | _ \<Rightarrow> Inl (DomainError ''OUTBOX_HANDLER_ROUTE_MISMATCH''))"

definition claimMediaDeletion ::
  "env \<Rightarrow> worker_env \<Rightarrow> outbox_job \<Rightarrow> 'a shop_db_scheme \<Rightarrow> (media_claim \<times> 'a shop_db_scheme) worker_result" where
  "claimMediaDeletion e w job db =
     bindE (some_or (find_event db (job_outboxEventId job)) (DomainError ''OUTBOX_EVENT_MISSING'')) (\<lambda>v.
     case handled_before v of
       Some outcome \<Rightarrow> Inr (MEDIA_DONE outcome, db)
     | None \<Rightarrow>
         bindE (job_event_payload w job v) (\<lambda>p.
         bindE (media_work p) (\<lambda>work.
         require (\<not> (ob_aggregateType v \<noteq> ''ProductImage''
                     \<or> ob_deterministicKey v \<noteq> ''media-object-delete:v'' @ int_text (ob_eventVersion v) @ '':'' @ ob_aggregateId v))
           (DomainError ''OUTBOX_MEDIA_AGGREGATE_MISMATCH'') (
         Inr (MEDIA_DELETE work, set_event (ob_id v) (processing_event e w) db)))))"

definition completeMediaDeletion ::
  "env \<Rightarrow> outbox_job \<Rightarrow> 'a shop_db_scheme \<Rightarrow> 'a shop_db_scheme worker_result" where
  "completeMediaDeletion e job db =
     bindE (some_or (find_event db (job_outboxEventId job)) (DomainError ''OUTBOX_EVENT_MISSING'')) (\<lambda>v.
     if ob_status v = OB_PROCESSED then Inr db
     else
       require (\<not> (ob_eventType v \<noteq> job_eventType job \<or> ob_eventVersion v \<noteq> job_eventVersion job))
         (DomainError ''OUTBOX_JOB_MISMATCH'') (
       Inr (set_event (job_outboxEventId job) (processed_event e None) db)))"

text \<open>The objects are deleted one after the other; the first failure defers the event.
  The claim is at \<open>e\<close>, the end of the deletions at \<open>e'\<close>.\<close>

definition processMediaDeletion ::
  "env \<Rightarrow> env \<Rightarrow> worker_env \<Rightarrow> (string \<Rightarrow> string \<Rightarrow> worker_error option) \<Rightarrow> outbox_job
     \<Rightarrow> 'a shop_db_scheme \<Rightarrow> 'a shop_db_scheme" where
  "processMediaDeletion e e' w delete_object job db =
     (case claimMediaDeletion e w job db of
        Inl x \<Rightarrow> snd (scheduleRetry e w (job_outboxEventId job) (safeErrorCode x) db)
      | Inr (MEDIA_DONE _, db1) \<Rightarrow> db1
      | Inr (MEDIA_DELETE work, db1) \<Rightarrow>
          (case bindE (foldE (\<lambda>(bucket, key) u. case delete_object bucket key of Some x \<Rightarrow> Inl x | None \<Rightarrow> Inr u) work ())
                  (\<lambda>_. completeMediaDeletion e' job db1) of
             Inl x \<Rightarrow> snd (scheduleRetry e' w (job_outboxEventId job) (safeErrorCode x) db1)
           | Inr db2 \<Rightarrow> db2))"

end
