(* ===== verification/Machines.thy ===== *)
theory Machines
  imports ShopSchema
begin

text \<open>
  The status machines: \<open>orders/order-state-machine.ts\<close> and
  \<open>delivery/delivery-transition-policy.ts\<close>.  A machine is the table of the statuses that may follow
  a status.  \<open>state_machine\<close> is the contract of one that can always be brought to an end,
  \<open>terminating_machine\<close> that of one that cannot go on for ever; both are interpreted on the code's
  tables (the cash tables in \<open>CashSchema\<close>).
\<close>

section \<open>Tables of transitions\<close>

inductive reaches :: "('s \<Rightarrow> 's list) \<Rightarrow> 's \<Rightarrow> 's \<Rightarrow> bool" for succs where
  here: "reaches succs s s"
| onward: "t \<in> set (succs s) \<Longrightarrow> reaches succs t u \<Longrightarrow> reaches succs s u"

inductive_cases reachesE: "reaches succs s t"

text \<open>\<open>run_of succs s ts\<close>: from \<open>s\<close> the statuses \<open>ts\<close> can be taken on one after the other.\<close>

fun run_of :: "('s \<Rightarrow> 's list) \<Rightarrow> 's \<Rightarrow> 's list \<Rightarrow> bool" where
  "run_of succs s [] = True"
| "run_of succs s (t # ts) = (t \<in> set (succs s) \<and> run_of succs t ts)"

lemma reaches_trans [trans]: "reaches f s t \<Longrightarrow> reaches f t u \<Longrightarrow> reaches f s u"
  by (induction rule: reaches.induct) (auto intro: reaches.intros)

lemma reaches_step: "t \<in> set (f s) \<Longrightarrow> reaches f s t"
  by (blast intro: reaches.intros)

lemma reaches_simulation:
  assumes "reaches f s t" and "\<And>s t. t \<in> set (f s) \<Longrightarrow> reaches g s t"
  shows "reaches g s t"
  using assms(1) by (induction) (auto intro: reaches.here reaches_trans assms(2))

text \<open>A set of statuses the table never leaves.\<close>

lemma reaches_closed:
  assumes "reaches f s t" and "P s" and "\<And>s t. P s \<Longrightarrow> t \<in> set (f s) \<Longrightarrow> P t"
  shows "P t"
  using assms(1,2) by (induction) (auto dest: assms(3))

locale state_machine =
  fixes succs :: "'s \<Rightarrow> 's list" and depth :: "'s \<Rightarrow> nat"
  assumes downhill: "succs s \<noteq> [] \<Longrightarrow> \<exists>t\<in>set (succs s). depth t < depth s"
begin

lemma ends: "\<exists>t. reaches succs s t \<and> succs t = []"
proof (induction "depth s" arbitrary: s rule: less_induct)
  case less
  show ?case
  proof (cases "succs s = []")
    case True
    then show ?thesis by (blast intro: reaches.here)
  next
    case False
    then obtain t where "t \<in> set (succs s)" and "depth t < depth s" using downhill by blast
    then show ?thesis using less by (blast intro: reaches.onward)
  qed
qed

lemma final: "succs s = [] \<Longrightarrow> reaches succs s t \<Longrightarrow> t = s"
  by (auto elim: reachesE)

end

locale terminating_machine =
  fixes succs :: "'s \<Rightarrow> 's list" and depth :: "'s \<Rightarrow> nat"
  assumes always_downhill: "t \<in> set (succs s) \<Longrightarrow> depth t < depth s"
begin

lemma bounded: "run_of succs s ts \<Longrightarrow> length ts \<le> depth s"
  by (induction ts arbitrary: s) (simp, metis Suc_leI always_downhill le_less_trans length_Cons run_of.simps(2))

lemma no_return: "reaches succs s t \<Longrightarrow> t = s \<or> depth t < depth s"
  by (induction rule: reaches.induct) (auto dest: always_downhill)

end

sublocale terminating_machine \<subseteq> machine: state_machine succs depth
proof
  fix s assume "succs s \<noteq> []"
  then obtain t where "t \<in> set (succs s)" by (cases "succs s") auto
  then show "\<exists>t\<in>set (succs s). depth t < depth s" using always_downhill by blast
qed

section \<open>Orders\<close>

text \<open>The names of the statuses, those of an order and those of a delivery.\<close>

fun order_status_name :: "order_status \<Rightarrow> string" where
  "order_status_name PENDING_CONFIRMATION = ''PENDING_CONFIRMATION''"
| "order_status_name CONFIRMED = ''CONFIRMED''"
| "order_status_name ON_HOLD = ''ON_HOLD''"
| "order_status_name PREPARING = ''PREPARING''"
| "order_status_name READY_FOR_PICKUP = ''READY_FOR_PICKUP''"
| "order_status_name ASSIGNED_TO_COURIER = ''ASSIGNED_TO_COURIER''"
| "order_status_name HANDED_TO_COURIER = ''HANDED_TO_COURIER''"
| "order_status_name IN_TRANSIT = ''IN_TRANSIT''"
| "order_status_name OUT_FOR_DELIVERY = ''OUT_FOR_DELIVERY''"
| "order_status_name DELIVERY_ATTEMPTED = ''DELIVERY_ATTEMPTED''"
| "order_status_name RESCHEDULED = ''RESCHEDULED''"
| "order_status_name DELIVERED = ''DELIVERED''"
| "order_status_name REFUSED = ''REFUSED''"
| "order_status_name FAILED = ''FAILED''"
| "order_status_name RETURN_TO_SENDER = ''RETURN_TO_SENDER''"
| "order_status_name RETURNED = ''RETURNED''"
| "order_status_name CANCELLED = ''CANCELLED''"

fun ORDER_STATUS_TRANSITIONS :: "order_status \<Rightarrow> order_status list" where
  "ORDER_STATUS_TRANSITIONS PENDING_CONFIRMATION = [CONFIRMED, ON_HOLD, CANCELLED]"
| "ORDER_STATUS_TRANSITIONS CONFIRMED = [ON_HOLD, PREPARING, CANCELLED]"
| "ORDER_STATUS_TRANSITIONS ON_HOLD = [CONFIRMED, PREPARING, CANCELLED]"
| "ORDER_STATUS_TRANSITIONS PREPARING = [READY_FOR_PICKUP, ASSIGNED_TO_COURIER, CANCELLED]"
| "ORDER_STATUS_TRANSITIONS READY_FOR_PICKUP = [DELIVERED, CANCELLED]"
| "ORDER_STATUS_TRANSITIONS ASSIGNED_TO_COURIER = [HANDED_TO_COURIER, CANCELLED]"
| "ORDER_STATUS_TRANSITIONS HANDED_TO_COURIER = [IN_TRANSIT, RETURN_TO_SENDER]"
| "ORDER_STATUS_TRANSITIONS IN_TRANSIT = [OUT_FOR_DELIVERY, DELIVERY_ATTEMPTED, RETURN_TO_SENDER]"
| "ORDER_STATUS_TRANSITIONS OUT_FOR_DELIVERY = [DELIVERED, DELIVERY_ATTEMPTED, REFUSED, FAILED]"
| "ORDER_STATUS_TRANSITIONS DELIVERY_ATTEMPTED =
     [RESCHEDULED, DELIVERED, REFUSED, FAILED, RETURN_TO_SENDER]"
| "ORDER_STATUS_TRANSITIONS RESCHEDULED = [OUT_FOR_DELIVERY, RETURN_TO_SENDER]"
| "ORDER_STATUS_TRANSITIONS DELIVERED = []"
| "ORDER_STATUS_TRANSITIONS REFUSED = [RETURN_TO_SENDER]"
| "ORDER_STATUS_TRANSITIONS FAILED = [RESCHEDULED, RETURN_TO_SENDER]"
| "ORDER_STATUS_TRANSITIONS RETURN_TO_SENDER = [RETURNED]"
| "ORDER_STATUS_TRANSITIONS RETURNED = []"
| "ORDER_STATUS_TRANSITIONS CANCELLED = []"

definition EARLY_CANCELLATION_STATUSES :: "order_status set" where
  "EARLY_CANCELLATION_STATUSES =
     {PENDING_CONFIRMATION, CONFIRMED, ON_HOLD, PREPARING, READY_FOR_PICKUP, ASSIGNED_TO_COURIER}"

definition canTransitionOrder :: "order_status \<Rightarrow> order_status \<Rightarrow> bool" where
  "canTransitionOrder from_status to_status = (to_status \<in> set (ORDER_STATUS_TRANSITIONS from_status))"

text \<open>How far a status is from the end of an order.\<close>

fun order_depth :: "order_status \<Rightarrow> nat" where
  "order_depth PENDING_CONFIRMATION = 1"
| "order_depth CONFIRMED = 1"
| "order_depth ON_HOLD = 1"
| "order_depth PREPARING = 1"
| "order_depth READY_FOR_PICKUP = 1"
| "order_depth ASSIGNED_TO_COURIER = 1"
| "order_depth HANDED_TO_COURIER = 2"
| "order_depth IN_TRANSIT = 2"
| "order_depth OUT_FOR_DELIVERY = 1"
| "order_depth DELIVERY_ATTEMPTED = 1"
| "order_depth RESCHEDULED = 2"
| "order_depth DELIVERED = 0"
| "order_depth REFUSED = 2"
| "order_depth FAILED = 2"
| "order_depth RETURN_TO_SENDER = 1"
| "order_depth RETURNED = 0"
| "order_depth CANCELLED = 0"

interpretation order_machine: state_machine ORDER_STATUS_TRANSITIONS order_depth
proof
  fix s assume "ORDER_STATUS_TRANSITIONS s \<noteq> []"
  then show "\<exists>t\<in>set (ORDER_STATUS_TRANSITIONS s). order_depth t < order_depth s" by (cases s) auto
qed

lemma order_final_iff: "ORDER_STATUS_TRANSITIONS s = [] \<longleftrightarrow> s \<in> {DELIVERED, RETURNED, CANCELLED}"
  by (cases s) simp_all

text \<open>The stages of an order; no transition leads back to an earlier one.\<close>

fun order_stage :: "order_status \<Rightarrow> nat" where
  "order_stage PENDING_CONFIRMATION = 0"
| "order_stage CONFIRMED = 1"
| "order_stage ON_HOLD = 1"
| "order_stage PREPARING = 2"
| "order_stage READY_FOR_PICKUP = 3"
| "order_stage ASSIGNED_TO_COURIER = 3"
| "order_stage HANDED_TO_COURIER = 4"
| "order_stage IN_TRANSIT = 5"
| "order_stage RETURN_TO_SENDER = 7"
| "order_stage DELIVERED = 8"
| "order_stage RETURNED = 8"
| "order_stage CANCELLED = 8"
| "order_stage _ = 6"

lemma reaches_stage: "reaches ORDER_STATUS_TRANSITIONS s t \<Longrightarrow> order_stage s \<le> order_stage t"
proof (induction rule: reaches.induct)
  case (onward t s u)
  then have "order_stage s \<le> order_stage t" by (cases s) auto
  with onward.IH show ?case by simp
qed simp

section \<open>Deliveries\<close>

fun DELIVERY_TRANSITIONS :: "delivery_status \<Rightarrow> delivery_status list" where
  "DELIVERY_TRANSITIONS PENDING_CONFIRMATION = []"
| "DELIVERY_TRANSITIONS CONFIRMED = [ON_HOLD, PREPARING]"
| "DELIVERY_TRANSITIONS ON_HOLD = [CONFIRMED]"
| "DELIVERY_TRANSITIONS PREPARING = [READY_FOR_PICKUP, ASSIGNED_TO_COURIER]"
| "DELIVERY_TRANSITIONS READY_FOR_PICKUP = [DELIVERED]"
| "DELIVERY_TRANSITIONS ASSIGNED_TO_COURIER = [HANDED_TO_COURIER]"
| "DELIVERY_TRANSITIONS HANDED_TO_COURIER = [IN_TRANSIT]"
| "DELIVERY_TRANSITIONS IN_TRANSIT = [OUT_FOR_DELIVERY]"
| "DELIVERY_TRANSITIONS OUT_FOR_DELIVERY = [DELIVERY_ATTEMPTED, RESCHEDULED, DELIVERED, REFUSED, FAILED]"
| "DELIVERY_TRANSITIONS DELIVERY_ATTEMPTED = [RESCHEDULED]"
| "DELIVERY_TRANSITIONS RESCHEDULED = [OUT_FOR_DELIVERY]"
| "DELIVERY_TRANSITIONS DELIVERED = []"
| "DELIVERY_TRANSITIONS REFUSED = [RETURN_TO_SENDER]"
| "DELIVERY_TRANSITIONS FAILED = [RETURN_TO_SENDER]"
| "DELIVERY_TRANSITIONS RETURN_TO_SENDER = [RETURNED]"
| "DELIVERY_TRANSITIONS RETURNED = []"
| "DELIVERY_TRANSITIONS CANCELLED = []"

definition OPERATIONAL_DELIVERY_TARGETS :: "delivery_status list" where
  "OPERATIONAL_DELIVERY_TARGETS = [ON_HOLD, CONFIRMED, PREPARING, READY_FOR_PICKUP, ASSIGNED_TO_COURIER,
     HANDED_TO_COURIER, IN_TRANSIT, OUT_FOR_DELIVERY, RETURN_TO_SENDER]"

definition DELIVERY_ASSIGNMENT_STATUSES :: "delivery_status set" where
  "DELIVERY_ASSIGNMENT_STATUSES = {CONFIRMED, PREPARING, ASSIGNED_TO_COURIER}"

datatype attempt_outcome =
    ATTEMPT_DELIVERED | CUSTOMER_UNAVAILABLE | ADDRESS_NOT_FOUND | CUSTOMER_REFUSED
  | FAILED_AGE_VERIFICATION | PARTIAL_CASH_NOT_ALLOWED | ATTEMPT_RESCHEDULED | OTHER_FAILED

definition FAILED_ATTEMPT_OUTCOMES :: "attempt_outcome list" where
  "FAILED_ATTEMPT_OUTCOMES = [CUSTOMER_UNAVAILABLE, ADDRESS_NOT_FOUND, CUSTOMER_REFUSED,
     FAILED_AGE_VERIFICATION, PARTIAL_CASH_NOT_ALLOWED, ATTEMPT_RESCHEDULED, OTHER_FAILED]"

text \<open>The status an attempt ends in; a delivered one is not in the table.\<close>

fun ATTEMPT_OUTCOME_STATUS :: "attempt_outcome \<Rightarrow> delivery_status option" where
  "ATTEMPT_OUTCOME_STATUS CUSTOMER_UNAVAILABLE = Some DELIVERY_ATTEMPTED"
| "ATTEMPT_OUTCOME_STATUS ADDRESS_NOT_FOUND = Some FAILED"
| "ATTEMPT_OUTCOME_STATUS CUSTOMER_REFUSED = Some REFUSED"
| "ATTEMPT_OUTCOME_STATUS FAILED_AGE_VERIFICATION = Some FAILED"
| "ATTEMPT_OUTCOME_STATUS PARTIAL_CASH_NOT_ALLOWED = Some FAILED"
| "ATTEMPT_OUTCOME_STATUS ATTEMPT_RESCHEDULED = Some RESCHEDULED"
| "ATTEMPT_OUTCOME_STATUS OTHER_FAILED = Some FAILED"
| "ATTEMPT_OUTCOME_STATUS ATTEMPT_DELIVERED = None"

definition canTransitionDelivery :: "delivery_status \<Rightarrow> delivery_status \<Rightarrow> bool" where
  "canTransitionDelivery from_status to_status = (to_status \<in> set (DELIVERY_TRANSITIONS from_status))"

fun delivery_depth :: "delivery_status \<Rightarrow> nat" where
  "delivery_depth PENDING_CONFIRMATION = 0"
| "delivery_depth CONFIRMED = 3"
| "delivery_depth ON_HOLD = 4"
| "delivery_depth PREPARING = 2"
| "delivery_depth READY_FOR_PICKUP = 1"
| "delivery_depth ASSIGNED_TO_COURIER = 4"
| "delivery_depth HANDED_TO_COURIER = 3"
| "delivery_depth IN_TRANSIT = 2"
| "delivery_depth OUT_FOR_DELIVERY = 1"
| "delivery_depth DELIVERY_ATTEMPTED = 3"
| "delivery_depth RESCHEDULED = 2"
| "delivery_depth REFUSED = 2"
| "delivery_depth FAILED = 2"
| "delivery_depth RETURN_TO_SENDER = 1"
| "delivery_depth _ = 0"

interpretation delivery_machine: state_machine DELIVERY_TRANSITIONS delivery_depth
proof
  fix s assume "DELIVERY_TRANSITIONS s \<noteq> []"
  then show "\<exists>t\<in>set (DELIVERY_TRANSITIONS s). delivery_depth t < delivery_depth s" by (cases s) auto
qed

lemma delivery_final_iff:
  "DELIVERY_TRANSITIONS s = [] \<longleftrightarrow> s \<in> {PENDING_CONFIRMATION, DELIVERED, RETURNED, CANCELLED}"
  by (cases s) simp_all

lemma delivery_step_in_order:
  "t \<in> set (DELIVERY_TRANSITIONS s) \<Longrightarrow> t \<noteq> RESCHEDULED \<or> s \<noteq> OUT_FOR_DELIVERY
     \<Longrightarrow> t \<in> set (ORDER_STATUS_TRANSITIONS s)"
  by (cases s) auto

lemma delivery_step_reaches: "t \<in> set (DELIVERY_TRANSITIONS s) \<Longrightarrow> reaches ORDER_STATUS_TRANSITIONS s t"
proof (cases "t = RESCHEDULED \<and> s = OUT_FOR_DELIVERY")
  case True
  have "reaches ORDER_STATUS_TRANSITIONS OUT_FOR_DELIVERY DELIVERY_ATTEMPTED" by (rule reaches_step) simp
  also have "reaches ORDER_STATUS_TRANSITIONS DELIVERY_ATTEMPTED RESCHEDULED" by (rule reaches_step) simp
  finally show ?thesis using True by simp
qed (auto intro: reaches_step delivery_step_in_order)

section \<open>Properties\<close>

text \<open>Property C31 (order_can_be_completed): whatever status an order has, the transitions of
  the table can bring it to one of the three final statuses, delivered, returned or cancelled; and
  these three are exactly the ones without a way out.\<close>

theorem order_can_be_completed:
  "(\<exists>t. reaches ORDER_STATUS_TRANSITIONS s t \<and> t \<in> {DELIVERED, RETURNED, CANCELLED})
   \<and> (ORDER_STATUS_TRANSITIONS u = []) = (u \<in> {DELIVERED, RETURNED, CANCELLED})"
  using order_machine.ends [of s] unfolding order_final_iff by blast

text \<open>An order can be cancelled exactly in the
  statuses of \<open>EARLY_CANCELLATION_STATUSES\<close>, and once the parcel has been handed to the courier it
  never comes back to one of them nor to a cancelled order.\<close>

theorem cancellable_until_handover:
  "canTransitionOrder s CANCELLED = (s \<in> EARLY_CANCELLATION_STATUSES)
   \<and> {t. reaches ORDER_STATUS_TRANSITIONS HANDED_TO_COURIER t} \<inter> (EARLY_CANCELLATION_STATUSES \<union> {CANCELLED}) = {}"
proof
  show "canTransitionOrder s CANCELLED = (s \<in> EARLY_CANCELLATION_STATUSES)"
    by (cases s) (simp_all add: canTransitionOrder_def EARLY_CANCELLATION_STATUSES_def)
  have "t \<notin> EARLY_CANCELLATION_STATUSES \<union> {CANCELLED}"
    if r: "reaches ORDER_STATUS_TRANSITIONS HANDED_TO_COURIER t" for t
  proof (rule reaches_closed [OF r])
    fix s t assume "s \<notin> EARLY_CANCELLATION_STATUSES \<union> {CANCELLED}" and "t \<in> set (ORDER_STATUS_TRANSITIONS s)"
    then show "t \<notin> EARLY_CANCELLATION_STATUSES \<union> {CANCELLED}"
      by (cases s) (auto simp: EARLY_CANCELLATION_STATUSES_def)
  qed (simp add: EARLY_CANCELLATION_STATUSES_def)
  then show "{t. reaches ORDER_STATUS_TRANSITIONS HANDED_TO_COURIER t}
      \<inter> (EARLY_CANCELLATION_STATUSES \<union> {CANCELLED}) = {}" by blast
qed

text \<open>Property C32 (delivery_refines_order): of the single transitions of the delivery machine exactly
  one is no transition of the order table, from out for delivery to rescheduled, which an order takes when
  it mirrors its delivery; still every status the delivery machine can reach, the order table can reach
  as well, and a delivery that has been confirmed can always be completed.\<close>

theorem delivery_refines_order:
  "{(a, b). canTransitionDelivery a b} - {(a, b). canTransitionOrder a b} = {(OUT_FOR_DELIVERY, RESCHEDULED)}
   \<and> {t. reaches DELIVERY_TRANSITIONS s t} \<subseteq> {t. reaches ORDER_STATUS_TRANSITIONS s t}
   \<and> (s = PENDING_CONFIRMATION
      \<or> (\<exists>u. reaches DELIVERY_TRANSITIONS s u \<and> u \<in> {DELIVERED, RETURNED, CANCELLED}))"
proof (intro conjI disjCI)
  have "(canTransitionDelivery a b \<and> \<not> canTransitionOrder a b) = (a = OUT_FOR_DELIVERY \<and> b = RESCHEDULED)" for a b
    by (cases a) (auto simp: canTransitionDelivery_def canTransitionOrder_def)
  then show "{(a, b). canTransitionDelivery a b} - {(a, b). canTransitionOrder a b} = {(OUT_FOR_DELIVERY, RESCHEDULED)}"
    by auto
  show "{t. reaches DELIVERY_TRANSITIONS s t} \<subseteq> {t. reaches ORDER_STATUS_TRANSITIONS s t}"
    using reaches_simulation [OF _ delivery_step_reaches] by blast
  obtain u where u: "reaches DELIVERY_TRANSITIONS s u" "DELIVERY_TRANSITIONS u = []"
    using delivery_machine.ends by blast
  assume none: "\<not> (\<exists>u. reaches DELIVERY_TRANSITIONS s u \<and> u \<in> {DELIVERED, RETURNED, CANCELLED})"
  with u have "u = PENDING_CONFIRMATION" unfolding delivery_final_iff by blast
  moreover have "u \<noteq> PENDING_CONFIRMATION" if "s \<noteq> PENDING_CONFIRMATION"
  proof (rule reaches_closed [OF u(1), of "\<lambda>s. s \<noteq> PENDING_CONFIRMATION", OF that])
    fix a b assume "b \<in> set (DELIVERY_TRANSITIONS a)"
    then show "b \<noteq> PENDING_CONFIRMATION" by (cases a) auto
  qed
  ultimately show "s = PENDING_CONFIRMATION" by blast
qed

end
