(* ===== verification/Eligibility.thy ===== *)
theory Eligibility
  imports ShopSchema
begin

text \<open>
  Which products and buckets an order may use: \<open>catalog/catalog-policy.ts\<close> (the public
  variant and product filters, without the optional search filters) and
  \<open>inventory/inventory-eligibility.ts\<close>, as predicates on rows.  A relation of the schema is
  looked up by id; a comparison with a null column is false, as in SQL.
\<close>

section \<open>Catalogue\<close>

definition not_after :: "int option \<Rightarrow> int \<Rightarrow> bool" where
  "not_after t n = (case t of None \<Rightarrow> False | Some x \<Rightarrow> x \<le> n)"

definition null_or_after :: "int option \<Rightarrow> int \<Rightarrow> bool" where
  "null_or_after t n = (case t of None \<Rightarrow> True | Some x \<Rightarrow> x > n)"

definition null_or_not_after :: "int option \<Rightarrow> int \<Rightarrow> bool" where
  "null_or_not_after t n = (case t of None \<Rightarrow> True | Some x \<Rightarrow> x \<le> n)"

definition activeRestrictionFilter :: "int \<Rightarrow> restriction \<Rightarrow> bool" where
  "activeRestrictionFilter n r =
     (rst_status r = RST_ACTIVE \<and> rst_startsAt r \<le> n \<and> null_or_after (rst_endsAt r) n)"

definition publicVariantFilter :: "variant \<Rightarrow> bool" where
  "publicVariantFilter v =
     (var_publicationStatus v = PUBLISHED \<and> var_archivedAt v = None \<and> var_deletedAt v = None)"

definition publicSellableVariantWhere :: "variant \<Rightarrow> bool" where
  "publicSellableVariantWhere v =
     (publicVariantFilter v \<and> var_priceMillimes v > 0 \<and>
      (case var_promotionalPriceMillimes v of None \<Rightarrow> True | Some p \<Rightarrow> p > 0))"

definition approvedPublicImageFilter :: "product_image \<Rightarrow> bool" where
  "approvedPublicImageFilter i = (img_deletedAt i = None \<and> img_approved i)"

definition product_variants :: "'a stock_db_scheme \<Rightarrow> product \<Rightarrow> variant list" where
  "product_variants db p = filter (\<lambda>v. var_productId v = prod_id p) (variants db)"

definition hasSellablePublicVariant :: "'a stock_db_scheme \<Rightarrow> product \<Rightarrow> bool" where
  "hasSellablePublicVariant db p = list_ex publicSellableVariantWhere (product_variants db p)"

definition hasApprovedPublicImage :: "'a shop_db_scheme \<Rightarrow> product \<Rightarrow> bool" where
  "hasApprovedPublicImage db p =
     (let imgs = ref_images (reference db) in
      list_ex (\<lambda>i. img_productId i = Some (prod_id p) \<and> approvedPublicImageFilter i) imgs
      \<or> list_ex (\<lambda>v. publicSellableVariantWhere v
           \<and> list_ex (\<lambda>i. img_variantId i = Some (var_id v) \<and> approvedPublicImageFilter i) imgs)
          (product_variants db p))"

definition public_taxon :: "taxon \<Rightarrow> bool" where
  "public_taxon t =
     (tax_publicationStatus t = PUBLISHED \<and> tax_archivedAt t = None \<and> tax_suspendedAt t = None
      \<and> tax_deletedAt t = None)"

text \<open>\<open>buildPublicProductWhere({}, now)\<close>.\<close>

definition buildPublicProductWhere :: "int \<Rightarrow> 'a shop_db_scheme \<Rightarrow> product \<Rightarrow> bool" where
  "buildPublicProductWhere n db p =
     (let ref = reference db;
          unrestricted = (\<lambda>sel key. \<not> list_ex (\<lambda>r. sel r = Some key \<and> activeRestrictionFilter n r)
                                       (ref_restrictions ref))
      in prod_publicationStatus p = PUBLISHED \<and> not_after (prod_publishedAt p) n
         \<and> prod_archivedAt p = None \<and> prod_suspendedAt p = None \<and> prod_deletedAt p = None
         \<and> unrestricted rst_productId (prod_id p)
         \<and> list_ex (\<lambda>c. tax_id c = prod_categoryId p \<and> public_taxon c \<and> unrestricted rst_categoryId (tax_id c))
             (ref_categories ref)
         \<and> hasSellablePublicVariant db p \<and> hasApprovedPublicImage db p
         \<and> (case prod_brandId p of
              None \<Rightarrow> True
            | Some b \<Rightarrow> list_ex (\<lambda>t. tax_id t = b \<and> public_taxon t \<and> unrestricted rst_brandId (tax_id t))
                          (ref_brands ref)))"

section \<open>Stock\<close>

definition batch_eligible :: "int \<Rightarrow> batch \<Rightarrow> bool" where
  "batch_eligible n b = (batch_archivedAt b = None \<and> null_or_after (batch_expiryDate b) n)"

text \<open>The part of the filter the low-stock alerts share: location and batch.\<close>

definition fulfilling_item :: "int \<Rightarrow> 'a stock_db_scheme \<Rightarrow> item \<Rightarrow> bool" where
  "fulfilling_item n db i =
     (list_ex (\<lambda>l. loc_id l = item_locationId i \<and> loc_active l \<and> loc_fulfillsOrders l) (locations db)
      \<and> (case item_batchId i of
           None \<Rightarrow> True
         | Some bid \<Rightarrow> list_ex (\<lambda>b. batch_id b = bid \<and> batch_eligible n b) (batches db)))"

definition eligibleOrderInventoryWhere :: "int \<Rightarrow> 'a stock_db_scheme \<Rightarrow> item \<Rightarrow> bool" where
  "eligibleOrderInventoryWhere n db i = (item_onHand i > 0 \<and> fulfilling_item n db i)"

end
