(* ===== verification/CheckoutPolicy.thy ===== *)
theory CheckoutPolicy
  imports Eligibility
begin

text \<open>
  \<open>compliance/checkout-policy.ts\<close> and \<open>checkout/checkout-policy.service.ts\<close>: whether the shop
  takes orders and which confirmations it asks for, from the environment of the process, the
  store and compliance settings and the delivery configuration.  The property states when
  checkout is open; settings that are missing close it or ask for the confirmation.
\<close>

section \<open>compliance/checkout-policy.ts\<close>

datatype checkout_blocker =
    CHECKOUT_DISABLED | MAINTENANCE_MODE | PRELAUNCH_MODE | MINIMUM_AGE_NOT_CONFIGURED
  | STORE_INFORMATION_MISSING | DELIVERY_METHOD_MISSING

fun blocker_name :: "checkout_blocker \<Rightarrow> string" where
  "blocker_name CHECKOUT_DISABLED = ''CHECKOUT_DISABLED''"
| "blocker_name MAINTENANCE_MODE = ''MAINTENANCE_MODE''"
| "blocker_name PRELAUNCH_MODE = ''PRELAUNCH_MODE''"
| "blocker_name MINIMUM_AGE_NOT_CONFIGURED = ''MINIMUM_AGE_NOT_CONFIGURED''"
| "blocker_name STORE_INFORMATION_MISSING = ''STORE_INFORMATION_MISSING''"
| "blocker_name DELIVERY_METHOD_MISSING = ''DELIVERY_METHOD_MISSING''"

record policy_input =
  pi_checkoutEnabled :: bool
  pi_maintenanceMode :: bool
  pi_prelaunchMode :: bool
  pi_minimumAge :: "int option"
  pi_minimumAgeRequired :: "bool option"
  pi_hasStoreInformation :: bool
  pi_hasDeliveryMethod :: bool

definition evaluateCheckoutPolicy :: "policy_input \<Rightarrow> checkout_blocker list" where
  "evaluateCheckoutPolicy i =
     (if \<not> pi_checkoutEnabled i then [CHECKOUT_DISABLED] else [])
     @ (if pi_maintenanceMode i then [MAINTENANCE_MODE] else [])
     @ (if pi_prelaunchMode i then [PRELAUNCH_MODE] else [])
     @ (if pi_minimumAgeRequired i \<noteq> Some False
           \<and> (case pi_minimumAge i of None \<Rightarrow> True | Some a \<Rightarrow> a < 1)
        then [MINIMUM_AGE_NOT_CONFIGURED] else [])
     @ (if \<not> pi_hasStoreInformation i then [STORE_INFORMATION_MISSING] else [])
     @ (if \<not> pi_hasDeliveryMethod i then [DELIVERY_METHOD_MISSING] else [])"

section \<open>checkout-policy.service.ts\<close>

text \<open>The flags of the process environment.\<close>

record shop_config =
  CHECKOUT_ENABLED_VAR :: bool
  MAINTENANCE_MODE_VAR :: bool
  PRELAUNCH_MODE_VAR :: bool

record checkout_requirements =
  entryAgeGateEnabled :: bool
  ageConfirmationRequired :: bool
  termsAcceptanceRequired :: bool
  privacyAcceptanceRequired :: bool
  consentRecordingEnabled :: bool
  deliveryAgeVerificationRequired :: bool
  customerOrderCreatedNotificationEnabled :: bool

record checkout_policy =
  pol_allowed :: bool
  pol_blockers :: "checkout_blocker list"
  pol_minimumAge :: "int option"
  pol_requirements :: checkout_requirements

definition setting_of :: "setting list \<Rightarrow> string \<Rightarrow> json option" where
  "setting_of ss k = map_option set_value (List.find (\<lambda>s. set_key s = k) ss)"

definition jsonBoolean :: "json option \<Rightarrow> bool" where
  "jsonBoolean v = (v = Some (JBool True))"

definition jsonNonEmptyString :: "json option \<Rightarrow> bool" where
  "jsonNonEmptyString v = (case v of Some (JStr s) \<Rightarrow> trim s \<noteq> [] | _ \<Rightarrow> False)"

definition jsonInteger :: "json option \<Rightarrow> int option" where
  "jsonInteger v = (case v of Some (JNum n) \<Rightarrow> if safe n then Some n else None | _ \<Rightarrow> None)"

definition configuredBoolean :: "setting list \<Rightarrow> string \<Rightarrow> bool" where
  "configuredBoolean ss k = (if setting_of ss k \<noteq> None then jsonBoolean (setting_of ss k) else True)"

text \<open>Rates and zones that make courier delivery available at all.\<close>

definition rate_valid :: "int \<Rightarrow> delivery_rate \<Rightarrow> bool" where
  "rate_valid n r =
     (rate_active r \<and> null_or_not_after (rate_validFrom r) n \<and> null_or_after (rate_validUntil r) n)"

definition courier_zone :: "int \<Rightarrow> reference_data \<Rightarrow> delivery_zone \<Rightarrow> bool" where
  "courier_zone n ref z =
     (zone_active z \<and> zone_supported z \<and> \<not> zone_temporarilySuspended z
      \<and> list_ex (\<lambda>r. rate_deliveryZoneId r = Some (zone_id z) \<and> rate_type r = BASE
            \<and> rate_feeMillimes r \<ge> 0 \<and> rate_governorateId r = None \<and> rate_delegationId r = None
            \<and> rate_localityId r = None \<and> rate_valid n r) (ref_rates ref))"

definition policy_evaluate :: "shop_config \<Rightarrow> int \<Rightarrow> 'a shop_db_scheme \<Rightarrow> checkout_policy" where
  "policy_evaluate cfg n db =
     (let ref = reference db;
          store = ref_storeSettings ref;
          compliance = ref_complianceSettings ref;
          minimumAge = jsonInteger (setting_of compliance ''minimum_purchase_age'');
          req = \<lparr> entryAgeGateEnabled = configuredBoolean compliance ''age_gate.entry.enabled'',
                  ageConfirmationRequired = configuredBoolean compliance ''age_gate.checkout.enabled'',
                  termsAcceptanceRequired = configuredBoolean compliance ''consent.terms.required'',
                  privacyAcceptanceRequired = configuredBoolean compliance ''consent.privacy.required'',
                  consentRecordingEnabled = configuredBoolean compliance ''consent.recording.enabled'',
                  deliveryAgeVerificationRequired =
                    configuredBoolean compliance ''delivery.age_verification_required'',
                  customerOrderCreatedNotificationEnabled =
                    configuredBoolean store ''notifications.customer_order_created.enabled'' \<rparr>;
          blockers = evaluateCheckoutPolicy
            \<lparr> pi_checkoutEnabled = (CHECKOUT_ENABLED_VAR cfg \<and> jsonBoolean (setting_of store ''checkout.enabled'')),
              pi_maintenanceMode = (MAINTENANCE_MODE_VAR cfg \<or> jsonBoolean (setting_of store ''maintenance.mode'')),
              pi_prelaunchMode = (PRELAUNCH_MODE_VAR cfg \<or> jsonBoolean (setting_of store ''prelaunch.mode'')),
              pi_minimumAge = minimumAge,
              pi_minimumAgeRequired = Some (entryAgeGateEnabled req \<or> ageConfirmationRequired req
                                            \<or> deliveryAgeVerificationRequired req),
              pi_hasStoreInformation = list_all (\<lambda>k. jsonNonEmptyString (setting_of store k))
                [''store.name'', ''store.phone'', ''store.email'', ''store.address''],
              pi_hasDeliveryMethod = (count_where pk_active (ref_pickups ref) > 0
                                      \<or> count_where (courier_zone n ref) (ref_zones ref) > 0) \<rparr>
      in \<lparr> pol_allowed = (blockers = []), pol_blockers = blockers, pol_minimumAge = minimumAge,
           pol_requirements = req \<rparr>)"

section \<open>When checkout is open\<close>

lemma evaluateCheckoutPolicy_Nil:
  "evaluateCheckoutPolicy i = [] \<longleftrightarrow>
     pi_checkoutEnabled i \<and> \<not> pi_maintenanceMode i \<and> \<not> pi_prelaunchMode i
     \<and> (pi_minimumAgeRequired i = Some False \<or> (\<exists>a. pi_minimumAge i = Some a \<and> 1 \<le> a))
     \<and> pi_hasStoreInformation i \<and> pi_hasDeliveryMethod i"
  by (auto simp: evaluateCheckoutPolicy_def split: option.splits)

lemma count_where_pos: "0 < count_where P t \<longleftrightarrow> list_ex P t"
  by (induction t) (auto simp: count_where_def)

text \<open>The shop takes orders exactly when the process flag and the store
  setting enable checkout, neither the environment nor the settings put the shop in maintenance
  or prelaunch mode, every store information is set to a non-blank text, there is an active
  pickup location or a servable courier zone with a current base rate, and a minimum age of at
  least one year is configured unless all three age controls are explicitly switched off.\<close>

theorem checkout_open_iff:
  "pol_allowed (policy_evaluate cfg n db) =
     (let ref = reference db; store = setting_of (ref_storeSettings ref);
          compliance = setting_of (ref_complianceSettings ref);
          off = (\<lambda>k. \<exists>v. compliance k = Some v \<and> v \<noteq> JBool True)
      in CHECKOUT_ENABLED_VAR cfg \<and> store ''checkout.enabled'' = Some (JBool True)
         \<and> \<not> MAINTENANCE_MODE_VAR cfg \<and> store ''maintenance.mode'' \<noteq> Some (JBool True)
         \<and> \<not> PRELAUNCH_MODE_VAR cfg \<and> store ''prelaunch.mode'' \<noteq> Some (JBool True)
         \<and> jsonNonEmptyString (store ''store.name'') \<and> jsonNonEmptyString (store ''store.phone'')
         \<and> jsonNonEmptyString (store ''store.email'') \<and> jsonNonEmptyString (store ''store.address'')
         \<and> (list_ex pk_active (ref_pickups ref) \<or> list_ex (courier_zone n ref) (ref_zones ref))
         \<and> ((off ''age_gate.entry.enabled'' \<and> off ''age_gate.checkout.enabled''
              \<and> off ''delivery.age_verification_required'')
            \<or> (\<exists>a. jsonInteger (compliance ''minimum_purchase_age'') = Some a \<and> 1 \<le> a)))"
  by (auto simp: policy_evaluate_def Let_def evaluateCheckoutPolicy_Nil configuredBoolean_def
      jsonBoolean_def count_where_pos)

end
