(* ===== verification/Allocation.thy ===== *)
theory Allocation
  imports Fingerprint "HOL-Library.Multiset"
begin

text \<open>
  \<open>checkout/checkout-order.helpers.ts\<close>: the phone normalisation, the idempotency helpers of the
  checkout and \<open>allocateInventory\<close>, which splits every order line over the buckets of its
  variant in the order of their ids.  The lemmas characterise the allocation: it exists exactly
  when every variant has enough, covers every line, and takes from no bucket more than it has.
\<close>

section \<open>Phones and keys\<close>

text \<open>\<open>/[\s().-]/g\<close> removes white space, parentheses, dots and hyphens.\<close>

definition normalizeTunisianPhone :: "string \<Rightarrow> string" where
  "normalizeTunisianPhone value =
     (let stripped = filter (\<lambda>c. \<not> (js_space c \<or> c \<in> set ''().-'')) (trim value);
          compact = (if take 5 stripped = ''00216'' then ''+216'' @ drop 5 stripped else stripped)
      in if take 4 compact = ''+216'' then compact else ''+216'' @ compact)"

definition validateIdempotencyKey :: "string option \<Rightarrow> string option" where
  "validateIdempotencyKey value =
     (case or_null value of None \<Rightarrow> None | Some v \<Rightarrow> if idempotency_key_pattern v then Some v else None)"

definition scopedIdempotencyKeyHash :: "env \<Rightarrow> string \<Rightarrow> string \<Rightarrow> string" where
  "scopedIdempotencyKeyHash e scope key = sha256 e (scope @ CHR 0x00 # key)"

lemma normalizeTunisianPhone_prefix: "take 4 (normalizeTunisianPhone v) = ''+216''"
  by (simp add: normalizeTunisianPhone_def Let_def)

section \<open>allocateInventory\<close>

record order_line =
  ol_variantId :: string
  ol_quantity :: int

record bucket =
  bk_id :: string
  bk_variantId :: string
  bk_available :: int

record allocation =
  al_itemId :: string
  al_variantId :: string
  al_quantity :: int

text \<open>The inner loop: one line over the buckets, which it decrements.\<close>

fun take_from :: "string \<Rightarrow> int \<Rightarrow> bucket list \<Rightarrow> allocation list \<times> int \<times> bucket list" where
  "take_from v remaining [] = ([], remaining, [])"
| "take_from v remaining (b # bs) =
     (if bk_variantId b \<noteq> v \<or> bk_available b \<le> 0
      then (case take_from v remaining bs of (as, r, bs') \<Rightarrow> (as, r, b # bs'))
      else
        let q = min remaining (bk_available b);
            taken = (if q > 0 then [\<lparr> al_itemId = bk_id b, al_variantId = v, al_quantity = q \<rparr>] else []);
            b' = (if q > 0 then b\<lparr> bk_available := bk_available b - q \<rparr> else b);
            r = (if q > 0 then remaining - q else remaining)
        in if r = 0 then (taken, r, b' # bs)
           else (case take_from v r bs of (as, r', bs') \<Rightarrow> (taken @ as, r', b' # bs')))"

fun allocate_lines :: "order_line list \<Rightarrow> bucket list \<Rightarrow> allocation list option" where
  "allocate_lines [] bs = Some []"
| "allocate_lines (l # ls) bs =
     (case take_from (ol_variantId l) (ol_quantity l) bs of
        (as, r, bs') \<Rightarrow> if r > 0 then None else map_option (\<lambda>rest. as @ rest) (allocate_lines ls bs'))"

definition allocateInventory :: "order_line list \<Rightarrow> bucket list \<Rightarrow> allocation list option" where
  "allocateInventory requested buckets =
     allocate_lines (sort_key (\<lambda>l. locale_key (ol_variantId l)) requested)
       (sort_key (\<lambda>b. locale_key (bk_id b)) buckets)"

section \<open>Correctness of the allocation\<close>

text \<open>What the buckets of a variant hold together.\<close>

definition stock_of :: "string \<Rightarrow> bucket list \<Rightarrow> int" where
  "stock_of v bs = sum_by (\<lambda>b. if bk_variantId b = v then max 0 (bk_available b) else 0) bs"

lemma stock_of_simps [simp]:
  "stock_of v [] = 0"
  "stock_of v (b # bs) = (if bk_variantId b = v then max 0 (bk_available b) else 0) + stock_of v bs"
  by (simp_all add: stock_of_def)

lemma stock_of_nonneg [simp]: "0 \<le> stock_of v bs"
  by (induction bs) auto

definition from_bucket :: "bucket list \<Rightarrow> allocation \<Rightarrow> bool" where
  "from_bucket bs a = (\<exists>b\<in>set bs. bk_id b = al_itemId a \<and> bk_variantId b = al_variantId a
                        \<and> 0 < al_quantity a \<and> al_quantity a \<le> bk_available b)"

lemma from_bucket_Cons: "from_bucket bs a \<Longrightarrow> from_bucket (b # bs) a"
  by (auto simp: from_bucket_def)

definition took :: "string \<Rightarrow> int \<Rightarrow> bucket list \<Rightarrow> allocation list \<times> int \<times> bucket list \<Rightarrow> bool" where
  "took v q bs x = (case x of (as, r, bs') \<Rightarrow>
     r = max 0 (q - stock_of v bs) \<and> sum_by al_quantity as = q - r
     \<and> list_all (from_bucket bs) as \<and> list_all (\<lambda>a. al_variantId a = v) as
     \<and> map bk_id bs' = map bk_id bs
     \<and> filter (\<lambda>b. bk_variantId b \<noteq> v) bs' = filter (\<lambda>b. bk_variantId b \<noteq> v) bs
     \<and> (distinct (map bk_id bs) \<longrightarrow> distinct (map al_itemId as)))"

lemma from_bucket_id: "list_all (from_bucket bs) as \<Longrightarrow> a \<in> set as \<Longrightarrow> al_itemId a \<in> bk_id ` set bs"
  by (auto simp: list_all_iff from_bucket_def) (metis imageI)

lemma took_Cons:
  assumes "took v q bs (as, r, bs')"
    and "bk_variantId b \<noteq> v \<or> bk_available b \<le> 0"
  shows "took v q (b # bs) (as, r, b # bs')"
  using assms by (auto simp: took_def list_all_iff intro: from_bucket_Cons)

lemma took_more:
  assumes t: "took v (q - n) bs (as, r, bs')" and b: "bk_variantId b = v" "n = bk_available b" "0 < n" "n < q"
  shows "took v q (b # bs) (\<lparr> al_itemId = bk_id b, al_variantId = v, al_quantity = n \<rparr> # as, r,
           b\<lparr> bk_available := 0 \<rparr> # bs')"
proof -
  have f: "list_all (from_bucket bs) as" using t by (simp add: took_def)
  then have "list_all (from_bucket (b # bs)) as" by (auto simp: list_all_iff intro: from_bucket_Cons)
  moreover have "from_bucket (b # bs) \<lparr> al_itemId = bk_id b, al_variantId = v, al_quantity = n \<rparr>"
    using b by (auto simp: from_bucket_def)
  moreover have "distinct (map bk_id (b # bs)) \<Longrightarrow> bk_id b \<notin> al_itemId ` set as"
    using from_bucket_id [OF f] by auto
  ultimately show ?thesis using t b by (auto simp: took_def)
qed

lemma took_last:
  assumes "bk_variantId b = v" and "0 < q" and "q \<le> bk_available b"
  shows "took v q (b # bs) ([\<lparr> al_itemId = bk_id b, al_variantId = v, al_quantity = q \<rparr>], 0,
           b\<lparr> bk_available := bk_available b - q \<rparr> # bs)"
proof -
  have "q \<le> stock_of v (b # bs)" using assms by (simp add: add_increasing2)
  then have "max 0 (q - stock_of v (b # bs)) = 0" by simp
  with assms show ?thesis by (auto simp: took_def from_bucket_def simp del: stock_of_simps)
qed

lemma took_zero: "took v 0 bs ([], 0, bs)"
  using stock_of_nonneg [of v bs] by (simp add: took_def)

lemma take_from_took: "0 \<le> q \<Longrightarrow> took v q bs (take_from v q bs)"
proof (induction v q bs rule: take_from.induct)
  case (1 v q)
  then show ?case by (simp add: took_def)
next
  case (2 v q b bs)
  show ?case
  proof (cases "bk_variantId b \<noteq> v \<or> bk_available b \<le> 0")
    case True
    with 2 show ?thesis by (auto split: prod.splits intro: took_Cons)
  next
    case False
    then have b: "bk_variantId b = v" "0 < bk_available b" by auto
    consider (zero) "q = 0" | (last) "0 < q" "q \<le> bk_available b" | (more) "bk_available b < q"
      using 2(3) by linarith
    then show ?thesis
    proof cases
      case zero
      with b show ?thesis by (simp add: took_zero)
    next
      case last
      with b show ?thesis using took_last [OF b(1) last] by (simp add: min_def)
    next
      case more
      then have m: "min q (bk_available b) = bk_available b" by simp
      have "took v (q - bk_available b) bs (take_from v (q - bk_available b) bs)"
        using 2(2) [OF _ refl refl refl] False more b by (simp add: m)
      with b more show ?thesis
        by (auto simp: m Let_def split: prod.splits dest: took_more)
    qed
  qed
qed

text \<open>What a whole allocation must satisfy for the lines and buckets it was made for.\<close>

definition allocated :: "string \<Rightarrow> allocation list \<Rightarrow> int" where
  "allocated v as = sum_by al_quantity (filter (\<lambda>a. al_variantId a = v) as)"

definition good_allocation :: "order_line list \<Rightarrow> bucket list \<Rightarrow> allocation list \<Rightarrow> bool" where
  "good_allocation ls bs as =
     (list_all (\<lambda>l. allocated (ol_variantId l) as = ol_quantity l) ls
      \<and> list_all (\<lambda>a. al_variantId a \<in> ol_variantId ` set ls) as
      \<and> list_all (from_bucket bs) as \<and> distinct (map al_itemId as))"

definition covered :: "bucket list \<Rightarrow> order_line \<Rightarrow> bool" where
  "covered bs l = (ol_quantity l \<le> stock_of (ol_variantId l) bs)"

lemma stock_of_other:
  assumes "filter (\<lambda>b. bk_variantId b \<noteq> v) bs' = filter (\<lambda>b. bk_variantId b \<noteq> v) bs" and "w \<noteq> v"
  shows "stock_of w bs' = stock_of w bs"
proof -
  have s: "stock_of w xs = stock_of w (filter (\<lambda>b. bk_variantId b \<noteq> v) xs)" for xs
    using assms(2) by (induction xs) auto
  show ?thesis using s [of bs'] s [of bs] assms(1) by simp
qed

lemma from_bucket_other:
  assumes "filter (\<lambda>b. bk_variantId b \<noteq> v) bs' = filter (\<lambda>b. bk_variantId b \<noteq> v) bs"
    and "al_variantId a \<noteq> v" and "from_bucket bs' a"
  shows "from_bucket bs a"
proof -
  from assms(3) obtain b where b: "b \<in> set bs'" "bk_id b = al_itemId a" "bk_variantId b = al_variantId a"
    "0 < al_quantity a" "al_quantity a \<le> bk_available b" by (auto simp: from_bucket_def)
  then have "b \<in> set (filter (\<lambda>b. bk_variantId b \<noteq> v) bs')" using assms(2) by simp
  with assms(1) have "b \<in> set bs" by simp
  with b show ?thesis by (auto simp: from_bucket_def)
qed

lemma allocated_append [simp]: "allocated v (xs @ ys) = allocated v xs + allocated v ys"
  by (simp add: allocated_def)

lemma allocated_all: "list_all (\<lambda>a. al_variantId a = v) as \<Longrightarrow>
    allocated w as = (if w = v then sum_by al_quantity as else 0)"
  by (induction as) (auto simp: allocated_def)

lemma allocated_none: "list_all (\<lambda>a. al_variantId a \<noteq> v) as \<Longrightarrow> allocated v as = 0"
  by (induction as) (auto simp: allocated_def)

text \<open>Lines of distinct variants are served independently.\<close>

lemma allocate_lines_correct:
  assumes "distinct (map ol_variantId ls)" and "list_all (\<lambda>l. 0 < ol_quantity l) ls"
    and "distinct (map bk_id bs)"
  shows "case allocate_lines ls bs of
           Some as \<Rightarrow> list_all (covered bs) ls \<and> list_all (\<lambda>l. allocated (ol_variantId l) as = ol_quantity l) ls
             \<and> list_all (\<lambda>a. al_variantId a \<in> ol_variantId ` set ls) as \<and> list_all (from_bucket bs) as
             \<and> distinct (map al_itemId as)
         | None \<Rightarrow> \<not> list_all (covered bs) ls"
  using assms(1-3)
proof (induction ls arbitrary: bs)
  case Nil
  then show ?case by simp
next
  case (Cons l ls)
  let ?v = "ol_variantId l" and ?q = "ol_quantity l"
  obtain as r bs' where t: "take_from ?v ?q bs = (as, r, bs')" by (cases "take_from ?v ?q bs")
  have "took ?v ?q bs (as, r, bs')" using take_from_took [of ?q ?v bs] Cons.prems(2) t by simp
  then have T: "r = max 0 (?q - stock_of ?v bs)" "sum_by al_quantity as = ?q - r"
    "list_all (from_bucket bs) as" "list_all (\<lambda>a. al_variantId a = ?v) as" "map bk_id bs' = map bk_id bs"
    "filter (\<lambda>b. bk_variantId b \<noteq> ?v) bs' = filter (\<lambda>b. bk_variantId b \<noteq> ?v) bs"
    "distinct (map al_itemId as)"
    using Cons.prems(3) by (simp_all add: took_def)
  have nv: "?v \<notin> ol_variantId ` set ls" using Cons.prems(1) by simp
  have cov: "list_all (covered bs') ls = list_all (covered bs) ls"
  proof -
    have "covered bs' x = covered bs x" if "x \<in> set ls" for x
    proof -
      have "ol_variantId x \<noteq> ?v" using that nv by (metis imageI)
      then show ?thesis using stock_of_other [OF T(6)] by (simp add: covered_def)
    qed
    then show ?thesis by (simp add: list_all_iff)
  qed
  have IH: "case allocate_lines ls bs' of
           Some as \<Rightarrow> list_all (covered bs') ls \<and> list_all (\<lambda>l. allocated (ol_variantId l) as = ol_quantity l) ls
             \<and> list_all (\<lambda>a. al_variantId a \<in> ol_variantId ` set ls) as \<and> list_all (from_bucket bs') as
             \<and> distinct (map al_itemId as)
         | None \<Rightarrow> \<not> list_all (covered bs') ls"
    by (rule Cons.IH) (use Cons.prems T(5) in auto)
  show ?case
  proof (cases "r > 0")
    case True
    then have "\<not> covered bs l" using T(1) by (auto simp: covered_def max_def split: if_splits)
    with True t show ?thesis by simp
  next
    case False
    with T(1) have r0: "r = 0" and c: "covered bs l" by (auto simp: covered_def max_def split: if_splits)
    show ?thesis
    proof (cases "allocate_lines ls bs'")
      case None
      with IH t r0 cov show ?thesis by simp
    next
      case (Some rest)
      with IH have R: "list_all (covered bs) ls"
        "list_all (\<lambda>l. allocated (ol_variantId l) rest = ol_quantity l) ls"
        "list_all (\<lambda>a. al_variantId a \<in> ol_variantId ` set ls) rest" "list_all (from_bucket bs') rest"
        "distinct (map al_itemId rest)"
        using cov by auto
      have other: "list_all (\<lambda>a. al_variantId a \<noteq> ?v) rest" using R(3) nv unfolding list_all_iff by metis
      have fr: "list_all (from_bucket bs) rest"
        using R(4) other from_bucket_other [OF T(6)] by (auto simp: list_all_iff)
      have q: "allocated ?v (as @ rest) = ?q"
        using allocated_all [OF T(4), of ?v] allocated_none [OF other] T(2) r0 by simp
      have ls: "list_all (\<lambda>l. allocated (ol_variantId l) (as @ rest) = ol_quantity l) ls"
        using R(2) nv allocated_all [OF T(4)] by (auto simp: list_all_iff image_iff)
      have "al_itemId ` set as \<inter> al_itemId ` set rest = {}"
      proof -
        have False if a: "a \<in> set as" and a': "a' \<in> set rest" and eq: "al_itemId a = al_itemId a'" for a a'
        proof -
          from a T(3,4) obtain b where b: "b \<in> set bs" "bk_id b = al_itemId a" "bk_variantId b = ?v"
            by (auto simp: list_all_iff from_bucket_def)
          from a' fr other obtain b' where b': "b' \<in> set bs" "bk_id b' = al_itemId a'" "bk_variantId b' \<noteq> ?v"
            by (auto simp: list_all_iff from_bucket_def)
          have "b = b'" using key_unique [OF Cons.prems(3) b(1) b'(1)] b(2) b'(2) eq by simp
          with b(3) b'(3) show False by simp
        qed
        then show ?thesis by auto
      qed
      then have d: "distinct (map al_itemId (as @ rest))" using T(7) R(5) by simp
      show ?thesis using t r0 Some R(1,3) c fr q ls T(3,4) d
        by (auto simp: list_all_iff)
    qed
  qed
qed

lemma stock_of_perm: "stock_of v (sort_key f bs) = stock_of v bs"
proof -
  have "stock_of v xs = sum_mset (image_mset (\<lambda>b. if bk_variantId b = v then max 0 (bk_available b) else 0) (mset xs))"
    for xs by (induction xs) simp_all
  then show ?thesis by simp
qed

lemma list_all_sort_key [simp]: "list_all P (sort_key f xs) = list_all P xs"
  by (simp add: list_all_iff)

lemma distinct_map_sort_key [simp]: "distinct (map k (sort_key f xs)) = distinct (map k xs)"
  by (metis distinct_map distinct_sort set_sort)

lemma allocateInventory_spec:
  assumes "distinct (map ol_variantId ls)" and "list_all (\<lambda>l. 0 < ol_quantity l) ls"
    and "distinct (map bk_id bs)"
  shows "allocateInventory ls bs = Some as \<Longrightarrow> list_all (covered bs) ls \<and> good_allocation ls bs as"
    and "allocateInventory ls bs = None \<longleftrightarrow> \<not> list_all (covered bs) ls"
proof -
  let ?ls = "sort_key (\<lambda>l. locale_key (ol_variantId l)) ls" and ?bs = "sort_key (\<lambda>b. locale_key (bk_id b)) bs"
  have c: "covered ?bs = covered bs" by (rule ext) (simp add: covered_def stock_of_perm)
  have f: "from_bucket ?bs = from_bucket bs" by (rule ext) (simp add: from_bucket_def)
  have main: "case allocate_lines ?ls ?bs of
           Some as \<Rightarrow> list_all (covered ?bs) ?ls \<and> list_all (\<lambda>l. allocated (ol_variantId l) as = ol_quantity l) ?ls
             \<and> list_all (\<lambda>a. al_variantId a \<in> ol_variantId ` set ?ls) as \<and> list_all (from_bucket ?bs) as
             \<and> distinct (map al_itemId as)
         | None \<Rightarrow> \<not> list_all (covered ?bs) ?ls"
    by (rule allocate_lines_correct) (use assms in simp_all)
  show "allocateInventory ls bs = Some as \<Longrightarrow> list_all (covered bs) ls \<and> good_allocation ls bs as"
    using main by (simp add: allocateInventory_def good_allocation_def c f)
  show "allocateInventory ls bs = None \<longleftrightarrow> \<not> list_all (covered bs) ls"
    using main by (cases "allocate_lines ?ls ?bs") (simp_all add: allocateInventory_def c)
qed

section \<open>Property\<close>

text \<open>Property C27 (allocateInventory_correct): for an order whose variants are distinct and whose
  quantities are positive, the allocation succeeds exactly when the buckets of every variant hold
  enough together; it then gives every line its exact quantity from buckets of its own variant,
  takes a positive amount no larger than the bucket holds, and never touches a bucket twice.\<close>

theorem allocateInventory_correct:
  assumes "distinct (map ol_variantId ls)" and "list_all (\<lambda>l. 0 < ol_quantity l) ls"
    and "distinct (map bk_id bs)"
  shows "case allocateInventory ls bs of
           Some as \<Rightarrow> list_all (covered bs) ls \<and> good_allocation ls bs as
         | None \<Rightarrow> \<not> list_all (covered bs) ls"
  using allocateInventory_spec [OF assms] by (cases "allocateInventory ls bs") auto

theorem allocateInventory_correct_witness:
  "\<exists>as. allocateInventory [\<lparr> ol_variantId = ''v2'', ol_quantity = 5 \<rparr>, \<lparr> ol_variantId = ''v1'', ol_quantity = 1 \<rparr>]
          [\<lparr> bk_id = ''b'', bk_variantId = ''v2'', bk_available = 4 \<rparr>,
           \<lparr> bk_id = ''a'', bk_variantId = ''v2'', bk_available = 3 \<rparr>,
           \<lparr> bk_id = ''c'', bk_variantId = ''v1'', bk_available = 9 \<rparr>] = Some as
        \<and> map al_itemId as = [''c'', ''a'', ''b''] \<and> map al_quantity as = [1, 3, 2]
        \<and> good_allocation [\<lparr> ol_variantId = ''v2'', ol_quantity = 5 \<rparr>, \<lparr> ol_variantId = ''v1'', ol_quantity = 1 \<rparr>]
          [\<lparr> bk_id = ''b'', bk_variantId = ''v2'', bk_available = 4 \<rparr>,
           \<lparr> bk_id = ''a'', bk_variantId = ''v2'', bk_available = 3 \<rparr>,
           \<lparr> bk_id = ''c'', bk_variantId = ''v1'', bk_available = 9 \<rparr>] as"
proof -
  let ?ls = "[\<lparr> ol_variantId = ''v2'', ol_quantity = 5 \<rparr>, \<lparr> ol_variantId = ''v1'', ol_quantity = 1 \<rparr>]"
  let ?bs = "[\<lparr> bk_id = ''b'', bk_variantId = ''v2'', bk_available = 4 \<rparr>,
           \<lparr> bk_id = ''a'', bk_variantId = ''v2'', bk_available = 3 \<rparr>,
           \<lparr> bk_id = ''c'', bk_variantId = ''v1'', bk_available = 9 \<rparr>]"
  have ev: "map_option (\<lambda>as. (map al_itemId as, map al_quantity as)) (allocateInventory ?ls ?bs)
      = Some ([''c'', ''a'', ''b''], [1, 3, 2])" by code_simp
  then obtain as where as: "allocateInventory ?ls ?bs = Some as" "map al_itemId as = [''c'', ''a'', ''b'']"
    "map al_quantity as = [1, 3, 2]" by auto
  have "case allocateInventory ?ls ?bs of
           Some as \<Rightarrow> list_all (covered ?bs) ?ls \<and> good_allocation ?ls ?bs as
         | None \<Rightarrow> \<not> list_all (covered ?bs) ?ls"
    by (rule allocateInventory_correct) simp_all
  with as show ?thesis by simp
qed

end
