(* ===== verification/Fulfillment.thy ===== *)
theory Fulfillment
  imports CheckoutPolicy Allocation
begin

text \<open>
  The parts of \<open>checkout/checkout-order.service.ts\<close> that only read: the request
  (\<open>CheckoutOrderDto\<close>) and its checks, the fulfilment method with its delivery fee, the postal
  code, the consent documents, and the operational metadata of the answer.
\<close>

section \<open>The request\<close>

record checkout_address =
  ca_street :: string
  ca_building :: "string option"
  ca_floor :: "string option"
  ca_apartment :: "string option"
  ca_landmark :: "string option"
  ca_postalCode :: "string option"
  ca_instructions :: "string option"

record checkout_consent =
  cc_ageConfirmed :: bool
  cc_termsAccepted :: bool
  cc_privacyAccepted :: bool
  cc_termsDocumentVersionId :: "string option"
  cc_privacyDocumentVersionId :: "string option"

record checkout_input =
  ci_items :: "order_line list"
  ci_localityId :: "string option"
  ci_pickupLocationId :: "string option"
  ci_express :: "bool option"
  ci_customerName :: string
  ci_phone :: string
  ci_email :: "string option"
  ci_address :: "checkout_address option"
  ci_consent :: checkout_consent

definition wants_express :: "checkout_input \<Rightarrow> bool" where
  "wants_express i = (ci_express i = Some True)"

text \<open>The JSON value of a request; an absent field is left out, like \<open>undefined\<close>.\<close>

definition opt_field :: "string \<Rightarrow> string option \<Rightarrow> (string \<times> json) list" where
  "opt_field k v = (case v of None \<Rightarrow> [] | Some s \<Rightarrow> [(k, JStr s)])"

definition line_json :: "order_line \<Rightarrow> json" where
  "line_json l = JObj [(''variantId'', JStr (ol_variantId l)), (''quantity'', JNum (ol_quantity l))]"

definition address_json :: "checkout_address \<Rightarrow> json" where
  "address_json a =
     JObj ([(''street'', JStr (ca_street a))] @ opt_field ''building'' (ca_building a)
           @ opt_field ''floor'' (ca_floor a) @ opt_field ''apartment'' (ca_apartment a)
           @ opt_field ''landmark'' (ca_landmark a) @ opt_field ''postalCode'' (ca_postalCode a)
           @ opt_field ''instructions'' (ca_instructions a))"

definition consent_json :: "checkout_consent \<Rightarrow> json" where
  "consent_json c =
     JObj ([(''ageConfirmed'', JBool (cc_ageConfirmed c)), (''termsAccepted'', JBool (cc_termsAccepted c)),
            (''privacyAccepted'', JBool (cc_privacyAccepted c))]
           @ opt_field ''termsDocumentVersionId'' (cc_termsDocumentVersionId c)
           @ opt_field ''privacyDocumentVersionId'' (cc_privacyDocumentVersionId c))"

definition checkoutRequestFingerprint :: "env \<Rightarrow> checkout_input \<Rightarrow> string" where
  "checkoutRequestFingerprint e i =
     request_fingerprint e (JObj (
       [(''items'', JArr (map line_json (sort_key (\<lambda>l. locale_key (ol_variantId l)) (ci_items i)))),
        (''express'', JBool (wants_express i)), (''customerName'', JStr (ci_customerName i)),
        (''phone'', JStr (ci_phone i)), (''consent'', consent_json (ci_consent i))]
       @ opt_field ''localityId'' (ci_localityId i)
       @ opt_field ''pickupLocationId'' (ci_pickupLocationId i)
       @ opt_field ''email'' (ci_email i)
       @ (case ci_address i of None \<Rightarrow> [] | Some a \<Rightarrow> [(''address'', address_json a)])))"

definition assertRequestShape :: "checkout_input \<Rightarrow> unit result" where
  "assertRequestShape i =
     require (distinct (map ol_variantId (ci_items i))) (badRequest ''DUPLICATE_CHECKOUT_ITEM'') (
     require ((or_null (ci_localityId i) \<noteq> None) \<noteq> (or_null (ci_pickupLocationId i) \<noteq> None))
       (badRequest ''FULFILLMENT_SELECTION_REQUIRED'') (
     require (\<not> (or_null (ci_localityId i) \<noteq> None \<and> ci_address i = None))
       (badRequest ''DELIVERY_ADDRESS_REQUIRED'') (
     require (\<not> (wants_express i \<and> or_null (ci_pickupLocationId i) \<noteq> None))
       (badRequest ''EXPRESS_PICKUP_UNSUPPORTED'') (Inr ()))))"

definition assertConfiguredConsent :: "checkout_input \<Rightarrow> checkout_requirements \<Rightarrow> unit result" where
  "assertConfiguredConsent i req =
     (let c = ci_consent i;
          missing = (if ageConfirmationRequired req \<and> \<not> cc_ageConfirmed c then [''ageConfirmed''] else [])
                    @ (if termsAcceptanceRequired req \<and> \<not> cc_termsAccepted c then [''termsAccepted''] else [])
                    @ (if privacyAcceptanceRequired req \<and> \<not> cc_privacyAccepted c then [''privacyAccepted''] else [])
      in require (missing = []) (Http BadRequest ''CONSENT_REQUIRED'' missing) (Inr ()))"

section \<open>Fulfilment\<close>

record courier_address =
  cra_governorateId :: string
  cra_delegationId :: string
  cra_localityId :: string
  cra_governorateName :: string
  cra_delegationName :: string
  cra_localityName :: string

record fulfillment =
  ff_methodType :: method_type
  ff_methodSnapshot :: string
  ff_deliveryTotalMillimes :: int
  ff_maxCodMillimes :: "int option"
  ff_deliveryZoneId :: "string option"
  ff_deliveryRateId :: "string option"
  ff_pickupLocationId :: "string option"
  ff_phoneConfirmationRequired :: bool
  ff_manualReviewRequired :: bool
  ff_feeRuleSnapshot :: json
  ff_courierAddress :: "courier_address option"
  ff_pickupAddress :: "string option"

definition deliveryConfigurationError :: exn where
  "deliveryConfigurationError = unavailable ''DELIVERY_CONFIGURATION_INVALID''"

definition resolve_pickup :: "'a shop_db_scheme \<Rightarrow> string \<Rightarrow> int \<Rightarrow> fulfillment result" where
  "resolve_pickup db pid orderMillimes =
     bindE (some_or (List.find (\<lambda>p. pk_id p = pid \<and> pk_active p) (ref_pickups (reference db)))
              (conflict ''PICKUP_LOCATION_UNAVAILABLE'')) (\<lambda>pickup.
     require (at_least (pk_minOrderMillimes pickup) orderMillimes) (conflict ''MINIMUM_ORDER_NOT_MET'') (
     Inr \<lparr> ff_methodType = STORE_PICKUP,
           ff_methodSnapshot = pk_code pickup @ '' - '' @ pk_nameFr pickup,
           ff_deliveryTotalMillimes = 0, ff_maxCodMillimes = pk_maxCodMillimes pickup,
           ff_deliveryZoneId = None, ff_deliveryRateId = None, ff_pickupLocationId = Some (pk_id pickup),
           ff_phoneConfirmationRequired = False, ff_manualReviewRequired = False,
           ff_feeRuleSnapshot = JObj [(''schemaVersion'', JNum 1), (''method'', JStr ''STORE_PICKUP''),
             (''pickupLocationId'', JStr (pk_id pickup)), (''pickupCode'', JStr (pk_code pickup)),
             (''feeMillimes'', JNum 0)],
           ff_courierAddress = None, ff_pickupAddress = Some (pk_address pickup) \<rparr>))"

text \<open>The locality with its delegation and governorate, all active, and its servable zones.\<close>

definition active_locality ::
  "reference_data \<Rightarrow> string \<Rightarrow> (locality \<times> delegation \<times> governorate) option" where
  "active_locality ref lid =
     (case List.find (\<lambda>l. lty_id l = lid \<and> lty_active l) (ref_localities ref) of
        None \<Rightarrow> None
      | Some l \<Rightarrow>
          (case List.find (\<lambda>d. del_id d = lty_delegationId l \<and> del_active d) (ref_delegations ref) of
             None \<Rightarrow> None
           | Some d \<Rightarrow> map_option (\<lambda>g. (l, d, g))
               (List.find (\<lambda>g. gov_id g = del_governorateId d \<and> gov_active g) (ref_governorates ref))))"

definition servable :: "delivery_zone \<Rightarrow> bool" where
  "servable z = (zone_active z \<and> zone_supported z \<and> \<not> zone_temporarilySuspended z)"

definition locality_zones :: "reference_data \<Rightarrow> string \<Rightarrow> (delivery_zone \<times> int) list" where
  "locality_zones ref lid =
     concat (map (\<lambda>zl.
       if zl_localityId zl = lid \<and> zl_active zl then
         (case List.find (\<lambda>z. zone_id z = zl_zoneId zl \<and> servable z) (ref_zones ref) of
            None \<Rightarrow> []
          | Some z \<Rightarrow> [(z, case zl_priorityOverride zl of Some p \<Rightarrow> p | None \<Rightarrow> zone_priority z)])
       else []) (ref_zoneLinks ref))"

definition zone_order :: "delivery_zone \<times> int \<Rightarrow> int \<times> nat list \<times> nat list" where
  "zone_order zp = (- snd zp, locale_key (zone_id (fst zp)))"

definition select_zone :: "(delivery_zone \<times> int) list \<Rightarrow> delivery_zone result" where
  "select_zone zs =
     (case sort_key zone_order zs of
        [] \<Rightarrow> Inl (conflict ''DELIVERY_AREA_UNSUPPORTED'')
      | [z] \<Rightarrow> Inr (fst z)
      | z # z' # _ \<Rightarrow> if snd z' = snd z then Inl deliveryConfigurationError else Inr (fst z))"

text \<open>The \<open>where\<close> clause of the rate query.\<close>

definition rate_matches :: "int \<Rightarrow> string \<Rightarrow> locality \<Rightarrow> delegation \<Rightarrow> delivery_rate \<Rightarrow> bool" where
  "rate_matches n zid l d r =
     (rate_valid n r \<and>
      (rate_localityId r = Some (lty_id l)
       \<or> (rate_delegationId r = Some (lty_delegationId l) \<and> rate_localityId r = None)
       \<or> (rate_governorateId r = Some (del_governorateId d) \<and> rate_delegationId r = None
          \<and> rate_localityId r = None)
       \<or> (rate_deliveryZoneId r = Some zid \<and> rate_governorateId r = None \<and> rate_delegationId r = None
          \<and> rate_localityId r = None)
       \<or> (rate_deliveryZoneId r = None \<and> rate_governorateId r = None \<and> rate_delegationId r = None
          \<and> rate_localityId r = None)))"

definition SURCHARGE_TYPES :: "quote_rate_type list" where
  "SURCHARGE_TYPES = [REMOTE_SURCHARGE, WEIGHT_SURCHARGE, OVERSIZE_SURCHARGE, EXPRESS_SURCHARGE]"

definition select_rates :: "delivery_rate list \<Rightarrow> rate_context \<Rightarrow> (delivery_rate \<times> delivery_rate list) result" where
  "select_rates rates c =
     bindE (selectBaseRate rates c) (\<lambda>base.
     bindE (mapE (selectSurchargeRate rates c) SURCHARGE_TYPES) (\<lambda>surcharges.
     Inr (base, concat (map (\<lambda>s. case s of None \<Rightarrow> [] | Some r \<Rightarrow> [r]) surcharges))))"

text \<open>The \<open>catch\<close> of \<open>resolveFulfillment\<close>.\<close>

definition catch_rate_error :: "'a result \<Rightarrow> 'a result" where
  "catch_rate_error r =
     (case r of
        Inl (RateResolutionError c) \<Rightarrow>
          Inl (if c = ''DELIVERY_RATE_MISSING'' then conflict ''DELIVERY_RATE_UNAVAILABLE''
               else deliveryConfigurationError)
      | _ \<Rightarrow> r)"

definition minimum :: "int list \<Rightarrow> int option" where
  "minimum xs = (case xs of [] \<Rightarrow> None | y # ys \<Rightarrow> Some (fold min ys y))"

definition somes :: "'a option list \<Rightarrow> 'a list" where
  "somes xs = concat (map (\<lambda>m. case m of None \<Rightarrow> [] | Some x \<Rightarrow> [x]) xs)"

definition courier_total :: "delivery_zone \<Rightarrow> int \<Rightarrow> int \<Rightarrow> int" where
  "courier_total zone orderMillimes fees =
     (case zone_freeDeliveryThresholdMillimes zone of
        Some t \<Rightarrow> if orderMillimes \<ge> t then 0 else fees | None \<Rightarrow> fees)"

definition courier_fulfillment ::
  "delivery_zone \<Rightarrow> locality \<times> delegation \<times> governorate \<Rightarrow> rate_context \<Rightarrow> delivery_rate \<Rightarrow> delivery_rate list
     \<Rightarrow> int \<Rightarrow> fulfillment" where
  "courier_fulfillment zone place c base surcharges fees =
     (case place of (l, d, g) \<Rightarrow>
      let selected = base # surcharges;
          deliveryTotal = courier_total zone (ctx_orderMillimes c) fees
      in \<lparr> ff_methodType = COURIER,
           ff_methodSnapshot = zone_code zone @ '' - '' @ zone_nameFr zone,
           ff_deliveryTotalMillimes = deliveryTotal,
           ff_maxCodMillimes = minimum (somes (zone_maxCodMillimes zone # map rate_maxCodMillimes selected)),
           ff_deliveryZoneId = Some (zone_id zone), ff_deliveryRateId = Some (rate_id base),
           ff_pickupLocationId = None,
           ff_phoneConfirmationRequired = zone_phoneConfirmationRequired zone,
           ff_manualReviewRequired = zone_manualReviewRequired zone,
           ff_feeRuleSnapshot = JObj [(''schemaVersion'', JNum 1), (''method'', JStr ''COURIER''),
             (''deliveryZoneId'', JStr (zone_id zone)), (''baseRateId'', JStr (rate_id base)),
             (''selectedRateIds'', JArr (map (\<lambda>r. JStr (rate_id r)) selected)),
             (''feeMillimes'', JNum deliveryTotal), (''freeDeliveryApplied'', JBool (deliveryTotal = 0)),
             (''express'', JBool (ctx_express c)),
             (''estimatedMinDays'', jopt JNum (zone_estimatedMinDays zone)),
             (''estimatedMaxDays'', jopt JNum (zone_estimatedMaxDays zone)),
             (''estimatedMinMinutes'', jopt JNum (zone_estimatedMinMinutes zone)),
             (''estimatedMaxMinutes'', jopt JNum (zone_estimatedMaxMinutes zone)),
             (''paymentMethod'', jopt JStr (zone_paymentMethod zone)),
             (''assignmentMode'', jopt JStr (zone_assignmentMode zone)),
             (''driverCommunication'', jopt JStr (zone_driverCommunication zone)),
             (''phoneConfirmationRequired'', JBool (zone_phoneConfirmationRequired zone)),
             (''manualReviewRequired'', JBool (zone_manualReviewRequired zone))],
           ff_courierAddress = Some \<lparr> cra_governorateId = del_governorateId d,
             cra_delegationId = lty_delegationId l, cra_localityId = lty_id l,
             cra_governorateName = gov_nameFr g, cra_delegationName = del_nameFr d,
             cra_localityName = lty_nameFr l \<rparr>,
           ff_pickupAddress = None \<rparr>)"

definition resolve_courier ::
  "env \<Rightarrow> 'a shop_db_scheme \<Rightarrow> checkout_input \<Rightarrow> string \<Rightarrow> int \<Rightarrow> int \<Rightarrow> fulfillment result" where
  "resolve_courier e db input lid orderMillimes weightGrams =
     (let ref = reference db in
      bindE (some_or (active_locality ref lid) (conflict ''DELIVERY_AREA_UNSUPPORTED'')) (\<lambda>(l, d, g).
      bindE (select_zone (locality_zones ref lid)) (\<lambda>zone.
      require (at_least (zone_minOrderMillimes zone) orderMillimes) (conflict ''MINIMUM_ORDER_NOT_MET'') (
      let rates = filter (rate_matches (now e) (zone_id zone) l d) (ref_rates ref);
          c = \<lparr> ctx_deliveryZoneId = zone_id zone, ctx_governorateId = del_governorateId d,
                ctx_delegationId = lty_delegationId l, ctx_localityId = lty_id l,
                ctx_orderMillimes = orderMillimes, ctx_weightGrams = weightGrams,
                ctx_express = wants_express input \<rparr>
      in catch_rate_error (
         bindE (select_rates rates c) (\<lambda>(base, surcharges).
         require (\<not> (ctx_express c \<and> \<not> list_ex (\<lambda>r. rate_type r = EXPRESS_SURCHARGE) surcharges))
           (conflict ''EXPRESS_DELIVERY_UNAVAILABLE'') (
         require (\<not> list_ex (\<lambda>r. rate_feeMillimes r < 0) (base # surcharges)) deliveryConfigurationError (
         bindE (addMillimes (map rate_feeMillimes (base # surcharges))) (\<lambda>fees.
         Inr (courier_fulfillment zone (l, d, g) c base surcharges fees))))))))))"

definition resolveFulfillment ::
  "env \<Rightarrow> 'a shop_db_scheme \<Rightarrow> checkout_input \<Rightarrow> int \<Rightarrow> int \<Rightarrow> fulfillment result" where
  "resolveFulfillment e db input orderMillimes weightGrams =
     (case or_null (ci_pickupLocationId input) of
        Some pid \<Rightarrow> resolve_pickup db pid orderMillimes
      | None \<Rightarrow> resolve_courier e db input (case ci_localityId input of Some l \<Rightarrow> l | None \<Rightarrow> [])
                  orderMillimes weightGrams)"

definition validateAddress :: "'a shop_db_scheme \<Rightarrow> checkout_input \<Rightarrow> fulfillment \<Rightarrow> unit result" where
  "validateAddress db input ff =
     (case (ff_courierAddress ff, Option.bind (ci_address input) (\<lambda>a. or_null (ca_postalCode a))) of
        (Some a, Some code) \<Rightarrow>
          require (list_ex (\<lambda>p. pc_localityId p = cra_localityId a \<and> pc_code p = code \<and> pc_active p)
                     (ref_postalCodes (reference db)))
            (conflict ''POSTAL_CODE_INVALID'') (Inr ())
      | _ \<Rightarrow> Inr ())"

section \<open>Consent documents\<close>

definition resolveConsentVersions ::
  "env \<Rightarrow> 'a shop_db_scheme \<Rightarrow> checkout_input \<Rightarrow> string \<Rightarrow> (legal_version option \<times> legal_version option) result" where
  "resolveConsentVersions e db input locale =
     (let c = ci_consent input;
          requested = somes [or_null (cc_termsDocumentVersionId c), or_null (cc_privacyDocumentVersionId c)]
      in if requested = [] then Inr (None, None)
         else
           let versions = filter (\<lambda>v. lv_id v \<in> set requested \<and> lv_published v
                  \<and> not_after (lv_publishedAt v) (now e) \<and> not_after (lv_effectiveAt v) (now e)
                  \<and> lv_retiredAt v = None \<and> lv_locale v = locale) (ref_legalVersions (reference db));
               terms = List.find (\<lambda>v. Some (lv_id v) = cc_termsDocumentVersionId c
                         \<and> lv_type v = TERMS_AND_CONDITIONS) versions;
               privacy = List.find (\<lambda>v. Some (lv_id v) = cc_privacyDocumentVersionId c
                         \<and> lv_type v = PRIVACY_POLICY) versions
           in require (\<not> ((or_null (cc_termsDocumentVersionId c) \<noteq> None \<and> terms = None)
                        \<or> (or_null (cc_privacyDocumentVersionId c) \<noteq> None \<and> privacy = None)))
                (conflict ''CONSENT_VERSION_INVALID'') (Inr (terms, privacy)))"

section \<open>The answer\<close>

definition nullableOperationalDuration :: "json option \<Rightarrow> int option" where
  "nullableOperationalDuration v = (case v of Some (JNum n) \<Rightarrow> if n \<ge> 0 then Some n else None | _ \<Rightarrow> None)"

definition nullableOperationalEnum :: "json option \<Rightarrow> string list \<Rightarrow> string option" where
  "nullableOperationalEnum v allowed =
     (case v of Some (JStr s) \<Rightarrow> if List.member allowed s then Some s else None | _ \<Rightarrow> None)"

record operational_metadata =
  om_estimatedMinDays :: "int option"
  om_estimatedMaxDays :: "int option"
  om_estimatedMinMinutes :: "int option"
  om_estimatedMaxMinutes :: "int option"
  om_paymentMethod :: "string option"
  om_phoneConfirmationRequired :: bool

definition deliveryOperationalMetadata :: "json \<Rightarrow> bool \<Rightarrow> operational_metadata" where
  "deliveryOperationalMetadata snapshot phoneConfirmationRequired =
     \<lparr> om_estimatedMinDays = nullableOperationalDuration (jfield ''estimatedMinDays'' snapshot),
       om_estimatedMaxDays = nullableOperationalDuration (jfield ''estimatedMaxDays'' snapshot),
       om_estimatedMinMinutes = nullableOperationalDuration (jfield ''estimatedMinMinutes'' snapshot),
       om_estimatedMaxMinutes = nullableOperationalDuration (jfield ''estimatedMaxMinutes'' snapshot),
       om_paymentMethod = nullableOperationalEnum (jfield ''paymentMethod'' snapshot) [''CASH_ON_DELIVERY''],
       om_phoneConfirmationRequired =
         (case jfield ''phoneConfirmationRequired'' snapshot of
            Some (JBool b) \<Rightarrow> b | _ \<Rightarrow> phoneConfirmationRequired) \<rparr>"

end
