(* ===== verification/Contracts.thy ===== *)
theory Contracts
  imports Prelude
begin

text \<open>
  The interfaces the components share.  A handler that takes an idempotency key records its answer
  under the key.  \<open>idempotent_run\<close> is the contract of one that claims the key inside its own
  transaction; \<open>idempotent\<close> that of one that looks the key up in the database \<open>seen\<close> before its
  transaction, which then runs on a database \<open>db\<close> that concurrent requests may have changed.
\<close>

section \<open>Handlers that record their answer\<close>

text \<open>
  \<open>lookup q db\<close> is the answer recorded for the request, \<open>mark\<close> turns the answer of the first
  execution into the one a replay gives (it sets a flag, or does nothing).
\<close>

locale idempotent_run =
  fixes inv :: "'db \<Rightarrow> bool"
    and run :: "'req \<Rightarrow> 'db \<Rightarrow> ('resp \<times> 'db) result"
    and lookup :: "'req \<Rightarrow> 'db \<Rightarrow> 'resp option"
    and mark :: "'resp \<Rightarrow> 'resp"
  assumes first_run: "\<lbrakk>inv db; lookup q db = None; run q db = Inr (r, db')\<rbrakk> \<Longrightarrow> lookup q db' = Some (mark r)"
    and replayed_run: "lookup q db = Some r \<Longrightarrow> run q db = Inr (r, db)"
begin

text \<open>The same request again: the recorded answer, and nothing is written.\<close>

lemma recorded:
  assumes "inv db" and "run q db = Inr (r, db')"
  obtains a where "lookup q db' = Some a" and "a = r \<or> a = mark r"
proof (cases "lookup q db")
  case None
  then show ?thesis using first_run [OF assms(1) None assms(2)] that by blast
next
  case (Some a)
  from replayed_run [OF Some] assms(2) Some that show ?thesis by auto
qed

lemma again:
  assumes "inv db" and "run q db = Inr (r, db')"
  shows "\<exists>a. (a = r \<or> a = mark r) \<and> run q db' = Inr (a, db')"
  using recorded [OF assms] replayed_run by metis

text \<open>Any number of retries has the effect of one.\<close>

primrec retries :: "nat \<Rightarrow> 'req \<Rightarrow> 'db \<Rightarrow> 'db" where
  "retries 0 q db = db"
| "retries (Suc n) q db = (case run q db of Inr (r, db') \<Rightarrow> retries n q db' | Inl _ \<Rightarrow> retries n q db)"

lemma retries_recorded: "lookup q db = Some a \<Longrightarrow> retries n q db = db"
  by (induction n) (simp_all add: replayed_run)

lemma retries_once:
  assumes "inv db"
  shows "retries (Suc n) q db = retries 1 q db"
proof (cases "run q db")
  case (Inl x)
  then have "retries m q db = db" for m by (induction m) simp_all
  then show ?thesis by simp
next
  case (Inr p)
  obtain r db' where p: "p = (r, db')" by (cases p)
  obtain a where "lookup q db' = Some a" using recorded [OF assms Inr [unfolded p]] by blast
  with Inr p show ?thesis by (simp add: retries_recorded)
qed

end

section \<open>Handlers that look before they write\<close>

locale idempotent =
  fixes inv :: "'db \<Rightarrow> bool"
    and run :: "'req \<Rightarrow> 'db \<Rightarrow> 'db \<Rightarrow> ('resp \<times> 'db) result"
    and lookup :: "'req \<Rightarrow> 'db \<Rightarrow> 'resp option"
    and mark :: "'resp \<Rightarrow> 'resp"
  assumes first: "\<lbrakk>inv db; lookup q seen = None; lookup q db = None; run q seen db = Inr (r, db')\<rbrakk>
      \<Longrightarrow> lookup q db' = Some (mark r)"
    and replayed: "lookup q seen = Some r \<Longrightarrow> run q seen db = Inr (r, db)"
    and raced: "\<lbrakk>lookup q seen = None; lookup q db = Some r; run q seen db = Inr (r', db')\<rbrakk>
      \<Longrightarrow> r' = r \<and> db' = db"
begin

text \<open>Two concurrent requests that both found no record: whichever transaction runs second
  either fails or answers with the first one's result, and never writes.\<close>

lemma concurrent:
  assumes "inv db" and "lookup q seen = None" and "lookup q db = None"
    and "run q seen db = Inr (r, db1)" and "run q seen db1 = Inr (r', db2)"
  shows "r' = mark r \<and> db2 = db1"
  using raced [OF assms(2) first [OF assms(1-4)] assms(5)] .

end

text \<open>Without concurrency the lookup and the transaction see the same database.\<close>

sublocale idempotent \<subseteq> once: idempotent_run inv "\<lambda>q db. run q db db" lookup mark
  by unfold_locales (auto intro: first replayed)

end
