(* ===== verification/Checkout.thy ===== *)
theory Checkout
  imports Fulfillment Outbox Contracts
begin

text \<open>
  \<open>checkout/checkout-order.service.ts\<close>: \<open>create\<close> and its transaction, which claims the
  idempotency key, prices the cart, allocates and reserves stock and writes the order with its
  lines, addresses, consents, history, delivery, expected cash, notifications and audit.  The
  transaction is split into the phases of the source; each phase maps the database to an
  exception (the transaction rolls back) or to its result and the new database.
\<close>

section \<open>Idempotency\<close>

definition IDEMPOTENCY_TTL_MS :: int where
  "IDEMPOTENCY_TTL_MS = 24 * 60 * 60 * 1000"

definition RESERVATION_TTL_MS :: int where
  "RESERVATION_TTL_MS = 30 * 60 * 1000"

definition MAX_TRANSACTION_ATTEMPTS :: nat where
  "MAX_TRANSACTION_ATTEMPTS = 3"

text \<open>\<open>INSERT ... ON DUPLICATE KEY UPDATE id = id\<close> leaves a clashing row as it is.\<close>

definition insert_claim :: "idempotency_claim \<Rightarrow> 'a shop_db_scheme \<Rightarrow> 'a shop_db_scheme" where
  "insert_claim c db =
     (if list_ex (\<lambda>x. clm_id x = clm_id c \<or> clm_keyHash x = clm_keyHash c) (claims db) then db
      else db\<lparr> claims := claims db @ [c] \<rparr>)"

definition claimIdempotency ::
  "env \<Rightarrow> string \<Rightarrow> string \<Rightarrow> string \<Rightarrow> 'a shop_db_scheme \<Rightarrow> (idempotency_claim \<times> 'a shop_db_scheme) result" where
  "claimIdempotency e audienceScope keyHash requestHash db =
     (let claimId = random_hex e;
          db1 = insert_claim \<lparr> clm_id = claimId, clm_keyHash = keyHash, clm_audienceScope = audienceScope,
                  clm_requestHash = requestHash, clm_orderId = None, clm_lockedAt = now e,
                  clm_completedAt = None, clm_expiresAt = now e + IDEMPOTENCY_TTL_MS \<rparr> db
      in bindE (some_or (List.find (\<lambda>c. clm_keyHash c = keyHash) (claims db1))
                 (unavailable ''IDEMPOTENCY_STATE_INVALID'')) (\<lambda>claim.
         require (clm_audienceScope claim = audienceScope \<and> clm_requestHash claim = requestHash)
           (conflict ''IDEMPOTENCY_CONFLICT'') (
         require (\<not> (clm_completedAt claim = None \<and> clm_id claim \<noteq> claimId))
           (conflict ''IDEMPOTENCY_IN_PROGRESS'') (
         Inr (claim, db1)))))"

record order_response =
  or_id :: string
  or_orderNumber :: string
  or_status :: order_status
  or_paymentStatus :: payment_status
  or_subtotalMillimes :: int
  or_discountTotalMillimes :: int
  or_deliveryTotalMillimes :: int
  or_taxTotalMillimes :: int
  or_grandTotalMillimes :: int
  or_expectedCodMillimes :: int
  or_deliveryMethodType :: method_type
  or_fulfillment :: operational_metadata
  or_createdAt :: string

definition orderResponse :: "order \<Rightarrow> order_response" where
  "orderResponse o' =
     \<lparr> or_id = ord_id o', or_orderNumber = ord_number o', or_status = PENDING_CONFIRMATION,
       or_paymentStatus = CASH_EXPECTED, or_subtotalMillimes = ord_subtotalMillimes o',
       or_discountTotalMillimes = ord_discountTotalMillimes o',
       or_deliveryTotalMillimes = ord_deliveryTotalMillimes o',
       or_taxTotalMillimes = ord_taxTotalMillimes o', or_grandTotalMillimes = ord_grandTotalMillimes o',
       or_expectedCodMillimes = ord_expectedCodMillimes o', or_deliveryMethodType = ord_methodType o',
       or_fulfillment = deliveryOperationalMetadata (ord_feeRule o') (ord_phoneConfirmationRequired o'),
       or_createdAt = iso_string (ord_createdAt o') \<rparr>"

definition find_order :: "'a shop_db_scheme \<Rightarrow> string \<Rightarrow> order option" where
  "find_order db oid = List.find (\<lambda>o'. ord_id o' = oid) (orders db)"

definition checkout_replay :: "'a shop_db_scheme \<Rightarrow> string \<Rightarrow> order_response result" where
  "checkout_replay db oid =
     bindE (some_or (find_order db oid) (unavailable ''IDEMPOTENCY_STATE_INVALID'')) (\<lambda>o'.
     Inr (orderResponse o'))"

section \<open>Customer and cart\<close>

definition checkout_customer :: "env \<Rightarrow> 'a shop_db_scheme \<Rightarrow> string \<Rightarrow> customer result" where
  "checkout_customer e db userId =
     bindE (some_or (List.find (\<lambda>c. cus_userId c = userId \<and> cus_userIsCustomer c \<and> cus_userActive c
                \<and> cus_userDeletedAt c = None \<and> cus_suspendedAt c = None \<and> cus_anonymizedAt c = None)
              (ref_customers (reference db)))
            (forbidden ''CUSTOMER_ACCOUNT_UNAVAILABLE'')) (\<lambda>c.
     require (\<not> list_ex (\<lambda>b. bl_customerId b = Some (cus_id c) \<and> bl_status b = BL_ACTIVE
                 \<and> bl_startsAt b \<le> now e \<and> null_or_after (bl_expiresAt b) (now e))
               (ref_blocklist (reference db)))
       (forbidden ''CUSTOMER_CHECKOUT_BLOCKED'') (Inr c))"

text \<open>\<open>orderBy: [{ updatedAt: 'desc' }, { id: 'asc' }]\<close> on ids; the items by variant and id.\<close>

definition active_cart :: "'a shop_db_scheme \<Rightarrow> string \<Rightarrow> cart option" where
  "active_cart db customerId =
     (case sort_key (\<lambda>c. (- cart_updatedAt c, cart_id c))
             (filter (\<lambda>c. cart_customerId c = Some customerId \<and> cart_status c = CART_ACTIVE) (carts db)) of
        [] \<Rightarrow> None | c # _ \<Rightarrow> Some c)"

definition cart_lines :: "cart \<Rightarrow> order_line list" where
  "cart_lines c =
     map (\<lambda>i. \<lparr> ol_variantId = citem_variantId i, ol_quantity = citem_quantity i \<rparr>)
       (sort_key (\<lambda>i. (citem_variantId i, citem_id i)) (cart_items c))"

definition lockCheckoutCart ::
  "env \<Rightarrow> 'a shop_db_scheme \<Rightarrow> string \<Rightarrow> order_line list \<Rightarrow> cart result" where
  "lockCheckoutCart e db customerId requestedItems =
     bindE (some_or (active_cart db customerId) (conflict ''CART_EMPTY'')) (\<lambda>c.
     require (null_or_after (cart_expiresAt c) (now e)) (conflict ''CART_EXPIRED'') (
     require (sort_key (\<lambda>l. locale_key (ol_variantId l)) requestedItems = cart_lines c)
       (conflict ''CART_CHANGED'') (Inr c)))"

section \<open>Pricing\<close>

definition safeQuantityProduct :: "int \<Rightarrow> int \<Rightarrow> int result" where
  "safeQuantityProduct left right =
     (let r = js_mul left right
      in require (safe r \<and> \<not> r < 0) (unavailable ''CATALOG_MEASUREMENT_INVALID'') (Inr r))"

text \<open>The rows of \<open>variants\<close>: sellable variants of public products, with their product.\<close>

definition checkout_variants :: "env \<Rightarrow> 'a shop_db_scheme \<Rightarrow> string list \<Rightarrow> (variant \<times> product) list" where
  "checkout_variants e db variantIds =
     concat (map (\<lambda>v.
       if var_id v \<in> set variantIds \<and> publicSellableVariantWhere v then
         (case List.find (\<lambda>p. prod_id p = var_productId v) (ref_products (reference db)) of
            None \<Rightarrow> []
          | Some p \<Rightarrow> if buildPublicProductWhere (now e) db p then [(v, p)] else [])
       else []) (variants db))"

record priced_line =
  pl_requested :: order_line
  pl_variant :: variant
  pl_product :: product
  pl_calculation :: quote_line

record priced_cart =
  pc_subtotalMillimes :: int
  pc_discountTotalMillimes :: int
  pc_taxTotalMillimes :: int
  pc_totalWeightGrams :: int
  pc_lines :: "priced_line list"

definition catch_range_error :: "exn \<Rightarrow> 'a result \<Rightarrow> 'a result" where
  "catch_range_error x r = (case r of Inl (RangeError _) \<Rightarrow> Inl x | _ \<Rightarrow> r)"

definition price_line ::
  "(variant \<times> product) list \<Rightarrow> int \<Rightarrow> order_line \<Rightarrow> priced_cart \<Rightarrow> priced_cart result" where
  "price_line vs minimumAge l pc =
     bindE (some_or (List.find (\<lambda>vp. var_id (fst vp) = ol_variantId l) vs)
              (conflict ''PRODUCT_UNAVAILABLE'')) (\<lambda>(v, p).
     require (case prod_minimumAge p of None \<Rightarrow> True | Some a \<Rightarrow> \<not> a > minimumAge)
       (conflict ''PRODUCT_AGE_RESTRICTION'') (
     bindE (catch_range_error (unavailable ''CATALOG_PRICE_INVALID'')
              (calculateQuoteLine \<lparr> listUnitPriceMillimes = var_priceMillimes v,
                 promotionalUnitPriceMillimes = var_promotionalPriceMillimes v,
                 line_quantity = ol_quantity l, taxRateBps = var_taxRateBps v \<rparr>)) (\<lambda>calc.
     bindE (addMillimes [pc_subtotalMillimes pc, listSubtotalMillimes calc]) (\<lambda>subtotal.
     bindE (addMillimes [pc_discountTotalMillimes pc, discountMillimes calc]) (\<lambda>discount.
     bindE (addMillimes [pc_taxTotalMillimes pc, taxMillimes calc]) (\<lambda>tax.
     bindE (safeQuantityProduct (var_weightGrams v) (ol_quantity l)) (\<lambda>w.
     bindE (addMillimes [pc_totalWeightGrams pc, w]) (\<lambda>weight.
     Inr \<lparr> pc_subtotalMillimes = subtotal, pc_discountTotalMillimes = discount,
           pc_taxTotalMillimes = tax, pc_totalWeightGrams = weight,
           pc_lines = pc_lines pc @ [\<lparr> pl_requested = l, pl_variant = v, pl_product = p,
                                        pl_calculation = calc \<rparr>] \<rparr>))))))))"

definition price_cart ::
  "(variant \<times> product) list \<Rightarrow> int \<Rightarrow> order_line list \<Rightarrow> priced_cart result" where
  "price_cart vs minimumAge ls =
     foldE (price_line vs minimumAge) ls
       \<lparr> pc_subtotalMillimes = 0, pc_discountTotalMillimes = 0, pc_taxTotalMillimes = 0,
         pc_totalWeightGrams = 0, pc_lines = [] \<rparr>"

section \<open>Stock\<close>

text \<open>The candidate buckets, and the sum of the active reservations of one bucket.\<close>

definition inventory_candidates :: "env \<Rightarrow> 'a shop_db_scheme \<Rightarrow> string list \<Rightarrow> item list" where
  "inventory_candidates e db variantIds =
     filter (\<lambda>i. item_variantId i \<in> set variantIds \<and> eligibleOrderInventoryWhere (now e) db i)
       (sort_key item_id (items db))"

definition add_reserved :: "reservation \<Rightarrow> int \<Rightarrow> int result" where
  "add_reserved r acc =
     require (safe (res_quantity r) \<and> \<not> res_quantity r \<le> 0) (unavailable ''INVENTORY_INVARIANT_BREACH'') (
     let next = js_add acc (res_quantity r)
     in require (safe next) (unavailable ''INVENTORY_INVARIANT_BREACH'') (Inr next))"

definition allocation_bucket :: "env \<Rightarrow> 'a shop_db_scheme \<Rightarrow> item \<Rightarrow> bucket result" where
  "allocation_bucket e db i =
     bindE (foldE add_reserved
              (filter (\<lambda>r. res_itemId r = item_id i \<and> active_at (now e) r) (reservations db)) 0) (\<lambda>reserved.
     require (safe reserved \<and> \<not> reserved > item_onHand i) (unavailable ''INVENTORY_INVARIANT_BREACH'') (
     Inr \<lparr> bk_id = item_id i, bk_variantId = item_variantId i,
           bk_available = item_onHand i - reserved \<rparr>))"

text \<open>\<open>variants.flatMap(variant => variant.inventoryItems.map(...))\<close>.\<close>

definition variant_items :: "item list \<Rightarrow> (variant \<times> product) list \<Rightarrow> item list" where
  "variant_items candidates vs =
     concat (map (\<lambda>vp. filter (\<lambda>i. item_variantId i = var_id (fst vp)) candidates) vs)"

definition allocate_stock ::
  "env \<Rightarrow> 'a shop_db_scheme \<Rightarrow> item list \<Rightarrow> order_line list \<Rightarrow> allocation list result" where
  "allocate_stock e db its ls =
     bindE (mapE (allocation_bucket e db) its) (\<lambda>buckets.
     some_or (allocateInventory ls buckets) (conflict ''OUT_OF_STOCK''))"

section \<open>The order number\<close>

definition nextOrderNumber :: "env \<Rightarrow> 'a shop_db_scheme \<Rightarrow> (string \<times> 'a shop_db_scheme) result" where
  "nextOrderNumber e db =
     (case filter (\<lambda>c. sc_key c = ''order-number'') (counters db) of
        [c] \<Rightarrow>
          let v = sc_value c + 1;
              db1 = db\<lparr> counters := update_where (\<lambda>c. sc_key c = ''order-number'')
                                     (\<lambda>c. c\<lparr> sc_value := sc_value c + 1 \<rparr>) (counters db) \<rparr>
          in require (\<not> (v \<le> 0 \<or> v > 999999999999)) (unavailable ''ORDER_SEQUENCE_EXHAUSTED'') (
             Inr (''TJ-'' @ int_text (utc_year (now e)) @ ''-'' @ pad_start 8 CHR ''0'' (int_text v), db1))
      | _ \<Rightarrow> Inl (unavailable ''ORDER_SEQUENCE_UNAVAILABLE''))"

section \<open>The rows of an order\<close>

definition ev_ip :: "env \<Rightarrow> string option" where
  "ev_ip e = or_null (map_option (take 45) (case req_ip e of Some ip \<Rightarrow> Some ip | None \<Rightarrow> req_remoteAddress e))"

definition ev_agent :: "env \<Rightarrow> string option" where
  "ev_agent e = or_null (map_option (take 512) (req_userAgent e))"

text \<open>What the phases before the first write have settled.\<close>

record settled =
  st_policy :: checkout_policy
  st_minimumAge :: int
  st_customer :: customer
  st_cart :: cart
  st_items :: "item list"
  st_priced :: priced_cart
  st_allocations :: "allocation list"
  st_fulfillment :: fulfillment
  st_grandTotal :: int
  st_terms :: "legal_version option"
  st_privacy :: "legal_version option"

definition order_row :: "env \<Rightarrow> checkout_input \<Rightarrow> settled \<Rightarrow> string \<Rightarrow> order" where
  "order_row e input s number =
     (let ff = st_fulfillment s; req = pol_requirements (st_policy s) in
      \<lparr> ord_id = [], ord_number = number, ord_customerId = Some (cus_id (st_customer s)),
        ord_cartId = Some (cart_id (st_cart s)), ord_customerName = ci_customerName input,
        ord_customerPhone = ci_phone input,
        ord_customerEmail = or_null (case ci_email input of Some m \<Rightarrow> Some m | None \<Rightarrow> cus_userEmail (st_customer s)),
        ord_status = PENDING_CONFIRMATION, ord_paymentStatus = CASH_EXPECTED,
        ord_subtotalMillimes = pc_subtotalMillimes (st_priced s),
        ord_discountTotalMillimes = pc_discountTotalMillimes (st_priced s),
        ord_deliveryTotalMillimes = ff_deliveryTotalMillimes ff,
        ord_taxTotalMillimes = pc_taxTotalMillimes (st_priced s),
        ord_grandTotalMillimes = st_grandTotal s, ord_expectedCodMillimes = st_grandTotal s,
        ord_methodType = ff_methodType ff, ord_methodSnapshot = ff_methodSnapshot ff,
        ord_zoneId = or_null (ff_deliveryZoneId ff), ord_rateId = or_null (ff_deliveryRateId ff),
        ord_pickupLocationId = or_null (ff_pickupLocationId ff), ord_feeRule = ff_feeRuleSnapshot ff,
        ord_instructions = Option.bind (ci_address input) (\<lambda>a. or_null (ca_instructions a)),
        ord_ageConfirmedAt = (if ageConfirmationRequired req \<and> cc_ageConfirmed (ci_consent input)
                              then Some (now e) else None),
        ord_minimumAge = st_minimumAge s,
        ord_ageVerificationAtDelivery = deliveryAgeVerificationRequired req,
        ord_phoneConfirmationRequired = ff_phoneConfirmationRequired ff,
        ord_manualReviewRequired = ff_manualReviewRequired ff,
        ord_confirmedAt = None, ord_cancelledAt = None, ord_cancellationReason = None,
        ord_version = 1, ord_createdAt = now e \<rparr>)"

definition order_item_row :: "settled \<Rightarrow> string \<Rightarrow> priced_line \<Rightarrow> order_item result" where
  "order_item_row s oid pl =
     (let v = pl_variant pl; p = pl_product pl; c = pl_calculation pl;
          ar = (cus_locale (st_customer s) = ''ar'')
      in bindE (addMillimes [var_priceMillimes v, - effectiveUnitPriceMillimes c]) (\<lambda>unitDiscount.
         bindE (calculateBasisPoints (effectiveUnitPriceMillimes c) (var_taxRateBps v)) (\<lambda>unitTax.
         Inr \<lparr> oi_id = [], oi_orderId = oid, oi_productId = Some (prod_id p), oi_variantId = Some (var_id v),
               oi_productName = (if ar then prod_nameAr p else prod_nameFr p),
               oi_variantName = (if ar then var_nameAr v else var_nameFr v),
               oi_sku = var_sku v, oi_warningFr = or_null (prod_warningFr p),
               oi_warningAr = or_null (prod_warningAr p), oi_unitPriceMillimes = var_priceMillimes v,
               oi_unitDiscountMillimes = unitDiscount, oi_taxRateBps = var_taxRateBps v,
               oi_unitTaxMillimes = unitTax, oi_quantity = ol_quantity (pl_requested pl),
               oi_lineSubtotalMillimes = listSubtotalMillimes c, oi_lineDiscountMillimes = discountMillimes c,
               oi_lineTaxMillimes = taxMillimes c, oi_lineTotalMillimes = totalMillimes c \<rparr>)))"

definition create_line ::
  "env \<Rightarrow> settled \<Rightarrow> string \<Rightarrow> priced_line \<Rightarrow> (string \<times> string) list \<times> 'a shop_db_scheme
     \<Rightarrow> ((string \<times> string) list \<times> 'a shop_db_scheme) result" where
  "create_line e s oid pl x =
     bindE (order_item_row s oid pl) (\<lambda>row.
     bindE (create_order_item e row (snd x)) (\<lambda>(r, db1).
     Inr ((case or_null (oi_variantId r) of
             Some v \<Rightarrow> (v, oi_id r) # fst x | None \<Rightarrow> fst x), db1)))"

text \<open>One allocation: the reservation of the order and its movement.\<close>

definition reserve_allocation ::
  "env \<Rightarrow> string \<Rightarrow> settled \<Rightarrow> string \<Rightarrow> (string \<times> string) list \<Rightarrow> allocation \<Rightarrow> 'a shop_db_scheme
     \<Rightarrow> 'a shop_db_scheme result" where
  "reserve_allocation e userId s oid orderItemIds a db =
     (case (List.find (\<lambda>i. item_id i = al_itemId a) (st_items s),
            or_null (map_of orderItemIds (al_variantId a))) of
        (Some i, Some oiid) \<Rightarrow>
          bindE (create_reservation e
            \<lparr> res_id = [], res_itemId = item_id i, res_sourceType = SRC_ORDER, res_sourceId = oid,
              res_activeKey = Some (item_id i @ '':ORDER:'' @ oid), res_quantity = al_quantity a,
              res_state = RS_ACTIVE, res_orderId = Some oid, res_orderItemId = Some oiid,
              res_expiresAt = now e + RESERVATION_TTL_MS, res_consumedAt = None, res_releasedAt = None,
              res_releaseReason = None \<rparr> db) (\<lambda>(_, db1).
          bindE (create_movement e
            \<lparr> mv_id = [], mv_itemId = item_id i, mv_locationId = item_locationId i,
              mv_batchId = item_batchId i, mv_type = RESERVATION, mv_delta = 0,
              mv_onHandAfter = item_onHand i, mv_referenceType = Some ''ORDER'', mv_referenceId = Some oid,
              mv_reasonCode = Some ''CHECKOUT_RESERVED'', mv_note = None, mv_actorUserId = Some userId,
              mv_requestId = Some (requestId e), mv_keyHash = None, mv_fingerprint = None,
              mv_occurredAt = now e \<rparr> db1) (\<lambda>(_, db2).
          Inr db2))
      | _ \<Rightarrow> Inl (unavailable ''CHECKOUT_TRANSACTION_INVALID''))"

definition createAddressSnapshot ::
  "env \<Rightarrow> string \<Rightarrow> checkout_input \<Rightarrow> fulfillment \<Rightarrow> 'a shop_db_scheme \<Rightarrow> 'a shop_db_scheme result" where
  "createAddressSnapshot e oid input ff db =
     bindE (create_order_address e
       (case (ff_courierAddress ff, ci_address input) of
          (Some c, Some a) \<Rightarrow>
            \<lparr> oa_id = [], oa_orderId = oid, oa_pickupContact = False, oa_fullName = ci_customerName input,
              oa_phone = ci_phone input, oa_governorateId = Some (cra_governorateId c),
              oa_delegationId = Some (cra_delegationId c), oa_localityId = Some (cra_localityId c),
              oa_governorateName = cra_governorateName c, oa_delegationName = cra_delegationName c,
              oa_localityName = cra_localityName c, oa_postalCode = or_null (ca_postalCode a),
              oa_street = ca_street a, oa_building = or_null (ca_building a), oa_floor = or_null (ca_floor a),
              oa_apartment = or_null (ca_apartment a), oa_landmark = or_null (ca_landmark a),
              oa_instructions = or_null (ca_instructions a) \<rparr>
        | _ \<Rightarrow>
            \<lparr> oa_id = [], oa_orderId = oid, oa_pickupContact = True, oa_fullName = ci_customerName input,
              oa_phone = ci_phone input, oa_governorateId = None, oa_delegationId = None,
              oa_localityId = None, oa_governorateName = ''STORE_PICKUP'',
              oa_delegationName = ''STORE_PICKUP'', oa_localityName = ''STORE_PICKUP'',
              oa_postalCode = None,
              oa_street = (case ff_pickupAddress ff of Some s \<Rightarrow> s | None \<Rightarrow> []),
              oa_building = None, oa_floor = None, oa_apartment = None, oa_landmark = None,
              oa_instructions = None \<rparr>) db) (\<lambda>(_, db1). Inr db1)"

definition consentVersionSnapshot :: "legal_version option \<Rightarrow> (string \<times> string \<times> int \<times> string) option" where
  "consentVersionSnapshot v = map_option (\<lambda>x. (lv_id x, lv_title x, lv_version x, lv_contentHash x)) v"

definition consent_rows :: "env \<Rightarrow> string \<Rightarrow> checkout_input \<Rightarrow> settled \<Rightarrow> order_consent list" where
  "consent_rows e oid input s =
     (let c = ci_consent input;
          row = (\<lambda>t v. \<lparr> oc_id = [], oc_orderId = oid, oc_type = t, oc_granted = True, oc_consentedAt = now e,
                         oc_documentVersion = consentVersionSnapshot v, oc_ipAddress = ev_ip e,
                         oc_userAgent = ev_agent e \<rparr>)
      in if consentRecordingEnabled (pol_requirements (st_policy s)) then
           (if cc_ageConfirmed c then [row CHECKOUT_AGE_CONFIRMATION None] else [])
           @ (if cc_termsAccepted c then [row TERMS (st_terms s)] else [])
           @ (if cc_privacyAccepted c then [row PRIVACY (st_privacy s)] else [])
         else [])"

definition record_consents ::
  "env \<Rightarrow> string \<Rightarrow> checkout_input \<Rightarrow> settled \<Rightarrow> 'a shop_db_scheme \<Rightarrow> 'a shop_db_scheme result" where
  "record_consents e oid input s db =
     (let req = pol_requirements (st_policy s) in
      bindE (foldE (\<lambda>row d. bindE (create_order_consent e row d) (\<lambda>(_, d1). Inr d1))
               (consent_rows e oid input s) db) (\<lambda>db1.
      if consentRecordingEnabled req \<and> cc_ageConfirmed (ci_consent input) then
        bindE (create_age_event e
          \<lparr> ae_id = [], ae_customerId = Some (cus_id (st_customer s)), ae_orderId = Some oid,
            ae_deliveryId = None, ae_phase = ''CHECKOUT'', ae_result = AGE_PENDING,
            ae_minimumAge = st_minimumAge s, ae_method = ''self_attestation'',
            ae_reasonCode = Some (if deliveryAgeVerificationRequired req
              then ''DELIVERY_VERIFICATION_REQUIRED'' else ''SELF_ATTESTED_NOT_IDENTITY_VERIFIED''),
            ae_verifierUserId = None, ae_occurredAt = now e, ae_ipAddress = ev_ip e,
            ae_userAgent = ev_agent e \<rparr> db1) (\<lambda>(_, db2). Inr db2)
      else Inr db1))"

text \<open>The status history, the delivery with its first event and the cash that is expected.\<close>

definition open_delivery ::
  "env \<Rightarrow> string \<Rightarrow> settled \<Rightarrow> order \<Rightarrow> 'a shop_db_scheme \<Rightarrow> 'a shop_db_scheme result" where
  "open_delivery e userId s o' db =
     (let ageRequired = deliveryAgeVerificationRequired (pol_requirements (st_policy s)) in
      bindE (create_status_history e
        \<lparr> sh_id = [], sh_orderId = ord_id o', sh_fromStatus = None, sh_toStatus = PENDING_CONFIRMATION,
          sh_reasonCode = Some ''CHECKOUT_CREATED'', sh_note = None, sh_changedByUserId = Some userId,
          sh_requestId = Some (requestId e), sh_createdAt = now e \<rparr> db) (\<lambda>(_, db1).
      bindE (create_delivery e
        \<lparr> dlv_id = [], dlv_orderId = ord_id o', dlv_courierId = None, dlv_status = PENDING_CONFIRMATION,
          dlv_trackingNumber = None, dlv_courierFeeMillimes = None, dlv_internalNotes = None,
          dlv_assignedAt = None, dlv_handedToCourierAt = None,
          dlv_deliveredAt = None, dlv_nextAttemptAt = None, dlv_ageVerificationRequired = ageRequired,
          dlv_ageVerificationResult = (if ageRequired then AGE_PENDING else NOT_REQUIRED),
          dlv_cashCollectedResult = None, dlv_version = 1 \<rparr> db1) (\<lambda>(d, db2).
      bindE (create_delivery_event e
        \<lparr> de_id = [], de_deliveryId = dlv_id d, de_fromStatus = None, de_toStatus = PENDING_CONFIRMATION,
          de_occurredAt = now e, de_actorUserId = Some userId, de_source = ''CHECKOUT'',
          de_reasonCode = Some ''ORDER_CREATED'', de_note = None, de_payload = JNull, de_requestId = Some (requestId e) \<rparr> db2)
        (\<lambda>(_, db3).
      bindE (create_collection e
        \<lparr> col_id = [], col_orderId = ord_id o', col_deliveryId = Some (dlv_id d), col_courierId = None,
          col_status = EXPECTED, col_expectedMillimes = ord_expectedCodMillimes o',
          col_collectedMillimes = 0, col_collectedByUserId = None, col_collectedAt = None,
          col_evidenceObjectKey = None, col_note = None, col_keyHash = None, col_requestHash = None \<rparr> db3)
        (\<lambda>(_, db4). Inr db4)))))"

definition notify_order ::
  "env \<Rightarrow> checkout_input \<Rightarrow> settled \<Rightarrow> order \<Rightarrow> 'a shop_db_scheme \<Rightarrow> 'a shop_db_scheme result" where
  "notify_order e input s o' db =
     bindE (if customerOrderCreatedNotificationEnabled (pol_requirements (st_policy s)) then
              createOrderNotificationsWithOutbox e
                \<lparr> tgt_id = ord_id o', tgt_orderNumber = ord_number o',
                  tgt_customerEmail = (case ci_email input of Some m \<Rightarrow> Some m
                                       | None \<Rightarrow> cus_userEmail (st_customer s)),
                  tgt_customerPhone = ci_phone input, tgt_locale = cus_locale (st_customer s) \<rparr>
                ORDER_RECEIVED (now e) None db
            else Inr db) (\<lambda>db1.
     bindE (createOperationalAlertWithOutbox e
       \<lparr> al_kind = ALERT_ORDER, al_event = ADMIN_ORDER_CREATED,
         al_idempotencyKey = ''admin-order-created:'' @ ord_id o',
         al_payload = JObj [(''orderNumber'', JStr (ord_number o'))], al_scheduledAt = now e,
         al_enabledKey = Some ''notifications.admin_order_created.enabled'' \<rparr> db1) (\<lambda>(_, db2).
     Inr db2))"

definition checkout_audit :: "env \<Rightarrow> string \<Rightarrow> settled \<Rightarrow> order \<Rightarrow> audit_log" where
  "checkout_audit e userId s o' =
     \<lparr> audit_id = [], audit_actorUserId = Some userId, audit_actorType = ACTOR_CUSTOMER,
       audit_action = ''checkout.order.created'', audit_resourceType = ''Order'',
       audit_resourceId = Some (ord_id o'), audit_outcome = SUCCESS, audit_requestId = requestId e,
       audit_ipAddress = ev_ip e, audit_userAgent = ev_agent e, audit_before = JNull,
       audit_after = JObj [(''orderNumber'', JStr (ord_number o')), (''status'', JStr ''PENDING_CONFIRMATION''),
         (''paymentStatus'', JStr ''CASH_EXPECTED''), (''grandTotalMillimes'', JNum (ord_grandTotalMillimes o')),
         (''currency'', JStr ''TND''), (''reservationCount'', JNum (int (length (st_allocations s))))] \<rparr>"

text \<open>Completing the claim (its order id is unique) and converting the cart.\<close>

definition complete_claim ::
  "env \<Rightarrow> idempotency_claim \<Rightarrow> string \<Rightarrow> 'a shop_db_scheme \<Rightarrow> 'a shop_db_scheme result" where
  "complete_claim e claim oid db =
     require (\<not> list_ex (\<lambda>c. clm_id c \<noteq> clm_id claim \<and> clm_orderId c = Some oid) (claims db))
       (PrismaError ''P2002'') (
     require (list_ex (\<lambda>c. clm_id c = clm_id claim) (claims db)) (PrismaError ''P2025'') (
     Inr (db\<lparr> claims := update_where (\<lambda>c. clm_id c = clm_id claim)
                (\<lambda>c. c\<lparr> clm_orderId := Some oid, clm_completedAt := Some (now e) \<rparr>) (claims db) \<rparr>)))"

definition convert_cart :: "env \<Rightarrow> cart \<Rightarrow> 'a shop_db_scheme \<Rightarrow> 'a shop_db_scheme result" where
  "convert_cart e c db =
     (let hit = (\<lambda>x. cart_id x = cart_id c \<and> cart_status x = CART_ACTIVE \<and> cart_version x = cart_version c)
      in require (count_where hit (carts db) = 1) (conflict ''CART_CHANGED'') (
         Inr (db\<lparr> carts := update_where hit
                (\<lambda>x. x\<lparr> cart_status := CART_CONVERTED, cart_convertedAt := Some (now e),
                       cart_version := cart_version x + 1, cart_updatedAt := now e \<rparr>) (carts db) \<rparr>)))"

section \<open>The transaction\<close>

definition settle_cart ::
  "env \<Rightarrow> 'a shop_db_scheme \<Rightarrow> checkout_input \<Rightarrow> int \<Rightarrow> (item list \<times> priced_cart \<times> allocation list) result" where
  "settle_cart e db input minimumAge =
     (let variantIds = map ol_variantId (ci_items input);
          candidates = inventory_candidates e db variantIds;
          vs = checkout_variants e db variantIds;
          its = variant_items candidates vs
      in require (length vs = length variantIds) (conflict ''PRODUCT_UNAVAILABLE'') (
         bindE (price_cart vs minimumAge (ci_items input)) (\<lambda>priced.
         bindE (allocate_stock e db its (ci_items input)) (\<lambda>allocations.
         Inr (its, priced, allocations)))))"

definition settle ::
  "shop_config \<Rightarrow> env \<Rightarrow> 'a shop_db_scheme \<Rightarrow> checkout_input \<Rightarrow> string \<Rightarrow> settled result" where
  "settle cfg e db input userId =
     (let policy = policy_evaluate cfg (now e) db in
      case pol_minimumAge policy of
        None \<Rightarrow> Inl (Http Conflict ''CHECKOUT_UNAVAILABLE'' (map blocker_name (pol_blockers policy)))
      | Some minimumAge \<Rightarrow>
          require (pol_allowed policy)
            (Http Conflict ''CHECKOUT_UNAVAILABLE'' (map blocker_name (pol_blockers policy))) (
          bindE (assertConfiguredConsent input (pol_requirements policy)) (\<lambda>_.
          bindE (checkout_customer e db userId) (\<lambda>customer.
          bindE (lockCheckoutCart e db (cus_id customer) (ci_items input)) (\<lambda>c.
          bindE (settle_cart e db input minimumAge) (\<lambda>(its, priced, allocations).
          bindE (addMillimes [pc_subtotalMillimes priced, - pc_discountTotalMillimes priced]) (\<lambda>discounted.
          bindE (resolveFulfillment e db input discounted (pc_totalWeightGrams priced)) (\<lambda>ff.
          bindE (addMillimes [discounted, pc_taxTotalMillimes priced, ff_deliveryTotalMillimes ff]) (\<lambda>grandTotal.
          require (at_most (ff_maxCodMillimes ff) grandTotal) (conflict ''MAXIMUM_COD_EXCEEDED'') (
          bindE (validateAddress db input ff) (\<lambda>_.
          bindE (resolveConsentVersions e db input (cus_locale customer)) (\<lambda>(terms, privacy).
          Inr \<lparr> st_policy = policy, st_minimumAge = minimumAge, st_customer = customer, st_cart = c,
                st_items = its, st_priced = priced, st_allocations = allocations, st_fulfillment = ff,
                st_grandTotal = grandTotal, st_terms = terms, st_privacy = privacy \<rparr>))))))))))))"

text \<open>The order, its lines and its reservations; then everything that hangs on it.\<close>

definition write_lines ::
  "env \<Rightarrow> checkout_input \<Rightarrow> string \<Rightarrow> settled \<Rightarrow> 'a shop_db_scheme \<Rightarrow> (order \<times> 'a shop_db_scheme) result" where
  "write_lines e input userId s db =
     bindE (nextOrderNumber e db) (\<lambda>(number, db1).
     bindE (create_order e (order_row e input s number) db1) (\<lambda>(o', db2).
     bindE (foldE (create_line e s (ord_id o')) (pc_lines (st_priced s)) ([], db2)) (\<lambda>(orderItemIds, db3).
     bindE (foldE (reserve_allocation e userId s (ord_id o') orderItemIds) (st_allocations s) db3) (\<lambda>db4.
     Inr (o', db4)))))"

definition write_records ::
  "env \<Rightarrow> checkout_input \<Rightarrow> string \<Rightarrow> settled \<Rightarrow> order \<Rightarrow> 'a shop_db_scheme \<Rightarrow> 'a shop_db_scheme result" where
  "write_records e input userId s o' db =
     bindE (createAddressSnapshot e (ord_id o') input (st_fulfillment s) db) (\<lambda>db1.
     bindE (record_consents e (ord_id o') input s db1) (\<lambda>db2.
     bindE (open_delivery e userId s o' db2) (\<lambda>db3.
     bindE (notify_order e input s o' db3) (\<lambda>db4.
     bindE (create_audit e (checkout_audit e userId s o') db4) (\<lambda>(_, db5). Inr db5)))))"

definition write_order ::
  "env \<Rightarrow> checkout_input \<Rightarrow> string \<Rightarrow> settled \<Rightarrow> idempotency_claim \<Rightarrow> 'a shop_db_scheme
     \<Rightarrow> (order_response \<times> 'a shop_db_scheme) result" where
  "write_order e input userId s claim db =
     bindE (write_lines e input userId s db) (\<lambda>(o', db1).
     bindE (write_records e input userId s o' db1) (\<lambda>db2.
     bindE (complete_claim e claim (ord_id o') db2) (\<lambda>db3.
     bindE (convert_cart e (st_cart s) db3) (\<lambda>db4.
     Inr (orderResponse o', db4)))))"

definition createInTransaction ::
  "shop_config \<Rightarrow> env \<Rightarrow> checkout_input \<Rightarrow> string \<Rightarrow> string \<Rightarrow> string \<Rightarrow> string \<Rightarrow> 'a shop_db_scheme
     \<Rightarrow> (order_response \<times> 'a shop_db_scheme) result" where
  "createInTransaction cfg e input userId audienceScope keyHash requestHash db =
     bindE (claimIdempotency e audienceScope keyHash requestHash db) (\<lambda>(claim, db1).
     case (or_null (clm_orderId claim), clm_completedAt claim) of
       (Some oid, Some _) \<Rightarrow> bindE (checkout_replay db1 oid) (\<lambda>r. Inr (r, db1))
     | _ \<Rightarrow>
         bindE (settle cfg e db1 input userId) (\<lambda>s.
         write_order e input userId s claim db1))"

text \<open>
  \<open>transaction n\<close> is what the n-th run of the transaction gives.  A run that the database aborts with
  \<open>P2034\<close> (a write conflict) was rolled back and is repeated, three times at most.
\<close>

fun checkout_attempts :: "(nat \<Rightarrow> 'r result) \<Rightarrow> nat \<Rightarrow> nat \<Rightarrow> 'r result" where
  "checkout_attempts transaction attempt 0 = Inl (unavailable ''CHECKOUT_TRANSACTION_UNAVAILABLE'')"
| "checkout_attempts transaction attempt (Suc left) =
     (case transaction attempt of
        Inr r \<Rightarrow> Inr r
      | Inl x \<Rightarrow> if x \<noteq> PrismaError ''P2034'' \<or> attempt = MAX_TRANSACTION_ATTEMPTS then Inl x
                 else checkout_attempts transaction (Suc attempt) left)"

text \<open>
  The handler.  \<open>aborted n\<close> tells whether the database aborts the n-th run; \<open>e\<close> and \<open>db\<close> are the request
  and the database of a run that is not aborted.
\<close>

definition audience_scope :: "string \<Rightarrow> string" where
  "audience_scope userId = ''customer:'' @ userId @ '':checkout-order''"

definition checkout_create ::
  "(nat \<Rightarrow> bool) \<Rightarrow> shop_config \<Rightarrow> env \<Rightarrow> checkout_input \<Rightarrow> string option \<Rightarrow> string \<Rightarrow> 'a shop_db_scheme
     \<Rightarrow> (order_response \<times> 'a shop_db_scheme) result" where
  "checkout_create aborted cfg e input idempotencyHeader userId db =
     bindE (some_or (validateIdempotencyKey idempotencyHeader) (badRequest ''IDEMPOTENCY_KEY_INVALID''))
       (\<lambda>key.
     bindE (assertRequestShape input) (\<lambda>_.
     checkout_attempts
       (\<lambda>attempt. if aborted attempt then Inl (PrismaError ''P2034'')
          else createInTransaction cfg e input userId (audience_scope userId)
            (scopedIdempotencyKeyHash e (audience_scope userId) key) (checkoutRequestFingerprint e input) db)
       1 MAX_TRANSACTION_ATTEMPTS))"

end
