(* ===== verification/CsvExport.thy ===== *)
theory CsvExport
  imports Prelude
begin

text \<open>
  \<open>common/export/csv.ts\<close>: cells that a spreadsheet would take for a formula are neutralised,
  cells with a separator, a quote or a line break are quoted.
\<close>

definition formula_blank :: "char \<Rightarrow> bool" where
  "formula_blank c = (c \<in> {CHR 0x09, CHR 0x0D, CHR '' ''})"

text \<open>\<open>FORMULA_PREFIX\<close>: blanks, then one of \<open>= + - @\<close>.\<close>

definition FORMULA_PREFIX :: "string \<Rightarrow> bool" where
  "FORMULA_PREFIX s =
     (case dropWhile formula_blank s of
        [] \<Rightarrow> False
      | c # _ \<Rightarrow> c \<in> {CHR ''='', CHR ''+'', CHR ''-'', CHR ''@''})"

definition neutralizeCsvFormula :: "string \<Rightarrow> string" where
  "neutralizeCsvFormula value = (if FORMULA_PREFIX value then CHR 0x27 # value else value)"

definition QUOTE :: char where
  "QUOTE = CHR 0x22"

definition csv_special :: "char \<Rightarrow> bool" where
  "csv_special c = (c \<in> {QUOTE, CHR '','', CHR 0x0D, CHR 0x0A})"

text \<open>\<open>replaceAll\<close> of a quote by two.\<close>

definition double_quotes :: "string \<Rightarrow> string" where
  "double_quotes s = concat (map (\<lambda>c. if c = QUOTE then [QUOTE, QUOTE] else [c]) s)"

definition escapeCsvCell :: "string \<Rightarrow> string" where
  "escapeCsvCell value =
     (let neutralized = neutralizeCsvFormula value
      in if list_ex csv_special neutralized then QUOTE # double_quotes neutralized @ [QUOTE] else neutralized)"

datatype csv_cell = CsvText string | CsvNumber int | CsvBool bool | CsvNull | CsvUndefined

fun csv_cell_text :: "csv_cell \<Rightarrow> string" where
  "csv_cell_text (CsvText s) = s"
| "csv_cell_text (CsvNumber n) = int_text n"
| "csv_cell_text (CsvBool b) = (if b then ''true'' else ''false'')"
| "csv_cell_text CsvNull = []"
| "csv_cell_text CsvUndefined = []"

fun join_with :: "string \<Rightarrow> string list \<Rightarrow> string" where
  "join_with sep [] = []"
| "join_with sep [x] = x"
| "join_with sep (x # y # xs) = x @ sep @ join_with sep (y # xs)"

definition csv_line :: "csv_cell list \<Rightarrow> string" where
  "csv_line vs = join_with '','' (map (\<lambda>v. escapeCsvCell (csv_cell_text v)) vs)"

definition CRLF :: string where
  "CRLF = [CHR 0x0D, CHR 0x0A]"

text \<open>The byte-order mark is a parameter: it is one code unit outside the characters used here.\<close>

definition serializeCsv :: "string \<Rightarrow> string list \<Rightarrow> csv_cell list list \<Rightarrow> string" where
  "serializeCsv bom headers rows =
     bom @ join_with CRLF (csv_line (map CsvText headers) # map csv_line rows) @ CRLF"

lemma neutralized_no_formula [simp]: "\<not> FORMULA_PREFIX (neutralizeCsvFormula s)"
  by (simp add: neutralizeCsvFormula_def FORMULA_PREFIX_def formula_blank_def)

lemma neutralize_idem [simp]: "neutralizeCsvFormula (neutralizeCsvFormula s) = neutralizeCsvFormula s"
  by (simp add: neutralizeCsvFormula_def [of "neutralizeCsvFormula s"])

end
