(* ===== verification/Orders.thy ===== *)
theory Orders
  imports Machines Checkout CsvExport
begin

text \<open>
  \<open>orders/admin-orders.service.ts\<close>: the administrator confirms, cancels, rejects, prepares and
  hands over orders, records contacts and notes and prints the slip.  Every handler runs in one
  transaction: an exception leaves the database as it was.  \<open>new Date()\<close> is the time of the
  request.
\<close>

section \<open>Reading an order\<close>

fun payment_status_name :: "payment_status \<Rightarrow> string" where
  "payment_status_name PAYMENT_PENDING = ''PAYMENT_PENDING''"
| "payment_status_name CASH_EXPECTED = ''CASH_EXPECTED''"
| "payment_status_name CASH_COLLECTED_BY_COURIER = ''CASH_COLLECTED_BY_COURIER''"
| "payment_status_name CASH_COLLECTED_AT_STORE = ''CASH_COLLECTED_AT_STORE''"
| "payment_status_name CASH_PARTIALLY_COLLECTED = ''CASH_PARTIALLY_COLLECTED''"
| "payment_status_name CASH_REMITTED = ''CASH_REMITTED''"
| "payment_status_name RECONCILIATION_DISCREPANCY = ''RECONCILIATION_DISCREPANCY''"
| "payment_status_name REFUNDED = ''REFUNDED''"
| "payment_status_name PAYMENT_CANCELLED = ''CANCELLED''"

fun note_visibility_name :: "note_visibility \<Rightarrow> string" where
  "note_visibility_name INTERNAL = ''INTERNAL''"
| "note_visibility_name CUSTOMER_VISIBLE = ''CUSTOMER_VISIBLE''"
| "note_visibility_name COURIER_VISIBLE = ''COURIER_VISIBLE''"

text \<open>\<open>ORDER_OPERATION_SELECT\<close>: the order with its customer's locale, delivery, lines and cash.\<close>

record order_operation =
  op_order :: order
  op_locale :: "string option"
  op_delivery :: "delivery option"
  op_items :: "order_item list"
  op_collections :: "collection list"

definition order_delivery :: "'a shop_db_scheme \<Rightarrow> string \<Rightarrow> delivery option" where
  "order_delivery db oid = List.find (\<lambda>d. dlv_orderId d = oid) (deliveries db)"

definition order_locale :: "'a shop_db_scheme \<Rightarrow> order \<Rightarrow> string option" where
  "order_locale db o' =
     Option.bind (ord_customerId o') (\<lambda>cid.
       map_option cus_locale (List.find (\<lambda>c. cus_id c = cid) (ref_customers (reference db))))"

definition order_operation_of :: "'a shop_db_scheme \<Rightarrow> order \<Rightarrow> order_operation" where
  "order_operation_of db o' =
     \<lparr> op_order = o', op_locale = order_locale db o', op_delivery = order_delivery db (ord_id o'),
       op_items = filter (\<lambda>i. oi_orderId i = ord_id o') (order_items db),
       op_collections = filter (\<lambda>c. col_orderId c = ord_id o') (collections db) \<rparr>"

definition lockOrder :: "'a shop_db_scheme \<Rightarrow> string \<Rightarrow> order_operation result" where
  "lockOrder db oid =
     bindE (some_or (find_order db oid) (notFound ''ORDER_NOT_FOUND'')) (\<lambda>o'.
     Inr (order_operation_of db o'))"

definition assertVersion :: "order_operation \<Rightarrow> int \<Rightarrow> unit result" where
  "assertVersion op expectedVersion =
     require (ord_version (op_order op) = expectedVersion) (conflict ''VERSION_CONFLICT'') (Inr ())"

text \<open>The rows behind \<open>ADMIN_ORDER_DETAIL_SELECT\<close>, in the order they were created.\<close>

record order_detail =
  od_order :: order
  od_items :: "order_item list"
  od_addresses :: "order_address list"
  od_history :: "status_history list"
  od_notes :: "order_note list"
  od_delivery :: "delivery option"
  od_events :: "delivery_event list"
  od_collections :: "collection list"

definition requireDetail :: "'a shop_db_scheme \<Rightarrow> string \<Rightarrow> order_detail result" where
  "requireDetail db oid =
     bindE (some_or (find_order db oid) (notFound ''ORDER_NOT_FOUND'')) (\<lambda>o'.
     Inr \<lparr> od_order = o', od_items = filter (\<lambda>i. oi_orderId i = oid) (order_items db),
           od_addresses = filter (\<lambda>a. oa_orderId a = oid) (addresses db),
           od_history = filter (\<lambda>h. sh_orderId h = oid) (histories db),
           od_notes = filter (\<lambda>n. on_orderId n = oid) (order_notes db),
           od_delivery = order_delivery db oid,
           od_events = (case order_delivery db oid of None \<Rightarrow> []
              | Some d \<Rightarrow> filter (\<lambda>v. de_deliveryId v = dlv_id d) (delivery_events db)),
           od_collections = filter (\<lambda>c. col_orderId c = oid) (collections db) \<rparr>)"

section \<open>Reserved stock of an order\<close>

definition open_reservation :: "string \<Rightarrow> reservation \<Rightarrow> bool" where
  "open_reservation oid r = (res_orderId r = Some oid \<and> res_state r = RS_ACTIVE)"

text \<open>The active reservations and the items they are on, both sorted.\<close>

definition lockActiveInventory ::
  "'a shop_db_scheme \<Rightarrow> string \<Rightarrow> (reservation list \<times> item list) result" where
  "lockActiveInventory db oid =
     (let rs = sort_key (\<lambda>r. (res_itemId r, res_id r)) (filter (open_reservation oid) (reservations db));
          inventoryIds = sort (remdups (map res_itemId rs));
          its = sort_key item_id (filter (\<lambda>i. item_id i \<in> set inventoryIds) (items db))
      in require (length its = length inventoryIds) (conflict ''RESERVATION_CONFLICT'') (Inr (rs, its)))"

definition check_reservation ::
  "env \<Rightarrow> order_item list \<Rightarrow> item list \<Rightarrow> reservation \<Rightarrow> (string \<Rightarrow> int option) \<Rightarrow> (string \<Rightarrow> int option) result" where
  "check_reservation e lines its r acc =
     (let invalid = Inl (conflict (if res_expiresAt r \<le> now e then ''ORDER_RESERVATION_EXPIRED''
                                   else ''ORDER_RESERVATION_INVALID''))
      in case List.find (\<lambda>i. Some (oi_id i) = res_orderItemId r) lines of
           None \<Rightarrow> invalid
         | Some l \<Rightarrow>
             if res_quantity r \<le> 0 \<or> res_expiresAt r \<le> now e \<or> or_null (oi_variantId l) = None
                \<or> map_option item_variantId (List.find (\<lambda>i. item_id i = res_itemId r) its) \<noteq> oi_variantId l
             then invalid
             else Inr (acc(oi_id l := Some ((case acc (oi_id l) of Some q \<Rightarrow> q | None \<Rightarrow> 0) + res_quantity r))))"

definition assertReservationCoverage ::
  "env \<Rightarrow> order_operation \<Rightarrow> reservation list \<times> item list \<Rightarrow> unit result" where
  "assertReservationCoverage e op locked =
     require (\<not> (fst locked = [] \<or> op_items op = [])) (conflict ''ORDER_RESERVATION_MISSING'') (
     bindE (foldE (check_reservation e (op_items op) (snd locked)) (fst locked) (\<lambda>_. None)) (\<lambda>acc.
     require (\<not> list_ex (\<lambda>i. acc (oi_id i) \<noteq> Some (oi_quantity i)) (op_items op))
       (conflict ''ORDER_RESERVATION_MISMATCH'') (Inr ())))"

section \<open>Records every handler writes\<close>

definition order_ip :: "env \<Rightarrow> string" where
  "order_ip e = take 45 (case req_ip e of Some a \<Rightarrow> a
     | None \<Rightarrow> (case req_remoteAddress e of Some a \<Rightarrow> a | None \<Rightarrow> ''unknown''))"

definition order_audit :: "env \<Rightarrow> string \<Rightarrow> string \<Rightarrow> json \<Rightarrow> json \<Rightarrow> audit_log" where
  "order_audit e oid action before after =
     \<lparr> audit_id = [], audit_actorUserId = Some (actor e), audit_actorType = ACTOR_ADMIN,
       audit_action = action, audit_resourceType = ''Order'', audit_resourceId = Some oid,
       audit_outcome = SUCCESS, audit_requestId = requestId e, audit_ipAddress = Some (order_ip e),
       audit_userAgent = map_option (take 512) (req_userAgent e), audit_before = before, audit_after = after \<rparr>"

definition notify_customer ::
  "env \<Rightarrow> order_operation \<Rightarrow> notification_event \<Rightarrow> 'a shop_db_scheme \<Rightarrow> 'a shop_db_scheme result" where
  "notify_customer e op event db =
     createOrderNotificationsWithOutbox e
       \<lparr> tgt_id = ord_id (op_order op), tgt_orderNumber = ord_number (op_order op),
         tgt_customerEmail = ord_customerEmail (op_order op),
         tgt_customerPhone = ord_customerPhone (op_order op),
         tgt_locale = (if op_locale op = Some ''ar'' then ''ar-TN'' else ''fr-TN'') \<rparr>
       event (now e) None db"

text \<open>
  The history entry, the delivery event, the notification and the audit of a transition.  The code
  awaits the four together; here they are written one after the other.
\<close>

record transition_log =
  tl_to :: order_status
  tl_source :: string
  tl_reasonCode :: string
  tl_note :: "string option"
  tl_notification :: "notification_event option"
  tl_action :: string
  tl_before :: json
  tl_after :: json

definition log_transition ::
  "env \<Rightarrow> order_operation \<Rightarrow> delivery \<Rightarrow> transition_log \<Rightarrow> 'a shop_db_scheme \<Rightarrow> 'a shop_db_scheme result" where
  "log_transition e op d t db =
     bindE (create_status_history e
       \<lparr> sh_id = [], sh_orderId = ord_id (op_order op), sh_fromStatus = Some (ord_status (op_order op)),
         sh_toStatus = tl_to t, sh_reasonCode = Some (tl_reasonCode t), sh_note = tl_note t,
         sh_changedByUserId = Some (actor e), sh_requestId = Some (requestId e), sh_createdAt = now e \<rparr> db)
       (\<lambda>(_, db1).
     bindE (create_delivery_event e
       \<lparr> de_id = [], de_deliveryId = dlv_id d, de_fromStatus = Some (dlv_status d), de_toStatus = tl_to t,
         de_occurredAt = now e, de_actorUserId = Some (actor e), de_source = tl_source t,
         de_reasonCode = Some (tl_reasonCode t), de_note = tl_note t, de_payload = JNull,
         de_requestId = Some (requestId e) \<rparr> db1) (\<lambda>(_, db2).
     bindE (case tl_notification t of None \<Rightarrow> Inr db2 | Some ev \<Rightarrow> notify_customer e op ev db2) (\<lambda>db3.
     bindE (create_audit e (order_audit e (ord_id (op_order op)) (tl_action t) (tl_before t) (tl_after t)) db3)
       (\<lambda>(_, db4). Inr db4))))"

text \<open>The guarded update of the order and its delivery; both must hit exactly one row.\<close>

definition move_order ::
  "order_operation \<Rightarrow> delivery \<Rightarrow> int \<Rightarrow> order_status \<Rightarrow> (order \<Rightarrow> order) \<Rightarrow> 'a shop_db_scheme
     \<Rightarrow> 'a shop_db_scheme result" where
  "move_order op d expectedVersion target f db =
     (let o' = op_order op;
          hit_order = (\<lambda>x. ord_id x = ord_id o' \<and> ord_status x = ord_status o' \<and> ord_version x = expectedVersion);
          hit_delivery = (\<lambda>x. dlv_id x = dlv_id d \<and> dlv_status x = dlv_status d \<and> dlv_version x = dlv_version d)
      in require (count_where hit_order (orders db) = 1 \<and> count_where hit_delivery (deliveries db) = 1)
           (conflict ''VERSION_CONFLICT'')
           (Inr (db\<lparr> orders := update_where hit_order
                       (\<lambda>x. f (x\<lparr> ord_status := target, ord_version := ord_version x + 1 \<rparr>)) (orders db),
                     deliveries := update_where hit_delivery
                       (\<lambda>x. x\<lparr> dlv_status := target, dlv_version := dlv_version x + 1 \<rparr>) (deliveries db) \<rparr>)))"

section \<open>Low stock\<close>

definition remaining_quantity :: "env \<Rightarrow> 'a shop_db_scheme \<Rightarrow> variant \<Rightarrow> int" where
  "remaining_quantity e db v =
     sum_by (available (now e) db)
       (filter (\<lambda>i. item_variantId i = var_id v \<and> fulfilling_item (now e) db i) (items db))"

definition low_stock_alert :: "env \<Rightarrow> variant \<Rightarrow> 'a shop_db_scheme \<Rightarrow> 'a shop_db_scheme result" where
  "low_stock_alert e v db =
     (let remainingQuantity = remaining_quantity e db v
      in if remainingQuantity > var_lowStockThreshold v then Inr db
         else bindE (createOperationalAlertWithOutbox e
                \<lparr> al_kind = ALERT_LOW_STOCK, al_event = LOW_STOCK_ALERT,
                  al_idempotencyKey = ''low-stock-alert:'' @ var_id v @ '':'' @ take 13 (iso_string (now e)),
                  al_payload = JObj [(''sku'', JStr (var_sku v)), (''nameFr'', JStr (var_nameFr v)),
                    (''nameAr'', JStr (var_nameAr v)), (''remainingQuantity'', JNum remainingQuantity),
                    (''threshold'', JNum (var_lowStockThreshold v)), (''observedAt'', JStr (iso_string (now e)))],
                  al_scheduledAt = now e, al_enabledKey = None \<rparr> db) (\<lambda>(_, db1). Inr db1))"

definition createLowStockAlerts :: "env \<Rightarrow> string list \<Rightarrow> 'a shop_db_scheme \<Rightarrow> 'a shop_db_scheme result" where
  "createLowStockAlerts e variantIds db =
     (if variantIds = []
         \<or> (case json_string (store_setting db ''notifications.low_stock_alert_email'') of
              None \<Rightarrow> True | Some s \<Rightarrow> trim s = []) then Inr db
      else foldE (low_stock_alert e)
             (sort_key var_id (filter (\<lambda>v. var_id v \<in> set variantIds) (variants db))) db)"

section \<open>Confirming an order\<close>

text \<open>One item of the loop: the compare-and-set on the stock and its movement.\<close>

definition consume_item ::
  "env \<Rightarrow> string \<Rightarrow> reservation list \<Rightarrow> item \<Rightarrow> 'a shop_db_scheme \<Rightarrow> 'a shop_db_scheme result" where
  "consume_item e oid rs i db =
     (let quantity = sum_by res_quantity (filter (\<lambda>r. res_itemId r = item_id i) rs);
          onHandAfter = item_onHand i - quantity;
          hit = (\<lambda>x. item_id x = item_id i \<and> item_version x = item_version i \<and> item_onHand x \<ge> quantity)
      in require (\<not> (quantity \<le> 0 \<or> onHandAfter < 0)) (conflict ''INSUFFICIENT_STOCK'') (
         require (count_where hit (items db) = 1) (conflict ''INVENTORY_CONFLICT'') (
         bindE (create_movement e
           \<lparr> mv_id = [], mv_itemId = item_id i, mv_locationId = item_locationId i, mv_batchId = item_batchId i,
             mv_type = ORDER_CONFIRMED, mv_delta = - quantity, mv_onHandAfter = onHandAfter,
             mv_referenceType = Some ''Order'', mv_referenceId = Some oid,
             mv_reasonCode = Some ''ORDER_CONFIRMED'', mv_note = None, mv_actorUserId = Some (actor e),
             mv_requestId = Some (requestId e), mv_keyHash = None, mv_fingerprint = None,
             mv_occurredAt = now e \<rparr>
           (db\<lparr> items := update_where hit (add_on_hand (- quantity)) (items db) \<rparr>)) (\<lambda>(_, db1).
         Inr db1))))"

definition consume_reservation :: "env \<Rightarrow> reservation \<Rightarrow> reservation" where
  "consume_reservation e r = r\<lparr> res_state := RS_CONSUMED, res_activeKey := None, res_consumedAt := Some (now e) \<rparr>"

text \<open>\<open>updateMany\<close> on the ids that were read, still active; all of them must be hit.\<close>

definition close_reservations ::
  "reservation list \<Rightarrow> (reservation \<Rightarrow> reservation) \<Rightarrow> 'a shop_db_scheme \<Rightarrow> 'a shop_db_scheme result" where
  "close_reservations rs f db =
     (let hit = (\<lambda>r. res_id r \<in> set (map res_id rs) \<and> res_state r = RS_ACTIVE)
      in require (count_where hit (reservations db) = length rs) (conflict ''RESERVATION_CONFLICT'') (
         Inr (db\<lparr> reservations := update_where hit f (reservations db) \<rparr>)))"

definition consume_stock ::
  "env \<Rightarrow> order_operation \<Rightarrow> 'a shop_db_scheme \<Rightarrow> ((reservation list \<times> item list) \<times> 'a shop_db_scheme) result" where
  "consume_stock e op db =
     bindE (lockActiveInventory db (ord_id (op_order op))) (\<lambda>locked.
     bindE (assertReservationCoverage e op locked) (\<lambda>_.
     bindE (foldE (consume_item e (ord_id (op_order op)) (fst locked)) (snd locked) db) (\<lambda>db1.
     bindE (close_reservations (fst locked) (consume_reservation e) db1) (\<lambda>db2.
     Inr (locked, db2)))))"

definition confirmation_log :: "order \<Rightarrow> transition_log" where
  "confirmation_log o' =
     \<lparr> tl_to = CONFIRMED, tl_source = ''ADMIN_ORDER_INTAKE'', tl_reasonCode = ''ADMIN_CONFIRMED'',
       tl_note = None, tl_notification = Some ORDER_CONFIRMED_EVENT, tl_action = ''order.confirmed'',
       tl_before = JObj [(''status'', JStr (order_status_name (ord_status o'))), (''version'', JNum (ord_version o'))],
       tl_after = JObj [(''status'', JStr ''CONFIRMED''), (''version'', JNum (ord_version o' + 1))] \<rparr>"

text \<open>The guards of \<open>confirm\<close>; their result is the delivery.\<close>

definition confirm_guard :: "order_operation \<Rightarrow> int \<Rightarrow> delivery result" where
  "confirm_guard op expectedVersion =
     bindE (assertVersion op expectedVersion) (\<lambda>_.
     require (\<not> (ord_status (op_order op) \<noteq> PENDING_CONFIRMATION
                 \<or> \<not> canTransitionOrder (ord_status (op_order op)) CONFIRMED))
       (conflict ''ORDER_CONFIRMATION_NOT_ALLOWED'') (
     bindE (some_or (op_delivery op) (conflict ''ORDER_DELIVERY_MISSING'')) (\<lambda>d.
     require (dlv_status d = PENDING_CONFIRMATION) (conflict ''DELIVERY_CONFIRMATION_NOT_ALLOWED'') (
     Inr d))))"

definition order_confirm ::
  "env \<Rightarrow> string \<Rightarrow> int \<Rightarrow> 'a shop_db_scheme \<Rightarrow> (order_detail \<times> 'a shop_db_scheme) result" where
  "order_confirm e oid expectedVersion db =
     bindE (lockOrder db oid) (\<lambda>op.
     bindE (confirm_guard op expectedVersion) (\<lambda>d.
     bindE (consume_stock e op db) (\<lambda>(locked, db1).
     bindE (createLowStockAlerts e (remdups (map item_variantId (snd locked))) db1) (\<lambda>db2.
     bindE (move_order op d expectedVersion CONFIRMED (\<lambda>o'. o'\<lparr> ord_confirmedAt := Some (now e) \<rparr>) db2) (\<lambda>db3.
     bindE (log_transition e op d (confirmation_log (op_order op)) db3) (\<lambda>db4.
     bindE (requireDetail db4 oid) (\<lambda>r. Inr (r, db4))))))))"

section \<open>Cancelling and rejecting\<close>

datatype disposition = CANCEL | REJECT

definition terminate_guard :: "disposition \<Rightarrow> order_operation \<Rightarrow> int \<Rightarrow> delivery result" where
  "terminate_guard disposition op expectedVersion =
     (let o' = op_order op;
          allowed = (\<lambda>s. if disposition = REJECT then s = PENDING_CONFIRMATION else s \<in> EARLY_CANCELLATION_STATUSES)
      in bindE (assertVersion op expectedVersion) (\<lambda>_.
         require (\<not> (\<not> allowed (ord_status o') \<or> \<not> canTransitionOrder (ord_status o') CANCELLED))
           (conflict (if disposition = REJECT then ''ORDER_REJECTION_NOT_ALLOWED''
                      else ''ORDER_CANCELLATION_NOT_ALLOWED'')) (
         bindE (some_or (op_delivery op) (conflict ''ORDER_DELIVERY_MISSING'')) (\<lambda>d.
         require (\<not> (\<not> allowed (dlv_status d) \<or> dlv_status d \<noteq> ord_status o'))
           (conflict (if disposition = REJECT then ''DELIVERY_REJECTION_NOT_ALLOWED''
                      else ''DELIVERY_CANCELLATION_NOT_ALLOWED'')) (
         require (\<not> (list_ex (\<lambda>c. col_status c \<noteq> EXPECTED \<and> col_status c \<noteq> VOIDED) (op_collections op)
                     \<or> (ord_paymentStatus o' \<noteq> PAYMENT_PENDING \<and> ord_paymentStatus o' \<noteq> CASH_EXPECTED)))
           (conflict ''ORDER_CASH_ALREADY_COLLECTED'') (
         Inr d))))))"

definition release_reservation :: "env \<Rightarrow> string \<Rightarrow> reservation \<Rightarrow> reservation" where
  "release_reservation e reason r =
     r\<lparr> res_state := RS_RELEASED, res_activeKey := None, res_releasedAt := Some (now e),
        res_releaseReason := Some reason \<rparr>"

definition release_movement ::
  "env \<Rightarrow> string \<Rightarrow> string \<Rightarrow> string \<Rightarrow> item list \<Rightarrow> reservation \<Rightarrow> 'a shop_db_scheme \<Rightarrow> 'a shop_db_scheme result" where
  "release_movement e oid reasonCode reason its r db =
     (case List.find (\<lambda>i. item_id i = res_itemId r) its of
        None \<Rightarrow> Inl (conflict ''INVENTORY_INVARIANT_BREACH'')
      | Some i \<Rightarrow>
          require (\<not> (res_quantity r \<le> 0 \<or> item_onHand i < 0)) (conflict ''INVENTORY_INVARIANT_BREACH'') (
          bindE (create_movement e
            \<lparr> mv_id = [], mv_itemId = item_id i, mv_locationId = item_locationId i, mv_batchId = item_batchId i,
              mv_type = RESERVATION_RELEASE, mv_delta = 0, mv_onHandAfter = item_onHand i,
              mv_referenceType = Some ''Order'', mv_referenceId = Some oid, mv_reasonCode = Some reasonCode,
              mv_note = Some reason, mv_actorUserId = Some (actor e), mv_requestId = Some (requestId e),
              mv_keyHash = None, mv_fingerprint = None, mv_occurredAt = now e \<rparr> db) (\<lambda>(_, db1).
          Inr db1)))"

definition release_stock ::
  "env \<Rightarrow> string \<Rightarrow> string \<Rightarrow> string \<Rightarrow> 'a shop_db_scheme \<Rightarrow> 'a shop_db_scheme result" where
  "release_stock e oid reasonCode reason db =
     bindE (lockActiveInventory db oid) (\<lambda>(rs, its).
     if rs = [] then Inr db
     else bindE (close_reservations rs (release_reservation e reason) db) (\<lambda>db1.
          foldE (release_movement e oid reasonCode reason its) rs db1))"

definition void_expected :: "string \<Rightarrow> 'a shop_db_scheme \<Rightarrow> 'a shop_db_scheme" where
  "void_expected oid db =
     db\<lparr> collections := update_where (\<lambda>c. col_orderId c = oid \<and> col_status c = EXPECTED)
                          (\<lambda>c. c\<lparr> col_status := VOIDED \<rparr>) (collections db) \<rparr>"

definition termination_log :: "disposition \<Rightarrow> order \<Rightarrow> string \<Rightarrow> string \<Rightarrow> transition_log" where
  "termination_log disposition o' reasonCode reason =
     \<lparr> tl_to = CANCELLED, tl_source = ''ADMIN_ORDER_INTAKE'', tl_reasonCode = reasonCode, tl_note = Some reason,
       tl_notification = Some ORDER_CANCELLED_EVENT,
       tl_action = (if disposition = REJECT then ''order.rejected'' else ''order.cancelled''),
       tl_before = JObj [(''status'', JStr (order_status_name (ord_status o'))),
         (''paymentStatus'', JStr (payment_status_name (ord_paymentStatus o'))), (''version'', JNum (ord_version o'))],
       tl_after = JObj [(''status'', JStr ''CANCELLED''), (''paymentStatus'', JStr ''CANCELLED''),
         (''version'', JNum (ord_version o' + 1)), (''reason'', JStr reason),
         (''disposition'', JStr (if disposition = REJECT then ''reject'' else ''cancel''))] \<rparr>"

definition order_terminate ::
  "disposition \<Rightarrow> env \<Rightarrow> string \<Rightarrow> int \<Rightarrow> string \<Rightarrow> 'a shop_db_scheme \<Rightarrow> (order_detail \<times> 'a shop_db_scheme) result" where
  "order_terminate disposition e oid expectedVersion input_reason db =
     bindE (lockOrder db oid) (\<lambda>op.
     bindE (terminate_guard disposition op expectedVersion) (\<lambda>d.
     let reason = trim input_reason;
         reasonCode = (if disposition = REJECT then ''ADMIN_REJECTED'' else ''ADMIN_CANCELLED'')
     in bindE (release_stock e oid reasonCode reason db) (\<lambda>db1.
        bindE (move_order op d expectedVersion CANCELLED
                 (\<lambda>o'. o'\<lparr> ord_paymentStatus := PAYMENT_CANCELLED, ord_cancelledAt := Some (now e),
                           ord_cancellationReason := Some reason \<rparr>) (void_expected oid db1)) (\<lambda>db2.
        bindE (log_transition e op d (termination_log disposition (op_order op) reasonCode reason) db2) (\<lambda>db3.
        bindE (requireDetail db3 oid) (\<lambda>r. Inr (r, db3)))))))"

definition order_cancel where
  "order_cancel = order_terminate CANCEL"

definition order_reject where
  "order_reject = order_terminate REJECT"

section \<open>Preparing and handing over at the store\<close>

definition transitionIntake ::
  "env \<Rightarrow> string \<Rightarrow> int \<Rightarrow> order_status \<Rightarrow> order_status \<Rightarrow> delivery_status \<Rightarrow> delivery_status \<Rightarrow> string
     \<Rightarrow> notification_event option \<Rightarrow> 'a shop_db_scheme \<Rightarrow> (order_detail \<times> 'a shop_db_scheme) result" where
  "transitionIntake e oid expectedVersion fromOrder toOrder fromDelivery toDelivery reasonCode event db =
     bindE (lockOrder db oid) (\<lambda>op.
     bindE (assertVersion op expectedVersion) (\<lambda>_.
     require (\<not> (ord_status (op_order op) \<noteq> fromOrder \<or> \<not> canTransitionOrder (ord_status (op_order op)) toOrder))
       (conflict ''ORDER_TRANSITION_NOT_ALLOWED'') (
     bindE (some_or (op_delivery op) (conflict ''ORDER_TRANSITION_NOT_ALLOWED'')) (\<lambda>d.
     require (dlv_status d = fromDelivery) (conflict ''ORDER_TRANSITION_NOT_ALLOWED'') (
     require (\<not> (toOrder = READY_FOR_PICKUP \<and> ord_methodType (op_order op) \<noteq> STORE_PICKUP))
       (conflict ''ORDER_IS_NOT_STORE_PICKUP'') (
     bindE (move_order op d expectedVersion toOrder (\<lambda>o'. o') db) (\<lambda>db1.
     bindE (log_transition e op d
              \<lparr> tl_to = toOrder, tl_source = ''ADMIN_ORDER_FULFILLMENT'', tl_reasonCode = reasonCode,
                tl_note = None, tl_notification = event,
                tl_action = ''order.'' @ lower_case (order_status_name toOrder),
                tl_before = JObj [(''status'', JStr (order_status_name fromOrder)),
                                  (''version'', JNum (ord_version (op_order op)))],
                tl_after = JObj [(''status'', JStr (order_status_name toOrder)),
                                 (''version'', JNum (ord_version (op_order op) + 1))] \<rparr> db1) (\<lambda>db2.
     bindE (requireDetail db2 oid) (\<lambda>r. Inr (r, db2))))))))))"

definition order_prepare where
  "order_prepare e oid expectedVersion =
     transitionIntake e oid expectedVersion CONFIRMED PREPARING CONFIRMED PREPARING ''ADMIN_PREPARING''
       (Some ORDER_PREPARING)"

definition order_readyForPickup where
  "order_readyForPickup e oid expectedVersion =
     transitionIntake e oid expectedVersion PREPARING READY_FOR_PICKUP PREPARING READY_FOR_PICKUP
       ''ADMIN_READY_FOR_PICKUP'' None"

section \<open>Contacts and notes\<close>

record contact_attempt =
  ct_method :: string
  ct_result :: string
  ct_reasonCode :: "string option"
  ct_explanation :: "string option"
  ct_expectedVersion :: int

record contact_response =
  cx_noteId :: string
  cx_method :: string
  cx_result :: string
  cx_reasonCode :: "string option"
  cx_explanation :: "string option"
  cx_recordedByUserId :: string
  cx_recordedAt :: string

definition contact_body :: "contact_attempt \<Rightarrow> string" where
  "contact_body i =
     join_with '' | '' (filter (\<lambda>s. s \<noteq> [])
       [''CONTACT_ATTEMPT method='' @ ct_method i @ '' result='' @ ct_result i,
        (case trim_or_null (ct_reasonCode i) of Some c \<Rightarrow> ''reason='' @ c | None \<Rightarrow> []),
        (case trim_or_null (ct_explanation i) of Some x \<Rightarrow> x | None \<Rightarrow> [])])"

definition recordContactAttempt ::
  "env \<Rightarrow> string \<Rightarrow> contact_attempt \<Rightarrow> 'a shop_db_scheme \<Rightarrow> (contact_response \<times> 'a shop_db_scheme) result" where
  "recordContactAttempt e oid i db =
     require (\<not> (ct_result i = ''OTHER'' \<and> trim_or_null (ct_explanation i) = None))
       (conflict ''CONTACT_ATTEMPT_EXPLANATION_REQUIRED'') (
     bindE (lockOrder db oid) (\<lambda>op.
     bindE (assertVersion op (ct_expectedVersion i)) (\<lambda>_.
     bindE (create_order_note e
       \<lparr> on_id = [], on_orderId = oid, on_authorUserId = Some (actor e), on_visibility = INTERNAL,
         on_body = contact_body i, on_createdAt = now e \<rparr> db) (\<lambda>(note, db1).
     bindE (create_audit e (order_audit e oid ''order.contact_attempt.recorded''
       (JObj [(''status'', JStr (order_status_name (ord_status (op_order op)))),
              (''version'', JNum (ord_version (op_order op)))])
       (JObj [(''method'', JStr (ct_method i)), (''result'', JStr (ct_result i)),
              (''reasonCode'', jopt JStr (trim_or_null (ct_reasonCode i)))])) db1) (\<lambda>(_, db2).
     Inr (\<lparr> cx_noteId = on_id note, cx_method = ct_method i, cx_result = ct_result i,
            cx_reasonCode = trim_or_null (ct_reasonCode i), cx_explanation = trim_or_null (ct_explanation i),
            cx_recordedByUserId = actor e, cx_recordedAt = iso_string (now e) \<rparr>, db2))))))"

definition addNote ::
  "env \<Rightarrow> string \<Rightarrow> note_visibility \<Rightarrow> string \<Rightarrow> 'a shop_db_scheme \<Rightarrow> (order_note \<times> 'a shop_db_scheme) result" where
  "addNote e oid visibility body db =
     bindE (some_or (find_order db oid) (notFound ''ORDER_NOT_FOUND'')) (\<lambda>_.
     bindE (create_order_note e
       \<lparr> on_id = [], on_orderId = oid, on_authorUserId = Some (actor e), on_visibility = visibility,
         on_body = trim body, on_createdAt = now e \<rparr> db) (\<lambda>(note, db1).
     bindE (create_audit e (order_audit e oid ''order.note.created'' JNull
       (JObj [(''visibility'', JStr (note_visibility_name (on_visibility note)))])) db1)
       (\<lambda>(_, db2). Inr (note, db2))))"

section \<open>The slip\<close>

record slip_address =
  sa_pickupContact :: bool
  sa_fullName :: string
  sa_phone :: string
  sa_governorateName :: string
  sa_delegationName :: string
  sa_localityName :: string
  sa_postalCode :: "string option"
  sa_street :: string
  sa_building :: "string option"
  sa_floor :: "string option"
  sa_apartment :: "string option"
  sa_landmark :: "string option"

record slip_line =
  sl_sku :: string
  sl_productName :: string
  sl_variantName :: string
  sl_quantity :: int
  sl_unitPriceMillimes :: int
  sl_lineTotalMillimes :: int

record order_slip =
  os_generatedAt :: string
  os_orderNumber :: string
  os_status :: order_status
  os_customerName :: string
  os_customerPhone :: string
  os_address :: "slip_address option"
  os_items :: "slip_line list"
  os_subtotalMillimes :: int
  os_discountTotalMillimes :: int
  os_deliveryTotalMillimes :: int
  os_taxTotalMillimes :: int
  os_grandTotalMillimes :: int
  os_expectedCodMillimes :: int
  os_deliveryMethod :: string
  os_deliveryInstructions :: "string option"
  os_ageVerificationAtDeliveryRequired :: bool

definition slip_address_of :: "order_address \<Rightarrow> slip_address" where
  "slip_address_of a =
     (let safe = neutralizeCsvFormula
      in \<lparr> sa_pickupContact = oa_pickupContact a, sa_fullName = safe (oa_fullName a), sa_phone = oa_phone a,
           sa_governorateName = safe (oa_governorateName a), sa_delegationName = safe (oa_delegationName a),
           sa_localityName = safe (oa_localityName a), sa_postalCode = map_option safe (oa_postalCode a),
           sa_street = safe (oa_street a), sa_building = map_option safe (oa_building a),
           sa_floor = map_option safe (oa_floor a), sa_apartment = map_option safe (oa_apartment a),
           sa_landmark = map_option safe (oa_landmark a) \<rparr>)"

definition serializeSlip :: "env \<Rightarrow> 'a shop_db_scheme \<Rightarrow> order \<Rightarrow> order_slip" where
  "serializeSlip e db o' =
     (let safe = neutralizeCsvFormula
      in \<lparr> os_generatedAt = iso_string (now e), os_orderNumber = safe (ord_number o'),
           os_status = ord_status o', os_customerName = safe (ord_customerName o'),
           os_customerPhone = ord_customerPhone o',
           os_address = (case filter (\<lambda>a. oa_orderId a = ord_id o') (addresses db) of
                           [] \<Rightarrow> None | a # _ \<Rightarrow> Some (slip_address_of a)),
           os_items = map (\<lambda>i. \<lparr> sl_sku = safe (oi_sku i), sl_productName = safe (oi_productName i),
                                 sl_variantName = safe (oi_variantName i), sl_quantity = oi_quantity i,
                                 sl_unitPriceMillimes = oi_unitPriceMillimes i,
                                 sl_lineTotalMillimes = oi_lineTotalMillimes i \<rparr>)
                        (filter (\<lambda>i. oi_orderId i = ord_id o') (order_items db)),
           os_subtotalMillimes = ord_subtotalMillimes o', os_discountTotalMillimes = ord_discountTotalMillimes o',
           os_deliveryTotalMillimes = ord_deliveryTotalMillimes o', os_taxTotalMillimes = ord_taxTotalMillimes o',
           os_grandTotalMillimes = ord_grandTotalMillimes o', os_expectedCodMillimes = ord_expectedCodMillimes o',
           os_deliveryMethod = safe (ord_methodSnapshot o'),
           os_deliveryInstructions = map_option safe (ord_instructions o'),
           os_ageVerificationAtDeliveryRequired = ord_ageVerificationAtDelivery o' \<rparr>)"

definition getSlip :: "env \<Rightarrow> string \<Rightarrow> 'a shop_db_scheme \<Rightarrow> (order_slip \<times> 'a shop_db_scheme) result" where
  "getSlip e oid db =
     bindE (some_or (find_order db oid) (notFound ''ORDER_NOT_FOUND'')) (\<lambda>o'.
     bindE (create_audit e (order_audit e oid ''order.slip.generated'' JNull
              (JObj [(''documentType'', JStr ''ORDER_SLIP_JSON_V1'')])) db) (\<lambda>(_, db1).
     Inr (serializeSlip e db o', db1)))"

end
