(* ===== verification/CashSchema.thy ===== *)
theory CashSchema
  imports Orders
begin

text \<open>
  The cash tables of \<open>prisma/schema.prisma\<close> (couriers, feature flags, remittances with their
  items, discrepancies and reconciliation events) on top of the shop's, the creates, and the
  status tables of \<open>cash/cash-state-policy.ts\<close>.
\<close>

section \<open>Rows\<close>

datatype courier_status = COURIER_ACTIVE | COURIER_SUSPENDED | COURIER_ARCHIVED

datatype availability = AVAILABLE | OFF_DUTY

text \<open>A zone a courier serves, with the fee agreed for it.\<close>

record courier_zone =
  cz_deliveryZoneId :: string
  cz_active :: bool
  cz_feeMillimes :: "int option"

datatype integration_type = IT_MANUAL | IT_API | IT_CSV

record courier =
  cou_id :: string
  cou_code :: string
  cou_name :: string
  cou_companyName :: "string option"
  cou_status :: courier_status
  cou_availabilityStatus :: availability
  cou_defaultFeeMillimes :: "int option"
  cou_maximumActiveDeliveries :: "nat option"
  cou_deliveryZones :: "courier_zone list"
  cou_phoneE164 :: "string option"
  cou_whatsappPhoneE164 :: "string option"
  cou_whatsappTemplate :: "string option"
  cou_contactName :: "string option"
  cou_email :: "string option"
  cou_notes :: "string option"
  cou_integrations :: "integration_type list"
  cou_updatedAt :: int

record feature_flag =
  ff_key :: string
  ff_environment :: string
  ff_enabled :: bool

datatype remittance_status = RM_DRAFT | RM_SUBMITTED | RM_VERIFIED | RM_DISCREPANCY | RM_REJECTED | RM_CANCELLED

datatype discrepancy_status = DC_OPEN | DC_INVESTIGATING | DC_RESOLVED | DC_WRITTEN_OFF

datatype reconciliation_type =
    COLLECTION_RECORDED | REMITTANCE_SUBMITTED | REMITTANCE_VERIFIED | DISCREPANCY_OPENED
  | DISCREPANCY_RESOLVED | REFUND_RECORDED | ADJUSTMENT_RECORDED

record remittance =
  rm_id :: string
  rm_number :: string
  rm_courierId :: string
  rm_status :: remittance_status
  rm_declaredMillimes :: int
  rm_verifiedMillimes :: "int option"
  rm_differenceMillimes :: "int option"
  rm_submittedAt :: "int option"
  rm_remittedAt :: "int option"
  rm_receivedByUserId :: "string option"
  rm_verifiedByUserId :: "string option"
  rm_verifiedAt :: "int option"
  rm_note :: "string option"

record remittance_item =
  ri_id :: string
  ri_remittanceId :: string
  ri_collectionId :: string
  ri_amountMillimes :: int

record discrepancy =
  dc_id :: string
  dc_remittanceId :: "string option"
  dc_collectionId :: "string option"
  dc_orderId :: "string option"
  dc_status :: discrepancy_status
  dc_expectedMillimes :: int
  dc_actualMillimes :: int
  dc_differenceMillimes :: int
  dc_reasonCode :: "string option"
  dc_reasonDetail :: "string option"
  dc_openedByUserId :: string
  dc_resolvedByUserId :: "string option"
  dc_resolvedAt :: "int option"

record reconciliation_event =
  re_id :: string
  re_remittanceId :: "string option"
  re_collectionId :: "string option"
  re_type :: reconciliation_type
  re_amountMillimes :: "int option"
  re_actorUserId :: string
  re_metadata :: json
  re_requestId :: "string option"

record cash_db = shop_db +
  couriers :: "courier list"
  feature_flags :: "feature_flag list"
  remittances :: "remittance list"
  remittance_items :: "remittance_item list"
  discrepancies :: "discrepancy list"
  reconciliation_events :: "reconciliation_event list"

section \<open>Creating rows\<close>

definition create_remittance :: "env \<Rightarrow> remittance \<Rightarrow> 'a cash_db_scheme \<Rightarrow> (remittance \<times> 'a cash_db_scheme) result" where
  "create_remittance e row db =
     (let r = row\<lparr> rm_id := fresh_id e db \<rparr>
      in bindE (create_row (\<lambda>a b. rm_id a = rm_id b \<or> rm_number a = rm_number b) r (remittances db)) (\<lambda>t.
         Inr (r, db\<lparr> remittances := t, seq := Suc (seq db) \<rparr>)))"

definition create_remittance_item ::
  "env \<Rightarrow> remittance_item \<Rightarrow> 'a cash_db_scheme \<Rightarrow> (remittance_item \<times> 'a cash_db_scheme) result" where
  "create_remittance_item e row db =
     (let r = row\<lparr> ri_id := fresh_id e db \<rparr>
      in bindE (create_row (\<lambda>a b. ri_id a = ri_id b
                   \<or> (ri_remittanceId a = ri_remittanceId b \<and> ri_collectionId a = ri_collectionId b))
                 r (remittance_items db)) (\<lambda>t.
         Inr (r, db\<lparr> remittance_items := t, seq := Suc (seq db) \<rparr>)))"

definition create_discrepancy :: "env \<Rightarrow> discrepancy \<Rightarrow> 'a cash_db_scheme \<Rightarrow> (discrepancy \<times> 'a cash_db_scheme) result" where
  "create_discrepancy e row db =
     (let r = row\<lparr> dc_id := fresh_id e db \<rparr>
      in bindE (create_row (\<lambda>a b. dc_id a = dc_id b \<or> same_some (dc_collectionId a) (dc_collectionId b))
                 r (discrepancies db)) (\<lambda>t.
         Inr (r, db\<lparr> discrepancies := t, seq := Suc (seq db) \<rparr>)))"

definition create_reconciliation_event ::
  "env \<Rightarrow> reconciliation_event \<Rightarrow> 'a cash_db_scheme \<Rightarrow> (reconciliation_event \<times> 'a cash_db_scheme) result" where
  "create_reconciliation_event e row db =
     (let r = row\<lparr> re_id := fresh_id e db \<rparr>
      in bindE (create_row (\<lambda>a b. re_id a = re_id b) r (reconciliation_events db)) (\<lambda>t.
         Inr (r, db\<lparr> reconciliation_events := t, seq := Suc (seq db) \<rparr>)))"

lemma create_remittance_Inr [simp, res_simps]:
  "create_remittance e row db = Inr p \<longleftrightarrow>
     (let r = row\<lparr> rm_id := fresh_id e db \<rparr>
      in \<not> (\<exists>x\<in>set (remittances db). rm_id r = rm_id x \<or> rm_number r = rm_number x)
         \<and> p = (r, db\<lparr> remittances := remittances db @ [r], seq := Suc (seq db) \<rparr>))"
  by (auto simp: create_remittance_def Let_def list_ex_iff)

lemma create_remittance_item_Inr [simp, res_simps]:
  "create_remittance_item e row db = Inr p \<longleftrightarrow>
     (let r = row\<lparr> ri_id := fresh_id e db \<rparr>
      in \<not> (\<exists>x\<in>set (remittance_items db). ri_id r = ri_id x
               \<or> (ri_remittanceId r = ri_remittanceId x \<and> ri_collectionId r = ri_collectionId x))
         \<and> p = (r, db\<lparr> remittance_items := remittance_items db @ [r], seq := Suc (seq db) \<rparr>))"
  by (auto simp: create_remittance_item_def Let_def list_ex_iff)

lemma create_discrepancy_Inr [simp, res_simps]:
  "create_discrepancy e row db = Inr p \<longleftrightarrow>
     (let r = row\<lparr> dc_id := fresh_id e db \<rparr>
      in \<not> (\<exists>x\<in>set (discrepancies db). dc_id r = dc_id x \<or> same_some (dc_collectionId r) (dc_collectionId x))
         \<and> p = (r, db\<lparr> discrepancies := discrepancies db @ [r], seq := Suc (seq db) \<rparr>))"
  by (auto simp: create_discrepancy_def Let_def list_ex_iff)

lemma create_reconciliation_event_Inr [simp, res_simps]:
  "create_reconciliation_event e row db = Inr p \<longleftrightarrow>
     (let r = row\<lparr> re_id := fresh_id e db \<rparr>
      in \<not> (\<exists>x\<in>set (reconciliation_events db). re_id r = re_id x)
         \<and> p = (r, db\<lparr> reconciliation_events := reconciliation_events db @ [r], seq := Suc (seq db) \<rparr>))"
  by (auto simp: create_reconciliation_event_def Let_def list_ex_iff)

section \<open>cash-state-policy.ts\<close>

fun CASH_COLLECTION_TRANSITIONS :: "collection_status \<Rightarrow> collection_status list" where
  "CASH_COLLECTION_TRANSITIONS EXPECTED = [COLLECTED, PARTIALLY_COLLECTED]"
| "CASH_COLLECTION_TRANSITIONS COLLECTED = [REMITTED]"
| "CASH_COLLECTION_TRANSITIONS PARTIALLY_COLLECTED = [REMITTED]"
| "CASH_COLLECTION_TRANSITIONS VOIDED = []"
| "CASH_COLLECTION_TRANSITIONS REMITTED = []"

fun CASH_REMITTANCE_TRANSITIONS :: "remittance_status \<Rightarrow> remittance_status list" where
  "CASH_REMITTANCE_TRANSITIONS RM_DRAFT = [RM_SUBMITTED]"
| "CASH_REMITTANCE_TRANSITIONS RM_SUBMITTED = [RM_VERIFIED, RM_DISCREPANCY]"
| "CASH_REMITTANCE_TRANSITIONS RM_VERIFIED = []"
| "CASH_REMITTANCE_TRANSITIONS RM_DISCREPANCY = [RM_VERIFIED]"
| "CASH_REMITTANCE_TRANSITIONS RM_REJECTED = []"
| "CASH_REMITTANCE_TRANSITIONS RM_CANCELLED = []"

fun CASH_DISCREPANCY_TRANSITIONS :: "discrepancy_status \<Rightarrow> discrepancy_status list" where
  "CASH_DISCREPANCY_TRANSITIONS DC_OPEN = [DC_INVESTIGATING, DC_RESOLVED, DC_WRITTEN_OFF]"
| "CASH_DISCREPANCY_TRANSITIONS DC_INVESTIGATING = [DC_RESOLVED, DC_WRITTEN_OFF]"
| "CASH_DISCREPANCY_TRANSITIONS DC_RESOLVED = []"
| "CASH_DISCREPANCY_TRANSITIONS DC_WRITTEN_OFF = []"

definition canTransitionCollection :: "collection_status \<Rightarrow> collection_status \<Rightarrow> bool" where
  "canTransitionCollection from_status to_status = (to_status \<in> set (CASH_COLLECTION_TRANSITIONS from_status))"

definition canTransitionRemittance :: "remittance_status \<Rightarrow> remittance_status \<Rightarrow> bool" where
  "canTransitionRemittance from_status to_status = (to_status \<in> set (CASH_REMITTANCE_TRANSITIONS from_status))"

definition canTransitionDiscrepancy :: "discrepancy_status \<Rightarrow> discrepancy_status \<Rightarrow> bool" where
  "canTransitionDiscrepancy from_status to_status = (to_status \<in> set (CASH_DISCREPANCY_TRANSITIONS from_status))"

text \<open>All three machines come to an end whatever is done.\<close>

fun collection_depth :: "collection_status \<Rightarrow> nat" where
  "collection_depth EXPECTED = 2"
| "collection_depth COLLECTED = 1"
| "collection_depth PARTIALLY_COLLECTED = 1"
| "collection_depth _ = 0"

fun remittance_depth :: "remittance_status \<Rightarrow> nat" where
  "remittance_depth RM_DRAFT = 3"
| "remittance_depth RM_SUBMITTED = 2"
| "remittance_depth RM_DISCREPANCY = 1"
| "remittance_depth _ = 0"

fun discrepancy_depth :: "discrepancy_status \<Rightarrow> nat" where
  "discrepancy_depth DC_OPEN = 2"
| "discrepancy_depth DC_INVESTIGATING = 1"
| "discrepancy_depth _ = 0"

interpretation collection_machine: terminating_machine CASH_COLLECTION_TRANSITIONS collection_depth
proof
  fix s t assume "t \<in> set (CASH_COLLECTION_TRANSITIONS s)"
  then show "collection_depth t < collection_depth s" by (cases s) auto
qed

interpretation remittance_machine: terminating_machine CASH_REMITTANCE_TRANSITIONS remittance_depth
proof
  fix s t assume "t \<in> set (CASH_REMITTANCE_TRANSITIONS s)"
  then show "remittance_depth t < remittance_depth s" by (cases s) auto
qed

interpretation discrepancy_machine: terminating_machine CASH_DISCREPANCY_TRANSITIONS discrepancy_depth
proof
  fix s t assume "t \<in> set (CASH_DISCREPANCY_TRANSITIONS s)"
  then show "discrepancy_depth t < discrepancy_depth s" by (cases s) auto
qed

lemma remittance_depth_le: "remittance_depth s \<le> 3"
  by (cases s) simp_all

text \<open>A remittance changes its status at most three times, and from
  each status a final one can be reached.\<close>

theorem remittance_ends:
  "{ts. run_of CASH_REMITTANCE_TRANSITIONS s ts} \<subseteq> {ts. length ts \<le> 3}
   \<and> (\<exists>t. reaches CASH_REMITTANCE_TRANSITIONS s t \<and> CASH_REMITTANCE_TRANSITIONS t = [])"
  using remittance_machine.bounded [of s] remittance_depth_le [of s] remittance_machine.machine.ends [of s]
  by (blast intro: order_trans)

end
