(* ===== verification/Cash.thy ===== *)
theory Cash
  imports CashSchema
begin

text \<open>
  \<open>cash/admin-cash.service.ts\<close>: recording the cash of a delivery, remittances of a courier, their
  independent verification and the resolution of discrepancies.  Every handler is one transaction.
  The two list queries and the CSV exports only read and are not modelled.
\<close>

definition REMITTABLE_COLLECTION_STATUSES :: "collection_status set" where
  "REMITTABLE_COLLECTION_STATUSES = {COLLECTED, PARTIALLY_COLLECTED}"

definition ACCOUNTED_COLLECTION_STATUSES :: "collection_status set" where
  "ACCOUNTED_COLLECTION_STATUSES = {COLLECTED, REMITTED}"

definition COLLECTABLE_PAYMENT_STATUSES :: "payment_status set" where
  "COLLECTABLE_PAYMENT_STATUSES = {PAYMENT_PENDING, CASH_EXPECTED}"

section \<open>Names of the statuses in summaries\<close>

fun collection_status_name :: "collection_status \<Rightarrow> string" where
  "collection_status_name EXPECTED = ''EXPECTED''"
| "collection_status_name COLLECTED = ''COLLECTED''"
| "collection_status_name PARTIALLY_COLLECTED = ''PARTIALLY_COLLECTED''"
| "collection_status_name VOIDED = ''VOIDED''"
| "collection_status_name REMITTED = ''REMITTED''"

fun remittance_status_name :: "remittance_status \<Rightarrow> string" where
  "remittance_status_name RM_DRAFT = ''DRAFT''"
| "remittance_status_name RM_SUBMITTED = ''SUBMITTED''"
| "remittance_status_name RM_VERIFIED = ''VERIFIED''"
| "remittance_status_name RM_DISCREPANCY = ''DISCREPANCY''"
| "remittance_status_name RM_REJECTED = ''REJECTED''"
| "remittance_status_name RM_CANCELLED = ''CANCELLED''"

fun discrepancy_status_name :: "discrepancy_status \<Rightarrow> string" where
  "discrepancy_status_name DC_OPEN = ''OPEN''"
| "discrepancy_status_name DC_INVESTIGATING = ''INVESTIGATING''"
| "discrepancy_status_name DC_RESOLVED = ''RESOLVED''"
| "discrepancy_status_name DC_WRITTEN_OFF = ''WRITTEN_OFF''"

section \<open>What a collection is worth\<close>

definition collection_discrepancy :: "'a cash_db_scheme \<Rightarrow> string \<Rightarrow> discrepancy option" where
  "collection_discrepancy db cid = List.find (\<lambda>d. dc_collectionId d = Some cid) (discrepancies db)"

definition discrepancy_linked :: "collection \<Rightarrow> discrepancy \<Rightarrow> int \<Rightarrow> bool" where
  "discrepancy_linked c d difference =
     (dc_expectedMillimes d = col_expectedMillimes c \<and> dc_actualMillimes d = col_collectedMillimes c
      \<and> dc_differenceMillimes d = difference)"

definition accountableCollectionMillimes :: "collection \<Rightarrow> discrepancy option \<Rightarrow> int result" where
  "accountableCollectionMillimes c discrepancy =
     bindE (cashDifference (col_expectedMillimes c) (col_collectedMillimes c)) (\<lambda>recordedDifference.
     case discrepancy of
       None \<Rightarrow> require (recordedDifference = 0) (conflict ''COLLECTION_DISCREPANCY_LINK_MISSING'')
                 (Inr (col_collectedMillimes c))
     | Some d \<Rightarrow>
         require (discrepancy_linked c d recordedDifference) (conflict ''COLLECTION_DISCREPANCY_LINKAGE_INVALID'') (
         require (\<not> (dc_status d = DC_OPEN \<or> dc_status d = DC_INVESTIGATING))
           (conflict ''COLLECTION_DISCREPANCY_UNRESOLVED'') (
         Inr (if dc_status d = DC_RESOLVED then col_expectedMillimes c else col_collectedMillimes c))))"

record accounting_projection =
  ap_accountableMillimes :: "int option"
  ap_adjustmentMillimes :: "int option"
  ap_discrepancyStatus :: "discrepancy_status option"

definition collectionAccountingProjection ::
  "collection \<Rightarrow> discrepancy option \<Rightarrow> accounting_projection result" where
  "collectionAccountingProjection c discrepancy =
     bindE (cashDifference (col_expectedMillimes c) (col_collectedMillimes c)) (\<lambda>rawDifference.
     Inr (case discrepancy of
       None \<Rightarrow> \<lparr> ap_accountableMillimes = (if rawDifference = 0 then Some (col_collectedMillimes c) else None),
                 ap_adjustmentMillimes = (if rawDifference = 0 then Some 0 else None),
                 ap_discrepancyStatus = None \<rparr>
     | Some d \<Rightarrow>
         if \<not> discrepancy_linked c d rawDifference then
           \<lparr> ap_accountableMillimes = None, ap_adjustmentMillimes = None, ap_discrepancyStatus = Some (dc_status d) \<rparr>
         else if dc_status d = DC_RESOLVED then
           \<lparr> ap_accountableMillimes = Some (col_expectedMillimes c),
             ap_adjustmentMillimes = Some (col_expectedMillimes c - col_collectedMillimes c),
             ap_discrepancyStatus = Some (dc_status d) \<rparr>
         else if dc_status d = DC_WRITTEN_OFF then
           \<lparr> ap_accountableMillimes = Some (col_collectedMillimes c), ap_adjustmentMillimes = Some 0,
             ap_discrepancyStatus = Some (dc_status d) \<rparr>
         else
           \<lparr> ap_accountableMillimes = None, ap_adjustmentMillimes = None,
             ap_discrepancyStatus = Some (dc_status d) \<rparr>))"

section \<open>Reading and answering\<close>

definition find_collection :: "'a shop_db_scheme \<Rightarrow> string \<Rightarrow> collection option" where
  "find_collection db cid = List.find (\<lambda>c. col_id c = cid) (collections db)"

definition find_delivery :: "'a shop_db_scheme \<Rightarrow> string \<Rightarrow> delivery option" where
  "find_delivery db did = List.find (\<lambda>d. dlv_id d = did) (deliveries db)"

text \<open>\<open>COLLECTION_OPERATION_SELECT\<close>: the collection with its order and delivery.\<close>

record collection_operation =
  co_collection :: collection
  co_order :: order
  co_delivery :: "delivery option"

text \<open>The order of a collection exists by foreign key; a missing one is Prisma's own error.\<close>

definition lockCollection :: "'a cash_db_scheme \<Rightarrow> string \<Rightarrow> collection_operation result" where
  "lockCollection db cid =
     bindE (some_or (find_collection db cid) (notFound ''CASH_COLLECTION_NOT_FOUND'')) (\<lambda>c.
     bindE (some_or (or_null (col_deliveryId c)) (notFound ''CASH_COLLECTION_NOT_FOUND'')) (\<lambda>did.
     bindE (some_or (find_order db (col_orderId c)) (PrismaError ''INCONSISTENT'')) (\<lambda>o'.
     Inr \<lparr> co_collection = c, co_order = o', co_delivery = find_delivery db did \<rparr>)))"

text \<open>The last \<open>n\<close> rows, oldest first: \<open>take\<close> newest first, then \<open>reverse\<close>.\<close>

definition last_rows :: "nat \<Rightarrow> 'r list \<Rightarrow> 'r list" where
  "last_rows n t = rev (take n (rev t))"

record collection_view =
  cv_collection :: collection
  cv_order :: order
  cv_delivery :: "delivery option"
  cv_projection :: accounting_projection
  cv_allocations :: "remittance_item list"
  cv_discrepancy :: "discrepancy option"

definition collection_answer :: "'a cash_db_scheme \<Rightarrow> string \<Rightarrow> collection_view result" where
  "collection_answer db cid =
     bindE (some_or (find_collection db cid) (notFound ''CASH_COLLECTION_NOT_FOUND'')) (\<lambda>c.
     bindE (some_or (find_order db (col_orderId c)) (PrismaError ''INCONSISTENT'')) (\<lambda>o'.
     bindE (collectionAccountingProjection c (collection_discrepancy db cid)) (\<lambda>p.
     Inr \<lparr> cv_collection = c, cv_order = o', cv_delivery = Option.bind (col_deliveryId c) (find_delivery db),
           cv_projection = p, cv_allocations = last_rows 100 (filter (\<lambda>i. ri_collectionId i = cid) (remittance_items db)),
           cv_discrepancy = collection_discrepancy db cid \<rparr>)))"

record remittance_view =
  rv_remittance :: remittance
  rv_items :: "remittance_item list"
  rv_discrepancies :: "discrepancy list"
  rv_events :: "reconciliation_event list"

definition find_remittance :: "'a cash_db_scheme \<Rightarrow> string \<Rightarrow> remittance option" where
  "find_remittance db rid = List.find (\<lambda>r. rm_id r = rid) (remittances db)"

definition items_of :: "'a cash_db_scheme \<Rightarrow> string \<Rightarrow> remittance_item list" where
  "items_of db rid = filter (\<lambda>i. ri_remittanceId i = rid) (remittance_items db)"

definition remittance_answer :: "'a cash_db_scheme \<Rightarrow> string \<Rightarrow> remittance_view result" where
  "remittance_answer db rid =
     bindE (some_or (find_remittance db rid) (notFound ''CASH_REMITTANCE_NOT_FOUND'')) (\<lambda>r.
     Inr \<lparr> rv_remittance = r, rv_items = last_rows 200 (items_of db rid),
           rv_discrepancies = last_rows 100 (filter (\<lambda>d. dc_remittanceId d = Some rid) (discrepancies db)),
           rv_events = last_rows 200 (filter (\<lambda>v. re_remittanceId v = Some rid) (reconciliation_events db)) \<rparr>)"

definition cash_audit :: "env \<Rightarrow> string \<Rightarrow> string \<Rightarrow> string \<Rightarrow> json \<Rightarrow> json \<Rightarrow> audit_log" where
  "cash_audit e action resourceType resourceId before after =
     \<lparr> audit_id = [], audit_actorUserId = Some (actor e), audit_actorType = ACTOR_ADMIN,
       audit_action = action, audit_resourceType = resourceType, audit_resourceId = Some resourceId,
       audit_outcome = SUCCESS, audit_requestId = requestId e, audit_ipAddress = Some (order_ip e),
       audit_userAgent = map_option (take 512) (req_userAgent e), audit_before = before, audit_after = after \<rparr>"

definition cash_event ::
  "env \<Rightarrow> string option \<Rightarrow> string option \<Rightarrow> reconciliation_type \<Rightarrow> int \<Rightarrow> json \<Rightarrow> reconciliation_event" where
  "cash_event e rid cid t amount metadata =
     \<lparr> re_id = [], re_remittanceId = rid, re_collectionId = cid, re_type = t, re_amountMillimes = Some amount,
       re_actorUserId = actor e, re_metadata = metadata, re_requestId = Some (requestId e) \<rparr>"

definition requireDiscrepancyReason :: "string option \<Rightarrow> string option \<Rightarrow> unit result" where
  "requireDiscrepancyReason reasonCode reasonDetail =
     require (\<not> (trim_or_null reasonCode = None
                 \<or> (case reasonDetail of None \<Rightarrow> True | Some s \<Rightarrow> s = [] \<or> length (trim s) < 4)))
       (badRequest ''DISCREPANCY_REASON_REQUIRED'') (Inr ())"

definition assertIndependentActor :: "string option \<Rightarrow> string \<Rightarrow> unit result" where
  "assertIndependentActor receivedByUserId actorUserId =
     require (\<not> (or_null receivedByUserId = None \<or> receivedByUserId = Some actorUserId))
       (forbidden ''SEPARATE_RECONCILIATION_APPROVER_REQUIRED'') (Inr ())"

definition requireIdempotencyKey :: "string option \<Rightarrow> string result" where
  "requireIdempotencyKey v =
     (case v of None \<Rightarrow> Inl (badRequest ''INVALID_IDEMPOTENCY_KEY'')
      | Some k \<Rightarrow> require (idempotency_key_pattern k) (badRequest ''INVALID_IDEMPOTENCY_KEY'') (Inr k))"

section \<open>Recording a collection\<close>

record collection_input =
  rc_collectedMillimes :: int
  rc_expectedOrderVersion :: int
  rc_expectedDeliveryVersion :: int
  rc_reasonCode :: "string option"
  rc_reasonDetail :: "string option"

text \<open>The two hashes; the literal \<open>confirmation\<close> is the only value the DTO accepts.\<close>

definition collection_key_hash :: "env \<Rightarrow> string \<Rightarrow> string \<Rightarrow> string" where
  "collection_key_hash e cid key =
     sha256 e (''cash-collection'' @ [CHR 0x00] @ actor e @ [CHR 0x00] @ cid @ [CHR 0x00] @ key)"

definition collection_request_hash :: "env \<Rightarrow> collection_input \<Rightarrow> string" where
  "collection_request_hash e i =
     sha256 e (stringify (JObj
       [(''collectedMillimes'', JNum (rc_collectedMillimes i)), (''confirmation'', JStr ''RECORD_COLLECTION''),
        (''expectedDeliveryVersion'', JNum (rc_expectedDeliveryVersion i)),
        (''expectedOrderVersion'', JNum (rc_expectedOrderVersion i)),
        (''reasonCode'', jopt JStr (map_option trim (rc_reasonCode i))),
        (''reasonDetail'', jopt JStr (map_option trim (rc_reasonDetail i)))]))"

text \<open>Versions and linkage of the order, the delivery and the collection.\<close>

definition collection_linkage :: "collection_operation \<Rightarrow> collection_input \<Rightarrow> delivery result" where
  "collection_linkage op i =
     (let c = co_collection op; o' = co_order op
      in require (ord_version o' = rc_expectedOrderVersion i) (conflict ''VERSION_CONFLICT'') (
         bindE (some_or (co_delivery op) (conflict ''VERSION_CONFLICT'')) (\<lambda>d.
         require (dlv_version d = rc_expectedDeliveryVersion i) (conflict ''VERSION_CONFLICT'') (
         require (\<not> (col_deliveryId c \<noteq> Some (dlv_id d) \<or> col_orderId c \<noteq> ord_id o'
                     \<or> dlv_orderId d \<noteq> ord_id o' \<or> col_expectedMillimes c \<noteq> ord_expectedCodMillimes o'))
           (conflict ''COLLECTION_LINKAGE_INVALID'') (
         Inr d)))))"

text \<open>States in which cash may be recorded.\<close>

definition collection_states :: "collection_operation \<Rightarrow> delivery \<Rightarrow> unit result" where
  "collection_states op d =
     (let c = co_collection op; o' = co_order op
      in require (col_status c = EXPECTED) (conflict ''COLLECTION_ALREADY_RECORDED'') (
         require (\<not> (ord_status o' \<noteq> dlv_status d \<or> ord_paymentStatus o' \<notin> COLLECTABLE_PAYMENT_STATUSES))
           (conflict ''COLLECTION_ORDER_STATE_INVALID'') (
         require (dlv_status d = (if ord_methodType o' = STORE_PICKUP then READY_FOR_PICKUP else OUT_FOR_DELIVERY))
           (conflict ''COLLECTION_DELIVERY_STATE_INVALID'') (Inr ()))))"

definition partial_enabled :: "'a cash_db_scheme \<Rightarrow> bool" where
  "partial_enabled db =
     list_ex (\<lambda>f. ff_key f = ''partial_cod_collection'' \<and> ff_environment f = ''ALL'' \<and> ff_enabled f) (feature_flags db)"

text \<open>The amount: its difference to what is expected and the status it leads to.\<close>

definition collection_amount ::
  "'a cash_db_scheme \<Rightarrow> collection_operation \<Rightarrow> delivery \<Rightarrow> collection_input \<Rightarrow> (int \<times> collection_status) result" where
  "collection_amount db op d i =
     (let c = co_collection op; o' = co_order op
      in require (\<not> rc_collectedMillimes i \<le> 0) (badRequest ''COLLECTED_AMOUNT_INVALID'') (
         bindE (cashDifference (col_expectedMillimes c) (rc_collectedMillimes i)) (\<lambda>difference.
         require (\<not> (difference < 0 \<and> \<not> partial_enabled db)) (conflict ''PARTIAL_CASH_COLLECTION_DISABLED'') (
         bindE (if difference \<noteq> 0 then requireDiscrepancyReason (rc_reasonCode i) (rc_reasonDetail i) else Inr ()) (\<lambda>_.
         let target = (if difference < 0 then PARTIALLY_COLLECTED else COLLECTED)
         in require (canTransitionCollection (col_status c) target) (conflict ''COLLECTION_TRANSITION_NOT_ALLOWED'') (
            require (\<not> (ord_methodType o' = COURIER
                        \<and> (or_null (dlv_courierId d) = None
                           \<or> (col_courierId c \<noteq> None \<and> col_courierId c \<noteq> dlv_courierId d))))
              (conflict ''COLLECTION_COURIER_REQUIRED'') (
            Inr (difference, target))))))))"

definition collected_row ::
  "env \<Rightarrow> collection_operation \<Rightarrow> delivery \<Rightarrow> collection_input \<Rightarrow> collection_status \<Rightarrow> string \<Rightarrow> string
     \<Rightarrow> collection \<Rightarrow> collection" where
  "collected_row e op d i target keyHash requestHash c =
     c\<lparr> col_status := target, col_collectedMillimes := rc_collectedMillimes i,
        col_collectedByUserId := Some (actor e), col_collectedAt := Some (now e),
        col_courierId := (if ord_methodType (co_order op) = COURIER then dlv_courierId d else None),
        col_note := map_option trim (rc_reasonDetail i), col_keyHash := Some keyHash,
        col_requestHash := Some requestHash \<rparr>"

text \<open>The three guarded updates; the key hash is a unique column.\<close>

definition write_collection ::
  "env \<Rightarrow> collection_operation \<Rightarrow> delivery \<Rightarrow> collection_input \<Rightarrow> int \<Rightarrow> collection_status \<Rightarrow> string \<Rightarrow> string
     \<Rightarrow> 'a cash_db_scheme \<Rightarrow> 'a cash_db_scheme result" where
  "write_collection e op d i difference target keyHash requestHash db =
     (let c = co_collection op; o' = co_order op;
          hitC = (\<lambda>x. col_id x = col_id c \<and> col_status x = EXPECTED \<and> col_keyHash x = None);
          hitO = (\<lambda>x. ord_id x = ord_id o' \<and> ord_version x = rc_expectedOrderVersion i
                      \<and> ord_paymentStatus x = ord_paymentStatus o');
          hitD = (\<lambda>x. dlv_id x = dlv_id d \<and> dlv_version x = rc_expectedDeliveryVersion i);
          payment = (if difference \<noteq> 0 then RECONCILIATION_DISCREPANCY
                     else if ord_methodType o' = STORE_PICKUP then CASH_COLLECTED_AT_STORE
                     else CASH_COLLECTED_BY_COURIER)
      in require (\<not> (count_where hitC (collections db) > 0 \<and> list_ex (\<lambda>x. col_keyHash x = Some keyHash) (collections db)))
           (PrismaError ''P2002'') (
         require (count_where hitC (collections db) = 1 \<and> count_where hitO (orders db) = 1
                  \<and> count_where hitD (deliveries db) = 1) (conflict ''VERSION_CONFLICT'') (
         Inr (db\<lparr> collections := update_where hitC (collected_row e op d i target keyHash requestHash) (collections db),
                  orders := update_where hitO
                    (\<lambda>x. x\<lparr> ord_paymentStatus := payment, ord_version := ord_version x + 1 \<rparr>) (orders db),
                  deliveries := update_where hitD
                    (\<lambda>x. x\<lparr> dlv_cashCollectedResult := Some (difference = 0), dlv_version := dlv_version x + 1 \<rparr>)
                    (deliveries db) \<rparr>))))"

text \<open>The events, the discrepancy of an amount that differs, and the audit.\<close>

definition record_collection_events ::
  "env \<Rightarrow> collection_operation \<Rightarrow> collection_input \<Rightarrow> int \<Rightarrow> 'a cash_db_scheme \<Rightarrow> 'a cash_db_scheme result" where
  "record_collection_events e op i difference db =
     (let c = co_collection op; cid = Some (col_id c); oid = ord_id (co_order op)
      in bindE (create_reconciliation_event e (cash_event e None cid COLLECTION_RECORDED (rc_collectedMillimes i)
           (JObj [(''cashCollectionId'', JStr (col_id c)), (''orderId'', JStr oid),
                  (''expectedMillimes'', JNum (col_expectedMillimes c)), (''differenceMillimes'', JNum difference)])) db)
         (\<lambda>(_, db1).
         if difference = 0 then Inr db1
         else bindE (create_discrepancy e
                \<lparr> dc_id = [], dc_remittanceId = None, dc_collectionId = cid, dc_orderId = Some oid, dc_status = DC_OPEN,
                  dc_expectedMillimes = col_expectedMillimes c, dc_actualMillimes = rc_collectedMillimes i,
                  dc_differenceMillimes = difference, dc_reasonCode = map_option trim (rc_reasonCode i),
                  dc_reasonDetail = map_option trim (rc_reasonDetail i), dc_openedByUserId = actor e,
                  dc_resolvedByUserId = None, dc_resolvedAt = None \<rparr> db1) (\<lambda>(d, db2).
              bindE (create_reconciliation_event e (cash_event e None cid DISCREPANCY_OPENED difference
                (JObj [(''discrepancyId'', JStr (dc_id d)), (''cashCollectionId'', JStr (col_id c))])) db2) (\<lambda>(_, db3).
              Inr db3))))"

text \<open>Some key was recorded: the same key with the same data replays, with other data it is rejected.\<close>

definition collection_replay :: "collection \<Rightarrow> string \<Rightarrow> string \<Rightarrow> bool result" where
  "collection_replay c keyHash requestHash =
     (if or_null (col_keyHash c) \<noteq> None \<and> col_keyHash c = Some keyHash then
        (if col_requestHash c = Some requestHash then Inr True else Inl (conflict ''IDEMPOTENCY_KEY_REUSED''))
      else Inr False)"

definition recordCollection_tx ::
  "env \<Rightarrow> string \<Rightarrow> collection_input \<Rightarrow> string \<Rightarrow> string \<Rightarrow> 'a cash_db_scheme
     \<Rightarrow> (collection_view \<times> 'a cash_db_scheme) result" where
  "recordCollection_tx e cid i keyHash requestHash db =
     bindE (lockCollection db cid) (\<lambda>op.
     bindE (collection_replay (co_collection op) keyHash requestHash) (\<lambda>replay.
     if replay then bindE (collection_answer db cid) (\<lambda>r. Inr (r, db))
     else
       bindE (collection_linkage op i) (\<lambda>d.
       bindE (collection_states op d) (\<lambda>_.
       bindE (collection_amount db op d i) (\<lambda>(difference, target).
       bindE (write_collection e op d i difference target keyHash requestHash db) (\<lambda>db1.
       bindE (record_collection_events e op i difference db1) (\<lambda>db2.
       bindE (create_audit e (cash_audit e ''cash.collection.recorded'' ''CashCollection'' (col_id (co_collection op))
         (JObj [(''status'', JStr (collection_status_name (col_status (co_collection op)))),
                (''collectedMillimes'', JNum (col_collectedMillimes (co_collection op)))])
         (JObj [(''status'', JStr (collection_status_name target)),
                (''collectedMillimes'', JNum (rc_collectedMillimes i)), (''difference'', JNum difference)])) db2)
         (\<lambda>(_, db3).
       bindE (collection_answer db3 cid) (\<lambda>r. Inr (r, db3))))))))))"

definition recordCollection ::
  "env \<Rightarrow> string \<Rightarrow> collection_input \<Rightarrow> string option \<Rightarrow> 'a cash_db_scheme
     \<Rightarrow> (collection_view \<times> 'a cash_db_scheme) result" where
  "recordCollection e cid i idempotencyKey db =
     bindE (requireIdempotencyKey idempotencyKey) (\<lambda>key.
     recordCollection_tx e cid i (collection_key_hash e cid key) (collection_request_hash e i) db)"

section \<open>Creating and submitting a remittance\<close>

record allocation_input =
  ai_collectionId :: string
  ai_amountMillimes :: int

record remittance_input =
  rmi_courierId :: string
  rmi_number :: string
  rmi_declaredMillimes :: int
  rmi_allocations :: "allocation_input list"
  rmi_note :: "string option"

definition remittance_request :: "remittance_input \<Rightarrow> unit result" where
  "remittance_request i =
     require (distinct (map ai_collectionId (rmi_allocations i))) (badRequest ''DUPLICATE_COLLECTION_ALLOCATION'') (
     require (\<not> list_ex (\<lambda>a. ai_amountMillimes a \<le> 0) (rmi_allocations i))
       (badRequest ''REMITTANCE_ALLOCATION_INVALID'') (
     bindE (sumMillimes (map ai_amountMillimes (rmi_allocations i))) (\<lambda>t.
     require (t = rmi_declaredMillimes i) (badRequest ''REMITTANCE_TOTAL_MISMATCH'') (Inr ()))))"

text \<open>What earlier remittances hold of a collection.\<close>

definition allocated_amount :: "remittance_item list \<Rightarrow> string \<Rightarrow> int" where
  "allocated_amount its cid = sum_by ri_amountMillimes (filter (\<lambda>i. ri_collectionId i = cid) its)"

text \<open>One collection of the loop; \<open>amount\<close> is the allocation asked for.\<close>

definition check_allocation :: "'a cash_db_scheme \<Rightarrow> remittance_input \<Rightarrow> collection \<Rightarrow> unit \<Rightarrow> unit result" where
  "check_allocation db i c _ =
     bindE (some_or (map_of (map (\<lambda>a. (ai_collectionId a, ai_amountMillimes a)) (rmi_allocations i)) (col_id c))
              (PrismaError ''INCONSISTENT'')) (\<lambda>amount.
     bindE (accountableCollectionMillimes c (collection_discrepancy db (col_id c))) (\<lambda>accountable.
     require (\<not> (col_courierId c \<noteq> Some (rmi_courierId i) \<or> col_status c \<notin> REMITTABLE_COLLECTION_STATUSES))
       (conflict ''COLLECTION_NOT_REMITTABLE'') (
     require (\<not> allocated_amount (remittance_items db) (col_id c) + amount > accountable)
       (conflict ''COLLECTION_OVER_ALLOCATED'') (Inr ()))))"

definition create_allocation ::
  "env \<Rightarrow> string \<Rightarrow> allocation_input \<Rightarrow> 'a cash_db_scheme \<Rightarrow> 'a cash_db_scheme result" where
  "create_allocation e rid a db =
     bindE (create_remittance_item e \<lparr> ri_id = [], ri_remittanceId = rid, ri_collectionId = ai_collectionId a,
              ri_amountMillimes = ai_amountMillimes a \<rparr> db) (\<lambda>(_, db1). Inr db1)"

definition createRemittance_tx ::
  "env \<Rightarrow> remittance_input \<Rightarrow> 'a cash_db_scheme \<Rightarrow> (remittance_view \<times> 'a cash_db_scheme) result" where
  "createRemittance_tx e i db =
     (let ids = map ai_collectionId (rmi_allocations i);
          cs = sort_key col_id (filter (\<lambda>c. col_id c \<in> set ids) (collections db))
      in require (length cs = length ids) (notFound ''CASH_COLLECTION_NOT_FOUND'') (
         require (list_ex (\<lambda>k. cou_id k = rmi_courierId i \<and> cou_status k = COURIER_ACTIVE) (couriers db))
           (conflict ''COURIER_UNAVAILABLE'') (
         bindE (foldE (check_allocation db i) cs ()) (\<lambda>_.
         bindE (create_remittance e
           \<lparr> rm_id = [], rm_number = trim (rmi_number i), rm_courierId = rmi_courierId i, rm_status = RM_DRAFT,
             rm_declaredMillimes = rmi_declaredMillimes i, rm_verifiedMillimes = None, rm_differenceMillimes = None,
             rm_submittedAt = None, rm_remittedAt = None, rm_receivedByUserId = None, rm_verifiedByUserId = None,
             rm_verifiedAt = None, rm_note = map_option trim (rmi_note i) \<rparr> db) (\<lambda>(r, db1).
         bindE (foldE (create_allocation e (rm_id r)) (rmi_allocations i) db1) (\<lambda>db2.
         bindE (create_audit e (cash_audit e ''cash.remittance.created'' ''CashRemittance'' (rm_id r) JNull
           (JObj [(''status'', JStr ''DRAFT''), (''courierId'', JStr (rmi_courierId i)),
                  (''declaredMillimes'', JNum (rmi_declaredMillimes i)),
                  (''allocationCount'', JNum (int (length (rmi_allocations i))))])) db2) (\<lambda>(_, db3).
         bindE (remittance_answer db3 (rm_id r)) (\<lambda>v. Inr (v, db3)))))))))"

text \<open>\<open>catch (error)\<close>: a unique violation becomes a conflict.\<close>

definition createRemittance ::
  "env \<Rightarrow> remittance_input \<Rightarrow> 'a cash_db_scheme \<Rightarrow> (remittance_view \<times> 'a cash_db_scheme) result" where
  "createRemittance e i db =
     bindE (remittance_request i) (\<lambda>_.
     case createRemittance_tx e i db of
       Inl x \<Rightarrow> Inl (if x = PrismaError ''P2002'' then conflict ''REMITTANCE_CONFLICT'' else x)
     | Inr p \<Rightarrow> Inr p)"

definition lockRemittance :: "'a cash_db_scheme \<Rightarrow> string \<Rightarrow> remittance result" where
  "lockRemittance db rid = some_or (find_remittance db rid) (notFound ''CASH_REMITTANCE_NOT_FOUND'')"

text \<open>\<open>updateMany\<close> on the id and the status that was read; exactly one row must be hit.\<close>

definition set_remittance ::
  "string \<Rightarrow> remittance_status \<Rightarrow> (remittance \<Rightarrow> remittance) \<Rightarrow> exn \<Rightarrow> 'a cash_db_scheme \<Rightarrow> 'a cash_db_scheme result" where
  "set_remittance rid status f x db =
     (let hit = (\<lambda>r. rm_id r = rid \<and> rm_status r = status)
      in require (count_where hit (remittances db) = 1) x (
         Inr (db\<lparr> remittances := update_where hit f (remittances db) \<rparr>)))"

definition submitRemittance ::
  "env \<Rightarrow> string \<Rightarrow> 'a cash_db_scheme \<Rightarrow> (remittance_view \<times> 'a cash_db_scheme) result" where
  "submitRemittance e rid db =
     bindE (lockRemittance db rid) (\<lambda>r.
     require (canTransitionRemittance (rm_status r) RM_SUBMITTED) (conflict ''REMITTANCE_SUBMISSION_NOT_ALLOWED'') (
     bindE (sumMillimes (map ri_amountMillimes (items_of db rid))) (\<lambda>t.
     require (t = rm_declaredMillimes r) (conflict ''REMITTANCE_TOTAL_INVALID'') (
     bindE (set_remittance rid RM_DRAFT
       (\<lambda>x. x\<lparr> rm_status := RM_SUBMITTED, rm_submittedAt := Some (now e), rm_remittedAt := Some (now e),
              rm_receivedByUserId := Some (actor e) \<rparr>) (conflict ''REMITTANCE_SUBMISSION_NOT_ALLOWED'') db) (\<lambda>db1.
     bindE (create_reconciliation_event e
       (cash_event e (Some rid) None REMITTANCE_SUBMITTED (rm_declaredMillimes r) JNull) db1) (\<lambda>(_, db2).
     bindE (create_audit e (cash_audit e ''cash.remittance.submitted'' ''CashRemittance'' rid
       (JObj [(''status'', JStr (remittance_status_name (rm_status r)))])
       (JObj [(''status'', JStr ''SUBMITTED'')])) db2) (\<lambda>(_, db3).
     bindE (remittance_answer db3 rid) (\<lambda>v. Inr (v, db3)))))))))"

section \<open>Applying verified allocations\<close>

text \<open>The items of a remittance with their collections, and the orders of these without repetition.\<close>

definition item_collections :: "'a cash_db_scheme \<Rightarrow> string \<Rightarrow> collection list result" where
  "item_collections db rid =
     mapE (\<lambda>i. some_or (find_collection db (ri_collectionId i)) (PrismaError ''INCONSISTENT'')) (items_of db rid)"

definition uniqueOrders :: "'a cash_db_scheme \<Rightarrow> collection list \<Rightarrow> order list result" where
  "uniqueOrders db cs =
     mapE (\<lambda>oid. some_or (find_order db oid) (PrismaError ''INCONSISTENT'')) (rev (remdups (rev (map col_orderId cs))))"

text \<open>The allocations that count: those of this remittance and of verified ones.\<close>

definition counted_items :: "'a cash_db_scheme \<Rightarrow> string \<Rightarrow> remittance_item list" where
  "counted_items db rid =
     filter (\<lambda>i. ri_remittanceId i = rid
        \<or> list_ex (\<lambda>r. rm_id r = ri_remittanceId i \<and> rm_status r = RM_VERIFIED) (remittances db)) (remittance_items db)"

definition remit_collection ::
  "(string \<Rightarrow> int) \<Rightarrow> (string \<Rightarrow> discrepancy option) \<Rightarrow> collection \<Rightarrow> 'a cash_db_scheme \<Rightarrow> 'a cash_db_scheme result" where
  "remit_collection amount_of disc c db =
     bindE (accountableCollectionMillimes c (disc (col_id c))) (\<lambda>accountable.
     require (\<not> amount_of (col_id c) > accountable) (conflict ''COLLECTION_OVER_ALLOCATED'') (
     if amount_of (col_id c) \<noteq> accountable then Inr db
     else
       require (canTransitionCollection (col_status c) REMITTED) (conflict ''COLLECTION_REMITTANCE_STATE_INVALID'') (
       let hit = (\<lambda>x. col_id x = col_id c \<and> col_status x = col_status c)
       in require (count_where hit (collections db) = 1) (conflict ''COLLECTION_REMITTANCE_CONFLICT'') (
          Inr (db\<lparr> collections := update_where hit (\<lambda>x. x\<lparr> col_status := REMITTED \<rparr>) (collections db) \<rparr>)))))"

text \<open>An order whose collections are all remitted and add up is remitted itself.\<close>

definition remit_order :: "order \<Rightarrow> 'a cash_db_scheme \<Rightarrow> 'a cash_db_scheme result" where
  "remit_order o' db =
     (let cs = sort_key col_id (filter (\<lambda>c. col_orderId c = ord_id o' \<and> col_status c \<noteq> VOIDED) (collections db))
      in if cs = [] \<or> list_ex (\<lambda>c. col_status c \<noteq> REMITTED) cs then Inr db
         else bindE (mapE (\<lambda>c. accountableCollectionMillimes c (collection_discrepancy db (col_id c))) cs) (\<lambda>amounts.
              bindE (sumMillimes amounts) (\<lambda>t.
              if t \<noteq> ord_expectedCodMillimes o' then Inr db
              else let hit = (\<lambda>x. ord_id x = ord_id o' \<and> ord_version x = ord_version o')
                   in require (count_where hit (orders db) = 1) (conflict ''VERSION_CONFLICT'') (
                      Inr (db\<lparr> orders := update_where hit
                        (\<lambda>x. x\<lparr> ord_paymentStatus := CASH_REMITTED, ord_version := ord_version x + 1 \<rparr>) (orders db) \<rparr>)))))"

definition applyVerifiedAllocations ::
  "string \<Rightarrow> collection list \<Rightarrow> 'a cash_db_scheme \<Rightarrow> 'a cash_db_scheme result" where
  "applyVerifiedAllocations rid cs db =
     bindE (uniqueOrders db cs) (\<lambda>os.
     bindE (foldE (remit_collection (allocated_amount (counted_items db rid)) (collection_discrepancy db)) cs db) (\<lambda>db1.
     foldE remit_order os db1))"

section \<open>Reconciling a remittance\<close>

record reconcile_input =
  ri_verifiedMillimes :: int
  ri_reasonCode :: "string option"
  ri_reasonDetail :: "string option"

text \<open>The guards; their result is the difference and the status it leads to.\<close>

definition reconcile_guard ::
  "env \<Rightarrow> 'a cash_db_scheme \<Rightarrow> remittance \<Rightarrow> collection list \<Rightarrow> reconcile_input \<Rightarrow> (int \<times> remittance_status) result" where
  "reconcile_guard e db r cs i =
     require (canTransitionRemittance (rm_status r) RM_VERIFIED) (conflict ''REMITTANCE_RECONCILIATION_NOT_ALLOWED'') (
     bindE (assertIndependentActor (rm_receivedByUserId r) (actor e)) (\<lambda>_.
     bindE (sumMillimes (map ri_amountMillimes (items_of db (rm_id r)))) (\<lambda>t.
     require (t = rm_declaredMillimes r) (conflict ''REMITTANCE_TOTAL_INVALID'') (
     require (\<not> list_ex (\<lambda>c. col_courierId c \<noteq> Some (rm_courierId r) \<or> col_status c \<notin> REMITTABLE_COLLECTION_STATUSES) cs)
       (conflict ''REMITTANCE_COLLECTION_STATE_INVALID'') (
     bindE (cashDifference (rm_declaredMillimes r) (ri_verifiedMillimes i)) (\<lambda>difference.
     bindE (if difference \<noteq> 0 then requireDiscrepancyReason (ri_reasonCode i) (ri_reasonDetail i) else Inr ()) (\<lambda>_.
     let target = (if difference = 0 then RM_VERIFIED else RM_DISCREPANCY)
     in require (canTransitionRemittance (rm_status r) target) (conflict ''REMITTANCE_RECONCILIATION_NOT_ALLOWED'') (
        Inr (difference, target)))))))))"

definition flag_order :: "order \<Rightarrow> 'a cash_db_scheme \<Rightarrow> 'a cash_db_scheme result" where
  "flag_order o' db =
     (let hit = (\<lambda>x. ord_id x = ord_id o' \<and> ord_version x = ord_version o')
      in require (count_where hit (orders db) = 1) (conflict ''VERSION_CONFLICT'') (
         Inr (db\<lparr> orders := update_where hit
           (\<lambda>x. x\<lparr> ord_paymentStatus := RECONCILIATION_DISCREPANCY, ord_version := ord_version x + 1 \<rparr>) (orders db) \<rparr>)))"

definition open_remittance_discrepancy ::
  "env \<Rightarrow> remittance \<Rightarrow> collection list \<Rightarrow> reconcile_input \<Rightarrow> int \<Rightarrow> 'a cash_db_scheme \<Rightarrow> 'a cash_db_scheme result" where
  "open_remittance_discrepancy e r cs i difference db =
     bindE (create_discrepancy e
       \<lparr> dc_id = [], dc_remittanceId = Some (rm_id r), dc_collectionId = None, dc_orderId = None, dc_status = DC_OPEN,
         dc_expectedMillimes = rm_declaredMillimes r, dc_actualMillimes = ri_verifiedMillimes i,
         dc_differenceMillimes = difference, dc_reasonCode = map_option trim (ri_reasonCode i),
         dc_reasonDetail = map_option trim (ri_reasonDetail i), dc_openedByUserId = actor e,
         dc_resolvedByUserId = None, dc_resolvedAt = None \<rparr> db) (\<lambda>(d, db1).
     bindE (create_reconciliation_event e (cash_event e (Some (rm_id r)) None DISCREPANCY_OPENED difference
       (JObj [(''discrepancyId'', JStr (dc_id d))])) db1) (\<lambda>(_, db2).
     bindE (uniqueOrders db2 cs) (\<lambda>os. foldE flag_order os db2)))"

definition reconcileRemittance ::
  "env \<Rightarrow> string \<Rightarrow> reconcile_input \<Rightarrow> 'a cash_db_scheme \<Rightarrow> (remittance_view \<times> 'a cash_db_scheme) result" where
  "reconcileRemittance e rid i db =
     bindE (lockRemittance db rid) (\<lambda>r.
     bindE (item_collections db rid) (\<lambda>cs.
     bindE (reconcile_guard e db r cs i) (\<lambda>(difference, target).
     bindE (set_remittance rid RM_SUBMITTED
       (\<lambda>x. x\<lparr> rm_status := target, rm_verifiedMillimes := Some (ri_verifiedMillimes i),
              rm_differenceMillimes := Some difference, rm_verifiedByUserId := Some (actor e),
              rm_verifiedAt := Some (now e) \<rparr>) (conflict ''REMITTANCE_RECONCILIATION_NOT_ALLOWED'') db) (\<lambda>db1.
     bindE (if difference = 0 then
              bindE (applyVerifiedAllocations rid cs db1) (\<lambda>d1.
              bindE (create_reconciliation_event e
                (cash_event e (Some rid) None REMITTANCE_VERIFIED (ri_verifiedMillimes i) JNull) d1) (\<lambda>(_, d2). Inr d2))
            else open_remittance_discrepancy e r cs i difference db1) (\<lambda>db2.
     bindE (create_audit e (cash_audit e ''cash.remittance.reconciled'' ''CashRemittance'' rid
       (JObj [(''status'', JStr (remittance_status_name (rm_status r)))])
       (JObj [(''status'', JStr (remittance_status_name target)),
              (''verifiedMillimes'', JNum (ri_verifiedMillimes i)), (''difference'', JNum difference)])) db2) (\<lambda>(_, db3).
     bindE (remittance_answer db3 rid) (\<lambda>v. Inr (v, db3))))))))"

section \<open>Resolving a discrepancy\<close>

record resolve_input =
  rs_resolution :: discrepancy_status
  rs_finalVerifiedMillimes :: "int option"
  rs_reasonDetail :: string

definition find_discrepancy :: "'a cash_db_scheme \<Rightarrow> string \<Rightarrow> discrepancy option" where
  "find_discrepancy db did = List.find (\<lambda>d. dc_id d = did) (discrepancies db)"

text \<open>The linkage of the discrepancy of a collection; its result is the delivery.\<close>

definition discrepancy_linkage :: "collection_operation \<Rightarrow> discrepancy \<Rightarrow> delivery result" where
  "discrepancy_linkage op d =
     (let c = co_collection op; broken = conflict ''COLLECTION_DISCREPANCY_LINKAGE_INVALID''
      in require (\<not> (dc_remittanceId d \<noteq> None \<or> dc_collectionId d \<noteq> Some (col_id c)
                     \<or> dc_orderId d \<noteq> Some (col_orderId c) \<or> col_deliveryId c = None)) broken (
         bindE (some_or (co_delivery op) broken) (\<lambda>dl.
         require (\<not> (Some (dlv_id dl) \<noteq> col_deliveryId c \<or> dlv_orderId dl \<noteq> col_orderId c
                     \<or> dc_expectedMillimes d \<noteq> col_expectedMillimes c
                     \<or> dc_actualMillimes d \<noteq> col_collectedMillimes c)) broken (
         bindE (cashDifference (col_expectedMillimes c) (col_collectedMillimes c)) (\<lambda>difference.
         require (dc_differenceMillimes d = difference) broken (Inr dl))))))"

definition discrepancy_guard ::
  "env \<Rightarrow> 'a cash_db_scheme \<Rightarrow> collection_operation \<Rightarrow> discrepancy \<Rightarrow> resolve_input \<Rightarrow> delivery result" where
  "discrepancy_guard e db op d i =
     (let c = co_collection op
      in bindE (discrepancy_linkage op d) (\<lambda>dl.
         require (canTransitionDiscrepancy (dc_status d) (rs_resolution i)) (conflict ''DISCREPANCY_RESOLUTION_NOT_ALLOWED'') (
         require (\<not> (col_status c \<notin> REMITTABLE_COLLECTION_STATUSES
                     \<or> ord_paymentStatus (co_order op) \<noteq> RECONCILIATION_DISCREPANCY))
           (conflict ''COLLECTION_DISCREPANCY_STATE_INVALID'') (
         require (\<not> (or_null (col_collectedByUserId c) = None \<or> dc_openedByUserId d = actor e
                     \<or> col_collectedByUserId c = Some (actor e)))
           (forbidden ''SEPARATE_RECONCILIATION_APPROVER_REQUIRED'') (
         require (count_where (\<lambda>x. ri_collectionId x = col_id c) (remittance_items db) = 0)
           (conflict ''COLLECTION_DISCREPANCY_ALREADY_ALLOCATED'') (
         Inr dl))))))"

text \<open>\<open>orderCollections.every\<close>: what the order's collections add up to, unless one is not settled.\<close>

definition projected_amount :: "collection \<Rightarrow> collection \<Rightarrow> discrepancy option \<Rightarrow> int option result" where
  "projected_amount current x discrepancy =
     (if col_id x = col_id current then Inr (Some (col_expectedMillimes current))
      else bindE (cashDifference (col_expectedMillimes x) (col_collectedMillimes x)) (\<lambda>difference.
        Inr (case discrepancy of
          None \<Rightarrow> if col_status x \<notin> ACCOUNTED_COLLECTION_STATUSES \<or> difference \<noteq> 0 then None
                  else Some (col_collectedMillimes x)
        | Some d \<Rightarrow>
            if dc_status d \<noteq> DC_RESOLVED \<or> \<not> discrepancy_linked x d difference
               \<or> col_status x \<notin> ACCOUNTED_COLLECTION_STATUSES then None
            else Some (col_expectedMillimes x))))"

fun projected_total ::
  "collection \<Rightarrow> (string \<Rightarrow> discrepancy option) \<Rightarrow> collection list \<Rightarrow> int \<Rightarrow> int option result" where
  "projected_total current disc [] acc = Inr (Some acc)"
| "projected_total current disc (x # xs) acc =
     bindE (projected_amount current x (disc (col_id x))) (\<lambda>m.
     case m of None \<Rightarrow> Inr None | Some a \<Rightarrow> projected_total current disc xs (acc + a))"

text \<open>Whether the order is settled once this collection is.\<close>

definition clear_projection :: "'a cash_db_scheme \<Rightarrow> collection_operation \<Rightarrow> bool result" where
  "clear_projection db op =
     (let c = co_collection op;
          cs = filter (\<lambda>x. col_orderId x = col_orderId c \<and> col_status x \<noteq> VOIDED) (collections db)
      in bindE (projected_total c (collection_discrepancy db) cs 0) (\<lambda>t.
         Inr (list_ex (\<lambda>x. col_id x = col_id c) cs \<and> t = Some (ord_expectedCodMillimes (co_order op)))))"

definition settle_order :: "collection_operation \<Rightarrow> delivery \<Rightarrow> 'a cash_db_scheme \<Rightarrow> 'a cash_db_scheme result" where
  "settle_order op dl db =
     (let o' = co_order op;
          payment = (if ord_methodType o' = STORE_PICKUP then CASH_COLLECTED_AT_STORE else CASH_COLLECTED_BY_COURIER);
          hitO = (\<lambda>x. ord_id x = ord_id o' \<and> ord_version x = ord_version o'
                      \<and> ord_paymentStatus x = RECONCILIATION_DISCREPANCY);
          hitD = (\<lambda>x. dlv_id x = dlv_id dl \<and> dlv_version x = dlv_version dl)
      in require (count_where hitO (orders db) = 1 \<and> count_where hitD (deliveries db) = 1)
           (conflict ''VERSION_CONFLICT'') (
         Inr (db\<lparr> orders := update_where hitO
                    (\<lambda>x. x\<lparr> ord_paymentStatus := payment, ord_version := ord_version x + 1 \<rparr>) (orders db),
                  deliveries := update_where hitD
                    (\<lambda>x. x\<lparr> dlv_cashCollectedResult := Some True, dlv_version := dlv_version x + 1 \<rparr>)
                    (deliveries db) \<rparr>)))"

text \<open>The branch on the resolution: the exact second count, or nothing for a write-off.\<close>

definition correct_collection ::
  "env \<Rightarrow> collection_operation \<Rightarrow> delivery \<Rightarrow> discrepancy \<Rightarrow> resolve_input \<Rightarrow> 'a cash_db_scheme
     \<Rightarrow> 'a cash_db_scheme result" where
  "correct_collection e op dl d i db =
     (let c = co_collection op
      in require (rs_finalVerifiedMillimes i = Some (col_expectedMillimes c)) (badRequest ''FINAL_VERIFIED_AMOUNT_INVALID'') (
         bindE (clear_projection db op) (\<lambda>clearProjection.
         let hit = (\<lambda>x. col_id x = col_id c \<and> col_status x = col_status c)
         in require (count_where hit (collections db) = 1) (conflict ''VERSION_CONFLICT'') (
            let db1 = db\<lparr> collections := update_where hit (\<lambda>x. x\<lparr> col_status := COLLECTED \<rparr>) (collections db) \<rparr>
            in bindE (if clearProjection then settle_order op dl db1 else Inr db1) (\<lambda>db2.
               bindE (create_reconciliation_event e
                 (cash_event e None (Some (col_id c)) ADJUSTMENT_RECORDED (col_expectedMillimes c - col_collectedMillimes c)
                   (JObj [(''discrepancyId'', JStr (dc_id d)),
                     (''originalCollectedMillimes'', JNum (col_collectedMillimes c)),
                     (''finalVerifiedMillimes'', jopt JNum (rs_finalVerifiedMillimes i)),
                     (''adjustmentMillimes'', JNum (col_expectedMillimes c - col_collectedMillimes c)),
                     (''resolutionReason'', JStr (trim (rs_reasonDetail i)))])) db2) (\<lambda>(_, db3). Inr db3))))))"

definition close_discrepancy ::
  "env \<Rightarrow> discrepancy \<Rightarrow> resolve_input \<Rightarrow> 'a cash_db_scheme \<Rightarrow> 'a cash_db_scheme result" where
  "close_discrepancy e d i db =
     (let hit = (\<lambda>x. dc_id x = dc_id d \<and> dc_status x = dc_status d)
      in require (count_where hit (discrepancies db) = 1) (conflict ''DISCREPANCY_RESOLUTION_NOT_ALLOWED'') (
         Inr (db\<lparr> discrepancies := update_where hit
           (\<lambda>x. x\<lparr> dc_status := rs_resolution i, dc_resolvedByUserId := Some (actor e), dc_resolvedAt := Some (now e) \<rparr>)
           (discrepancies db) \<rparr>)))"

definition resolution_json :: "discrepancy \<Rightarrow> resolve_input \<Rightarrow> json" where
  "resolution_json d i =
     JObj [(''discrepancyId'', JStr (dc_id d)), (''resolution'', JStr (discrepancy_status_name (rs_resolution i))),
           (''resolutionReason'', JStr (trim (rs_reasonDetail i)))]"

definition resolveCollectionDiscrepancy ::
  "env \<Rightarrow> string \<Rightarrow> string \<Rightarrow> resolve_input \<Rightarrow> 'a cash_db_scheme \<Rightarrow> (collection_view \<times> 'a cash_db_scheme) result" where
  "resolveCollectionDiscrepancy e cid did i db =
     bindE (lockCollection db cid) (\<lambda>op.
     bindE (some_or (find_discrepancy db did) (notFound ''CASH_DISCREPANCY_NOT_FOUND'')) (\<lambda>d.
     bindE (discrepancy_guard e db op d i) (\<lambda>dl.
     bindE (if rs_resolution i = DC_RESOLVED then correct_collection e op dl d i db
            else require (rs_finalVerifiedMillimes i = None) (badRequest ''FINAL_VERIFIED_AMOUNT_NOT_APPLICABLE'') (Inr db))
       (\<lambda>db1.
     bindE (close_discrepancy e d i db1) (\<lambda>db2.
     bindE (create_reconciliation_event e
       (cash_event e None (Some cid) DISCREPANCY_RESOLVED (dc_differenceMillimes d) (resolution_json d i)) db2) (\<lambda>(_, db3).
     bindE (create_audit e (cash_audit e ''cash.discrepancy.resolved'' ''CashDiscrepancy'' did
       (JObj [(''scope'', JStr ''COLLECTION''), (''status'', JStr (discrepancy_status_name (dc_status d))),
              (''paymentStatus'', JStr (payment_status_name (ord_paymentStatus (co_order op)))),
              (''collectedMillimes'', JNum (col_collectedMillimes (co_collection op)))])
       (JObj [(''scope'', JStr ''COLLECTION''), (''status'', JStr (discrepancy_status_name (rs_resolution i))),
              (''finalVerifiedMillimes'', jopt JNum (rs_finalVerifiedMillimes i)),
              (''adjustmentMillimes'', (if rs_resolution i = DC_RESOLVED
                 then JNum (col_expectedMillimes (co_collection op) - col_collectedMillimes (co_collection op))
                 else JNull))])) db3) (\<lambda>(_, db4).
     bindE (collection_answer db4 cid) (\<lambda>v. Inr (v, db4)))))))))"

text \<open>The guards of the discrepancy of a remittance; their result is the remittance.\<close>

definition remittance_discrepancy_guard ::
  "env \<Rightarrow> 'a cash_db_scheme \<Rightarrow> string \<Rightarrow> discrepancy \<Rightarrow> resolve_input \<Rightarrow> remittance result" where
  "remittance_discrepancy_guard e db rid d i =
     require (\<not> (dc_remittanceId d \<noteq> Some rid \<or> dc_collectionId d \<noteq> None \<or> dc_orderId d \<noteq> None))
       (conflict ''DISCREPANCY_SCOPE_INVALID'') (
     require (canTransitionDiscrepancy (dc_status d) (rs_resolution i)) (conflict ''DISCREPANCY_RESOLUTION_NOT_ALLOWED'') (
     require (dc_openedByUserId d \<noteq> actor e) (forbidden ''SEPARATE_RECONCILIATION_APPROVER_REQUIRED'') (
     bindE (lockRemittance db rid) (\<lambda>r.
     require (rm_status r = RM_DISCREPANCY) (conflict ''REMITTANCE_DISCREPANCY_STATE_INVALID'') (
     bindE (assertIndependentActor (rm_receivedByUserId r) (actor e)) (\<lambda>_. Inr r))))))"

definition verify_after_all ::
  "env \<Rightarrow> remittance \<Rightarrow> resolve_input \<Rightarrow> 'a cash_db_scheme \<Rightarrow> 'a cash_db_scheme result" where
  "verify_after_all e r i db =
     require (rs_finalVerifiedMillimes i = Some (rm_declaredMillimes r)) (badRequest ''FINAL_VERIFIED_AMOUNT_INVALID'') (
     bindE (item_collections db (rm_id r)) (\<lambda>cs.
     bindE (applyVerifiedAllocations (rm_id r) cs db) (\<lambda>db1.
     set_remittance (rm_id r) RM_DISCREPANCY
       (\<lambda>x. x\<lparr> rm_status := RM_VERIFIED, rm_verifiedMillimes := Some (rm_declaredMillimes r),
              rm_differenceMillimes := Some 0, rm_verifiedByUserId := Some (actor e),
              rm_verifiedAt := Some (now e) \<rparr>) (conflict ''DISCREPANCY_RESOLUTION_NOT_ALLOWED'') db1)))"

definition resolveRemittanceDiscrepancy ::
  "env \<Rightarrow> string \<Rightarrow> string \<Rightarrow> resolve_input \<Rightarrow> 'a cash_db_scheme \<Rightarrow> (remittance_view \<times> 'a cash_db_scheme) result" where
  "resolveRemittanceDiscrepancy e rid did i db =
     bindE (some_or (find_discrepancy db did) (notFound ''CASH_DISCREPANCY_NOT_FOUND'')) (\<lambda>d.
     bindE (remittance_discrepancy_guard e db rid d i) (\<lambda>r.
     bindE (if rs_resolution i = DC_RESOLVED then verify_after_all e r i db
            else require (rs_finalVerifiedMillimes i = None) (badRequest ''FINAL_VERIFIED_AMOUNT_NOT_APPLICABLE'') (Inr db))
       (\<lambda>db1.
     bindE (close_discrepancy e d i db1) (\<lambda>db2.
     bindE (create_reconciliation_event e
       (cash_event e (Some rid) None DISCREPANCY_RESOLVED (dc_differenceMillimes d) (resolution_json d i)) db2) (\<lambda>(_, db3).
     bindE (create_audit e (cash_audit e ''cash.discrepancy.resolved'' ''CashDiscrepancy'' did
       (JObj [(''status'', JStr (discrepancy_status_name (dc_status d)))])
       (JObj [(''status'', JStr (discrepancy_status_name (rs_resolution i)))])) db3) (\<lambda>(_, db4).
     bindE (remittance_answer db4 rid) (\<lambda>v. Inr (v, db4))))))))"

datatype resolve_view = ResolvedCollection collection_view | ResolvedRemittance remittance_view

definition resolveDiscrepancy ::
  "env \<Rightarrow> string \<Rightarrow> resolve_input \<Rightarrow> 'a cash_db_scheme \<Rightarrow> (resolve_view \<times> 'a cash_db_scheme) result" where
  "resolveDiscrepancy e did i db =
     bindE (some_or (find_discrepancy db did) (notFound ''CASH_DISCREPANCY_NOT_FOUND'')) (\<lambda>reference.
     case (or_null (dc_collectionId reference), or_null (dc_orderId reference), or_null (dc_remittanceId reference)) of
       (Some cid, Some _, None) \<Rightarrow>
         bindE (resolveCollectionDiscrepancy e cid did i db) (\<lambda>(v, db'). Inr (ResolvedCollection v, db'))
     | (None, None, Some rid) \<Rightarrow>
         bindE (resolveRemittanceDiscrepancy e rid did i db) (\<lambda>(v, db'). Inr (ResolvedRemittance v, db'))
     | _ \<Rightarrow> Inl (conflict ''DISCREPANCY_SCOPE_INVALID''))"

end
