(* ===== verification/DeliverySchema.thy ===== *)
theory DeliverySchema
  imports Cash
begin

text \<open>
  The delivery tables of \<open>prisma/schema.prisma\<close> (attempts, manifests and their items, imports of
  status files) on top of the cash tables, and the creates.
\<close>

datatype manifest_status = MF_DRAFT | MF_SEALED | MF_HANDED_OVER | MF_CLOSED | MF_CANCELLED

record attempt =
  att_id :: string
  att_deliveryId :: string
  att_number :: nat
  att_attemptedAt :: int
  att_outcome :: attempt_outcome
  att_notes :: "string option"
  att_nextAttemptAt :: "int option"
  att_ageVerificationResult :: age_result
  att_cashExpectedMillimes :: "int option"
  att_cashCollectedMillimes :: "int option"
  att_recordedByUserId :: "string option"

record manifest =
  mf_id :: string
  mf_number :: string
  mf_courierId :: string
  mf_status :: manifest_status
  mf_manifestDate :: int
  mf_createdBy :: string
  mf_sealedAt :: "int option"
  mf_handedOverAt :: "int option"
  mf_closedAt :: "int option"

record manifest_item =
  mi_manifestId :: string
  mi_deliveryId :: string
  mi_sequence :: nat

text \<open>What an import answers: one verdict per row of the file.\<close>

record import_row =
  ir_row :: nat
  ir_deliveryId :: string
  ir_currentStatus :: "delivery_status option"
  ir_targetStatus :: delivery_status
  ir_valid :: bool
  ir_code :: "string option"

record import_result =
  im_importKey :: string
  im_dryRun :: bool
  im_valid :: bool
  im_applied :: bool
  im_rowCount :: nat
  im_appliedCount :: nat
  im_rows :: "import_row list"

record status_import =
  si_id :: string
  si_importKey :: string
  si_dryRun :: bool
  si_payloadHash :: string
  si_rowCount :: nat
  si_appliedCount :: nat
  si_result :: import_result
  si_createdByUserId :: string

record delivery_db = cash_db +
  attempts :: "attempt list"
  manifests :: "manifest list"
  manifest_items :: "manifest_item list"
  status_imports :: "status_import list"

definition create_attempt :: "env \<Rightarrow> attempt \<Rightarrow> 'a delivery_db_scheme \<Rightarrow> (attempt \<times> 'a delivery_db_scheme) result" where
  "create_attempt e row db =
     (let r = row\<lparr> att_id := fresh_id e db \<rparr>
      in bindE (create_row (\<lambda>a b. att_id a = att_id b
                   \<or> (att_deliveryId a = att_deliveryId b \<and> att_number a = att_number b)) r (attempts db)) (\<lambda>t.
         Inr (r, db\<lparr> attempts := t, seq := Suc (seq db) \<rparr>)))"

definition create_manifest :: "env \<Rightarrow> manifest \<Rightarrow> 'a delivery_db_scheme \<Rightarrow> (manifest \<times> 'a delivery_db_scheme) result" where
  "create_manifest e row db =
     (let r = row\<lparr> mf_id := fresh_id e db \<rparr>
      in bindE (create_row (\<lambda>a b. mf_id a = mf_id b \<or> mf_number a = mf_number b) r (manifests db)) (\<lambda>t.
         Inr (r, db\<lparr> manifests := t, seq := Suc (seq db) \<rparr>)))"

definition create_manifest_item ::
  "manifest_item \<Rightarrow> 'a delivery_db_scheme \<Rightarrow> 'a delivery_db_scheme result" where
  "create_manifest_item row db =
     bindE (create_row (\<lambda>a b. mi_manifestId a = mi_manifestId b
                \<and> (mi_deliveryId a = mi_deliveryId b \<or> mi_sequence a = mi_sequence b)) row (manifest_items db)) (\<lambda>t.
     Inr (db\<lparr> manifest_items := t \<rparr>))"

definition create_status_import ::
  "env \<Rightarrow> status_import \<Rightarrow> 'a delivery_db_scheme \<Rightarrow> (status_import \<times> 'a delivery_db_scheme) result" where
  "create_status_import e row db =
     (let r = row\<lparr> si_id := fresh_id e db \<rparr>
      in bindE (create_row (\<lambda>a b. si_id a = si_id b
                   \<or> (si_importKey a = si_importKey b \<and> si_dryRun a = si_dryRun b)) r (status_imports db)) (\<lambda>t.
         Inr (r, db\<lparr> status_imports := t, seq := Suc (seq db) \<rparr>)))"

definition create_courier :: "env \<Rightarrow> courier \<Rightarrow> 'a cash_db_scheme \<Rightarrow> (courier \<times> 'a cash_db_scheme) result" where
  "create_courier e row db =
     (let r = row\<lparr> cou_id := fresh_id e db \<rparr>
      in bindE (create_row (\<lambda>a b. cou_id a = cou_id b \<or> cou_code a = cou_code b) r (couriers db)) (\<lambda>t.
         Inr (r, db\<lparr> couriers := t, seq := Suc (seq db) \<rparr>)))"

lemma create_attempt_Inr [simp, res_simps]:
  "create_attempt e row db = Inr p \<longleftrightarrow>
     (let r = row\<lparr> att_id := fresh_id e db \<rparr>
      in \<not> (\<exists>x\<in>set (attempts db). att_id r = att_id x \<or> (att_deliveryId r = att_deliveryId x \<and> att_number r = att_number x))
         \<and> p = (r, db\<lparr> attempts := attempts db @ [r], seq := Suc (seq db) \<rparr>))"
  by (auto simp: create_attempt_def Let_def list_ex_iff)

lemma create_manifest_Inr [simp, res_simps]:
  "create_manifest e row db = Inr p \<longleftrightarrow>
     (let r = row\<lparr> mf_id := fresh_id e db \<rparr>
      in \<not> (\<exists>x\<in>set (manifests db). mf_id r = mf_id x \<or> mf_number r = mf_number x)
         \<and> p = (r, db\<lparr> manifests := manifests db @ [r], seq := Suc (seq db) \<rparr>))"
  by (auto simp: create_manifest_def Let_def list_ex_iff)

lemma create_manifest_item_Inr [simp, res_simps]:
  "create_manifest_item row db = Inr db' \<longleftrightarrow>
     \<not> (\<exists>x\<in>set (manifest_items db). mi_manifestId row = mi_manifestId x
          \<and> (mi_deliveryId row = mi_deliveryId x \<or> mi_sequence row = mi_sequence x))
     \<and> db' = db\<lparr> manifest_items := manifest_items db @ [row] \<rparr>"
  by (auto simp: create_manifest_item_def list_ex_iff)

lemma create_status_import_Inr [simp, res_simps]:
  "create_status_import e row db = Inr p \<longleftrightarrow>
     (let r = row\<lparr> si_id := fresh_id e db \<rparr>
      in \<not> (\<exists>x\<in>set (status_imports db). si_id r = si_id x
               \<or> (si_importKey r = si_importKey x \<and> si_dryRun r = si_dryRun x))
         \<and> p = (r, db\<lparr> status_imports := status_imports db @ [r], seq := Suc (seq db) \<rparr>))"
  by (auto simp: create_status_import_def Let_def list_ex_iff)

lemma create_courier_Inr [simp, res_simps]:
  "create_courier e row db = Inr p \<longleftrightarrow>
     (let r = row\<lparr> cou_id := fresh_id e db \<rparr>
      in \<not> (\<exists>x\<in>set (couriers db). cou_id r = cou_id x \<or> cou_code r = cou_code x)
         \<and> p = (r, db\<lparr> couriers := couriers db @ [r], seq := Suc (seq db) \<rparr>))"
  by (auto simp: create_courier_def Let_def list_ex_iff)

end
