(* ===== verification/NotificationWorker.thy ===== *)
theory NotificationWorker
  imports OutboxWorker DeliverySchema
begin

text \<open>
  The part of \<open>outbox-processor.ts\<close> that delivers notifications: an event is claimed together with a
  numbered attempt, the message is prepared and given to the provider outside any transaction, and the
  outcome is recorded on the attempt, the notification and the event.  The provider, the cipher and the
  rendered text are parameters.
\<close>

section \<open>Attempts\<close>

record notification_attempt =
  na_id :: string
  na_notificationId :: string
  na_attemptNumber :: nat
  na_provider :: string
  na_providerMessageId :: "string option"
  na_status :: notification_status
  na_safeErrorCode :: "string option"
  na_attemptedAt :: int
  na_nextRetryAt :: "int option"

text \<open>The largest database: everything the modelled services write.\<close>

record worker_db = delivery_db +
  notification_attempts :: "notification_attempt list"

definition create_notification_attempt ::
  "env \<Rightarrow> notification_attempt \<Rightarrow> 'a worker_db_scheme \<Rightarrow> (notification_attempt \<times> 'a worker_db_scheme) result" where
  "create_notification_attempt e row db =
     (let r = row\<lparr> na_id := fresh_id e db \<rparr>
      in bindE (create_row (\<lambda>a b. na_id a = na_id b
                   \<or> (na_notificationId a = na_notificationId b \<and> na_attemptNumber a = na_attemptNumber b)) r
                 (notification_attempts db)) (\<lambda>t.
         Inr (r, db\<lparr> notification_attempts := t, seq := Suc (seq db) \<rparr>)))"

lemma create_notification_attempt_Inr [simp, res_simps]:
  "create_notification_attempt e row db = Inr p \<longleftrightarrow>
     (let r = row\<lparr> na_id := fresh_id e db \<rparr>
      in \<not> (\<exists>x\<in>set (notification_attempts db). na_id r = na_id x
               \<or> (na_notificationId r = na_notificationId x \<and> na_attemptNumber r = na_attemptNumber x))
         \<and> p = (r, db\<lparr> notification_attempts := notification_attempts db @ [r], seq := Suc (seq db) \<rparr>))"
  by (auto simp: create_notification_attempt_def Let_def list_ex_iff)

section \<open>Claiming\<close>

record notification_work =
  wk_outboxEventId :: string
  wk_notificationId :: string
  wk_attemptId :: string
  wk_attemptNumber :: nat
  wk_provider :: string
  wk_channel :: notification_channel
  wk_event :: notification_event
  wk_locale :: string
  wk_encryptedRecipient :: string
  wk_payload :: json
  wk_idempotencyKey :: string

datatype notification_claim = SEND notification_work | SKIPPED_DISABLED | NOT_SENT process_outcome

definition find_notification :: "'a shop_db_scheme \<Rightarrow> string \<Rightarrow> notification option" where
  "find_notification db nid = List.find (\<lambda>n. nt_id n = nid) (notifications db)"

definition set_notification ::
  "string \<Rightarrow> (notification \<Rightarrow> notification) \<Rightarrow> 'a shop_db_scheme \<Rightarrow> 'a shop_db_scheme" where
  "set_notification nid f db = db\<lparr> notifications := update_where (\<lambda>n. nt_id n = nid) f (notifications db) \<rparr>"

definition attempts_at :: "'a worker_db_scheme \<Rightarrow> string \<Rightarrow> notification_attempt list" where
  "attempts_at db nid = filter (\<lambda>a. na_notificationId a = nid) (notification_attempts db)"

text \<open>The payload must name the notification of the event.\<close>

definition dispatched_notification ::
  "'a worker_db_scheme \<Rightarrow> outbox_event \<Rightarrow> event_payload \<Rightarrow> notification worker_result" where
  "dispatched_notification db v p =
     (case p of
        NotificationDispatch nid \<Rightarrow>
          require (\<not> (ob_deterministicKey v \<noteq> ''notification-dispatch:v1:'' @ nid
                      \<or> ob_aggregateType v \<noteq> ''Notification'' \<or> ob_aggregateId v \<noteq> nid))
            (DomainError ''OUTBOX_NOTIFICATION_AGGREGATE_MISMATCH'')
            (some_or (find_notification db nid) (DomainError ''NOTIFICATION_MISSING''))
      | _ \<Rightarrow> Inl (DomainError ''OUTBOX_HANDLER_ROUTE_MISMATCH''))"

text \<open>An attempt still in progress is one whose lease has run out.\<close>

definition fail_open_attempts :: "string \<Rightarrow> 'a worker_db_scheme \<Rightarrow> 'a worker_db_scheme" where
  "fail_open_attempts nid db =
     db\<lparr> notification_attempts := update_where (\<lambda>a. na_notificationId a = nid \<and> na_status a = NT_PROCESSING)
           (\<lambda>a. a\<lparr> na_status := NT_FAILED, na_safeErrorCode := Some ''NOTIFICATION_ATTEMPT_LEASE_EXPIRED'',
                   na_nextRetryAt := None \<rparr>) (notification_attempts db) \<rparr>"

definition new_attempt ::
  "env \<Rightarrow> string \<Rightarrow> nat \<Rightarrow> string \<Rightarrow> notification_status \<Rightarrow> string option \<Rightarrow> notification_attempt" where
  "new_attempt e nid n provider status code =
     \<lparr> na_id = [], na_notificationId = nid, na_attemptNumber = n, na_provider = provider,
       na_providerMessageId = None, na_status = status, na_safeErrorCode = code, na_attemptedAt = now e,
       na_nextRetryAt = None \<rparr>"

definition next_attempt_number :: "'a worker_db_scheme \<Rightarrow> string \<Rightarrow> nat" where
  "next_attempt_number db nid = fold max (map na_attemptNumber (attempts_at db nid)) 0 + 1"

definition skip_disabled ::
  "env \<Rightarrow> string \<Rightarrow> string \<Rightarrow> nat \<Rightarrow> string \<Rightarrow> 'a worker_db_scheme \<Rightarrow> (notification_claim \<times> 'a worker_db_scheme) worker_result" where
  "skip_disabled e eid nid n provider db =
     bindE (thrown (create_notification_attempt e
              (new_attempt e nid n provider NT_CANCELLED (Some ''NOTIFICATION_CHANNEL_DISABLED'')) db)) (\<lambda>(_, db1).
     Inr (SKIPPED_DISABLED,
       set_event eid (processed_event e (Some ''NOTIFICATION_CHANNEL_DISABLED''))
         (set_notification nid (\<lambda>n. n\<lparr> nt_status := NT_CANCELLED \<rparr>) db1)))"

definition start_attempt ::
  "env \<Rightarrow> worker_env \<Rightarrow> string \<Rightarrow> notification \<Rightarrow> nat \<Rightarrow> string \<Rightarrow> 'a worker_db_scheme
     \<Rightarrow> (notification_claim \<times> 'a worker_db_scheme) worker_result" where
  "start_attempt e w eid m n provider db =
     bindE (thrown (create_notification_attempt e (new_attempt e (nt_id m) n provider NT_PROCESSING None) db)) (\<lambda>(a, db1).
     Inr (SEND \<lparr> wk_outboxEventId = eid, wk_notificationId = nt_id m, wk_attemptId = na_id a, wk_attemptNumber = n,
                 wk_provider = provider, wk_channel = nt_channel m, wk_event = nt_event m, wk_locale = nt_locale m,
                 wk_encryptedRecipient = (case nt_encryptedRecipient m of Some r \<Rightarrow> r | None \<Rightarrow> []),
                 wk_payload = nt_payload m, wk_idempotencyKey = nt_idempotencyKey m \<rparr>,
          set_event eid (processing_event e w)
            (set_notification (nt_id m) (\<lambda>x. x\<lparr> nt_status := NT_PROCESSING \<rparr>) db1)))"

text \<open>Every member of the enum \<open>NotificationChannel\<close> is a deliverable channel.\<close>

definition claimNotification ::
  "env \<Rightarrow> worker_env \<Rightarrow> (notification_channel \<Rightarrow> string) \<Rightarrow> outbox_job \<Rightarrow> 'a worker_db_scheme
     \<Rightarrow> (notification_claim \<times> 'a worker_db_scheme) worker_result" where
  "claimNotification e w providerFor job db =
     bindE (some_or (find_event db (job_outboxEventId job)) (DomainError ''OUTBOX_EVENT_MISSING'')) (\<lambda>v.
     case handled_before v of
       Some outcome \<Rightarrow> Inr (NOT_SENT outcome, db)
     | None \<Rightarrow>
         bindE (job_event_payload w job v) (\<lambda>p.
         bindE (dispatched_notification db v p) (\<lambda>m.
         if nt_status m = NT_DELIVERED \<or> nt_status m = NT_CANCELLED then
           Inr (NOT_SENT ALREADY_PROCESSED, set_event (ob_id v) (processed_event e None) db)
         else if nt_status m = NT_DEAD_LETTER then
           Inr (NOT_SENT TERMINAL, set_event (ob_id v) (dead_event e ''NOTIFICATION_DEAD_LETTER'') db)
         else
           let attemptNumber = next_attempt_number db (nt_id m);
               db1 = fail_open_attempts (nt_id m) db;
               provider = take 100 (providerFor (nt_channel m))
           in if provider = ''disabled'' then skip_disabled e (ob_id v) (nt_id m) attemptNumber provider db1
              else start_attempt e w (ob_id v) m attemptNumber provider db1)))"

section \<open>Recording the outcome\<close>

record delivery_result =
  dr_provider :: string
  dr_providerMessageId :: string

definition lockNotificationResultRows ::
  "'a worker_db_scheme \<Rightarrow> notification_work \<Rightarrow> (outbox_event \<times> notification) worker_result" where
  "lockNotificationResultRows db work =
     bindE (some_or (find_event db (wk_outboxEventId work)) (DomainError ''OUTBOX_EVENT_MISSING'')) (\<lambda>v.
     bindE (some_or (find_notification db (wk_notificationId work)) (DomainError ''NOTIFICATION_MISSING'')) (\<lambda>n.
     Inr (v, n)))"

definition printable :: "char \<Rightarrow> bool" where
  "printable c = (let n = (of_char c :: nat) in 32 \<le> n \<and> n \<le> 126)"

definition check_provider_message_id :: "string \<Rightarrow> string worker_result" where
  "check_provider_message_id s =
     require (\<not> (s = [] \<or> length s > 255 \<or> \<not> list_all printable s))
       (DomainError ''NOTIFICATION_PROVIDER_RESPONSE_INVALID'') (Inr s)"

definition own_attempt :: "notification_work \<Rightarrow> notification_attempt \<Rightarrow> bool" where
  "own_attempt work a = (na_id a = wk_attemptId work \<and> na_notificationId a = wk_notificationId work)"

definition set_attempts ::
  "(notification_attempt \<Rightarrow> bool) \<Rightarrow> (notification_attempt \<Rightarrow> notification_attempt) \<Rightarrow> 'a worker_db_scheme \<Rightarrow> 'a worker_db_scheme" where
  "set_attempts P f db = db\<lparr> notification_attempts := update_where P f (notification_attempts db) \<rparr>"

definition finalizeNotificationSuccess ::
  "env \<Rightarrow> notification_work \<Rightarrow> delivery_result \<Rightarrow> 'a worker_db_scheme \<Rightarrow> 'a worker_db_scheme worker_result" where
  "finalizeNotificationSuccess e work delivery db =
     require (\<not> dr_provider delivery \<noteq> wk_provider work) (DomainError ''NOTIFICATION_PROVIDER_MISMATCH'') (
     bindE (check_provider_message_id (dr_providerMessageId delivery)) (\<lambda>mid.
     bindE (lockNotificationResultRows db work) (\<lambda>(v, n).
     bindE (if nt_status n = NT_CANCELLED then
              Inr (set_attempts (own_attempt work) (\<lambda>a. a\<lparr> na_status := NT_DELIVERED, na_providerMessageId := Some mid,
                na_safeErrorCode := Some ''NOTIFICATION_CANCELLED_AFTER_PROVIDER_ACCEPTED'' \<rparr>) db)
            else if nt_status n = NT_DELIVERED then
              Inr (set_attempts (own_attempt work) (\<lambda>a. a\<lparr> na_status := NT_DELIVERED, na_providerMessageId := Some mid,
                na_safeErrorCode := Some ''NOTIFICATION_ALREADY_DELIVERED'' \<rparr>) db)
            else
              let db1 = set_notification (wk_notificationId work)
                          (\<lambda>x. x\<lparr> nt_status := NT_DELIVERED, nt_deliveredAt := Some (now e) \<rparr>) db;
                  hit = (\<lambda>a. own_attempt work a \<and> na_status a = NT_PROCESSING)
              in require (\<not> count_where hit (notification_attempts db1) \<noteq> 1)
                   (DomainError ''NOTIFICATION_ATTEMPT_STATE_CONFLICT'')
                   (Inr (set_attempts hit (\<lambda>a. a\<lparr> na_status := NT_DELIVERED, na_providerMessageId := Some mid,
                      na_safeErrorCode := None, na_nextRetryAt := None \<rparr>) db1))) (\<lambda>db2.
     Inr (set_event (wk_outboxEventId work) (processed_event e None) db2)))))"

definition finalizeNotificationFailure ::
  "env \<Rightarrow> worker_env \<Rightarrow> notification_work \<Rightarrow> string \<Rightarrow> 'a worker_db_scheme
     \<Rightarrow> (retry_outcome \<times> 'a worker_db_scheme) worker_result" where
  "finalizeNotificationFailure e w work errorCode db =
     bindE (lockNotificationResultRows db work) (\<lambda>(v, n).
     if finished (ob_status v) \<or> nt_status n = NT_DELIVERED \<or> nt_status n = NT_CANCELLED then
       let db1 = set_attempts (own_attempt work) (\<lambda>a. a\<lparr> na_status := NT_FAILED,
                   na_safeErrorCode := Some (take 100 errorCode), na_nextRetryAt := None \<rparr>) db
       in Inr (RETRY_TERMINAL,
            if nt_status n = NT_DELIVERED \<and> ob_status v \<noteq> OB_PROCESSED
            then set_event (ob_id v) (processed_event e None) db1 else db1)
     else
       let deadLetter = (ob_attemptCount v \<ge> ob_maxAttempts v);
           retryAt = now e + exponentialRetryDelay (ob_attemptCount v) (OUTBOX_RETRY_BASE_MS w) (OUTBOX_RETRY_MAX_MS w);
           hit = (\<lambda>a. own_attempt work a \<and> na_status a = NT_PROCESSING)
       in require (\<not> count_where hit (notification_attempts db) \<noteq> 1)
            (DomainError ''NOTIFICATION_ATTEMPT_STATE_CONFLICT'') (
          let db1 = set_attempts hit (\<lambda>a. a\<lparr> na_status := (if deadLetter then NT_DEAD_LETTER else NT_FAILED),
                      na_safeErrorCode := Some (take 100 errorCode),
                      na_nextRetryAt := (if deadLetter then None else Some retryAt) \<rparr>) db;
              db2 = set_notification (wk_notificationId work)
                      (\<lambda>x. x\<lparr> nt_status := (if deadLetter then NT_DEAD_LETTER else NT_FAILED) \<rparr>) db1
          in Inr (if deadLetter then (RETRY_DEAD_LETTER, set_event (ob_id v) (dead_event e (take 100 errorCode)) db2)
                  else (RETRY_SCHEDULED, set_event (ob_id v) (retry_event retryAt (take 100 errorCode)) db2))))"

section \<open>Preparing the message\<close>

record message_content =
  mc_subject :: "string option"
  mc_body :: string
  mc_html :: "string option"

record prepared_message =
  pm_notificationId :: string
  pm_channel :: notification_channel
  pm_event :: notification_event
  pm_locale :: string
  pm_recipient :: string
  pm_content :: message_content
  pm_providerIdempotencyKey :: string

text \<open>\<open>/^\+216[24579]\d{7}$/\<close>.\<close>

definition tunisian_phone :: "string \<Rightarrow> bool" where
  "tunisian_phone s =
     (take 4 s = ''+216'' \<and> length s = 12 \<and> s ! 4 \<in> set ''24579'' \<and> list_all (\<lambda>c. c \<in> set ''0123456789'') (drop 5 s))"

text \<open>What libraries decide here: zod's e-mail format, the cipher of \<open>notification-crypto.ts\<close> and the text.\<close>

record message_env =
  is_email :: "string \<Rightarrow> bool"
  decryptNotificationField :: "string \<Rightarrow> string worker_result"
  renderNotificationContent :: "notification_work \<Rightarrow> message_content worker_result"

definition validateNotificationRecipient ::
  "message_env \<Rightarrow> notification_channel \<Rightarrow> string \<Rightarrow> unit worker_result" where
  "validateNotificationRecipient me channel recipient =
     (case channel of
        CONSOLE \<Rightarrow> Inr ()
      | EMAIL \<Rightarrow> require (is_email me recipient \<and> length recipient \<le> 320) (DomainError ''NOTIFICATION_RECIPIENT_INVALID'') (Inr ())
      | SMS \<Rightarrow> require (tunisian_phone recipient) (DomainError ''NOTIFICATION_RECIPIENT_INVALID'') (Inr ()))"

definition prepareNotification :: "env \<Rightarrow> message_env \<Rightarrow> notification_work \<Rightarrow> prepared_message worker_result" where
  "prepareNotification e me work =
     bindE (if wk_channel work = CONSOLE then Inr [] else decryptNotificationField me (wk_encryptedRecipient work)) (\<lambda>recipient.
     bindE (validateNotificationRecipient me (wk_channel work) recipient) (\<lambda>_.
     bindE (renderNotificationContent me work) (\<lambda>content.
     Inr \<lparr> pm_notificationId = wk_notificationId work, pm_channel = wk_channel work, pm_event = wk_event work,
           pm_locale = wk_locale work, pm_recipient = recipient, pm_content = content,
           pm_providerIdempotencyKey = sha256 e (''notification:v1:'' @ wk_idempotencyKey work) \<rparr>)))"

section \<open>One job\<close>

text \<open>The job is picked up at \<open>e\<close>; the provider or the storage has answered at \<open>e'\<close>.\<close>

text \<open>The adapter: the provider of a channel, and sending, which answers or fails.\<close>

record notification_adapter =
  providerFor :: "notification_channel \<Rightarrow> string"
  send_message :: "prepared_message \<Rightarrow> delivery_result worker_result"

definition finish_attempt ::
  "env \<Rightarrow> worker_env \<Rightarrow> notification_work \<Rightarrow> delivery_result worker_result \<Rightarrow> 'a worker_db_scheme \<Rightarrow> 'a worker_db_scheme" where
  "finish_attempt e w work sent db =
     (case bindE sent (\<lambda>delivery. finalizeNotificationSuccess e work delivery db) of
        Inr db1 \<Rightarrow> db1
      | Inl x \<Rightarrow>
          (case finalizeNotificationFailure e w work (safeErrorCode x) db of
             Inr (_, db1) \<Rightarrow> db1
           | Inl y \<Rightarrow> snd (scheduleRetry e w (wk_outboxEventId work) (safeErrorCode y) db)))"

definition processNotification ::
  "env \<Rightarrow> env \<Rightarrow> worker_env \<Rightarrow> message_env \<Rightarrow> notification_adapter \<Rightarrow> outbox_job \<Rightarrow> 'a worker_db_scheme \<Rightarrow> 'a worker_db_scheme" where
  "processNotification e e' w me adapter job db =
     (case claimNotification e w (providerFor adapter) job db of
        Inl x \<Rightarrow> snd (scheduleRetry e w (job_outboxEventId job) (safeErrorCode x) db)
      | Inr (SEND work, db1) \<Rightarrow> finish_attempt e' w work (bindE (prepareNotification e me work) (send_message adapter)) db1
      | Inr (_, db1) \<Rightarrow> db1)"

definition process_job ::
  "env \<Rightarrow> env \<Rightarrow> worker_env \<Rightarrow> message_env \<Rightarrow> notification_adapter \<Rightarrow> (string \<Rightarrow> string \<Rightarrow> worker_error option)
     \<Rightarrow> outbox_job \<Rightarrow> 'a worker_db_scheme \<Rightarrow> 'a worker_db_scheme" where
  "process_job e e' w me adapter delete_object job db =
     (if job_eventType job = NOTIFICATION_DISPATCH then processNotification e e' w me adapter job db
      else if job_eventType job = MEDIA_OBJECT_DELETE then processMediaDeletion e e' w delete_object job db
      else process_other e w job db)"

end
