(* ===== verification/MediaQueue.thy ===== *)
theory MediaQueue
  imports OutboxWorker
begin

text \<open>
  The one thing the administration of product images (\<open>product-media.service.ts\<close>) leaves to the worker: the
  deletion of the objects of an image that was replaced or removed.  Every object the image may have is in
  the payload, its original and the renditions of the current and of the older naming.
\<close>

definition PRODUCT_IMAGE_RENDITION_PROFILE_VERSION :: int where
  "PRODUCT_IMAGE_RENDITION_PROFILE_VERSION = 1"

definition PRODUCT_IMAGE_RENDITION_NAMES :: "string list" where
  "PRODUCT_IMAGE_RENDITION_NAMES = [''thumbnail'', ''card'', ''detail'', ''high-resolution'']"

definition PRODUCT_IMAGE_RENDITION_FORMATS :: "string list" where
  "PRODUCT_IMAGE_RENDITION_FORMATS = [''webp'', ''jpeg'']"

definition rendition_extension :: "string \<Rightarrow> string" where
  "rendition_extension format = (if format = ''jpeg'' then ''jpg'' else ''webp'')"

definition productImageRenditionObjectKey :: "string \<Rightarrow> string \<Rightarrow> string \<Rightarrow> int \<Rightarrow> string" where
  "productImageRenditionObjectKey objectKey rendition format profileVersion =
     objectKey @ ''.renditions/v'' @ int_text profileVersion @ ''/'' @ rendition @ ''.'' @ rendition_extension format"

definition legacyProductImageRenditionObjectKey :: "string \<Rightarrow> string \<Rightarrow> string \<Rightarrow> string" where
  "legacyProductImageRenditionObjectKey objectKey rendition format =
     objectKey @ ''.renditions/'' @ rendition @ ''.'' @ rendition_extension format"

definition productImageObjectKeys :: "string \<Rightarrow> string list" where
  "productImageObjectKeys objectKey =
     [objectKey]
     @ concat (map (\<lambda>rendition. map (\<lambda>format. productImageRenditionObjectKey objectKey rendition format
         PRODUCT_IMAGE_RENDITION_PROFILE_VERSION) PRODUCT_IMAGE_RENDITION_FORMATS) PRODUCT_IMAGE_RENDITION_NAMES)
     @ concat (map (\<lambda>rendition. map (\<lambda>format. legacyProductImageRenditionObjectKey objectKey rendition format)
         PRODUCT_IMAGE_RENDITION_FORMATS) PRODUCT_IMAGE_RENDITION_NAMES)"

definition deletion_event :: "env \<Rightarrow> string \<Rightarrow> string \<Rightarrow> string \<Rightarrow> outbox_event" where
  "deletion_event e imageId objectKey bucket =
     \<lparr> ob_id = [], ob_deterministicKey = ''media-object-delete:v2:'' @ imageId, ob_aggregateType = ''ProductImage'',
       ob_aggregateId = imageId, ob_eventType = ''media.object.delete.requested'', ob_eventVersion = 2,
       ob_payload = JObj [(''objectKeys'', JArr (map JStr (productImageObjectKeys objectKey))), (''bucket'', JStr bucket)],
       ob_status = OB_PENDING, ob_availableAt = now e, ob_leaseOwner = None, ob_leaseExpiresAt = None,
       ob_attemptCount = 0, ob_maxAttempts = 8, ob_lastAttemptAt = None, ob_publishedAt = None,
       ob_publishedJobId = None, ob_processedAt = None, ob_deadLetteredAt = None, ob_safeErrorCode = None \<rparr>"

definition enqueueObjectDeletion :: "env \<Rightarrow> string \<Rightarrow> string \<Rightarrow> string \<Rightarrow> 'a shop_db_scheme \<Rightarrow> 'a shop_db_scheme result" where
  "enqueueObjectDeletion e imageId objectKey bucket db = upsert_event e (deletion_event e imageId objectKey bucket) db"

section \<open>The worker accepts what was queued\<close>

lemma media_key_append:
  "mediaObjectKeySchema key \<Longrightarrow> length key + length s \<le> 1024 \<Longrightarrow> list_all (\<lambda>c. alphanumeric c \<or> c \<in> set ''/_.-'') s
     \<Longrightarrow> mediaObjectKeySchema (key @ s)"
  by (cases key) (auto simp: mediaObjectKeySchema_def)

lemma media_keys_append:
  assumes "mediaObjectKeySchema key" and "length key \<le> 980"
    and "list_all (\<lambda>s. length s \<le> 40 \<and> list_all (\<lambda>c. alphanumeric c \<or> c \<in> set ''/_.-'') s) (map f ss)"
  shows "list_all mediaObjectKeySchema (key # map (\<lambda>s. key @ f s) ss)"
  using assms(3) by (induction ss) (use assms(1,2) in \<open>auto intro!: media_key_append \<close>)

lemma image_keys:
  "productImageObjectKeys key = key # map (\<lambda>s. key @ ''.renditions/'' @ s)
     [''v1/thumbnail.webp'', ''v1/thumbnail.jpg'', ''v1/card.webp'', ''v1/card.jpg'', ''v1/detail.webp'', ''v1/detail.jpg'',
      ''v1/high-resolution.webp'', ''v1/high-resolution.jpg'',
      ''thumbnail.webp'', ''thumbnail.jpg'', ''card.webp'', ''card.jpg'', ''detail.webp'', ''detail.jpg'',
      ''high-resolution.webp'', ''high-resolution.jpg'']"
proof -
  have "int_text 1 = ''1''" by code_simp
  then show ?thesis
    by (simp add: productImageObjectKeys_def PRODUCT_IMAGE_RENDITION_NAMES_def PRODUCT_IMAGE_RENDITION_FORMATS_def
        PRODUCT_IMAGE_RENDITION_PROFILE_VERSION_def productImageRenditionObjectKey_def
        legacyProductImageRenditionObjectKey_def rendition_extension_def)
qed

lemma image_keys_accepted:
  assumes "mediaObjectKeySchema key" and "length key \<le> 980"
  shows "list_all mediaObjectKeySchema (productImageObjectKeys key)"
  unfolding image_keys by (rule media_keys_append [OF assms]) code_simp

lemma string_items: "mapE (\<lambda>k. some_or (string_item k) x) (map JStr ks) = Inr ks"
  by (induction ks) simp_all

text \<open>A queued deletion is a job the worker takes: its payload is accepted and its key fits its image.\<close>

lemma queued_deletion_accepted:
  assumes "mediaBucketSchema bucket" and "mediaObjectKeySchema key" and "length key \<le> 980"
  shows "parseEventPayload w (ob_eventType (deletion_event e i key bucket)) (ob_eventVersion (deletion_event e i key bucket))
      (ob_payload (deletion_event e i key bucket)) = Inr (MediaDeleteV2 bucket (productImageObjectKeys key))"
    and "ob_deterministicKey (deletion_event e i key bucket)
      = ''media-object-delete:v'' @ int_text (ob_eventVersion (deletion_event e i key bucket)) @ '':'' @ i"
proof -
  have n: "length (productImageObjectKeys key) = 17" by (simp add: image_keys)
  show "parseEventPayload w (ob_eventType (deletion_event e i key bucket)) (ob_eventVersion (deletion_event e i key bucket))
      (ob_payload (deletion_event e i key bucket)) = Inr (MediaDeleteV2 bucket (productImageObjectKeys key))"
    using assms image_keys_accepted [OF assms(2,3)]
    by (auto simp: parseEventPayload_def deletion_event_def RESERVATION_EXPIRY_def NOTIFICATION_DISPATCH_def
        MEDIA_OBJECT_DELETE_def parse_media_v2_def string_items n)
  have "int_text 2 = ''2''" by code_simp
  then show "ob_deterministicKey (deletion_event e i key bucket)
      = ''media-object-delete:v'' @ int_text (ob_eventVersion (deletion_event e i key bucket)) @ '':'' @ i"
    by (simp add: deletion_event_def)
qed

end
