(* ===== verification/OutboxRuns.thy ===== *)
theory OutboxRuns
  imports NotificationWorker MediaQueue
begin

text \<open>
  What the worker does to the outbox, one database transaction at a time and in any interleaving with
  other workers and with the requests of the API that write notifications: an event keeps its identity,
  a processed event stays processed, and every claim of an event is counted against its maximum.
\<close>

section \<open>How one event changes\<close>

text \<open>
  \<open>outbox_change cs db db'\<close>: a transaction that claims the events \<open>cs\<close>.
\<close>

definition event_ids :: "'a shop_db_scheme \<Rightarrow> bool" where
  "event_ids db = distinct (map ob_id (outbox db))"

definition event_after :: "string list \<Rightarrow> outbox_event \<Rightarrow> outbox_event \<Rightarrow> bool" where
  "event_after cs v v' =
     (ob_id v' = ob_id v \<and> ob_deterministicKey v' = ob_deterministicKey v \<and> ob_maxAttempts v' = ob_maxAttempts v
      \<and> ob_attemptCount v' = ob_attemptCount v + int (count_list cs (ob_id v))
      \<and> (ob_status v = OB_PROCESSED \<longrightarrow> ob_status v' = OB_PROCESSED \<and> ob_id v \<notin> set cs)
      \<and> (ob_id v \<in> set cs \<longrightarrow> ob_attemptCount v < ob_maxAttempts v))"

definition outbox_change :: "string list \<Rightarrow> 'a shop_db_scheme \<Rightarrow> 'a shop_db_scheme \<Rightarrow> bool" where
  "outbox_change cs db db' =
     (distinct cs \<and> (event_ids db \<longrightarrow> event_ids db')
      \<and> (\<forall>eid. case find_event db eid of
            Some v \<Rightarrow> (\<exists>v'. find_event db' eid = Some v' \<and> event_after cs v v')
          | None \<Rightarrow> eid \<notin> set cs \<and> (\<forall>v'. find_event db' eid = Some v' \<longrightarrow> ob_attemptCount v' = 0)))"

lemma find_event_id: "find_event db eid = Some v \<Longrightarrow> ob_id v = eid \<and> v \<in> set (outbox db)"
  using find_SomeD [of _ "outbox db" v] by (auto simp: find_event_def)

lemma outbox_change_same:
  assumes "outbox db' = outbox db"
  shows "outbox_change [] db db'"
  using assms by (auto simp: outbox_change_def event_after_def find_event_def event_ids_def split: option.splits)

lemma outbox_change_cong:
  assumes "outbox_change cs db db'" and "outbox db2 = outbox db'"
  shows "outbox_change cs db db2"
proof -
  have same: "find_event db2 = find_event db'" "event_ids db2 = event_ids db'"
    by (simp_all add: fun_eq_iff find_event_def event_ids_def assms(2))
  from assms(1) show ?thesis unfolding outbox_change_def same .
qed

lemma outbox_change_from:
  assumes "outbox_change cs db db'" and "outbox db0 = outbox db"
  shows "outbox_change cs db0 db'"
proof -
  have same: "find_event db0 = find_event db" "event_ids db0 = event_ids db"
    by (simp_all add: fun_eq_iff find_event_def event_ids_def assms(2))
  from assms(1) show ?thesis unfolding outbox_change_def same .
qed

lemma count_list_distinct: "distinct xs \<Longrightarrow> count_list xs x = (if x \<in> set xs then 1 else 0)"
  by (induction xs) auto

lemma find_update_event:
  assumes "\<And>v. ob_id (f v) = ob_id v"
  shows "List.find (\<lambda>v. ob_id v = eid) (update_where P f os)
     = map_option (\<lambda>v. if P v then f v else v) (List.find (\<lambda>v. ob_id v = eid) os)"
  by (rule find_update_where) (simp add: assms)

lemma update_event_change:
  assumes db': "outbox db' = update_where P f (outbox db)"
    and f: "\<And>v. ob_id (f v) = ob_id v"
    and step: "\<And>v. P v \<Longrightarrow> v \<in> set (outbox db) \<Longrightarrow> event_after [] v (f v)"
  shows "outbox_change [] db db'"
  unfolding outbox_change_def
proof (intro conjI allI impI)
  show "distinct []" by simp
  show "event_ids db'" if "event_ids db"
    using that unfolding event_ids_def db' by (subst map_update_where) (simp_all add: f)
  fix eid
  have e: "find_event db' eid = map_option (\<lambda>v. if P v then f v else v) (find_event db eid)"
    unfolding find_event_def db' by (rule find_update_event [OF f])
  show "case find_event db eid of Some v \<Rightarrow> \<exists>v'. find_event db' eid = Some v' \<and> event_after [] v v'
      | None \<Rightarrow> eid \<notin> set [] \<and> (\<forall>v'. find_event db' eid = Some v' \<longrightarrow> ob_attemptCount v' = 0)"
    using e step find_event_id [of db eid]
    by (cases "find_event db eid") (auto simp: event_after_def split: if_splits)
qed

text \<open>The update of the one event a handler has locked.\<close>

lemma set_event_change:
  assumes v: "find_event db eid = Some v" and ids: "event_ids db"
    and f: "\<And>x. ob_id (f x) = ob_id x" and step: "event_after [] v (f v)"
  shows "outbox_change [] db (set_event eid f db)"
proof (rule update_event_change [OF _ f])
  show "outbox (set_event eid f db) = update_where (\<lambda>x. ob_id x = eid) f (outbox db)" by (simp add: set_event_def)
  show "event_after [] x (f x)" if "ob_id x = eid" "x \<in> set (outbox db)" for x
    using key_unique [OF ids [unfolded event_ids_def] that(2), of v] find_event_id [OF v] that(1) step by simp
qed

lemma event_after_trans: "event_after [] a b \<Longrightarrow> event_after [] b c \<Longrightarrow> event_after [] a c"
  by (simp add: event_after_def)

lemma find_set_event:
  assumes "\<And>x. ob_id (f x) = ob_id x"
  shows "find_event (set_event eid f db) x = (if x = eid then map_option f (find_event db x) else find_event db x)"
proof -
  have "find_event (set_event eid f db) x = map_option (\<lambda>v. if ob_id v = eid then f v else v) (find_event db x)"
    unfolding find_event_def set_event_def by (simp add: find_update_event [OF assms])
  then show ?thesis using find_event_id [of db x] by (cases "find_event db x") auto
qed

lemma event_updates [simp]:
  "ob_id (processed_event e c v) = ob_id v" "ob_id (processing_event e w v) = ob_id v"
  "ob_id (dead_event e d v) = ob_id v" "ob_id (retry_event t d v) = ob_id v"
  "ob_id (exhaust_event e v) = ob_id v" "ob_id (lease_event e w v) = ob_id v"
  "ob_status (processed_event e c v) = OB_PROCESSED" "ob_status (processing_event e w v) = OB_PROCESSING"
  "ob_status (dead_event e d v) = OB_DEAD_LETTER" "ob_status (exhaust_event e v) = OB_DEAD_LETTER"
  "ob_status (lease_event e w v) = OB_LEASED" "ob_status (retry_event t d v) = OB_RETRY"
  by (simp_all add: processed_event_def processing_event_def dead_event_def retry_event_def exhaust_event_def
      lease_event_def)

lemma event_after_updates:
  "event_after [] v (processed_event e c v)"
  "ob_status v \<noteq> OB_PROCESSED \<Longrightarrow> event_after [] v (processing_event e w v)"
  "ob_status v \<noteq> OB_PROCESSED \<Longrightarrow> event_after [] v (dead_event e d v)"
  "ob_status v \<noteq> OB_PROCESSED \<Longrightarrow> event_after [] v (retry_event t d v)"
  "ob_status v \<noteq> OB_PROCESSED \<Longrightarrow> event_after [] v (exhaust_event e v)"
  by (simp_all add: event_after_def processed_event_def processing_event_def dead_event_def retry_event_def
      exhaust_event_def)

section \<open>Claiming\<close>

text \<open>
  The rows a claim leases, in terms of the database before it: each is the row of an event that was
  due, not finished and below its maximum.
\<close>

lemma claimAvailable_parts:
  assumes run: "claimAvailable e w db = (evs, db')" and d: "event_ids db"
  obtains ids where "db' = db\<lparr> outbox := update_where (\<lambda>v. ob_id v \<in> set ids) (lease_event e w)
        (update_where exhausted (exhaust_event e) (outbox db)) \<rparr>"
    and "set (map ob_id evs) = set ids" and "distinct (map ob_id evs)"
    and "\<And>eid. eid \<in> set ids \<Longrightarrow> \<exists>v. find_event db eid = Some v \<and> claimable e v \<and> \<not> exhausted v"
    and "length ids \<le> OUTBOX_BATCH_SIZE w"
    and "\<And>v. v \<in> set evs \<Longrightarrow> find_event db' (ob_id v) = Some v \<and> ob_status v = OB_LEASED
      \<and> ob_leaseExpiresAt v = Some (now e + OUTBOX_LEASE_MS w)"
proof -
  define os1 where "os1 = update_where exhausted (exhaust_event e) (outbox db)"
  define rows where "rows = take (OUTBOX_BATCH_SIZE w) (sort_key event_order (filter (claimable e) os1))"
  define ids where "ids = map ob_id rows"
  define os2 where "os2 = update_where (\<lambda>v. ob_id v \<in> set ids) (lease_event e w) os1"
  have empty: "os2 = os1" if "ids = []" unfolding os2_def that by (rule update_where_none) simp
  have db': "db' = db\<lparr> outbox := os2 \<rparr>"
    and evs: "evs = sort_key event_order (filter (\<lambda>v. ob_id v \<in> set ids \<and> ob_status v = OB_LEASED
                 \<and> ob_leaseOwner v = Some (WORKER_INSTANCE_ID w)) os2)"
    using run empty unfolding claimAvailable_def Let_def
    by (simp_all add: os1_def [symmetric] rows_def [symmetric] ids_def [symmetric] os2_def [symmetric] split: if_splits)
  have m1: "map ob_id os1 = map ob_id (outbox db)" unfolding os1_def by (rule map_update_where) simp
  have m2: "map ob_id os2 = map ob_id os1" unfolding os2_def by (rule map_update_where) simp
  have dist: "distinct (map ob_id os1)" "distinct (map ob_id os2)" using d m1 m2 by (simp_all add: event_ids_def)
  have "set rows \<subseteq> set (sort_key event_order (filter (claimable e) os1))" unfolding rows_def by (rule set_take_subset)
  then have rows: "set rows \<subseteq> {v \<in> set os1. claimable e v}" by auto
  have leased: "ob_status v = OB_LEASED \<and> ob_leaseOwner v = Some (WORKER_INSTANCE_ID w)
      \<and> ob_leaseExpiresAt v = Some (now e + OUTBOX_LEASE_MS w)" if v: "v \<in> set os2" "ob_id v \<in> set ids" for v
  proof -
    from v(1) obtain x where x: "v = (if ob_id x \<in> set ids then lease_event e w x else x)"
      by (auto simp: os2_def set_update_where)
    with v(2) have "v = lease_event e w x" by (auto split: if_splits)
    then show ?thesis by (simp add: lease_event_def)
  qed
  have "{v \<in> set os2. ob_id v \<in> set ids} = set evs" using leased by (auto simp: evs)
  moreover have "set ids \<subseteq> ob_id ` set os2"
    using rows m2 by (metis (no_types, lifting) ids_def image_mono list.set_map mem_Collect_eq subset_iff)
  ultimately have ids: "set (map ob_id evs) = set ids" by (auto 4 3 simp: subset_iff)
  have dev: "distinct (map ob_id evs)" unfolding evs distinct_map_sort_key using dist(2) by (simp add: distinct_map_filter)
  have old: "\<exists>v. find_event db eid = Some v \<and> claimable e v \<and> \<not> exhausted v" if i: "eid \<in> set ids" for eid
  proof -
    from i rows obtain r where r: "r \<in> set os1" "claimable e r" "ob_id r = eid" by (auto simp: ids_def)
    then obtain v where v: "v \<in> set (outbox db)" "r = (if exhausted v then exhaust_event e v else v)"
      by (auto simp: os1_def set_update_where)
    have "\<not> exhausted v" using r(2) v(2) by (auto simp: claimable_def)
    with v r have "v \<in> set (outbox db)" "ob_id v = eid" "claimable e v" "\<not> exhausted v" by simp_all
    with find_key [OF d [unfolded event_ids_def]] show ?thesis by (auto simp: find_event_def)
  qed
  have fin: "find_event db' (ob_id v) = Some v" if "v \<in> set evs" for v
    unfolding find_event_def db' using find_key [OF dist(2)] that by (simp add: evs)
  show thesis
  proof (rule that [OF _ ids dev old])
    show "db' = db\<lparr> outbox := update_where (\<lambda>v. ob_id v \<in> set ids) (lease_event e w)
        (update_where exhausted (exhaust_event e) (outbox db)) \<rparr>" by (simp add: db' os2_def os1_def)
    show "length ids \<le> OUTBOX_BATCH_SIZE w" by (simp add: ids_def rows_def)
    show "find_event db' (ob_id v) = Some v \<and> ob_status v = OB_LEASED
        \<and> ob_leaseExpiresAt v = Some (now e + OUTBOX_LEASE_MS w)" if "v \<in> set evs" for v
      using fin [OF that] leased that by (auto simp: evs)
  qed
qed

lemma claimed_event:
  assumes "db' = db\<lparr> outbox := update_where (\<lambda>v. ob_id v \<in> set ids) (lease_event e w)
        (update_where exhausted (exhaust_event e) (outbox db)) \<rparr>"
  shows "find_event db' eid = map_option (\<lambda>v. let u = (if exhausted v then exhaust_event e v else v)
      in if ob_id v \<in> set ids then lease_event e w u else u) (find_event db eid)"
proof -
  have "find_event db' eid = map_option (\<lambda>v. if ob_id v \<in> set ids then lease_event e w v else v)
      (map_option (\<lambda>v. if exhausted v then exhaust_event e v else v) (find_event db eid))"
    unfolding find_event_def assms by (simp add: find_update_event)
  then show ?thesis by (cases "find_event db eid") (simp_all add: Let_def)
qed

lemma claimAvailable_change:
  assumes run: "claimAvailable e w db = (evs, db')" and d: "event_ids db"
  shows "outbox_change (map ob_id evs) db db'"
proof (rule claimAvailable_parts [OF assms])
  fix ids
  assume db': "db' = db\<lparr> outbox := update_where (\<lambda>v. ob_id v \<in> set ids) (lease_event e w)
        (update_where exhausted (exhaust_event e) (outbox db)) \<rparr>"
    and ids: "set (map ob_id evs) = set ids" and dev: "distinct (map ob_id evs)"
    and old: "\<And>eid. eid \<in> set ids \<Longrightarrow> \<exists>v. find_event db eid = Some v \<and> claimable e v \<and> \<not> exhausted v"
  have m: "map ob_id (outbox db') = map ob_id (outbox db)" by (simp add: db' map_update_where)
  have cnt: "count_list (map ob_id evs) x = (if x \<in> set ids then 1 else 0)" for x
    unfolding ids [symmetric] by (rule count_list_distinct [OF dev])
  show "outbox_change (map ob_id evs) db db'"
    unfolding outbox_change_def
  proof (intro conjI allI impI)
    show "distinct (map ob_id evs)" by (rule dev)
    show "event_ids db'" using d m by (simp add: event_ids_def)
    fix eid
    show "case find_event db eid of Some v \<Rightarrow> \<exists>v'. find_event db' eid = Some v' \<and> event_after (map ob_id evs) v v'
      | None \<Rightarrow> eid \<notin> set (map ob_id evs) \<and> (\<forall>v'. find_event db' eid = Some v' \<longrightarrow> ob_attemptCount v' = 0)"
    proof (cases "find_event db eid")
      case None
      then show ?thesis using old ids claimed_event [OF db', of eid] by fastforce
    next
      case (Some v)
      have "event_after (map ob_id evs) v (let u = (if exhausted v then exhaust_event e v else v)
          in if ob_id v \<in> set ids then lease_event e w u else u)"
        using Some old [of eid] find_event_id [OF Some] ids
        by (auto simp: event_after_def cnt Let_def lease_event_def exhaust_event_def claimable_def exhausted_def
            simp del: set_map)
      with Some claimed_event [OF db', of eid] show ?thesis by simp
    qed
  qed
qed

section \<open>The other transactions of the worker\<close>

lemma expire_reservation_more:
  "expire_reservation e eid cutoff its r (n, db) = Inr (n', db') \<Longrightarrow> stock_db.more db' = stock_db.more db"
  by (auto simp: expire_reservation_def Let_def split: option.splits if_splits)

lemma expire_due_more:
  assumes "expire_due e eid cutoff batch db = Inr (n, db')"
  shows "stock_db.more db' = stock_db.more db"
proof (cases "n = 0 \<and> db' = db")
  case False
  with assms obtain its rs where "foldE (expire_reservation e eid cutoff its) rs (0, db) = Inr (n, db')"
    by (auto simp: expire_due_def Let_def split: if_splits)
  then have "stock_db.more (snd (n, db')) = stock_db.more db"
    by (rule foldE_inv [where P = "\<lambda>p. stock_db.more (snd p) = stock_db.more db"])
      (auto dest: expire_reservation_more)
  then show ?thesis by simp
qed simp

lemma expireReservations_Inr:
  "expireReservations e w eid t batch db = Inr r \<Longrightarrow> \<exists>cutoff. cutoff \<le> now e + 5000 \<and> expire_due e eid cutoff batch db = Inr r"
  by (auto simp: expireReservations_def not_less split: option.splits)

lemma expireReservations_more:
  "expireReservations e w eid t batch db = Inr (n, db') \<Longrightarrow> stock_db.more db' = stock_db.more db"
  by (auto dest!: expireReservations_Inr expire_due_more)

lemma parsed_expiry:
  assumes "job_event_payload w job v = Inr p" and "ob_eventType v = RESERVATION_EXPIRY"
  shows "\<exists>t batch. p = ReservationExpiry t batch"
proof -
  from assms obtain payload where "parseEventPayload w RESERVATION_EXPIRY (ob_eventVersion v) payload = Inr p"
    by (auto simp: job_event_payload_def)
  then have "parse_reservation_expiry w payload = Inr p" by (simp add: parseEventPayload_def)
  then show ?thesis by (auto simp: parse_reservation_expiry_def split: option.splits json.splits)
qed

lemma handle_payload_outbox:
  assumes "handle_payload e w eid p db = Inr (n, db')"
  shows "shop_db.outbox db' = outbox db"
proof -
  have "stock_db.more db' = stock_db.more db"
    using assms by (auto simp: handle_payload_def split: event_payload.splits dest: expireReservations_more)
  then show ?thesis by (cases db; cases db') simp
qed

lemma handled_before_None: "handled_before v = None \<Longrightarrow> \<not> finished (ob_status v)"
  by (auto simp: handled_before_def finished_def split: if_splits)

lemma unfinished: "\<not> finished (ob_status v) \<Longrightarrow> ob_status v \<noteq> OB_PROCESSED"
  by (auto simp: finished_def)

lemma processTransaction_Inr:
  assumes "processTransaction e w job db = Inr ((out, n), db')"
  obtains (before) v where "find_event db (job_outboxEventId job) = Some v" and "handled_before v = Some out"
      and "n = 0" and "db' = db"
    | (now) v p db1 where "find_event db (job_outboxEventId job) = Some v" and "handled_before v = None"
      and "job_event_payload w job v = Inr p"
      and "handle_payload e w (ob_id v) p (set_event (ob_id v) (processing_event e w) db) = Inr (n, db1)"
      and "out = PROCESSED" and "db' = set_event (ob_id v) (processed_event e None) db1"
proof -
  from assms obtain v where v: "find_event db (job_outboxEventId job) = Some v"
    by (auto simp: processTransaction_def simp del: split_paired_Ex)
  show thesis
  proof (cases "handled_before v")
    case None
    with assms v that(2) [OF v None] show thesis by (force simp: processTransaction_def)
  next
    case (Some x)
    with assms v that(1) [OF v] show thesis by (simp add: processTransaction_def)
  qed
qed

lemma processTransaction_change:
  assumes run: "processTransaction e w job db = Inr (r, db')" and ids: "event_ids db"
  shows "outbox_change [] db db'"
proof -
  obtain out n where r: "r = (out, n)" by (cases r)
  from run [unfolded r] show ?thesis
  proof (cases rule: processTransaction_Inr)
    case before
    then show ?thesis by (simp add: outbox_change_same)
  next
    case (now v p db1)
    let ?d = "set_event (ob_id v) (processed_event e None) (set_event (ob_id v) (processing_event e w) db)"
    have id: "ob_id v = job_outboxEventId job" using find_event_id [OF now(1)] by simp
    have o': "outbox db' = outbox ?d"
      using handle_payload_outbox [OF now(4)] now(6) by (simp add: set_event_def)
    have "outbox ?d = update_where (\<lambda>x. ob_id x = ob_id v) (\<lambda>x. processed_event e None (processing_event e w x)) (outbox db)"
      by (simp add: set_event_def update_where_def)
    then have "outbox_change [] db ?d"
    proof (rule update_event_change)
      fix x assume "ob_id x = ob_id v" "x \<in> set (outbox db)"
      then have "x = v" using key_unique [OF ids [unfolded event_ids_def]] find_event_id [OF now(1)] by blast
      then show "event_after [] x (processed_event e None (processing_event e w x))"
        using unfinished [OF handled_before_None [OF now(2)]]
        by (intro event_after_trans [OF event_after_updates(2) event_after_updates(1)]) simp
    qed simp
    then show ?thesis by (rule outbox_change_cong [OF _ o'])
  qed
qed

lemma scheduleRetry_change:
  assumes run: "scheduleRetry e w eid code db = (r, db')" and ids: "event_ids db"
  shows "outbox_change [] db db'"
proof (cases "find_event db eid")
  case None
  with run show ?thesis by (simp add: scheduleRetry_def outbox_change_same)
next
  case (Some v)
  have id: "ob_id v = eid" using find_event_id [OF Some] by simp
  show ?thesis
  proof (cases "finished (ob_status v)")
    case True
    with run Some show ?thesis by (simp add: scheduleRetry_def outbox_change_same)
  next
    case False
    note u = unfinished [OF False]
    from run Some False obtain t where "db' = set_event (ob_id v) (dead_event e (take 100 code)) db
        \<or> db' = set_event (ob_id v) (retry_event t (take 100 code)) db"
      by (auto simp: scheduleRetry_def Let_def split: if_splits)
    then show ?thesis unfolding id
      by (elim disjE) (auto intro!: set_event_change [OF Some ids] event_after_updates u)
  qed
qed

lemma markPublished_change:
  assumes "markPublished e w eid jobId db = (b, db')"
  shows "outbox_change [] db db'"
  by (rule update_event_change [where P = "\<lambda>v. ob_id v = eid \<and> ob_status v = OB_LEASED \<and> ob_leaseOwner v = Some (WORKER_INSTANCE_ID w)"
        and f = "\<lambda>v. v\<lparr> ob_status := OB_PUBLISHED, ob_publishedAt := Some (now e), ob_publishedJobId := Some jobId,
                        ob_leaseExpiresAt := Some (now e + OUTBOX_PUBLISHED_LEASE_MS w) \<rparr>"])
    (use assms in \<open>auto simp: markPublished_def event_after_def Let_def\<close>)

lemma claimMediaDeletion_change:
  assumes run: "claimMediaDeletion e w job db = Inr (c, db')" and ids: "event_ids db"
  shows "outbox_change [] db db'"
proof -
  from run obtain v where v: "find_event db (job_outboxEventId job) = Some v"
    by (auto simp: claimMediaDeletion_def)
  have id: "ob_id v = job_outboxEventId job" using find_event_id [OF v] by simp
  show ?thesis
  proof (cases "handled_before v")
    case None
    note u = unfinished [OF handled_before_None [OF None]]
    from run v None have "db' = set_event (ob_id v) (processing_event e w) db"
      by (auto simp: claimMediaDeletion_def)
    then show ?thesis unfolding id by (auto intro!: set_event_change [OF v ids] event_after_updates u)
  next
    case (Some out)
    with run v show ?thesis by (simp add: claimMediaDeletion_def outbox_change_same)
  qed
qed

lemma completeMediaDeletion_change:
  assumes run: "completeMediaDeletion e job db = Inr db'" and ids: "event_ids db"
  shows "outbox_change [] db db'"
proof -
  from run obtain v where v: "find_event db (job_outboxEventId job) = Some v"
    by (auto simp: completeMediaDeletion_def)
  from run v have "db' = db \<or> db' = set_event (job_outboxEventId job) (processed_event e None) db"
    by (auto simp: completeMediaDeletion_def split: if_splits)
  then show ?thesis
    by (elim disjE) (simp_all add: outbox_change_same set_event_change [OF v ids] event_after_updates)
qed

section \<open>Notifications\<close>

lemma claimNotification_cases:
  assumes run: "claimNotification e w pf job db = Inr (c, db')"
  obtains (before) out where "c = NOT_SENT out" and "db' = db"
    | (closed) v f where "find_event db (job_outboxEventId job) = Some v" and "handled_before v = None"
      and "f = processed_event e None \<or> f = dead_event e ''NOTIFICATION_DEAD_LETTER''"
      and "\<And>work. c \<noteq> SEND work" and "db' = set_event (ob_id v) f db"
    | (opened) v p m n where "find_event db (job_outboxEventId job) = Some v" and "handled_before v = None"
      and "job_event_payload w job v = Inr p" and "dispatched_notification db v p = Inr m"
      and "nt_status m \<notin> {NT_DELIVERED, NT_CANCELLED, NT_DEAD_LETTER}" and "n = next_attempt_number db (nt_id m)"
      and "(if take 100 (pf (nt_channel m)) = ''disabled''
            then skip_disabled e (ob_id v) (nt_id m) n (take 100 (pf (nt_channel m))) (fail_open_attempts (nt_id m) db)
            else start_attempt e w (ob_id v) m n (take 100 (pf (nt_channel m))) (fail_open_attempts (nt_id m) db))
          = Inr (c, db')"
proof -
  from run obtain v where v: "find_event db (job_outboxEventId job) = Some v"
    by (auto simp: claimNotification_def simp del: split_paired_Ex)
  show thesis
  proof (cases "handled_before v")
    case (Some out)
    with run v that(1) show thesis by (auto simp: claimNotification_def)
  next
    case None
    with run v obtain p m where p: "job_event_payload w job v = Inr p" "dispatched_notification db v p = Inr m"
      by (auto simp: claimNotification_def simp del: split_paired_Ex)
    consider (done') "nt_status m = NT_DELIVERED \<or> nt_status m = NT_CANCELLED" | (dead) "nt_status m = NT_DEAD_LETTER"
      | (open') "nt_status m \<notin> {NT_DELIVERED, NT_CANCELLED, NT_DEAD_LETTER}" by auto
    then show thesis
    proof cases
      case done'
      with run v None p show thesis
        by (intro that(2) [OF v None, of "processed_event e None"]) (auto simp: claimNotification_def)
    next
      case dead
      with run v None p show thesis
        by (intro that(2) [OF v None, of "dead_event e ''NOTIFICATION_DEAD_LETTER''"]) (auto simp: claimNotification_def)
    next
      case open'
      with run v None p show thesis
        by (intro that(3) [OF v None p open' refl]) (simp add: claimNotification_def Let_def)
    qed
  qed
qed

lemma skip_disabled_Inr:
  assumes "skip_disabled e eid nid n provider db = Inr (c, db')"
  shows "c = SKIPPED_DISABLED"
    and "outbox db' = outbox (set_event eid (processed_event e (Some ''NOTIFICATION_CHANNEL_DISABLED'')) db)"
    and "notifications db' = update_where (\<lambda>x. nt_id x = nid) (\<lambda>x. x\<lparr> nt_status := NT_CANCELLED \<rparr>) (notifications db)"
  using assms by (auto simp: skip_disabled_def set_event_def set_notification_def Let_def)

lemma start_attempt_Inr:
  assumes "start_attempt e w eid m n provider db = Inr (c, db')"
  shows "\<exists>work. c = SEND work \<and> wk_outboxEventId work = eid \<and> wk_notificationId work = nt_id m"
    and "outbox db' = outbox (set_event eid (processing_event e w) db)"
    and "notifications db' = update_where (\<lambda>x. nt_id x = nt_id m) (\<lambda>x. x\<lparr> nt_status := NT_PROCESSING \<rparr>) (notifications db)"
  using assms by (auto simp: start_attempt_def set_event_def set_notification_def Let_def)

lemma fail_open_same [simp]:
  "outbox (fail_open_attempts nid db) = outbox db" "notifications (fail_open_attempts nid db) = notifications db"
  "outbox (set_event eid f (fail_open_attempts nid db)) = outbox (set_event eid f db)"
  by (simp_all add: fail_open_attempts_def set_event_def)

lemma claimNotification_change:
  assumes run: "claimNotification e w pf job db = Inr (c, db')" and ids: "event_ids db"
  shows "outbox_change [] db db'"
  using run
proof (cases rule: claimNotification_cases)
  case before
  then show ?thesis by (simp add: outbox_change_same)
next
  case (closed v f)
  have id: "ob_id v = job_outboxEventId job" using find_event_id [OF closed(1)] by simp
  note u = unfinished [OF handled_before_None [OF closed(2)]]
  show ?thesis unfolding closed(5) id using closed(3)
    by (elim disjE) (simp_all add: set_event_change [OF closed(1) ids] event_after_updates u)
next
  case (opened v p m n)
  have id: "ob_id v = job_outboxEventId job" using find_event_id [OF opened(1)] by simp
  note u = unfinished [OF handled_before_None [OF opened(2)]]
  have "\<exists>f. outbox db' = outbox (set_event (ob_id v) f db) \<and> (\<forall>x. ob_id (f x) = ob_id x) \<and> event_after [] v (f v)"
  proof (cases "take 100 (pf (nt_channel m)) = ''disabled''")
    case True
    from skip_disabled_Inr(2) [OF opened(7) [unfolded if_P [OF True]]] show ?thesis
      by (intro exI [of _ "processed_event e (Some ''NOTIFICATION_CHANNEL_DISABLED'')"]) (simp add: event_after_updates)
  next
    case False
    from start_attempt_Inr(2) [OF opened(7) [unfolded if_not_P [OF False]]] show ?thesis
      by (intro exI [of _ "processing_event e w"]) (simp add: event_after_updates u)
  qed
  then show ?thesis unfolding id by (auto intro: outbox_change_cong [OF set_event_change [OF opened(1) ids]])
qed

lemma lockNotificationResultRows_Inr [simp]:
  "lockNotificationResultRows db work = Inr (v, n) \<longleftrightarrow>
     find_event db (wk_outboxEventId work) = Some v \<and> find_notification db (wk_notificationId work) = Some n"
  by (auto simp: lockNotificationResultRows_def)

lemma set_attempts_same [simp]:
  "outbox (set_attempts P f db) = outbox db" "notifications (set_attempts P f db) = notifications db"
  "outbox (set_event eid g (set_attempts P f db)) = outbox (set_event eid g db)"
  "notifications (set_event eid g db2) = notifications db2"
  "outbox (set_notification nid h db2) = outbox db2"
  "notifications (set_notification nid h db2) = update_where (\<lambda>n. nt_id n = nid) h (notifications db2)"
  "outbox (set_event eid g (set_notification nid h db2)) = outbox (set_event eid g db2)"
  by (simp_all add: set_attempts_def set_event_def set_notification_def)

lemma finalizeNotificationSuccess_Inr:
  assumes "finalizeNotificationSuccess e work delivery db = Inr db'"
  obtains v n where "find_event db (wk_outboxEventId work) = Some v"
    and "find_notification db (wk_notificationId work) = Some n"
    and "outbox db' = outbox (set_event (wk_outboxEventId work) (processed_event e None) db)"
    and "notifications db' = (if nt_status n = NT_CANCELLED \<or> nt_status n = NT_DELIVERED then notifications db
        else update_where (\<lambda>x. nt_id x = wk_notificationId work)
          (\<lambda>x. x\<lparr> nt_status := NT_DELIVERED, nt_deliveredAt := Some (now e) \<rparr>) (notifications db))"
proof -
  from assms obtain v n mid db2 where vn: "find_event db (wk_outboxEventId work) = Some v"
    "find_notification db (wk_notificationId work) = Some n" and
    rows: "(if nt_status n = NT_CANCELLED then
              Inr (set_attempts (own_attempt work) (\<lambda>a. a\<lparr> na_status := NT_DELIVERED, na_providerMessageId := Some mid,
                na_safeErrorCode := Some ''NOTIFICATION_CANCELLED_AFTER_PROVIDER_ACCEPTED'' \<rparr>) db)
            else if nt_status n = NT_DELIVERED then
              Inr (set_attempts (own_attempt work) (\<lambda>a. a\<lparr> na_status := NT_DELIVERED, na_providerMessageId := Some mid,
                na_safeErrorCode := Some ''NOTIFICATION_ALREADY_DELIVERED'' \<rparr>) db)
            else
              let db1 = set_notification (wk_notificationId work)
                          (\<lambda>x. x\<lparr> nt_status := NT_DELIVERED, nt_deliveredAt := Some (now e) \<rparr>) db;
                  hit = (\<lambda>a. own_attempt work a \<and> na_status a = NT_PROCESSING)
              in require (\<not> count_where hit (notification_attempts db1) \<noteq> 1)
                   (DomainError ''NOTIFICATION_ATTEMPT_STATE_CONFLICT'')
                   (Inr (set_attempts hit (\<lambda>a. a\<lparr> na_status := NT_DELIVERED, na_providerMessageId := Some mid,
                      na_safeErrorCode := None, na_nextRetryAt := None \<rparr>) db1))) = Inr db2" and
    db': "db' = set_event (wk_outboxEventId work) (processed_event e None) db2"
    unfolding finalizeNotificationSuccess_def by (clarsimp split del: if_split simp del: split_paired_Ex)
  have "outbox db2 = outbox db \<and> notifications db2 = (if nt_status n = NT_CANCELLED \<or> nt_status n = NT_DELIVERED then notifications db
        else update_where (\<lambda>x. nt_id x = wk_notificationId work)
          (\<lambda>x. x\<lparr> nt_status := NT_DELIVERED, nt_deliveredAt := Some (now e) \<rparr>) (notifications db))"
    using rows by (auto simp: Let_def split: if_splits)
  then show thesis by (intro that [OF vn]) (simp_all add: db' set_event_def)
qed

lemma finalizeNotificationFailure_cases:
  assumes "finalizeNotificationFailure e w work code db = Inr (out, db')"
  obtains (terminal) v n where "find_event db (wk_outboxEventId work) = Some v"
      and "find_notification db (wk_notificationId work) = Some n"
      and "finished (ob_status v) \<or> nt_status n = NT_DELIVERED \<or> nt_status n = NT_CANCELLED" and "out = RETRY_TERMINAL"
      and "notifications db' = notifications db"
      and "outbox db' = (if nt_status n = NT_DELIVERED \<and> ob_status v \<noteq> OB_PROCESSED
            then outbox (set_event (ob_id v) (processed_event e None) db) else outbox db)"
    | (failed) v n f s where "find_event db (wk_outboxEventId work) = Some v"
      and "find_notification db (wk_notificationId work) = Some n" and "\<not> finished (ob_status v)"
      and "nt_status n \<notin> {NT_DELIVERED, NT_CANCELLED}" and "out = (if ob_maxAttempts v \<le> ob_attemptCount v then RETRY_DEAD_LETTER else RETRY_SCHEDULED)"
      and "s = (if ob_maxAttempts v \<le> ob_attemptCount v then NT_DEAD_LETTER else NT_FAILED)"
      and "f = (if ob_maxAttempts v \<le> ob_attemptCount v then dead_event e (take 100 code)
                else retry_event (now e + exponentialRetryDelay (ob_attemptCount v) (OUTBOX_RETRY_BASE_MS w)
                  (OUTBOX_RETRY_MAX_MS w)) (take 100 code))"
      and "outbox db' = outbox (set_event (ob_id v) f db)"
      and "notifications db' = update_where (\<lambda>x. nt_id x = wk_notificationId work) (\<lambda>x. x\<lparr> nt_status := s \<rparr>) (notifications db)"
proof -
  from assms obtain v n where vn: "find_event db (wk_outboxEventId work) = Some v"
    "find_notification db (wk_notificationId work) = Some n"
    by (auto simp: finalizeNotificationFailure_def simp del: split_paired_Ex)
  show thesis
  proof (cases "finished (ob_status v) \<or> nt_status n = NT_DELIVERED \<or> nt_status n = NT_CANCELLED")
    case True
    show thesis
      by (rule that(1) [OF vn True])
        (use assms vn True in \<open>auto simp: finalizeNotificationFailure_def lockNotificationResultRows_def Let_def\<close>)
  next
    case False
    show thesis
      by (rule that(2) [OF vn, where f = "if ob_maxAttempts v \<le> ob_attemptCount v then dead_event e (take 100 code)
            else retry_event (now e + exponentialRetryDelay (ob_attemptCount v) (OUTBOX_RETRY_BASE_MS w)
                  (OUTBOX_RETRY_MAX_MS w)) (take 100 code)"
          and s = "if ob_maxAttempts v \<le> ob_attemptCount v then NT_DEAD_LETTER else NT_FAILED"])
        (use assms vn False in \<open>auto simp: finalizeNotificationFailure_def lockNotificationResultRows_def Let_def
            set_event_def set_notification_def set_attempts_def split: if_splits\<close>)
  qed
qed

lemma finalizeNotificationSuccess_change:
  assumes run: "finalizeNotificationSuccess e work delivery db = Inr db'" and ids: "event_ids db"
  shows "outbox_change [] db db'"
  using run
proof (rule finalizeNotificationSuccess_Inr)
  fix v assume v: "find_event db (wk_outboxEventId work) = Some v"
    and o': "outbox db' = outbox (set_event (wk_outboxEventId work) (processed_event e None) db)"
  show "outbox_change [] db db'"
    by (rule outbox_change_cong [OF set_event_change [OF v ids] o']) (simp_all add: event_after_updates)
qed

lemma finalizeNotificationFailure_change:
  assumes run: "finalizeNotificationFailure e w work code db = Inr (out, db')" and ids: "event_ids db"
  shows "outbox_change [] db db'"
  using run
proof (cases rule: finalizeNotificationFailure_cases)
  case (terminal v n)
  have id: "ob_id v = wk_outboxEventId work" using find_event_id [OF terminal(1)] by simp
  show ?thesis
  proof (cases "nt_status n = NT_DELIVERED \<and> ob_status v \<noteq> OB_PROCESSED")
    case True
    then have o': "outbox db' = outbox (set_event (wk_outboxEventId work) (processed_event e None) db)"
      using terminal(6) by (simp add: id)
    show ?thesis by (rule outbox_change_cong [OF set_event_change [OF terminal(1) ids] o']) (simp_all add: event_after_updates)
  next
    case False
    from terminal(6) [unfolded if_not_P [OF False]] show ?thesis by (rule outbox_change_same)
  qed
next
  case (failed v n f s)
  have id: "ob_id v = wk_outboxEventId work" using find_event_id [OF failed(1)] by simp
  show ?thesis
    by (rule outbox_change_cong [OF set_event_change [OF failed(1) ids] failed(8) [unfolded id]])
      (simp_all add: failed(7) event_after_updates unfinished [OF failed(3)])
qed

section \<open>Events the API and the sources add\<close>

definition outbox_appends :: "'a shop_db_scheme \<Rightarrow> 'a shop_db_scheme \<Rightarrow> bool" where
  "outbox_appends db db' =
     (\<exists>os. outbox db' = outbox db @ os \<and> list_all (\<lambda>v. ob_attemptCount v = 0) os \<and> (event_ids db \<longrightarrow> event_ids db'))"

lemma outbox_appends_same [simp]: "outbox db' = outbox db \<Longrightarrow> outbox_appends db db'"
  by (auto simp: outbox_appends_def event_ids_def)

lemma outbox_appends_trans:
  assumes "outbox_appends a b" and "outbox_appends b c"
  shows "outbox_appends a c"
proof -
  from assms obtain os os' where "outbox b = outbox a @ os" "list_all (\<lambda>v. ob_attemptCount v = 0) os"
    "outbox c = outbox b @ os'" "list_all (\<lambda>v. ob_attemptCount v = 0) os'" "event_ids a \<longrightarrow> event_ids c"
    by (auto simp: outbox_appends_def)
  then show ?thesis unfolding outbox_appends_def by (intro exI [of _ "os @ os'"]) simp
qed

lemma outbox_appends_change:
  assumes "outbox_appends db db'"
  shows "outbox_change [] db db'"
proof -
  from assms obtain os where os: "outbox db' = outbox db @ os" "list_all (\<lambda>v. ob_attemptCount v = 0) os"
    "event_ids db \<longrightarrow> event_ids db'" by (auto simp: outbox_appends_def)
  have "\<exists>v'. find_event db' eid = Some v' \<and> event_after [] v v'" if "find_event db eid = Some v" for eid v
    using that by (auto simp: find_event_def os(1) find_append event_after_def)
  moreover have "ob_attemptCount v' = 0" if "find_event db eid = None" "find_event db' eid = Some v'" for eid v'
  proof -
    have "List.find (\<lambda>v. ob_id v = eid) os = Some v'" using that by (simp add: find_event_def os(1) find_append)
    then show ?thesis using os(2) find_SomeD by (fastforce simp: list_all_iff)
  qed
  ultimately show ?thesis using os(3) by (auto simp: outbox_change_def split: option.splits)
qed

lemma create_outbox_event_appends:
  "create_outbox_event e row db = Inr (v, db') \<Longrightarrow> ob_attemptCount row = 0 \<Longrightarrow> outbox_appends db db'"
  unfolding outbox_appends_def
  by (intro exI [of _ "[v]"]) (auto simp: Let_def event_ids_def)

lemma create_notification_appends: "create_notification e row db = Inr (n, db') \<Longrightarrow> outbox_appends db db'"
  by (auto simp: Let_def intro!: outbox_appends_same)

lemma dispatch_event_new [simp]: "ob_attemptCount (dispatch_event n) = 0"
  by (simp add: dispatch_event_def)

lemma createNotificationWithOutbox_appends:
  assumes "createNotificationWithOutbox e d db = Inr (n, db')"
  shows "outbox_appends db db'"
proof -
  from assms obtain v db1 where "create_notification e d db = Inr (n, db1)"
    and "create_outbox_event e (dispatch_event n) db1 = Inr (v, db')"
    by (auto simp: createNotificationWithOutbox_def simp del: create_notification_Inr create_outbox_event_Inr)
  then show ?thesis
    by (blast intro: outbox_appends_trans create_notification_appends create_outbox_event_appends dispatch_event_new)
qed

lemma ensureNotificationWithOutbox_appends:
  assumes "ensureNotificationWithOutbox e d db = Inr (n, db')"
  shows "outbox_appends db db'"
proof -
  from assms obtain db1 where
    1: "(case List.find (\<lambda>n. nt_idempotencyKey n = nt_idempotencyKey d) (notifications db) of
              Some n \<Rightarrow> Inr (n, db) | None \<Rightarrow> create_notification e d db) = Inr (n, db1)" and
    2: "(case List.find (\<lambda>o'. ob_deterministicKey o' = dispatch_key (nt_id n)) (outbox db1) of
              Some _ \<Rightarrow> Inr db1
            | None \<Rightarrow> bindE (create_outbox_event e
                        (dispatch_event n\<lparr> ob_availableAt := nt_scheduledAt d \<rparr>) db1) (\<lambda>(_, db2). Inr db2))
         = Inr db'"
    by (auto simp: ensureNotificationWithOutbox_def simp del: create_notification_Inr create_outbox_event_Inr)
  have "outbox_appends db db1" using 1
    by (auto split: option.splits intro: create_notification_appends simp del: create_notification_Inr)
  moreover have "outbox_appends db1 db'" using 2
    by (auto split: option.splits intro: create_outbox_event_appends simp del: create_outbox_event_Inr)
  ultimately show ?thesis by (rule outbox_appends_trans)
qed

lemma createOperationalAlertWithOutbox_appends:
  "createOperationalAlertWithOutbox e i db = Inr (b, db') \<Longrightarrow> outbox_appends db db'"
  by (auto simp: createOperationalAlertWithOutbox_def Let_def split: if_splits
      intro: ensureNotificationWithOutbox_appends)

lemma createOrderNotificationsWithOutbox_appends:
  "createOrderNotificationsWithOutbox e t ev s d db = Inr db' \<Longrightarrow> outbox_appends db db'"
  by (auto simp: createOrderNotificationsWithOutbox_def Let_def split: if_splits
      intro: createNotificationWithOutbox_appends outbox_appends_trans)

lemma upsert_event_appends:
  "upsert_event e row db = Inr db' \<Longrightarrow> ob_attemptCount row = 0 \<Longrightarrow> outbox_appends db db'"
  by (auto simp: upsert_event_def split: option.splits intro: create_outbox_event_appends simp del: create_outbox_event_Inr)

lemma sources_appends:
  "enqueueReservationExpiry e w db = Inr db' \<Longrightarrow> outbox_appends db db'"
  "bridge_notification e w n db = Inr db' \<Longrightarrow> outbox_appends db db'"
  by (auto simp: enqueueReservationExpiry_def bridge_notification_def Let_def scheduled_event_def
      intro: upsert_event_appends)

lemma enqueueObjectDeletion_appends: "enqueueObjectDeletion e iid key bucket db = Inr db' \<Longrightarrow> outbox_appends db db'"
  unfolding enqueueObjectDeletion_def by (rule upsert_event_appends) (assumption, simp add: deletion_event_def)

section \<open>Steps and runs\<close>

text \<open>
  One transaction of some worker; \<open>cs\<close> are the events it claims.  Bridging is one upsert at a time.
\<close>

inductive worker_step :: "env \<Rightarrow> worker_env \<Rightarrow> string list \<Rightarrow> 'a worker_db_scheme \<Rightarrow> 'a worker_db_scheme \<Rightarrow> bool" for e w where
  claimed: "claimAvailable e w db = (evs, db') \<Longrightarrow> worker_step e w (map ob_id evs) db db'"
| published: "markPublished e w eid jobId db = (b, db') \<Longrightarrow> worker_step e w [] db db'"
| deferred: "scheduleRetry e w eid code db = (r, db') \<Longrightarrow> worker_step e w [] db db'"
| expiry_scheduled: "enqueueReservationExpiry e w db = Inr db' \<Longrightarrow> worker_step e w [] db db'"
| bridged: "bridge_notification e w n db = Inr db' \<Longrightarrow> worker_step e w [] db db'"
| processed: "processTransaction e w job db = Inr (r, db') \<Longrightarrow> worker_step e w [] db db'"
| media_claimed: "claimMediaDeletion e w job db = Inr (mc, db') \<Longrightarrow> worker_step e w [] db db'"
| media_completed: "completeMediaDeletion e job db = Inr db' \<Longrightarrow> worker_step e w [] db db'"
| notification_claimed: "claimNotification e w pf job db = Inr (nc, db') \<Longrightarrow> worker_step e w [] db db'"
| delivered: "finalizeNotificationSuccess e work delivery db = Inr db' \<Longrightarrow> worker_step e w [] db db'"
| failed: "finalizeNotificationFailure e w work code db = Inr (r, db') \<Longrightarrow> worker_step e w [] db db'"

lemma worker_step_change:
  assumes "worker_step e w cs db db'" and ids: "event_ids db"
  shows "outbox_change cs db db'"
  using assms(1)
proof cases
  case claimed
  then show ?thesis using claimAvailable_change [OF _ ids] by simp
next
  case published
  then show ?thesis by (simp add: markPublished_change)
next
  case deferred
  then show ?thesis by (simp add: scheduleRetry_change [OF _ ids])
next
  case expiry_scheduled
  then show ?thesis by (simp add: outbox_appends_change sources_appends(1))
next
  case bridged
  then show ?thesis by (simp add: outbox_appends_change sources_appends(2))
next
  case processed
  then show ?thesis by (simp add: processTransaction_change [OF _ ids])
next
  case media_claimed
  then show ?thesis by (simp add: claimMediaDeletion_change [OF _ ids])
next
  case media_completed
  then show ?thesis by (simp add: completeMediaDeletion_change [OF _ ids])
next
  case notification_claimed
  then show ?thesis by (simp add: claimNotification_change [OF _ ids])
next
  case delivered
  then show ?thesis by (simp add: finalizeNotificationSuccess_change [OF _ ids])
next
  case failed
  then show ?thesis by (simp add: finalizeNotificationFailure_change [OF _ ids])
qed

text \<open>
  Anything that happens around the outbox: a worker's transaction, the four functions of the API that
  write notifications, the queueing of media deletions, or a transaction that leaves the outbox alone.
\<close>

inductive outbox_act :: "string list \<Rightarrow> 'a worker_db_scheme \<Rightarrow> 'a worker_db_scheme \<Rightarrow> bool" where
  of_worker: "worker_step e w cs db db' \<Longrightarrow> outbox_act cs db db'"
| notified: "createNotificationWithOutbox e d db = Inr (n, db') \<Longrightarrow> outbox_act [] db db'"
| ensured: "ensureNotificationWithOutbox e d db = Inr (n, db') \<Longrightarrow> outbox_act [] db db'"
| alerted: "createOperationalAlertWithOutbox e i db = Inr (b, db') \<Longrightarrow> outbox_act [] db db'"
| order_notified: "createOrderNotificationsWithOutbox e t ev s d db = Inr db' \<Longrightarrow> outbox_act [] db db'"
| media_queued: "enqueueObjectDeletion e iid key bucket db = Inr db' \<Longrightarrow> outbox_act [] db db'"
| elsewhere: "outbox db' = outbox db \<Longrightarrow> outbox_act [] db db'"

lemma outbox_act_change: "outbox_act cs db db' \<Longrightarrow> event_ids db \<Longrightarrow> outbox_change cs db db'"
  by (induction rule: outbox_act.induct)
    (blast intro: worker_step_change outbox_change_same outbox_appends_change createNotificationWithOutbox_appends
      ensureNotificationWithOutbox_appends createOperationalAlertWithOutbox_appends
      createOrderNotificationsWithOutbox_appends enqueueObjectDeletion_appends)+

text \<open>\<open>outbox_run db cs db'\<close>: from \<open>db\<close> to \<open>db'\<close> with the claims \<open>cs\<close>, in order.\<close>

inductive outbox_run :: "'a worker_db_scheme \<Rightarrow> string list \<Rightarrow> 'a worker_db_scheme \<Rightarrow> bool" for db where
  start: "outbox_run db [] db"
| act: "outbox_run db cs db1 \<Longrightarrow> outbox_act cs' db1 db2 \<Longrightarrow> outbox_run db (cs @ cs') db2"

definition event_later :: "string list \<Rightarrow> outbox_event \<Rightarrow> outbox_event \<Rightarrow> bool" where
  "event_later cs v v' =
     (ob_id v' = ob_id v \<and> ob_deterministicKey v' = ob_deterministicKey v \<and> ob_maxAttempts v' = ob_maxAttempts v
      \<and> ob_attemptCount v' = ob_attemptCount v + int (count_list cs (ob_id v))
      \<and> (ob_status v = OB_PROCESSED \<longrightarrow> ob_status v' = OB_PROCESSED \<and> ob_id v \<notin> set cs)
      \<and> (ob_id v \<in> set cs \<longrightarrow> ob_attemptCount v' \<le> ob_maxAttempts v))"

lemma event_later_step:
  assumes "event_later cs v v1" and "event_after cs' v1 v2" and "distinct cs'"
  shows "event_later (cs @ cs') v v2"
  using assms count_list_distinct [OF assms(3), of "ob_id v"]
  by (auto simp: event_later_def event_after_def split: if_splits)

definition fresh_event :: "string list \<Rightarrow> outbox_event \<Rightarrow> bool" where
  "fresh_event cs v = (ob_attemptCount v = int (count_list cs (ob_id v))
     \<and> (ob_id v \<in> set cs \<longrightarrow> ob_attemptCount v \<le> ob_maxAttempts v))"

lemma fresh_event_step:
  "fresh_event cs v \<Longrightarrow> event_after cs' v v' \<Longrightarrow> distinct cs' \<Longrightarrow> fresh_event (cs @ cs') v'"
  using count_list_distinct [of cs' "ob_id v"]
  by (auto simp: fresh_event_def event_after_def split: if_splits)

text \<open>What a run leaves of every event it found, and of every event that appeared in it.\<close>

lemma outbox_run_events:
  assumes "outbox_run db cs db'" and "event_ids db"
  shows "event_ids db' \<and> (\<forall>eid. case find_event db eid of
       Some v \<Rightarrow> \<exists>v'. find_event db' eid = Some v' \<and> event_later cs v v'
     | None \<Rightarrow> (case find_event db' eid of None \<Rightarrow> eid \<notin> set cs | Some v' \<Rightarrow> fresh_event cs v'))"
  using assms
proof induction
  case start
  then show ?case by (auto simp: event_later_def split: option.splits)
next
  case (act cs db1 cs' db2)
  then have ids1: "event_ids db1" by blast
  note c = outbox_act_change [OF act.hyps(2) ids1, unfolded outbox_change_def]
  show ?case
  proof (intro conjI allI)
    show "event_ids db2" using c ids1 by blast
    fix eid
    have d: "distinct cs'" using c by blast
    from c have s: "case find_event db1 eid of Some v \<Rightarrow> \<exists>v'. find_event db2 eid = Some v' \<and> event_after cs' v v'
        | None \<Rightarrow> eid \<notin> set cs' \<and> (\<forall>v'. find_event db2 eid = Some v' \<longrightarrow> ob_attemptCount v' = 0)" by blast
    from act have p: "case find_event db eid of
       Some v \<Rightarrow> \<exists>v'. find_event db1 eid = Some v' \<and> event_later cs v v'
     | None \<Rightarrow> (case find_event db1 eid of None \<Rightarrow> eid \<notin> set cs | Some v' \<Rightarrow> fresh_event cs v')" by blast
    show "case find_event db eid of
       Some v \<Rightarrow> \<exists>v'. find_event db2 eid = Some v' \<and> event_later (cs @ cs') v v'
     | None \<Rightarrow> (case find_event db2 eid of None \<Rightarrow> eid \<notin> set (cs @ cs') | Some v' \<Rightarrow> fresh_event (cs @ cs') v')"
    proof (cases "find_event db eid")
      case (Some v)
      with p s event_later_step [OF _ _ d] show ?thesis by (fastforce split: option.splits)
    next
      case None
      show ?thesis
      proof (cases "find_event db1 eid")
        case (Some v1)
        with None p s fresh_event_step [OF _ _ d] show ?thesis by fastforce
      next
        case none1: None
        have "fresh_event (cs @ cs') v'" if "find_event db2 eid = Some v'" for v'
          using find_event_id [OF that] that None none1 p s by (auto simp: fresh_event_def)
        with None none1 p s show ?thesis by (auto split: option.splits)
      qed
    qed
  qed
qed

end
