(* ===== verification/LeaseRuns.thy ===== *)
theory LeaseRuns
  imports OutboxRuns
begin

text \<open>
  The leases of a poll along a run: as long as they last and no retry has been scheduled, every
  transaction of every worker leaves a claimed event with its lease, or finished.
\<close>

section \<open>An event held until a time\<close>

definition held_until :: "int \<Rightarrow> outbox_event \<Rightarrow> bool" where
  "held_until until v =
     (finished (ob_status v)
      \<or> (ob_status v \<in> {OB_LEASED, OB_PUBLISHED, OB_PROCESSING} \<and> (\<exists>x. ob_leaseExpiresAt v = Some x \<and> until \<le> x)))"

lemma held_not_claimable: "held_until until v \<Longrightarrow> now e < until \<Longrightarrow> \<not> claimable e v"
  by (auto simp: held_until_def claimable_def finished_def)

definition given_back :: "outbox_event \<Rightarrow> bool" where
  "given_back v = (ob_status v = OB_RETRY)"

text \<open>\<open>keeps_held until db db'\<close>: what was held until then still is, or waits for a retry.\<close>

definition keeps_held :: "int \<Rightarrow> 'a shop_db_scheme \<Rightarrow> 'a shop_db_scheme \<Rightarrow> bool" where
  "keeps_held until db db' =
     (\<forall>eid v. find_event db eid = Some v \<longrightarrow> held_until until v
        \<longrightarrow> (\<exists>v'. find_event db' eid = Some v' \<and> (held_until until v' \<or> given_back v')))"

lemma keeps_held_same: "outbox db' = outbox db \<Longrightarrow> keeps_held until db db'"
  by (simp add: keeps_held_def find_event_def)

lemma keeps_held_cong:
  assumes "keeps_held until db db'" and "outbox db2 = outbox db'"
  shows "keeps_held until db db2"
proof -
  have "find_event db2 = find_event db'" by (simp add: fun_eq_iff find_event_def assms(2))
  with assms(1) show ?thesis by (simp add: keeps_held_def)
qed

lemma keeps_held_appends: "outbox_appends db db' \<Longrightarrow> keeps_held until db db'"
  by (auto simp: keeps_held_def outbox_appends_def find_event_def find_append)

lemma keeps_held_set:
  assumes "\<And>x. ob_id (f x) = ob_id x" and "\<And>x. held_until until (f x) \<or> given_back (f x)"
  shows "keeps_held until db (set_event eid f db)"
  using assms(2) by (auto simp: keeps_held_def find_set_event [OF assms(1)])

lemma held_updates [simp]:
  "held_until until (processed_event e c v)" "held_until until (dead_event e d v)" "held_until until (exhaust_event e v)"
  "given_back (retry_event t d v)"
  "until \<le> now e + OUTBOX_LEASE_MS w \<Longrightarrow> held_until until (processing_event e w v)"
  "until \<le> now e + OUTBOX_LEASE_MS w \<Longrightarrow> held_until until (lease_event e w v)"
  by (simp_all add: held_until_def finished_def given_back_def processed_event_def dead_event_def exhaust_event_def
      retry_event_def processing_event_def lease_event_def)

section \<open>The transactions of the workers\<close>

lemma claimAvailable_held:
  assumes run: "claimAvailable e w db = (evs, db')" and ids: "event_ids db"
    and t: "until \<le> now e + OUTBOX_LEASE_MS w"
  shows "keeps_held until db db'"
  using run ids
proof (rule claimAvailable_parts)
  fix is' assume db': "db' = db\<lparr> outbox := update_where (\<lambda>v. ob_id v \<in> set is') (lease_event e w)
        (update_where exhausted (exhaust_event e) (outbox db)) \<rparr>"
  show ?thesis
    unfolding keeps_held_def claimed_event [OF db'] using t by (auto simp: Let_def)
qed

text \<open>No poll takes an event that is held beyond its time.\<close>

lemma held_not_claimed:
  assumes run: "claimAvailable e w db = (evs, db')" and ids: "event_ids db"
    and v: "find_event db eid = Some v" "held_until until v" and t: "now e < until"
  shows "eid \<notin> set (map ob_id evs)"
  using run ids
proof (rule claimAvailable_parts)
  fix is' assume m: "set (map ob_id evs) = set is'"
    and old: "\<And>eid. eid \<in> set is' \<Longrightarrow> \<exists>v. find_event db eid = Some v \<and> claimable e v \<and> \<not> exhausted v"
  show ?thesis
  proof
    assume "eid \<in> set (map ob_id evs)"
    with old [of eid] v(1) have "claimable e v" unfolding m by auto
    with held_not_claimable [OF v(2) t] show False by simp
  qed
qed

lemma markPublished_held:
  assumes "markPublished e w eid jobId db = (b, db')" and t: "until \<le> now e + OUTBOX_PUBLISHED_LEASE_MS w"
  shows "keeps_held until db db'"
proof -
  let ?f = "\<lambda>v. v\<lparr> ob_status := OB_PUBLISHED, ob_publishedAt := Some (now e), ob_publishedJobId := Some jobId,
                        ob_leaseExpiresAt := Some (now e + OUTBOX_PUBLISHED_LEASE_MS w) \<rparr>"
  let ?P = "\<lambda>v. ob_id v = eid \<and> ob_status v = OB_LEASED \<and> ob_leaseOwner v = Some (WORKER_INSTANCE_ID w)"
  have "outbox db' = update_where ?P ?f (outbox db)" using assms(1) by (auto simp: markPublished_def Let_def)
  then have "find_event db' x = map_option (\<lambda>v. if ?P v then ?f v else v) (find_event db x)" for x
    by (simp add: find_event_def find_update_event)
  then show ?thesis using t by (auto simp: keeps_held_def held_until_def)
qed

lemma scheduleRetry_held:
  assumes run: "scheduleRetry e w eid code db = (r, db')"
  shows "keeps_held until db db'"
proof -
  from run consider "db' = db" | t x where "db' = set_event x (dead_event e (take 100 code)) db
        \<or> db' = set_event x (retry_event t (take 100 code)) db"
    by (auto simp: scheduleRetry_def Let_def split: if_splits option.splits)
  then show ?thesis
  proof cases
    case 1
    then show ?thesis by (simp add: keeps_held_same)
  next
    case 2
    then show ?thesis by (auto intro: keeps_held_set)
  qed
qed

lemma processTransaction_held:
  assumes run: "processTransaction e w job db = Inr (r, db')"
  shows "keeps_held until db db'"
proof -
  obtain out n where r: "r = (out, n)" by (cases r)
  from run [unfolded r] show ?thesis
  proof (cases rule: processTransaction_Inr)
    case before
    then show ?thesis by (simp add: keeps_held_same)
  next
    case (now v p db1)
    have o': "outbox db' = outbox (set_event (ob_id v) (\<lambda>x. processed_event e None (processing_event e w x)) db)"
      using handle_payload_outbox [OF now(4)] now(6) by (simp add: set_event_def update_where_def)
    show ?thesis by (rule keeps_held_cong [OF keeps_held_set o']) simp_all
  qed
qed

lemma media_held:
  assumes "until \<le> now e + OUTBOX_LEASE_MS w"
  shows "claimMediaDeletion e w job db = Inr (c, db') \<Longrightarrow> keeps_held until db db'"
    and "completeMediaDeletion e job db = Inr db' \<Longrightarrow> keeps_held until db db'"
  using assms
  by (auto simp: claimMediaDeletion_def completeMediaDeletion_def keeps_held_same intro: keeps_held_set
      split: option.splits if_splits)

lemma claimNotification_held:
  assumes run: "claimNotification e w pf job db = Inr (c, db')" and t: "until \<le> now e + OUTBOX_LEASE_MS w"
  shows "keeps_held until db db'"
  using run
proof (cases rule: claimNotification_cases)
  case before
  then show ?thesis by (simp add: keeps_held_same)
next
  case (closed v f)
  then show ?thesis by (auto intro: keeps_held_set)
next
  case (opened v p m n)
  have "\<exists>f. outbox db' = outbox (set_event (ob_id v) f db) \<and> (\<forall>x. ob_id (f x) = ob_id x \<and> held_until until (f x))"
  proof (cases "take 100 (pf (nt_channel m)) = ''disabled''")
    case True
    from skip_disabled_Inr(2) [OF opened(7) [unfolded if_P [OF True]]] show ?thesis
      by (intro exI [of _ "processed_event e (Some ''NOTIFICATION_CHANNEL_DISABLED'')"]) simp
  next
    case False
    from start_attempt_Inr(2) [OF opened(7) [unfolded if_not_P [OF False]]] t show ?thesis
      by (intro exI [of _ "processing_event e w"]) simp
  qed
  then show ?thesis by (auto intro: keeps_held_cong [OF keeps_held_set])
qed

lemma finalize_held:
  shows "finalizeNotificationSuccess e work delivery db = Inr db' \<Longrightarrow> keeps_held until db db'"
    and "finalizeNotificationFailure e w work code db = Inr (out, db') \<Longrightarrow> keeps_held until db db'"
proof -
  show "keeps_held until db db'" if "finalizeNotificationSuccess e work delivery db = Inr db'"
    using that by (rule finalizeNotificationSuccess_Inr) (rule keeps_held_cong [OF keeps_held_set], simp_all)
  show "keeps_held until db db'" if "finalizeNotificationFailure e w work code db = Inr (out, db')"
    using that
  proof (cases rule: finalizeNotificationFailure_cases)
    case (terminal v n)
    show ?thesis
    proof (cases "nt_status n = NT_DELIVERED \<and> ob_status v \<noteq> OB_PROCESSED")
      case True
      from terminal(6) [unfolded if_P [OF True]] show ?thesis by (intro keeps_held_cong [OF keeps_held_set]) simp_all
    next
      case False
      from terminal(6) [unfolded if_not_P [OF False]] show ?thesis by (rule keeps_held_same)
    qed
  next
    case (failed v n f s)
    show ?thesis by (rule keeps_held_cong [OF keeps_held_set failed(8)]) (simp_all add: failed(7))
  qed
qed

lemma worker_step_held:
  assumes "worker_step e w cs db db'" and ids: "event_ids db"
    and t: "until \<le> now e + OUTBOX_LEASE_MS w" "until \<le> now e + OUTBOX_PUBLISHED_LEASE_MS w"
  shows "keeps_held until db db'"
  using assms(1)
proof cases
  case claimed
  then show ?thesis using claimAvailable_held [OF _ ids t(1)] by blast
next
  case published
  show ?thesis by (rule markPublished_held [OF published(2) t(2)])
next
  case deferred
  show ?thesis by (rule scheduleRetry_held [OF deferred(2)])
next
  case expiry_scheduled
  show ?thesis by (intro keeps_held_appends sources_appends(1) [OF expiry_scheduled(2)])
next
  case bridged
  show ?thesis by (intro keeps_held_appends sources_appends(2) [OF bridged(2)])
next
  case processed
  show ?thesis by (rule processTransaction_held [OF processed(2)])
next
  case media_claimed
  show ?thesis by (rule media_held(1) [OF t(1) media_claimed(2)])
next
  case media_completed
  show ?thesis by (rule media_held(2) [OF t(1) media_completed(2)])
next
  case notification_claimed
  show ?thesis by (rule claimNotification_held [OF notification_claimed(2) t(1)])
next
  case delivered
  show ?thesis by (rule finalize_held(1) [OF delivered(2)])
next
  case failed
  show ?thesis by (rule finalize_held(2) [OF failed(2)])
qed

section \<open>Runs while leases last\<close>

text \<open>
  \<open>lease_run t0 len is db cs db'\<close>: transactions of any workers, at times from \<open>t0\<close> on and before
  \<open>t0 + len\<close>, each granting leases of at least \<open>len\<close>, and requests of the API, which leave the outbox alone or
  add to it.  No transaction schedules a retry of an event of \<open>is\<close>.  \<open>cs\<close> are the events claimed.
\<close>

definition no_retry :: "string set \<Rightarrow> 'a shop_db_scheme \<Rightarrow> bool" where
  "no_retry eids db = (\<forall>eid\<in>eids. map_option ob_status (find_event db eid) \<noteq> Some OB_RETRY)"

inductive lease_run ::
  "int \<Rightarrow> int \<Rightarrow> string set \<Rightarrow> 'a worker_db_scheme \<Rightarrow> string list \<Rightarrow> 'a worker_db_scheme \<Rightarrow> bool" for t0 len eids db where
  start: "lease_run t0 len eids db [] db"
| worker: "lease_run t0 len eids db cs db1 \<Longrightarrow> worker_step e w cs' db1 db2 \<Longrightarrow> t0 \<le> now e \<Longrightarrow> now e < t0 + len
    \<Longrightarrow> len \<le> OUTBOX_LEASE_MS w \<Longrightarrow> len \<le> OUTBOX_PUBLISHED_LEASE_MS w \<Longrightarrow> no_retry eids db2
    \<Longrightarrow> lease_run t0 len eids db (cs @ cs') db2"
| api: "lease_run t0 len eids db cs db1 \<Longrightarrow> outbox_appends db1 db2 \<Longrightarrow> lease_run t0 len eids db cs db2"

lemma lease_run_held:
  assumes "lease_run t0 len eids db cs db'" and "event_ids db"
    and "\<forall>eid\<in>eids. \<exists>v. find_event db eid = Some v \<and> held_until (t0 + len) v"
  shows "event_ids db' \<and> (\<forall>eid\<in>eids. \<exists>v. find_event db' eid = Some v \<and> held_until (t0 + len) v) \<and> set cs \<inter> eids = {}"
  using assms
proof induction
  case start
  then show ?case by simp
next
  case (worker cs db1 e w cs' db2)
  then have ids: "event_ids db1" and h: "\<And>eid. eid \<in> eids \<Longrightarrow> \<exists>v. find_event db1 eid = Some v \<and> held_until (t0 + len) v"
    and none: "set cs \<inter> eids = {}" by auto
  have u: "t0 + len \<le> now e + OUTBOX_LEASE_MS w" "t0 + len \<le> now e + OUTBOX_PUBLISHED_LEASE_MS w" using worker by simp_all
  have "event_ids db2" using worker_step_change [OF worker.hyps(2) ids] ids by (simp add: outbox_change_def)
  moreover have "\<exists>v. find_event db2 eid = Some v \<and> held_until (t0 + len) v" if "eid \<in> eids" for eid
  proof -
    from worker_step_held [OF worker.hyps(2) ids u] h [OF that] obtain v where
      "find_event db2 eid = Some v" "held_until (t0 + len) v \<or> given_back v" unfolding keeps_held_def by blast
    with worker.hyps(7) that show ?thesis by (auto simp: no_retry_def given_back_def)
  qed
  moreover have "set cs' \<inter> eids = {}"
    using worker.hyps(2)
  proof cases
    case (claimed evs)
    then show ?thesis using held_not_claimed [OF claimed(2) ids _ _ worker.hyps(4)] h by blast
  qed simp_all
  ultimately show ?case using none by auto
next
  case (api cs db1 db2)
  then have ids: "event_ids db1" and h: "\<And>eid. eid \<in> eids \<Longrightarrow> \<exists>v. find_event db1 eid = Some v \<and> held_until (t0 + len) v"
    and none: "set cs \<inter> eids = {}" by auto
  from api.hyps(2) obtain os where os: "outbox db2 = outbox db1 @ os" "event_ids db1 \<longrightarrow> event_ids db2"
    by (auto simp: outbox_appends_def)
  have "find_event db2 eid = Some v" if "find_event db1 eid = Some v" for eid v
    using that by (simp add: find_event_def os(1) find_append)
  with ids h none os(2) show ?case by blast
qed

lemma claims_held:
  assumes run: "claimAvailable e w db = (evs, db')" and ids: "event_ids db" and t: "until \<le> now e + OUTBOX_LEASE_MS w"
  shows "event_ids db'" and "\<forall>eid\<in>set (map ob_id evs). \<exists>v. find_event db' eid = Some v \<and> held_until until v"
proof -
  show "event_ids db'" using claimAvailable_change [OF run ids] ids by (simp add: outbox_change_def)
  from run ids show "\<forall>eid\<in>set (map ob_id evs). \<exists>v. find_event db' eid = Some v \<and> held_until until v"
  proof (rule claimAvailable_parts)
    assume f: "\<And>v. v \<in> set evs \<Longrightarrow> find_event db' (ob_id v) = Some v \<and> ob_status v = OB_LEASED
      \<and> ob_leaseExpiresAt v = Some (now e + OUTBOX_LEASE_MS w)"
    show ?thesis using f t by (auto simp: held_until_def)
  qed
qed

end
