(* ===== verification/Cart.thy ===== *)
theory Cart
  imports Checkout
begin

text \<open>
  \<open>cart/cart-policy.ts\<close> and \<open>cart/cart.service.ts\<close>: the active cart of a customer, the lines put into it
  and the answer shown.  Of the answer, the texts and images of a product are not projected; the rows of
  the variant and the product stand for them.
\<close>

section \<open>cart-policy.ts\<close>

definition MAX_CART_DISTINCT_ITEMS :: nat where
  "MAX_CART_DISTINCT_ITEMS = 50"

definition MAX_CART_ITEM_QUANTITY :: int where
  "MAX_CART_ITEM_QUANTITY = 20"

record cart_price =
  cp_listPriceMillimes :: int
  cp_promotionalPriceMillimes :: "int option"
  cp_unitPriceMillimes :: int

definition effectiveCartUnitPrice :: "int \<Rightarrow> int option \<Rightarrow> cart_price result" where
  "effectiveCartUnitPrice listPrice promotionalPrice =
     require (\<not> (\<not> safe listPrice \<or> listPrice < 0)) (unavailable ''CATALOG_PRICE_INVALID'') (
     let promotion = (case promotionalPrice of
             Some p \<Rightarrow> if safe p \<and> p \<ge> 0 \<and> p \<le> listPrice then Some p else None | None \<Rightarrow> None)
     in Inr \<lparr> cp_listPriceMillimes = listPrice, cp_promotionalPriceMillimes = promotion,
              cp_unitPriceMillimes = (case promotion of Some p \<Rightarrow> p | None \<Rightarrow> listPrice) \<rparr>)"

text \<open>A bucket: its physical stock and the quantities of its reservations.\<close>

type_synonym availability_input = "int \<times> int list"

definition inventoryInvariantError :: exn where
  "inventoryInvariantError = unavailable ''INVENTORY_INVARIANT_BREACH''"

definition reserved_sum :: "int \<Rightarrow> int \<Rightarrow> int result" where
  "reserved_sum q acc =
     require (\<not> (\<not> safe q \<or> q \<le> 0)) inventoryInvariantError (
     let next = js_add acc q in require (safe next) inventoryInvariantError (Inr next))"

definition bucket_sum :: "availability_input \<Rightarrow> int \<Rightarrow> int result" where
  "bucket_sum b acc = (case b of (onHand, quantities) \<Rightarrow>
     require (\<not> (\<not> safe onHand \<or> onHand < 0)) inventoryInvariantError (
     bindE (foldE reserved_sum quantities 0) (\<lambda>held.
     require (\<not> held > onHand) inventoryInvariantError (
     let next = js_add (js_add acc onHand) (- held)
     in require (safe next) inventoryInvariantError (Inr next)))))"

definition availableCartQuantity :: "availability_input list \<Rightarrow> int result" where
  "availableCartQuantity inventory = foldE bucket_sum inventory 0"

definition cartLineTotal :: "int \<Rightarrow> int \<Rightarrow> int result" where
  "cartLineTotal unitPrice quantity = multiplyMillimes unitPrice quantity"

definition cartSubtotal :: "int list \<Rightarrow> int result" where
  "cartSubtotal lineTotals = addMillimes lineTotals"

section \<open>Reading\<close>

definition CART_TTL_MS :: int where
  "CART_TTL_MS = 30 * 24 * 60 * 60 * 1000"

definition cartExpiry :: "env \<Rightarrow> int" where
  "cartExpiry e = now e + CART_TTL_MS"

definition publicVariantWhere :: "int \<Rightarrow> 'a shop_db_scheme \<Rightarrow> variant \<Rightarrow> bool" where
  "publicVariantWhere n db v =
     (publicSellableVariantWhere v
      \<and> list_ex (\<lambda>p. prod_id p = var_productId v \<and> buildPublicProductWhere n db p) (ref_products (reference db)))"

definition public_variant :: "int \<Rightarrow> 'a shop_db_scheme \<Rightarrow> string \<Rightarrow> variant option" where
  "public_variant n db vid = List.find (\<lambda>v. var_id v = vid \<and> publicVariantWhere n db v) (variants db)"

text \<open>\<open>inventoryItems\<close> of \<open>cartVariantSelect\<close>.\<close>

definition inventory_inputs :: "int \<Rightarrow> 'a shop_db_scheme \<Rightarrow> string \<Rightarrow> availability_input list" where
  "inventory_inputs n db vid =
     map (\<lambda>i. (item_onHand i,
               map res_quantity (filter (\<lambda>r. res_itemId r = item_id i \<and> active_at n r) (reservations db))))
       (sort_key item_id (filter (\<lambda>i. item_variantId i = vid \<and> eligibleOrderInventoryWhere n db i) (items db)))"

record cart_line_view =
  clv_item :: cart_item
  clv_variant :: variant
  clv_availableQuantity :: int
  clv_price :: cart_price
  clv_lineTotalMillimes :: int
  clv_lowStock :: bool

record cart_view =
  cvw_id :: string
  cvw_items :: "cart_line_view list"
  cvw_itemCount :: int
  cvw_subtotalMillimes :: int

text \<open>\<open>cartSelect\<close>: the lines whose variant is public.\<close>

definition shown_lines :: "int \<Rightarrow> 'a shop_db_scheme \<Rightarrow> cart \<Rightarrow> (cart_item \<times> variant) list" where
  "shown_lines n db c =
     concat (map (\<lambda>i. case public_variant n db (citem_variantId i) of None \<Rightarrow> [] | Some v \<Rightarrow> [(i, v)]) (cart_items c))"

definition serialize_line :: "int \<Rightarrow> 'a shop_db_scheme \<Rightarrow> cart_item \<times> variant \<Rightarrow> cart_line_view result" where
  "serialize_line n db = (\<lambda>(i, v).
     bindE (availableCartQuantity (inventory_inputs n db (var_id v))) (\<lambda>availability.
     bindE (effectiveCartUnitPrice (var_priceMillimes v) (var_promotionalPriceMillimes v)) (\<lambda>price.
     bindE (cartLineTotal (cp_unitPriceMillimes price) (citem_quantity i)) (\<lambda>amount.
     Inr \<lparr> clv_item = i, clv_variant = v, clv_availableQuantity = availability, clv_price = price,
           clv_lineTotalMillimes = amount, clv_lowStock = (availability \<le> var_lowStockThreshold v) \<rparr>))))"

definition serializeCart :: "int \<Rightarrow> 'a shop_db_scheme \<Rightarrow> cart \<Rightarrow> cart_view result" where
  "serializeCart n db c =
     bindE (mapE (serialize_line n db) (shown_lines n db c)) (\<lambda>lines.
     bindE (cartSubtotal (map clv_lineTotalMillimes lines)) (\<lambda>subtotal.
     Inr \<lparr> cvw_id = cart_id c, cvw_items = lines,
           cvw_itemCount = sum_by (\<lambda>l. citem_quantity (clv_item l)) lines,
           cvw_subtotalMillimes = subtotal \<rparr>))"

definition cart_owner :: "'a shop_db_scheme \<Rightarrow> string \<Rightarrow> cart \<Rightarrow> bool" where
  "cart_owner db userId c =
     list_ex (\<lambda>k. Some (cus_id k) = cart_customerId c \<and> cus_userId k = userId \<and> cus_suspendedAt k = None \<and> cus_userActive k)
       (ref_customers (reference db))"

definition cart_response :: "env \<Rightarrow> string \<Rightarrow> 'a shop_db_scheme \<Rightarrow> cart_view result" where
  "cart_response e cid db =
     bindE (some_or (List.find (\<lambda>c. cart_id c = cid \<and> cart_status c = CART_ACTIVE
                        \<and> null_or_after (cart_expiresAt c) (now e) \<and> cart_owner db (actor e) c) (carts db))
             (forbidden ''CUSTOMER_ACCOUNT_UNAVAILABLE''))
       (serializeCart (now e) db)"

definition cart_summary :: "env \<Rightarrow> 'a shop_db_scheme \<Rightarrow> int" where
  "cart_summary e db =
     (case sort_key (\<lambda>c. (- cart_updatedAt c, cart_id c))
             (filter (\<lambda>c. cart_status c = CART_ACTIVE \<and> null_or_after (cart_expiresAt c) (now e) \<and> cart_owner db (actor e) c)
               (carts db)) of
        [] \<Rightarrow> 0
      | c # _ \<Rightarrow> sum_by (\<lambda>p. citem_quantity (fst p)) (shown_lines (now e) db c))"

section \<open>The active cart\<close>

definition find_cart :: "'a shop_db_scheme \<Rightarrow> string \<Rightarrow> cart option" where
  "find_cart db cid = List.find (\<lambda>c. cart_id c = cid) (carts db)"

definition set_cart :: "string \<Rightarrow> (cart \<Rightarrow> cart) \<Rightarrow> 'a shop_db_scheme \<Rightarrow> 'a shop_db_scheme" where
  "set_cart cid f db = db\<lparr> carts := update_where (\<lambda>c. cart_id c = cid) f (carts db) \<rparr>"

definition renewed_cart :: "env \<Rightarrow> cart \<Rightarrow> cart" where
  "renewed_cart e c =
     c\<lparr> cart_version := cart_version c + 1, cart_expiresAt := Some (cartExpiry e), cart_updatedAt := now e \<rparr>"

definition expired_cart :: "env \<Rightarrow> cart \<Rightarrow> cart" where
  "expired_cart e c = c\<lparr> cart_status := CART_EXPIRED, cart_version := cart_version c + 1, cart_updatedAt := now e \<rparr>"

definition removeUnavailableItems :: "env \<Rightarrow> string \<Rightarrow> 'a shop_db_scheme \<Rightarrow> 'a shop_db_scheme" where
  "removeUnavailableItems e cid db =
     (let stale = (\<lambda>i. public_variant (now e) db (citem_variantId i) = None);
          deleted = (case find_cart db cid of None \<Rightarrow> 0 | Some c \<Rightarrow> length (filter stale (cart_items c)))
      in if deleted = 0 then db
         else set_cart cid (\<lambda>c. c\<lparr> cart_items := filter (\<lambda>i. \<not> stale i) (cart_items c),
                 cart_version := cart_version c + 1, cart_updatedAt := now e \<rparr>) db)"

definition new_cart :: "env \<Rightarrow> string \<Rightarrow> string \<Rightarrow> cart" where
  "new_cart e cid customerId =
     \<lparr> cart_id = cid, cart_customerId = Some customerId, cart_status = CART_ACTIVE,
       cart_expiresAt = Some (cartExpiry e), cart_convertedAt = None, cart_version = 1,
       cart_updatedAt = now e, cart_items = [] \<rparr>"

definition create_cart :: "env \<Rightarrow> string \<Rightarrow> 'a shop_db_scheme \<Rightarrow> (string \<times> 'a shop_db_scheme) result" where
  "create_cart e customerId db =
     (let row = new_cart e (fresh_id e db) customerId
      in bindE (create_row (\<lambda>a b. cart_id a = cart_id b) row (carts db)) (\<lambda>t.
         Inr (cart_id row, db\<lparr> carts := t, seq := Suc (seq db) \<rparr>)))"

definition cart_customer :: "'a shop_db_scheme \<Rightarrow> (customer \<Rightarrow> bool) \<Rightarrow> customer result" where
  "cart_customer db P =
     some_or (List.find (\<lambda>k. P k \<and> cus_suspendedAt k = None \<and> cus_userIsCustomer k \<and> cus_userActive k)
               (ref_customers (reference db)))
       (forbidden ''CUSTOMER_ACCOUNT_UNAVAILABLE'')"

definition lockCustomerAndCart ::
  "env \<Rightarrow> bool \<Rightarrow> 'a shop_db_scheme \<Rightarrow> (string option \<times> 'a shop_db_scheme) result" where
  "lockCustomerAndCart e create db =
     bindE (cart_customer db (\<lambda>k. cus_userId k = actor e)) (\<lambda>customer.
     bindE (cart_customer db (\<lambda>k. cus_id k = cus_id customer)) (\<lambda>_.
     let continue = (\<lambda>db1. if \<not> create then Inr (None, db1)
           else bindE (create_cart e (cus_id customer) db1) (\<lambda>(cid, db2). Inr (Some cid, db2)))
     in case active_cart db (cus_id customer) of
          Some c \<Rightarrow>
            if \<not> null_or_after (cart_expiresAt c) (now e) then
              continue (db\<lparr> carts := update_where (\<lambda>x. cart_id x = cart_id c \<and> cart_status x = CART_ACTIVE)
                                       (expired_cart e) (carts db) \<rparr>)
            else Inr (Some (cart_id c), removeUnavailableItems e (cart_id c) db)
        | None \<Rightarrow> continue db))"

section \<open>Changing the cart\<close>

definition assertQuantity :: "int \<Rightarrow> unit result" where
  "assertQuantity quantity =
     require (\<not> (\<not> safe quantity \<or> quantity < 1 \<or> quantity > MAX_CART_ITEM_QUANTITY)) (conflict ''CART_QUANTITY_LIMIT'') (Inr ())"

definition assertAvailable :: "env \<Rightarrow> 'a shop_db_scheme \<Rightarrow> variant \<Rightarrow> int \<Rightarrow> unit result" where
  "assertAvailable e db v quantity =
     bindE (availableCartQuantity (inventory_inputs (now e) db (var_id v))) (\<lambda>available.
     require (\<not> available < quantity) (conflict ''OUT_OF_STOCK'') (Inr ()))"

text \<open>A new line; ids are unique over all carts and variants within a cart.\<close>

definition create_cart_item ::
  "env \<Rightarrow> string \<Rightarrow> string \<Rightarrow> int \<Rightarrow> 'a shop_db_scheme \<Rightarrow> 'a shop_db_scheme result" where
  "create_cart_item e cid variantId quantity db =
     (let row = \<lparr> citem_id = fresh_id e db, citem_variantId = variantId, citem_quantity = quantity \<rparr>
      in require (\<not> list_ex (\<lambda>c. list_ex (\<lambda>i. citem_id i = citem_id row
                        \<or> (cart_id c = cid \<and> citem_variantId i = variantId)) (cart_items c)) (carts db))
           (PrismaError ''P2002'') (
         Inr (set_cart cid (\<lambda>c. c\<lparr> cart_items := cart_items c @ [row] \<rparr>) (db\<lparr> seq := Suc (seq db) \<rparr>))))"

definition set_quantity :: "string \<Rightarrow> string \<Rightarrow> int \<Rightarrow> 'a shop_db_scheme \<Rightarrow> 'a shop_db_scheme" where
  "set_quantity cid itemId quantity =
     set_cart cid (\<lambda>c. c\<lparr> cart_items := update_where (\<lambda>i. citem_id i = itemId)
                             (\<lambda>i. i\<lparr> citem_quantity := quantity \<rparr>) (cart_items c) \<rparr>)"

definition items_of_cart :: "'a shop_db_scheme \<Rightarrow> string \<Rightarrow> cart_item list" where
  "items_of_cart db cid = (case find_cart db cid of None \<Rightarrow> [] | Some c \<Rightarrow> cart_items c)"

definition put_item :: "env \<Rightarrow> string \<Rightarrow> string \<Rightarrow> int \<Rightarrow> 'a shop_db_scheme \<Rightarrow> 'a shop_db_scheme result" where
  "put_item e cid variantId input_quantity db =
     bindE (some_or (public_variant (now e) db variantId) (conflict ''PRODUCT_UNAVAILABLE'')) (\<lambda>v.
     let existing = List.find (\<lambda>i. citem_variantId i = variantId) (items_of_cart db cid);
         quantity = (case existing of Some i \<Rightarrow> citem_quantity i | None \<Rightarrow> 0) + input_quantity
     in bindE (assertQuantity quantity) (\<lambda>_.
        bindE (assertAvailable e db v quantity) (\<lambda>_.
        bindE (case existing of
                 None \<Rightarrow> require (\<not> length (items_of_cart db cid) \<ge> MAX_CART_DISTINCT_ITEMS)
                           (conflict ''CART_ITEM_LIMIT_REACHED'') (create_cart_item e cid variantId quantity db)
               | Some i \<Rightarrow> Inr (set_quantity cid (citem_id i) quantity db)) (\<lambda>db1.
        Inr (set_cart cid (renewed_cart e) db1)))))"

definition cart_add_tx ::
  "env \<Rightarrow> string \<Rightarrow> int \<Rightarrow> 'a shop_db_scheme \<Rightarrow> (string \<times> 'a shop_db_scheme) result" where
  "cart_add_tx e variantId input_quantity db =
     bindE (lockCustomerAndCart e True db) (\<lambda>(cid, db1).
     bindE (put_item e (the cid) variantId input_quantity db1) (\<lambda>db2.
     Inr (the cid, db2)))"

definition cart_update_tx ::
  "env \<Rightarrow> string \<Rightarrow> int \<Rightarrow> 'a shop_db_scheme \<Rightarrow> (string \<times> 'a shop_db_scheme) result" where
  "cart_update_tx e itemId quantity db =
     bindE (lockCustomerAndCart e False db) (\<lambda>(active, db1).
     bindE (some_or active (notFound ''CART_ITEM_NOT_FOUND'')) (\<lambda>cid.
     bindE (some_or (List.find (\<lambda>i. citem_id i = itemId) (items_of_cart db1 cid)) (notFound ''CART_ITEM_NOT_FOUND'')) (\<lambda>i.
     bindE (some_or (public_variant (now e) db1 (citem_variantId i)) (conflict ''PRODUCT_UNAVAILABLE'')) (\<lambda>v.
     bindE (assertQuantity quantity) (\<lambda>_.
     bindE (assertAvailable e db1 v quantity) (\<lambda>_.
     Inr (cid, set_cart cid (renewed_cart e) (set_quantity cid (citem_id i) quantity db1))))))))"

definition cart_remove_tx :: "env \<Rightarrow> string \<Rightarrow> 'a shop_db_scheme \<Rightarrow> (string \<times> 'a shop_db_scheme) result" where
  "cart_remove_tx e itemId db =
     bindE (lockCustomerAndCart e False db) (\<lambda>(active, db1).
     bindE (some_or active (notFound ''CART_ITEM_NOT_FOUND'')) (\<lambda>cid.
     require (\<not> count_where (\<lambda>i. citem_id i = itemId) (items_of_cart db1 cid) \<noteq> 1) (notFound ''CART_ITEM_NOT_FOUND'') (
     Inr (cid, set_cart cid (renewed_cart e)
       (set_cart cid (\<lambda>c. c\<lparr> cart_items := filter (\<lambda>i. citem_id i \<noteq> itemId) (cart_items c) \<rparr>) db1)))))"

text \<open>Every handler commits its transaction and then reads the cart; a failing read does not undo it.\<close>

definition and_respond ::
  "env \<Rightarrow> (string \<times> 'a shop_db_scheme) result \<Rightarrow> 'a shop_db_scheme \<Rightarrow> cart_view result \<times> 'a shop_db_scheme" where
  "and_respond e tx db =
     (case tx of Inl x \<Rightarrow> (Inl x, db) | Inr (cid, db1) \<Rightarrow> (cart_response e cid db1, db1))"

definition cart_get :: "env \<Rightarrow> 'a shop_db_scheme \<Rightarrow> cart_view result \<times> 'a shop_db_scheme" where
  "cart_get e db =
     and_respond e (bindE (lockCustomerAndCart e True db) (\<lambda>(cid, db1). Inr (the cid, db1))) db"

definition cart_add :: "env \<Rightarrow> string \<Rightarrow> int \<Rightarrow> 'a shop_db_scheme \<Rightarrow> cart_view result \<times> 'a shop_db_scheme" where
  "cart_add e variantId quantity db = and_respond e (cart_add_tx e variantId quantity db) db"

definition cart_update :: "env \<Rightarrow> string \<Rightarrow> int \<Rightarrow> 'a shop_db_scheme \<Rightarrow> cart_view result \<times> 'a shop_db_scheme" where
  "cart_update e itemId quantity db = and_respond e (cart_update_tx e itemId quantity db) db"

definition cart_remove :: "env \<Rightarrow> string \<Rightarrow> 'a shop_db_scheme \<Rightarrow> cart_view result \<times> 'a shop_db_scheme" where
  "cart_remove e itemId db = and_respond e (cart_remove_tx e itemId db) db"

end
