(* ===== verification/CheckoutProofs.thy ===== *)
theory CheckoutProofs
  imports Checkout
begin

text \<open>
  What an order created by \<open>Checkout\<close> is worth and what it holds: its totals are the sums of its
  lines and the delivery fee, the cash expected is the grand total, its reservations cover every
  line exactly and never exceed what the buckets have available, a retry with the same key
  answers with the same order and writes nothing, and its cart cannot be ordered again.
\<close>

section \<open>Prices\<close>

definition line_ok :: "(variant \<times> product) list \<Rightarrow> priced_line \<Rightarrow> bool" where
  "line_ok vs pl =
     ((pl_variant pl, pl_product pl) \<in> set vs \<and> var_id (pl_variant pl) = ol_variantId (pl_requested pl)
      \<and> calculateQuoteLine \<lparr> listUnitPriceMillimes = var_priceMillimes (pl_variant pl),
           promotionalUnitPriceMillimes = var_promotionalPriceMillimes (pl_variant pl),
           line_quantity = ol_quantity (pl_requested pl), taxRateBps = var_taxRateBps (pl_variant pl) \<rparr>
         = Inr (pl_calculation pl))"

definition lines_total :: "(quote_line \<Rightarrow> int) \<Rightarrow> priced_cart \<Rightarrow> int" where
  "lines_total f pc = sum_by (\<lambda>pl. f (pl_calculation pl)) (pc_lines pc)"

definition priced_ok :: "(variant \<times> product) list \<Rightarrow> order_line list \<Rightarrow> priced_cart \<Rightarrow> bool" where
  "priced_ok vs ls pc =
     (map pl_requested (pc_lines pc) = ls \<and> list_all (line_ok vs) (pc_lines pc)
      \<and> pc_subtotalMillimes pc = lines_total listSubtotalMillimes pc
      \<and> pc_discountTotalMillimes pc = lines_total discountMillimes pc
      \<and> pc_taxTotalMillimes pc = lines_total taxMillimes pc)"

lemma catch_range_error_Inr [simp]: "catch_range_error x r = Inr y \<longleftrightarrow> r = Inr y"
  by (auto simp: catch_range_error_def split: sum.splits exn.splits)

lemma price_line_ok:
  assumes "price_line vs a l pc = Inr pc'" and "priced_ok vs ls pc"
  shows "priced_ok vs (ls @ [l]) pc'"
proof -
  from assms(1) obtain v p calc where
    v: "List.find (\<lambda>vp. var_id (fst vp) = ol_variantId l) vs = Some (v, p)" and
    c: "calculateQuoteLine \<lparr> listUnitPriceMillimes = var_priceMillimes v,
           promotionalUnitPriceMillimes = var_promotionalPriceMillimes v,
           line_quantity = ol_quantity l, taxRateBps = var_taxRateBps v \<rparr> = Inr calc" and
    t: "pc_subtotalMillimes pc' = pc_subtotalMillimes pc + listSubtotalMillimes calc"
       "pc_discountTotalMillimes pc' = pc_discountTotalMillimes pc + discountMillimes calc"
       "pc_taxTotalMillimes pc' = pc_taxTotalMillimes pc + taxMillimes calc"
       "pc_lines pc' = pc_lines pc @ [\<lparr> pl_requested = l, pl_variant = v, pl_product = p, pl_calculation = calc \<rparr>]"
    by (auto simp: price_line_def addMillimes_2)
  from find_SomeD [OF v] c t assms(2) show ?thesis
    by (auto simp: priced_ok_def lines_total_def line_ok_def)
qed

lemma foldE_prefix:
  assumes "foldE f xs s = Inr t" and "P ys s"
    and step: "\<And>ys x s t. f x s = Inr t \<Longrightarrow> P ys s \<Longrightarrow> P (ys @ [x]) t"
  shows "P (ys @ xs) t"
  using assms(1,2)
proof (induction xs arbitrary: s ys)
  case (Cons x xs)
  from Cons.prems(1) obtain u where "f x s = Inr u" and u: "foldE f xs u = Inr t" by auto
  from Cons.IH [OF u step [OF this(1) Cons.prems(2)]] show ?case by simp
qed simp

lemma price_cart_ok:
  assumes "price_cart vs a ls = Inr pc"
  shows "priced_ok vs ls pc"
  using foldE_prefix [OF assms [unfolded price_cart_def], of "priced_ok vs" "[]"] price_line_ok
  by (simp add: priced_ok_def lines_total_def)

lemma line_ok_amounts:
  assumes "line_ok vs pl"
  shows "totalMillimes (pl_calculation pl) = listSubtotalMillimes (pl_calculation pl)
           - discountMillimes (pl_calculation pl) + taxMillimes (pl_calculation pl)"
    and "0 \<le> discountMillimes (pl_calculation pl)" "0 \<le> taxMillimes (pl_calculation pl)"
      "discountMillimes (pl_calculation pl) \<le> listSubtotalMillimes (pl_calculation pl)"
proof -
  from assms have c: "calculateQuoteLine \<lparr> listUnitPriceMillimes = var_priceMillimes (pl_variant pl),
           promotionalUnitPriceMillimes = var_promotionalPriceMillimes (pl_variant pl),
           line_quantity = ol_quantity (pl_requested pl), taxRateBps = var_taxRateBps (pl_variant pl) \<rparr>
         = Inr (pl_calculation pl)" by (simp add: line_ok_def)
  note eqs = calculateQuoteLine_Inr(3,5) [OF c] and pos = quote_line_nonneg [OF c]
  show "totalMillimes (pl_calculation pl) = listSubtotalMillimes (pl_calculation pl)
           - discountMillimes (pl_calculation pl) + taxMillimes (pl_calculation pl)" using eqs by simp
  show "0 \<le> discountMillimes (pl_calculation pl)" "0 \<le> taxMillimes (pl_calculation pl)"
    "discountMillimes (pl_calculation pl) \<le> listSubtotalMillimes (pl_calculation pl)"
    using eqs pos by simp_all
qed

lemma priced_ok_totals:
  assumes "priced_ok vs ls pc"
  shows "lines_total totalMillimes pc = pc_subtotalMillimes pc - pc_discountTotalMillimes pc + pc_taxTotalMillimes pc"
    and "0 \<le> pc_subtotalMillimes pc - pc_discountTotalMillimes pc" and "0 \<le> pc_taxTotalMillimes pc"
proof -
  from assms have ok: "list_all (line_ok vs) (pc_lines pc)" by (simp add: priced_ok_def)
  have "sum_by (\<lambda>pl. totalMillimes (pl_calculation pl)) pls
        = sum_by (\<lambda>pl. listSubtotalMillimes (pl_calculation pl)) pls
          - sum_by (\<lambda>pl. discountMillimes (pl_calculation pl)) pls
          + sum_by (\<lambda>pl. taxMillimes (pl_calculation pl)) pls
      \<and> sum_by (\<lambda>pl. discountMillimes (pl_calculation pl)) pls
          \<le> sum_by (\<lambda>pl. listSubtotalMillimes (pl_calculation pl)) pls
      \<and> 0 \<le> sum_by (\<lambda>pl. taxMillimes (pl_calculation pl)) pls"
    if "list_all (line_ok vs) pls" for pls
    using that
  proof (induction pls)
    case (Cons pl pls)
    then have "line_ok vs pl" by simp
    with Cons show ?case using line_ok_amounts [of vs pl] by simp
  qed simp
  from this [OF ok] assms show
    "lines_total totalMillimes pc = pc_subtotalMillimes pc - pc_discountTotalMillimes pc + pc_taxTotalMillimes pc"
    "0 \<le> pc_subtotalMillimes pc - pc_discountTotalMillimes pc" "0 \<le> pc_taxTotalMillimes pc"
    by (simp_all add: priced_ok_def lines_total_def)
qed

section \<open>The delivery fee\<close>

lemma catch_rate_error_Inr [simp]: "catch_rate_error r = Inr y \<longleftrightarrow> r = Inr y"
  by (auto simp: catch_rate_error_def split: sum.splits exn.splits)

lemma resolve_pickup_fee: "resolve_pickup db pid m = Inr ff \<Longrightarrow> ff_deliveryTotalMillimes ff = 0"
  by (auto simp: resolve_pickup_def)

text \<open>The fee of a courier order is the sum of the selected rates, or nothing at all.\<close>

lemma resolve_courier_fee:
  assumes "resolve_courier e db input lid m w = Inr ff"
  obtains rates :: "delivery_rate list" where "rates \<noteq> []" and "list_all (\<lambda>r. 0 \<le> rate_feeMillimes r) rates"
    and "ff_deliveryTotalMillimes ff = sum_by rate_feeMillimes rates \<or> ff_deliveryTotalMillimes ff = 0"
    and "\<And>r x. r \<in> set rates \<Longrightarrow> rate_maxCodMillimes r = Some x \<Longrightarrow> \<exists>y. ff_maxCodMillimes ff = Some y \<and> y \<le> x"
proof -
  have fold_min: "fold min ys (y::int) \<le> y \<and> (\<forall>z\<in>set ys. fold min ys y \<le> z)" for ys y
    by (induction ys arbitrary: y) (auto, (meson min.boundedE)+)
  have min: "\<exists>y. minimum xs = Some y \<and> y \<le> x" if "x \<in> set xs" for xs x
    using that fold_min by (cases xs) (auto simp: minimum_def)
  from assms obtain zone place c base surcharges fees where
    nn: "\<not> rate_feeMillimes base < 0" "\<not> list_ex (\<lambda>r. rate_feeMillimes r < 0) surcharges" and
    f: "addMillimes (rate_feeMillimes base # map rate_feeMillimes surcharges) = Inr fees" and
    ff: "ff = courier_fulfillment zone place c base surcharges fees"
    by (auto simp: resolve_courier_def Let_def)
  have t: "ff_deliveryTotalMillimes ff = courier_total zone (ctx_orderMillimes c) fees" and
    x: "ff_maxCodMillimes ff = minimum (somes (zone_maxCodMillimes zone # map rate_maxCodMillimes (base # surcharges)))"
    by (simp_all add: ff courier_fulfillment_def Let_def split: prod.splits)
  have l: "list_all (\<lambda>r. 0 \<le> rate_feeMillimes r) (base # surcharges)"
    using nn by (auto simp: list_ex_iff list_all_iff not_less)
  then have "fees = sum_by rate_feeMillimes (base # surcharges)"
    using addMillimes_nonneg_Inr(1) [OF f] by (simp add: sum_by_def list_all_iff)
  then have fee: "ff_deliveryTotalMillimes ff = sum_by rate_feeMillimes (base # surcharges)
      \<or> ff_deliveryTotalMillimes ff = 0"
    using t by (auto simp: courier_total_def split: option.splits)
  have "\<exists>y. ff_maxCodMillimes ff = Some y \<and> y \<le> z"
    if "r \<in> set (base # surcharges)" "rate_maxCodMillimes r = Some z" for r z
    unfolding x by (rule min) (use that in \<open>force simp: somes_def\<close>)
  with l fee show ?thesis using that [of "base # surcharges"] by blast
qed

lemma resolveFulfillment_fee:
  assumes "resolveFulfillment e db input m w = Inr ff"
  shows "0 \<le> ff_deliveryTotalMillimes ff"
proof (cases "or_null (ci_pickupLocationId input)")
  case None
  with assms obtain lid where "resolve_courier e db input lid m w = Inr ff"
    by (auto simp: resolveFulfillment_def)
  then obtain rates :: "delivery_rate list" where r: "list_all (\<lambda>r. 0 \<le> rate_feeMillimes r) rates"
    and f: "ff_deliveryTotalMillimes ff = sum_by rate_feeMillimes rates \<or> ff_deliveryTotalMillimes ff = 0"
    by (rule resolve_courier_fee)
  have "0 \<le> sum_by rate_feeMillimes rates" using r by (intro sum_by_nonneg) (auto simp: list_all_iff)
  with f show ?thesis by auto
next
  case (Some pid)
  with assms show ?thesis by (auto simp: resolveFulfillment_def dest: resolve_pickup_fee)
qed

section \<open>Allocation\<close>

lemma foldE_add_reserved:
  "foldE add_reserved rs a = Inr t \<Longrightarrow> t = a + sum_by res_quantity rs"
proof (induction rs arbitrary: a)
  case (Cons r rs)
  then obtain b where b: "add_reserved r a = Inr b" and t: "foldE add_reserved rs b = Inr t" by auto
  from b have "b = a + res_quantity r" by (auto simp: add_reserved_def Let_def js_add_exact)
  with Cons.IH [OF t] show ?case by simp
qed simp

lemma allocation_bucket_Inr:
  assumes "allocation_bucket e db i = Inr b"
  shows "bk_id b = item_id i" "bk_variantId b = item_variantId i" "bk_available b = available (now e) db i"
  using assms by (auto simp: allocation_bucket_def available_def reserved_def dest!: foldE_add_reserved)

lemma variant_items_distinct:
  assumes "distinct (map item_id cs)" and "distinct (map (var_id \<circ> fst) vs)"
  shows "distinct (map item_id (variant_items cs vs))" and "set (variant_items cs vs) \<subseteq> set cs"
proof -
  show sub: "set (variant_items cs vs) \<subseteq> set cs" for vs by (auto simp: variant_items_def)
  show "distinct (map item_id (variant_items cs vs))"
    using assms(2)
  proof (induction vs)
    case (Cons vp vs)
    have "item_id i \<noteq> item_id j"
      if "i \<in> set cs" "item_variantId i = var_id (fst vp)" "j \<in> set (variant_items cs vs)" for i j
    proof
      assume "item_id i = item_id j"
      then have "i = j" using key_unique [OF assms(1) that(1)] that(3) sub by blast
      with that Cons.prems show False by (force simp: variant_items_def)
    qed
    moreover have "distinct (map item_id (filter (\<lambda>i. item_variantId i = var_id (fst vp)) cs))"
      using assms(1) by (simp add: distinct_map_filter)
    ultimately show ?case using Cons by (auto simp: variant_items_def)
  qed (simp add: variant_items_def)
qed

text \<open>All requested variants were found and there are no more rows than that: no row twice.\<close>

lemma priced_variants_distinct:
  assumes "priced_ok vs ls pc" and "length vs = length ls" and "distinct (map ol_variantId ls)"
  shows "distinct (map (var_id \<circ> fst) vs)"
proof -
  have "set (map ol_variantId ls) \<subseteq> set (map (var_id \<circ> fst) vs)"
    using assms(1) by (force simp: priced_ok_def line_ok_def list_all_iff)
  then have "card (set (map ol_variantId ls)) \<le> card (set (map (var_id \<circ> fst) vs))"
    by (intro card_mono) auto
  then have "length (map (var_id \<circ> fst) vs) \<le> card (set (map (var_id \<circ> fst) vs))"
    using assms(2,3) distinct_card [of "map ol_variantId ls"] by simp
  then show ?thesis by (metis card_distinct card_length le_antisym)
qed

definition allocation_ok :: "int \<Rightarrow> 'a stock_db_scheme \<Rightarrow> item list \<Rightarrow> allocation \<Rightarrow> bool" where
  "allocation_ok t db its a =
     (\<exists>i\<in>set its. i \<in> set (items db) \<and> item_id i = al_itemId a \<and> item_variantId i = al_variantId a
        \<and> 0 < al_quantity a \<and> al_quantity a \<le> available t db i)"

definition allocations_ok :: "int \<Rightarrow> 'a stock_db_scheme \<Rightarrow> item list \<Rightarrow> order_line list \<Rightarrow> allocation list \<Rightarrow> bool" where
  "allocations_ok t db its ls as =
     (distinct (map item_id its) \<and> distinct (map al_itemId as) \<and> list_all (allocation_ok t db its) as
      \<and> list_all (\<lambda>l. allocated (ol_variantId l) as = ol_quantity l) ls
      \<and> list_all (\<lambda>a. al_variantId a \<in> ol_variantId ` set ls) as)"

lemma allocate_stock_ok:
  assumes "allocate_stock e db its ls = Inr as" and "distinct (map item_id its)" and "set its \<subseteq> set (items db)"
    and "distinct (map ol_variantId ls)" and "list_all (\<lambda>l. 0 < ol_quantity l) ls"
  shows "allocations_ok (now e) db its ls as"
proof -
  from assms(1) obtain bs where b: "mapE (allocation_bucket e db) its = Inr bs"
    and a: "allocateInventory ls bs = Some as" by (auto simp: allocate_stock_def)
  from b have l2: "list_all2 (\<lambda>i b. allocation_bucket e db i = Inr b) its bs" by (simp add: mapE_Inr)
  then have ids: "map bk_id bs = map item_id its"
    by (induction rule: list_all2_induct) (auto dest: allocation_bucket_Inr(1))
  have good: "good_allocation ls bs as"
    using allocateInventory_spec(1) [OF assms(4,5) _ a] assms(2) ids by simp
  have "allocation_ok (now e) db its x" if "from_bucket bs x" for x
  proof -
    from that obtain b where b': "b \<in> set bs" "bk_id b = al_itemId x" "bk_variantId b = al_variantId x"
      "0 < al_quantity x" "al_quantity x \<le> bk_available b" by (auto simp: from_bucket_def)
    from mapE_set [OF b b'(1)] obtain i where "i \<in> set its" "allocation_bucket e db i = Inr b" by blast
    with b' allocation_bucket_Inr [OF this(2)] assms(3) show ?thesis
      unfolding allocation_ok_def by (intro bexI [of _ i]) auto
  qed
  then have "list_all (allocation_ok (now e) db its) as"
    using good by (auto simp: good_allocation_def list_all_iff)
  with good assms(2) show ?thesis by (simp add: allocations_ok_def good_allocation_def)
qed

section \<open>The settled order\<close>

definition settled_ok :: "int \<Rightarrow> 'a shop_db_scheme \<Rightarrow> checkout_input \<Rightarrow> settled \<Rightarrow> bool" where
  "settled_ok t db input s =
     ((\<exists>vs. priced_ok vs (ci_items input) (st_priced s))
      \<and> allocations_ok t db (st_items s) (ci_items input) (st_allocations s)
      \<and> st_grandTotal s = lines_total totalMillimes (st_priced s) + ff_deliveryTotalMillimes (st_fulfillment s)
      \<and> 0 \<le> ff_deliveryTotalMillimes (st_fulfillment s)
      \<and> at_most (ff_maxCodMillimes (st_fulfillment s)) (st_grandTotal s))"

definition request_ok :: "checkout_input \<Rightarrow> bool" where
  "request_ok input = (distinct (map ol_variantId (ci_items input))
     \<and> list_all (\<lambda>l. 0 < ol_quantity l) (ci_items input))"

lemma settle_cart_ok:
  assumes "settle_cart e db input a = Inr (its, priced, as)" and "distinct (map item_id (items db))"
    and "request_ok input"
  shows "\<exists>vs. priced_ok vs (ci_items input) priced" and "allocations_ok (now e) db its (ci_items input) as"
proof -
  let ?ids = "map ol_variantId (ci_items input)"
  let ?vs = "checkout_variants e db ?ids" and ?cs = "inventory_candidates e db ?ids"
  from assms(1) have len: "length ?vs = length (ci_items input)"
    and p: "price_cart ?vs a (ci_items input) = Inr priced"
    and al: "allocate_stock e db its (ci_items input) = Inr as" and its: "its = variant_items ?cs ?vs"
    by (auto simp: settle_cart_def Let_def)
  note ok = price_cart_ok [OF p]
  then show "\<exists>vs. priced_ok vs (ci_items input) priced" by blast
  have r: "distinct ?ids" "list_all (\<lambda>l. 0 < ol_quantity l) (ci_items input)"
    using assms(3) by (simp_all add: request_ok_def)
  have c: "distinct (map item_id ?cs)" "set ?cs \<subseteq> set (items db)"
    using assms(2) by (auto simp: inventory_candidates_def distinct_map_filter)
  note v = variant_items_distinct [OF c(1) priced_variants_distinct [OF ok len r(1)]]
  show "allocations_ok (now e) db its (ci_items input) as"
    by (rule allocate_stock_ok [OF al]) (use v c(2) r its in auto)
qed

lemma settle_ok:
  assumes "settle cfg e db input userId = Inr s" and "distinct (map item_id (items db))" and "request_ok input"
  shows "settled_ok (now e) db input s"
proof -
  from assms(1) obtain age c where
    sc: "settle_cart e db input age = Inr (st_items s, st_priced s, st_allocations s)" and
    d: "addMillimes [pc_subtotalMillimes (st_priced s), - pc_discountTotalMillimes (st_priced s)] = Inr c" and
    ff: "resolveFulfillment e db input c (pc_totalWeightGrams (st_priced s)) = Inr (st_fulfillment s)" and
    g: "addMillimes [c, pc_taxTotalMillimes (st_priced s), ff_deliveryTotalMillimes (st_fulfillment s)]
          = Inr (st_grandTotal s)" and
    m: "at_most (ff_maxCodMillimes (st_fulfillment s)) (st_grandTotal s)"
    by (auto simp: settle_def Let_def split: option.splits)
  note cart = settle_cart_ok [OF sc assms(2,3)]
  then obtain vs where p: "priced_ok vs (ci_items input) (st_priced s)" by blast
  have cc: "c = pc_subtotalMillimes (st_priced s) - pc_discountTotalMillimes (st_priced s)"
    using d by (simp add: addMillimes_2)
  note tot = priced_ok_totals [OF p] and fee = resolveFulfillment_fee [OF ff]
  have "st_grandTotal s = c + pc_taxTotalMillimes (st_priced s) + ff_deliveryTotalMillimes (st_fulfillment s)"
    using addMillimes_nonneg_Inr(1) [OF g] tot fee cc by simp
  then show ?thesis using cart m fee tot cc by (simp add: settled_ok_def)
qed

section \<open>What each phase writes\<close>

text \<open>The tables the properties speak about.\<close>

definition untouched :: "'a shop_db_scheme \<Rightarrow> 'a shop_db_scheme \<Rightarrow> bool" where
  "untouched db db' =
     (items db' = items db \<and> movements db' = movements db \<and> reservations db' = reservations db
      \<and> orders db' = orders db \<and> order_items db' = order_items db \<and> collections db' = collections db
      \<and> claims db' = claims db \<and> carts db' = carts db \<and> deliveries db' = deliveries db
      \<and> reference db' = reference db \<and> shop_db.more db' = shop_db.more db)"

lemma untouched_refl [simp]: "untouched db db"
  by (simp add: untouched_def)

lemma untouched_trans [trans]: "untouched a b \<Longrightarrow> untouched b c \<Longrightarrow> untouched a c"
  by (simp add: untouched_def)

lemma outbox_frame_untouched: "outbox_frame db db' \<Longrightarrow> untouched db db'"
  by (auto simp: outbox_frame_def untouched_def)

lemma nextOrderNumber_frame: "nextOrderNumber e db = Inr (n, db') \<Longrightarrow> untouched db db'"
  by (auto simp: nextOrderNumber_def untouched_def Let_def split: list.splits)

lemma createAddressSnapshot_frame: "createAddressSnapshot e oid input ff db = Inr db' \<Longrightarrow> untouched db db'"
  by (auto simp: createAddressSnapshot_def untouched_def Let_def)

lemma record_consents_frame:
  assumes "record_consents e oid input s db = Inr db'"
  shows "untouched db db'"
proof -
  from assms obtain db1 where
    f: "foldE (\<lambda>row d. bindE (create_order_consent e row d) (\<lambda>(_, d1). Inr d1)) (consent_rows e oid input s) db
          = Inr db1" and
    a: "untouched db1 db'"
    by (auto simp: record_consents_def Let_def untouched_def split: if_splits)
  have "untouched db db1"
    by (rule foldE_inv [OF f, of "untouched db"]) (auto simp: untouched_def Let_def)
  with a show ?thesis by (rule untouched_trans [rotated -1])
qed

lemma notify_order_frame:
  assumes "notify_order e input s o' db = Inr db'"
  shows "untouched db db'"
proof -
  from assms obtain db1 where 1: "outbox_frame db db1" and 2: "outbox_frame db1 db'"
    by (auto simp: notify_order_def split: if_splits
        dest: createOrderNotificationsWithOutbox_frame createOperationalAlertWithOutbox_frame)
  from outbox_frame_trans [OF 1 2] show ?thesis by (rule outbox_frame_untouched)
qed

lemma create_audit_frame: "create_audit e row db = Inr (r, db') \<Longrightarrow> untouched db db'"
  by (auto simp: untouched_def Let_def)

text \<open>\<open>open_delivery\<close> adds a delivery, with the status of the order, and the cash that is expected.\<close>

definition opens_delivery :: "order \<Rightarrow> delivery list \<Rightarrow> delivery list \<Rightarrow> bool" where
  "opens_delivery o' ds ds' =
     (\<exists>d. ds' = ds @ [d] \<and> dlv_orderId d = ord_id o' \<and> dlv_status d = PENDING_CONFIRMATION
        \<and> dlv_id d \<notin> dlv_id ` set ds \<and> ord_id o' \<notin> dlv_orderId ` set ds)"

lemma open_delivery_effect:
  assumes "open_delivery e userId s o' db = Inr db'"
  obtains c where "collections db' = collections db @ [c]" and "col_orderId c = ord_id o'"
    and "col_status c = EXPECTED" and "col_expectedMillimes c = ord_expectedCodMillimes o'"
    and "col_collectedMillimes c = 0"
    and "untouched db (db'\<lparr> collections := collections db, deliveries := deliveries db \<rparr>)"
    and "opens_delivery o' (deliveries db) (deliveries db')"
proof -
  from assms obtain row h db1 row2 d db2 row3 v db3 row4 c where
    h: "create_status_history e row db = Inr (h, db1)" and
    d: "create_delivery e row2 db1 = Inr (d, db2)" "dlv_orderId row2 = ord_id o'"
      "dlv_status row2 = PENDING_CONFIRMATION" and
    v: "create_delivery_event e row3 db2 = Inr (v, db3)" and
    c: "create_collection e row4 db3 = Inr (c, db')" "col_orderId row4 = ord_id o'" "col_status row4 = EXPECTED"
      "col_expectedMillimes row4 = ord_expectedCodMillimes o'" "col_collectedMillimes row4 = 0"
    by (auto simp: open_delivery_def Let_def
        simp del: create_status_history_Inr create_delivery_Inr create_delivery_event_Inr create_collection_Inr)
  from h v have same: "deliveries db1 = deliveries db" "collections db3 = collections db2"
    "deliveries db3 = deliveries db2" "collections db1 = collections db"
    "untouched db db1" "untouched db2 db3" by (auto simp: untouched_def Let_def)
  from d have dd: "opens_delivery o' (deliveries db1) (deliveries db2)" "collections db2 = collections db1"
    "untouched db1 (db2\<lparr> deliveries := deliveries db1 \<rparr>)"
    by (auto simp: untouched_def Let_def opens_delivery_def)
  from c have cc: "collections db' = collections db3 @ [c]" "deliveries db' = deliveries db3"
    "col_orderId c = ord_id o'" "col_status c = EXPECTED" "col_expectedMillimes c = ord_expectedCodMillimes o'"
    "col_collectedMillimes c = 0" "untouched db3 (db'\<lparr> collections := collections db3 \<rparr>)"
    by (auto simp: untouched_def Let_def)
  show ?thesis
    by (rule that [OF _ cc(3-6)]) (use same dd cc in \<open>simp_all add: untouched_def\<close>)
qed

lemma complete_claim_effect:
  assumes "complete_claim e claim oid db = Inr db'"
  shows "claims db' = update_where (\<lambda>c. clm_id c = clm_id claim)
           (\<lambda>c. c\<lparr> clm_orderId := Some oid, clm_completedAt := Some (now e) \<rparr>) (claims db)"
    and "untouched db (db'\<lparr> claims := claims db \<rparr>)"
  using assms by (auto simp: complete_claim_def untouched_def)

lemma convert_cart_effect:
  assumes "convert_cart e c db = Inr db'"
  shows "carts db' = update_where (\<lambda>x. cart_id x = cart_id c \<and> cart_status x = CART_ACTIVE \<and> cart_version x = cart_version c)
           (\<lambda>x. x\<lparr> cart_status := CART_CONVERTED, cart_convertedAt := Some (now e),
                  cart_version := cart_version x + 1, cart_updatedAt := now e \<rparr>) (carts db)"
    and "untouched db (db'\<lparr> carts := carts db \<rparr>)"
    and "count_where (\<lambda>x. cart_id x = cart_id c \<and> cart_status x = CART_ACTIVE \<and> cart_version x = cart_version c) (carts db) = 1"
  using assms by (auto simp: convert_cart_def Let_def untouched_def)

section \<open>The lines of the order\<close>

definition item_for :: "string \<Rightarrow> priced_line \<Rightarrow> order_item \<Rightarrow> bool" where
  "item_for oid pl r =
     (oi_orderId r = oid \<and> oi_variantId r = Some (var_id (pl_variant pl))
      \<and> oi_quantity r = ol_quantity (pl_requested pl)
      \<and> oi_lineSubtotalMillimes r = listSubtotalMillimes (pl_calculation pl)
      \<and> oi_lineDiscountMillimes r = discountMillimes (pl_calculation pl)
      \<and> oi_lineTaxMillimes r = taxMillimes (pl_calculation pl)
      \<and> oi_lineTotalMillimes r = totalMillimes (pl_calculation pl))"

lemma order_item_row_for: "order_item_row s oid pl = Inr r \<Longrightarrow> item_for oid pl (r\<lparr> oi_id := k \<rparr>)"
  by (auto simp: order_item_row_def Let_def item_for_def)

definition lines_written ::
  "string \<Rightarrow> 'a shop_db_scheme \<Rightarrow> priced_line list \<Rightarrow> (string \<times> string) list \<times> 'a shop_db_scheme \<Rightarrow> bool" where
  "lines_written oid db pls x =
     (\<exists>rs. order_items (snd x) = order_items db @ rs \<and> list_all2 (item_for oid) pls rs
        \<and> distinct (map oi_id rs)
        \<and> (\<forall>v k. map_of (fst x) v = Some k \<longrightarrow> (\<exists>r\<in>set rs. oi_variantId r = Some v \<and> oi_id r = k))
        \<and> untouched db ((snd x)\<lparr> order_items := order_items db \<rparr>))"

lemma create_line_written:
  assumes "create_line e s oid pl x = Inr y" and "lines_written oid db pls x"
  shows "lines_written oid db (pls @ [pl]) y"
proof -
  from assms(2) obtain rs where rs: "order_items (snd x) = order_items db @ rs" "list_all2 (item_for oid) pls rs"
    "distinct (map oi_id rs)"
    "\<And>v k. map_of (fst x) v = Some k \<Longrightarrow> \<exists>r\<in>set rs. oi_variantId r = Some v \<and> oi_id r = k"
    "untouched db ((snd x)\<lparr> order_items := order_items db \<rparr>)"
    unfolding lines_written_def by blast
  from assms(1) obtain row r db1 where row: "order_item_row s oid pl = Inr row"
    and c: "create_order_item e row (snd x) = Inr (r, db1)"
    and y: "y = ((case or_null (oi_variantId r) of Some v \<Rightarrow> (v, oi_id r) # fst x | None \<Rightarrow> fst x), db1)"
    by (auto simp: create_line_def simp del: create_order_item_Inr)
  from c have r: "r = row\<lparr> oi_id := fresh_id e (snd x) \<rparr>" "oi_id r \<notin> oi_id ` set (order_items (snd x))"
    and db1: "db1 = (snd x)\<lparr> order_items := order_items (snd x) @ [r], seq := Suc (seq (snd x)) \<rparr>"
    by (auto simp: Let_def)
  have fo: "item_for oid pl r" using order_item_row_for [OF row] r(1) by simp
  have "\<exists>r'\<in>set (rs @ [r]). oi_variantId r' = Some v \<and> oi_id r' = k" if "map_of (fst y) v = Some k" for v k
    using that rs(4) [of v k] y by (auto simp: or_null_def split: option.splits if_splits)
  moreover have "untouched db (snd y\<lparr> order_items := order_items db \<rparr>)"
    using rs(5) y db1 by (simp add: untouched_def)
  moreover have "order_items (snd y) = order_items db @ (rs @ [r])" using y db1 rs(1) by simp
  moreover have "list_all2 (item_for oid) (pls @ [pl]) (rs @ [r])" using rs(2) fo by (simp add: list_all2_appendI)
  moreover have "distinct (map oi_id (rs @ [r]))" using rs(1,3) r(2) by auto
  ultimately show ?thesis unfolding lines_written_def by blast
qed

lemma create_lines_written:
  assumes "foldE (create_line e s oid) pls ([], db) = Inr y"
  shows "lines_written oid db pls y"
proof -
  have "lines_written oid db [] ([], db)" by (simp add: lines_written_def untouched_def)
  from foldE_prefix [of _ _ _ _ "lines_written oid db", OF assms this create_line_written] show ?thesis by simp
qed

section \<open>The reservations of the order\<close>

text \<open>A movement that changes nothing.\<close>

lemma stock_inv_note:
  assumes inv: "stock_inv t db" and i: "i \<in> set (items db)"
    and m: "mv_itemId m = item_id i" "mv_delta m = 0" "mv_onHandAfter m = item_onHand i"
    and db': "items db' = items db" "movements db' = movements db @ [m]" "reservations db' = reservations db"
  shows "stock_inv t db'"
proof -
  have "item_ok t (movements db') (reservations db') j" if j: "j \<in> set (items db)" for j
  proof -
    have ok: "item_ok t (movements db) (reservations db) j" using stock_invD(4) [OF inv j] .
    have e: "j = i" if "item_id j = item_id i" using key_unique [OF stock_invD(1) [OF inv] j i that] .
    have l: "sum_by mv_delta (item_movements (movements db) (item_id j)) = item_onHand j"
      and bal: "balanced 0 (item_movements (movements db) (item_id j))"
      using ok by (simp_all add: item_ok_def ledger_def)
    have "item_movements (movements db') (item_id j) = item_movements (movements db) (item_id j)
        @ (if item_id j = item_id i then [m] else [])" using m(1) db'(2) by simp
    moreover have "item_onHand i = item_onHand j" if "item_id j = item_id i" using e [OF that] by simp
    ultimately have "balanced 0 (item_movements (movements db') (item_id j))"
      using bal m l by (simp add: balanced_append split: if_splits)
    moreover have "ledger (movements db') (item_id j) = ledger (movements db) (item_id j)"
      using m db'(2) by simp
    ultimately show ?thesis using ok db'(3) unfolding item_ok_def by metis
  qed
  then show ?thesis using inv i m db' by (auto simp: stock_inv_def)
qed

definition reservation_for ::
  "env \<Rightarrow> string \<Rightarrow> (string \<times> string) list \<Rightarrow> allocation \<Rightarrow> reservation \<Rightarrow> bool" where
  "reservation_for e oid ids a r =
     (res_itemId r = al_itemId a \<and> res_quantity r = al_quantity a \<and> res_orderId r = Some oid
      \<and> res_state r = RS_ACTIVE \<and> res_expiresAt r = now e + RESERVATION_TTL_MS
      \<and> res_orderItemId r = map_of ids (al_variantId a) \<and> res_orderItemId r \<noteq> None)"

lemma reserve_allocation_effect:
  assumes "reserve_allocation e userId s oid ids a db = Inr db'"
  obtains i r m where "List.find (\<lambda>i. item_id i = al_itemId a) (st_items s) = Some i"
    and "reservation_for e oid ids a r" and "reservations db' = reservations db @ [r]"
    and "movements db' = movements db @ [m]" and "mv_itemId m = item_id i" and "mv_delta m = 0"
    and "mv_onHandAfter m = item_onHand i"
    and "untouched db (db'\<lparr> reservations := reservations db, movements := movements db \<rparr>)"
proof -
  from assms obtain i k where f: "List.find (\<lambda>i. item_id i = al_itemId a) (st_items s) = Some i"
    and k: "or_null (map_of ids (al_variantId a)) = Some k"
    by (auto simp: reserve_allocation_def split: option.splits)
  from k have m: "map_of ids (al_variantId a) = Some k"
    by (auto simp: or_null_def split: option.splits if_splits)
  from assms f k m find_SomeD [OF f] show ?thesis
    by (intro that [OF f]) (auto simp: reserve_allocation_def Let_def untouched_def reservation_for_def)
qed

lemma reservation_for_order: "reservation_for e oid ids a r \<Longrightarrow> res_orderId r = Some oid"
  by (simp add: reservation_for_def)

lemma reservation_expiry: "reservation_for e oid ids a r \<Longrightarrow> active_at (now e) r"
  by (simp add: reservation_for_def active_at_def RESERVATION_TTL_MS_def)

definition reservable :: "int \<Rightarrow> 'a stock_db_scheme \<Rightarrow> item list \<Rightarrow> allocation list \<Rightarrow> bool" where
  "reservable t db its as =
     (distinct (map item_id its) \<and> distinct (map al_itemId as) \<and> list_all (allocation_ok t db its) as)"

lemma reserve_one:
  assumes run: "reserve_allocation e userId s oid ids a db = Inr db1"
    and inv: "stock_inv (now e) db" and ok: "reservable (now e) db (st_items s) (a # as)"
  shows "stock_inv (now e) db1" and "reservable (now e) db1 (st_items s) as"
    and "items db1 = items db"
    and "\<exists>r. reservations db1 = reservations db @ [r] \<and> reservation_for e oid ids a r"
    and "untouched db (db1\<lparr> reservations := reservations db, movements := movements db \<rparr>)"
proof -
  from run obtain i r m where f: "List.find (\<lambda>i. item_id i = al_itemId a) (st_items s) = Some i"
    and r: "reservation_for e oid ids a r" and rs: "reservations db1 = reservations db @ [r]"
    and ms: "movements db1 = movements db @ [m]" and m: "mv_itemId m = item_id i" "mv_delta m = 0"
      "mv_onHandAfter m = item_onHand i"
    and u: "untouched db (db1\<lparr> reservations := reservations db, movements := movements db \<rparr>)"
    by (rule reserve_allocation_effect)
  show its: "items db1 = items db" using u by (simp add: untouched_def)
  show "\<exists>r. reservations db1 = reservations db @ [r] \<and> reservation_for e oid ids a r" using rs r by blast
  show "untouched db (db1\<lparr> reservations := reservations db, movements := movements db \<rparr>)" by (fact u)
  from ok obtain j where j: "j \<in> set (st_items s)" "j \<in> set (items db)" "item_id j = al_itemId a"
    "0 < al_quantity a" "al_quantity a \<le> available (now e) db j"
    by (auto simp: reservable_def allocation_ok_def)
  have ij: "i = j"
    using key_unique [of item_id "st_items s" i j] find_SomeD [OF f] j ok by (simp add: reservable_def)
  have i: "i \<in> set (items db)" "item_id i = al_itemId a" using j ij by simp_all
  define dbr where "dbr = db\<lparr> reservations := reservations db @ [r] \<rparr>"
  have s1: "stock_inv (now e) dbr"
    by (rule stock_inv_reserve [OF inv i(1), of r])
      (use j ij r in \<open>auto simp: dbr_def reservation_for_def\<close>)
  show "stock_inv (now e) db1"
    by (rule stock_inv_note [OF s1, of i m]) (use i m ms rs its in \<open>simp_all add: dbr_def\<close>)
  have "allocation_ok (now e) db1 (st_items s) b" if b: "b \<in> set as" for b
  proof -
    have "al_itemId b \<noteq> al_itemId a" using ok imageI [OF b, of al_itemId] by (auto simp: reservable_def)
    with r have "available (now e) db1 k = available (now e) db k" if "item_id k = al_itemId b" for k
      using that rs by (simp add: available_def reservation_for_def)
    moreover have "allocation_ok (now e) db (st_items s) b"
      using ok b by (simp add: reservable_def list_all_iff)
    ultimately show ?thesis using its unfolding allocation_ok_def by metis
  qed
  then show "reservable (now e) db1 (st_items s) as" using ok by (simp add: reservable_def list_all_iff)
qed

lemma reserve_all:
  assumes "foldE (reserve_allocation e userId s oid ids) as db = Inr db'"
    and "stock_inv (now e) db" and "reservable (now e) db (st_items s) as"
  shows "stock_inv (now e) db' \<and> (\<exists>rs. reservations db' = reservations db @ rs
           \<and> list_all2 (reservation_for e oid ids) as rs)
         \<and> untouched db (db'\<lparr> reservations := reservations db, movements := movements db \<rparr>)"
  using assms
proof (induction as arbitrary: db)
  case Nil
  then show ?case by (auto simp: untouched_def)
next
  case (Cons a as)
  from Cons.prems(1) obtain db1 where 1: "reserve_allocation e userId s oid ids a db = Inr db1"
    and 2: "foldE (reserve_allocation e userId s oid ids) as db1 = Inr db'" by auto
  note one = reserve_one [OF 1 Cons.prems(2,3)]
  from one(4) obtain r where r: "reservations db1 = reservations db @ [r]" "reservation_for e oid ids a r" by blast
  from Cons.IH [OF 2 one(1,2)] obtain rs where ih: "stock_inv (now e) db'"
    "reservations db' = reservations db1 @ rs" "list_all2 (reservation_for e oid ids) as rs"
    "untouched db1 (db'\<lparr> reservations := reservations db1, movements := movements db1 \<rparr>)" by blast
  have "reservations db' = reservations db @ (r # rs)" using ih(2) r(1) by simp
  moreover have "list_all2 (reservation_for e oid ids) (a # as) (r # rs)" using r(2) ih(3) by simp
  moreover have "untouched db (db'\<lparr> reservations := reservations db, movements := movements db \<rparr>)"
    using one(5) ih(4) by (simp add: untouched_def)
  ultimately show ?case using ih(1) by blast
qed

section \<open>The whole transaction\<close>

text \<open>The rows of a new order and what they are worth.\<close>

definition placed :: "checkout_input \<Rightarrow> order \<Rightarrow> order_item list \<Rightarrow> collection \<Rightarrow> bool" where
  "placed input o' rows c =
     (map (\<lambda>i. (oi_variantId i, oi_quantity i)) rows
        = map (\<lambda>l. (Some (ol_variantId l), ol_quantity l)) (ci_items input)
      \<and> list_all (\<lambda>i. oi_orderId i = ord_id o') rows
      \<and> ord_subtotalMillimes o' = sum_by oi_lineSubtotalMillimes rows
      \<and> ord_discountTotalMillimes o' = sum_by oi_lineDiscountMillimes rows
      \<and> ord_taxTotalMillimes o' = sum_by oi_lineTaxMillimes rows
      \<and> 0 \<le> ord_deliveryTotalMillimes o'
      \<and> ord_grandTotalMillimes o' = sum_by oi_lineTotalMillimes rows + ord_deliveryTotalMillimes o'
      \<and> ord_expectedCodMillimes o' = ord_grandTotalMillimes o'
      \<and> col_orderId c = ord_id o' \<and> col_status c = EXPECTED \<and> col_collectedMillimes c = 0
      \<and> col_expectedMillimes c = ord_grandTotalMillimes o')"

text \<open>The reservations \<open>rs\<close> hold exactly what the order item asks for.\<close>

definition covered_by :: "reservation list \<Rightarrow> order_item \<Rightarrow> bool" where
  "covered_by rs i =
     (sum_by res_quantity (filter (\<lambda>r. res_orderItemId r = Some (oi_id i)) rs) = oi_quantity i)"

lemma item_for_sums:
  assumes "list_all2 (item_for oid) pls rows"
  shows "sum_by oi_lineSubtotalMillimes rows = sum_by (\<lambda>pl. listSubtotalMillimes (pl_calculation pl)) pls"
    and "sum_by oi_lineDiscountMillimes rows = sum_by (\<lambda>pl. discountMillimes (pl_calculation pl)) pls"
    and "sum_by oi_lineTaxMillimes rows = sum_by (\<lambda>pl. taxMillimes (pl_calculation pl)) pls"
    and "sum_by oi_lineTotalMillimes rows = sum_by (\<lambda>pl. totalMillimes (pl_calculation pl)) pls"
    and "list_all (\<lambda>i. oi_orderId i = oid) rows"
  using assms by (induction rule: list_all2_induct) (auto simp: item_for_def)

lemma item_for_lines:
  assumes "list_all2 (item_for oid) pls rows" and "list_all (line_ok vs) pls"
  shows "map (\<lambda>i. (oi_variantId i, oi_quantity i)) rows
    = map (\<lambda>l. (Some (ol_variantId l), ol_quantity l)) (map pl_requested pls)"
  using assms by (induction rule: list_all2_induct) (auto simp: item_for_def line_ok_def)

lemma placedI:
  assumes "settled_ok t db input s" and "list_all2 (item_for (ord_id o')) (pc_lines (st_priced s)) rows"
    and "o' = (order_row e input s n)\<lparr> ord_id := k \<rparr>"
    and "col_orderId c = ord_id o'" "col_status c = EXPECTED" "col_collectedMillimes c = 0"
      "col_expectedMillimes c = ord_expectedCodMillimes o'"
  shows "placed input o' rows c"
proof -
  from assms(1) obtain vs where p: "priced_ok vs (ci_items input) (st_priced s)" by (auto simp: settled_ok_def)
  note sums = item_for_sums [OF assms(2)]
  have la: "list_all (line_ok vs) (pc_lines (st_priced s))"
    and req: "map pl_requested (pc_lines (st_priced s)) = ci_items input" using p by (simp_all add: priced_ok_def)
  note lines = item_for_lines [OF assms(2) la, unfolded req]
  show ?thesis using assms sums lines p
    by (simp add: placed_def settled_ok_def order_row_def Let_def priced_ok_def lines_total_def)
qed

lemma allocated_reservations:
  assumes "list_all2 (reservation_for e oid ids) as rs"
    and "\<And>a. a \<in> set as \<Longrightarrow> (map_of ids (al_variantId a) = Some k) = (al_variantId a = v)"
  shows "sum_by res_quantity (filter (\<lambda>r. res_orderItemId r = Some k) rs) = allocated v as"
  using assms
  by (induction rule: list_all2_induct) (auto simp: reservation_for_def allocated_def)

lemma covered_byI:
  assumes rs: "list_all2 (reservation_for e oid ids) as rs"
    and ids: "\<And>v k. map_of ids v = Some k \<Longrightarrow> \<exists>r\<in>set rows. oi_variantId r = Some v \<and> oi_id r = k"
    and d: "distinct (map oi_id rows)" "distinct (map oi_variantId rows)"
    and i: "i \<in> set rows" "oi_variantId i = Some v" "allocated v as = oi_quantity i"
  shows "covered_by rs i"
proof -
  have some: "map_of ids (al_variantId a) \<noteq> None" if "a \<in> set as" for a
    using rs that by (induction rule: list_all2_induct) (auto simp: reservation_for_def dest: sym)
  have "(map_of ids (al_variantId a) = Some (oi_id i)) = (al_variantId a = v)" if a: "a \<in> set as" for a
  proof
    assume "map_of ids (al_variantId a) = Some (oi_id i)"
    from ids [OF this] obtain r where "r \<in> set rows" "oi_variantId r = Some (al_variantId a)" "oi_id r = oi_id i"
      by blast
    with key_unique [OF d(1) this(1) i(1) this(3)] i(2) show "al_variantId a = v" by simp
  next
    assume v: "al_variantId a = v"
    from some [OF a] obtain k where k: "map_of ids (al_variantId a) = Some k" by blast
    from ids [OF k] obtain r where "r \<in> set rows" "oi_variantId r = Some (al_variantId a)" "oi_id r = k" by blast
    with key_unique [OF d(2) this(1) i(1)] i(2) v k show "map_of ids (al_variantId a) = Some (oi_id i)" by simp
  qed
  from allocated_reservations [OF rs this] i(3) show ?thesis by (simp add: covered_by_def)
qed

text \<open>What the parts of a successful \<open>write_order\<close> have done.\<close>

lemma write_records_effect:
  assumes "write_records e input userId s o' db = Inr db'"
  obtains c where "collections db' = collections db @ [c]" and "col_orderId c = ord_id o'"
    and "col_status c = EXPECTED" and "col_expectedMillimes c = ord_expectedCodMillimes o'"
    and "col_collectedMillimes c = 0"
    and "untouched db (db'\<lparr> collections := collections db, deliveries := deliveries db \<rparr>)"
    and "opens_delivery o' (deliveries db) (deliveries db')"
proof -
  from assms obtain db1 db2 db3 db4 a where
    p: "createAddressSnapshot e (ord_id o') input (st_fulfillment s) db = Inr db1"
       "record_consents e (ord_id o') input s db1 = Inr db2" "open_delivery e userId s o' db2 = Inr db3"
       "notify_order e input s o' db3 = Inr db4" "create_audit e (checkout_audit e userId s o') db4 = Inr (a, db')"
    by (auto simp: write_records_def simp del: create_audit_Inr)
  from open_delivery_effect [OF p(3)] obtain c where c: "collections db3 = collections db2 @ [c]"
    "col_orderId c = ord_id o'" "col_status c = EXPECTED" "col_expectedMillimes c = ord_expectedCodMillimes o'"
    "col_collectedMillimes c = 0"
    "untouched db2 (db3\<lparr> collections := collections db2, deliveries := deliveries db2 \<rparr>)"
    "opens_delivery o' (deliveries db2) (deliveries db3)" by blast
  note us = createAddressSnapshot_frame [OF p(1)] record_consents_frame [OF p(2)] c(6)
    notify_order_frame [OF p(4)] create_audit_frame [OF p(5)]
  show ?thesis by (rule that [OF _ c(2-5)]) (use us c(1,7) in \<open>simp_all add: untouched_def\<close>)
qed

lemma write_lines_effect:
  assumes run: "write_lines e input userId s db = Inr (o', db')"
    and inv: "stock_inv (now e) db" and ok: "settled_ok (now e) db input s"
  obtains n rows ids rs where "o' = (order_row e input s n)\<lparr> ord_id := ord_id o' \<rparr>"
    and "ord_id o' \<notin> ord_id ` set (orders db)" and "orders db' = orders db @ [o']"
    and "order_items db' = order_items db @ rows"
    and "list_all2 (item_for (ord_id o')) (pc_lines (st_priced s)) rows" and "distinct (map oi_id rows)"
    and "\<And>v k. map_of ids v = Some k \<Longrightarrow> \<exists>r\<in>set rows. oi_variantId r = Some v \<and> oi_id r = k"
    and "reservations db' = reservations db @ rs"
    and "list_all2 (reservation_for e (ord_id o') ids) (st_allocations s) rs" and "stock_inv (now e) db'"
    and "untouched db (db'\<lparr> orders := orders db, order_items := order_items db,
            reservations := reservations db, movements := movements db \<rparr>)"
proof -
  from run obtain n db1 db2 ids db3 where
    p1: "nextOrderNumber e db = Inr (n, db1)" and
    p2: "create_order e (order_row e input s n) db1 = Inr (o', db2)" and
    p3: "foldE (create_line e s (ord_id o')) (pc_lines (st_priced s)) ([], db2) = Inr (ids, db3)" and
    p4: "foldE (reserve_allocation e userId s (ord_id o') ids) (st_allocations s) db3 = Inr db'"
    by (auto simp: write_lines_def simp del: create_order_Inr)
  from p2 have o': "o' = (order_row e input s n)\<lparr> ord_id := ord_id o' \<rparr>"
      "ord_id o' \<notin> ord_id ` set (orders db1)"
    and db2: "orders db2 = orders db1 @ [o']" "untouched db1 (db2\<lparr> orders := orders db1 \<rparr>)"
    by (auto simp: Let_def untouched_def)
  note u1 = nextOrderNumber_frame [OF p1]
  from create_lines_written [OF p3] obtain rows where rows: "order_items db3 = order_items db2 @ rows"
    "list_all2 (item_for (ord_id o')) (pc_lines (st_priced s)) rows" "distinct (map oi_id rows)"
    "\<And>v k. map_of ids v = Some k \<Longrightarrow> \<exists>r\<in>set rows. oi_variantId r = Some v \<and> oi_id r = k"
    "untouched db2 (db3\<lparr> order_items := order_items db2 \<rparr>)"
    unfolding lines_written_def fst_conv snd_conv by blast
  note us = u1 [unfolded untouched_def] db2(2) [unfolded untouched_def] rows(5) [unfolded untouched_def]
  have same3: "items db3 = items db" "movements db3 = movements db" "reservations db3 = reservations db"
    using us by simp_all
  have inv3: "stock_inv (now e) db3" using inv stock_inv_cong [OF same3] by simp
  have "reservable (now e) db3 (st_items s) (st_allocations s)"
    using ok same3 by (simp add: settled_ok_def allocations_ok_def reservable_def allocation_ok_def
        available_def list_all_iff)
  from reserve_all [OF p4 inv3 this] obtain rs where res: "stock_inv (now e) db'"
    "reservations db' = reservations db3 @ rs"
    "list_all2 (reservation_for e (ord_id o') ids) (st_allocations s) rs"
    "untouched db3 (db'\<lparr> reservations := reservations db3, movements := movements db3 \<rparr>)" by blast
  have "ord_id o' \<notin> ord_id ` set (orders db)" using o'(2) us(1) by simp
  moreover have "orders db' = orders db @ [o']"
    using res(4) rows(5) db2(1) u1 by (simp add: untouched_def)
  moreover have "order_items db' = order_items db @ rows"
    using res(4) rows(1) db2(2) u1 by (simp add: untouched_def)
  moreover have "reservations db' = reservations db @ rs" using res(2) same3(3) by simp
  moreover have "untouched db (db'\<lparr> orders := orders db, order_items := order_items db,
      reservations := reservations db, movements := movements db \<rparr>)"
    using res(4) us same3 by (simp add: untouched_def)
  ultimately show ?thesis
    using that [of n rows ids rs] o'(1) rows(2-4) res(1,3) by blast
qed

lemma placed_covered:
  assumes pl: "placed input o' rows c" and ok: "settled_ok t db input s" and req: "request_ok input"
    and rs: "list_all2 (reservation_for e oid ids) (st_allocations s) rs"
    and ids: "\<And>v k. map_of ids v = Some k \<Longrightarrow> \<exists>r\<in>set rows. oi_variantId r = Some v \<and> oi_id r = k"
    and d: "distinct (map oi_id rows)"
  shows "list_all (covered_by rs) rows"
proof -
  have lines: "map (\<lambda>i. (oi_variantId i, oi_quantity i)) rows
      = map (\<lambda>l. (Some (ol_variantId l), ol_quantity l)) (ci_items input)"
    using pl by (simp add: placed_def)
  from arg_cong [OF this, of "map fst"]
  have vs: "map oi_variantId rows = map (\<lambda>l. Some (ol_variantId l)) (ci_items input)"
    by (simp add: comp_def)
  have dv: "distinct (map oi_variantId rows)"
    unfolding vs using req by (auto simp: request_ok_def distinct_map inj_on_def)
  have "covered_by rs i" if i: "i \<in> set rows" for i
  proof -
    have "(oi_variantId i, oi_quantity i) \<in> set (map (\<lambda>i. (oi_variantId i, oi_quantity i)) rows)"
      using i by auto
    then obtain l where l: "l \<in> set (ci_items input)" "oi_variantId i = Some (ol_variantId l)"
      "oi_quantity i = ol_quantity l" unfolding lines by auto
    have "allocated (ol_variantId l) (st_allocations s) = oi_quantity i"
      using ok l by (simp add: settled_ok_def allocations_ok_def list_all_iff)
    from covered_byI [OF rs ids d dv i l(2) this] show ?thesis by blast
  qed
  then show ?thesis by (simp add: list_all_iff)
qed

definition new_order ::
  "env \<Rightarrow> checkout_input \<Rightarrow> cart \<Rightarrow> idempotency_claim \<Rightarrow> 'a shop_db_scheme \<Rightarrow> 'a shop_db_scheme \<Rightarrow> order \<Rightarrow> bool" where
  "new_order e input cart claim db db' o' =
     (orders db' = orders db @ [o'] \<and> ord_id o' \<notin> ord_id ` set (orders db)
      \<and> (\<exists>rows rs c. order_items db' = order_items db @ rows \<and> collections db' = collections db @ [c]
           \<and> reservations db' = reservations db @ rs \<and> placed input o' rows c \<and> list_all (covered_by rs) rows
           \<and> list_all (\<lambda>x. res_orderId x = Some (ord_id o') \<and> active_at (now e) x) rs)
      \<and> ord_status o' = PENDING_CONFIRMATION \<and> opens_delivery o' (deliveries db) (deliveries db')
      \<and> items db' = items db \<and> stock_inv (now e) db' \<and> shop_db.more db' = shop_db.more db
      \<and> claims db' = update_where (\<lambda>c. clm_id c = clm_id claim)
           (\<lambda>c. c\<lparr> clm_orderId := Some (ord_id o'), clm_completedAt := Some (now e) \<rparr>) (claims db)
      \<and> count_where (\<lambda>x. cart_id x = cart_id cart \<and> cart_status x = CART_ACTIVE
           \<and> cart_version x = cart_version cart) (carts db) = 1
      \<and> carts db' = update_where (\<lambda>x. cart_id x = cart_id cart \<and> cart_status x = CART_ACTIVE
             \<and> cart_version x = cart_version cart)
           (\<lambda>x. x\<lparr> cart_status := CART_CONVERTED, cart_convertedAt := Some (now e),
                  cart_version := cart_version x + 1, cart_updatedAt := now e \<rparr>) (carts db))"

lemma write_order_effect:
  assumes run: "write_order e input userId s claim db = Inr (r, db')"
    and inv: "stock_inv (now e) db" and ok: "settled_ok (now e) db input s" and req: "request_ok input"
  obtains o' where "r = orderResponse o'" and "new_order e input (st_cart s) claim db db' o'"
proof -
  from run obtain o' db1 db2 db3 where
    p1: "write_lines e input userId s db = Inr (o', db1)" and
    p2: "write_records e input userId s o' db1 = Inr db2" and
    p3: "complete_claim e claim (ord_id o') db2 = Inr db3" and
    p4: "convert_cart e (st_cart s) db3 = Inr db'" and r: "r = orderResponse o'"
    by (auto simp: write_order_def)
  from write_lines_effect [OF p1 inv ok] obtain n rows ids rs where
    l: "o' = (order_row e input s n)\<lparr> ord_id := ord_id o' \<rparr>"
      "ord_id o' \<notin> ord_id ` set (orders db)" "orders db1 = orders db @ [o']"
      "order_items db1 = order_items db @ rows"
      "list_all2 (item_for (ord_id o')) (pc_lines (st_priced s)) rows" "distinct (map oi_id rows)" and
    ids: "\<And>v k. map_of ids v = Some k \<Longrightarrow> \<exists>r\<in>set rows. oi_variantId r = Some v \<and> oi_id r = k" and
    rs: "reservations db1 = reservations db @ rs"
      "list_all2 (reservation_for e (ord_id o') ids) (st_allocations s) rs" "stock_inv (now e) db1" and
    u1: "untouched db (db1\<lparr> orders := orders db, order_items := order_items db,
            reservations := reservations db, movements := movements db \<rparr>)" by blast
  from write_records_effect [OF p2] obtain c where c: "collections db2 = collections db1 @ [c]"
    "col_orderId c = ord_id o'" "col_status c = EXPECTED" "col_expectedMillimes c = ord_expectedCodMillimes o'"
    "col_collectedMillimes c = 0"
    "untouched db1 (db2\<lparr> collections := collections db1, deliveries := deliveries db1 \<rparr>)"
    "opens_delivery o' (deliveries db1) (deliveries db2)" by blast
  note u3 = complete_claim_effect [OF p3] and u4 = convert_cart_effect [OF p4]
  have pl: "placed input o' rows c" by (rule placedI [OF ok l(5) l(1) c(2,3,5,4)])
  have cov: "list_all (covered_by rs) rows" by (rule placed_covered [OF pl ok req rs(2) ids l(6)])
  have act: "list_all (\<lambda>x. res_orderId x = Some (ord_id o') \<and> active_at (now e) x) rs"
    using rs(2) by (induction rule: list_all2_induct) (auto dest: reservation_expiry reservation_for_order)
  note us = u1 [unfolded untouched_def] c(6) [unfolded untouched_def] u3(2) [unfolded untouched_def]
    u4(2) [unfolded untouched_def]
  have "items db' = items db1" "movements db' = movements db1" "reservations db' = reservations db1"
    using us by simp_all
  with rs(3) have st: "stock_inv (now e) db'" using stock_inv_cong by blast
  have "\<exists>rows rs c. order_items db' = order_items db @ rows \<and> collections db' = collections db @ [c]
           \<and> reservations db' = reservations db @ rs \<and> placed input o' rows c \<and> list_all (covered_by rs) rows
           \<and> list_all (\<lambda>x. res_orderId x = Some (ord_id o') \<and> active_at (now e) x) rs"
    using pl cov act us l(4) rs(1) c(1) by (intro exI [of _ rows] exI [of _ rs] exI [of _ c]) simp
  moreover have "ord_status o' = PENDING_CONFIRMATION" by (subst l(1)) (simp add: order_row_def Let_def)
  moreover have "opens_delivery o' (deliveries db) (deliveries db')" using us c(7) by simp
  ultimately have "new_order e input (st_cart s) claim db db' o'"
    unfolding new_order_def using us u3(1) u4(1,3) l(2,3) st by (intro conjI) simp_all
  with r show ?thesis by (rule that)
qed

end
