(* ===== verification/ShopDemo.thy ===== *)
theory ShopDemo
  imports Checkout
begin

text \<open>
  A small shop with one product, two buckets of stock and a customer's cart, and one checkout in
  it: the concrete input of the witnesses.  It is evaluated once, by \<open>demo_checkout_placed\<close>.
\<close>

definition shop_env :: env where
  "shop_env = \<lparr> now = 1000, actor = ''u1'', requestId = ''req-1'', req_ip = Some ''10.0.0.1'',
     req_remoteAddress = None, req_userAgent = None, cuid = digits,
     sha256 = (\<lambda>s. take 4 s @ ''..'' @ digits (length s)), encrypt = (\<lambda>s. s), random_hex = ''claim1'' \<rparr>"

definition shop_variant :: "string \<Rightarrow> int \<Rightarrow> variant" where
  "shop_variant i price = \<lparr> var_id = i, var_productId = ''p1'', var_nameFr = ''V'', var_nameAr = ''V'', var_sku = i,
       var_priceMillimes = price, var_promotionalPriceMillimes = None, var_taxRateBps = 1900,
       var_weightGrams = 100, var_lowStockThreshold = 2, var_publicationStatus = PUBLISHED,
       var_archivedAt = None, var_deletedAt = None, var_version = 1 \<rparr>"

definition shop_item :: "string \<Rightarrow> string \<Rightarrow> int \<Rightarrow> item" where
  "shop_item i v q = \<lparr> item_id = i, item_variantId = v, item_locationId = ''l1'', item_batchId = None,
     item_lotKey = i, item_onHand = q, item_version = 1 \<rparr>"

definition shop_movement :: "string \<Rightarrow> string \<Rightarrow> int \<Rightarrow> movement" where
  "shop_movement m i q = \<lparr> mv_id = m, mv_itemId = i, mv_locationId = ''l1'', mv_batchId = None,
       mv_type = INITIAL_STOCK, mv_delta = q, mv_onHandAfter = q, mv_referenceType = None,
       mv_referenceId = None, mv_reasonCode = None, mv_note = None, mv_actorUserId = None,
       mv_requestId = None, mv_keyHash = None, mv_fingerprint = None, mv_occurredAt = 0 \<rparr>"

definition shop_reference :: reference_data where
  "shop_reference = empty_reference\<lparr>
     ref_storeSettings := [\<lparr> set_key = ''checkout.enabled'', set_value = JBool True \<rparr>,
       \<lparr> set_key = ''store.name'', set_value = JStr ''S'' \<rparr>, \<lparr> set_key = ''store.phone'', set_value = JStr ''1'' \<rparr>,
       \<lparr> set_key = ''store.email'', set_value = JStr ''e'' \<rparr>, \<lparr> set_key = ''store.address'', set_value = JStr ''a'' \<rparr>],
     ref_complianceSettings := [\<lparr> set_key = ''minimum_purchase_age'', set_value = JNum 18 \<rparr>],
     ref_customers := [\<lparr> cus_id = ''cus1'', cus_userId = ''u1'', cus_userEmail = Some ''a@b.tn'',
       cus_userIsCustomer = True, cus_userActive = True, cus_userDeletedAt = None, cus_locale = ''fr'',
       cus_suspendedAt = None, cus_anonymizedAt = None \<rparr>],
     ref_products := [\<lparr> prod_id = ''p1'', prod_brandId = None, prod_categoryId = ''cat'', prod_nameFr = ''P'',
       prod_nameAr = ''P'', prod_warningFr = None, prod_warningAr = None, prod_minimumAge = Some 18,
       prod_publicationStatus = PUBLISHED, prod_publishedAt = Some 0, prod_archivedAt = None,
       prod_suspendedAt = None, prod_deletedAt = None \<rparr>],
     ref_categories := [\<lparr> tax_id = ''cat'', tax_publicationStatus = PUBLISHED, tax_archivedAt = None,
       tax_suspendedAt = None, tax_deletedAt = None \<rparr>],
     ref_images := [\<lparr> img_productId = Some ''p1'', img_variantId = None, img_approved = True, img_deletedAt = None \<rparr>],
     ref_pickups := [\<lparr> pk_id = ''pk1'', pk_code = ''PK'', pk_nameFr = ''Shop'', pk_address = ''Street 1'',
       pk_active = True, pk_minOrderMillimes = None, pk_maxCodMillimes = Some 100000 \<rparr>] \<rparr>"

definition demo_shop :: shop_db where
  "demo_shop = empty_shop\<lparr>
     variants := [shop_variant ''v1'' 12500],
     locations := [\<lparr> loc_id = ''l1'', loc_code = ''A'', loc_name = ''A'', loc_address = None, loc_active = True,
         loc_fulfillsOrders = True \<rparr>],
     items := [shop_item ''i1'' ''v1'' 2, shop_item ''i2'' ''v1'' 5],
     movements := [shop_movement ''m1'' ''i1'' 2, shop_movement ''m2'' ''i2'' 5],
     reference := shop_reference,
     carts := [\<lparr> cart_id = ''k1'', cart_customerId = Some ''cus1'', cart_status = CART_ACTIVE, cart_expiresAt = None,
       cart_convertedAt = None, cart_version = 4, cart_updatedAt = 0,
       cart_items = [\<lparr> citem_id = ''ci1'', citem_variantId = ''v1'', citem_quantity = 3 \<rparr>] \<rparr>],
     counters := [\<lparr> sc_key = ''order-number'', sc_value = 41 \<rparr>] \<rparr>"

definition shop_config1 :: shop_config where
  "shop_config1 = \<lparr> CHECKOUT_ENABLED_VAR = True, MAINTENANCE_MODE_VAR = False, PRELAUNCH_MODE_VAR = False \<rparr>"

definition demo_input :: checkout_input where
  "demo_input = \<lparr> ci_items = [\<lparr> ol_variantId = ''v1'', ol_quantity = 3 \<rparr>], ci_localityId = None,
     ci_pickupLocationId = Some ''pk1'', ci_express = None, ci_customerName = ''Nour'', ci_phone = ''+21620111222'',
     ci_email = None, ci_address = None,
     ci_consent = \<lparr> cc_ageConfirmed = True, cc_termsAccepted = True, cc_privacyAccepted = True,
       cc_termsDocumentVersionId = None, cc_privacyDocumentVersionId = None \<rparr> \<rparr>"

definition demo_checkout :: "(order_response \<times> shop_db) result" where
  "demo_checkout = checkout_create (\<lambda>_. False) shop_config1 shop_env demo_input (Some ''0123456789abcdef'') ''u1'' demo_shop"

text \<open>One evaluation, taken apart below.\<close>

lemma demo_shop_evaluated:
  "stock_inv (now shop_env) demo_shop
   \<and> (case demo_checkout of Inr (r, db) \<Rightarrow> or_grandTotalMillimes r = 44625 \<and> orders db \<noteq> [] | Inl x \<Rightarrow> False)"
  by code_simp

lemma demo_shop_stock: "stock_inv (now shop_env) demo_shop"
  using demo_shop_evaluated by (elim conjE)

lemma demo_checkout_evaluated:
  "case demo_checkout of Inr (r, db) \<Rightarrow> or_grandTotalMillimes r = 44625 \<and> orders db \<noteq> [] | Inl x \<Rightarrow> False"
  using demo_shop_evaluated by (elim conjE)

lemma demo_checkout_placed:
  obtains r db where "checkout_create (\<lambda>_. False) shop_config1 shop_env demo_input (Some ''0123456789abcdef'')
      ''u1'' demo_shop = Inr (r, db)" and "or_grandTotalMillimes r = 44625" and "orders db \<noteq> orders demo_shop"
proof -
  from demo_checkout_evaluated obtain r db where "demo_checkout = Inr (r, db)"
    and "or_grandTotalMillimes r = 44625" and "orders db \<noteq> []"
    by (auto split: sum.splits)
  then show ?thesis
    using that by (simp add: demo_checkout_def demo_shop_def empty_shop_def)
qed

lemma demo_input_quantities: "list_all (\<lambda>l. 0 < ol_quantity l) (ci_items demo_input)"
  by (simp add: demo_input_def)

end
