(* ===== verification/CheckoutSpec.thy ===== *)
theory CheckoutSpec
  imports CheckoutProofs ShopDemo
begin

text \<open>
  What \<open>checkout/checkout-order.service.ts\<close> promises: the idempotency of the transaction (an
  interpretation of \<open>idempotent_run\<close>), the totals of an order, the stock it reserves, the cart it
  converts, and the retry loop around it.
\<close>

section \<open>The recorded answer\<close>

definition recorded_answer ::
  "string \<Rightarrow> string \<Rightarrow> string \<Rightarrow> 'a shop_db_scheme \<Rightarrow> order_response option" where
  "recorded_answer scope kh rh db =
     (case List.find (\<lambda>c. clm_keyHash c = kh) (claims db) of
        None \<Rightarrow> None
      | Some c \<Rightarrow>
          if clm_audienceScope c = scope \<and> clm_requestHash c = rh \<and> clm_completedAt c \<noteq> None
          then Option.bind (or_null (clm_orderId c)) (\<lambda>oid. map_option orderResponse (find_order db oid))
          else None)"

lemma recorded_answer_Some:
  "recorded_answer scope kh rh db = Some r \<longleftrightarrow>
     (\<exists>c oid o'. List.find (\<lambda>c. clm_keyHash c = kh) (claims db) = Some c \<and> clm_audienceScope c = scope
        \<and> clm_requestHash c = rh \<and> clm_completedAt c \<noteq> None \<and> or_null (clm_orderId c) = Some oid
        \<and> find_order db oid = Some o' \<and> r = orderResponse o')"
  by (auto simp: recorded_answer_def bind_eq_Some_conv split: option.splits)

lemma insert_claim_known:
  assumes "List.find (\<lambda>c. clm_keyHash c = clm_keyHash n) (claims db) = Some c"
  shows "insert_claim n db = db"
  using find_SomeD [OF assms] by (auto simp: insert_claim_def list_ex_iff)

lemma replayed_checkout:
  assumes "recorded_answer scope kh rh db = Some r"
  shows "createInTransaction cfg e input u scope kh rh db = Inr (r, db)"
proof -
  from assms obtain c oid o' where c: "List.find (\<lambda>c. clm_keyHash c = kh) (claims db) = Some c"
    "clm_audienceScope c = scope" "clm_requestHash c = rh" "clm_completedAt c \<noteq> None"
    and o': "or_null (clm_orderId c) = Some oid" "find_order db oid = Some o'" "r = orderResponse o'"
    by (auto simp: recorded_answer_Some)
  have "claimIdempotency e scope kh rh db = Inr (c, db)"
    using c by (simp add: claimIdempotency_def Let_def insert_claim_known)
  then show ?thesis using c(4) o' by (auto simp: createInTransaction_def checkout_replay_def)
qed

text \<open>Otherwise a claim of its own is opened and the order is written.\<close>

lemma executed_checkout:
  assumes run: "createInTransaction cfg e input u scope kh rh db = Inr (r, db')"
    and new: "recorded_answer scope kh rh db = None"
  obtains claim s db1 cs where "List.find (\<lambda>c. clm_keyHash c = kh) (claims db1) = Some claim"
    and "clm_audienceScope claim = scope" and "clm_requestHash claim = rh"
    and "db1 = db\<lparr> claims := cs \<rparr>"
    and "settle cfg e db1 input u = Inr s" and "write_order e input u s claim db1 = Inr (r, db')"
proof -
  from run obtain claim db1 where cl: "claimIdempotency e scope kh rh db = Inr (claim, db1)"
    and rest: "(case (or_null (clm_orderId claim), clm_completedAt claim) of
       (Some oid, Some _) \<Rightarrow> bindE (checkout_replay db1 oid) (\<lambda>r. Inr (r, db1))
     | _ \<Rightarrow> bindE (settle cfg e db1 input u) (\<lambda>s. write_order e input u s claim db1)) = Inr (r, db')"
    by (auto simp: createInTransaction_def)
  from cl have f: "List.find (\<lambda>c. clm_keyHash c = kh) (claims db1) = Some claim"
    "clm_audienceScope claim = scope" "clm_requestHash claim = rh"
    and db1: "db1 = db \<or> (\<exists>n. db1 = db\<lparr> claims := claims db @ [n] \<rparr> \<and> clm_completedAt n = None
        \<and> List.find (\<lambda>c. clm_keyHash c = kh) (claims db) = None \<and> clm_keyHash n = kh)"
    by (auto simp: claimIdempotency_def Let_def insert_claim_def find_None_all list_ex_iff split: if_splits)
  have "\<not> (\<exists>oid. or_null (clm_orderId claim) = Some oid) \<or> clm_completedAt claim = None"
  proof (rule ccontr)
    assume a: "\<not> ?thesis"
    then obtain oid where oid: "or_null (clm_orderId claim) = Some oid" "clm_completedAt claim \<noteq> None" by blast
    from db1 have "db1 = db" using f(1) oid(2) by (auto simp: find_snoc split: if_splits)
    with rest oid obtain o' where "find_order db oid = Some o'" by (auto simp: checkout_replay_def)
    with f oid \<open>db1 = db\<close> new show False by (auto simp: recorded_answer_def)
  qed
  with rest have "bindE (settle cfg e db1 input u) (\<lambda>s. write_order e input u s claim db1) = Inr (r, db')"
    by (auto split: option.splits)
  then obtain s where "settle cfg e db1 input u = Inr s" "write_order e input u s claim db1 = Inr (r, db')"
    by auto
  moreover obtain cs where "db1 = db\<lparr> claims := cs \<rparr>"
    using db1 that [of "claims db"] by auto
  ultimately show ?thesis using that f by blast
qed

text \<open>What \<open>write_order\<close> does to the orders and the claims, whatever the stock is like.\<close>

lemma reserve_frame:
  assumes "foldE (reserve_allocation e userId s oid ids) as db = Inr db'"
  shows "orders db' = orders db \<and> claims db' = claims db"
proof -
  have "orders b = orders a \<and> claims b = claims a"
    if "reserve_allocation e userId s oid ids x a = Inr b" for x and a b :: "'a shop_db_scheme"
    using that by (rule reserve_allocation_effect) (simp add: untouched_def)
  then show ?thesis
    using foldE_inv [OF assms, of "\<lambda>d. orders d = orders db \<and> claims d = claims db"] by fastforce
qed

lemma write_order_records:
  assumes run: "write_order e input userId s claim db = Inr (r, db')"
  obtains o' where "r = orderResponse o'" and "ord_id o' \<noteq> []" and "ord_id o' \<notin> ord_id ` set (orders db)"
    and "orders db' = orders db @ [o']"
    and "claims db' = update_where (\<lambda>c. clm_id c = clm_id claim)
           (\<lambda>c. c\<lparr> clm_orderId := Some (ord_id o'), clm_completedAt := Some (now e) \<rparr>) (claims db)"
proof -
  from run obtain o' db1 db2 db3 where
    p1: "write_lines e input userId s db = Inr (o', db1)" and
    p2: "write_records e input userId s o' db1 = Inr db2" and
    p3: "complete_claim e claim (ord_id o') db2 = Inr db3" and
    p4: "convert_cart e (st_cart s) db3 = Inr db'" and r: "r = orderResponse o'"
    by (auto simp: write_order_def)
  from p1 obtain n d1 d2 ids d3 where
    q1: "nextOrderNumber e db = Inr (n, d1)" and
    q2: "create_order e (order_row e input s n) d1 = Inr (o', d2)" and
    q3: "foldE (create_line e s (ord_id o')) (pc_lines (st_priced s)) ([], d2) = Inr (ids, d3)" and
    q4: "foldE (reserve_allocation e userId s (ord_id o') ids) (st_allocations s) d3 = Inr db1"
    by (auto simp: write_lines_def simp del: create_order_Inr)
  note u1 = nextOrderNumber_frame [OF q1, unfolded untouched_def]
  from q2 have o': "ord_id o' \<noteq> []" "ord_id o' \<notin> ord_id ` set (orders d1)"
    and d2: "orders d2 = orders d1 @ [o']" "claims d2 = claims d1"
    by (auto simp: Let_def fresh_id_def)
  have d3: "orders d3 = orders d2 \<and> claims d3 = claims d2"
    using create_lines_written [OF q3] by (auto simp: lines_written_def untouched_def)
  note d4 = reserve_frame [OF q4]
  from write_records_effect [OF p2] obtain c where
    "untouched db1 (db2\<lparr> collections := collections db1, deliveries := deliveries db1 \<rparr>)" by blast
  then have u2: "orders db2 = orders db1 \<and> claims db2 = claims db1" by (simp add: untouched_def)
  note u3 = complete_claim_effect(2) [OF p3, unfolded untouched_def]
    and u4 = convert_cart_effect(2) [OF p4, unfolded untouched_def]
  have os: "orders db' = orders db1" "claims db' = claims db3" using u2 u3 u4 by simp_all
  have cs: "claims db2 = claims db" "orders d1 = orders db" "orders db1 = orders db @ [o']"
    using u1 u2 d2 d3 d4 by simp_all
  show ?thesis
    by (rule that [OF r o'(1)]) (use o'(2) os cs complete_claim_effect(1) [OF p3] in simp_all)
qed

lemma first_checkout:
  assumes run: "createInTransaction cfg e input u scope kh rh db = Inr (r, db')"
    and new: "recorded_answer scope kh rh db = None"
  shows "recorded_answer scope kh rh db' = Some r"
proof -
  from run new obtain claim s db1 cs0 where
    c: "List.find (\<lambda>c. clm_keyHash c = kh) (claims db1) = Some claim" "clm_audienceScope claim = scope"
      "clm_requestHash claim = rh" and "db1 = db\<lparr> claims := cs0 \<rparr>" and "settle cfg e db1 input u = Inr s"
    and w: "write_order e input u s claim db1 = Inr (r, db')" by (rule executed_checkout)
  from write_order_records [OF w] obtain o' where r: "r = orderResponse o'" and
    o': "ord_id o' \<noteq> []" "ord_id o' \<notin> ord_id ` set (orders db1)" "orders db' = orders db1 @ [o']" and
    cs: "claims db' = update_where (\<lambda>c. clm_id c = clm_id claim)
           (\<lambda>c. c\<lparr> clm_orderId := Some (ord_id o'), clm_completedAt := Some (now e) \<rparr>) (claims db1)" by blast
  have "List.find (\<lambda>c. clm_keyHash c = kh) (claims db')
      = Some (claim\<lparr> clm_orderId := Some (ord_id o'), clm_completedAt := Some (now e) \<rparr>)"
    unfolding cs by (simp add: find_update_where c(1))
  moreover have "find_order db' (ord_id o') = Some o'"
    unfolding find_order_def o'(3) using o'(2)
    by (auto simp: find_snoc split: option.splits dest!: find_SomeD) (metis imageI)
  moreover have "or_null (Some (ord_id o')) = Some (ord_id o')" using o'(1) by (simp add: or_null_def)
  ultimately show ?thesis using c(2,3) r by (simp add: recorded_answer_def)
qed

text \<open>A request as the transaction sees it.\<close>

record checkout_request =
  cr_config :: shop_config
  cr_env :: env
  cr_input :: checkout_input
  cr_user :: string
  cr_scope :: string
  cr_keyHash :: string
  cr_requestHash :: string

definition checkout_run :: "checkout_request \<Rightarrow> 'a shop_db_scheme \<Rightarrow> (order_response \<times> 'a shop_db_scheme) result" where
  "checkout_run q = createInTransaction (cr_config q) (cr_env q) (cr_input q) (cr_user q) (cr_scope q)
     (cr_keyHash q) (cr_requestHash q)"

interpretation checkout_once: idempotent_run "\<lambda>_. True" checkout_run
    "\<lambda>q. recorded_answer (cr_scope q) (cr_keyHash q) (cr_requestHash q)" "\<lambda>r. r"
  by unfold_locales (unfold checkout_run_def, erule (1) first_checkout, erule replayed_checkout)

section \<open>The handler\<close>

lemma checkout_attempts_Inr: "checkout_attempts transaction a n = Inr r \<Longrightarrow> \<exists>k. transaction k = Inr r"
  by (induction transaction a n rule: checkout_attempts.induct) (auto split: if_splits sum.splits)

lemma checkout_create_runs:
  assumes "checkout_create aborted cfg e input hdr u db = Inr (r, db')"
  obtains key where "validateIdempotencyKey hdr = Some key"
    and "distinct (map ol_variantId (ci_items input))"
    and "createInTransaction cfg e input u (audience_scope u)
           (scopedIdempotencyKeyHash e (audience_scope u) key) (checkoutRequestFingerprint e input) db = Inr (r, db')"
  using assms
  by (auto simp: checkout_create_def assertRequestShape_def dest!: checkout_attempts_Inr split: if_splits)

text \<open>Whatever a successful checkout did: it replayed an answer, or it placed an order.\<close>

lemma checkout_create_cases:
  assumes run: "checkout_create aborted cfg e input hdr u db = Inr (r, db')"
    and inv: "stock_inv (now e) db" and q: "list_all (\<lambda>l. 0 < ol_quantity l) (ci_items input)"
  obtains (replay) "db' = db"
  | (new) o' cart claim cs where "r = orderResponse o'"
      and "new_order e input cart claim (db\<lparr> claims := cs \<rparr>) db' o'"
      and "\<exists>s. settle cfg e (db\<lparr> claims := cs \<rparr>) input u = Inr s \<and> st_cart s = cart"
proof -
  from checkout_create_runs [OF run] obtain key where d: "distinct (map ol_variantId (ci_items input))"
    and c: "createInTransaction cfg e input u (audience_scope u)
       (scopedIdempotencyKeyHash e (audience_scope u) key) (checkoutRequestFingerprint e input) db = Inr (r, db')" .
  have req: "request_ok input" using d q by (simp add: request_ok_def)
  show ?thesis
  proof (cases "recorded_answer (audience_scope u) (scopedIdempotencyKeyHash e (audience_scope u) key)
      (checkoutRequestFingerprint e input) db")
    case (Some a)
    from replayed_checkout [OF this] c have "db' = db" by simp
    then show ?thesis by (rule replay)
  next
    case None
    from c None obtain claim s db1 cs where
      "List.find (\<lambda>c. clm_keyHash c = scopedIdempotencyKeyHash e (audience_scope u) key) (claims db1) = Some claim"
      and "clm_audienceScope claim = audience_scope u" and "clm_requestHash claim = checkoutRequestFingerprint e input"
      and db1: "db1 = db\<lparr> claims := cs \<rparr>" and
      st: "settle cfg e db1 input u = Inr s" "write_order e input u s claim db1 = Inr (r, db')"
      by (rule executed_checkout)
    have same: "items db1 = items db" "movements db1 = movements db" "reservations db1 = reservations db"
      by (simp_all add: db1)
    have inv1: "stock_inv (now e) db1" using inv stock_inv_cong [OF same] by blast
    note ok = settle_ok [OF st(1) stock_invD(1) [OF inv1] req]
    from st(2) inv1 ok req obtain o' where "r = orderResponse o'" "new_order e input (st_cart s) claim db1 db' o'"
      by (rule write_order_effect)
    then show ?thesis unfolding db1 by (rule new) (use st(1) in \<open>auto simp: db1\<close>)
  qed
qed

section \<open>When an order may be written\<close>

text \<open>The checks of a checkout that writes an order, taken from \<open>settle\<close>.\<close>

definition shop_open :: "shop_config \<Rightarrow> env \<Rightarrow> 'a shop_db_scheme \<Rightarrow> bool" where
  "shop_open cfg e db =
     (let store = setting_of (ref_storeSettings (reference db));
          compliance = setting_of (ref_complianceSettings (reference db))
      in CHECKOUT_ENABLED_VAR cfg \<and> jsonBoolean (store ''checkout.enabled'')
         \<and> \<not> MAINTENANCE_MODE_VAR cfg \<and> \<not> jsonBoolean (store ''maintenance.mode'')
         \<and> \<not> PRELAUNCH_MODE_VAR cfg \<and> \<not> jsonBoolean (store ''prelaunch.mode'')
         \<and> (\<forall>k\<in>{''store.name'', ''store.phone'', ''store.email'', ''store.address''}. jsonNonEmptyString (store k))
         \<and> (0 < count_where pk_active (ref_pickups (reference db))
            \<or> 0 < count_where (courier_zone (now e) (reference db)) (ref_zones (reference db)))
         \<and> (\<exists>age. jsonInteger (compliance ''minimum_purchase_age'') = Some age
             \<and> ((\<exists>k\<in>{''age_gate.entry.enabled'', ''age_gate.checkout.enabled'', ''delivery.age_verification_required''}.
                   configuredBoolean (ref_complianceSettings (reference db)) k) \<longrightarrow> 1 \<le> age)))"

definition consented :: "checkout_input \<Rightarrow> 'a shop_db_scheme \<Rightarrow> bool" where
  "consented input db =
     (let on = configuredBoolean (ref_complianceSettings (reference db)); c = ci_consent input
      in (on ''age_gate.checkout.enabled'' \<longrightarrow> cc_ageConfirmed c)
         \<and> (on ''consent.terms.required'' \<longrightarrow> cc_termsAccepted c)
         \<and> (on ''consent.privacy.required'' \<longrightarrow> cc_privacyAccepted c))"

definition may_order :: "env \<Rightarrow> 'a shop_db_scheme \<Rightarrow> string \<Rightarrow> customer \<Rightarrow> bool" where
  "may_order e db u k =
     (k \<in> set (ref_customers (reference db)) \<and> cus_userId k = u \<and> cus_userIsCustomer k \<and> cus_userActive k
      \<and> cus_userDeletedAt k = None \<and> cus_suspendedAt k = None \<and> cus_anonymizedAt k = None
      \<and> \<not> (\<exists>b\<in>set (ref_blocklist (reference db)). bl_customerId b = Some (cus_id k) \<and> bl_status b = BL_ACTIVE
            \<and> bl_startsAt b \<le> now e \<and> null_or_after (bl_expiresAt b) (now e)))"

text \<open>The cart an order is written from: the customer's, active, not expired, with exactly the lines asked for.\<close>

definition cart_ordered :: "env \<Rightarrow> 'a shop_db_scheme \<Rightarrow> checkout_input \<Rightarrow> customer \<Rightarrow> cart \<Rightarrow> bool" where
  "cart_ordered e db input k c =
     (c \<in> set (carts db) \<and> cart_customerId c = Some (cus_id k) \<and> cart_status c = CART_ACTIVE
      \<and> null_or_after (cart_expiresAt c) (now e)
      \<and> cart_lines c = sort_key (\<lambda>l. locale_key (ol_variantId l)) (ci_items input))"

text \<open>A cart hit once is the only one that changes.\<close>

lemma update_only_hit:
  assumes "count_where P t = 1" and "c \<in> set t" and "P c"
  shows "update_where P f t = map (\<lambda>x. if x = c then f c else x) t"
proof -
  from assms(2) obtain a b where t: "t = a @ c # b" by (auto simp: in_set_conv_decomp)
  have "\<forall>x\<in>set a \<union> set b. \<not> P x" using assms(1,3) by (auto simp: t count_where_def filter_empty_conv)
  with assms(3) show ?thesis by (auto simp: t update_where_def)
qed

lemma active_cart_found:
  assumes "active_cart db k = Some c"
  shows "c \<in> set (carts db) \<and> cart_customerId c = Some k \<and> cart_status c = CART_ACTIVE"
proof -
  let ?s = "sort_key (\<lambda>c. (- cart_updatedAt c, cart_id c))
             (filter (\<lambda>c. cart_customerId c = Some k \<and> cart_status c = CART_ACTIVE) (carts db))"
  from assms obtain cs where "?s = c # cs" by (auto simp: active_cart_def split: list.splits)
  then have "c \<in> set ?s" by (simp only: list.set_intros)
  then show ?thesis by simp
qed

lemma open_policy:
  assumes "pol_allowed (policy_evaluate cfg (now e) db)" and "pol_minimumAge (policy_evaluate cfg (now e) db) = Some age"
  shows "shop_open cfg e db"
  using assms by (auto simp: policy_evaluate_def evaluateCheckoutPolicy_def Let_def shop_open_def split: if_splits)

lemma settle_gates:
  assumes "settle cfg e db input u = Inr s"
  shows "shop_open cfg e db \<and> consented input db \<and> (\<exists>k. may_order e db u k \<and> cart_ordered e db input k (st_cart s))"
proof -
  let ?p = "policy_evaluate cfg (now e) db"
  from assms obtain age k c where age: "pol_minimumAge ?p = Some age" and al: "pol_allowed ?p"
    and cons: "assertConfiguredConsent input (pol_requirements ?p) = Inr ()"
    and k: "checkout_customer e db u = Inr k" and c: "lockCheckoutCart e db (cus_id k) (ci_items input) = Inr c"
    and sc: "st_cart s = c" by (auto simp: settle_def Let_def split: option.splits)
  from cons have "consented input db"
    by (auto simp: assertConfiguredConsent_def Let_def consented_def policy_evaluate_def split: if_splits)
  moreover from k have "may_order e db u k"
    by (auto simp: checkout_customer_def may_order_def list_ex_iff dest!: find_SomeD)
  moreover from c have "active_cart db (cus_id k) = Some c" "null_or_after (cart_expiresAt c) (now e)"
    "cart_lines c = sort_key (\<lambda>l. locale_key (ol_variantId l)) (ci_items input)"
    by (auto simp: lockCheckoutCart_def)
  ultimately show ?thesis using open_policy [OF al age] active_cart_found sc by (simp add: cart_ordered_def) blast
qed

section \<open>Properties\<close>

text \<open>Property C3 (checkout_order_totals): when a checkout writes an order, its lines are the
  requested ones, its sub-total, discount, tax and grand total are the sums over the lines (plus
  the delivery fee, which is not negative), and the cash to be collected on delivery is expected
  to be the grand total.\<close>

theorem checkout_order_totals:
  assumes "checkout_create aborted cfg e input hdr u db = Inr (r, db')"
    and "stock_inv (now e) db" and "list_all (\<lambda>l. 0 < ol_quantity l) (ci_items input)" and "orders db' \<noteq> orders db"
  shows "\<exists>o' rows c. r = orderResponse o' \<and> orders db' = orders db @ [o']
    \<and> order_items db' = order_items db @ rows \<and> collections db' = collections db @ [c] \<and> placed input o' rows c"
  using assms(1-3)
proof (cases rule: checkout_create_cases)
  case replay
  with assms(4) show ?thesis by simp
next
  case (new o' cart claim cs)
  from new(2) obtain rows rs c where "orders db' = orders db @ [o']" "order_items db' = order_items db @ rows"
    "collections db' = collections db @ [c]" "placed input o' rows c" by (auto simp: new_order_def)
  with new(1) show ?thesis by auto
qed

theorem checkout_order_totals_witness:
  "\<exists>r db o' rows c. checkout_create (\<lambda>_. False) shop_config1 shop_env demo_input (Some ''0123456789abcdef'') ''u1'' demo_shop = Inr (r, db)
     \<and> or_grandTotalMillimes r = 44625 \<and> orders db = orders demo_shop @ [o'] \<and> placed demo_input o' rows c"
proof -
  from demo_checkout_placed obtain r db where d: "checkout_create (\<lambda>_. False) shop_config1 shop_env demo_input (Some ''0123456789abcdef'') ''u1'' demo_shop
      = Inr (r, db)" "or_grandTotalMillimes r = 44625" "orders db \<noteq> orders demo_shop" .
  from checkout_order_totals [OF d(1) demo_shop_stock demo_input_quantities d(3)] show ?thesis using d by blast
qed

text \<open>Property C1 (checkout_never_oversells): a checkout keeps the stock contract, physical stock
  is not touched, and a new order is covered line by line, exactly, by active reservations of its
  own.\<close>

theorem checkout_never_oversells:
  assumes "checkout_create aborted cfg e input hdr u db = Inr (r, db')"
    and "stock_inv (now e) db" and "list_all (\<lambda>l. 0 < ol_quantity l) (ci_items input)"
  shows "stock_inv (now e) db' \<and> items db' = items db
    \<and> (\<exists>rows rs. order_items db' = order_items db @ rows \<and> reservations db' = reservations db @ rs
         \<and> list_all (covered_by rs) rows
         \<and> list_all (\<lambda>x. res_orderId x = Some (or_id r) \<and> active_at (now e) x) rs)"
  using assms
proof (cases rule: checkout_create_cases)
  case replay
  with assms(2) show ?thesis by simp
next
  case (new o' cart claim cs)
  from new(2) obtain rows rs where "order_items db' = order_items db @ rows"
    "reservations db' = reservations db @ rs" "list_all (covered_by rs) rows"
    "list_all (\<lambda>x. res_orderId x = Some (ord_id o') \<and> active_at (now e) x) rs"
    "items db' = items db" "stock_inv (now e) db'" by (auto simp: new_order_def)
  with new(1) show ?thesis by (auto simp: orderResponse_def)
qed

theorem checkout_never_oversells_witness:
  "\<exists>r db rs. checkout_create (\<lambda>_. False) shop_config1 shop_env demo_input (Some ''0123456789abcdef'') ''u1'' demo_shop = Inr (r, db)
     \<and> stock_inv (now shop_env) db \<and> reservations db = reservations demo_shop @ rs"
proof -
  from demo_checkout_placed obtain r db where d: "checkout_create (\<lambda>_. False) shop_config1 shop_env demo_input (Some ''0123456789abcdef'') ''u1'' demo_shop
      = Inr (r, db)" "or_grandTotalMillimes r = 44625" "orders db \<noteq> orders demo_shop" .
  from checkout_never_oversells [OF d(1) demo_shop_stock demo_input_quantities] show ?thesis using d by blast
qed

text \<open>Property C29 (checkout_converts_cart): a checkout that writes an order converts exactly one cart, the
  active, unexpired cart of the asking customer that holds exactly the lines of the request: it becomes converted
  with a new version, and every other cart stays as it is.\<close>

theorem checkout_converts_cart:
  assumes "checkout_create aborted cfg e input hdr u db = Inr (r, db')"
    and "stock_inv (now e) db" and "list_all (\<lambda>l. 0 < ol_quantity l) (ci_items input)" and "orders db' \<noteq> orders db"
  shows "\<exists>k c. may_order e db u k \<and> cart_ordered e db input k c
    \<and> carts db' = map (\<lambda>x. if x = c then c\<lparr> cart_status := CART_CONVERTED, cart_convertedAt := Some (now e),
        cart_version := cart_version c + 1, cart_updatedAt := now e \<rparr> else x) (carts db)"
  using assms(1-3)
proof (cases rule: checkout_create_cases)
  case replay
  with assms(4) show ?thesis by simp
next
  case (new o' c claim cs)
  from new(3) settle_gates obtain k where k: "may_order e db u k" "cart_ordered e db input k c"
    by (fastforce simp: may_order_def cart_ordered_def)
  have "count_where (\<lambda>x. cart_id x = cart_id c \<and> cart_status x = CART_ACTIVE \<and> cart_version x = cart_version c) (carts db) = 1"
    and "carts db' = update_where (\<lambda>x. cart_id x = cart_id c \<and> cart_status x = CART_ACTIVE \<and> cart_version x = cart_version c)
      (\<lambda>x. x\<lparr> cart_status := CART_CONVERTED, cart_convertedAt := Some (now e),
        cart_version := cart_version x + 1, cart_updatedAt := now e \<rparr>) (carts db)"
    using new(2) unfolding new_order_def by simp_all
  with k update_only_hit [of _ "carts db" c] show ?thesis
    by (intro exI [of _ k] exI [of _ c]) (simp add: cart_ordered_def)
qed

theorem checkout_converts_cart_witness:
  "\<exists>r db. checkout_create (\<lambda>_. False) shop_config1 shop_env demo_input (Some ''0123456789abcdef'') ''u1'' demo_shop = Inr (r, db)
     \<and> map cart_status (carts demo_shop) = [CART_ACTIVE] \<and> map cart_status (carts db) = [CART_CONVERTED]"
proof -
  from demo_checkout_placed obtain r db where d: "checkout_create (\<lambda>_. False) shop_config1 shop_env demo_input (Some ''0123456789abcdef'') ''u1'' demo_shop
      = Inr (r, db)" "or_grandTotalMillimes r = 44625" "orders db \<noteq> orders demo_shop" .
  from checkout_converts_cart [OF d(1) demo_shop_stock demo_input_quantities d(3)] obtain k c where
    c: "cart_ordered shop_env demo_shop demo_input k c"
    and cs: "carts db = map (\<lambda>x. if x = c then c\<lparr> cart_status := CART_CONVERTED, cart_convertedAt := Some (now shop_env),
        cart_version := cart_version c + 1, cart_updatedAt := now shop_env \<rparr> else x) (carts demo_shop)" by blast
  have "carts demo_shop = [c]" using c by (auto simp: cart_ordered_def demo_shop_def empty_shop_def)
  then have "map cart_status (carts db) = [CART_CONVERTED]" "map cart_status (carts demo_shop) = [CART_ACTIVE]"
    using c unfolding cs by (simp_all add: cart_ordered_def)
  then show ?thesis by (intro exI [of _ r] exI [of _ db]) (simp add: d(1))
qed

text \<open>Property C4 (checkout_retry_is_stable): once a checkout has succeeded, every later request
  of the same customer with the same key and the same body answers with the same order and writes
  nothing, whatever the configuration, the time, the policy or the stock are by then.\<close>

theorem checkout_retry_is_stable:
  assumes "createInTransaction cfg e input u scope kh rh db = Inr (r, db')"
  shows "createInTransaction cfg' e' input' u' scope kh rh db' = Inr (r, db')"
proof -
  let ?q = "\<lparr> cr_config = cfg, cr_env = e, cr_input = input, cr_user = u, cr_scope = scope, cr_keyHash = kh,
    cr_requestHash = rh \<rparr>"
  have "checkout_run ?q db = Inr (r, db')" using assms by (simp add: checkout_run_def)
  from checkout_once.recorded [OF _ this] have "recorded_answer scope kh rh db' = Some r" by auto
  then show ?thesis by (rule replayed_checkout)
qed

theorem checkout_retry_is_stable_witness:
  "\<exists>kh rh r db. createInTransaction shop_config1 shop_env demo_input ''u1'' (audience_scope ''u1'') kh rh demo_shop
       = Inr (r, db)
     \<and> createInTransaction shop_config1 (shop_env\<lparr> now := 99999 \<rparr>) demo_input ''u1'' (audience_scope ''u1'') kh rh db = Inr (r, db)"
proof -
  from demo_checkout_placed obtain r db where d: "checkout_create (\<lambda>_. False) shop_config1 shop_env demo_input (Some ''0123456789abcdef'') ''u1'' demo_shop
      = Inr (r, db)" "or_grandTotalMillimes r = 44625" "orders db \<noteq> orders demo_shop" .
  from checkout_create_runs [OF d(1)] obtain key where c: "createInTransaction shop_config1 shop_env demo_input ''u1''
      (audience_scope ''u1'') (scopedIdempotencyKeyHash shop_env (audience_scope ''u1'') key)
      (checkoutRequestFingerprint shop_env demo_input) demo_shop = Inr (r, db)" by blast
  from c checkout_retry_is_stable [OF c] show ?thesis by blast
qed

text \<open>A key that was used for another body or by another
  customer is a conflict, and a key whose first request has not completed is reported as in
  progress.\<close>

theorem checkout_key_reuse_rejected:
  assumes "List.find (\<lambda>c. clm_keyHash c = kh) (claims db) = Some c"
    and "clm_audienceScope c \<noteq> scope \<or> clm_requestHash c \<noteq> rh
         \<or> (clm_completedAt c = None \<and> clm_id c \<noteq> random_hex e)"
  shows "createInTransaction cfg e input u scope kh rh db =
    Inl (conflict (if clm_audienceScope c \<noteq> scope \<or> clm_requestHash c \<noteq> rh then ''IDEMPOTENCY_CONFLICT''
                   else ''IDEMPOTENCY_IN_PROGRESS''))"
  using assms by (auto simp: createInTransaction_def claimIdempotency_def Let_def insert_claim_known)

definition demo_claim :: idempotency_claim where
  "demo_claim = \<lparr> clm_id = ''x1'', clm_keyHash = ''k'', clm_audienceScope = ''s'', clm_requestHash = ''h'',
     clm_orderId = None, clm_lockedAt = 0, clm_completedAt = None, clm_expiresAt = 5 \<rparr>"

theorem checkout_key_reuse_rejected_witness:
  "createInTransaction shop_config1 shop_env demo_input ''u1'' ''s'' ''k'' ''other'' (demo_shop\<lparr> claims := [demo_claim] \<rparr>)
     = Inl (conflict ''IDEMPOTENCY_CONFLICT'')
   \<and> createInTransaction shop_config1 shop_env demo_input ''u1'' ''s'' ''k'' ''h'' (demo_shop\<lparr> claims := [demo_claim] \<rparr>)
     = Inl (conflict ''IDEMPOTENCY_IN_PROGRESS'')"
  using checkout_key_reuse_rejected [of "''k''" "demo_shop\<lparr> claims := [demo_claim] \<rparr>" demo_claim "''s''" _ shop_env]
  by (simp add: demo_claim_def shop_env_def)

text \<open>The loop gives the outcome of the first run that is no write conflict, and the conflict itself only
  when all three runs met one; the error after the loop is unreachable.\<close>

lemma checkout_attempts_outcome:
  "checkout_attempts transaction 1 MAX_TRANSACTION_ATTEMPTS =
     (case filter (\<lambda>r. r \<noteq> Inl (PrismaError ''P2034'')) (map transaction [1, 2, 3]) of
        r # _ \<Rightarrow> r | [] \<Rightarrow> Inl (PrismaError ''P2034''))"
  by (auto simp: MAX_TRANSACTION_ATTEMPTS_def numeral_eq_Suc split: sum.splits)

text \<open>Property C30 (order_needs_open_checkout): an order is only written when the shop is open for orders (switched
  on by environment and settings, not in maintenance nor before its launch, its contact data and a delivery method
  present, a minimum age configured and, where an age gate is on, positive), the consents the settings ask for were given, the customer is active and on no
  running block, and their active, unexpired cart has exactly the lines of the request.\<close>

theorem order_needs_open_checkout:
  assumes "checkout_create aborted cfg e input hdr u db = Inr (r, db')" and "orders db' \<noteq> orders db"
  shows "shop_open cfg e db \<and> consented input db \<and> (\<exists>k c. may_order e db u k \<and> cart_ordered e db input k c)"
  using assms(1)
proof (rule checkout_create_runs)
  fix key
  let ?kh = "scopedIdempotencyKeyHash e (audience_scope u) key" and ?rh = "checkoutRequestFingerprint e input"
  assume run: "createInTransaction cfg e input u (audience_scope u) ?kh ?rh db = Inr (r, db')"
  show ?thesis
  proof (cases "recorded_answer (audience_scope u) ?kh ?rh db")
    case (Some a)
    from replayed_checkout [OF this] run assms(2) show ?thesis by simp
  next
    case None
    from run None obtain s cs where "settle cfg e (db\<lparr> claims := cs \<rparr>) input u = Inr s" by (rule executed_checkout) blast
    from settle_gates [OF this] show ?thesis by (auto simp: shop_open_def consented_def may_order_def cart_ordered_def)
  qed
qed

lemma order_needs_open_checkout_witness:
  "shop_open shop_config1 shop_env demo_shop \<and> consented demo_input demo_shop"
proof (rule demo_checkout_placed)
  fix r db
  assume run: "checkout_create (\<lambda>_. False) shop_config1 shop_env demo_input (Some ''0123456789abcdef'') ''u1'' demo_shop = Inr (r, db)"
    and "orders db \<noteq> orders demo_shop"
  from order_needs_open_checkout [OF this] show ?thesis by blast
qed

end
