(* ===== verification/CartSpec.thy ===== *)
theory CartSpec
  imports Cart CheckoutSpec
begin

text \<open>
  What holds of carts: the limits on their lines and the one active cart of a customer over any run of
  requests, what adding a line does, and that the availability a cart shows is the one the checkout
  allocates from.
\<close>

section \<open>The limits\<close>

definition cart_ok :: "cart \<Rightarrow> bool" where
  "cart_ok c =
     (length (cart_items c) \<le> MAX_CART_DISTINCT_ITEMS \<and> distinct (map citem_id (cart_items c))
      \<and> distinct (map citem_variantId (cart_items c))
      \<and> list_all (\<lambda>i. 1 \<le> citem_quantity i \<and> citem_quantity i \<le> MAX_CART_ITEM_QUANTITY) (cart_items c))"

definition in_use :: "cart \<Rightarrow> bool" where
  "in_use c = (cart_status c = CART_ACTIVE \<and> cart_customerId c \<noteq> None)"

text \<open>Ids are unique, a customer has at most one active cart, and every cart is within its limits.\<close>

definition cart_list_ok :: "cart list \<Rightarrow> bool" where
  "cart_list_ok cs =
     (distinct (map cart_id cs) \<and> distinct (map cart_customerId (filter in_use cs)) \<and> list_all cart_ok cs)"

definition carts_ok :: "'a shop_db_scheme \<Rightarrow> bool" where
  "carts_ok db = cart_list_ok (carts db)"

lemma update_where_in_use:
  assumes "\<And>c. in_use (f c) \<Longrightarrow> in_use c" and "\<And>c. cart_customerId (f c) = cart_customerId c"
    and "distinct (map cart_customerId (filter in_use cs))"
  shows "distinct (map cart_customerId (filter in_use (update_where P f cs)))"
proof -
  have sub: "set (map cart_customerId (filter in_use (update_where P f cs))) \<subseteq> set (map cart_customerId (filter in_use cs))" for cs
    using assms(1,2) by (auto simp: set_update_where image_iff)
  show ?thesis using assms(3)
  proof (induction cs)
    case (Cons c cs)
    from Cons.prems have IH: "distinct (map cart_customerId (filter in_use (update_where P f cs)))"
      by (intro Cons.IH) (simp split: if_splits)
    show ?case
    proof (cases "in_use (if P c then f c else c)")
      case True
      then have "in_use c" using assms(1) by (auto split: if_splits)
      with Cons.prems have "cart_customerId c \<notin> set (map cart_customerId (filter in_use cs))" by simp
      with sub [of cs] have "cart_customerId c \<notin> set (map cart_customerId (filter in_use (update_where P f cs)))" by blast
      with IH show ?thesis by (auto simp: assms(2))
    next
      case False
      with IH show ?thesis by (auto split: if_splits)
    qed
  qed simp
qed

lemma update_cart_ok:
  assumes "cart_list_ok cs" and "\<And>c. cart_id (f c) = cart_id c" and "\<And>c. cart_customerId (f c) = cart_customerId c"
    and "\<And>c. in_use (f c) \<Longrightarrow> in_use c" and "\<And>c. c \<in> set cs \<Longrightarrow> P c \<Longrightarrow> cart_ok c \<Longrightarrow> cart_ok (f c)"
  shows "cart_list_ok (update_where P f cs)"
  unfolding cart_list_ok_def
proof (intro conjI)
  show "distinct (map cart_id (update_where P f cs))"
    using assms(1,2) by (subst map_update_where) (simp_all add: cart_list_ok_def)
  show "distinct (map cart_customerId (filter in_use (update_where P f cs)))"
    by (rule update_where_in_use) (use assms in \<open>auto simp: cart_list_ok_def\<close>)
  show "list_all cart_ok (update_where P f cs)"
    using assms(1,5) by (auto simp: cart_list_ok_def list_all_iff set_update_where)
qed

lemma set_cart_carts [simp]: "carts (set_cart cid f db) = update_where (\<lambda>c. cart_id c = cid) f (carts db)"
  by (simp add: set_cart_def)

section \<open>Requests change only carts\<close>

definition cart_frame :: "'a shop_db_scheme \<Rightarrow> 'a shop_db_scheme \<Rightarrow> bool" where
  "cart_frame db db' = (db' = db\<lparr> carts := carts db', seq := seq db' \<rparr>)"

lemma cart_frame_refl [simp]: "cart_frame db db"
  by (simp add: cart_frame_def)

lemma cart_frame_trans: "cart_frame a b \<Longrightarrow> cart_frame b c \<Longrightarrow> cart_frame a c"
  unfolding cart_frame_def by (cases a; cases b; cases c) simp

lemma cart_frame_writes [simp]:
  "cart_frame db (db\<lparr> carts := cs \<rparr>)" "cart_frame db (db\<lparr> carts := cs, seq := n \<rparr>)" "cart_frame db (set_cart cid f db)"
  "cart_frame db (set_cart cid f (db\<lparr> seq := n \<rparr>))" "cart_frame db (db\<lparr> seq := n \<rparr>)"
  by (simp_all add: cart_frame_def set_cart_def)

section \<open>Locking the cart\<close>

lemma active_cart_Some:
  assumes "active_cart db k = Some c"
  shows "c \<in> set (carts db)" "cart_customerId c = Some k" "cart_status c = CART_ACTIVE"
proof -
  from assms obtain cs where "sort_key (\<lambda>c. (- cart_updatedAt c, cart_id c))
             (filter (\<lambda>c. cart_customerId c = Some k \<and> cart_status c = CART_ACTIVE) (carts db)) = c # cs"
    by (auto simp: active_cart_def split: list.splits)
  then have "c \<in> set (sort_key (\<lambda>c. (- cart_updatedAt c, cart_id c))
             (filter (\<lambda>c. cart_customerId c = Some k \<and> cart_status c = CART_ACTIVE) (carts db)))" by (simp only: list.set_intros)
  then show "c \<in> set (carts db)" "cart_customerId c = Some k" "cart_status c = CART_ACTIVE" by auto
qed

lemma active_cart_None:
  assumes "active_cart db k = None"
  shows "c \<in> set (carts db) \<Longrightarrow> cart_customerId c = Some k \<Longrightarrow> cart_status c \<noteq> CART_ACTIVE"
proof -
  from assms have "sort_key (\<lambda>c. (- cart_updatedAt c, cart_id c))
             (filter (\<lambda>c. cart_customerId c = Some k \<and> cart_status c = CART_ACTIVE) (carts db)) = []"
    by (auto simp: active_cart_def split: list.splits)
  then have "set (sort_key (\<lambda>c. (- cart_updatedAt c, cart_id c))
             (filter (\<lambda>c. cart_customerId c = Some k \<and> cart_status c = CART_ACTIVE) (carts db))) = {}" by (simp only: list.set)
  then show "c \<in> set (carts db) \<Longrightarrow> cart_customerId c = Some k \<Longrightarrow> cart_status c \<noteq> CART_ACTIVE"
    by auto
qed

lemma one_active_cart:
  assumes "cart_list_ok cs" and "c \<in> set cs" "c' \<in> set cs" and "cart_customerId c = Some k" "cart_customerId c' = Some k"
    and "cart_status c = CART_ACTIVE" "cart_status c' = CART_ACTIVE"
  shows "c' = c"
  by (rule key_unique [of cart_customerId "filter in_use cs"])
    (use assms in \<open>simp_all add: cart_list_ok_def in_use_def\<close>)

lemma create_cart_ok:
  assumes run: "create_cart e k db = Inr (cid, db')" and ok: "carts_ok db"
    and free: "\<And>c. c \<in> set (carts db) \<Longrightarrow> cart_customerId c = Some k \<Longrightarrow> cart_status c \<noteq> CART_ACTIVE"
  shows "carts_ok db'" and "cart_frame db db'" and "\<exists>c. find_cart db' cid = Some c \<and> cart_items c = []
    \<and> cart_status c = CART_ACTIVE \<and> cart_customerId c = Some k" and "find_cart db cid = None"
    and "carts db' = carts db @ [the (find_cart db' cid)]"
proof -
  define row where "row = new_cart e cid k"
  have row: "cart_customerId row = Some k" "cart_status row = CART_ACTIVE" "cart_items row = []" "cart_id row = cid"
    by (simp_all add: row_def new_cart_def)
  from run have fresh: "\<forall>x\<in>set (carts db). cart_id row \<noteq> cart_id x"
    and db': "db' = db\<lparr> carts := carts db @ [row], seq := Suc (seq db) \<rparr>"
    by (auto simp: create_cart_def Let_def list_ex_iff row_def new_cart_def)
  have none: "List.find (\<lambda>c. cart_id c = cid) (carts db) = None"
    using fresh row(4) by (auto simp: find_None_all)
  then have f: "find_cart db' cid = Some row" by (simp add: find_cart_def db' find_append row(4))
  show "find_cart db cid = None" using none by (simp add: find_cart_def)
  show "carts_ok db'"
    using ok fresh free row by (auto simp: carts_ok_def cart_list_ok_def cart_ok_def db' in_use_def MAX_CART_DISTINCT_ITEMS_def)
  show "cart_frame db db'" by (simp add: db')
  show "\<exists>c. find_cart db' cid = Some c \<and> cart_items c = [] \<and> cart_status c = CART_ACTIVE \<and> cart_customerId c = Some k"
    using f row by blast
  show "carts db' = carts db @ [the (find_cart db' cid)]" by (simp add: f) (simp add: db')
qed

lemma removeUnavailableItems_ok:
  assumes "carts_ok db"
  shows "carts_ok (removeUnavailableItems e cid db)" and "cart_frame db (removeUnavailableItems e cid db)"
proof -
  let ?f = "\<lambda>c. c\<lparr> cart_items := filter (\<lambda>i. \<not> public_variant (now e) db (citem_variantId i) = None) (cart_items c),
                 cart_version := cart_version c + 1, cart_updatedAt := now e \<rparr>"
  have "carts_ok (set_cart cid ?f db)"
    unfolding carts_ok_def set_cart_carts
  proof (rule update_cart_ok [OF assms [unfolded carts_ok_def]])
    fix c assume "cart_ok c"
    then show "cart_ok (?f c)"
      by (auto simp: cart_ok_def list_all_iff distinct_map_filter intro: le_trans [OF length_filter_le])
  qed (simp_all add: in_use_def)
  with assms show "carts_ok (removeUnavailableItems e cid db)" "cart_frame db (removeUnavailableItems e cid db)"
    by (simp_all add: removeUnavailableItems_def Let_def)
qed


section \<open>Versions\<close>

text \<open>A cart is never lost, and its version grows whenever its lines change.\<close>

definition versioned :: "'a shop_db_scheme \<Rightarrow> 'a shop_db_scheme \<Rightarrow> bool" where
  "versioned db db' =
     (\<forall>cid c. find_cart db cid = Some c \<longrightarrow> (\<exists>c'. find_cart db' cid = Some c'
        \<and> cart_version c \<le> cart_version c' \<and> (cart_items c' \<noteq> cart_items c \<longrightarrow> cart_version c < cart_version c')))"

lemma versioned_trans:
  assumes "versioned a b" and "versioned b c"
  shows "versioned a c"
  unfolding versioned_def
proof (intro allI impI)
  fix cid x assume "find_cart a cid = Some x"
  with assms(1) obtain y where y: "find_cart b cid = Some y" "cart_version x \<le> cart_version y"
    "cart_items y \<noteq> cart_items x \<longrightarrow> cart_version x < cart_version y" by (auto simp: versioned_def)
  with assms(2) obtain z where z: "find_cart c cid = Some z" "cart_version y \<le> cart_version z"
    "cart_items z \<noteq> cart_items y \<longrightarrow> cart_version y < cart_version z" by (auto simp: versioned_def)
  from y z have "cart_version x \<le> cart_version z" "cart_items z \<noteq> cart_items x \<longrightarrow> cart_version x < cart_version z"
    by auto
  with z(1) show "\<exists>z. find_cart c cid = Some z \<and> cart_version x \<le> cart_version z
      \<and> (cart_items z \<noteq> cart_items x \<longrightarrow> cart_version x < cart_version z)" by blast
qed

lemma versioned_refl [simp]: "versioned db db"
  by (simp add: versioned_def)

lemma versioned_same: "carts db' = carts db \<Longrightarrow> versioned db db'"
  by (simp add: versioned_def find_cart_def)

lemma find_cart_id: "find_cart db cid = Some c \<Longrightarrow> cart_id c = cid \<and> c \<in> set (carts db)"
  using find_SomeD [of _ "carts db" c] by (auto simp: find_cart_def)

lemma find_updated_cart:
  assumes "carts db' = update_where P f (carts db)" and "\<And>c. cart_id (f c) = cart_id c"
  shows "find_cart db' cid = map_option (\<lambda>c. if P c then f c else c) (find_cart db cid)"
  unfolding find_cart_def assms(1) by (rule find_update_where) (simp add: assms(2))

lemma find_set_cart:
  assumes "\<And>c. cart_id (f c) = cart_id c"
  shows "find_cart (set_cart cid f db) x = (if x = cid then map_option f (find_cart db x) else find_cart db x)"
  using find_updated_cart [OF set_cart_carts assms, of cid db x] find_cart_id [of db x]
  by (cases "find_cart db x") auto

lemma versioned_update:
  assumes "carts db' = update_where P f (carts db)" and "\<And>c. cart_id (f c) = cart_id c"
    and "\<And>c. cart_version c < cart_version (f c)"
  shows "versioned db db'"
  using assms(3) by (auto simp: versioned_def find_updated_cart [OF assms(1,2)] less_imp_le)

lemma versioned_create:
  assumes "carts db' = carts db @ cs"
  shows "versioned db db'"
  by (auto simp: versioned_def find_cart_def assms find_append)

section \<open>The locked cart\<close>

lemma expired_cart_simps [simp]:
  "cart_id (expired_cart e c) = cart_id c" "cart_customerId (expired_cart e c) = cart_customerId c"
  "cart_status (expired_cart e c) = CART_EXPIRED" "cart_items (expired_cart e c) = cart_items c"
  "cart_version (expired_cart e c) = cart_version c + 1"
  by (simp_all add: expired_cart_def)

lemma renewed_cart_simps [simp]:
  "cart_id (renewed_cart e c) = cart_id c" "cart_customerId (renewed_cart e c) = cart_customerId c"
  "cart_status (renewed_cart e c) = cart_status c" "cart_items (renewed_cart e c) = cart_items c"
  "cart_version (renewed_cart e c) = cart_version c + 1"
  by (simp_all add: renewed_cart_def)

lemma removed_versioned: "versioned db (removeUnavailableItems e cid db)"
proof -
  have "versioned db (set_cart cid (\<lambda>c. c\<lparr> cart_items := filter P (cart_items c),
      cart_version := cart_version c + 1, cart_updatedAt := now e \<rparr>) db)" for P
    by (rule versioned_update [OF set_cart_carts]) simp_all
  then show ?thesis by (simp add: removeUnavailableItems_def Let_def versioned_same)
qed

lemma find_own_cart: "carts_ok db \<Longrightarrow> c \<in> set (carts db) \<Longrightarrow> find_cart db (cart_id c) = Some c"
  using find_key [of cart_id "carts db" c] by (simp add: carts_ok_def cart_list_ok_def find_cart_def)

lemma removed_cart:
  assumes "find_cart db cid = Some c"
  shows "\<exists>c'. find_cart (removeUnavailableItems e cid db) cid = Some c' \<and> cart_status c' = cart_status c
    \<and> cart_customerId c' = cart_customerId c"
proof -
  have "\<exists>c'. find_cart (set_cart cid (\<lambda>c. c\<lparr> cart_items := filter P (cart_items c),
      cart_version := cart_version c + 1, cart_updatedAt := now e \<rparr>) db) cid = Some c'
      \<and> cart_status c' = cart_status c \<and> cart_customerId c' = cart_customerId c" for P
    by (subst find_set_cart) (simp_all add: assms)
  with assms show ?thesis by (simp add: removeUnavailableItems_def Let_def)
qed

definition locked_cart :: "env \<Rightarrow> string \<Rightarrow> 'a shop_db_scheme \<Rightarrow> bool" where
  "locked_cart e cid db =
     (\<exists>c k. find_cart db cid = Some c \<and> cart_status c = CART_ACTIVE \<and> cart_customerId c = Some (cus_id k)
        \<and> k \<in> set (ref_customers (reference db)) \<and> cus_userId k = actor e \<and> cus_suspendedAt k = None
        \<and> cus_userIsCustomer k \<and> cus_userActive k)"

lemma lock_parts:
  assumes "lockCustomerAndCart e create db = Inr (r, db')"
  obtains k where "k \<in> set (ref_customers (reference db))" "cus_userId k = actor e" "cus_suspendedAt k = None"
      "cus_userIsCustomer k" "cus_userActive k"
    "(let continue = (\<lambda>db1. if \<not> create then Inr (None, db1)
           else bindE (create_cart e (cus_id k) db1) (\<lambda>(cid, db2). Inr (Some cid, db2)))
     in case active_cart db (cus_id k) of
          Some c \<Rightarrow>
            if \<not> null_or_after (cart_expiresAt c) (now e) then
              continue (db\<lparr> carts := update_where (\<lambda>x. cart_id x = cart_id c \<and> cart_status x = CART_ACTIVE)
                                       (expired_cart e) (carts db) \<rparr>)
            else Inr (Some (cart_id c), removeUnavailableItems e (cart_id c) db)
        | None \<Rightarrow> continue db) = Inr (r, db')"
  using assms unfolding lockCustomerAndCart_def cart_customer_def
  by (clarsimp simp: Let_def dest!: find_SomeD split del: if_split option.split)

lemma lock_ok:
  assumes run: "lockCustomerAndCart e create db = Inr (r, db')" and ok: "carts_ok db"
  shows "carts_ok db' \<and> cart_frame db db' \<and> versioned db db' \<and> (r = None \<longrightarrow> \<not> create)
    \<and> (\<forall>cid. r = Some cid \<longrightarrow> locked_cart e cid db')"
proof -
  from lock_parts [OF run] obtain k where k: "k \<in> set (ref_customers (reference db))" "cus_userId k = actor e"
      "cus_suspendedAt k = None" "cus_userIsCustomer k" "cus_userActive k"
    and rest: "(let continue = (\<lambda>db1. if \<not> create then Inr (None, db1)
           else bindE (create_cart e (cus_id k) db1) (\<lambda>(cid, db2). Inr (Some cid, db2)))
     in case active_cart db (cus_id k) of
          Some c \<Rightarrow>
            if \<not> null_or_after (cart_expiresAt c) (now e) then
              continue (db\<lparr> carts := update_where (\<lambda>x. cart_id x = cart_id c \<and> cart_status x = CART_ACTIVE)
                                       (expired_cart e) (carts db) \<rparr>)
            else Inr (Some (cart_id c), removeUnavailableItems e (cart_id c) db)
        | None \<Rightarrow> continue db) = Inr (r, db')"
    by blast
  have ref: "reference db2 = reference db" if "cart_frame db db2" for db2
    using that by (cases db2; cases db) (simp add: cart_frame_def)
  have go: ?thesis
    if c: "(if \<not> create then Inr (None, db1)
           else bindE (create_cart e (cus_id k) db1) (\<lambda>(cid, db2). Inr (Some cid, db2))) = Inr (r, db')"
      and ok1: "carts_ok db1" "cart_frame db db1" "versioned db db1"
      and free: "\<And>c. c \<in> set (carts db1) \<Longrightarrow> cart_customerId c = Some (cus_id k) \<Longrightarrow> cart_status c \<noteq> CART_ACTIVE"
    for db1
  proof (cases create)
    case False
    with c ok1 show ?thesis by simp
  next
    case True
    with c obtain cid where cr: "create_cart e (cus_id k) db1 = Inr (cid, db')" and r: "r = Some cid" by auto
    note C = create_cart_ok [OF cr ok1(1) free]
    have f: "cart_frame db db'" by (rule cart_frame_trans [OF ok1(2) C(2)])
    have "locked_cart e cid db'" using C(3) k ref [OF f] by (auto simp: locked_cart_def)
    with C(1) f r versioned_trans [OF ok1(3) versioned_create [OF C(5)]] show ?thesis by simp
  qed
  show ?thesis
  proof (cases "active_cart db (cus_id k)")
    case None
    with rest ok active_cart_None [OF None] show ?thesis by (intro go [of db]) (simp_all add: Let_def)
  next
    case (Some c)
    note A = active_cart_Some [OF Some]
    show ?thesis
    proof (cases "null_or_after (cart_expiresAt c) (now e)")
      case True
      with rest Some have r: "r = Some (cart_id c)" and db': "db' = removeUnavailableItems e (cart_id c) db"
        by (simp_all add: Let_def)
      note R = removeUnavailableItems_ok [OF ok, of e "cart_id c"]
      have "locked_cart e (cart_id c) db'"
        using removed_cart [OF find_own_cart [OF ok A(1)], of e] k A ref [OF R(2)]
        by (auto simp: locked_cart_def db')
      with R r removed_versioned show ?thesis by (simp add: db')
    next
      case False
      let ?P = "\<lambda>x. cart_id x = cart_id c \<and> cart_status x = CART_ACTIVE"
      let ?db = "db\<lparr> carts := update_where ?P (expired_cart e) (carts db) \<rparr>"
      from rest Some False have run': "(if \<not> create then Inr (None, ?db)
           else bindE (create_cart e (cus_id k) ?db) (\<lambda>(cid, db2). Inr (Some cid, db2))) = Inr (r, db')"
        by (simp add: Let_def)
      have ok1: "carts_ok ?db"
        using ok unfolding carts_ok_def by simp (rule update_cart_ok, simp_all add: in_use_def cart_ok_def)
      have ver: "versioned db ?db" by (rule versioned_update [of _ ?P "expired_cart e"]) simp_all
      have free: "cart_status x \<noteq> CART_ACTIVE" if x: "x \<in> set (carts ?db)" "cart_customerId x = Some (cus_id k)" for x
      proof
        assume a: "cart_status x = CART_ACTIVE"
        with x obtain y where y: "y \<in> set (carts db)" "x = (if ?P y then expired_cart e y else y)"
          by (auto simp: set_update_where)
        with a have xy: "x = y" "\<not> ?P y" by (auto split: if_splits)
        have "cart_customerId y = Some (cus_id k)" "cart_status y = CART_ACTIVE" using x(2) a unfolding xy(1) .
        then have "y = c" by (intro one_active_cart [OF ok [unfolded carts_ok_def] A(1) y(1) A(2) _ A(3)])
        with xy(2) A(3) show False by simp
      qed
      show ?thesis by (rule go [OF run' ok1 _ ver free]) simp_all
    qed
  qed
qed

section \<open>Putting a line into the cart\<close>

definition line_quantity :: "cart \<Rightarrow> string \<Rightarrow> int" where
  "line_quantity c vid =
     (case List.find (\<lambda>i. citem_variantId i = vid) (cart_items c) of None \<Rightarrow> 0 | Some i \<Rightarrow> citem_quantity i)"

lemma set_cart_twice:
  assumes "\<And>c. cart_id (f c) = cart_id c"
  shows "set_cart cid g (set_cart cid f db) = set_cart cid (\<lambda>c. g (f c)) db"
  using assms by (simp add: set_cart_def update_where_def)

lemma versioned_seq: "versioned (db\<lparr> seq := n \<rparr>) db' = versioned db db'"
  by (simp add: versioned_def find_cart_def)

text \<open>The cart \<open>cid\<close> gets the lines \<open>is'\<close> in place of \<open>is\<close> and is renewed.\<close>

lemma lines_set:
  assumes ok: "carts_ok db" and c: "find_cart db cid = Some c"
    and f: "\<And>x. f x = x\<lparr> cart_items := h (cart_items x) \<rparr>"
    and h: "cart_ok c \<Longrightarrow> cart_ok (c\<lparr> cart_items := h (cart_items c) \<rparr>)"
    and db': "db' = set_cart cid (renewed_cart e) (set_cart cid f (db\<lparr> seq := n \<rparr>))"
  shows "carts_ok db' \<and> cart_frame db db' \<and> versioned db db'
    \<and> find_cart db' cid = Some (renewed_cart e (f c))"
proof -
  have id: "cart_id (f x) = cart_id x" for x by (simp add: f)
  have d: "db' = set_cart cid (\<lambda>x. renewed_cart e (f x)) (db\<lparr> seq := n \<rparr>)" unfolding db' by (rule set_cart_twice [OF id])
  have cs: "carts db' = update_where (\<lambda>x. cart_id x = cid) (\<lambda>x. renewed_cart e (f x)) (carts db)" by (simp add: d)
  have dist: "distinct (map cart_id (carts db))" using ok by (simp add: carts_ok_def cart_list_ok_def)
  have "cart_list_ok (carts db')"
    unfolding cs
  proof (rule update_cart_ok [OF ok [unfolded carts_ok_def]])
    fix x assume x: "x \<in> set (carts db)" "cart_id x = cid" "cart_ok x"
    have "x = c" using key_unique [OF dist x(1)] find_cart_id [OF c] x(2) by simp
    with h x(3) show "cart_ok (renewed_cart e (f x))" by (simp add: cart_ok_def f)
  qed (simp_all add: f in_use_def)
  moreover have "cart_frame db db'" by (simp add: d)
  moreover have "versioned db db'" by (rule versioned_update [OF cs]) (simp_all add: f)
  moreover have "find_cart db' cid = Some (renewed_cart e (f c))"
    by (subst find_updated_cart [OF cs]) (simp_all add: f c find_cart_id [OF c])
  ultimately show ?thesis by (simp add: carts_ok_def)
qed

lemma items_of_cart_found: "find_cart db cid = Some c \<Longrightarrow> items_of_cart db cid = cart_items c"
  by (simp add: items_of_cart_def)

lemma set_one_quantity:
  assumes "cart_ok c" and i: "i \<in> set (cart_items c)" and q: "1 \<le> q" "q \<le> MAX_CART_ITEM_QUANTITY"
    and c': "c' = c\<lparr> cart_items := update_where (\<lambda>x. citem_id x = citem_id i) (\<lambda>x. x\<lparr> citem_quantity := q \<rparr>) (cart_items c) \<rparr>"
  shows "cart_ok c'" and "line_quantity c' (citem_variantId i) = q"
    and "w \<noteq> citem_variantId i \<Longrightarrow> line_quantity c' w = line_quantity c w"
proof -
  have d: "distinct (map citem_id (cart_items c))" "distinct (map citem_variantId (cart_items c))"
    using assms(1) by (simp_all add: cart_ok_def)
  show "cart_ok c'"
    using assms(1) q by (auto simp: cart_ok_def c' map_update_where list_all_iff set_update_where)
  have e: "List.find (\<lambda>x. citem_variantId x = v) (cart_items c') = map_option (\<lambda>x. if citem_id x = citem_id i
      then x\<lparr> citem_quantity := q \<rparr> else x) (List.find (\<lambda>x. citem_variantId x = v) (cart_items c))" for v
    by (simp add: c') (rule find_update_where, simp)
  show "line_quantity c' (citem_variantId i) = q"
    using e [of "citem_variantId i"] find_key [OF d(2) i] by (simp add: line_quantity_def)
  show "line_quantity c' w = line_quantity c w" if "w \<noteq> citem_variantId i"
  proof (cases "List.find (\<lambda>x. citem_variantId x = w) (cart_items c)")
    case None
    with e [of w] show ?thesis by (simp add: line_quantity_def)
  next
    case (Some x)
    with find_SomeD [OF Some] that key_unique [OF d(1), of x i] i have "citem_id x \<noteq> citem_id i" by auto
    with e [of w] Some show ?thesis by (simp add: line_quantity_def)
  qed
qed

lemma add_one_line:
  assumes "cart_ok c" and "\<And>x. x \<in> set (cart_items c) \<Longrightarrow> citem_id x \<noteq> citem_id i \<and> citem_variantId x \<noteq> citem_variantId i"
    and "1 \<le> citem_quantity i" "citem_quantity i \<le> MAX_CART_ITEM_QUANTITY" and "length (cart_items c) < MAX_CART_DISTINCT_ITEMS"
    and c': "c' = c\<lparr> cart_items := cart_items c @ [i] \<rparr>"
  shows "cart_ok c'" and "line_quantity c' (citem_variantId i) = citem_quantity i"
    and "w \<noteq> citem_variantId i \<Longrightarrow> line_quantity c' w = line_quantity c w"
proof -
  show "cart_ok c'" using assms(1-5) by (auto simp: cart_ok_def c' dest: sym)
  have "List.find (\<lambda>x. citem_variantId x = citem_variantId i) (cart_items c) = None"
    using assms(2) by (auto simp: find_None_all)
  then show "line_quantity c' (citem_variantId i) = citem_quantity i"
    by (simp add: line_quantity_def c' find_append)
  show "w \<noteq> citem_variantId i \<Longrightarrow> line_quantity c' w = line_quantity c w"
    by (simp add: line_quantity_def c' find_append split: option.splits)
qed

text \<open>What \<open>put_item\<close> leaves of the cart: the line of the variant, and the other lines.\<close>

lemma put_item_effect:
  assumes run: "put_item e cid vid q db = Inr db'" and ok: "carts_ok db" and c: "find_cart db cid = Some c"
  obtains v a c' where "public_variant (now e) db vid = Some v"
    and "availableCartQuantity (inventory_inputs (now e) db (var_id v)) = Inr a" and "line_quantity c vid + q \<le> a"
    and "1 \<le> line_quantity c vid + q" and "line_quantity c vid + q \<le> MAX_CART_ITEM_QUANTITY"
    and "carts_ok db'" and "cart_frame db db'" and "versioned db db'" and "find_cart db' cid = Some c'"
    and "cart_status c' = cart_status c" and "cart_customerId c' = cart_customerId c"
    and "cart_version c' = cart_version c + 1" and "line_quantity c' vid = line_quantity c vid + q"
    and "\<And>w. w \<noteq> vid \<Longrightarrow> line_quantity c' w = line_quantity c w"
proof -
  have okc: "cart_ok c" using ok find_cart_id [OF c] by (auto simp: carts_ok_def cart_list_ok_def list_all_iff)
  let ?n = "line_quantity c vid + q"
  let ?old = "List.find (\<lambda>i. citem_variantId i = vid) (cart_items c)"
  have old: "(case ?old of Some i \<Rightarrow> citem_quantity i | None \<Rightarrow> 0) = line_quantity c vid"
    by (cases ?old) (simp_all add: line_quantity_def)
  from run obtain v where v: "public_variant (now e) db vid = Some v"
    and q: "assertQuantity ?n = Inr ()" and av: "assertAvailable e db v ?n = Inr ()"
    and put: "bindE (case ?old of
                 None \<Rightarrow> require (\<not> length (cart_items c) \<ge> MAX_CART_DISTINCT_ITEMS)
                           (conflict ''CART_ITEM_LIMIT_REACHED'') (create_cart_item e cid vid ?n db)
               | Some i \<Rightarrow> Inr (set_quantity cid (citem_id i) ?n db)) (\<lambda>db1.
        Inr (set_cart cid (renewed_cart e) db1)) = Inr db'"
    unfolding put_item_def Let_def items_of_cart_found [OF c] old by (auto simp del: require_Inr)
  from q have n: "1 \<le> ?n" "?n \<le> MAX_CART_ITEM_QUANTITY" by (auto simp: assertQuantity_def)
  from av obtain a where a: "availableCartQuantity (inventory_inputs (now e) db (var_id v)) = Inr a" "?n \<le> a"
    by (auto simp: assertAvailable_def)
  show thesis
  proof (cases ?old)
    case (Some i)
    from find_SomeD [OF Some] have i: "i \<in> set (cart_items c)" "citem_variantId i = vid" by simp_all
    let ?h = "update_where (\<lambda>x. citem_id x = citem_id i) (\<lambda>x. x\<lparr> citem_quantity := ?n \<rparr>)"
    from put Some have db': "db' = set_cart cid (renewed_cart e) (set_cart cid (\<lambda>x. x\<lparr> cart_items := ?h (cart_items x) \<rparr>)
        (db\<lparr> seq := seq db \<rparr>))" by (simp add: set_quantity_def)
    note S = set_one_quantity [OF okc i(1) n refl, unfolded i(2)]
    note L = lines_set [OF ok c refl S(1) db']
    show thesis
      by (rule that [OF v a n, of "renewed_cart e (c\<lparr> cart_items := ?h (cart_items c) \<rparr>)"])
        (use L S(2,3) in \<open>simp_all add: line_quantity_def\<close>)
  next
    case None
    define i where "i = \<lparr> citem_id = fresh_id e db, citem_variantId = vid, citem_quantity = ?n \<rparr>"
    from put None have len: "length (cart_items c) < MAX_CART_DISTINCT_ITEMS"
      and fresh: "\<forall>x\<in>set (carts db). \<forall>y\<in>set (cart_items x). citem_id y \<noteq> citem_id i"
      and db': "db' = set_cart cid (renewed_cart e) (set_cart cid (\<lambda>x. x\<lparr> cart_items := cart_items x @ [i] \<rparr>)
        (db\<lparr> seq := Suc (seq db) \<rparr>))"
      by (auto simp: create_cart_item_def Let_def list_ex_iff i_def)
    have new: "citem_id x \<noteq> citem_id i \<and> citem_variantId x \<noteq> citem_variantId i" if "x \<in> set (cart_items c)" for x
      using that fresh find_cart_id [OF c] None by (auto simp: find_None_all i_def)
    have qi: "citem_quantity i = ?n" "citem_variantId i = vid" by (simp_all add: i_def)
    note S = add_one_line [OF okc new n [folded qi(1)] len refl, unfolded qi]
    note L = lines_set [OF ok c refl S(1) db']
    show thesis
      by (rule that [OF v a n, of "renewed_cart e (c\<lparr> cart_items := cart_items c @ [i] \<rparr>)"])
        (use L S(2,3) in \<open>simp_all add: line_quantity_def\<close>)
  qed
qed

section \<open>Availability, in the cart and at the checkout\<close>

lemma reserved_sum_exact:
  assumes "list_all (\<lambda>q. 0 < q) qs" and "0 \<le> acc" and "acc + sum_list qs \<le> MAX_SAFE_INTEGER"
  shows "foldE reserved_sum qs acc = Inr (acc + sum_list qs)"
  using assms
proof (induction qs arbitrary: acc)
  case (Cons q qs)
  have "0 \<le> sum_list qs" using Cons.prems(1) by (intro sum_list_nonneg) (auto simp: list_all_iff)
  then have s: "safe q" "safe (acc + q)" using Cons.prems by (auto simp: safe_def)
  have "reserved_sum q acc = Inr (acc + q)"
    using Cons.prems s by (simp add: reserved_sum_def js_add_def js_round_exact Let_def)
  moreover have "foldE reserved_sum qs (acc + q) = Inr (acc + q + sum_list qs)" by (rule Cons.IH) (use Cons.prems in simp_all)
  ultimately show ?case by simp
qed simp

lemma add_reserved_eq: "add_reserved r = reserved_sum (res_quantity r)"
  by (rule ext) (simp add: add_reserved_def reserved_sum_def inventoryInvariantError_def)

lemma foldE_add_reserved_eq: "foldE add_reserved rs = foldE reserved_sum (map res_quantity rs)"
proof (induction rs)
  case (Cons r rs)
  show ?case by (rule ext) (simp add: Cons add_reserved_eq [of r])
qed (simp add: fun_eq_iff)

definition held_quantities :: "int \<Rightarrow> 'a stock_db_scheme \<Rightarrow> item \<Rightarrow> int list" where
  "held_quantities n db i = map res_quantity (filter (\<lambda>r. res_itemId r = item_id i \<and> active_at n r) (reservations db))"

lemma held_quantities_sum: "sum_list (held_quantities n db i) = reserved n (reservations db) (item_id i)"
  by (simp add: held_quantities_def reserved_def sum_by_def)

lemma held_quantities_exact:
  assumes "stock_inv n db" and "i \<in> set (items db)"
  shows "foldE reserved_sum (held_quantities n db i) 0 = Inr (reserved n (reservations db) (item_id i))"
    and "0 \<le> item_onHand i" "item_onHand i \<le> DATABASE_INT_MAX" "0 \<le> available n db i" "available n db i \<le> item_onHand i"
proof -
  have ok: "item_ok n (movements db) (reservations db) i" "reservations_ok (reservations db)"
    using assms by (simp_all add: stock_inv_def)
  then show b: "0 \<le> item_onHand i" "item_onHand i \<le> DATABASE_INT_MAX" "0 \<le> available n db i" "available n db i \<le> item_onHand i"
    using reserved_nonneg [of "reservations db" n "item_id i"] by (auto simp: item_ok_def available_def)
  have "list_all (\<lambda>q. 0 < q) (held_quantities n db i)"
    using ok(2) by (auto simp: held_quantities_def list_all_iff reservations_ok_def)
  from reserved_sum_exact [OF this order_refl] b
  show "foldE reserved_sum (held_quantities n db i) 0 = Inr (reserved n (reservations db) (item_id i))"
    by (simp add: held_quantities_sum available_def MAX_SAFE_INTEGER_def DATABASE_INT_MAX_def)
qed

lemma allocation_bucket_exact:
  assumes "stock_inv (now e) db" and "i \<in> set (items db)"
  shows "allocation_bucket e db i
    = Inr \<lparr> bk_id = item_id i, bk_variantId = item_variantId i, bk_available = available (now e) db i \<rparr>"
proof -
  note h = held_quantities_exact [OF assms]
  have "safe (reserved (now e) (reservations db) (item_id i))"
    using h(2-5) by (auto simp: available_def safe_def MAX_SAFE_INTEGER_def DATABASE_INT_MAX_def)
  then show ?thesis
    using h by (simp add: allocation_bucket_def foldE_add_reserved_eq held_quantities_def [symmetric] available_def)
qed

lemma bucket_sum_exact:
  assumes "stock_inv n db" and "i \<in> set (items db)" and "0 \<le> acc" and "acc + item_onHand i \<le> MAX_SAFE_INTEGER"
  shows "bucket_sum (item_onHand i, held_quantities n db i) acc = Inr (acc + available n db i)"
proof -
  note h = held_quantities_exact [OF assms(1,2)]
  have "safe (item_onHand i)" "safe (acc + item_onHand i)" "safe (acc + available n db i)"
    using h(2-5) assms(3,4) by (auto simp: safe_def)
  then show ?thesis
    using h by (simp add: bucket_sum_def js_add_def js_round_exact available_def Let_def add.assoc [symmetric] algebra_simps)
qed

lemma bucket_sums_exact:
  assumes "stock_inv n db" and "set its \<subseteq> set (items db)" and "0 \<le> acc" and "acc + sum_by item_onHand its \<le> MAX_SAFE_INTEGER"
  shows "foldE bucket_sum (map (\<lambda>i. (item_onHand i, held_quantities n db i)) its) acc = Inr (acc + sum_by (available n db) its)"
  using assms(2-4)
proof (induction its arbitrary: acc)
  case (Cons i its)
  have i: "i \<in> set (items db)" using Cons.prems(1) by simp
  note h = held_quantities_exact [OF assms(1) i]
  have "0 \<le> sum_by item_onHand its"
    by (rule sum_by_nonneg) (use Cons.prems(1) held_quantities_exact(2) [OF assms(1)] in auto)
  then have s: "bucket_sum (item_onHand i, held_quantities n db i) acc = Inr (acc + available n db i)"
    by (intro bucket_sum_exact [OF assms(1) i Cons.prems(2)]) (use Cons.prems(3) in simp)
  have "foldE bucket_sum (map (\<lambda>i. (item_onHand i, held_quantities n db i)) its) (acc + available n db i)
      = Inr (acc + available n db i + sum_by (available n db) its)"
    by (rule Cons.IH) (use Cons.prems h in simp_all)
  with s show ?case by (simp add: add.assoc)
qed simp

definition sellable_items :: "int \<Rightarrow> 'a shop_db_scheme \<Rightarrow> string \<Rightarrow> item list" where
  "sellable_items n db vid =
     sort_key item_id (filter (\<lambda>i. item_variantId i = vid \<and> eligibleOrderInventoryWhere n db i) (items db))"

lemma sum_by_sort: "sum_by g (sort_key f xs) = sum_by g xs"
  unfolding sum_by_def by (metis mset_map mset_sort sum_mset_sum_list)

lemma cart_availability:
  assumes "stock_inv n db" and "sum_by item_onHand (items db) \<le> MAX_SAFE_INTEGER"
  shows "availableCartQuantity (inventory_inputs n db vid) = Inr (sum_by (available n db) (sellable_items n db vid))"
proof -
  have "sum_by item_onHand (sellable_items n db vid) \<le> sum_by item_onHand (items db)"
    unfolding sellable_items_def sum_by_sort
    by (subst (2) filter_True [symmetric, of _ "\<lambda>_. True"], simp, rule sum_by_filter_le)
      (use held_quantities_exact(2) [OF assms(1)] in auto)
  with assms(2) have "foldE bucket_sum (map (\<lambda>i. (item_onHand i, held_quantities n db i)) (sellable_items n db vid)) 0
      = Inr (0 + sum_by (available n db) (sellable_items n db vid))"
    by (intro bucket_sums_exact [OF assms(1)]) (auto simp: sellable_items_def)
  then show ?thesis
    by (simp add: availableCartQuantity_def inventory_inputs_def sellable_items_def held_quantities_def)
qed

text \<open>The buckets the checkout splits a line over are those the cart adds up.\<close>

lemma checkout_variants_ids:
  assumes "distinct (map var_id (variants db))"
  shows "distinct (map (var_id \<circ> fst) (checkout_variants e db ids))"
    and "set (map (var_id \<circ> fst) (checkout_variants e db ids)) \<subseteq> set ids"
proof -
  let ?one = "\<lambda>v. if var_id v \<in> set ids \<and> publicSellableVariantWhere v then
         (case List.find (\<lambda>p. prod_id p = var_productId v) (ref_products (reference db)) of
            None \<Rightarrow> []
          | Some p \<Rightarrow> if buildPublicProductWhere (now e) db p then [(v, p)] else []) else []"
  have "\<exists>Q. map (var_id \<circ> fst) (concat (map ?one vs)) = map var_id (filter Q vs) \<and> (\<forall>v. Q v \<longrightarrow> var_id v \<in> set ids)" for vs
  proof (intro exI conjI)
    show "map (var_id \<circ> fst) (concat (map ?one vs)) = map var_id (filter (\<lambda>v. ?one v \<noteq> []) vs)"
      by (induction vs) (auto split: option.splits)
  qed auto
  from this [of "variants db"] obtain Q where
    "map (var_id \<circ> fst) (checkout_variants e db ids) = map var_id (filter Q (variants db))" "\<forall>v. Q v \<longrightarrow> var_id v \<in> set ids"
    unfolding checkout_variants_def by blast
  with assms show "distinct (map (var_id \<circ> fst) (checkout_variants e db ids))"
    "set (map (var_id \<circ> fst) (checkout_variants e db ids)) \<subseteq> set ids"
    by (auto simp: distinct_map_filter)
qed

lemma variant_items_of:
  assumes "distinct (map (var_id \<circ> fst) vs)" and "vid \<in> set (map (var_id \<circ> fst) vs)"
  shows "filter (\<lambda>i. item_variantId i = vid) (variant_items cs vs) = filter (\<lambda>i. item_variantId i = vid) cs"
  using assms
proof (induction vs)
  case (Cons vp vs)
  have none: "filter (\<lambda>i. item_variantId i = vid) (variant_items cs vs) = []" if "vid \<notin> set (map (var_id \<circ> fst) vs)"
    using that by (auto simp: variant_items_def filter_empty_conv)
  have "variant_items cs (vp # vs) = filter (\<lambda>i. item_variantId i = var_id (fst vp)) cs @ variant_items cs vs"
    by (simp add: variant_items_def)
  then show ?case
    using Cons none by (cases "vid = var_id (fst vp)") (auto simp: filter_empty_conv conj_commute cong: filter_cong)
qed simp

lemma stock_of_items:
  assumes "stock_inv n db" and "set its \<subseteq> set (items db)"
  shows "stock_of vid (map (\<lambda>i. \<lparr> bk_id = item_id i, bk_variantId = item_variantId i, bk_available = available n db i \<rparr>) its)
    = sum_by (available n db) (filter (\<lambda>i. item_variantId i = vid) its)"
  using assms(2) held_quantities_exact(4) [OF assms(1)] by (induction its) (auto simp: max_def)

lemma settled_availability:
  assumes inv: "stock_inv (now e) db" and ids: "distinct (map var_id (variants db))"
    and d: "distinct (map ol_variantId ls)" and q: "list_all (\<lambda>l. 0 < ol_quantity l) ls"
    and all: "length (checkout_variants e db (map ol_variantId ls)) = length ls"
  shows "(\<exists>as. allocate_stock e db (variant_items (inventory_candidates e db (map ol_variantId ls))
                 (checkout_variants e db (map ol_variantId ls))) ls = Inr as)
    \<longleftrightarrow> list_all (\<lambda>l. ol_quantity l \<le> sum_by (available (now e) db) (sellable_items (now e) db (ol_variantId l))) ls"
proof -
  let ?ids = "map ol_variantId ls"
  let ?cs = "inventory_candidates e db ?ids" and ?vs = "checkout_variants e db ?ids"
  let ?its = "variant_items ?cs ?vs"
  let ?bk = "\<lambda>i. \<lparr> bk_id = item_id i, bk_variantId = item_variantId i, bk_available = available (now e) db i \<rparr>"
  note V = checkout_variants_ids [OF ids, of e ?ids]
  have "card (set (map (var_id \<circ> fst) ?vs)) = card (set ?ids)"
    using distinct_card [OF V(1)] distinct_card [OF d] all by simp
  then have same: "set (map (var_id \<circ> fst) ?vs) = set ?ids" by (intro card_subset_eq V) simp_all
  have dist: "distinct (map item_id (items db))" using inv by (simp add: stock_inv_def)
  have cs: "set ?cs \<subseteq> set (items db)" "distinct (map item_id ?cs)"
    using dist by (auto simp: inventory_candidates_def distinct_map_filter distinct_map_sort_key)
  note I = variant_items_distinct [OF cs(2) V(1)]
  have sub: "set ?its \<subseteq> set (items db)" using I(2) cs(1) by blast
  have bks: "mapE (allocation_bucket e db) ?its = Inr (map ?bk ?its)"
    using sub by (auto simp: mapE_Inr list_all2_map2 list_all2_same intro!: allocation_bucket_exact [OF inv])
  have "stock_of (ol_variantId l) (map ?bk ?its) = sum_by (available (now e) db) (sellable_items (now e) db (ol_variantId l))"
    if l: "l \<in> set ls" for l
  proof -
    have "filter (\<lambda>i. item_variantId i = ol_variantId l) ?its = filter (\<lambda>i. item_variantId i = ol_variantId l) ?cs"
      by (rule variant_items_of [OF V(1)]) (use l same in auto)
    also have "\<dots> = sellable_items (now e) db (ol_variantId l)"
      using l by (auto simp: inventory_candidates_def sellable_items_def filter_sort intro!: arg_cong [where f = "sort_key item_id"] filter_cong)
    finally show ?thesis by (simp add: stock_of_items [OF inv sub])
  qed
  then have cov: "list_all (covered (map ?bk ?its)) ls
      = list_all (\<lambda>l. ol_quantity l \<le> sum_by (available (now e) db) (sellable_items (now e) db (ol_variantId l))) ls"
    by (auto simp: list_all_iff covered_def)
  have "distinct (map bk_id (map ?bk ?its))" using I(1) by (simp add: comp_def)
  from allocateInventory_spec [OF d q this] have "(\<exists>as. allocateInventory ls (map ?bk ?its) = Some as) = list_all (covered (map ?bk ?its)) ls"
    by (cases "allocateInventory ls (map ?bk ?its)") auto
  then show ?thesis by (simp add: allocate_stock_def bks cov)
qed

section \<open>Runs\<close>

text \<open>
  A request to the cart, a checkout (its quantities are checked by the DTO), or anything that leaves the
  carts alone.
\<close>

inductive cart_step :: "env \<Rightarrow> 'a shop_db_scheme \<Rightarrow> 'a shop_db_scheme \<Rightarrow> bool" for e where
  got: "cart_get e db = (r, db') \<Longrightarrow> cart_step e db db'"
| added: "cart_add e vid q db = (r, db') \<Longrightarrow> cart_step e db db'"
| updated: "cart_update e iid q db = (r, db') \<Longrightarrow> cart_step e db db'"
| removed: "cart_remove e iid db = (r, db') \<Longrightarrow> cart_step e db db'"

lemma and_respond_cases:
  assumes "and_respond e tx db = (r, db')"
  obtains "db' = db" | cid where "tx = Inr (cid, db')"
  using assms by (cases tx) (auto simp: and_respond_def)

lemma locked_find: "locked_cart e cid db \<Longrightarrow> \<exists>c. find_cart db cid = Some c"
  by (auto simp: locked_cart_def)

definition cart_kept :: "'a shop_db_scheme \<Rightarrow> 'a shop_db_scheme \<Rightarrow> bool" where
  "cart_kept db db' = (carts_ok db' \<and> cart_frame db db' \<and> versioned db db')"

lemma cart_kept_trans: "cart_kept a b \<Longrightarrow> cart_kept b c \<Longrightarrow> cart_kept a c"
  by (auto simp: cart_kept_def intro: cart_frame_trans versioned_trans)

lemma lock_kept: "lockCustomerAndCart e create db = Inr (r, db') \<Longrightarrow> carts_ok db \<Longrightarrow> cart_kept db db'"
  by (drule (1) lock_ok) (simp add: cart_kept_def)

lemma cart_add_tx_kept:
  assumes run: "cart_add_tx e vid q db = Inr (cid, db')" and ok: "carts_ok db"
  shows "cart_kept db db'"
proof -
  from run obtain r db1 where l: "lockCustomerAndCart e True db = Inr (r, db1)" and cid: "cid = the r"
    and p: "put_item e cid vid q db1 = Inr db'" by (auto simp: cart_add_tx_def)
  note L = lock_ok [OF l ok]
  from L obtain c where c: "find_cart db1 cid = Some c" using cid by (cases r) (auto dest!: locked_find)
  from L have ok1: "carts_ok db1" by blast
  from put_item_effect [OF p ok1 c] have "cart_kept db1 db'" by (auto simp: cart_kept_def)
  with lock_kept [OF l ok] show ?thesis by (rule cart_kept_trans)
qed

lemma cart_update_tx_kept:
  assumes run: "cart_update_tx e iid q db = Inr (cid, db')" and ok: "carts_ok db"
  shows "cart_kept db db'"
proof -
  from run obtain db1 i where l: "lockCustomerAndCart e False db = Inr (Some cid, db1)"
    and i: "List.find (\<lambda>i. citem_id i = iid) (items_of_cart db1 cid) = Some i" and q: "assertQuantity q = Inr ()"
    and db': "db' = set_cart cid (renewed_cart e) (set_cart cid (\<lambda>x. x\<lparr> cart_items :=
        update_where (\<lambda>x. citem_id x = citem_id i) (\<lambda>x. x\<lparr> citem_quantity := q \<rparr>) (cart_items x) \<rparr>) (db1\<lparr> seq := seq db1 \<rparr>))"
    by (auto simp: cart_update_tx_def set_quantity_def)
  note L = lock_ok [OF l ok]
  from L have ok1: "carts_ok db1" by blast
  from L obtain c where c: "find_cart db1 cid = Some c" using locked_find by blast
  have okc: "cart_ok c" using ok1 find_cart_id [OF c] by (auto simp: carts_ok_def cart_list_ok_def list_all_iff)
  have n: "1 \<le> q" "q \<le> MAX_CART_ITEM_QUANTITY" using q by (auto simp: assertQuantity_def)
  have "i \<in> set (cart_items c)" using find_SomeD [OF i] by (simp add: items_of_cart_found [OF c])
  note S = set_one_quantity [OF okc this n refl]
  from lines_set [OF ok1 c refl S(1) db'] have "cart_kept db1 db'" by (simp add: cart_kept_def)
  with lock_kept [OF l ok] show ?thesis by (rule cart_kept_trans)
qed

lemma cart_remove_tx_kept:
  assumes run: "cart_remove_tx e iid db = Inr (cid, db')" and ok: "carts_ok db"
  shows "cart_kept db db'"
proof -
  from run obtain db1 where l: "lockCustomerAndCart e False db = Inr (Some cid, db1)"
    and db': "db' = set_cart cid (renewed_cart e) (set_cart cid (\<lambda>x. x\<lparr> cart_items :=
        filter (\<lambda>x. citem_id x \<noteq> iid) (cart_items x) \<rparr>) (db1\<lparr> seq := seq db1 \<rparr>))"
    by (auto simp: cart_remove_tx_def)
  note L = lock_ok [OF l ok]
  from L have ok1: "carts_ok db1" by blast
  from L obtain c where c: "find_cart db1 cid = Some c" using locked_find by blast
  have "cart_ok c \<Longrightarrow> cart_ok (c\<lparr> cart_items := filter (\<lambda>x. citem_id x \<noteq> iid) (cart_items c) \<rparr>)"
    by (auto simp: cart_ok_def list_all_iff distinct_map_filter intro: le_trans [OF length_filter_le])
  from lines_set [OF ok1 c refl this db'] have "cart_kept db1 db'" by (simp add: cart_kept_def)
  with lock_kept [OF l ok] show ?thesis by (rule cart_kept_trans)
qed

lemma cart_kept_refl: "carts_ok db \<Longrightarrow> cart_kept db db"
  by (simp add: cart_kept_def)

lemma cart_step_kept:
  assumes "cart_step e db db'" and ok: "carts_ok db"
  shows "cart_kept db db'"
  using assms(1)
proof cases
  case (got r)
  from got [unfolded cart_get_def] show ?thesis
    by (rule and_respond_cases) (auto simp: cart_kept_refl ok intro: lock_kept [OF _ ok])
next
  case (added vid q r)
  from added [unfolded cart_add_def] show ?thesis
    by (rule and_respond_cases) (auto simp: cart_kept_refl ok intro: cart_add_tx_kept [OF _ ok])
next
  case (updated iid q r)
  from updated [unfolded cart_update_def] show ?thesis
    by (rule and_respond_cases) (auto simp: cart_kept_refl ok intro: cart_update_tx_kept [OF _ ok])
next
  case (removed iid r)
  from removed [unfolded cart_remove_def] show ?thesis
    by (rule and_respond_cases) (auto simp: cart_kept_refl ok intro: cart_remove_tx_kept [OF _ ok])
qed

lemma checked_out_carts:
  assumes "checkout_create aborted cfg e input hdr u db = Inr (r, db')" and "stock_inv (now e) db"
    and "list_all (\<lambda>l. 0 < ol_quantity l) (ci_items input)" and ok: "carts_ok db"
  shows "carts_ok db' \<and> versioned db db'"
  using assms(1-3)
proof (cases rule: checkout_create_cases)
  case replay
  with ok show ?thesis by simp
next
  case (new o' c claim cs)
  let ?f = "\<lambda>x. x\<lparr> cart_status := CART_CONVERTED, cart_convertedAt := Some (now e),
    cart_version := cart_version x + 1, cart_updatedAt := now e \<rparr>"
  from new(2) have cs: "carts db' = update_where (\<lambda>x. cart_id x = cart_id c \<and> cart_status x = CART_ACTIVE
      \<and> cart_version x = cart_version c) ?f (carts db)"
    unfolding new_order_def by simp
  have "carts_ok db'"
    unfolding carts_ok_def cs by (rule update_cart_ok [OF ok [unfolded carts_ok_def]]) (simp_all add: in_use_def cart_ok_def)
  moreover have "versioned db db'" by (rule versioned_update [OF cs]) simp_all
  ultimately show ?thesis ..
qed

text \<open>A request to the cart writes nothing but carts, whatever the carts are.\<close>

lemma set_cart_frame: "cart_frame db db1 \<Longrightarrow> cart_frame db (set_cart cid f db1)"
  by (rule cart_frame_trans [OF _ cart_frame_writes(3)])

lemma create_cart_frame:
  assumes "create_cart e k db1 = Inr (cid, db2)" and "cart_frame db db1"
  shows "cart_frame db db2"
  by (rule cart_frame_trans [OF assms(2)]) (use assms(1) in \<open>auto simp: create_cart_def Let_def\<close>)

lemma lock_cases:
  assumes run: "lockCustomerAndCart e create db = Inr (r, db')"
  obtains (kept) c k where "active_cart db k = Some c" "r = Some (cart_id c)" "db' = removeUnavailableItems e (cart_id c) db"
  | (created) k db1 cid where "create_cart e k db1 = Inr (cid, db')" "r = Some cid" "cart_frame db db1"
      "map cart_id (carts db1) = map cart_id (carts db)"
  | (absent) "r = None" "cart_frame db db'"
proof -
  have ids: "map cart_id (update_where P (expired_cart e) cs) = map cart_id cs" for P cs
    by (rule map_update_where) simp
  obtain k :: customer where rest: "(let continue = (\<lambda>db1. if \<not> create then Inr (None, db1)
           else bindE (create_cart e (cus_id k) db1) (\<lambda>(cid, db2). Inr (Some cid, db2)))
     in case active_cart db (cus_id k) of
          Some c \<Rightarrow>
            if \<not> null_or_after (cart_expiresAt c) (now e) then
              continue (db\<lparr> carts := update_where (\<lambda>x. cart_id x = cart_id c \<and> cart_status x = CART_ACTIVE)
                                       (expired_cart e) (carts db) \<rparr>)
            else Inr (Some (cart_id c), removeUnavailableItems e (cart_id c) db)
        | None \<Rightarrow> continue db) = Inr (r, db')"
    by (rule lock_parts [OF run])
  show thesis
  proof (cases "active_cart db (cus_id k)")
    case None
    with rest show thesis by (auto simp: Let_def split: if_splits intro: created absent)
  next
    case (Some c)
    show thesis
    proof (cases "null_or_after (cart_expiresAt c) (now e)")
      case True
      with rest Some show thesis by (intro kept [OF Some]) (auto simp: Let_def)
    next
      case False
      with rest Some show thesis by (auto simp: Let_def ids split: if_splits intro: created absent)
    qed
  qed
qed

lemma removed_frame: "cart_frame db (removeUnavailableItems e cid db)"
  by (simp add: removeUnavailableItems_def Let_def)

lemma lock_frame: "lockCustomerAndCart e create db = Inr (r, db') \<Longrightarrow> cart_frame db db'"
  by (erule lock_cases) (auto intro: create_cart_frame removed_frame)

lemma put_item_frame:
  assumes "put_item e cid vid q db = Inr db'"
  shows "cart_frame db db'"
  using assms unfolding put_item_def Let_def
  by (auto simp: create_cart_item_def set_quantity_def Let_def split: option.splits intro!: set_cart_frame)

lemma cart_step_frame:
  assumes "cart_step e db db'"
  shows "cart_frame db db'"
  using assms
proof cases
  case (got r)
  from got [unfolded cart_get_def] show ?thesis by (rule and_respond_cases) (auto dest: lock_frame)
next
  case (added vid q r)
  from added [unfolded cart_add_def] show ?thesis
    by (rule and_respond_cases) (auto simp: cart_add_tx_def intro: cart_frame_trans [OF lock_frame put_item_frame])
next
  case (updated iid q r)
  from updated [unfolded cart_update_def] show ?thesis
    by (rule and_respond_cases)
      (auto simp: cart_update_tx_def set_quantity_def intro!: set_cart_frame intro: lock_frame)
next
  case (removed iid r)
  from removed [unfolded cart_remove_def] show ?thesis
    by (rule and_respond_cases) (auto simp: cart_remove_tx_def intro!: set_cart_frame intro: lock_frame)
qed

section \<open>The line before and after\<close>

lemma lock_origin:
  assumes run: "lockCustomerAndCart e create db = Inr (Some cid, db')" and ok: "carts_ok db"
  obtains (kept) c where "find_cart db cid = Some c" "db' = removeUnavailableItems e cid db"
  | (created) k db1 where "create_cart e k db1 = Inr (cid, db')" "map cart_id (carts db1) = map cart_id (carts db)"
  using run
proof (cases rule: lock_cases)
  case (kept c k)
  with find_own_cart [OF ok active_cart_Some(1) [OF kept(1)]] show thesis by (intro that(1) [of c]) simp_all
next
  case (created k db1 cid')
  then show thesis by (intro that(2) [of k db1]) simp_all
qed simp

lemma removed_line:
  assumes "find_cart db cid = Some c" and "public_variant (now e) db vid \<noteq> None"
  shows "\<exists>c'. find_cart (removeUnavailableItems e cid db) cid = Some c' \<and> line_quantity c' vid = line_quantity c vid"
proof -
  let ?keep = "\<lambda>i. \<not> public_variant (now e) db (citem_variantId i) = None"
  have f: "List.find (\<lambda>i. citem_variantId i = vid) (filter ?keep ls) = List.find (\<lambda>i. citem_variantId i = vid) ls"
    for ls :: "cart_item list"
    using assms(2) by (induction ls) auto
  have "\<exists>c'. find_cart (set_cart cid (\<lambda>c. c\<lparr> cart_items := filter ?keep (cart_items c),
      cart_version := cart_version c + 1, cart_updatedAt := now e \<rparr>) db) cid = Some c'
      \<and> line_quantity c' vid = line_quantity c vid"
    by (subst find_set_cart) (simp_all add: assms(1) line_quantity_def f [simplified])
  with assms(1) show ?thesis by (simp add: removeUnavailableItems_def Let_def)
qed

definition line_before :: "'a shop_db_scheme \<Rightarrow> string \<Rightarrow> string \<Rightarrow> int" where
  "line_before db cid vid = (case find_cart db cid of None \<Rightarrow> 0 | Some c \<Rightarrow> line_quantity c vid)"

lemma locked_line:
  assumes run: "lockCustomerAndCart e create db = Inr (Some cid, db')" and ok: "carts_ok db"
    and pub: "public_variant (now e) db vid \<noteq> None" and c: "find_cart db' cid = Some c"
  shows "line_quantity c vid = line_before db cid vid"
  using run ok
proof (cases rule: lock_origin)
  case (kept c0)
  from removed_line [OF kept(1) pub] c kept show ?thesis by (auto simp: line_before_def)
next
  case (created k db1)
  from created(1) have fresh: "\<forall>x\<in>set (carts db1). cart_id x \<noteq> cid" and db': "carts db' = carts db1 @ [new_cart e cid k]"
    by (auto simp: create_cart_def Let_def list_ex_iff new_cart_def)
  have "cid \<notin> set (map cart_id (carts db))" using fresh unfolding created(2) [symmetric] by auto
  then have "find_cart db cid = None" by (auto simp: find_cart_def find_None_all)
  moreover have "find_cart db' cid = Some (new_cart e cid k)"
    using fresh by (simp add: find_cart_def db' find_append find_None_all [THEN iffD2] new_cart_def)
  ultimately show ?thesis using c by (simp add: line_before_def line_quantity_def new_cart_def)
qed

lemma frame_reads:
  assumes "cart_frame db db'"
  shows "public_variant n db' vid = public_variant n db vid" and "inventory_inputs n db' vid = inventory_inputs n db vid"
    and "stock_inv t db' = stock_inv t db" and "items db' = items db" and "reservations db' = reservations db"
    and "orders db' = orders db"
proof -
  obtain cs k where db': "db' = db\<lparr> carts := cs, seq := k \<rparr>" using assms unfolding cart_frame_def by blast
  show "public_variant n db' vid = public_variant n db vid"
    by (simp add: db' public_variant_def publicVariantWhere_def buildPublicProductWhere_def Let_def hasSellablePublicVariant_def
        hasApprovedPublicImage_def product_variants_def)
  have "eligibleOrderInventoryWhere n db' i = eligibleOrderInventoryWhere n db i" for i
    by (cases "item_batchId i") (simp_all add: db' eligibleOrderInventoryWhere_def fulfilling_item_def)
  then show "inventory_inputs n db' vid = inventory_inputs n db vid"
    by (simp add: db' inventory_inputs_def)
  show "stock_inv t db' = stock_inv t db" by (rule stock_inv_cong) (simp_all add: db')
  show "items db' = items db" "reservations db' = reservations db" "orders db' = orders db" by (simp_all add: db')
qed

lemma cart_frame_same:
  "cart_frame db db' \<Longrightarrow> orders db' = orders db \<and> deliveries db' = deliveries db \<and> shop_db.more db' = shop_db.more db"
  unfolding cart_frame_def by (cases db; cases db') simp

lemma public_variant_id: "public_variant n db vid = Some v \<Longrightarrow> var_id v = vid"
  by (auto simp: public_variant_def dest: find_SomeD)

lemma cart_line_added:
  assumes run: "cart_add_tx e vid q db = Inr (cid, db')" and ok: "carts_ok db" and inv: "stock_inv (now e) db"
    and small: "sum_by item_onHand (items db) \<le> MAX_SAFE_INTEGER"
  shows "\<exists>c. find_cart db' cid = Some c \<and> cart_status c = CART_ACTIVE
    \<and> line_quantity c vid = line_before db cid vid + q \<and> line_quantity c vid \<le> MAX_CART_ITEM_QUANTITY
    \<and> line_quantity c vid \<le> sum_by (available (now e) db) (sellable_items (now e) db vid)
    \<and> items db' = items db \<and> reservations db' = reservations db \<and> orders db' = orders db"
proof -
  from run obtain r db1 where l: "lockCustomerAndCart e True db = Inr (r, db1)" and cid: "cid = the r"
    and p: "put_item e cid vid q db1 = Inr db'" by (auto simp: cart_add_tx_def)
  note L = lock_ok [OF l ok]
  from L have r: "r = Some cid" using cid by (cases r) auto
  from L r have lc: "locked_cart e cid db1" and ok1: "carts_ok db1" and f1: "cart_frame db db1" by blast+
  from lc obtain c where c: "find_cart db1 cid = Some c" "cart_status c = CART_ACTIVE" by (auto simp: locked_cart_def)
  from p ok1 c(1) show ?thesis
  proof (rule put_item_effect)
    fix v a c'
    assume v: "public_variant (now e) db1 vid = Some v"
      and a: "availableCartQuantity (inventory_inputs (now e) db1 (var_id v)) = Inr a" "line_quantity c vid + q \<le> a"
      and n: "line_quantity c vid + q \<le> MAX_CART_ITEM_QUANTITY" and f2: "cart_frame db1 db'"
      and c': "find_cart db' cid = Some c'" "cart_status c' = cart_status c" "line_quantity c' vid = line_quantity c vid + q"
    have "line_quantity c vid = line_before db cid vid"
      by (rule locked_line [OF l [unfolded r] ok _ c(1)]) (use v frame_reads(1) [OF f1] in simp)
    moreover have "a = sum_by (available (now e) db) (sellable_items (now e) db vid)"
      using a(1) cart_availability [OF inv small, of vid] public_variant_id [OF v] frame_reads(2) [OF f1] by simp
    ultimately show ?thesis
      using c c' a(2) n frame_reads(4-6) [OF cart_frame_trans [OF f1 f2]] by simp
  qed
qed

section \<open>Properties\<close>

text \<open>A shop in which the checks below evaluate: the customer's cart and the stock of the demonstration.\<close>

lemma demo_carts_evaluated:
  "carts_ok demo_shop \<and> distinct (map var_id (variants demo_shop))
   \<and> sum_by item_onHand (items demo_shop) \<le> MAX_SAFE_INTEGER
   \<and> length (checkout_variants shop_env demo_shop (map ol_variantId (ci_items demo_input))) = length (ci_items demo_input)
   \<and> (case cart_add_tx shop_env ''v1'' 1 demo_shop of Inr (cid, db) \<Rightarrow> True | Inl x \<Rightarrow> False)"
  by code_simp

lemma demo_carts:
  "carts_ok demo_shop" "distinct (map var_id (variants demo_shop))"
  "sum_by item_onHand (items demo_shop) \<le> MAX_SAFE_INTEGER"
  "length (checkout_variants shop_env demo_shop (map ol_variantId (ci_items demo_input))) = length (ci_items demo_input)"
  "case cart_add_tx shop_env ''v1'' 1 demo_shop of Inr (cid, db) \<Rightarrow> True | Inl x \<Rightarrow> False"
  using demo_carts_evaluated by - (elim conjE, assumption)+

text \<open>
  Property C11 (cart_add_fills_line): adding a variant that succeeds leaves in the customer's active cart
  one line of what was there before plus what was asked, at most twenty units and at most what is
  sellable of the variant at that instant; it reserves nothing, so stock, reservations and orders are
  as before.
\<close>

theorem cart_add_fills_line:
  assumes "cart_add_tx e vid q db = Inr (cid, db')" and "carts_ok db" and "stock_inv (now e) db"
    and "sum_by item_onHand (items db) \<le> MAX_SAFE_INTEGER"
  shows "\<exists>c. find_cart db' cid = Some c \<and> cart_status c = CART_ACTIVE
    \<and> line_quantity c vid = line_before db cid vid + q \<and> line_quantity c vid \<le> MAX_CART_ITEM_QUANTITY
    \<and> line_quantity c vid \<le> sum_by (available (now e) db) (sellable_items (now e) db vid)
    \<and> items db' = items db \<and> reservations db' = reservations db \<and> orders db' = orders db"
  by (rule cart_line_added [OF assms])

theorem cart_add_fills_line_witness:
  "\<exists>cid db' c. cart_add_tx shop_env ''v1'' 1 demo_shop = Inr (cid, db') \<and> find_cart db' cid = Some c
     \<and> line_quantity c ''v1'' = line_before demo_shop cid ''v1'' + 1"
proof -
  obtain cid db' where "cart_add_tx shop_env ''v1'' 1 demo_shop = Inr (cid, db')"
    using demo_carts(5) by (auto split: sum.splits)
  with cart_add_fills_line [OF this demo_carts(1) demo_shop_stock demo_carts(3)] show ?thesis by blast
qed

text \<open>
  Property C10 (cart_agrees_with_checkout): the cart and the checkout compute availability in two
  different ways, one summing the rows of each bucket, the other subtracting grouped reservations and
  walking the buckets; they agree: the stock of an order can be allocated exactly when every line asks
  at most the quantity the cart shows as available.
\<close>

theorem cart_agrees_with_checkout:
  assumes "stock_inv (now e) db" and "distinct (map var_id (variants db))"
    and "sum_by item_onHand (items db) \<le> MAX_SAFE_INTEGER"
    and "distinct (map ol_variantId ls)" and "list_all (\<lambda>l. 0 < ol_quantity l) ls"
    and "length (checkout_variants e db (map ol_variantId ls)) = length ls"
  shows "(\<exists>as. allocate_stock e db (variant_items (inventory_candidates e db (map ol_variantId ls))
                 (checkout_variants e db (map ol_variantId ls))) ls = Inr as)
    \<longleftrightarrow> list_all (\<lambda>l. \<exists>a. availableCartQuantity (inventory_inputs (now e) db (ol_variantId l)) = Inr a
                        \<and> ol_quantity l \<le> a) ls"
  unfolding settled_availability [OF assms(1,2,4-6)] by (simp add: cart_availability [OF assms(1,3)])

theorem cart_agrees_with_checkout_witness:
  "let ls = ci_items demo_input; ids = map ol_variantId ls in
   (\<exists>as. allocate_stock shop_env demo_shop (variant_items (inventory_candidates shop_env demo_shop ids)
                 (checkout_variants shop_env demo_shop ids)) ls = Inr as)
    \<longleftrightarrow> list_all (\<lambda>l. \<exists>a. availableCartQuantity (inventory_inputs (now shop_env) demo_shop (ol_variantId l)) = Inr a
                        \<and> ol_quantity l \<le> a) ls"
  unfolding Let_def
  by (rule cart_agrees_with_checkout [OF demo_shop_stock demo_carts(2,3) _ demo_input_quantities demo_carts(4)])
    (simp add: demo_input_def)

end
