(* ===== verification/InventoryProofs.thy ===== *)
theory InventoryProofs
  imports Inventory Contracts "HOL-Library.Multiset"
begin

text \<open>
  The inventory handlers keep the stock contract \<open>stock_inv\<close>; what each of them does to the
  stock, who may decide an adjustment, and what a repeated idempotency key does.
\<close>

section \<open>The stock contract\<close>

lemma find_itemD: "find_item db iid = Some i \<Longrightarrow> i \<in> set (items db) \<and> item_id i = iid"
  by (auto simp: find_item_def dest: find_SomeD)

lemma find_bucketD: "find_bucket db v l k = Some i \<Longrightarrow> i \<in> set (items db) \<and> item_key i = (v, l, k)"
  by (auto simp: find_bucket_def dest: find_SomeD)

lemma createLocation_inv:
  assumes "createLocation e input db = Inr (r, db')" and "stock_inv t db"
  shows "stock_inv t db'"
  using assms by (auto simp: createLocation_def Let_def stock_inv_def)

lemma createItem_inv:
  assumes c: "createItem e input db = Inr (r, db')" and inv: "stock_inv t db"
  shows "stock_inv t db'"
proof -
  from c have q: "ci_initialQuantity input = 0" by (simp add: createItem_def)
  from c obtain i m where db': "items db' = items db @ [i]" "movements db' = movements db @ [m]"
      "reservations db' = reservations db"
    and i: "\<not> (\<exists>x\<in>set (items db). item_id i = item_id x \<or> item_key i = item_key x)" "item_onHand i = 0"
    and m: "mv_itemId m = item_id i" "mv_delta m = 0" "mv_onHandAfter m = 0"
    by (auto simp: createItem_def Let_def movement_row_def)
  show ?thesis
    by (rule stock_inv_new_item [OF inv _ _ _ _ _ _ _ db'])
      (use i m in \<open>auto simp: DATABASE_INT_MAX_def\<close>)
qed

lemma batch_for_receipt_frame:
  assumes "batch_for_receipt e input db = Inr (b, db')"
  shows "items db' = items db" and "movements db' = movements db" and "reservations db' = reservations db"
    and "transfers db' = transfers db"
  using assms by (auto simp: batch_for_receipt_def Let_def split: option.splits if_splits)

text \<open>Every receipt is one increment of an existing bucket or one new bucket, with one movement
  that carries the idempotency key.\<close>

lemma receiveBatch_tx_cases:
  assumes "receiveBatch_tx e input kh fp db = Inr (r, db')"
  obtains i m where "i \<in> set (items db)" "item_onHand i \<le> DATABASE_INT_MAX - bi_quantity input"
      "items db' = update_where (\<lambda>x. item_id x = item_id i) (add_on_hand (bi_quantity input)) (items db)"
      "movements db' = movements db @ [m]" "reservations db' = reservations db"
      "mv_itemId m = item_id i" "mv_delta m = bi_quantity input"
      "mv_onHandAfter m = item_onHand i + bi_quantity input" "mv_keyHash m = Some kh"
      "mv_fingerprint m = Some fp" "\<not> (\<exists>x\<in>set (movements db). mv_keyHash x = Some kh)"
  | i m where "\<not> (\<exists>x\<in>set (items db). item_id i = item_id x \<or> item_key i = item_key x)"
      "item_onHand i = bi_quantity input" "bi_quantity input \<le> DATABASE_INT_MAX"
      "items db' = items db @ [i]"
      "movements db' = movements db @ [m]" "reservations db' = reservations db"
      "mv_itemId m = item_id i" "mv_delta m = bi_quantity input"
      "mv_onHandAfter m = bi_quantity input" "mv_keyHash m = Some kh"
      "mv_fingerprint m = Some fp" "\<not> (\<exists>x\<in>set (movements db). mv_keyHash x = Some kh)"
proof -
  from assms obtain b db1 where b: "batch_for_receipt e input db = Inr (b, db1)"
    by (auto simp: receiveBatch_tx_def Let_def)
  note fr = batch_for_receipt_frame [OF b]
  show ?thesis
  proof (cases "find_bucket db1 (bi_variantId input) (bi_locationId input) (batch_id b)")
    case None
    with assms b show ?thesis
      by (auto simp: receiveBatch_tx_def Let_def movement_row_def fr same_some_def intro!: that(2))
  next
    case (Some i)
    from find_bucketD [OF Some] have "i \<in> set (items db)" by (simp add: fr)
    with Some assms b show ?thesis
      by (auto simp: receiveBatch_tx_def Let_def movement_row_def fr same_some_def intro!: that(1))
  qed
qed

lemma receiveBatch_tx_inv:
  assumes c: "receiveBatch_tx e input kh fp db = Inr (r, db')" and inv: "stock_inv t db"
    and q: "0 \<le> bi_quantity input"
  shows "stock_inv t db'"
  using c
proof (cases rule: receiveBatch_tx_cases)
  case (1 i m)
  have ok: "item_ok t (movements db) (reservations db) i" using stock_invD(4) [OF inv 1(1)] .
  show ?thesis
    by (rule stock_inv_add [OF inv 1(1) _ _ _ _ _ 1(3,4,5)])
      (use ok q 1 in \<open>auto simp: item_ok_def\<close>)
next
  case (2 i m)
  show ?thesis
    by (rule stock_inv_new_item [OF inv _ _ _ _ _ _ _ 2(4,5,6)]) (use q 2 in \<open>auto\<close>)
qed

lemma receiveBatch_cases:
  assumes "receiveBatch e input key seen db = Inr (r, db')"
  obtains "db' = db"
  | kh fp where "receiveBatch_tx e input kh fp db = Inr (r, db')"
  using assms
  by (auto simp: receiveBatch_def Let_def split: option.splits sum.splits if_splits)

lemma receiveBatch_inv:
  assumes "receiveBatch e input key seen db = Inr (r, db')" and "stock_inv t db"
    and "0 \<le> bi_quantity input"
  shows "stock_inv t db'"
  using assms(1) by (cases rule: receiveBatch_cases) (use assms receiveBatch_tx_inv in auto)

lemma adjust_frame:
  assumes "adjust e iid input db = Inr (r, db')"
  shows "items db' = items db" "movements db' = movements db" "reservations db' = reservations db"
  using assms by (auto simp: adjust_def Let_def)

lemma adjust_inv:
  "adjust e iid input db = Inr (r, db') \<Longrightarrow> stock_inv t db \<Longrightarrow> stock_inv t db'"
  using stock_inv_cong [OF adjust_frame] by blast

lemma updateThreshold_inv:
  "updateThreshold e vid input db = Inr (r, db') \<Longrightarrow> stock_inv t db \<Longrightarrow> stock_inv t db'"
  by (auto simp: updateThreshold_def Let_def stock_inv_def)

section \<open>decideAdjustment\<close>

lemma update_adjustment_simps [simp]:
  "items (update_adjustment a f db) = items db"
  "movements (update_adjustment a f db) = movements db"
  "reservations (update_adjustment a f db) = reservations db"
  "seq (update_adjustment a f db) = seq db" "audits (update_adjustment a f db) = audits db"
  "adjustments (update_adjustment a f db) = update_where (\<lambda>x. adj_id x = a) f (adjustments db)"
  by (simp_all add: update_adjustment_def)

text \<open>What an approval that was neither stale nor refused wrote.\<close>

definition adjustment_applied ::
  "env \<Rightarrow> adjustment \<Rightarrow> item \<Rightarrow> movement \<Rightarrow> 'a stock_db_scheme \<Rightarrow> 'a stock_db_scheme \<Rightarrow> bool" where
  "adjustment_applied e a i m db db' =
     (i \<in> set (items db) \<and> item_id i = adj_itemId a
      \<and> item_version i = adj_expectedVersion a \<and> item_onHand i = adj_onHandBefore a
      \<and> 0 \<le> item_onHand i + adj_delta a \<and> item_onHand i + adj_delta a \<le> DATABASE_INT_MAX
      \<and> reserved (now e) (reservations db) (item_id i) \<le> item_onHand i + adj_delta a
      \<and> items db' = update_where (\<lambda>x. item_id x = item_id i \<and> item_version x = adj_expectedVersion a)
                      (set_on_hand (item_onHand i + adj_delta a)) (items db)
      \<and> movements db' = movements db @ [m] \<and> reservations db' = reservations db
      \<and> mv_itemId m = item_id i \<and> mv_delta m = adj_delta a
      \<and> mv_onHandAfter m = item_onHand i + adj_delta a
      \<and> mv_actorUserId m = Some (actor e) \<and> mv_referenceId m = Some (adj_id a)
      \<and> list_all (\<lambda>x. adj_id x \<noteq> adj_id a \<or> adj_status x = APPLIED) (adjustments db'))"

lemma apply_adjustment_cases:
  assumes "apply_adjustment e a reason db = Inr (out, db')"
  obtains "out = OutcomeStale" "items db' = items db" "movements db' = movements db"
      "reservations db' = reservations db"
  | d i m where "out = Decided d" "dr_status d = APPLIED" "dr_replayed d = False"
      "adjustment_applied e a i m db db'"
proof -
  from assms obtain i where i: "find_item db (adj_itemId a) = Some i" by (auto simp: apply_adjustment_def)
  show ?thesis
  proof (cases "item_version i \<noteq> adj_expectedVersion a \<or> item_onHand i \<noteq> adj_onHandBefore a")
    case True
    with assms i show ?thesis by (intro that(1)) (auto simp: apply_adjustment_def Let_def)
  next
    case False
    then have eq: "item_version i = adj_expectedVersion a" "item_onHand i = adj_onHandBefore a" by auto
    have D: "\<exists>d. out = Decided d \<and> dr_status d = APPLIED \<and> dr_replayed d = False"
      using assms by (auto simp: apply_adjustment_def i eq Let_def decide_result_def)
    have "adjustment_applied e a i (last (movements db')) db db'"
      using assms unfolding adjustment_applied_def
      by (clarsimp simp: apply_adjustment_def i eq Let_def movement_row_def not_less find_itemD [OF i]
          list_all_iff set_update_where close_adjustment_def)
    with D show ?thesis using that(2) by blast
  qed
qed

lemma adjustment_applied_inv:
  assumes ap: "adjustment_applied e a i m db db'" and inv: "stock_inv (now e) db"
  shows "stock_inv (now e) db'"
proof -
  note A = ap [unfolded adjustment_applied_def]
  from A have i: "i \<in> set (items db)" by blast
  have hit: "items db' = update_where (\<lambda>x. item_id x = item_id i) (set_on_hand (item_onHand i + adj_delta a)) (items db)"
    using A update_where_cas [OF stock_invD(1) [OF inv] i, where Q = "\<lambda>x. item_version x = adj_expectedVersion a"]
    by metis
  show ?thesis
    by (rule stock_inv_post [OF inv i _ _ _ _ _ _ hit]) (use A in auto)
qed

lemma decideAdjustment_tx_cases:
  assumes "decideAdjustment_tx e aid d reason db = Inr (out, db')"
  obtains "items db' = items db" "movements db' = movements db" "reservations db' = reservations db"
  | a r i m where "List.find (\<lambda>x. adj_id x = aid) (adjustments db) = Some a" "out = Decided r"
      "dr_status r = APPLIED" "dr_replayed r = False" "adj_requestedBy a \<noteq> actor e"
      "adj_status a = PENDING_APPROVAL" "d = APPROVE"
      "\<not> (case adj_expiresAt a of Some x \<Rightarrow> x \<le> now e | None \<Rightarrow> False)"
      "adjustment_applied e a i m db db'"
proof -
  from assms obtain a where a: "List.find (\<lambda>x. adj_id x = aid) (adjustments db) = Some a"
    and na: "adj_requestedBy a \<noteq> actor e"
    by (auto simp: decideAdjustment_tx_def)
  show ?thesis
  proof (cases "adj_status a = PENDING_APPROVAL \<and> d = APPROVE
      \<and> \<not> (case adj_expiresAt a of Some x \<Rightarrow> x \<le> now e | None \<Rightarrow> False)")
    case True
    with assms a have "apply_adjustment e a reason db = Inr (out, db')"
      by (simp add: decideAdjustment_tx_def)
    then show ?thesis
      by (cases rule: apply_adjustment_cases) (use True a na that in auto)
  next
    case False
    with assms a show ?thesis
      by (intro that(1); cases d) (auto simp: decideAdjustment_tx_def Let_def split: if_splits)
  qed
qed

lemma decideAdjustment_cases:
  obtains (unchanged) "items (snd (decideAdjustment e aid input db)) = items db"
      "movements (snd (decideAdjustment e aid input db)) = movements db"
      "reservations (snd (decideAdjustment e aid input db)) = reservations db"
  | (applied) a r i m where "List.find (\<lambda>x. adj_id x = aid) (adjustments db) = Some a"
      "fst (decideAdjustment e aid input db) = Inr r" "adj_requestedBy a \<noteq> actor e"
      "adj_status a = PENDING_APPROVAL" "di_decision input = APPROVE"
      "\<not> (case adj_expiresAt a of Some x \<Rightarrow> x \<le> now e | None \<Rightarrow> False)"
      "adjustment_applied e a i m db (snd (decideAdjustment e aid input db))"
proof (cases "decideAdjustment_tx e aid (di_decision input) (trim_or_null (di_reason input)) db")
  case (Inl x)
  then show ?thesis by (intro unchanged) (simp_all add: decideAdjustment_def Let_def)
next
  case (Inr p)
  obtain out db' where p: "p = (out, db')" by (cases p)
  show ?thesis
  proof (cases "di_decision input = REJECT \<and> trim_or_null (di_reason input) = None")
    case True
    then show ?thesis by (intro unchanged) (simp_all add: decideAdjustment_def Let_def)
  next
    case False
    with Inr p have d: "snd (decideAdjustment e aid input db) = db'"
      "\<And>r. out = Decided r \<Longrightarrow> fst (decideAdjustment e aid input db) = Inr r"
      by (auto simp: decideAdjustment_def Let_def split: decide_outcome.splits)
    from Inr [unfolded p] show ?thesis
      by (cases rule: decideAdjustment_tx_cases) (use d unchanged applied in auto)
  qed
qed

lemma decideAdjustment_inv:
  assumes "stock_inv (now e) db"
  shows "stock_inv (now e) (snd (decideAdjustment e aid input db))"
proof (cases rule: decideAdjustment_cases [of e aid input db])
  case unchanged
  then show ?thesis using assms stock_inv_cong by blast
next
  case (applied a r i m)
  then show ?thesis using adjustment_applied_inv assms by blast
qed

section \<open>transfer\<close>

lemma calculateInventoryTransfer_Inr [simp]:
  "calculateInventoryTransfer so sr d q = Inr c \<longleftrightarrow>
     q \<le> so - sr \<and> d \<le> DATABASE_INT_MAX - q
     \<and> c = \<lparr> sourceOnHandAfter = so - q, destinationOnHandAfter = d + q \<rparr>"
  by (auto simp: calculateInventoryTransfer_def not_less)

text \<open>The two bucket changes of a transfer with their two movements keep the contract.\<close>

lemma move_stock_inv:
  assumes inv: "stock_inv t db"
    and src: "source \<in> set (items db)" "item_version source = ti_expectedSourceVersion input"
    and q: "0 \<le> ti_quantity input"
      "ti_quantity input \<le> item_onHand source - reserved t (reservations db) (item_id source)"
      "(case dst of Some d \<Rightarrow> item_onHand d | None \<Rightarrow> 0) \<le> DATABASE_INT_MAX - ti_quantity input"
    and dst: "\<And>d. dst = Some d \<Longrightarrow> d \<in> set (items db)"
    and c: "sourceOnHandAfter calc = item_onHand source - ti_quantity input"
    and mv: "move_stock e source dst input calc db = Inr (dest, db1)"
    and m1: "mv_itemId m1 = item_id source" "mv_delta m1 = - ti_quantity input"
      "mv_onHandAfter m1 = sourceOnHandAfter calc"
    and m2: "mv_itemId m2 = item_id dest" "mv_delta m2 = ti_quantity input"
      "mv_onHandAfter m2 = item_onHand dest"
    and db': "items db' = items db1" "movements db' = movements db @ [m1, m2]"
      "reservations db' = reservations db"
  shows "stock_inv t db'"
proof -
  let ?hit = "\<lambda>i. item_id i = item_id source \<and> item_version i = ti_expectedSourceVersion input"
  let ?q = "sourceOnHandAfter calc"
  let ?dba = "db\<lparr> items := update_where ?hit (set_on_hand ?q) (items db), movements := movements db @ [m1] \<rparr>"
  have ok: "item_ok t (movements db) (reservations db) source" using stock_invD(4) [OF inv src(1)] .
  have hit: "items ?dba = update_where (\<lambda>x. item_id x = item_id source) (set_on_hand ?q) (items db)"
    by (simp add: update_where_cas [OF stock_invD(1) [OF inv] src(1), where Q = "\<lambda>x. item_version x = ti_expectedSourceVersion input"] src(2))
  have inva: "stock_inv t ?dba"
    by (rule stock_inv_post [OF inv src(1) _ _ _ m1(1) _ m1(3) hit]) (use ok q c m1(2) reserved_nonneg [OF stock_invD(3) [OF inv], of t "item_id source"]
        in \<open>auto simp: item_ok_def\<close>)
  show ?thesis
  proof (cases dst)
    case None
    from mv None have i: "dest = \<lparr> item_id = fresh_id e db, item_variantId = item_variantId source,
          item_locationId = ti_destinationLocationId input, item_batchId = item_batchId source,
          item_lotKey = item_lotKey source, item_onHand = ti_quantity input, item_version = 1 \<rparr>"
      "items db1 = items ?dba @ [dest]"
      "\<not> (\<exists>x\<in>set (items ?dba). item_id dest = item_id x \<or> item_key dest = item_key x)"
      by (auto simp: move_stock_def Let_def fresh_id_def)
    have fr: "item_id dest \<notin> item_id ` set (items ?dba)" "item_key dest \<notin> item_key ` set (items ?dba)"
      using i(3) by blast+
    have oh: "item_onHand dest = ti_quantity input" by (simp add: i(1))
    show ?thesis
      by (rule stock_inv_new_item [OF inva fr, where m = m2]) (use i(2) oh q None m2 db' in simp_all)
  next
    case (Some d)
    from mv Some obtain row where r: "find_item (db\<lparr> items := items ?dba \<rparr>) (item_id d) = Some row"
      "dest = add_on_hand (ti_quantity input) row"
      "items db1 = update_where (\<lambda>i. item_id i = item_id d) (add_on_hand (ti_quantity input)) (items ?dba)"
      by (auto simp: move_stock_def Let_def)
    from find_itemD [OF r(1)] have row: "row \<in> set (items ?dba)" "item_id row = item_id d" by auto
    from row(1) obtain x where x: "x \<in> set (items db)"
      "row = (if item_id x = item_id source then set_on_hand ?q x else x)"
      unfolding hit by (auto simp: set_update_where)
    have "item_id x = item_id d" using x(2) row(2) by (simp split: if_splits)
    then have "x = d" using key_unique [OF stock_invD(1) [OF inv] x(1) dst [OF Some]] by simp
    then have b: "item_onHand row \<le> DATABASE_INT_MAX - ti_quantity input"
    proof (cases "item_id x = item_id source")
      case True
      with x(2) c ok show ?thesis by (simp add: item_ok_def)
    next
      case False
      with x(2) \<open>x = d\<close> q(3) Some show ?thesis by simp
    qed
    show ?thesis
      by (rule stock_inv_add [OF inva row(1), where q = "ti_quantity input" and m = m2])
        (use r row m2 b q(1) db' in \<open>simp_all\<close>)
  qed
qed

lemma move_stock_frame:
  assumes "move_stock e source dst input calc db = Inr (dest, db1)"
  shows "movements db1 = movements db" "reservations db1 = reservations db" "transfers db1 = transfers db"
  using assms by (auto simp: move_stock_def Let_def split: option.splits)

text \<open>What a transfer that was not a replay wrote.\<close>

definition transferred ::
  "env \<Rightarrow> string \<Rightarrow> transfer_input \<Rightarrow> string \<Rightarrow> string \<Rightarrow> 'a stock_db_scheme \<Rightarrow> 'a stock_db_scheme \<Rightarrow>
   transfer_response \<Rightarrow> bool" where
  "transferred e sourceId input kh fp db db' r =
     (\<exists>source dst calc dest db1 m1 m2 x.
        source \<in> set (items db) \<and> item_id source = sourceId
        \<and> item_version source = ti_expectedSourceVersion input
        \<and> dst = find_bucket db (item_variantId source) (ti_destinationLocationId input) (item_lotKey source)
        \<and> calculateInventoryTransfer (item_onHand source) (reserved (now e) (reservations db) (item_id source))
            (case dst of Some d \<Rightarrow> item_onHand d | None \<Rightarrow> 0) (ti_quantity input) = Inr calc
        \<and> move_stock e source dst input calc db = Inr (dest, db1)
        \<and> mv_itemId m1 = item_id source \<and> mv_delta m1 = - ti_quantity input
        \<and> mv_onHandAfter m1 = sourceOnHandAfter calc
        \<and> mv_itemId m2 = item_id dest \<and> mv_delta m2 = ti_quantity input
        \<and> mv_onHandAfter m2 = item_onHand dest
        \<and> items db' = items db1 \<and> reservations db' = reservations db
        \<and> movements db' = update_where (\<lambda>m. mv_id m \<in> {mv_id m1, mv_id m2})
                           (\<lambda>m. m\<lparr> mv_referenceId := Some (xf_id x) \<rparr>) (movements db @ [m1, m2])
        \<and> transfers db' = transfers db @ [x] \<and> xf_keyHash x = kh \<and> xf_fingerprint x = fp
        \<and> \<not> (\<exists>y\<in>set (transfers db). xf_keyHash y = kh)
        \<and> xf_sourceMovementId x = mv_id m1 \<and> xf_destinationMovementId x = mv_id m2
        \<and> distinct [mv_id m1, mv_id m2] \<and> mv_id m1 \<notin> mv_id ` set (movements db)
        \<and> mv_id m2 \<notin> mv_id ` set (movements db)
        \<and> r = transferResponse x m1 m2 False)"

lemma record_transfer_effect:
  assumes "record_transfer e source dest rq sa input key kh fp db1 = Inr (r, db')"
  shows "\<exists>m1 m2 x. mv_itemId m1 = item_id source \<and> mv_delta m1 = - ti_quantity input
        \<and> mv_onHandAfter m1 = sa
        \<and> mv_itemId m2 = item_id dest \<and> mv_delta m2 = ti_quantity input
        \<and> mv_onHandAfter m2 = item_onHand dest
        \<and> items db' = items db1 \<and> reservations db' = reservations db1
        \<and> movements db' = update_where (\<lambda>m. mv_id m \<in> {mv_id m1, mv_id m2})
                           (\<lambda>m. m\<lparr> mv_referenceId := Some (xf_id x) \<rparr>) (movements db1 @ [m1, m2])
        \<and> transfers db' = transfers db1 @ [x] \<and> xf_keyHash x = kh \<and> xf_fingerprint x = fp
        \<and> \<not> (\<exists>y\<in>set (transfers db1). xf_keyHash y = kh)
        \<and> xf_sourceMovementId x = mv_id m1 \<and> xf_destinationMovementId x = mv_id m2
        \<and> distinct [mv_id m1, mv_id m2] \<and> mv_id m1 \<notin> mv_id ` set (movements db1)
        \<and> mv_id m2 \<notin> mv_id ` set (movements db1)
        \<and> r = transferResponse x m1 m2 False"
proof -
  obtain m1 db2 m2 db3 x db4 a where
    1: "create_movement e
                  ((movement_row e source TRANSFER_OUT (- ti_quantity input) sa)
                     \<lparr> mv_referenceType := Some ''InventoryTransfer'',
                       mv_reasonCode := Some ''LOCATION_TRANSFER'', mv_note := trim_or_null (ti_note input),
                       mv_keyHash := Some (idempotency_key_hash e ''transfer-out'' (actor e) key),
                       mv_fingerprint := Some fp \<rparr>) db1 = Inr (m1, db2)"
    and 2: "create_movement e
                  ((movement_row e dest TRANSFER_IN (ti_quantity input) (item_onHand dest))
                     \<lparr> mv_referenceType := Some ''InventoryTransfer'',
                       mv_reasonCode := Some ''LOCATION_TRANSFER'', mv_note := trim_or_null (ti_note input),
                       mv_keyHash := Some (idempotency_key_hash e ''transfer-in'' (actor e) key),
                       mv_fingerprint := Some fp \<rparr>) db2 = Inr (m2, db3)"
    and 3: "create_transfer e
                  \<lparr> xf_id = [], xf_sourceItemId = item_id source, xf_destinationItemId = item_id dest,
                    xf_quantity = ti_quantity input, xf_keyHash = kh, xf_fingerprint = fp,
                    xf_requestedBy = actor e, xf_note = trim_or_null (ti_note input),
                    xf_sourceMovementId = mv_id m1,
                    xf_destinationMovementId = mv_id m2, xf_occurredAt = now e \<rparr> db3 = Inr (x, db4)"
    and 4: "db' = db4\<lparr> movements := update_where (\<lambda>m. mv_id m \<in> {mv_id m1, mv_id m2})
                          (\<lambda>m. m\<lparr> mv_referenceId := Some (xf_id x) \<rparr>) (movements db4),
                 audits := audits db4 @ [a], seq := Suc (seq db4) \<rparr>"
    and r: "r = transferResponse x m1 m2 False"
    using assms
    by (auto simp: record_transfer_def Let_def
        simp del: create_movement_Inr create_transfer_Inr split: prod.splits)
  from 1 have m1: "mv_itemId m1 = item_id source" "mv_delta m1 = - ti_quantity input"
    "mv_onHandAfter m1 = sa" "movements db2 = movements db1 @ [m1]" "items db2 = items db1"
    "reservations db2 = reservations db1" "transfers db2 = transfers db1"
    "mv_id m1 \<notin> mv_id ` set (movements db1)"
    by (auto simp: Let_def movement_row_def image_iff)
  from 2 have m2: "mv_itemId m2 = item_id dest" "mv_delta m2 = ti_quantity input"
    "mv_onHandAfter m2 = item_onHand dest" "movements db3 = movements db2 @ [m2]" "items db3 = items db2"
    "reservations db3 = reservations db2" "transfers db3 = transfers db2"
    "mv_id m2 \<notin> mv_id ` set (movements db2)"
    by (auto simp: Let_def movement_row_def image_iff)
  from 3 have x: "movements db4 = movements db3" "items db4 = items db3"
    "reservations db4 = reservations db3" "transfers db4 = transfers db3 @ [x]" "xf_keyHash x = kh"
    "xf_fingerprint x = fp" "xf_sourceMovementId x = mv_id m1" "xf_destinationMovementId x = mv_id m2"
    "\<not> (\<exists>y\<in>set (transfers db3). xf_keyHash y = kh)"
    by (auto simp: Let_def)
  show ?thesis
    by (rule exI [of _ m1], rule exI [of _ m2], rule exI [of _ x])
      (use m1 m2 x 4 r in \<open>simp add: image_iff; metis\<close>)
qed

lemma transfer_tx_transferred:
  assumes "transfer_tx e sourceId loc input key kh fp db = Inr (r, db')"
  shows "transferred e sourceId input kh fp db db' r"
proof -
  from assms obtain source where s: "find_item db sourceId = Some source"
    and v: "item_version source = ti_expectedSourceVersion input"
    by (auto simp: transfer_tx_def Let_def)
  define dst where "dst = find_bucket db (item_variantId source) (ti_destinationLocationId input) (item_lotKey source)"
  from assms s obtain calc where c: "calculateInventoryTransfer (item_onHand source)
      (reserved (now e) (reservations db) (item_id source))
      (case dst of Some d \<Rightarrow> item_onHand d | None \<Rightarrow> 0) (ti_quantity input) = Inr calc"
    by (auto simp: transfer_tx_def Let_def dst_def)
  from assms s c obtain dest db1 where mv: "move_stock e source dst input calc db = Inr (dest, db1)"
    and rt: "record_transfer e source dest (reserved (now e) (reservations db) (item_id source))
        (sourceOnHandAfter calc) input key kh fp db1 = Inr (r, db')"
    by (auto simp: transfer_tx_def Let_def dst_def simp del: calculateInventoryTransfer_Inr)
  note fr = move_stock_frame [OF mv]
  have s': "source \<in> set (items db)" "item_id source = sourceId" using find_itemD [OF s] by auto
  from record_transfer_effect [OF rt, unfolded fr] s' v c mv show ?thesis
    unfolding transferred_def dst_def by blast
qed

lemma transferred_inv:
  assumes "transferred e sourceId input kh fp db db' r" and inv: "stock_inv (now e) db"
    and q: "0 \<le> ti_quantity input"
  shows "stock_inv (now e) db'"
proof -
  from assms(1) obtain source dst calc dest db1 m1 m2 and x :: transfer_row where
    s: "source \<in> set (items db)" "item_version source = ti_expectedSourceVersion input"
    and dst: "dst = find_bucket db (item_variantId source) (ti_destinationLocationId input) (item_lotKey source)"
    and cc: "calculateInventoryTransfer (item_onHand source) (reserved (now e) (reservations db) (item_id source))
        (case dst of Some d \<Rightarrow> item_onHand d | None \<Rightarrow> 0) (ti_quantity input) = Inr calc"
    and mv: "move_stock e source dst input calc db = Inr (dest, db1)"
    and m1: "mv_itemId m1 = item_id source" "mv_delta m1 = - ti_quantity input"
      "mv_onHandAfter m1 = sourceOnHandAfter calc"
    and m2: "mv_itemId m2 = item_id dest" "mv_delta m2 = ti_quantity input"
      "mv_onHandAfter m2 = item_onHand dest"
    and db': "items db' = items db1" "reservations db' = reservations db"
      "movements db' = update_where (\<lambda>m. mv_id m \<in> {mv_id m1, mv_id m2})
                           (\<lambda>m. m\<lparr> mv_referenceId := Some (xf_id x) \<rparr>) (movements db @ [m1, m2])"
    unfolding transferred_def by (elim exE conjE) (rule that; assumption)
  from cc have c: "ti_quantity input \<le> item_onHand source - reserved (now e) (reservations db) (item_id source)"
    "(case dst of Some d \<Rightarrow> item_onHand d | None \<Rightarrow> 0) \<le> DATABASE_INT_MAX - ti_quantity input"
    "sourceOnHandAfter calc = item_onHand source - ti_quantity input" by auto
  let ?dbb = "db\<lparr> items := items db1, movements := movements db @ [m1, m2] \<rparr>"
  have b: "stock_inv (now e) ?dbb"
    by (rule move_stock_inv [OF inv s q c(1,2) _ c(3) mv m1 m2])
      (use dst in \<open>auto dest: find_bucketD\<close>)
  show ?thesis
    by (rule reserved_movements_irrelevant [OF b]) (use db' in \<open>auto\<close>)
qed

lemma transfer_cases:
  assumes "transfer e sourceId input key seen db = Inr (r, db')"
  obtains (seen) k where "requireIdempotencyKey key = Inr k" "db' = db"
      "replayTransfer (idempotency_key_hash e ''transfer'' (actor e) k)
         (request_fingerprint e (transfer_json sourceId input)) seen = Inr (Some r)"
  | (raced) k where "requireIdempotencyKey key = Inr k" "db' = db"
      "replayTransfer (idempotency_key_hash e ''transfer'' (actor e) k)
         (request_fingerprint e (transfer_json sourceId input)) seen = Inr None"
      "replayTransfer (idempotency_key_hash e ''transfer'' (actor e) k)
         (request_fingerprint e (transfer_json sourceId input)) db = Inr (Some r)"
  | (moved) k where "requireIdempotencyKey key = Inr k"
      "replayTransfer (idempotency_key_hash e ''transfer'' (actor e) k)
         (request_fingerprint e (transfer_json sourceId input)) seen = Inr None"
      "transferred e sourceId input (idempotency_key_hash e ''transfer'' (actor e) k)
         (request_fingerprint e (transfer_json sourceId input)) db db' r"
proof -
  from assms obtain k replay where k: "requireIdempotencyKey key = Inr k"
    and rp: "replayTransfer (idempotency_key_hash e ''transfer'' (actor e) k)
         (request_fingerprint e (transfer_json sourceId input)) seen = Inr replay"
    by (auto simp: transfer_def Let_def)
  show ?thesis
  proof (cases replay)
    case (Some x)
    with assms k rp show ?thesis by (intro seen) (auto simp: transfer_def Let_def)
  next
    case None
    from assms k rp None obtain snap where sn: "find_item seen sourceId = Some snap"
      by (auto simp: transfer_def Let_def)
    show ?thesis
    proof (cases "transfer_tx e sourceId (item_locationId snap) input k
        (idempotency_key_hash e ''transfer'' (actor e) k)
        (request_fingerprint e (transfer_json sourceId input)) db")
      case (Inl err)
      with assms k rp None sn show ?thesis
        by (intro raced) (auto simp: transfer_def Let_def split: if_splits option.splits)
    next
      case (Inr p)
      with assms k rp None sn have "p = (r, db')" by (auto simp: transfer_def Let_def)
      with Inr k rp None show ?thesis by (intro moved) (auto intro: transfer_tx_transferred)
    qed
  qed
qed

lemma transfer_inv:
  assumes "transfer e sourceId input key seen db = Inr (r, db')" and "stock_inv (now e) db"
    and "0 \<le> ti_quantity input"
  shows "stock_inv (now e) db'"
  using assms(1) by (cases rule: transfer_cases) (use assms transferred_inv in auto)

section \<open>Idempotency keys\<close>

definition ids_distinct :: "'a stock_db_scheme \<Rightarrow> bool" where
  "ids_distinct db = (distinct (map item_id (items db)) \<and> distinct (map batch_id (batches db))
                      \<and> distinct (map mv_id (movements db)))"

fun receipt_lookup ::
  "env \<times> batch_receipt_input \<times> string option \<Rightarrow> 'a stock_db_scheme \<Rightarrow> batch_receipt_response option" where
  "receipt_lookup (e, input, key) db =
     (case requireIdempotencyKey key of
        Inl _ \<Rightarrow> None
      | Inr k \<Rightarrow> (case replayBatchReceipt (idempotency_key_hash e ''batch-receipt'' (actor e) k)
                        (request_fingerprint e (receipt_json input)) db of
                   Inr (Some r) \<Rightarrow> Some r
                 | _ \<Rightarrow> None))"

fun receipt_run ::
  "env \<times> batch_receipt_input \<times> string option \<Rightarrow> 'a stock_db_scheme \<Rightarrow> 'a stock_db_scheme \<Rightarrow>
   (batch_receipt_response \<times> 'a stock_db_scheme) result" where
  "receipt_run (e, input, key) seen db = receiveBatch e input key seen db"

text \<open>The batch a receipt goes to is found again under its id.\<close>

lemma batch_for_receipt_find:
  assumes "batch_for_receipt e input db = Inr (b, db')" and "distinct (map batch_id (batches db))"
  shows "List.find (\<lambda>x. batch_id x = batch_id b) (batches db') = Some b"
proof -
  let ?P = "\<lambda>b. batch_variantId b = bi_variantId input \<and> batch_number b = trim (bi_batchNumber input)"
  show ?thesis
  proof (cases "List.find ?P (batches db)")
    case None
    with assms(1) have "batches db' = batches db @ [b]" "\<forall>x\<in>set (batches db). batch_id b \<noteq> batch_id x"
      by (auto simp: batch_for_receipt_def Let_def)
    moreover from this have "List.find (\<lambda>x. batch_id x = batch_id b) (batches db) = None"
      by (auto simp: find_None_all)
    ultimately show ?thesis by (simp add: find_snoc)
  next
    case (Some b0)
    have f: "List.find (\<lambda>x. batch_id x = batch_id b0) (batches db) = Some b0"
      using find_key [OF assms(2)] find_SomeD [OF Some] by blast
    from assms(1) Some f show ?thesis
      by (auto simp: batch_for_receipt_def Let_def find_update_where split: if_splits)
  qed
qed

lemma receiveBatch_tx_steps:
  assumes "receiveBatch_tx e input kh fp db = Inr (r, db')"
  obtains b db1 item db2 m a where
    "batch_for_receipt e input db = Inr (b, db1)"
    "(case find_bucket db1 (bi_variantId input) (bi_locationId input) (batch_id b) of
        Some i \<Rightarrow> item = add_on_hand (bi_quantity input) i
          \<and> db2 = db1\<lparr> items := update_where (\<lambda>x. item_id x = item_id i) (add_on_hand (bi_quantity input)) (items db1) \<rparr>
      | None \<Rightarrow> (\<forall>x\<in>set (items db1). item_id item \<noteq> item_id x) \<and> items db2 = items db1 @ [item]
          \<and> movements db2 = movements db1 \<and> batches db2 = batches db1)"
    "\<not> (\<exists>x\<in>set (movements db2). mv_keyHash x = Some kh)"
    "mv_itemId m = item_id item" "mv_type m = PURCHASE_RECEIPT" "mv_batchId m = Some (batch_id b)"
    "mv_keyHash m = Some kh" "mv_fingerprint m = Some fp" "mv_id m \<notin> mv_id ` set (movements db2)"
    "db' = db2\<lparr> movements := movements db2 @ [m], audits := audits db2 @ [a], seq := Suc (Suc (seq db2)) \<rparr>"
    "r = batchReceiptResponse b m (item_version item) False"
proof -
  from assms obtain b db1 where b: "batch_for_receipt e input db = Inr (b, db1)"
    by (auto simp: receiveBatch_tx_def Let_def)
  let ?found = "find_bucket db1 (bi_variantId input) (bi_locationId input) (batch_id b)"
  from assms b obtain item db2 where i: "(case ?found of
                     Some i \<Rightarrow>
                       Inr (add_on_hand (bi_quantity input) i,
                            db1\<lparr> items := update_where (\<lambda>x. item_id x = item_id i)
                                     (add_on_hand (bi_quantity input)) (items db1) \<rparr>)
                   | None \<Rightarrow>
                       create_item e
                         \<lparr> item_id = [], item_variantId = bi_variantId input, item_locationId = bi_locationId input,
                           item_batchId = Some (batch_id b), item_lotKey = batch_id b,
                           item_onHand = bi_quantity input, item_version = 1 \<rparr> db1) = Inr (item, db2)"
    by (auto simp: receiveBatch_tx_def Let_def simp del: create_item_Inr)
  with assms b obtain m db3 where m: "create_movement e
                     ((movement_row e item PURCHASE_RECEIPT (bi_quantity input) (item_onHand item))
                        \<lparr> mv_batchId := Some (batch_id b),
                          mv_referenceType := Some ''ProductBatchReceipt'', mv_referenceId := Some (batch_id b),
                          mv_reasonCode := Some ''PURCHASE_RECEIPT'', mv_note := trim_or_null (bi_note input),
                          mv_keyHash := Some kh, mv_fingerprint := Some fp \<rparr>) db2 = Inr (m, db3)"
    by (auto simp: receiveBatch_tx_def Let_def simp del: create_item_Inr create_movement_Inr)
  with assms b i obtain a where a: "db' = db3\<lparr> audits := audits db3 @ [a], seq := Suc (seq db3) \<rparr>"
    "r = batchReceiptResponse b m (item_version item) False"
    by (auto simp: receiveBatch_tx_def Let_def simp del: create_item_Inr create_movement_Inr)
  show ?thesis
  proof (rule that [OF b, where item = item and m = m and a = a and ?db2.0 = db2])
    show "case ?found of
        Some i \<Rightarrow> item = add_on_hand (bi_quantity input) i
          \<and> db2 = db1\<lparr> items := update_where (\<lambda>x. item_id x = item_id i) (add_on_hand (bi_quantity input)) (items db1) \<rparr>
      | None \<Rightarrow> (\<forall>x\<in>set (items db1). item_id item \<noteq> item_id x) \<and> items db2 = items db1 @ [item]
          \<and> movements db2 = movements db1 \<and> batches db2 = batches db1"
      using i by (auto simp: Let_def split: option.splits)
  qed (use m a in \<open>auto simp: Let_def movement_row_def image_iff same_some_def\<close>)
qed

lemma receiveBatch_tx_lookup:
  assumes c: "receiveBatch_tx e input kh fp db = Inr (r, db')" and d: "ids_distinct db"
  shows "replayBatchReceipt kh fp db' = Inr (Some (r\<lparr> br_replayed := True \<rparr>))"
  using c
proof (cases rule: receiveBatch_tx_steps)
  case (1 b db1 item db2 m a)
  note fr = batch_for_receipt_frame [OF 1(1)]
  have fb: "List.find (\<lambda>x. batch_id x = batch_id b) (batches db1) = Some b"
    using batch_for_receipt_find [OF 1(1)] d by (simp add: ids_distinct_def)
  have "batches db' = batches db1" using 1(2,10) by (auto split: option.splits)
  with fb have fb': "List.find (\<lambda>x. batch_id x = batch_id b) (batches db') = Some b" by simp
  have fi: "find_item db' (item_id item) = Some item"
  proof (cases "find_bucket db1 (bi_variantId input) (bi_locationId input) (batch_id b)")
    case None
    with 1(2,10) have "items db' = items db1 @ [item]" "\<forall>x\<in>set (items db1). item_id item \<noteq> item_id x" by auto
    moreover from this have "List.find (\<lambda>x. item_id x = item_id item) (items db1) = None"
      by (auto simp: find_None_all)
    ultimately show ?thesis by (simp add: find_snoc find_item_def)
  next
    case (Some i)
    from find_bucketD [OF Some] have "i \<in> set (items db1)" by simp
    then have "List.find (\<lambda>x. item_id x = item_id i) (items db1) = Some i"
      using d find_key [of item_id "items db" i] by (simp add: ids_distinct_def fr)
    with Some 1(2,10) show ?thesis by (simp add: find_item_def find_update_where)
  qed
  have "List.find (\<lambda>x. mv_keyHash x = Some kh) (movements db2) = None"
    using 1(3) by (auto simp: find_None_all)
  then have fm: "find_movement_key db' kh = Some m"
    using 1(7,10) by (simp add: find_movement_key_def find_snoc)
  show ?thesis
    using fm fb' fi 1(4-8,11) by (simp add: replayBatchReceipt_def batchReceiptResponse_def)
qed

lemma receipt_race:
  assumes "receiveBatch_tx e input kh fp db = Inr (r, db')" and "replayBatchReceipt kh fp db = Inr (Some x)"
  shows False
  using assms(1)
proof (cases rule: receiveBatch_tx_steps)
  case (1 b db1 item db2 m a)
  have "movements db2 = movements db1" using 1(2) by (auto split: option.splits)
  moreover have "movements db1 = movements db" using batch_for_receipt_frame [OF 1(1)] by simp
  ultimately have "find_movement_key db kh = None"
    using 1(3) by (auto simp: find_movement_key_def find_None_all)
  with assms(2) show False by (simp add: replayBatchReceipt_def)
qed

interpretation receipt: idempotent ids_distinct receipt_run receipt_lookup "\<lambda>r. r\<lparr> br_replayed := True \<rparr>"
proof
  fix q :: "env \<times> batch_receipt_input \<times> string option" and seen db db' :: "'a stock_db_scheme" and r
  obtain e input key where q: "q = (e, input, key)" by (cases q)
  assume inv: "ids_distinct db" and s: "receipt_lookup q seen = None" and n: "receipt_lookup q db = None"
    and run: "receipt_run q seen db = Inr (r, db')"
  from run q obtain k where k: "requireIdempotencyKey key = Inr k" by (auto simp: receiveBatch_def)
  let ?kh = "idempotency_key_hash e ''batch-receipt'' (actor e) k"
  let ?fp = "request_fingerprint e (receipt_json input)"
  from run q k obtain x where x: "replayBatchReceipt ?kh ?fp seen = Inr x"
    by (auto simp: receiveBatch_def Let_def)
  with s q k have "x = None" by (cases x) auto
  with run q k x n have "receiveBatch_tx e input ?kh ?fp db = Inr (r, db')"
    by (auto simp: receiveBatch_def Let_def split: sum.splits if_splits option.splits)
  from receiveBatch_tx_lookup [OF this inv] q k
  show "receipt_lookup q db' = Some (r\<lparr> br_replayed := True \<rparr>)" by simp
next
  fix q :: "env \<times> batch_receipt_input \<times> string option" and seen db :: "'a stock_db_scheme" and r
  assume "receipt_lookup q seen = Some r"
  then show "receipt_run q seen db = Inr (r, db)"
    by (cases q) (auto simp: receiveBatch_def Let_def split: sum.splits option.splits)
next
  fix q :: "env \<times> batch_receipt_input \<times> string option" and seen db db' :: "'a stock_db_scheme" and r r'
  obtain e input key where q: "q = (e, input, key)" by (cases q)
  assume s: "receipt_lookup q seen = None" and d: "receipt_lookup q db = Some r"
    and run: "receipt_run q seen db = Inr (r', db')"
  from run q obtain k where k: "requireIdempotencyKey key = Inr k" by (auto simp: receiveBatch_def)
  let ?kh = "idempotency_key_hash e ''batch-receipt'' (actor e) k"
  let ?fp = "request_fingerprint e (receipt_json input)"
  from run q k obtain x where x: "replayBatchReceipt ?kh ?fp seen = Inr x"
    by (auto simp: receiveBatch_def Let_def)
  with s q k have "x = None" by (cases x) auto
  moreover from d q k have l: "replayBatchReceipt ?kh ?fp db = Inr (Some r)"
    by (auto split: sum.splits option.splits)
  ultimately show "r' = r \<and> db' = db" using run q k x
    by (auto simp: receiveBatch_def Let_def split: sum.splits if_splits dest: receipt_race [OF _ l])
qed

fun transfer_lookup ::
  "env \<times> string \<times> transfer_input \<times> string option \<Rightarrow> 'a stock_db_scheme \<Rightarrow> transfer_response option" where
  "transfer_lookup (e, sourceId, input, key) db =
     (case requireIdempotencyKey key of
        Inl _ \<Rightarrow> None
      | Inr k \<Rightarrow> (case replayTransfer (idempotency_key_hash e ''transfer'' (actor e) k)
                        (request_fingerprint e (transfer_json sourceId input)) db of
                   Inr (Some r) \<Rightarrow> Some r
                 | _ \<Rightarrow> None))"

fun transfer_run ::
  "env \<times> string \<times> transfer_input \<times> string option \<Rightarrow> 'a stock_db_scheme \<Rightarrow> 'a stock_db_scheme \<Rightarrow>
   (transfer_response \<times> 'a stock_db_scheme) result" where
  "transfer_run (e, sourceId, input, key) seen db = transfer e sourceId input key seen db"

lemma transferred_lookup:
  assumes "transferred e sourceId input kh fp db db' r"
  shows "replayTransfer kh fp db' = Inr (Some (r\<lparr> tr_replayed := True \<rparr>))"
proof -
  from assms obtain m1 m2 x where
    mv: "movements db' = update_where (\<lambda>m. mv_id m \<in> {mv_id m1, mv_id m2})
                           (\<lambda>m. m\<lparr> mv_referenceId := Some (xf_id x) \<rparr>) (movements db @ [m1, m2])"
    and tr: "transfers db' = transfers db @ [x]" "xf_keyHash x = kh" "xf_fingerprint x = fp"
      "\<not> (\<exists>y\<in>set (transfers db). xf_keyHash y = kh)"
    and ids: "xf_sourceMovementId x = mv_id m1" "xf_destinationMovementId x = mv_id m2"
      "distinct [mv_id m1, mv_id m2]" "mv_id m1 \<notin> mv_id ` set (movements db)"
      "mv_id m2 \<notin> mv_id ` set (movements db)"
    and r: "r = transferResponse x m1 m2 False"
    unfolding transferred_def by auto
  let ?f = "\<lambda>m. m\<lparr> mv_referenceId := Some (xf_id x) \<rparr>"
  have n: "List.find (\<lambda>m. mv_id m = mv_id m1) (movements db) = None"
    "List.find (\<lambda>m. mv_id m = mv_id m2) (movements db) = None"
    using ids(4,5) by (auto simp: find_None_all image_iff)
  have F: "List.find (\<lambda>m. mv_id m = mv_id m1) (movements db @ [m1, m2]) = Some m1"
    "List.find (\<lambda>m. mv_id m = mv_id m2) (movements db @ [m1, m2]) = Some m2"
    using n ids(3) by (simp_all add: find_append)
  have m: "find_movement db' (mv_id m1) = Some (?f m1)" "find_movement db' (mv_id m2) = Some (?f m2)"
    using F by (simp_all add: find_movement_def mv find_update_where)
  have "List.find (\<lambda>x. xf_keyHash x = kh) (transfers db) = None"
    using tr(4) by (auto simp: find_None_all)
  with tr have "List.find (\<lambda>x. xf_keyHash x = kh) (transfers db') = Some x" by (simp add: find_snoc)
  with m ids(1,2) tr(3) r show ?thesis by (simp add: replayTransfer_def transferResponse_def)
qed

lemma transfer_race:
  assumes "transferred e sourceId input kh fp db db' r" and "replayTransfer kh fp db = Inr (Some x)"
  shows False
proof -
  from assms(1) have "\<not> (\<exists>y\<in>set (transfers db). xf_keyHash y = kh)"
    unfolding transferred_def by blast
  then have "List.find (\<lambda>x. xf_keyHash x = kh) (transfers db) = None" by (auto simp: find_None_all)
  with assms(2) show False by (simp add: replayTransfer_def)
qed

interpretation transfers: idempotent ids_distinct transfer_run transfer_lookup "\<lambda>r. r\<lparr> tr_replayed := True \<rparr>"
proof
  fix q :: "env \<times> string \<times> transfer_input \<times> string option" and seen db db' :: "'a stock_db_scheme" and r
  obtain e sid input key where q: "q = (e, sid, input, key)" by (cases q)
  assume inv: "ids_distinct db" and s: "transfer_lookup q seen = None" and n: "transfer_lookup q db = None"
    and run: "transfer_run q seen db = Inr (r, db')"
  from run q have t: "transfer e sid input key seen db = Inr (r, db')" by simp
  then show "transfer_lookup q db' = Some (r\<lparr> tr_replayed := True \<rparr>)"
    by (cases rule: transfer_cases) (use q s n in \<open>auto dest!: transferred_lookup\<close>)
next
  fix q :: "env \<times> string \<times> transfer_input \<times> string option" and seen db :: "'a stock_db_scheme" and r
  assume "transfer_lookup q seen = Some r"
  then show "transfer_run q seen db = Inr (r, db)"
    by (cases q) (auto simp: transfer_def Let_def split: sum.splits option.splits)
next
  fix q :: "env \<times> string \<times> transfer_input \<times> string option" and seen db db' :: "'a stock_db_scheme" and r r'
  obtain e sid input key where q: "q = (e, sid, input, key)" by (cases q)
  assume s: "transfer_lookup q seen = None" and d: "transfer_lookup q db = Some r"
    and run: "transfer_run q seen db = Inr (r', db')"
  from run q have t: "transfer e sid input key seen db = Inr (r', db')" by simp
  then show "r' = r \<and> db' = db"
    by (cases rule: transfer_cases)
      (use q s d in \<open>auto split: sum.splits option.splits dest: transfer_race\<close>)
qed

section \<open>Conservation\<close>

definition variant_on_hand :: "string \<Rightarrow> 'a stock_db_scheme \<Rightarrow> int" where
  "variant_on_hand vid db = sum_by item_onHand (filter (\<lambda>i. item_variantId i = vid) (items db))"

lemma sum_on_hand_set:
  assumes "distinct (map item_id t)" and "i \<in> set t"
  shows "sum_by item_onHand (filter (\<lambda>i. item_variantId i = v)
           (update_where (\<lambda>x. item_id x = item_id i) (set_on_hand q) t)) =
         sum_by item_onHand (filter (\<lambda>i. item_variantId i = v) t)
         + (if item_variantId i = v then q - item_onHand i else 0)"
  using assms
proof (induction t)
  case Nil
  then show ?case by simp
next
  case (Cons a t)
  show ?case
  proof (cases "a = i")
    case True
    then have "update_where (\<lambda>x. item_id x = item_id i) (set_on_hand q) t = t"
      using Cons.prems(1) by (intro update_where_none) (auto simp: image_iff)
    with True show ?thesis by simp
  next
    case False
    then have "i \<in> set t" "item_id a \<noteq> item_id i" using Cons.prems by (auto simp: image_iff)
    with Cons show ?thesis by simp
  qed
qed

lemma sum_on_hand_add:
  assumes "distinct (map item_id t)" and "i \<in> set t"
  shows "sum_by item_onHand (filter (\<lambda>i. item_variantId i = v)
           (update_where (\<lambda>x. item_id x = item_id i) (add_on_hand q) t)) =
         sum_by item_onHand (filter (\<lambda>i. item_variantId i = v) t)
         + (if item_variantId i = v then q else 0)"
proof -
  have "update_where (\<lambda>x. item_id x = item_id i) (add_on_hand q) t =
        update_where (\<lambda>x. item_id x = item_id i) (set_on_hand (item_onHand i + q)) t"
    by (rule update_where_unique [OF assms]) (simp add: add_on_hand_def)
  then show ?thesis using sum_on_hand_set [OF assms] by simp
qed

lemma move_stock_conserves:
  assumes d: "distinct (map item_id (items db))" and s: "source \<in> set (items db)"
    "item_version source = ti_expectedSourceVersion input"
    and dst: "\<And>x. dst = Some x \<Longrightarrow> item_variantId x = item_variantId source \<and> x \<in> set (items db)"
    and c: "sourceOnHandAfter calc = item_onHand source - ti_quantity input"
    and mv: "move_stock e source dst input calc db = Inr (dest, db1)"
  shows "variant_on_hand vid db1 = variant_on_hand vid db"
proof -
  let ?q = "sourceOnHandAfter calc"
  let ?t = "update_where (\<lambda>x. item_id x = item_id source) (set_on_hand ?q) (items db)"
  have hit: "update_where (\<lambda>i. item_id i = item_id source \<and> item_version i = ti_expectedSourceVersion input)
      (set_on_hand ?q) (items db) = ?t"
    using s by (simp add: update_where_cas [OF d s(1), where Q = "\<lambda>x. item_version x = ti_expectedSourceVersion input"])
  have dt: "distinct (map item_id ?t)" using d by (simp add: map_update_where)
  note S = sum_on_hand_set [OF d s(1), of vid ?q]
  show ?thesis
  proof (cases dst)
    case None
    with mv have "items db1 = ?t @ [dest]" "item_variantId dest = item_variantId source"
      "item_onHand dest = ti_quantity input"
      by (auto simp: move_stock_def Let_def hit)
    with S c show ?thesis by (simp add: variant_on_hand_def)
  next
    case (Some x)
    with mv obtain row where r: "find_item (db\<lparr> items := ?t \<rparr>) (item_id x) = Some row"
      "items db1 = update_where (\<lambda>i. item_id i = item_id x) (add_on_hand (ti_quantity input)) ?t"
      by (auto simp: move_stock_def Let_def hit)
    from find_itemD [OF r(1)] have row: "row \<in> set ?t" "item_id row = item_id x" by auto
    then obtain y where y: "y \<in> set (items db)" "item_id y = item_id x" "item_variantId row = item_variantId y"
      by (auto simp: set_update_where split: if_splits)
    then have "y = x" using key_unique [OF d] dst [OF Some] by blast
    with y dst [OF Some] have "item_variantId row = item_variantId source" by simp
    with sum_on_hand_add [OF dt row(1), of vid "ti_quantity input"] S c r(2) row(2) show ?thesis
      by (simp add: variant_on_hand_def)
  qed
qed

lemma transferred_conserves:
  assumes "transferred e sourceId input kh fp db db' r" and d: "distinct (map item_id (items db))"
  shows "variant_on_hand vid db' = variant_on_hand vid db"
proof -
  from assms(1) obtain source dst calc dest db1 where
    s: "source \<in> set (items db)" "item_version source = ti_expectedSourceVersion input"
    and dst: "dst = find_bucket db (item_variantId source) (ti_destinationLocationId input) (item_lotKey source)"
    and cc: "calculateInventoryTransfer (item_onHand source) (reserved (now e) (reservations db) (item_id source))
        (case dst of Some d \<Rightarrow> item_onHand d | None \<Rightarrow> 0) (ti_quantity input) = Inr calc"
    and mv: "move_stock e source dst input calc db = Inr (dest, db1)"
    and db': "items db' = items db1"
    unfolding transferred_def by (elim exE conjE) (rule that; assumption)
  have x: "item_variantId x = item_variantId source \<and> x \<in> set (items db)" if "dst = Some x" for x
    using that find_bucketD [of db _ _ _ x] unfolding dst by (auto simp: item_key_def)
  from cc have "sourceOnHandAfter calc = item_onHand source - ti_quantity input" by auto
  from move_stock_conserves [OF d s x this mv] db' show ?thesis by (simp add: variant_on_hand_def)
qed

section \<open>A concrete database\<close>

text \<open>Two locations, one variant with a bucket of 10 of which 4 are reserved, and a pending
  removal of 5 requested by \<open>alice\<close>; ids are \<open>c0\<close>, \<open>c1\<close>, \<open>...\<close>\<close>

definition demo_env :: "string \<Rightarrow> int \<Rightarrow> env" where
  "demo_env who t = \<lparr> now = t, actor = who, requestId = ''req-1'', req_ip = Some ''10.0.0.1'',
     req_remoteAddress = None, req_userAgent = None, cuid = digits,
     sha256 = take 16, encrypt = (\<lambda>s. s), random_hex = ''h1'' \<rparr>"

definition demo_item :: item where
  "demo_item = \<lparr> item_id = ''i1'', item_variantId = ''v1'', item_locationId = ''l1'', item_batchId = None,
     item_lotKey = ''UNBATCHED'', item_onHand = 10, item_version = 3 \<rparr>"

definition demo_adjustment :: adjustment where
  "demo_adjustment = \<lparr> adj_id = ''a1'', adj_itemId = ''i1'', adj_delta = - 5, adj_reasonCode = ''DAMAGE'',
     adj_note = None, adj_status = PENDING_APPROVAL, adj_requestedBy = ''alice'', adj_approvedBy = None,
     adj_decisionReason = None, adj_expectedVersion = 3, adj_onHandBefore = 10, adj_requestedAt = 0,
     adj_expiresAt = Some 86400000, adj_decidedAt = None, adj_appliedAt = None, adj_movementId = None \<rparr>"

definition demo_db :: stock_db where
  "demo_db = \<lparr> seq = 0, audits = [],
     variants = [\<lparr> var_id = ''v1'', var_productId = ''p1'', var_nameFr = [], var_nameAr = [], var_sku = ''S1'',
       var_priceMillimes = 12500, var_promotionalPriceMillimes = None, var_taxRateBps = 1900,
       var_weightGrams = 100, var_lowStockThreshold = 2, var_publicationStatus = PUBLISHED,
       var_archivedAt = None, var_deletedAt = None, var_version = 1 \<rparr>],
     suppliers = [], batches = [],
     locations = [\<lparr> loc_id = ''l1'', loc_code = ''A'', loc_name = ''A'', loc_address = None, loc_active = True,
         loc_fulfillsOrders = True \<rparr>,
       \<lparr> loc_id = ''l2'', loc_code = ''B'', loc_name = ''B'', loc_address = None, loc_active = True,
         loc_fulfillsOrders = True \<rparr>],
     items = [demo_item],
     movements = [\<lparr> mv_id = ''m1'', mv_itemId = ''i1'', mv_locationId = ''l1'', mv_batchId = None,
       mv_type = INITIAL_STOCK, mv_delta = 10, mv_onHandAfter = 10, mv_referenceType = None,
       mv_referenceId = None, mv_reasonCode = None, mv_note = None, mv_actorUserId = None,
       mv_requestId = None, mv_keyHash = None, mv_fingerprint = None, mv_occurredAt = 0 \<rparr>],
     reservations = [\<lparr> res_id = ''r1'', res_itemId = ''i1'', res_sourceType = SRC_ORDER, res_sourceId = ''o1'',
       res_activeKey = Some ''k1'', res_quantity = 4, res_state = RS_ACTIVE, res_orderId = Some ''o1'',
       res_orderItemId = Some ''oi1'', res_expiresAt = 1000000, res_consumedAt = None,
       res_releasedAt = None, res_releaseReason = None \<rparr>],
     adjustments = [demo_adjustment], transfers = [] \<rparr>"

lemmas demo_defs = demo_env_def demo_item_def demo_adjustment_def demo_db_def

section \<open>Properties\<close>

text \<open>Property C21 (decideAdjustment_dual_control): if a decision changes any stock or writes any
  movement, then it is an approval of a pending, unexpired adjustment by somebody other than the
  person who requested it, the bucket still has the version and quantity the request saw, and the
  change is exactly the requested one: one movement of the requested quantity by the approver,
  resulting stock within the integer range and not below the active reservations.\<close>

theorem decideAdjustment_dual_control:
  assumes "movements (snd (decideAdjustment e aid input db)) \<noteq> movements db
           \<or> items (snd (decideAdjustment e aid input db)) \<noteq> items db"
  shows "\<exists>a i m. a \<in> set (adjustments db) \<and> adj_id a = aid \<and> adj_requestedBy a \<noteq> actor e
           \<and> adj_status a = PENDING_APPROVAL \<and> di_decision input = APPROVE
           \<and> (case adj_expiresAt a of Some x \<Rightarrow> now e < x | None \<Rightarrow> True)
           \<and> adjustment_applied e a i m db (snd (decideAdjustment e aid input db))"
proof (cases rule: decideAdjustment_cases [of e aid input db])
  case unchanged
  with assms show ?thesis by simp
next
  case (applied a r i m)
  from find_SomeD [OF applied(1)] applied(3-7) show ?thesis
    by (intro exI [of _ a] exI [of _ i] exI [of _ m]) (auto split: option.splits)
qed

theorem decideAdjustment_dual_control_witness:
  "\<exists>a i m. a \<in> set (adjustments demo_db) \<and> adj_requestedBy a \<noteq> ''bob''
     \<and> adjustment_applied (demo_env ''bob'' 5000) a i m demo_db
         (snd (decideAdjustment (demo_env ''bob'' 5000) ''a1''
            \<lparr> di_decision = APPROVE, di_reason = None \<rparr> demo_db))"
proof -
  have "movements (snd (decideAdjustment (demo_env ''bob'' 5000) ''a1''
            \<lparr> di_decision = APPROVE, di_reason = None \<rparr> demo_db)) \<noteq> movements demo_db"
    by code_simp
  then have "movements (snd (decideAdjustment (demo_env ''bob'' 5000) ''a1''
            \<lparr> di_decision = APPROVE, di_reason = None \<rparr> demo_db)) \<noteq> movements demo_db
    \<or> items (snd (decideAdjustment (demo_env ''bob'' 5000) ''a1''
            \<lparr> di_decision = APPROVE, di_reason = None \<rparr> demo_db)) \<noteq> items demo_db" ..
  from decideAdjustment_dual_control [OF this] show ?thesis by (auto simp: demo_env_def)
qed

text \<open>Once a decision has changed the stock, no
  later decision on the same adjustment, by whomever and whenever, changes it again.\<close>

theorem adjustment_applied_at_most_once:
  assumes "movements (snd (decideAdjustment e aid input db)) \<noteq> movements db"
    and "db' = snd (decideAdjustment e aid input db)"
  shows "items (snd (decideAdjustment e2 aid input2 db')) = items db'
         \<and> movements (snd (decideAdjustment e2 aid input2 db')) = movements db'"
proof (cases rule: decideAdjustment_cases [of e aid input db])
  case unchanged
  with assms show ?thesis by simp
next
  case (applied a r i m)
  have id: "adj_id a = aid" using find_SomeD [OF applied(1)] by simp
  have all: "list_all (\<lambda>x. adj_id x \<noteq> aid \<or> adj_status x = APPLIED) (adjustments db')"
    using applied(7) id unfolding adjustment_applied_def assms(2) by simp
  show ?thesis
  proof (cases rule: decideAdjustment_cases [of e2 aid input2 db'])
    case unchanged
    then show ?thesis by simp
  next
    case (applied a' r' i' m')
    from find_SomeD [OF applied(1)] applied(4) all show ?thesis by (auto simp: list_all_iff)
  qed
qed

theorem adjustment_applied_at_most_once_witness:
  "let db' = snd (decideAdjustment (demo_env ''bob'' 5000) ''a1'' \<lparr> di_decision = APPROVE, di_reason = None \<rparr> demo_db)
   in map item_onHand (items db') = [5]
      \<and> items (snd (decideAdjustment (demo_env ''carol'' 6000) ''a1''
                  \<lparr> di_decision = APPROVE, di_reason = None \<rparr> db')) = items db'"
proof -
  let ?d = "decideAdjustment (demo_env ''bob'' 5000) ''a1'' \<lparr> di_decision = APPROVE, di_reason = None \<rparr> demo_db"
  have "movements (snd ?d) \<noteq> movements demo_db" by code_simp
  from adjustment_applied_at_most_once [OF this refl]
  have "items (snd (decideAdjustment (demo_env ''carol'' 6000) ''a1''
                  \<lparr> di_decision = APPROVE, di_reason = None \<rparr> (snd ?d))) = items (snd ?d)" by blast
  moreover have "map item_onHand (items (snd ?d)) = [5]" by code_simp
  ultimately show ?thesis by (simp add: Let_def)
qed

text \<open>Property C22 (transfer_conserves_stock): a transfer moves stock and neither creates nor loses
  any: for every variant, the physical stock over all buckets is the same before and after, on
  every path (executed, replayed, raced) and also when the destination bucket is created.\<close>

theorem transfer_conserves_stock:
  assumes "transfer e sourceId input key seen db = Inr (r, db')"
    and "distinct (map item_id (items db))"
  shows "variant_on_hand vid db' = variant_on_hand vid db"
  using assms(1) by (cases rule: transfer_cases) (use assms transferred_conserves in auto)

definition demo_transfer :: transfer_input where
  "demo_transfer = \<lparr> ti_destinationLocationId = ''l2'', ti_quantity = 6, ti_expectedSourceVersion = 3,
     ti_note = Some '' move '' \<rparr>"

theorem transfer_conserves_stock_witness:
  "\<exists>r db'. transfer (demo_env ''bob'' 5000) ''i1'' demo_transfer (Some ''transfer-key-0001'') demo_db demo_db
             = Inr (r, db')
     \<and> map item_onHand (items db') = [4, 6] \<and> variant_on_hand ''v1'' db' = 10"
proof -
  let ?x = "transfer (demo_env ''bob'' 5000) ''i1'' demo_transfer (Some ''transfer-key-0001'') demo_db demo_db"
  have "(case ?x of Inr (r, db') \<Rightarrow> map item_onHand (items db') = [4, 6] | Inl _ \<Rightarrow> False)" by code_simp
  then obtain r db' where x: "?x = Inr (r, db')" "map item_onHand (items db') = [4, 6]"
    by (auto split: sum.splits)
  moreover have "variant_on_hand ''v1'' db' = variant_on_hand ''v1'' demo_db"
    by (rule transfer_conserves_stock [OF x(1)]) (simp add: demo_db_def)
  moreover have "variant_on_hand ''v1'' demo_db = 10" by code_simp
  ultimately show ?thesis by auto
qed

text \<open>Property C23 (receipt_exactly_once): two concurrent receipts with the same key, request and
  actor, both of which found no record when they looked, add the stock once: the transaction that
  runs second never writes, and when it answers it answers with the first one's receipt, marked
  as a replay.\<close>

theorem receipt_exactly_once:
  assumes "ids_distinct db"
    and "receipt_lookup (e, input, key) seen = None" and "receipt_lookup (e, input, key) db = None"
    and "receiveBatch e input key seen db = Inr (r, db1)"
    and "receiveBatch e input key seen db1 = Inr (r', db2)"
  shows "r' = r\<lparr> br_replayed := True \<rparr> \<and> db2 = db1"
  using receipt.concurrent [of db "(e, input, key)" seen r db1 r' db2] assms by simp

definition demo_receipt :: batch_receipt_input where
  "demo_receipt = \<lparr> bi_variantId = ''v1'', bi_locationId = ''l2'', bi_batchNumber = ''B-7 '',
     bi_supplierId = None, bi_supplierReference = None, bi_manufacturedAt = None,
     bi_expiryDate = ''2030-01-31'', bi_quantity = 24, bi_note = None \<rparr>"

theorem receipt_exactly_once_witness:
  "\<exists>r r' db1 db2.
     receiveBatch (demo_env ''bob'' 5000) demo_receipt (Some ''receipt-key-00001'') demo_db demo_db = Inr (r, db1)
     \<and> receiveBatch (demo_env ''bob'' 5000) demo_receipt (Some ''receipt-key-00001'') demo_db db1 = Inr (r', db2)
     \<and> variant_on_hand ''v1'' db1 = 34 \<and> r' = r\<lparr> br_replayed := True \<rparr> \<and> db2 = db1"
proof -
  define run where "run = (\<lambda>db. receiveBatch (demo_env ''bob'' 5000) demo_receipt (Some ''receipt-key-00001'') demo_db db)"
  have l: "receipt_lookup (demo_env ''bob'' 5000, demo_receipt, Some ''receipt-key-00001'') demo_db = None"
    by code_simp
  have ev: "(case run demo_db of
          Inr p \<Rightarrow> variant_on_hand ''v1'' (snd p) = 34 \<and> (case run (snd p) of Inr q \<Rightarrow> True | Inl _ \<Rightarrow> False)
        | Inl _ \<Rightarrow> False)" unfolding run_def by code_simp
  obtain p where p: "run demo_db = Inr p" using ev by (cases "run demo_db") simp_all
  note ev' = ev [unfolded p sum.case]
  obtain q where q: "run (snd p) = Inr q" using ev' by (cases "run (snd p)") simp_all
  note pq = p q conjunct1 [OF ev']
  have d: "ids_distinct demo_db" by code_simp
  have "run demo_db = Inr (fst p, snd p)" "run (snd p) = Inr (fst q, snd q)" using pq by simp_all
  note x = this [unfolded run_def]
  from receipt_exactly_once [OF d l l x] x pq(3) show ?thesis by blast
qed

text \<open>For the quantities the request validation
  admits, the calculation fails with the stated code or yields a non-zero change whose result
  lies in the range of a database integer: no over- or underflow reaches the stock column.\<close>

theorem calculateInventoryAdjustment_range:
  assumes "0 \<le> onHand" and "onHand \<le> DATABASE_INT_MAX"
    and "case quantity of Some q \<Rightarrow> 1 \<le> q | None \<Rightarrow> True"
    and "case target of Some x \<Rightarrow> 0 \<le> x \<and> x \<le> DATABASE_INT_MAX | None \<Rightarrow> True"
    and "calculateInventoryAdjustment onHand operation quantity target = Inr c"
  shows "0 \<le> onHandAfter c \<and> onHandAfter c \<le> DATABASE_INT_MAX
         \<and> onHandAfter c = onHand + quantityDelta c \<and> quantityDelta c \<noteq> 0
         \<and> (operation = ADD \<longrightarrow> 0 < quantityDelta c) \<and> (operation = REMOVE \<longrightarrow> quantityDelta c < 0)"
  using assms
  by (cases operation) (auto simp: calculateInventoryAdjustment_def Let_def split: option.splits if_splits)

theorem calculateInventoryAdjustment_range_witness:
  "\<exists>c. calculateInventoryAdjustment 2147483640 ADD (Some 7) None = Inr c
       \<and> onHandAfter c = 2147483647 \<and> quantityDelta c = 7"
proof -
  obtain c where c: "calculateInventoryAdjustment 2147483640 ADD (Some 7) None = Inr c"
    by (simp add: calculateInventoryAdjustment_def DATABASE_INT_MAX_def)
  from calculateInventoryAdjustment_range [OF _ _ _ _ c] have "onHandAfter c = 2147483640 + quantityDelta c"
    by (simp add: DATABASE_INT_MAX_def)
  with c show ?thesis by (auto simp: calculateInventoryAdjustment_def DATABASE_INT_MAX_def)
qed

text \<open>One bucket of the view, and sums over the view.\<close>

definition sound_view :: "item_view \<Rightarrow> bool" where
  "sound_view w = (iv_availableQuantity w = iv_onHandQuantity w - iv_reservedQuantity w
     \<and> 0 \<le> iv_reservedQuantity w \<and> 0 \<le> iv_availableQuantity w)"

lemma view_item_sound:
  assumes "stock_inv t db" and "i \<in> set (items db)"
  shows "sound_view (view_item t db i)"
proof -
  have "reserved t (reservations db) (item_id i) \<le> item_onHand i"
    using stock_invD(4) [OF assms] by (simp add: item_ok_def)
  moreover have "0 \<le> reserved t (reservations db) (item_id i)"
    using reserved_nonneg [OF stock_invD(3) [OF assms(1)]] .
  ultimately show ?thesis by (simp add: sound_view_def view_item_def Let_def reserved_def)
qed

lemma sound_views_sum:
  "list_all sound_view ws \<Longrightarrow>
     sum_by iv_availableQuantity ws = sum_by iv_onHandQuantity ws - sum_by iv_reservedQuantity ws
     \<and> 0 \<le> sum_by iv_availableQuantity ws"
  by (induction ws) (auto simp: sound_view_def)

lemma sum_by_sort_key [simp]: "sum_by g (sort_key f xs) = sum_by g xs"
proof -
  have "sum_by g ys = sum_mset (image_mset g (mset ys))" for ys
    by (induction ys) simp_all
  then show ?thesis by simp
qed

lemma view_on_hand:
  "sum_by iv_onHandQuantity (map (view_item t db) xs) = sum_by item_onHand xs"
  by (simp add: sum_by_def view_item_def Let_def comp_def)

text \<open>Under the stock contract the availability shown for a
  variant is physical stock minus active reservations, per bucket and in total, and never
  negative.\<close>

theorem getVariant_availability:
  assumes "stock_inv t db" and "getVariant t vid db = Inr v"
  shows "vv_availableQuantity v = vv_onHandQuantity v - vv_reservedQuantity v
         \<and> 0 \<le> vv_availableQuantity v
         \<and> vv_onHandQuantity v = variant_on_hand vid db
         \<and> list_all (\<lambda>i. iv_availableQuantity i = iv_onHandQuantity i - iv_reservedQuantity i
                          \<and> 0 \<le> iv_reservedQuantity i \<and> 0 \<le> iv_availableQuantity i) (vv_items v)"
proof -
  let ?rows = "sort_key (\<lambda>i. (item_locationId i, item_lotKey i, item_id i))
                (filter (\<lambda>i. item_variantId i = vid) (items db))"
  have all: "list_all sound_view (map (view_item t db) ?rows)"
    using view_item_sound [OF assms(1)] by (auto simp: list_all_iff)
  have tot: "sum_by iv_onHandQuantity (map (view_item t db) ?rows) = variant_on_hand vid db"
    by (simp add: view_on_hand variant_on_hand_def)
  from assms(2) have v: "vv_items v = map (view_item t db) ?rows"
    "vv_onHandQuantity v = sum_by iv_onHandQuantity (map (view_item t db) ?rows)"
    "vv_reservedQuantity v = sum_by iv_reservedQuantity (map (view_item t db) ?rows)"
    "vv_availableQuantity v = sum_by iv_availableQuantity (map (view_item t db) ?rows)"
    by (auto simp: getVariant_def Let_def)
  note sums = sound_views_sum [OF all]
  show ?thesis unfolding v
    by (intro conjI) (rule conjunct1 [OF sums], rule conjunct2 [OF sums], rule tot,
        rule all [unfolded sound_view_def [abs_def]])
qed

theorem getVariant_availability_witness:
  "\<exists>v. getVariant 5000 ''v1'' demo_db = Inr v \<and> vv_availableQuantity v = 6 \<and> 0 \<le> vv_availableQuantity v"
proof -
  have "(case getVariant 5000 ''v1'' demo_db of Inr v \<Rightarrow> vv_availableQuantity v = 6 | Inl _ \<Rightarrow> False)" by code_simp
  then obtain v where v: "getVariant 5000 ''v1'' demo_db = Inr v" "vv_availableQuantity v = 6"
    by (auto split: sum.splits)
  have "stock_inv 5000 demo_db"
    by (simp add: stock_inv_def item_ok_def demo_defs reservations_ok_def reserved_def ledger_def
        item_movements_def active_at_def DATABASE_INT_MAX_def)
  from getVariant_availability [OF this v(1)] v show ?thesis by auto
qed

end
