(* ===== verification/OrdersProofs.thy ===== *)
theory OrdersProofs
  imports Orders CheckoutProofs InventoryProofs
begin

text \<open>
  What \<open>orders/admin-orders.service.ts\<close> promises: confirming an order consumes exactly the stock
  reserved for it and leaves the availability of everything else alone, terminating it gives the
  stock back, and an order and its delivery move together along the table of transitions.
\<close>

section \<open>The reservations of an order\<close>

definition held :: "'a stock_db_scheme \<Rightarrow> string \<Rightarrow> string \<Rightarrow> int" where
  "held db oid iid =
     sum_by res_quantity (filter (\<lambda>r. res_itemId r = iid \<and> open_reservation oid r) (reservations db))"

lemma lockActiveInventory_Inr:
  assumes "lockActiveInventory db oid = Inr (rs, its)"
  shows "rs = sort_key (\<lambda>r. (res_itemId r, res_id r)) (filter (open_reservation oid) (reservations db))"
    and "its = sort_key item_id (filter (\<lambda>i. item_id i \<in> res_itemId ` set rs) (items db))"
  using assms by (auto simp: lockActiveInventory_def Let_def)

lemma locked_quantity:
  assumes "lockActiveInventory db oid = Inr (rs, its)"
  shows "sum_by res_quantity (filter (\<lambda>r. res_itemId r = iid) rs) = held db oid iid"
  unfolding lockActiveInventory_Inr(1) [OF assms] filter_sort sum_by_sort_key held_def
  by (simp add: conj_commute)

lemma locked_items:
  assumes "lockActiveInventory db oid = Inr (rs, its)" and "distinct (map item_id (items db))"
  shows "set its \<subseteq> set (items db)" and "distinct (map item_id its)"
    and "i \<in> set (items db) \<Longrightarrow> item_id i \<notin> item_id ` set its \<Longrightarrow> held db oid (item_id i) = 0"
proof -
  note its = lockActiveInventory_Inr(2) [OF assms(1)] and rs = lockActiveInventory_Inr(1) [OF assms(1)]
  show "set its \<subseteq> set (items db)" unfolding its by auto
  show "distinct (map item_id its)"
    unfolding its distinct_map_sort_key using assms(2) by (simp add: distinct_map_filter)
  assume i: "i \<in> set (items db)" "item_id i \<notin> item_id ` set its"
  then have "item_id i \<notin> res_itemId ` set rs" unfolding its by auto
  then have "filter (\<lambda>r. res_itemId r = item_id i) rs = []" by (auto simp: filter_empty_conv image_iff)
  with locked_quantity [OF assms(1), of "item_id i"] show "held db oid (item_id i) = 0" by simp
qed

lemma foldE_each:
  assumes "foldE f xs s = Inr t" and "\<And>x s t. f x s = Inr t \<Longrightarrow> Q x"
  shows "list_all Q xs"
  using assms(1) by (induction xs arbitrary: s) (auto dest: assms(2))

lemma check_reservation_active:
  "check_reservation e lines its r acc = Inr acc' \<Longrightarrow> 0 < res_quantity r \<and> res_expiresAt r > now e"
  by (auto simp: check_reservation_def Let_def split: option.splits if_splits)

lemma coverage_active:
  assumes "assertReservationCoverage e op (rs, its) = Inr u"
  shows "list_all (\<lambda>r. 0 < res_quantity r \<and> res_expiresAt r > now e) rs"
proof -
  from assms obtain acc where "foldE (check_reservation e (op_items op) its) rs (\<lambda>_. None) = Inr acc"
    by (auto simp: assertReservationCoverage_def)
  then show ?thesis by (rule foldE_each) (rule check_reservation_active)
qed

text \<open>Rows hit by the wider of two filters that hit equally many are the same rows.\<close>

lemma filter_count_eq:
  assumes "length (filter Q t) = length (filter P t)" and "\<And>x. x \<in> set t \<Longrightarrow> P x \<Longrightarrow> Q x"
    and "x \<in> set t" and "Q x"
  shows "P x"
proof (rule ccontr)
  assume np: "\<not> P x"
  have "filter P (filter Q t) = filter P t"
    using assms(2) by (auto intro!: filter_cong)
  moreover have "length (filter P (filter Q t)) < length (filter Q t)"
    using np assms(3,4) by (intro length_filter_less [of x]) auto
  ultimately show False using assms(1) by simp
qed

lemma close_reservations_Inr:
  assumes run: "close_reservations rs f db = Inr db'" and rs: "set rs = set (filter (open_reservation oid) (reservations db))"
    "length rs = length (filter (open_reservation oid) (reservations db))"
  shows "reservations db' = update_where (open_reservation oid) f (reservations db)"
    and "db' = db\<lparr> reservations := reservations db' \<rparr>"
proof -
  let ?hit = "\<lambda>r. res_id r \<in> set (map res_id rs) \<and> res_state r = RS_ACTIVE"
  from run have c: "length (filter ?hit (reservations db)) = length rs"
    and db': "db' = db\<lparr> reservations := update_where ?hit f (reservations db) \<rparr>"
    by (auto simp: close_reservations_def Let_def count_where_def)
  have "?hit r = open_reservation oid r" if "r \<in> set (reservations db)" for r
  proof
    assume "open_reservation oid r"
    then show "?hit r" using that rs(1) by (auto simp: open_reservation_def)
  next
    assume "?hit r"
    with filter_count_eq [of ?hit "reservations db" "open_reservation oid" r] c rs that
    show "open_reservation oid r" by (auto simp: open_reservation_def)
  qed
  then have "update_where ?hit f (reservations db) = update_where (open_reservation oid) f (reservations db)"
    by (auto simp: update_where_def)
  with db' show "reservations db' = update_where (open_reservation oid) f (reservations db)" by simp
  show "db' = db\<lparr> reservations := reservations db' \<rparr>" by (simp add: db')
qed

lemma reserved_close_where:
  assumes "\<And>r. r \<in> set rs \<Longrightarrow> P r \<Longrightarrow> active_at t r"
    and "\<And>r. res_itemId (f r) = res_itemId r" "\<And>r. \<not> active_at t (f r)"
  shows "reserved t (update_where P f rs) iid
    = reserved t rs iid - sum_by res_quantity (filter (\<lambda>r. res_itemId r = iid \<and> P r) rs)"
  using assms by (induction rs) auto

lemma none_left: "(\<And>r. \<not> P (f r)) \<Longrightarrow> \<not> list_ex P (update_where P f t)"
  by (induction t) simp_all

lemma no_open_after:
  "(\<And>r. res_state (f r) \<noteq> RS_ACTIVE) \<Longrightarrow> \<not> list_ex (open_reservation oid) (update_where (open_reservation oid) f rs)"
  by (rule none_left) (simp add: open_reservation_def)

section \<open>Consuming the reserved stock\<close>

definition consumed :: "(string \<Rightarrow> int) \<Rightarrow> string set \<Rightarrow> item \<Rightarrow> item" where
  "consumed q ids x = (if item_id x \<in> ids then add_on_hand (- q (item_id x)) x else x)"

text \<open>
  The loop runs while the reservations are still active; its contract is stated over the
  reservations \<open>R\<close> that will be there when they have been closed.
\<close>

lemma consume_item_step:
  assumes run: "consume_item e oid rs i db = Inr db'"
    and inv: "stock_inv t (db\<lparr> reservations := R \<rparr>)" and i: "i \<in> set (items db)"
    and q: "reserved t R (item_id i) \<le> item_onHand i - q (item_id i)"
      "q (item_id i) = sum_by res_quantity (filter (\<lambda>r. res_itemId r = item_id i) rs)"
  shows "stock_inv t (db'\<lparr> reservations := R \<rparr>)" and "items db' = map (consumed q {item_id i}) (items db)"
    and "untouched db (db'\<lparr> items := items db, movements := movements db \<rparr>)"
proof -
  let ?q = "q (item_id i)"
  let ?hit = "\<lambda>x. item_id x = item_id i \<and> item_version x = item_version i \<and> item_onHand x \<ge> ?q"
  from run obtain m where pos: "0 < ?q" "?q \<le> item_onHand i"
    and its: "items db' = update_where ?hit (add_on_hand (- ?q)) (items db)"
    and ms: "movements db' = movements db @ [m]"
    and m: "mv_itemId m = item_id i" "mv_delta m = - ?q" "mv_onHandAfter m = item_onHand i - ?q"
    and u: "untouched db (db'\<lparr> items := items db, movements := movements db \<rparr>)"
    unfolding q(2) by (auto simp: consume_item_def Let_def untouched_def)
  show "untouched db (db'\<lparr> items := items db, movements := movements db \<rparr>)" by (fact u)
  have d: "distinct (map item_id (items db))" using stock_invD(1) [OF inv] by simp
  have upd: "items db' = update_where (\<lambda>x. item_id x = item_id i) (add_on_hand (- ?q)) (items db)"
    unfolding its using pos(2)
    by (intro update_where_cas [OF d i, of "\<lambda>x. item_version x = item_version i \<and> item_onHand x \<ge> ?q"]) simp
  have "items db' = update_where (\<lambda>x. item_id x = item_id i) (set_on_hand (item_onHand i - ?q)) (items db)"
    unfolding upd by (rule update_where_unique [OF d i]) (simp add: add_on_hand_def)
  moreover have "item_onHand i \<le> DATABASE_INT_MAX"
    using stock_invD(4) [OF inv, of i] i by (simp add: item_ok_def)
  ultimately show "stock_inv t (db'\<lparr> reservations := R \<rparr>)"
    by (intro stock_inv_post [OF inv, of i "item_onHand i - ?q" m]) (use i pos q(1) m ms in simp_all)
  show "items db' = map (consumed q {item_id i}) (items db)"
    unfolding upd by (auto simp: update_where_def consumed_def)
qed

lemma consumed_compose:
  "item_id i \<notin> ids \<Longrightarrow> consumed q ids (consumed q {item_id i} x) = consumed q (insert (item_id i) ids) x"
  by (auto simp: consumed_def)

lemma consumed_other: "item_id x \<noteq> k \<Longrightarrow> consumed q {k} x = x"
  by (simp add: consumed_def)

lemma consume_items:
  assumes "foldE (consume_item e oid rs) its db = Inr db'"
    and "stock_inv t (db\<lparr> reservations := R \<rparr>)" and "set its \<subseteq> set (items db)" "distinct (map item_id its)"
    and "list_all (\<lambda>i. reserved t R (item_id i) \<le> item_onHand i - q (item_id i)) its"
    and "\<And>k. q k = sum_by res_quantity (filter (\<lambda>r. res_itemId r = k) rs)"
  shows "stock_inv t (db'\<lparr> reservations := R \<rparr>) \<and> items db' = map (consumed q (item_id ` set its)) (items db)
    \<and> untouched db (db'\<lparr> items := items db, movements := movements db \<rparr>)"
  using assms(1-5)
proof (induction its arbitrary: db)
  case Nil
  then show ?case by (auto simp: consumed_def untouched_def intro: map_idI [symmetric])
next
  case (Cons i its)
  from Cons.prems(1) obtain db1 where 1: "consume_item e oid rs i db = Inr db1"
    and 2: "foldE (consume_item e oid rs) its db1 = Inr db'" by auto
  from Cons.prems(3,5) have "i \<in> set (items db)" and "reserved t R (item_id i) \<le> item_onHand i - q (item_id i)"
    by simp_all
  note one = consume_item_step [where q = q, OF 1 Cons.prems(2) this assms(6)]
  have ni: "item_id i \<notin> item_id ` set its" using Cons.prems(4) by simp
  have "set its \<subseteq> set (items db1)"
  proof
    fix x assume x: "x \<in> set its"
    then have "item_id x \<noteq> item_id i" using ni by (auto simp: image_iff)
    from consumed_other [OF this, of q] x Cons.prems(3) show "x \<in> set (items db1)"
      unfolding one(2) by (force simp: image_iff)
  qed
  with Cons.IH [OF 2 one(1)] Cons.prems(4,5) have ih: "stock_inv t (db'\<lparr> reservations := R \<rparr>)"
    "items db' = map (consumed q (item_id ` set its)) (items db1)"
    "untouched db1 (db'\<lparr> items := items db1, movements := movements db1 \<rparr>)" by simp_all
  have "items db' = map (consumed q (item_id ` set (i # its))) (items db)"
    unfolding ih(2) one(2) by (simp add: consumed_compose [OF ni])
  moreover have "untouched db (db'\<lparr> items := items db, movements := movements db \<rparr>)"
    using ih(3) one(3) by (simp add: untouched_def)
  ultimately show ?case using ih(1) by blast
qed

lemma consume_reservation_simps [simp]:
  "res_itemId (consume_reservation e r) = res_itemId r" "res_quantity (consume_reservation e r) = res_quantity r"
  "res_state (consume_reservation e r) = RS_CONSUMED" "\<not> active_at t (consume_reservation e r)"
  by (simp_all add: consume_reservation_def active_at_def)

text \<open>The whole of \<open>consume_stock\<close>.\<close>

definition stock_consumed :: "env \<Rightarrow> string \<Rightarrow> 'a shop_db_scheme \<Rightarrow> 'a shop_db_scheme \<Rightarrow> bool" where
  "stock_consumed e oid db db' =
     (stock_inv (now e) db'
      \<and> map item_id (items db') = map item_id (items db)
      \<and> map item_onHand (items db') = map (\<lambda>i. item_onHand i - held db oid (item_id i)) (items db)
      \<and> reservations db' = update_where (open_reservation oid) (consume_reservation e) (reservations db)
      \<and> (\<forall>iid. reserved (now e) (reservations db') iid = reserved (now e) (reservations db) iid - held db oid iid))"

lemma consume_stock_effect:
  assumes run: "consume_stock e op db = Inr (locked, db')" and inv: "stock_inv (now e) db"
  shows "stock_consumed e (ord_id (op_order op)) db db'"
    and "untouched db (db'\<lparr> items := items db, movements := movements db, reservations := reservations db \<rparr>)"
proof -
  let ?oid = "ord_id (op_order op)"
  from run obtain rs its u db1 where l: "lockActiveInventory db ?oid = Inr (rs, its)"
    and cov: "assertReservationCoverage e op (rs, its) = Inr u"
    and f: "foldE (consume_item e ?oid rs) its db = Inr db1"
    and c: "close_reservations rs (consume_reservation e) db1 = Inr db'"
    by (auto simp: consume_stock_def)
  note rs = lockActiveInventory_Inr(1) [OF l]
  define R where "R = update_where (open_reservation ?oid) (consume_reservation e) (reservations db)"
  have act: "active_at (now e) r" if "r \<in> set (reservations db)" "open_reservation ?oid r" for r
    using coverage_active [OF cov] that unfolding rs by (auto simp: list_all_iff active_at_def open_reservation_def)
  have R: "reserved (now e) R iid = reserved (now e) (reservations db) iid - held db ?oid iid" for iid
    unfolding R_def held_def by (rule reserved_close_where) (auto simp: act)
  have invR: "stock_inv (now e) (db\<lparr> reservations := R \<rparr>)"
    by (rule stock_inv_close [OF inv, of "consume_reservation e" _ "open_reservation ?oid"]) (simp_all add: R_def)
  note its = locked_items [OF l stock_invD(1) [OF inv]]
  have "reserved (now e) R (item_id i) \<le> item_onHand i - held db ?oid (item_id i)" if "i \<in> set its" for i
    using R [of "item_id i"] stock_invD(4) [OF inv, of i] its(1) that by (auto simp: item_ok_def)
  then have "stock_inv (now e) (db1\<lparr> reservations := R \<rparr>)
    \<and> items db1 = map (consumed (held db ?oid) (item_id ` set its)) (items db)
    \<and> untouched db (db1\<lparr> items := items db, movements := movements db \<rparr>)"
    by (intro consume_items [OF f invR its(1,2)]) (simp_all add: list_all_iff locked_quantity [OF l])
  then have d1: "stock_inv (now e) (db1\<lparr> reservations := R \<rparr>)"
    "items db1 = map (consumed (held db ?oid) (item_id ` set its)) (items db)"
    "untouched db (db1\<lparr> items := items db, movements := movements db \<rparr>)" by blast+
  have same: "reservations db1 = reservations db" using d1(3) by (simp add: untouched_def)
  have cl: "reservations db' = R" "db' = db1\<lparr> reservations := reservations db' \<rparr>"
    using close_reservations_Inr [OF c, of ?oid] unfolding same R_def rs by simp_all
  have its': "items db' = items db1" by (subst cl(2)) simp
  have "stock_inv (now e) db'"
    using d1(1) cl by metis
  moreover have "map item_id (items db') = map item_id (items db)"
    unfolding its' d1(2) by (simp add: consumed_def)
  moreover have "item_onHand (consumed (held db ?oid) (item_id ` set its) i) = item_onHand i - held db ?oid (item_id i)"
    if "i \<in> set (items db)" for i
    using its(3) [OF that] by (simp add: consumed_def)
  then have "map item_onHand (items db') = map (\<lambda>i. item_onHand i - held db ?oid (item_id i)) (items db)"
    unfolding its' d1(2) by simp
  ultimately show "stock_consumed e ?oid db db'"
    using cl(1) R by (simp add: stock_consumed_def R_def)
  show "untouched db (db'\<lparr> items := items db, movements := movements db, reservations := reservations db \<rparr>)"
    by (subst cl(2)) (use d1(3) in \<open>simp add: untouched_def\<close>)
qed

section \<open>Moving an order and its delivery\<close>

lemma order_records_frame:
  "notify_customer e op ev db = Inr db' \<Longrightarrow> untouched db db'"
  "low_stock_alert e v db = Inr db' \<Longrightarrow> untouched db db'"
  by (auto simp: notify_customer_def low_stock_alert_def Let_def split: if_splits
      intro: outbox_frame_untouched createOrderNotificationsWithOutbox_frame createOperationalAlertWithOutbox_frame)

lemma createLowStockAlerts_frame:
  assumes "createLowStockAlerts e vs db = Inr db'"
  shows "untouched db db'"
proof (cases "db' = db")
  case False
  with assms have "foldE (low_stock_alert e)
      (sort_key var_id (filter (\<lambda>v. var_id v \<in> set vs) (variants db))) db = Inr db'"
    by (auto simp: createLowStockAlerts_def split: if_splits)
  then show ?thesis
    by (rule foldE_inv [of _ _ _ _ "untouched db"])
      (auto intro: untouched_trans dest: order_records_frame(2))
qed simp

lemma log_transition_frame:
  assumes "log_transition e op d t db = Inr db'"
  shows "untouched db db'"
proof -
  from assms obtain row1 h db1 row2 v db2 db3 row3 a where
    h: "create_status_history e row1 db = Inr (h, db1)" and
    v: "create_delivery_event e row2 db1 = Inr (v, db2)" and
    n: "(case tl_notification t of None \<Rightarrow> Inr db2 | Some ev \<Rightarrow> notify_customer e op ev db2) = Inr db3" and
    a: "create_audit e row3 db3 = Inr (a, db')"
    by (auto simp: log_transition_def
        simp del: create_status_history_Inr create_delivery_event_Inr create_audit_Inr)
  from h have "untouched db db1" by (auto simp: untouched_def Let_def)
  also from v have "untouched db1 db2" by (auto simp: untouched_def Let_def)
  also from n have "untouched db2 db3" by (auto split: option.splits dest: order_records_frame(1))
  also from a have "untouched db3 db'" by (rule create_audit_frame)
  finally show ?thesis .
qed

definition hits_order :: "order_operation \<Rightarrow> int \<Rightarrow> order \<Rightarrow> bool" where
  "hits_order op v x = (ord_id x = ord_id (op_order op) \<and> ord_status x = ord_status (op_order op) \<and> ord_version x = v)"

definition hits_delivery :: "delivery \<Rightarrow> delivery \<Rightarrow> bool" where
  "hits_delivery d x = (dlv_id x = dlv_id d \<and> dlv_status x = dlv_status d \<and> dlv_version x = dlv_version d)"

lemma move_order_effect:
  assumes "move_order op d v target f db = Inr db'"
  shows "orders db' = update_where (hits_order op v)
           (\<lambda>x. f (x\<lparr> ord_status := target, ord_version := ord_version x + 1 \<rparr>)) (orders db)"
    and "deliveries db' = update_where (hits_delivery d)
           (\<lambda>x. x\<lparr> dlv_status := target, dlv_version := dlv_version x + 1 \<rparr>) (deliveries db)"
    and "count_where (hits_order op v) (orders db) = 1" "count_where (hits_delivery d) (deliveries db) = 1"
    and "untouched db (db'\<lparr> orders := orders db, deliveries := deliveries db \<rparr>)"
  using assms
  by (auto simp: move_order_def Let_def untouched_def hits_order_def [abs_def] hits_delivery_def [abs_def])

lemma moved_order:
  assumes "orders db' = update_where (hits_order op v)
           (\<lambda>x. f (x\<lparr> ord_status := target, ord_version := ord_version x + 1 \<rparr>)) (orders db)"
    and "find_order db oid = Some (op_order op)" and "ord_version (op_order op) = v"
    and f: "\<And>x. ord_id (f x) = ord_id x"
  shows "find_order db' oid = Some (f ((op_order op)\<lparr> ord_status := target, ord_version := v + 1 \<rparr>))"
  using assms by (auto simp: find_order_def find_update_where hits_order_def)

text \<open>An order and its delivery always have the same status.\<close>

definition in_step :: "'a shop_db_scheme \<Rightarrow> bool" where
  "in_step db =
     (distinct (map ord_id (orders db)) \<and> distinct (map dlv_id (deliveries db))
      \<and> distinct (map dlv_orderId (deliveries db))
      \<and> (\<forall>o'\<in>set (orders db). \<forall>d\<in>set (deliveries db). dlv_orderId d = ord_id o' \<longrightarrow> dlv_status d = ord_status o'))"

lemma in_step_untouched: "untouched db db' \<Longrightarrow> in_step db' = in_step db"
  by (simp add: in_step_def untouched_def)

text \<open>No order is lost and no status changes but along the table.\<close>

definition orders_progress :: "order list \<Rightarrow> order list \<Rightarrow> bool" where
  "orders_progress os os' =
     (\<forall>o1\<in>set os. \<exists>o2\<in>set os'. ord_id o2 = ord_id o1
        \<and> reaches ORDER_STATUS_TRANSITIONS (ord_status o1) (ord_status o2))"

lemma orders_progress_refl [simp]: "orders_progress os os"
  by (auto simp: orders_progress_def intro: reaches.here)

lemma orders_progress_trans [trans]:
  assumes "orders_progress a b" and "orders_progress b c"
  shows "orders_progress a c"
  unfolding orders_progress_def
proof
  fix x assume "x \<in> set a"
  then obtain y where y: "y \<in> set b" "ord_id y = ord_id x"
    "reaches ORDER_STATUS_TRANSITIONS (ord_status x) (ord_status y)"
    using assms(1) unfolding orders_progress_def by blast
  then obtain z where "z \<in> set c" "ord_id z = ord_id y"
    "reaches ORDER_STATUS_TRANSITIONS (ord_status y) (ord_status z)"
    using assms(2) unfolding orders_progress_def by blast
  with y show "\<exists>z\<in>set c. ord_id z = ord_id x \<and> reaches ORDER_STATUS_TRANSITIONS (ord_status x) (ord_status z)"
    by (metis reaches_trans)
qed

lemma orders_progress_append: "orders_progress os (os @ os')"
  by (auto simp: orders_progress_def intro: reaches.here)

text \<open>One order and its delivery take on a new status: \<open>P\<close> and \<open>Q\<close> are the guards of the two updates.\<close>

lemma step_progress:
  assumes "os' = update_where P g os" and g: "\<And>x. ord_id (g x) = ord_id x"
    and step: "\<And>x. P x \<Longrightarrow> reaches ORDER_STATUS_TRANSITIONS (ord_status x) (ord_status (g x))"
  shows "orders_progress os os'"
  unfolding orders_progress_def
proof
  fix x assume x: "x \<in> set os"
  let ?y = "if P x then g x else x"
  have "?y \<in> set os'" unfolding assms(1) set_update_where using x by (intro bexI [of _ x]) simp_all
  moreover have "ord_id ?y = ord_id x" "reaches ORDER_STATUS_TRANSITIONS (ord_status x) (ord_status ?y)"
    using step [of x] by (simp_all add: g reaches.here)
  ultimately show "\<exists>o2\<in>set os'. ord_id o2 = ord_id x
      \<and> reaches ORDER_STATUS_TRANSITIONS (ord_status x) (ord_status o2)" by blast
qed

lemma step_in_step:
  assumes st: "in_step db"
    and os: "orders db' = update_where P g (orders db)" and ds: "deliveries db' = update_where Q h (deliveries db)"
    and o': "o' \<in> set (orders db)" "P o'" "\<And>x. P x \<Longrightarrow> ord_id x = ord_id o'"
    and d: "d \<in> set (deliveries db)" "Q d" "\<And>y. Q y \<Longrightarrow> dlv_id y = dlv_id d" "dlv_orderId d = ord_id o'"
    and g: "\<And>x. ord_id (g x) = ord_id x" "\<And>x. ord_status (g x) = target"
    and h: "\<And>y. dlv_id (h y) = dlv_id y" "\<And>y. dlv_orderId (h y) = dlv_orderId y" "\<And>y. dlv_status (h y) = target"
  shows "in_step db'"
proof -
  note D = st [unfolded in_step_def]
  have ho: "P x \<longleftrightarrow> ord_id x = ord_id o'" if "x \<in> set (orders db)" for x
    using key_unique [of ord_id "orders db" x o'] D that o' by metis
  have hd: "Q y \<longleftrightarrow> dlv_orderId y = ord_id o'" if "y \<in> set (deliveries db)" for y
    using key_unique [of dlv_id "deliveries db" y d] key_unique [of dlv_orderId "deliveries db" y d] D that d by metis
  have "dlv_status y = ord_status x"
    if x: "x \<in> set (orders db')" and y: "y \<in> set (deliveries db')" and e: "dlv_orderId y = ord_id x" for x y
  proof -
    from x obtain x0 where x0: "x0 \<in> set (orders db)" "ord_id x = ord_id x0"
      "ord_status x = (if P x0 then target else ord_status x0)"
      unfolding os set_update_where using g by auto
    from y obtain y0 where y0: "y0 \<in> set (deliveries db)" "dlv_orderId y = dlv_orderId y0"
      "dlv_status y = (if Q y0 then target else dlv_status y0)"
      unfolding ds set_update_where using h by auto
    show ?thesis using D x0 y0 e ho [OF x0(1)] hd [OF y0(1)] by auto
  qed
  moreover have "map ord_id (orders db') = map ord_id (orders db)" "map dlv_id (deliveries db') = map dlv_id (deliveries db)"
    "map dlv_orderId (deliveries db') = map dlv_orderId (deliveries db)"
    unfolding os ds by (simp_all add: map_update_where g h)
  ultimately show ?thesis using D by (simp add: in_step_def)
qed

lemma moved_progress:
  assumes "orders db' = update_where (hits_order op v)
           (\<lambda>x. f (x\<lparr> ord_status := target, ord_version := ord_version x + 1 \<rparr>)) (orders db)"
    and "canTransitionOrder (ord_status (op_order op)) target"
    and f: "\<And>x. ord_id (f x) = ord_id x" "\<And>x. ord_status (f x) = ord_status x"
  shows "orders_progress (orders db) (orders db')"
  by (rule step_progress [OF assms(1)])
    (use assms(2) in \<open>auto simp: f hits_order_def canTransitionOrder_def intro: reaches_step\<close>)

lemma moved_in_step:
  assumes st: "in_step db"
    and os: "orders db' = update_where (hits_order op v)
           (\<lambda>x. f (x\<lparr> ord_status := target, ord_version := ord_version x + 1 \<rparr>)) (orders db)"
    and ds: "deliveries db' = update_where (hits_delivery d)
           (\<lambda>x. x\<lparr> dlv_status := target, dlv_version := dlv_version x + 1 \<rparr>) (deliveries db)"
    and o': "op_order op \<in> set (orders db)" "ord_version (op_order op) = v"
    and d: "d \<in> set (deliveries db)" "dlv_orderId d = ord_id (op_order op)"
    and f: "\<And>x. ord_id (f x) = ord_id x" "\<And>x. ord_status (f x) = ord_status x"
  shows "in_step db'"
  by (rule step_in_step [where target = target, OF st os ds o'(1) _ _ d(1) _ _ d(2)])
    (simp_all add: f hits_order_def hits_delivery_def o'(2))

end
