(* ===== verification/OrdersDemo.thy ===== *)
theory OrdersDemo
  imports Orders ShopDemo
begin

text \<open>
  A shop in which one order has just been placed: three pieces of one variant, reserved in two
  buckets, with its delivery and the cash expected for it.  It is the concrete input of the
  witnesses about the order administration and the cash.
\<close>

definition placed_order :: order where
  "placed_order = \<lparr> ord_id = ''o1'', ord_number = ''TV-1'', ord_customerId = None, ord_cartId = None,
     ord_customerName = ''Nour'', ord_customerPhone = ''+21620111222'', ord_customerEmail = None,
     ord_status = PENDING_CONFIRMATION, ord_paymentStatus = CASH_EXPECTED, ord_subtotalMillimes = 37500,
     ord_discountTotalMillimes = 0, ord_deliveryTotalMillimes = 0, ord_taxTotalMillimes = 7125,
     ord_grandTotalMillimes = 44625, ord_expectedCodMillimes = 44625, ord_methodType = STORE_PICKUP,
     ord_methodSnapshot = ''Shop'', ord_zoneId = None, ord_rateId = None, ord_pickupLocationId = Some ''pk1'',
     ord_feeRule = JNull, ord_instructions = None, ord_ageConfirmedAt = Some 0, ord_minimumAge = 18,
     ord_ageVerificationAtDelivery = True, ord_phoneConfirmationRequired = False,
     ord_manualReviewRequired = False, ord_confirmedAt = None, ord_cancelledAt = None,
     ord_cancellationReason = None, ord_version = 1, ord_createdAt = 0 \<rparr>"

definition placed_line :: order_item where
  "placed_line = \<lparr> oi_id = ''oi1'', oi_orderId = ''o1'', oi_productId = Some ''p1'', oi_variantId = Some ''v1'',
     oi_productName = ''P'', oi_variantName = ''V'', oi_sku = ''v1'', oi_warningFr = None, oi_warningAr = None,
     oi_unitPriceMillimes = 12500, oi_unitDiscountMillimes = 0, oi_taxRateBps = 1900, oi_unitTaxMillimes = 2375,
     oi_quantity = 3, oi_lineSubtotalMillimes = 37500, oi_lineDiscountMillimes = 0, oi_lineTaxMillimes = 7125,
     oi_lineTotalMillimes = 44625 \<rparr>"

definition placed_delivery :: delivery where
  "placed_delivery = \<lparr> dlv_id = ''d1'', dlv_orderId = ''o1'', dlv_courierId = None, dlv_status = PENDING_CONFIRMATION,
     dlv_trackingNumber = None, dlv_courierFeeMillimes = None, dlv_internalNotes = None, dlv_assignedAt = None, dlv_handedToCourierAt = None, dlv_deliveredAt = None,
     dlv_nextAttemptAt = None, dlv_ageVerificationRequired = True, dlv_ageVerificationResult = AGE_PENDING,
     dlv_cashCollectedResult = None, dlv_version = 1 \<rparr>"

definition placed_reservation :: "string \<Rightarrow> string \<Rightarrow> int \<Rightarrow> reservation" where
  "placed_reservation i iid q = \<lparr> res_id = i, res_itemId = iid, res_sourceType = SRC_ORDER, res_sourceId = ''o1'',
     res_activeKey = Some i, res_quantity = q, res_state = RS_ACTIVE, res_orderId = Some ''o1'',
     res_orderItemId = Some ''oi1'', res_expiresAt = 5000, res_consumedAt = None, res_releasedAt = None,
     res_releaseReason = None \<rparr>"

definition placed_collection :: collection where
  "placed_collection = \<lparr> col_id = ''c1'', col_orderId = ''o1'', col_deliveryId = Some ''d1'', col_courierId = None,
     col_status = EXPECTED, col_expectedMillimes = 44625, col_collectedMillimes = 0,
     col_collectedByUserId = None, col_collectedAt = None, col_evidenceObjectKey = None, col_note = None,
     col_keyHash = None, col_requestHash = None \<rparr>"

definition placed_shop :: shop_db where
  "placed_shop = demo_shop\<lparr>
     reservations := [placed_reservation ''r1'' ''i1'' 1, placed_reservation ''r2'' ''i2'' 2],
     orders := [placed_order], order_items := [placed_line], deliveries := [placed_delivery],
     collections := [placed_collection] \<rparr>"

text \<open>One evaluation, taken apart below.\<close>

lemma placed_shop_evaluated:
  "stock_inv (now shop_env) placed_shop
   \<and> map (\<lambda>i. item_onHand i - sum_by res_quantity (filter (\<lambda>r. res_itemId r = item_id i \<and> open_reservation ''o1'' r)
     (reservations placed_shop))) (items placed_shop) = [1, 3]
   \<and> (case order_confirm shop_env ''o1'' 1 placed_shop of Inr (r, db) \<Rightarrow> True | Inl x \<Rightarrow> False)
   \<and> (case order_terminate CANCEL shop_env ''o1'' 1 ''changed'' placed_shop of Inr (r, db) \<Rightarrow> True | Inl x \<Rightarrow> False)"
  by code_simp

lemma placed_shop_stock: "stock_inv (now shop_env) placed_shop"
  using placed_shop_evaluated by (elim conjE)

lemma placed_shop_held:
  "map (\<lambda>i. item_onHand i - sum_by res_quantity (filter (\<lambda>r. res_itemId r = item_id i \<and> open_reservation ''o1'' r)
     (reservations placed_shop))) (items placed_shop) = [1, 3]"
  using placed_shop_evaluated by (elim conjE)

lemma placed_shop_confirmed:
  "case order_confirm shop_env ''o1'' 1 placed_shop of Inr (r, db) \<Rightarrow> True | Inl x \<Rightarrow> False"
  using placed_shop_evaluated by (elim conjE)

lemma placed_shop_cancelled:
  "case order_terminate CANCEL shop_env ''o1'' 1 ''changed'' placed_shop of Inr (r, db) \<Rightarrow> True | Inl x \<Rightarrow> False"
  using placed_shop_evaluated by (elim conjE)

end
