(* ===== verification/CustomerOrders.thy ===== *)
theory CustomerOrders
  imports Orders
begin

text \<open>
  \<open>customer-orders/customer-orders.service.ts\<close>: a customer reads an order of their own and cancels it
  while it is still unconfirmed.  The identity of the customer is the actor of the request.
\<close>

section \<open>Whose order it is\<close>

text \<open>\<open>ownedWhere\<close>: the order's customer is this user's, not suspended, and the account is active.\<close>

definition ownedWhere :: "'a shop_db_scheme \<Rightarrow> string \<Rightarrow> order \<Rightarrow> bool" where
  "ownedWhere db userId o' =
     list_ex (\<lambda>c. Some (cus_id c) = ord_customerId o' \<and> cus_userId c = userId \<and> cus_suspendedAt c = None
                \<and> cus_userIsCustomer c \<and> cus_userActive c)
       (ref_customers (reference db))"

text \<open>\<open>customer: { is: { userId } }\<close>, the condition of the guarded update.\<close>

definition customer_is :: "'a shop_db_scheme \<Rightarrow> string \<Rightarrow> order \<Rightarrow> bool" where
  "customer_is db userId o' =
     list_ex (\<lambda>c. Some (cus_id c) = ord_customerId o' \<and> cus_userId c = userId) (ref_customers (reference db))"

definition lockOwnedOrder :: "'a shop_db_scheme \<Rightarrow> string \<Rightarrow> string \<Rightarrow> order_operation result" where
  "lockOwnedOrder db userId orderNumber =
     bindE (some_or (List.find (\<lambda>o'. ord_number o' = orderNumber \<and> ownedWhere db userId o') (orders db))
             (notFound ''ORDER_NOT_FOUND'')) (\<lambda>owned.
     bindE (some_or (List.find (\<lambda>o'. ord_id o' = ord_id owned \<and> ownedWhere db userId o') (orders db))
             (notFound ''ORDER_NOT_FOUND'')) (\<lambda>o'.
     Inr (order_operation_of db o')))"

text \<open>The rows behind \<open>CUSTOMER_ORDER_DETAIL_SELECT\<close>: only the notes the customer may see.\<close>

record customer_detail =
  cd_order :: order
  cd_cancellable :: bool
  cd_items :: "order_item list"
  cd_addresses :: "order_address list"
  cd_history :: "status_history list"
  cd_notes :: "order_note list"
  cd_consents :: "order_consent list"
  cd_delivery :: "delivery option"
  cd_events :: "delivery_event list"
  cd_collections :: "collection list"

definition CUSTOMER_CANCELLATION_STATUSES :: "order_status set" where
  "CUSTOMER_CANCELLATION_STATUSES = {PENDING_CONFIRMATION}"

definition canCustomerCancelOrder :: "order_status \<Rightarrow> bool" where
  "canCustomerCancelOrder status = (status \<in> CUSTOMER_CANCELLATION_STATUSES)"

definition customer_detail_of :: "'a shop_db_scheme \<Rightarrow> order \<Rightarrow> customer_detail" where
  "customer_detail_of db o' =
     \<lparr> cd_order = o', cd_cancellable = canCustomerCancelOrder (ord_status o'),
       cd_items = filter (\<lambda>i. oi_orderId i = ord_id o') (order_items db),
       cd_addresses = filter (\<lambda>a. oa_orderId a = ord_id o') (addresses db),
       cd_history = filter (\<lambda>h. sh_orderId h = ord_id o') (histories db),
       cd_notes = filter (\<lambda>n. on_orderId n = ord_id o' \<and> on_visibility n = CUSTOMER_VISIBLE) (order_notes db),
       cd_consents = filter (\<lambda>c. oc_orderId c = ord_id o') (consents db),
       cd_delivery = order_delivery db (ord_id o'),
       cd_events = (case order_delivery db (ord_id o') of None \<Rightarrow> []
         | Some d \<Rightarrow> filter (\<lambda>v. de_deliveryId v = dlv_id d) (delivery_events db)),
       cd_collections = filter (\<lambda>c. col_orderId c = ord_id o') (collections db) \<rparr>"

definition customer_order_get :: "'a shop_db_scheme \<Rightarrow> string \<Rightarrow> string \<Rightarrow> customer_detail result" where
  "customer_order_get db userId orderNumber =
     bindE (some_or (List.find (\<lambda>o'. ord_number o' = orderNumber \<and> ownedWhere db userId o') (orders db))
             (notFound ''ORDER_NOT_FOUND'')) (\<lambda>o'.
     Inr (customer_detail_of db o'))"

section \<open>Cancelling\<close>

definition customer_cancel_guard :: "order_operation \<Rightarrow> int \<Rightarrow> (delivery \<times> collection) result" where
  "customer_cancel_guard op expectedVersion =
     require (ord_version (op_order op) = expectedVersion) (conflict ''VERSION_CONFLICT'') (
     require (canCustomerCancelOrder (ord_status (op_order op))) (conflict ''ORDER_CANCELLATION_NOT_ALLOWED'') (
     case op_delivery op of None \<Rightarrow> Inl (conflict ''DELIVERY_CANCELLATION_NOT_ALLOWED'')
     | Some d \<Rightarrow>
       require (dlv_status d = PENDING_CONFIRMATION) (conflict ''DELIVERY_CANCELLATION_NOT_ALLOWED'') (
       require (ord_paymentStatus (op_order op) = PAYMENT_PENDING \<or> ord_paymentStatus (op_order op) = CASH_EXPECTED)
         (conflict ''ORDER_CASH_ALREADY_COLLECTED'') (
       case op_collections op of
         [c] \<Rightarrow> require (col_status c = EXPECTED) (conflict ''ORDER_COD_STATE_INVALID'') (Inr (d, c))
       | _ \<Rightarrow> Inl (conflict ''ORDER_COD_STATE_INVALID'')))))"

text \<open>
  \<open>lockActiveReservationsAndInventory\<close> runs the same queries and checks as \<open>lockActiveInventory\<close> of the
  order administration, and the released rows and movements have the same columns.
\<close>

definition customer_release :: "env \<Rightarrow> string \<Rightarrow> string \<Rightarrow> 'a shop_db_scheme \<Rightarrow> 'a shop_db_scheme result" where
  "customer_release e oid reason db =
     bindE (lockActiveInventory db oid) (\<lambda>(rs, its).
     if length rs > 0 then
       bindE (close_reservations rs (release_reservation e reason) db)
         (foldE (release_movement e oid ''CUSTOMER_CANCELLED'' reason its) rs)
     else Inr db)"

text \<open>The three guarded updates; each must hit exactly one row.\<close>

definition customer_cancel_rows ::
  "env \<Rightarrow> order_operation \<Rightarrow> delivery \<Rightarrow> collection \<Rightarrow> int \<Rightarrow> string \<Rightarrow> 'a shop_db_scheme \<Rightarrow> 'a shop_db_scheme result" where
  "customer_cancel_rows e op d c expectedVersion reason db =
     (let hit_cash = (\<lambda>x. col_id x = col_id c \<and> col_status x = EXPECTED);
          hit_order = (\<lambda>x. ord_id x = ord_id (op_order op) \<and> customer_is db (actor e) x
                         \<and> ord_status x = ord_status (op_order op) \<and> ord_version x = expectedVersion);
          hit_delivery = (\<lambda>x. dlv_id x = dlv_id d \<and> dlv_status x = dlv_status d \<and> dlv_version x = dlv_version d)
      in require (\<not> (count_where hit_cash (collections db) \<noteq> 1 \<or> count_where hit_order (orders db) \<noteq> 1
                      \<or> count_where hit_delivery (deliveries db) \<noteq> 1))
           (conflict ''VERSION_CONFLICT'')
           (Inr (db\<lparr> collections := update_where hit_cash (\<lambda>x. x\<lparr> col_status := VOIDED \<rparr>) (collections db),
                     orders := update_where hit_order
                       (\<lambda>x. x\<lparr> ord_status := CANCELLED, ord_paymentStatus := PAYMENT_CANCELLED,
                               ord_cancelledAt := Some (now e), ord_cancellationReason := Some reason,
                               ord_version := ord_version x + 1 \<rparr>) (orders db),
                     deliveries := update_where hit_delivery
                       (\<lambda>x. x\<lparr> dlv_status := CANCELLED, dlv_version := dlv_version x + 1 \<rparr>) (deliveries db) \<rparr>)))"

definition customer_cancel_audit :: "env \<Rightarrow> order \<Rightarrow> audit_log" where
  "customer_cancel_audit e o' =
     \<lparr> audit_id = [], audit_actorUserId = Some (actor e), audit_actorType = ACTOR_CUSTOMER,
       audit_action = ''customer.order.cancelled'', audit_resourceType = ''Order'',
       audit_resourceId = Some (ord_id o'), audit_outcome = SUCCESS, audit_requestId = requestId e,
       audit_ipAddress = Some (order_ip e),
       audit_userAgent = or_null (map_option (take 512) (req_userAgent e)),
       audit_before = JObj [(''status'', JStr (order_status_name (ord_status o'))),
         (''paymentStatus'', JStr (payment_status_name (ord_paymentStatus o'))), (''version'', JNum (ord_version o'))],
       audit_after = JObj [(''status'', JStr ''CANCELLED''), (''paymentStatus'', JStr ''CANCELLED''),
         (''version'', JNum (ord_version o' + 1)), (''reasonProvided'', JBool True)] \<rparr>"

text \<open>History, delivery event, notification and audit; awaited together in the code.\<close>

definition customer_cancel_records ::
  "env \<Rightarrow> order_operation \<Rightarrow> delivery \<Rightarrow> string \<Rightarrow> 'a shop_db_scheme \<Rightarrow> 'a shop_db_scheme result" where
  "customer_cancel_records e op d reason db =
     bindE (create_status_history e
       \<lparr> sh_id = [], sh_orderId = ord_id (op_order op), sh_fromStatus = Some (ord_status (op_order op)),
         sh_toStatus = CANCELLED, sh_reasonCode = Some ''CUSTOMER_CANCELLED'', sh_note = Some reason,
         sh_changedByUserId = Some (actor e), sh_requestId = Some (requestId e), sh_createdAt = now e \<rparr> db)
       (\<lambda>(_, db1).
     bindE (create_delivery_event e
       \<lparr> de_id = [], de_deliveryId = dlv_id d, de_fromStatus = Some (dlv_status d), de_toStatus = CANCELLED,
         de_occurredAt = now e, de_actorUserId = Some (actor e), de_source = ''CUSTOMER_SELF_SERVICE'',
         de_reasonCode = Some ''CUSTOMER_CANCELLED'', de_note = Some reason, de_payload = JNull,
         de_requestId = Some (requestId e) \<rparr> db1) (\<lambda>(_, db2).
     bindE (notify_customer e op ORDER_CANCELLED_EVENT db2) (\<lambda>db3.
     bindE (create_audit e (customer_cancel_audit e (op_order op)) db3) (\<lambda>(_, db4). Inr db4))))"

definition customer_order_cancel ::
  "env \<Rightarrow> string \<Rightarrow> int \<Rightarrow> string \<Rightarrow> 'a shop_db_scheme \<Rightarrow> (customer_detail \<times> 'a shop_db_scheme) result" where
  "customer_order_cancel e orderNumber expectedVersion input_reason db =
     bindE (lockOwnedOrder db (actor e) orderNumber) (\<lambda>op.
     bindE (customer_cancel_guard op expectedVersion) (\<lambda>(d, c).
     let reason = trim input_reason
     in bindE (customer_release e (ord_id (op_order op)) reason db) (\<lambda>db1.
        bindE (customer_cancel_rows e op d c expectedVersion reason db1) (\<lambda>db2.
        bindE (customer_cancel_records e op d reason db2) (\<lambda>db3.
        bindE (some_or (List.find (\<lambda>o'. ord_id o' = ord_id (op_order op) \<and> ownedWhere db3 (actor e) o') (orders db3))
                (notFound ''ORDER_NOT_FOUND'')) (\<lambda>o'.
        Inr (customer_detail_of db3 o', db3)))))))"

section \<open>Its parts, in terms of the order administration\<close>

lemma canCustomerCancelOrder_simp [simp]: "canCustomerCancelOrder s \<longleftrightarrow> s = PENDING_CONFIRMATION"
  by (simp add: canCustomerCancelOrder_def CUSTOMER_CANCELLATION_STATUSES_def)

lemma customer_release_eq: "customer_release e oid reason db = release_stock e oid ''CUSTOMER_CANCELLED'' reason db"
  unfolding customer_release_def release_stock_def
  by (rule arg_cong [where f = "bindE _"]) (auto simp: fun_eq_iff)

lemma customer_cancel_guard_Inr:
  assumes "customer_cancel_guard op v = Inr (d, c)"
  shows "ord_version (op_order op) = v" "ord_status (op_order op) = PENDING_CONFIRMATION" "op_delivery op = Some d"
    "dlv_status d = PENDING_CONFIRMATION" "op_collections op = [c]" "col_status c = EXPECTED"
    "ord_paymentStatus (op_order op) \<in> {PAYMENT_PENDING, CASH_EXPECTED}"
  using assms by (auto simp: customer_cancel_guard_def split: option.splits list.splits)

lemma lockOwnedOrder_Inr:
  assumes "lockOwnedOrder db userId n = Inr op" and ids: "distinct (map ord_id (orders db))"
  shows "\<exists>o'. op = order_operation_of db o' \<and> o' \<in> set (orders db) \<and> ord_number o' = n \<and> ownedWhere db userId o'"
proof -
  from assms(1) obtain a b where a: "a \<in> set (orders db)" "ord_number a = n"
    and b: "b \<in> set (orders db)" "ord_id b = ord_id a" "ownedWhere db userId b" and op: "op = order_operation_of db b"
    by (auto simp: lockOwnedOrder_def dest: find_SomeD)
  then have "b = a" by (intro key_unique [OF ids]) simp_all
  with a b op show ?thesis by blast
qed

lemma owned_customer: "ownedWhere db u o' \<Longrightarrow> customer_is db u o'"
  by (auto simp: ownedWhere_def customer_is_def list_ex_iff)

text \<open>A count of one names its row.\<close>

lemma count_one_only:
  assumes "count_where P t = 1" and "x \<in> set t" and "P x" and "y \<in> set t" and "P y"
  shows "x = y"
proof -
  from assms(1) obtain z where "filter P t = [z]"
    by (auto simp: count_where_def length_Suc_conv)
  then have one: "set (filter P t) = {z}" by simp
  have "x \<in> set (filter P t)" "y \<in> set (filter P t)" using assms by simp_all
  then show ?thesis unfolding one by simp
qed

lemma update_where_same:
  "(\<And>x. x \<in> set t \<Longrightarrow> P x = Q x) \<Longrightarrow> (\<And>x. x \<in> set t \<Longrightarrow> P x \<Longrightarrow> f x = g x) \<Longrightarrow> update_where P f t = update_where Q g t"
  by (auto simp: update_where_def)

lemma count_where_same: "(\<And>x. x \<in> set t \<Longrightarrow> P x = Q x) \<Longrightarrow> count_where P t = count_where Q t"
  unfolding count_where_def by (metis filter_cong)

text \<open>
  The one expected collection of the order is the one voided, and the condition on the customer adds
  nothing to the condition on the id: the updates are those of an administrator's cancellation.
\<close>

lemma customer_cancel_rows_eq:
  assumes run: "customer_cancel_rows e op d c v reason db = Inr db'" and o': "op_order op \<in> set (orders db)"
    and ids: "distinct (map ord_id (orders db))" and own: "customer_is db (actor e) (op_order op)"
    and c: "filter (\<lambda>x. col_orderId x = ord_id (op_order op)) (collections db) = [c]" "col_status c = EXPECTED"
  shows "move_order op d v CANCELLED (\<lambda>o'. o'\<lparr> ord_paymentStatus := PAYMENT_CANCELLED, ord_cancelledAt := Some (now e),
       ord_cancellationReason := Some reason \<rparr>) (void_expected (ord_id (op_order op)) db) = Inr db'"
proof -
  let ?hc = "\<lambda>x. col_id x = col_id c \<and> col_status x = EXPECTED"
  let ?ho = "\<lambda>x. ord_id x = ord_id (op_order op) \<and> customer_is db (actor e) x
                \<and> ord_status x = ord_status (op_order op) \<and> ord_version x = v"
  from run have n: "count_where ?hc (collections db) = 1" by (auto simp: customer_cancel_rows_def Let_def)
  have cin: "c \<in> set (collections db)" and cord: "col_orderId c = ord_id (op_order op)"
    using arg_cong [OF c(1), of set] by auto
  have ho: "?ho x = (ord_id x = ord_id (op_order op) \<and> ord_status x = ord_status (op_order op) \<and> ord_version x = v)"
    if "x \<in> set (orders db)" for x
    using key_unique [OF ids that o'] own by auto
  have hc: "?hc x = (col_orderId x = ord_id (op_order op) \<and> col_status x = EXPECTED)" if x: "x \<in> set (collections db)" for x
  proof
    assume "?hc x"
    then have "x = c" using count_one_only [OF n x _ cin] c(2) by simp
    then show "col_orderId x = ord_id (op_order op) \<and> col_status x = EXPECTED" using c(2) cord by simp
  next
    assume "col_orderId x = ord_id (op_order op) \<and> col_status x = EXPECTED"
    then have "x \<in> set [c]" unfolding c(1) [symmetric] using x by simp
    then show "?hc x" using c(2) by simp
  qed
  have "update_where ?hc (\<lambda>x. x\<lparr> col_status := VOIDED \<rparr>) (collections db)
      = update_where (\<lambda>x. col_orderId x = ord_id (op_order op) \<and> col_status x = EXPECTED)
          (\<lambda>x. x\<lparr> col_status := VOIDED \<rparr>) (collections db)"
    by (rule update_where_same) (simp_all add: hc)
  moreover have "update_where ?ho
      (\<lambda>x. x\<lparr> ord_status := CANCELLED, ord_paymentStatus := PAYMENT_CANCELLED, ord_cancelledAt := Some (now e),
             ord_cancellationReason := Some reason, ord_version := ord_version x + 1 \<rparr>) (orders db)
    = update_where (\<lambda>x. ord_id x = ord_id (op_order op) \<and> ord_status x = ord_status (op_order op) \<and> ord_version x = v)
      (\<lambda>x. x\<lparr> ord_status := CANCELLED, ord_version := ord_version x + 1, ord_paymentStatus := PAYMENT_CANCELLED,
             ord_cancelledAt := Some (now e), ord_cancellationReason := Some reason \<rparr>) (orders db)"
    by (rule update_where_same) (simp_all add: ho)
  moreover have "count_where ?ho (orders db) = count_where (\<lambda>x. ord_id x = ord_id (op_order op)
      \<and> ord_status x = ord_status (op_order op) \<and> ord_version x = v) (orders db)"
    by (rule count_where_same) (simp add: ho)
  ultimately show ?thesis
    using run by (auto simp: customer_cancel_rows_def move_order_def void_expected_def Let_def)
qed

end
