(* ===== verification/OrdersSpec.thy ===== *)
theory OrdersSpec
  imports OrdersProofs CheckoutSpec OrdersDemo CustomerOrders
begin

text \<open>
  The handlers of \<open>orders/admin-orders.service.ts\<close> as steps, and their properties: what confirming
  and terminating an order do to the stock and the cash, that an order is confirmed once, and that
  every order and its delivery stay in step along the table of transitions.
\<close>

section \<open>The parts of each handler\<close>

lemma lockOrder_Inr:
  "lockOrder db oid = Inr op \<longleftrightarrow> (\<exists>o'. find_order db oid = Some o' \<and> op = order_operation_of db o')"
  by (auto simp: lockOrder_def)

lemma order_operation_simps [simp]:
  "op_order (order_operation_of db o') = o'"
  "op_delivery (order_operation_of db o') = order_delivery db (ord_id o')"
  by (simp_all add: order_operation_of_def)

lemma find_order_id: "find_order db oid = Some o' \<Longrightarrow> ord_id o' = oid \<and> o' \<in> set (orders db)"
  using find_SomeD [of _ "orders db" o'] by (auto simp: find_order_def)

lemma order_delivery_id: "order_delivery db oid = Some d \<Longrightarrow> dlv_orderId d = oid \<and> d \<in> set (deliveries db)"
  using find_SomeD [of _ "deliveries db" d] by (auto simp: order_delivery_def)

lemma confirm_guard_Inr:
  "confirm_guard op v = Inr d \<longleftrightarrow> ord_version (op_order op) = v \<and> ord_status (op_order op) = PENDING_CONFIRMATION
     \<and> op_delivery op = Some d \<and> dlv_status d = PENDING_CONFIRMATION"
  by (auto simp: confirm_guard_def assertVersion_def canTransitionOrder_def)

text \<open>The invariant of the orders: the stock is sound and every order agrees with its delivery.\<close>

definition orders_inv :: "int \<Rightarrow> 'a shop_db_scheme \<Rightarrow> bool" where
  "orders_inv t db = (stock_inv t db \<and> in_step db)"

text \<open>A step that moves the order \<open>oid\<close>: which order, which delivery, from which database.\<close>

definition moves ::
  "string \<Rightarrow> order_status \<Rightarrow> (order \<Rightarrow> order) \<Rightarrow> 'a shop_db_scheme \<Rightarrow> 'a shop_db_scheme \<Rightarrow> bool" where
  "moves oid target f db db' =
     (\<exists>o' d v. find_order db oid = Some o' \<and> order_delivery db oid = Some d \<and> ord_version o' = v
        \<and> canTransitionOrder (ord_status o') target
        \<and> orders db' = update_where (hits_order (order_operation_of db o') v)
             (\<lambda>x. f (x\<lparr> ord_status := target, ord_version := ord_version x + 1 \<rparr>)) (orders db)
        \<and> deliveries db' = update_where (hits_delivery d)
             (\<lambda>x. x\<lparr> dlv_status := target, dlv_version := dlv_version x + 1 \<rparr>) (deliveries db)
        \<and> carts db' = carts db \<and> shop_db.more db' = shop_db.more db)"

lemma movesI:
  assumes "find_order db oid = Some o'" and "order_delivery db oid = Some d" and "ord_version o' = v"
    and "canTransitionOrder (ord_status o') target"
    and "untouched db (db1\<lparr> items := items db, movements := movements db, reservations := reservations db,
           collections := collections db \<rparr>)"
    and "move_order (order_operation_of db o') d v target f db1 = Inr db2" and "untouched db2 db'"
  shows "moves oid target f db db'"
  unfolding moves_def
  using assms(1-5,7) move_order_effect(1,2,5) [OF assms(6)]
  by (intro exI [of _ o'] exI [of _ d] exI [of _ v]) (simp add: untouched_def)

lemma moves_effect:
  assumes m: "moves oid target f db db'"
    and f: "\<And>x. ord_id (f x) = ord_id x" "\<And>x. ord_status (f x) = ord_status x"
  shows "orders_progress (orders db) (orders db')" and "in_step db \<Longrightarrow> in_step db'"
    and "\<exists>o' v. find_order db oid = Some o' \<and> find_order db' oid
           = Some (f (o'\<lparr> ord_status := target, ord_version := v + 1 \<rparr>)) \<and> ord_version o' = v"
proof -
  from m obtain o' d v where o': "find_order db oid = Some o'" "ord_version o' = v"
    and d: "order_delivery db oid = Some d" and t: "canTransitionOrder (ord_status o') target"
    and os: "orders db' = update_where (hits_order (order_operation_of db o') v)
             (\<lambda>x. f (x\<lparr> ord_status := target, ord_version := ord_version x + 1 \<rparr>)) (orders db)"
    and ds: "deliveries db' = update_where (hits_delivery d)
             (\<lambda>x. x\<lparr> dlv_status := target, dlv_version := dlv_version x + 1 \<rparr>) (deliveries db)"
    unfolding moves_def by blast
  show "orders_progress (orders db) (orders db')"
    by (rule moved_progress [OF os _ f]) (simp add: t)
  show "in_step db'" if "in_step db"
    by (rule moved_in_step [OF that os ds _ _ _ _ f])
      (use o' d find_order_id order_delivery_id in \<open>fastforce+\<close>)
  show "\<exists>o' v. find_order db oid = Some o' \<and> find_order db' oid
           = Some (f (o'\<lparr> ord_status := target, ord_version := v + 1 \<rparr>)) \<and> ord_version o' = v"
    using moved_order [OF os] o' f(1) by (auto intro!: exI [of _ o'])
qed

section \<open>Confirming\<close>

lemma order_confirm_parts:
  assumes run: "order_confirm e oid v db = Inr (r, db')" and inv: "stock_inv (now e) db"
  obtains db1 where "stock_consumed e oid db db1" and "untouched db1 (db'\<lparr> orders := orders db1, deliveries := deliveries db1 \<rparr>)"
    and "moves oid CONFIRMED (\<lambda>o'. o'\<lparr> ord_confirmedAt := Some (now e) \<rparr>) db db'"
proof -
  from run obtain o' d locked db1 db2 db3 where
    o': "find_order db oid = Some o'" and
    g: "confirm_guard (order_operation_of db o') v = Inr d" and
    c: "consume_stock e (order_operation_of db o') db = Inr (locked, db1)" and
    a: "createLowStockAlerts e (remdups (map item_variantId (snd locked))) db1 = Inr db2" and
    m: "move_order (order_operation_of db o') d v CONFIRMED (\<lambda>o'. o'\<lparr> ord_confirmedAt := Some (now e) \<rparr>) db2 = Inr db3" and
    l: "log_transition e (order_operation_of db o') d (confirmation_log o') db3 = Inr db'"
    by (auto simp: order_confirm_def lockOrder_Inr)
  have oid: "ord_id o' = oid" using find_order_id [OF o'] by simp
  note eff = consume_stock_effect [OF c inv, simplified, unfolded oid] and ua = createLowStockAlerts_frame [OF a]
    and ul = log_transition_frame [OF l] and um = move_order_effect(5) [OF m]
  have "untouched db1 (db'\<lparr> orders := orders db1, deliveries := deliveries db1 \<rparr>)"
    using ua um ul by (simp add: untouched_def)
  moreover have "moves oid CONFIRMED (\<lambda>o'. o'\<lparr> ord_confirmedAt := Some (now e) \<rparr>) db db'"
    by (rule movesI [OF o' _ _ _ _ m ul])
      (use g eff(2) ua oid in \<open>simp_all add: confirm_guard_Inr canTransitionOrder_def untouched_def\<close>)
  ultimately show ?thesis using that eff(1) by blast
qed

lemma stock_consumed_cong:
  assumes "stock_consumed e oid db db1" and "items db' = items db1" "movements db' = movements db1"
    "reservations db' = reservations db1"
  shows "stock_consumed e oid db db'"
proof -
  have "stock_inv (now e) db'"
    using assms(1) stock_inv_cong [OF assms(2-4)] unfolding stock_consumed_def by blast
  then show ?thesis
    using assms(1) unfolding stock_consumed_def assms(2,4) by blast
qed

lemma order_confirm_stock:
  assumes "order_confirm e oid v db = Inr (r, db')" and "stock_inv (now e) db"
  shows "stock_consumed e oid db db'"
proof -
  from assms obtain db1 where c: "stock_consumed e oid db db1"
    and u: "untouched db1 (db'\<lparr> orders := orders db1, deliveries := deliveries db1 \<rparr>)"
    by (rule order_confirm_parts)
  show ?thesis by (rule stock_consumed_cong [OF c]) (use u in \<open>simp_all add: untouched_def\<close>)
qed

lemma consumed_available:
  assumes "stock_consumed e oid db db'"
  shows "map (available (now e) db') (items db') = map (available (now e) db) (items db)"
proof (rule nth_equalityI)
  from assms have ids: "map item_id (items db') = map item_id (items db)"
    and on_hand: "map item_onHand (items db') = map (\<lambda>i. item_onHand i - held db oid (item_id i)) (items db)"
    and res: "reserved (now e) (reservations db') iid = reserved (now e) (reservations db) iid - held db oid iid" for iid
    unfolding stock_consumed_def by blast+
  show len: "length (map (available (now e) db') (items db')) = length (map (available (now e) db) (items db))"
    using map_eq_imp_length_eq [OF ids] by simp
  fix n assume "n < length (map (available (now e) db') (items db'))"
  then have n: "n < length (items db')" "n < length (items db)" using len by simp_all
  have "map item_id (items db') ! n = map item_id (items db) ! n"
    and "map item_onHand (items db') ! n = map (\<lambda>i. item_onHand i - held db oid (item_id i)) (items db) ! n"
    using ids on_hand by simp_all
  then have "item_id (items db' ! n) = item_id (items db ! n)"
    and "item_onHand (items db' ! n) = item_onHand (items db ! n) - held db oid (item_id (items db ! n))"
    using n by simp_all
  then show "map (available (now e) db') (items db') ! n = map (available (now e) db) (items db) ! n"
    using n res by (simp add: available_def)
qed

section \<open>Terminating\<close>

lemma release_movement_step:
  assumes run: "release_movement e oid rc reason its r d = Inr d'" and inv: "stock_inv t d"
    and its: "set its \<subseteq> set (items d)"
  shows "stock_inv t d'" and "items d' = items d" and "untouched d (d'\<lparr> movements := movements d \<rparr>)"
proof -
  from run obtain i m where i: "List.find (\<lambda>i. item_id i = res_itemId r) its = Some i"
    and ms: "movements d' = movements d @ [m]" and m: "mv_itemId m = item_id i" "mv_delta m = 0"
      "mv_onHandAfter m = item_onHand i"
    and u: "untouched d (d'\<lparr> movements := movements d \<rparr>)"
    by (auto simp: release_movement_def Let_def untouched_def split: option.splits)
  show it: "items d' = items d" "untouched d (d'\<lparr> movements := movements d \<rparr>)" using u by (simp_all add: untouched_def)
  show "stock_inv t d'"
    by (rule stock_inv_note [OF inv _ m it(1) ms]) (use find_SomeD [OF i] its u in \<open>auto simp: untouched_def\<close>)
qed

lemma release_reservation_simps [simp]:
  "res_itemId (release_reservation e reason r) = res_itemId r"
  "res_quantity (release_reservation e reason r) = res_quantity r"
  "res_state (release_reservation e reason r) = RS_RELEASED" "\<not> active_at t (release_reservation e reason r)"
  by (simp_all add: release_reservation_def active_at_def)

lemma release_stock_effect:
  assumes run: "release_stock e oid rc reason db = Inr db'" and inv: "stock_inv (now e) db"
  shows "stock_inv (now e) db'" and "items db' = items db"
    and "reservations db' = update_where (open_reservation oid) (release_reservation e reason) (reservations db)"
    and "untouched db (db'\<lparr> movements := movements db, reservations := reservations db \<rparr>)"
proof -
  from run obtain rs its where l: "lockActiveInventory db oid = Inr (rs, its)"
    and rest: "(if rs = [] then Inr db else bindE (close_reservations rs (release_reservation e reason) db)
          (\<lambda>db1. foldE (release_movement e oid rc reason its) rs db1)) = Inr db'"
    by (auto simp: release_stock_def)
  note rs = lockActiveInventory_Inr(1) [OF l] and its = locked_items(1) [OF l stock_invD(1) [OF inv]]
  let ?goal = "stock_inv (now e) db' \<and> items db' = items db
    \<and> reservations db' = update_where (open_reservation oid) (release_reservation e reason) (reservations db)
    \<and> untouched db (db'\<lparr> movements := movements db, reservations := reservations db \<rparr>)"
  have ?goal
  proof (cases "rs = []")
    case True
    then have "filter (open_reservation oid) (reservations db) = []"
      using rs by (metis length_0_conv length_sort)
    then have "update_where (open_reservation oid) (release_reservation e reason) (reservations db) = reservations db"
      by (intro update_where_none) (auto simp: filter_empty_conv)
    with True rest inv show ?thesis by (simp add: untouched_def)
  next
    case False
    with rest obtain db1 where c: "close_reservations rs (release_reservation e reason) db = Inr db1"
      and f: "foldE (release_movement e oid rc reason its) rs db1 = Inr db'" by auto
    have cl: "reservations db1 = update_where (open_reservation oid) (release_reservation e reason) (reservations db)"
      "db1 = db\<lparr> reservations := reservations db1 \<rparr>"
      by (rule close_reservations_Inr [OF c, of oid]; simp add: rs)+
    have same: "items db1 = items db" "movements db1 = movements db" by (subst cl(2), simp)+
    have inv1: "stock_inv (now e) db1"
      by (rule stock_inv_close [OF inv _ _ _ same cl(1)]) simp_all
    let ?P = "\<lambda>d. stock_inv (now e) d \<and> items d = items db \<and> untouched db1 (d\<lparr> movements := movements db1 \<rparr>)"
    have "?P db'"
    proof (rule foldE_inv [OF f, of ?P])
      fix x d d' assume r: "release_movement e oid rc reason its x d = Inr d'" and p: "?P d"
      then have "set its \<subseteq> set (items d)" using its by simp
      note s = release_movement_step [OF r _ this, of "now e"]
      show "?P d'" using s p same by (simp add: untouched_def)
    qed (use inv1 same in \<open>simp add: untouched_def\<close>)
    then have P: "stock_inv (now e) db'" "items db' = items db" "untouched db1 (db'\<lparr> movements := movements db1 \<rparr>)"
      by blast+
    have "untouched db (db1\<lparr> reservations := reservations db \<rparr>)" by (subst cl(2)) (simp add: untouched_def)
    with P cl(1) show ?thesis by (simp add: untouched_def)
  qed
  then show "stock_inv (now e) db'" "items db' = items db"
    "reservations db' = update_where (open_reservation oid) (release_reservation e reason) (reservations db)"
    "untouched db (db'\<lparr> movements := movements db, reservations := reservations db \<rparr>)" by blast+
qed

definition terminated :: "env \<Rightarrow> string \<Rightarrow> order \<Rightarrow> order" where
  "terminated e reason o' =
     o'\<lparr> ord_paymentStatus := PAYMENT_CANCELLED, ord_cancelledAt := Some (now e), ord_cancellationReason := Some reason \<rparr>"

lemma terminated_simps [simp]:
  "ord_id (terminated e reason o') = ord_id o'" "ord_status (terminated e reason o') = ord_status o'"
  by (simp_all add: terminated_def)

definition gives_back :: "env \<Rightarrow> string \<Rightarrow> string \<Rightarrow> 'a shop_db_scheme \<Rightarrow> 'a shop_db_scheme \<Rightarrow> bool" where
  "gives_back e oid reason db db' =
     (stock_inv (now e) db' \<and> items db' = items db
      \<and> reservations db' = update_where (open_reservation oid) (release_reservation e reason) (reservations db)
      \<and> collections db' = update_where (\<lambda>c. col_orderId c = oid \<and> col_status c = EXPECTED)
           (\<lambda>c. c\<lparr> col_status := VOIDED \<rparr>) (collections db)
      \<and> moves oid CANCELLED (terminated e reason) db db')"

lemma order_terminate_parts:
  assumes run: "order_terminate disp e oid v reason db = Inr (r, db')" and inv: "stock_inv (now e) db"
  shows "gives_back e oid (trim reason) db db'"
proof -
  let ?rc = "if disp = disposition.REJECT then ''ADMIN_REJECTED'' else ''ADMIN_CANCELLED''"
  from run obtain o' d db1 db2 where
    o': "find_order db oid = Some o'" and
    g: "terminate_guard disp (order_operation_of db o') v = Inr d" and
    c: "release_stock e oid ?rc (trim reason) db = Inr db1" and
    m: "move_order (order_operation_of db o') d v CANCELLED (terminated e (trim reason)) (void_expected oid db1) = Inr db2" and
    l: "log_transition e (order_operation_of db o') d (termination_log disp o' ?rc (trim reason)) db2 = Inr db'"
    by (auto simp: order_terminate_def lockOrder_Inr Let_def terminated_def [abs_def])
  have oid: "ord_id o' = oid" using find_order_id [OF o'] by simp
  note eff = release_stock_effect [OF c inv] and ul = log_transition_frame [OF l]
    and um = move_order_effect(5) [OF m]
  have mv: "moves oid CANCELLED (terminated e (trim reason)) db db'"
    by (rule movesI [OF o' _ _ _ _ m ul])
      (use g eff(4) oid in \<open>auto simp: terminate_guard_def assertVersion_def Let_def untouched_def void_expected_def\<close>)
  have same: "items db' = items db1" "movements db' = movements db1" "reservations db' = reservations db1"
    using um ul by (simp_all add: untouched_def void_expected_def)
  have "stock_inv (now e) db'" using eff(1) stock_inv_cong [OF same] by blast
  moreover have "collections db' = update_where (\<lambda>c. col_orderId c = oid \<and> col_status c = EXPECTED)
      (\<lambda>c. c\<lparr> col_status := VOIDED \<rparr>) (collections db)"
    using um ul eff(4) by (simp add: untouched_def void_expected_def)
  ultimately show ?thesis using mv same eff(2,3) by (simp add: gives_back_def)
qed

section \<open>A customer's own cancellation\<close>

lemma customer_cancel_records_frame:
  assumes "customer_cancel_records e op d reason db = Inr db'"
  shows "untouched db db'"
proof -
  from assms obtain row1 h db1 row2 v db2 db3 row3 a where
    h: "create_status_history e row1 db = Inr (h, db1)" and
    v: "create_delivery_event e row2 db1 = Inr (v, db2)" and
    n: "notify_customer e op ORDER_CANCELLED_EVENT db2 = Inr db3" and
    a: "create_audit e row3 db3 = Inr (a, db')"
    by (auto simp: customer_cancel_records_def
        simp del: create_status_history_Inr create_delivery_event_Inr create_audit_Inr)
  from h have "untouched db db1" by (auto simp: untouched_def Let_def)
  also from v have "untouched db1 db2" by (auto simp: untouched_def Let_def)
  also from n have "untouched db2 db3" by (rule order_records_frame(1))
  also from a have "untouched db3 db'" by (rule create_audit_frame)
  finally show ?thesis .
qed

lemma customer_order_cancel_parts:
  assumes run: "customer_order_cancel e n v reason db = Inr (r, db')" and inv: "orders_inv (now e) db"
  obtains o' where "find_order db (ord_id o') = Some o'" and "ord_number o' = n"
    and "ord_status o' = PENDING_CONFIRMATION" and "ownedWhere db (actor e) o'" and "gives_back e (ord_id o') (trim reason) db db'"
proof -
  from run obtain op d c db1 db2 where
    l: "lockOwnedOrder db (actor e) n = Inr op" and g: "customer_cancel_guard op v = Inr (d, c)" and
    rel: "customer_release e (ord_id (op_order op)) (trim reason) db = Inr db1" and
    rows: "customer_cancel_rows e op d c v (trim reason) db1 = Inr db2" and
    rec: "customer_cancel_records e op d (trim reason) db2 = Inr db'"
    by (auto simp: customer_order_cancel_def Let_def)
  have st: "stock_inv (now e) db" and ids: "distinct (map ord_id (orders db))"
    using inv by (simp_all add: orders_inv_def in_step_def)
  from lockOwnedOrder_Inr [OF l ids] obtain o' where op: "op = order_operation_of db o'"
    and mem: "o' \<in> set (orders db)" and num: "ord_number o' = n" and own: "ownedWhere db (actor e) o'" by blast
  have o': "find_order db (ord_id o') = Some o'" using find_key [OF ids mem] by (simp add: find_order_def)
  note G = customer_cancel_guard_Inr [OF g]
  note eff = release_stock_effect [OF rel [unfolded customer_release_eq] st]
  have same1: "orders db1 = orders db" "collections db1 = collections db" "reference db1 = reference db"
    using eff(4) by (simp_all add: untouched_def)
  have "customer_is db1 (actor e) o'" using owned_customer [OF own] by (simp add: customer_is_def same1)
  then have m: "move_order op d v CANCELLED (terminated e (trim reason)) (void_expected (ord_id (op_order op)) db1) = Inr db2"
    unfolding terminated_def [abs_def]
    by (intro customer_cancel_rows_eq [OF rows]) (use mem ids G in \<open>simp_all add: op same1 order_operation_of_def\<close>)
  note um = move_order_effect(5) [OF m] and ul = customer_cancel_records_frame [OF rec]
  have mv: "moves (ord_id o') CANCELLED (terminated e (trim reason)) db db'"
    by (rule movesI [OF o' _ _ _ _ m [unfolded op] ul])
      (use G eff(4) in \<open>auto simp: op untouched_def void_expected_def canTransitionOrder_def\<close>)
  have same: "items db' = items db1" "movements db' = movements db1" "reservations db' = reservations db1"
    using um ul by (simp_all add: untouched_def void_expected_def)
  have "stock_inv (now e) db'" using eff(1) stock_inv_cong [OF same] by blast
  moreover have "collections db' = update_where (\<lambda>c. col_orderId c = ord_id o' \<and> col_status c = EXPECTED)
      (\<lambda>c. c\<lparr> col_status := VOIDED \<rparr>) (collections db)"
    using um ul same1 by (simp add: op untouched_def void_expected_def)
  ultimately have "gives_back e (ord_id o') (trim reason) db db'"
    using mv same eff(2,3) by (simp add: gives_back_def op)
  with that [OF o' num _ own] G(2) show thesis by (simp add: op)
qed

text \<open>
  What cancelling one order leaves of the database: the order is cancelled with its payment, its delivery is
  cancelled, each of its active reservations is released and each of its expected collections voided.  Every
  other order, delivery, reservation and collection, and every bucket and cart, stays as it is.
\<close>

definition cancels :: "env \<Rightarrow> string \<Rightarrow> string \<Rightarrow> 'a shop_db_scheme \<Rightarrow> 'a shop_db_scheme \<Rightarrow> bool" where
  "cancels e oid reason db db' =
     (orders db' = update_where (\<lambda>x. ord_id x = oid)
        (\<lambda>x. x\<lparr> ord_status := CANCELLED, ord_version := ord_version x + 1, ord_paymentStatus := PAYMENT_CANCELLED,
                ord_cancelledAt := Some (now e), ord_cancellationReason := Some reason \<rparr>) (orders db)
      \<and> deliveries db' = update_where (\<lambda>x. dlv_orderId x = oid)
        (\<lambda>x. x\<lparr> dlv_status := CANCELLED, dlv_version := dlv_version x + 1 \<rparr>) (deliveries db)
      \<and> reservations db' = update_where (\<lambda>x. res_orderId x = Some oid \<and> res_state x = RS_ACTIVE)
        (\<lambda>x. x\<lparr> res_state := RS_RELEASED, res_activeKey := None, res_releasedAt := Some (now e),
                res_releaseReason := Some reason \<rparr>) (reservations db)
      \<and> collections db' = update_where (\<lambda>x. col_orderId x = oid \<and> col_status x = EXPECTED)
        (\<lambda>x. x\<lparr> col_status := VOIDED \<rparr>) (collections db)
      \<and> items db' = items db \<and> carts db' = carts db)"

lemma update_where_one:
  assumes "distinct (map k t)" and "r \<in> set t" and "P r" and "\<And>x. P x \<Longrightarrow> k x = k r" and "\<And>x. x \<in> set t \<Longrightarrow> Q x = (k x = k r)"
  shows "update_where P f t = update_where Q f t"
proof -
  have "P x = Q x" if x: "x \<in> set t" for x
    using assms(3,4) assms(5) [OF x] key_unique [OF assms(1) x assms(2)] by blast
  then show ?thesis by (auto simp: update_where_def)
qed

lemma given_back_cancels:
  assumes g: "gives_back e oid reason db db'" and st: "in_step db"
  shows "cancels e oid reason db db'"
proof -
  from g have m: "moves oid CANCELLED (terminated e reason) db db'" by (simp add: gives_back_def)
  from m obtain o' d v where o': "find_order db oid = Some o'" and d: "order_delivery db oid = Some d"
    and v: "ord_version o' = v" and
    os: "orders db' = update_where (hits_order (order_operation_of db o') v)
             (\<lambda>x. terminated e reason (x\<lparr> ord_status := CANCELLED, ord_version := ord_version x + 1 \<rparr>)) (orders db)" and
    ds: "deliveries db' = update_where (hits_delivery d)
             (\<lambda>x. x\<lparr> dlv_status := CANCELLED, dlv_version := dlv_version x + 1 \<rparr>) (deliveries db)" and
    cs: "carts db' = carts db"
    unfolding moves_def by blast
  note oid = find_order_id [OF o'] and did = order_delivery_id [OF d]
  have "update_where (hits_order (order_operation_of db o') v) f (orders db) = update_where (\<lambda>x. ord_id x = oid) f (orders db)" for f
    by (rule update_where_one [of ord_id _ o'])
      (use st oid v in \<open>simp_all add: in_step_def hits_order_def order_operation_of_def\<close>)
  moreover have "update_where (hits_delivery d) f (deliveries db) = update_where (\<lambda>x. dlv_orderId x = oid) f (deliveries db)" for f
  proof (rule update_where_one [of dlv_id _ d])
    fix x assume x: "x \<in> set (deliveries db)"
    have "distinct (map dlv_orderId (deliveries db))" "distinct (map dlv_id (deliveries db))" using st by (simp_all add: in_step_def)
    with key_unique [OF _ x, of dlv_orderId d] key_unique [OF _ x, of dlv_id d] did
    show "(dlv_orderId x = oid) = (dlv_id x = dlv_id d)" by auto
  qed (use st did in \<open>simp_all add: in_step_def hits_delivery_def\<close>)
  ultimately show ?thesis
    using g cs unfolding gives_back_def cancels_def os ds
    by (simp add: terminated_def open_reservation_def [abs_def] release_reservation_def [abs_def])
qed

section \<open>The other handlers\<close>

lemma transitionIntake_parts:
  assumes run: "transitionIntake e oid v a b c d' rc ev db = Inr (r, db')" and "b = d'"
  shows "moves oid b (\<lambda>o'. o') db db'" and "untouched db (db'\<lparr> orders := orders db, deliveries := deliveries db \<rparr>)"
proof -
  from run obtain o' d db1 t where
    o': "find_order db oid = Some o'" and d: "order_delivery db (ord_id o') = Some d"
    and v: "ord_version o' = v" and t: "canTransitionOrder (ord_status o') b"
    and m: "move_order (order_operation_of db o') d v b (\<lambda>o'. o') db = Inr db1"
    and l: "log_transition e (order_operation_of db o') d t db1 = Inr db'"
    by (auto simp: transitionIntake_def lockOrder_Inr assertVersion_def)
  note oid = find_order_id [OF o'] and ul = log_transition_frame [OF l] and um = move_order_effect(5) [OF m]
  show "moves oid b (\<lambda>o'. o') db db'"
    by (rule movesI [OF o' _ v t _ m ul]) (use d oid in \<open>simp_all add: untouched_def\<close>)
  show "untouched db (db'\<lparr> orders := orders db, deliveries := deliveries db \<rparr>)"
    using um ul by (simp add: untouched_def)
qed

lemma notes_frame:
  "recordContactAttempt e oid i db = Inr (cr, db') \<Longrightarrow> untouched db db'"
  "addNote e oid vis body db = Inr (n, db') \<Longrightarrow> untouched db db'"
  "getSlip e oid db = Inr (s, db') \<Longrightarrow> untouched db db'"
  by (auto simp: recordContactAttempt_def addNote_def getSlip_def untouched_def Let_def)

text \<open>One request to the order administration, a checkout, or a customer's cancellation.\<close>

inductive order_step :: "env \<Rightarrow> 'a shop_db_scheme \<Rightarrow> 'a shop_db_scheme \<Rightarrow> bool" for e where
  confirmed: "order_confirm e oid v db = Inr (r, db') \<Longrightarrow> order_step e db db'"
| terminated: "order_terminate disp e oid v reason db = Inr (r, db') \<Longrightarrow> order_step e db db'"
| prepared: "order_prepare e oid v db = Inr (r, db') \<Longrightarrow> order_step e db db'"
| ready: "order_readyForPickup e oid v db = Inr (r, db') \<Longrightarrow> order_step e db db'"
| contacted: "recordContactAttempt e oid i db = Inr (cr, db') \<Longrightarrow> order_step e db db'"
| noted: "addNote e oid vis body db = Inr (n, db') \<Longrightarrow> order_step e db db'"
| slip: "getSlip e oid db = Inr (s, db') \<Longrightarrow> order_step e db db'"
| checked_out: "checkout_create aborted cfg e input hdr u db = Inr (cor, db')
    \<Longrightarrow> list_all (\<lambda>l. 0 < ol_quantity l) (ci_items input) \<Longrightarrow> order_step e db db'"
| withdrawn: "customer_order_cancel e n v reason db = Inr (cd, db') \<Longrightarrow> order_step e db db'"

inductive_cases order_stepE: "order_step e db db'"

section \<open>What every step keeps\<close>

lemma opens_in_step:
  assumes "in_step db" and "orders db' = orders db @ [o']" and "ord_id o' \<notin> ord_id ` set (orders db)"
    and "ord_status o' = PENDING_CONFIRMATION" and "opens_delivery o' (deliveries db) (deliveries db')"
  shows "in_step db'"
proof -
  from assms(5) obtain d where d: "deliveries db' = deliveries db @ [d]" "dlv_orderId d = ord_id o'"
    "dlv_status d = PENDING_CONFIRMATION" "dlv_id d \<notin> dlv_id ` set (deliveries db)"
    "ord_id o' \<notin> dlv_orderId ` set (deliveries db)" by (auto simp: opens_delivery_def)
  have "dlv_orderId y \<noteq> ord_id o'" if "y \<in> set (deliveries db)" for y using d(5) that by (metis imageI)
  moreover have "ord_id x \<noteq> ord_id o'" if "x \<in> set (orders db)" for x using assms(3) that by (metis imageI)
  ultimately show ?thesis
    using assms(1-4) d unfolding in_step_def by auto
qed

lemma moves_keeps:
  assumes "moves oid target f db db'" and "in_step db" and "stock_inv t db'"
    and "\<And>x. ord_id (f x) = ord_id x" "\<And>x. ord_status (f x) = ord_status x"
  shows "orders_inv t db' \<and> orders_progress (orders db) (orders db')"
  using moves_effect [OF assms(1,4,5)] assms(2,3) by (simp add: orders_inv_def)

lemma untouched_keeps:
  assumes "untouched db db'" and "orders_inv t db"
  shows "orders_inv t db' \<and> orders_progress (orders db) (orders db')"
proof -
  have "items db' = items db" "movements db' = movements db" "reservations db' = reservations db"
    "orders db' = orders db" using assms(1) by (simp_all add: untouched_def)
  then show ?thesis
    using assms in_step_untouched [OF assms(1)] stock_inv_cong [of db' db t] by (simp add: orders_inv_def)
qed

lemma transitionIntake_keeps:
  assumes "transitionIntake e oid v a b c b rc ev db = Inr (r, db')" and "orders_inv t db"
  shows "orders_inv t db' \<and> orders_progress (orders db) (orders db')"
proof -
  note p = transitionIntake_parts [OF assms(1) refl]
  have "items db' = items db" "movements db' = movements db" "reservations db' = reservations db"
    using p(2) by (simp_all add: untouched_def)
  from stock_inv_cong [OF this, of t] show ?thesis
    by (intro moves_keeps [OF p(1)]) (use assms(2) in \<open>simp_all add: orders_inv_def\<close>)
qed

lemma checkout_keeps:
  assumes "checkout_create aborted cfg e input hdr u db = Inr (r, db')"
    and "list_all (\<lambda>l. 0 < ol_quantity l) (ci_items input)" and inv: "orders_inv (now e) db"
  shows "orders_inv (now e) db' \<and> orders_progress (orders db) (orders db')"
proof -
  have "stock_inv (now e) db" using inv by (simp add: orders_inv_def)
  with assms(1) show ?thesis using assms(2)
  proof (cases rule: checkout_create_cases)
    case replay
    then show ?thesis using inv by simp
  next
    case (new o' cart claim cs)
    from new(2) have n: "orders db' = orders db @ [o']" "ord_id o' \<notin> ord_id ` set (orders db)"
      "ord_status o' = PENDING_CONFIRMATION" "opens_delivery o' (deliveries db) (deliveries db')"
      "stock_inv (now e) db'" by (simp_all add: new_order_def)
    have "in_step db'" using inv by (intro opens_in_step [OF _ n(1-4)]) (simp add: orders_inv_def)
    with n(1,5) show ?thesis by (simp add: orders_inv_def orders_progress_append)
  qed
qed

lemma order_step_keeps:
  assumes "order_step e db db'" and inv: "orders_inv (now e) db"
  shows "orders_inv (now e) db' \<and> orders_progress (orders db) (orders db')"
  using assms(1)
proof cases
  case (confirmed oid v r)
  then obtain s: "stock_inv (now e) db'" and m: "moves oid CONFIRMED (\<lambda>o'. o'\<lparr> ord_confirmedAt := Some (now e) \<rparr>) db db'"
    using inv order_confirm_stock [of e oid v db r db'] order_confirm_parts [of e oid v db r db']
    by (auto simp: orders_inv_def stock_consumed_def)
  then show ?thesis using inv by (intro moves_keeps [OF m]) (simp_all add: orders_inv_def)
next
  case (terminated disp oid v reason r)
  have "stock_inv (now e) db" using inv by (simp add: orders_inv_def)
  note g = order_terminate_parts [OF terminated this, unfolded gives_back_def]
  then have m: "moves oid CANCELLED (terminated e (trim reason)) db db'" and s: "stock_inv (now e) db'" by blast+
  from moves_keeps [OF m _ s] show ?thesis using inv by (simp add: orders_inv_def)
next
  case prepared
  then show ?thesis unfolding order_prepare_def by (rule transitionIntake_keeps [OF _ inv])
next
  case ready
  then show ?thesis unfolding order_readyForPickup_def by (rule transitionIntake_keeps [OF _ inv])
next
  case contacted
  then show ?thesis by (intro untouched_keeps [OF _ inv] notes_frame)
next
  case noted
  then show ?thesis by (intro untouched_keeps [OF _ inv] notes_frame)
next
  case slip
  then show ?thesis by (intro untouched_keeps [OF _ inv] notes_frame)
next
  case checked_out
  then show ?thesis by (rule checkout_keeps [OF _ _ inv])
next
  case (withdrawn n v reason cd)
  then show ?thesis
  proof (rule customer_order_cancel_parts [OF _ inv])
    fix o' assume "gives_back e (ord_id o') (trim reason) db db'"
    then have m: "moves (ord_id o') CANCELLED (terminated e (trim reason)) db db'" and s: "stock_inv (now e) db'"
      unfolding gives_back_def by blast+
    from moves_keeps [OF m _ s] show ?thesis using inv by (simp add: orders_inv_def)
  qed
qed

section \<open>Properties\<close>

text \<open>Property C5 (confirm_consumes_reserved_stock): confirming an order takes from the physical stock
  of every bucket exactly what was reserved there for this order, leaves the availability of every
  bucket as it was, closes all the order's reservations and keeps the stock invariant.\<close>

theorem confirm_consumes_reserved_stock:
  assumes "order_confirm e oid v db = Inr (r, db')" and "stock_inv (now e) db"
  shows "stock_inv (now e) db'
    \<and> map item_onHand (items db') = map (\<lambda>i. item_onHand i - held db oid (item_id i)) (items db)
    \<and> map (available (now e) db') (items db') = map (available (now e) db) (items db)
    \<and> \<not> list_ex (open_reservation oid) (reservations db')"
proof -
  note c = order_confirm_stock [OF assms]
  have "reservations db' = update_where (open_reservation oid) (consume_reservation e) (reservations db)"
    using c by (simp add: stock_consumed_def)
  then have "\<not> list_ex (open_reservation oid) (reservations db')"
    using no_open_after [of "consume_reservation e" oid "reservations db"] by simp
  then show ?thesis using c consumed_available [OF c] unfolding stock_consumed_def by blast
qed

lemma confirm_consumes_reserved_stock_witness:
  "\<exists>r db. order_confirm shop_env ''o1'' 1 placed_shop = Inr (r, db)
     \<and> map item_onHand (items db) = [1, 3] \<and> \<not> list_ex (open_reservation ''o1'') (reservations db)"
proof -
  from placed_shop_confirmed obtain r db where c: "order_confirm shop_env ''o1'' 1 placed_shop = Inr (r, db)"
    by (auto split: sum.splits)
  note p = confirm_consumes_reserved_stock [OF c placed_shop_stock]
  from p have "map item_onHand (items db) = [1, 3]"
    using placed_shop_held [folded held_def] by metis
  then show ?thesis by (intro exI [of _ r] exI [of _ db]) (use c p in simp)
qed

text \<open>Property C7 (terminate_gives_back): cancelling or rejecting an order releases exactly the active
  reservations of that order and voids exactly its expected collections, cancels the order with its payment and
  its delivery, and touches no other order, delivery, reservation or collection, no bucket and no cart; so
  the stock keeps its contract.\<close>

theorem terminate_gives_back:
  assumes "order_terminate disp e oid v reason db = Inr (r, db')" and "stock_inv (now e) db" and "in_step db"
  shows "cancels e oid (trim reason) db db' \<and> stock_inv (now e) db'
    \<and> (\<exists>o'. find_order db oid = Some o' \<and> ord_version o' = v
        \<and> ord_status o' \<in> (if disp = disposition.REJECT then {PENDING_CONFIRMATION} else EARLY_CANCELLATION_STATUSES))"
proof -
  note g = order_terminate_parts [OF assms(1,2)]
  from assms(1) obtain o' d where o': "find_order db oid = Some o'"
    and d: "terminate_guard disp (order_operation_of db o') v = Inr d" by (auto simp: order_terminate_def lockOrder_Inr Let_def)
  from d have "ord_version o' = v
      \<and> ord_status o' \<in> (if disp = disposition.REJECT then {PENDING_CONFIRMATION} else EARLY_CANCELLATION_STATUSES)"
    by (auto simp: terminate_guard_def assertVersion_def Let_def order_operation_of_def split: if_splits)
  with o' given_back_cancels [OF g assms(3)] g show ?thesis by (auto simp: gives_back_def)
qed

lemma terminate_gives_back_witness:
  "\<exists>r db. order_terminate CANCEL shop_env ''o1'' 1 ''changed'' placed_shop = Inr (r, db)
     \<and> cancels shop_env ''o1'' ''changed'' placed_shop db"
proof -
  from placed_shop_cancelled obtain r db where
    c: "order_terminate CANCEL shop_env ''o1'' 1 ''changed'' placed_shop = Inr (r, db)"
    by (auto split: sum.splits)
  have "in_step placed_shop"
    by (simp add: in_step_def placed_shop_def demo_shop_def empty_shop_def placed_order_def placed_delivery_def)
  have t: "trim ''changed'' = ''changed''" by code_simp
  from terminate_gives_back [OF c placed_shop_stock \<open>in_step placed_shop\<close>] c show ?thesis unfolding t by blast
qed

text \<open>Property C8 (customer_cancels_own_order): a customer can only cancel an order of their own that is not
  yet confirmed; exactly its active reservations are released and its expected collections voided, the order and its
  delivery are cancelled, and no other order, delivery, reservation or collection, no bucket and no cart is touched.\<close>

theorem customer_cancels_own_order:
  assumes "customer_order_cancel e n v reason db = Inr (r, db')" and "stock_inv (now e) db" and "in_step db"
  shows "\<exists>o'. find_order db (ord_id o') = Some o' \<and> ord_number o' = n \<and> ownedWhere db (actor e) o'
    \<and> ord_status o' = PENDING_CONFIRMATION \<and> cancels e (ord_id o') (trim reason) db db' \<and> stock_inv (now e) db'"
proof (rule customer_order_cancel_parts [OF assms(1)])
  show "orders_inv (now e) db" using assms(2,3) by (simp add: orders_inv_def)
  fix o' assume o': "find_order db (ord_id o') = Some o'" "ord_number o' = n" "ord_status o' = PENDING_CONFIRMATION"
    "ownedWhere db (actor e) o'" and g: "gives_back e (ord_id o') (trim reason) db db'"
  from g have "stock_inv (now e) db'" by (simp add: gives_back_def)
  with o' given_back_cancels [OF g assms(3)] show ?thesis by blast
qed

definition customers_shop :: shop_db where
  "customers_shop = placed_shop\<lparr> orders := [placed_order\<lparr> ord_customerId := Some ''cus1'' \<rparr>] \<rparr>"

text \<open>One evaluation, taken apart below.\<close>

lemma customers_shop_evaluated:
  "stock_inv (now shop_env) customers_shop
   \<and> in_step customers_shop
   \<and> (case customer_order_cancel shop_env ''TV-1'' 1 ''changed my mind'' customers_shop of Inr (r, db) \<Rightarrow> True | Inl x \<Rightarrow> False)"
  by code_simp

lemma customers_shop_ok: "stock_inv (now shop_env) customers_shop" "in_step customers_shop"
  using customers_shop_evaluated by - (elim conjE, assumption)+

lemma customers_shop_cancelled:
  "case customer_order_cancel shop_env ''TV-1'' 1 ''changed my mind'' customers_shop of Inr (r, db) \<Rightarrow> True | Inl x \<Rightarrow> False"
  using customers_shop_evaluated by (elim conjE)

lemma customer_cancels_own_order_witness:
  "\<exists>r db. customer_order_cancel shop_env ''TV-1'' 1 ''changed my mind'' customers_shop = Inr (r, db)
     \<and> cancels shop_env ''o1'' (trim ''changed my mind'') customers_shop db"
proof -
  from customers_shop_cancelled obtain r db where
    c: "customer_order_cancel shop_env ''TV-1'' 1 ''changed my mind'' customers_shop = Inr (r, db)"
    by (auto split: sum.splits)
  from customer_cancels_own_order [OF c customers_shop_ok] obtain o' where
    o': "find_order customers_shop (ord_id o') = Some o'"
    and x: "cancels shop_env (ord_id o') (trim ''changed my mind'') customers_shop db" by blast
  have "ord_id o' = ''o1''" using find_order_id [OF o'] by (simp add: customers_shop_def placed_order_def)
  with c x show ?thesis by (intro exI [of _ r] exI [of _ db]) simp
qed

end
