(* ===== verification/CashProofs.thy ===== *)
theory CashProofs
  imports Cash Contracts OrdersProofs
begin

text \<open>
  What \<open>cash/admin-cash.service.ts\<close> keeps: no collection is ever allocated more than it is worth, the
  items of a remittance add up to what was declared, a verified remittance was received by one
  administrator and verified by another, and recording a collection twice records it once.
\<close>

section \<open>The worth of a collection\<close>

lemma accountable_status [simp]:
  "accountableCollectionMillimes (c\<lparr> col_status := s \<rparr>) d = accountableCollectionMillimes c d"
  by (cases d) (simp_all add: accountableCollectionMillimes_def discrepancy_linked_def)

definition settled_statuses :: "collection_status set" where
  "settled_statuses = {COLLECTED, PARTIALLY_COLLECTED, REMITTED}"

definition disc_of :: "discrepancy list \<Rightarrow> string \<Rightarrow> discrepancy option" where
  "disc_of ds cid = List.find (\<lambda>d. dc_collectionId d = Some cid) ds"

lemma collection_discrepancy_of: "collection_discrepancy db = disc_of (discrepancies db)"
  by (rule ext) (simp add: collection_discrepancy_def disc_of_def)

definition has_items :: "remittance_item list \<Rightarrow> string \<Rightarrow> bool" where
  "has_items its cid = list_ex (\<lambda>i. ri_collectionId i = cid) its"

text \<open>A collection that is allocated at all has been collected, and is not allocated beyond its worth.\<close>

definition balance_ok :: "discrepancy list \<Rightarrow> remittance_item list \<Rightarrow> collection \<Rightarrow> bool" where
  "balance_ok ds its c =
     (\<not> has_items its (col_id c)
      \<or> (col_status c \<in> settled_statuses
         \<and> (case accountableCollectionMillimes c (disc_of ds (col_id c)) of
              Inl _ \<Rightarrow> False | Inr a \<Rightarrow> allocated_amount its (col_id c) \<le> a)))"

text \<open>A remittance adds up; from its submission on it has a receiver, and its verifier is someone else.\<close>

definition remittance_ok :: "remittance_item list \<Rightarrow> remittance \<Rightarrow> bool" where
  "remittance_ok its r =
     (sum_by ri_amountMillimes (filter (\<lambda>i. ri_remittanceId i = rm_id r) its) = rm_declaredMillimes r
      \<and> (rm_status r \<in> {RM_SUBMITTED, RM_DISCREPANCY, RM_VERIFIED} \<longrightarrow> rm_receivedByUserId r \<noteq> None)
      \<and> (rm_status r = RM_VERIFIED \<longrightarrow>
           rm_verifiedByUserId r \<noteq> None \<and> rm_verifiedByUserId r \<noteq> rm_receivedByUserId r
           \<and> rm_verifiedMillimes r = Some (rm_declaredMillimes r) \<and> rm_differenceMillimes r = Some 0))"

definition cash_tables ::
  "collection list \<Rightarrow> discrepancy list \<Rightarrow> remittance list \<Rightarrow> remittance_item list \<Rightarrow> bool" where
  "cash_tables cs ds rs its =
     (distinct (map col_id cs) \<and> distinct (map dc_id ds) \<and> distinct (map rm_id rs)
      \<and> list_all (balance_ok ds its) cs \<and> list_all (remittance_ok its) rs
      \<and> list_all (\<lambda>i. 0 < ri_amountMillimes i \<and> ri_remittanceId i \<in> rm_id ` set rs) its)"

definition cash_inv :: "'a cash_db_scheme \<Rightarrow> bool" where
  "cash_inv db = cash_tables (collections db) (discrepancies db) (remittances db) (remittance_items db)"

section \<open>How the tables change\<close>

lemma balance_ok_status:
  "balance_ok ds its c \<Longrightarrow> s \<in> settled_statuses \<Longrightarrow> balance_ok ds its (c\<lparr> col_status := s \<rparr>)"
  by (auto simp: balance_ok_def split: sum.splits)

lemma tables_status:
  assumes "cash_tables cs ds rs its" and "s \<in> settled_statuses"
  shows "cash_tables (update_where P (\<lambda>c. c\<lparr> col_status := s \<rparr>) cs) ds rs its"
  using assms by (auto simp: cash_tables_def list_all_iff set_update_where map_update_where balance_ok_status)

lemma tables_record:
  assumes "cash_tables cs ds rs its"
    and "\<And>c. c \<in> set cs \<Longrightarrow> P c \<Longrightarrow> \<not> has_items its (col_id c)" and "\<And>c. col_id (f c) = col_id c"
  shows "cash_tables (update_where P f cs) ds rs its"
  using assms by (auto simp: cash_tables_def list_all_iff set_update_where map_update_where balance_ok_def)

lemma tables_new_discrepancy:
  assumes "cash_tables cs ds rs its" and "dc_id d \<notin> dc_id ` set ds"
    and "\<And>cid. dc_collectionId d = Some cid \<Longrightarrow> \<not> has_items its cid"
  shows "cash_tables cs (ds @ [d]) rs its"
proof -
  have "balance_ok (ds @ [d]) its c" if "balance_ok ds its c" for c
  proof (cases "has_items its (col_id c)")
    case True
    then have "dc_collectionId d \<noteq> Some (col_id c)" using assms(3) by blast
    then have "disc_of (ds @ [d]) (col_id c) = disc_of ds (col_id c)"
      by (simp add: disc_of_def find_snoc split: option.splits)
    with that show ?thesis by (simp add: balance_ok_def)
  qed (simp add: balance_ok_def)
  then show ?thesis
    using assms(1,2) by (auto simp: cash_tables_def list_all_iff)
qed

lemma tables_close_discrepancy:
  assumes t: "cash_tables cs ds rs its" and d: "d \<in> set ds"
    and P: "\<And>x. P x \<Longrightarrow> dc_id x = dc_id d"
    and f: "\<And>x. dc_id (f x) = dc_id x" "\<And>x. dc_collectionId (f x) = dc_collectionId x"
    and free: "\<And>cid. dc_collectionId d = Some cid \<Longrightarrow> \<not> has_items its cid"
  shows "cash_tables cs (update_where P f ds) rs its"
proof -
  have "balance_ok (update_where P f ds) its c" if "balance_ok ds its c" for c
  proof (cases "has_items its (col_id c)")
    case True
    have "\<not> P x" if "x \<in> set ds" "dc_collectionId x = Some (col_id c)" for x
      using key_unique [of dc_id ds x d] t d P [of x] that free True by (auto simp: cash_tables_def)
    then have "disc_of (update_where P f ds) (col_id c) = disc_of ds (col_id c)"
      using find_SomeD [of _ ds] unfolding disc_of_def
      by (subst find_update_where) (auto simp: f split: option.splits, cases "disc_of ds (col_id c)", auto simp: disc_of_def)
    with that show ?thesis by (simp add: balance_ok_def)
  qed (simp add: balance_ok_def)
  then show ?thesis
    using t f by (auto simp: cash_tables_def list_all_iff map_update_where)
qed

lemma tables_remittance:
  assumes "cash_tables cs ds rs its" and "\<And>r. rm_id (f r) = rm_id r"
    and "\<And>r. r \<in> set rs \<Longrightarrow> P r \<Longrightarrow> remittance_ok its r \<Longrightarrow> remittance_ok its (f r)"
  shows "cash_tables cs ds (update_where P f rs) its"
proof -
  have "map rm_id (update_where P f rs) = map rm_id rs" by (rule map_update_where) (rule assms(2))
  moreover from this have "rm_id ` set (update_where P f rs) = rm_id ` set rs" by (metis list.set_map)
  ultimately show ?thesis
    using assms by (auto simp: cash_tables_def list_all_iff set_update_where)
qed

section \<open>The handlers on the tables\<close>

abbreviation same_cash :: "'a cash_db_scheme \<Rightarrow> 'a cash_db_scheme \<Rightarrow> bool" where
  "same_cash db db' \<equiv> collections db' = collections db \<and> discrepancies db' = discrepancies db
     \<and> remittances db' = remittances db \<and> remittance_items db' = remittance_items db"

lemma cash_inv_cong: "same_cash db db' \<Longrightarrow> cash_inv db' = cash_inv db"
  by (simp add: cash_inv_def)

lemma find_collection_id: "find_collection db cid = Some c \<Longrightarrow> col_id c = cid \<and> c \<in> set (collections db)"
  using find_SomeD [of _ "collections db" c] by (auto simp: find_collection_def)

lemma lockCollection_id:
  "lockCollection db cid = Inr op \<Longrightarrow> col_id (co_collection op) = cid \<and> co_collection op \<in> set (collections db)"
  by (auto simp: lockCollection_def dest: find_collection_id)

lemma cash_invD:
  assumes "cash_inv db"
  shows "c \<in> set (collections db) \<Longrightarrow> balance_ok (discrepancies db) (remittance_items db) c"
    and "r \<in> set (remittances db) \<Longrightarrow> remittance_ok (remittance_items db) r"
    and "distinct (map col_id (collections db))" and "distinct (map rm_id (remittances db))"
    and "distinct (map dc_id (discrepancies db))"
  using assms by (auto simp: cash_inv_def cash_tables_def list_all_iff)

text \<open>Money not yet collected is not allocated.\<close>

lemma expected_free:
  "cash_inv db \<Longrightarrow> c \<in> set (collections db) \<Longrightarrow> col_status c = EXPECTED \<Longrightarrow> \<not> has_items (remittance_items db) (col_id c)"
  using cash_invD(1) [of db c] by (simp add: balance_ok_def settled_statuses_def)

lemma recordCollection_tx_inv:
  assumes run: "recordCollection_tx e cid i kh rh db = Inr (v, db')" and inv: "cash_inv db"
  shows "cash_inv db'"
proof -
  from run obtain op replay where op: "lockCollection db cid = Inr op"
    and rep: "collection_replay (co_collection op) kh rh = Inr replay"
    by (auto simp: recordCollection_tx_def)
  show ?thesis
  proof (cases replay)
    case True
    with run op rep show ?thesis using inv by (auto simp: recordCollection_tx_def)
  next
    case False
    with run op rep obtain d u difference target db1 db2 where
      st: "collection_states op d = Inr u" and
      w: "write_collection e op d i difference target kh rh db = Inr db1" and
      ev: "record_collection_events e op i difference db1 = Inr db2" and
      fin: "same_cash db2 db'"
      by (auto simp: recordCollection_tx_def Let_def)
    note c = lockCollection_id [OF op]
    have exp: "col_status (co_collection op) = EXPECTED" using st by (simp add: collection_states_def Let_def)
    have free: "\<not> has_items (remittance_items db) cid" using expected_free [OF inv _ exp] c by simp
    have 1: "cash_inv db1"
      using w inv free c unfolding cash_inv_def
      by (auto simp: write_collection_def Let_def collected_row_def intro!: tables_record)
    have "cash_inv db2"
      using ev 1 free c w unfolding cash_inv_def
      by (auto simp: record_collection_events_def Let_def write_collection_def
          intro!: tables_new_discrepancy split: if_splits)
    with fin show ?thesis using cash_inv_cong by blast
  qed
qed

lemma set_remittance_inv:
  assumes "set_remittance rid s f x db = Inr db'" and "cash_inv db" and "\<And>r. rm_id (f r) = rm_id r"
    and "\<And>r. \<lbrakk>r \<in> set (remittances db); rm_id r = rid; rm_status r = s; remittance_ok (remittance_items db) r\<rbrakk>
          \<Longrightarrow> remittance_ok (remittance_items db) (f r)"
  shows "cash_inv db'"
  using assms unfolding cash_inv_def by (auto simp: set_remittance_def Let_def intro!: tables_remittance)

lemma submitRemittance_inv:
  assumes run: "submitRemittance e rid db = Inr (v, db')" and inv: "cash_inv db"
  shows "cash_inv db'"
proof -
  from run obtain db1 where s: "set_remittance rid RM_DRAFT
       (\<lambda>x. x\<lparr> rm_status := RM_SUBMITTED, rm_submittedAt := Some (now e), rm_remittedAt := Some (now e),
              rm_receivedByUserId := Some (actor e) \<rparr>) (conflict ''REMITTANCE_SUBMISSION_NOT_ALLOWED'') db = Inr db1"
    and same: "same_cash db1 db'"
    by (auto simp: submitRemittance_def Let_def)
  have "cash_inv db1" by (rule set_remittance_inv [OF s inv]) (simp_all add: remittance_ok_def)
  then show ?thesis using cash_inv_cong [OF same] by simp
qed

text \<open>Remitting collections and orders only changes statuses.\<close>

lemma remit_collection_inv:
  assumes "remit_collection amount_of disc c db = Inr db'" and "cash_inv db"
  shows "cash_inv db' \<and> discrepancies db' = discrepancies db \<and> remittances db' = remittances db
    \<and> remittance_items db' = remittance_items db"
  using assms unfolding cash_inv_def
  by (auto simp: remit_collection_def Let_def settled_statuses_def split: if_splits intro!: tables_status)

lemma remit_order_same: "remit_order o' db = Inr db' \<Longrightarrow> same_cash db db'"
  by (auto simp: remit_order_def Let_def split: if_splits)

lemma flag_order_same: "flag_order o' db = Inr db' \<Longrightarrow> same_cash db db'"
  by (auto simp: flag_order_def Let_def)

lemma applyVerifiedAllocations_inv:
  assumes run: "applyVerifiedAllocations rid cs db = Inr db'" and inv: "cash_inv db"
  shows "cash_inv db' \<and> discrepancies db' = discrepancies db \<and> remittances db' = remittances db
    \<and> remittance_items db' = remittance_items db"
proof -
  from run obtain os db1 where
    c: "foldE (remit_collection (allocated_amount (counted_items db rid)) (collection_discrepancy db)) cs db = Inr db1"
    and o': "foldE remit_order os db1 = Inr db'"
    by (auto simp: applyVerifiedAllocations_def)
  let ?P = "\<lambda>d. cash_inv d \<and> discrepancies d = discrepancies db \<and> remittances d = remittances db
    \<and> remittance_items d = remittance_items db"
  have "?P db1" by (rule foldE_inv [OF c, of ?P]) (use inv in \<open>auto dest: remit_collection_inv\<close>)
  moreover have "same_cash db1 db'"
    by (rule foldE_inv [OF o', of "same_cash db1"]) (auto dest: remit_order_same)
  ultimately show ?thesis using cash_inv_cong [of db1 db'] by simp
qed

lemma assertIndependentActor_Inr:
  "assertIndependentActor m a = Inr u \<Longrightarrow> \<exists>w. m = Some w \<and> w \<noteq> a"
  by (auto simp: assertIndependentActor_def or_null_def split: option.splits if_splits)

lemma find_remittance_row:
  assumes "find_remittance db rid = Some r" and "distinct (map rm_id (remittances db))"
    and "x \<in> set (remittances db)" and "rm_id x = rid"
  shows "x = r" and "rm_id r = rid"
proof -
  note f = find_SomeD [OF assms(1) [unfolded find_remittance_def]]
  then show "rm_id r = rid" by simp
  show "x = r" by (rule key_unique [OF assms(2,3)]) (use f assms(4) in simp_all)
qed

lemma reconcile_guard_Inr:
  assumes "reconcile_guard e db r cs i = Inr (difference, target)"
  shows "difference = ri_verifiedMillimes i - rm_declaredMillimes r"
    and "target = (if difference = 0 then RM_VERIFIED else RM_DISCREPANCY)"
    and "\<exists>w. rm_receivedByUserId r = Some w \<and> w \<noteq> actor e"
  using assms by (auto simp: reconcile_guard_def Let_def dest: assertIndependentActor_Inr split: if_splits)

lemma open_remittance_discrepancy_inv:
  assumes run: "open_remittance_discrepancy e r cs i difference db = Inr db'" and inv: "cash_inv db"
  shows "cash_inv db'"
proof -
  from run obtain d db1 ev v db2 os where
    d: "create_discrepancy e
       \<lparr> dc_id = [], dc_remittanceId = Some (rm_id r), dc_collectionId = None, dc_orderId = None, dc_status = DC_OPEN,
         dc_expectedMillimes = rm_declaredMillimes r, dc_actualMillimes = ri_verifiedMillimes i,
         dc_differenceMillimes = difference, dc_reasonCode = map_option trim (ri_reasonCode i),
         dc_reasonDetail = map_option trim (ri_reasonDetail i), dc_openedByUserId = actor e,
         dc_resolvedByUserId = None, dc_resolvedAt = None \<rparr> db = Inr (d, db1)"
    and ev: "create_reconciliation_event e ev db1 = Inr (v, db2)"
    and os: "foldE flag_order os db2 = Inr db'"
    by (auto simp: open_remittance_discrepancy_def simp del: create_discrepancy_Inr create_reconciliation_event_Inr)
  have "cash_inv db1"
    using d inv unfolding cash_inv_def by (auto simp: Let_def intro!: tables_new_discrepancy)
  moreover have "same_cash db1 db2" using ev by (auto simp: Let_def)
  moreover have "same_cash db2 db'"
    by (rule foldE_inv [OF os, of "same_cash db2"]) (auto dest: flag_order_same)
  ultimately show ?thesis using cash_inv_cong [of db1 db'] by simp
qed

lemma reconcileRemittance_inv:
  assumes run: "reconcileRemittance e rid i db = Inr (v, db')" and inv: "cash_inv db"
  shows "cash_inv db'"
proof -
  from run obtain r cs difference target db1 db2 where
    r: "find_remittance db rid = Some r" and
    g: "reconcile_guard e db r cs i = Inr (difference, target)" and
    s: "set_remittance rid RM_SUBMITTED
       (\<lambda>x. x\<lparr> rm_status := target, rm_verifiedMillimes := Some (ri_verifiedMillimes i),
              rm_differenceMillimes := Some difference, rm_verifiedByUserId := Some (actor e),
              rm_verifiedAt := Some (now e) \<rparr>) (conflict ''REMITTANCE_RECONCILIATION_NOT_ALLOWED'') db = Inr db1" and
    b: "(if difference = 0 then
              bindE (applyVerifiedAllocations rid cs db1) (\<lambda>d1.
              bindE (create_reconciliation_event e
                (cash_event e (Some rid) None REMITTANCE_VERIFIED (ri_verifiedMillimes i) JNull) d1) (\<lambda>(_, d2). Inr d2))
            else open_remittance_discrepancy e r cs i difference db1) = Inr db2" and
    same: "same_cash db2 db'"
    by (auto simp: reconcileRemittance_def lockRemittance_def Let_def)
  have 1: "cash_inv db1"
  proof (rule set_remittance_inv [OF s inv])
    fix x assume x: "x \<in> set (remittances db)" "rm_id x = rid" "remittance_ok (remittance_items db) x"
    from find_remittance_row(1) [OF r cash_invD(4) [OF inv] x(1,2)] reconcile_guard_Inr [OF g] x(3)
    show "remittance_ok (remittance_items db) (x\<lparr> rm_status := target, rm_verifiedMillimes := Some (ri_verifiedMillimes i),
              rm_differenceMillimes := Some difference, rm_verifiedByUserId := Some (actor e),
              rm_verifiedAt := Some (now e) \<rparr>)"
      by (auto simp: remittance_ok_def)
  qed simp
  have "cash_inv db2"
  proof (cases "difference = 0")
    case True
    with b obtain d1 where a: "applyVerifiedAllocations rid cs db1 = Inr d1" and "same_cash d1 db2" by (auto simp: Let_def)
    with applyVerifiedAllocations_inv [OF a 1] show ?thesis using cash_inv_cong [of d1 db2] by simp
  next
    case False
    with b 1 show ?thesis by (auto intro: open_remittance_discrepancy_inv)
  qed
  then show ?thesis using cash_inv_cong [OF same] by simp
qed

section \<open>Creating a remittance\<close>

lemma remitted_append [simp]:
  "allocated_amount (xs @ ys) cid = allocated_amount xs cid + allocated_amount ys cid"
  by (simp add: allocated_amount_def)

lemma has_items_append [simp]: "has_items (xs @ ys) cid = (has_items xs cid \<or> has_items ys cid)"
  by (simp add: has_items_def)

lemma remitted_none: "\<not> has_items its cid \<Longrightarrow> allocated_amount its cid = 0"
  by (induction its) (auto simp: has_items_def allocated_amount_def)

lemma tables_new_remittance:
  assumes t: "cash_tables cs ds rs its" and r: "rm_id r \<notin> rm_id ` set rs" "rm_status r = RM_DRAFT"
    and new: "\<And>i. i \<in> set new \<Longrightarrow> ri_remittanceId i = rm_id r \<and> 0 < ri_amountMillimes i"
    and total: "sum_by ri_amountMillimes new = rm_declaredMillimes r"
    and free: "\<And>c. c \<in> set cs \<Longrightarrow> has_items new (col_id c) \<Longrightarrow> col_status c \<in> settled_statuses
      \<and> (\<exists>a. accountableCollectionMillimes c (disc_of ds (col_id c)) = Inr a
            \<and> allocated_amount its (col_id c) + allocated_amount new (col_id c) \<le> a)"
  shows "cash_tables cs ds (rs @ [r]) (its @ new)"
proof -
  have old: "ri_remittanceId i \<noteq> rm_id r" if "i \<in> set its" for i
    using t r(1) that unfolding cash_tables_def list_all_iff by metis
  have "balance_ok ds (its @ new) c" if c: "c \<in> set cs" for c
  proof (cases "has_items new (col_id c)")
    case True
    with free [OF c] show ?thesis by (auto simp: balance_ok_def)
  next
    case False
    then have "allocated_amount (its @ new) (col_id c) = allocated_amount its (col_id c)" by (simp add: remitted_none)
    moreover have "balance_ok ds its c" using t c by (simp add: cash_tables_def list_all_iff)
    ultimately show ?thesis using False by (auto simp: balance_ok_def split: sum.splits)
  qed
  moreover have "remittance_ok (its @ new) x" if x: "x \<in> set rs" for x
  proof -
    have "filter (\<lambda>i. ri_remittanceId i = rm_id x) new = []"
      using new x r(1) by (auto simp: filter_empty_conv)
    with t x show ?thesis by (auto simp: cash_tables_def list_all_iff remittance_ok_def)
  qed
  moreover have "remittance_ok (its @ new) r"
  proof -
    have "filter (\<lambda>i. ri_remittanceId i = rm_id r) its = []" using old by (auto simp: filter_empty_conv)
    moreover have "filter (\<lambda>i. ri_remittanceId i = rm_id r) new = new" using new by (auto simp: filter_id_conv)
    ultimately show ?thesis using total r(2) by (simp add: remittance_ok_def)
  qed
  ultimately show ?thesis
    using t r(1) new by (auto simp: cash_tables_def list_all_iff)
qed

lemma create_allocation_effect:
  assumes "create_allocation e rid a db = Inr db'"
  obtains i where "remittance_items db' = remittance_items db @ [i]" and "ri_collectionId i = ai_collectionId a"
    and "ri_amountMillimes i = ai_amountMillimes a" and "ri_remittanceId i = rid"
    and "collections db' = collections db" "discrepancies db' = discrepancies db" "remittances db' = remittances db"
  using assms by (auto simp: create_allocation_def Let_def)

lemma create_items_effect:
  assumes "foldE (create_allocation e rid) as db = Inr db'"
  shows "\<exists>new. remittance_items db' = remittance_items db @ new
      \<and> map ri_collectionId new = map ai_collectionId as \<and> map ri_amountMillimes new = map ai_amountMillimes as
      \<and> list_all (\<lambda>i. ri_remittanceId i = rid) new
      \<and> collections db' = collections db \<and> discrepancies db' = discrepancies db \<and> remittances db' = remittances db"
  using assms
proof (induction as arbitrary: db)
  case Nil
  then show ?case by simp
next
  case (Cons a as)
  from Cons.prems obtain db1 where one: "create_allocation e rid a db = Inr db1"
    and rest: "foldE (create_allocation e rid) as db1 = Inr db'" by (simp only: foldE.simps bindE_Inr) blast
  from one obtain i where
    i: "remittance_items db1 = remittance_items db @ [i]" "ri_collectionId i = ai_collectionId a"
      "ri_amountMillimes i = ai_amountMillimes a" "ri_remittanceId i = rid"
      "collections db1 = collections db" "discrepancies db1 = discrepancies db" "remittances db1 = remittances db"
    by (rule create_allocation_effect)
  from Cons.IH [OF rest] obtain new where "remittance_items db' = remittance_items db1 @ new"
    "map ri_collectionId new = map ai_collectionId as" "map ri_amountMillimes new = map ai_amountMillimes as"
    "list_all (\<lambda>i. ri_remittanceId i = rid) new" "collections db' = collections db1"
    "discrepancies db' = discrepancies db1" "remittances db' = remittances db1" by blast
  with i show ?case by (intro exI [of _ "i # new"]) simp
qed

lemma new_item_amount:
  assumes "map ri_collectionId new = map ai_collectionId as" and "map ri_amountMillimes new = map ai_amountMillimes as"
    and "distinct (map ai_collectionId as)"
  shows "has_items new cid \<longleftrightarrow> map_of (map (\<lambda>a. (ai_collectionId a, ai_amountMillimes a)) as) cid \<noteq> None"
    and "map_of (map (\<lambda>a. (ai_collectionId a, ai_amountMillimes a)) as) cid = Some amount \<Longrightarrow> allocated_amount new cid = amount"
proof -
  show h: "has_items new cid \<longleftrightarrow> map_of (map (\<lambda>a. (ai_collectionId a, ai_amountMillimes a)) as) cid \<noteq> None" for cid
    using assms(1,2)
    by (induction as arbitrary: new) (auto simp: has_items_def map_eq_Cons_conv)
  show "map_of (map (\<lambda>a. (ai_collectionId a, ai_amountMillimes a)) as) cid = Some amount \<Longrightarrow> allocated_amount new cid = amount"
    using assms
  proof (induction as arbitrary: new)
    case (Cons a as)
    then obtain i new' where n: "new = i # new'" "map ri_collectionId new' = map ai_collectionId as"
      "map ri_amountMillimes new' = map ai_amountMillimes as" "ri_collectionId i = ai_collectionId a"
      "ri_amountMillimes i = ai_amountMillimes a" by (auto simp: map_eq_Cons_conv)
    show ?case
    proof (cases "ai_collectionId a = cid")
      case True
      then have "cid \<notin> set (map ri_collectionId new')" using Cons.prems(4) n(2) by auto
      then have "\<not> has_items new' cid" by (auto simp: has_items_def list_ex_iff)
      with True n Cons.prems(1) show ?thesis
        using remitted_none [of new' cid] by (simp add: allocated_amount_def)
    next
      case False
      with Cons.IH [OF _ n(2,3)] n Cons.prems show ?thesis by (simp add: allocated_amount_def)
    qed
  qed simp
qed

lemma check_allocation_Inr:
  assumes "check_allocation db i c u = Inr u'"
  shows "\<exists>amount a. map_of (map (\<lambda>a. (ai_collectionId a, ai_amountMillimes a)) (rmi_allocations i)) (col_id c) = Some amount
    \<and> col_status c \<in> settled_statuses
    \<and> accountableCollectionMillimes c (disc_of (discrepancies db) (col_id c)) = Inr a
    \<and> allocated_amount (remittance_items db) (col_id c) + amount \<le> a"
  using assms
  by (auto simp: check_allocation_def REMITTABLE_COLLECTION_STATUSES_def settled_statuses_def
      collection_discrepancy_of not_less)

lemma remittance_request_Inr:
  assumes "remittance_request i = Inr u"
  shows "distinct (map ai_collectionId (rmi_allocations i))" and "list_all (\<lambda>a. 0 < ai_amountMillimes a) (rmi_allocations i)"
    and "sum_by ai_amountMillimes (rmi_allocations i) = rmi_declaredMillimes i"
  using assms by (auto simp: remittance_request_def list_ex_iff list_all_iff sumMillimes_Inr sum_by_def not_le)

lemma createRemittance_tx_inv:
  assumes req: "remittance_request i = Inr u" and run: "createRemittance_tx e i db = Inr (v, db')" and inv: "cash_inv db"
  shows "cash_inv db'"
proof -
  let ?cs = "sort_key col_id (filter (\<lambda>c. col_id c \<in> set (map ai_collectionId (rmi_allocations i))) (collections db))"
  from run obtain u1 r row db1 db2 where
    chk: "foldE (check_allocation db i) ?cs () = Inr u1" and
    r: "create_remittance e row db = Inr (r, db1)" "rm_status row = RM_DRAFT" "rm_declaredMillimes row = rmi_declaredMillimes i" and
    its: "foldE (create_allocation e (rm_id r)) (rmi_allocations i) db1 = Inr db2" and
    same: "same_cash db2 db'"
    by (auto simp: createRemittance_tx_def Let_def simp del: create_remittance_Inr)
  note req = remittance_request_Inr [OF req]
  from r have r': "rm_id r \<notin> rm_id ` set (remittances db)" "rm_status r = RM_DRAFT"
      "rm_declaredMillimes r = rmi_declaredMillimes i" "remittances db1 = remittances db @ [r]"
      "collections db1 = collections db" "discrepancies db1 = discrepancies db" "remittance_items db1 = remittance_items db"
    by (auto simp: Let_def)
  from create_items_effect [OF its] obtain new where
    new: "map ri_collectionId new = map ai_collectionId (rmi_allocations i)"
      "map ri_amountMillimes new = map ai_amountMillimes (rmi_allocations i)"
      "list_all (\<lambda>i. ri_remittanceId i = rm_id r) new"
    and db2: "remittance_items db2 = remittance_items db @ new" "collections db2 = collections db"
      "discrepancies db2 = discrepancies db" "remittances db2 = remittances db @ [r]"
    unfolding r'(4-7) by blast
  have "cash_tables (collections db) (discrepancies db) (remittances db @ [r]) (remittance_items db @ new)"
  proof (rule tables_new_remittance)
    show "cash_tables (collections db) (discrepancies db) (remittances db) (remittance_items db)"
      using inv by (simp add: cash_inv_def)
    show "sum_by ri_amountMillimes new = rm_declaredMillimes r"
      using req(3) new(2) r'(3) by (simp add: sum_by_def)
    fix j assume "j \<in> set new"
    then have "ri_amountMillimes j \<in> ai_amountMillimes ` set (rmi_allocations i)" using new(2) by (metis imageI list.set_map)
    then show "ri_remittanceId j = rm_id r \<and> 0 < ri_amountMillimes j"
      using req(2) new(3) \<open>j \<in> set new\<close> by (auto simp: list_all_iff)
  next
    fix c assume c: "c \<in> set (collections db)" and h: "has_items new (col_id c)"
    from h have "col_id c \<in> set (map ri_collectionId new)" by (auto simp: has_items_def list_ex_iff intro: rev_image_eqI)
    then have "col_id c \<in> ai_collectionId ` set (rmi_allocations i)" unfolding new(1) by simp
    then have "c \<in> set ?cs" using c by simp
    moreover have "list_all (\<lambda>c. \<exists>amount a.
      map_of (map (\<lambda>a. (ai_collectionId a, ai_amountMillimes a)) (rmi_allocations i)) (col_id c) = Some amount
      \<and> col_status c \<in> settled_statuses
      \<and> accountableCollectionMillimes c (disc_of (discrepancies db) (col_id c)) = Inr a
      \<and> allocated_amount (remittance_items db) (col_id c) + amount \<le> a) ?cs"
      using chk by (rule foldE_each) (rule check_allocation_Inr)
    ultimately obtain amount a where
      m: "map_of (map (\<lambda>a. (ai_collectionId a, ai_amountMillimes a)) (rmi_allocations i)) (col_id c) = Some amount"
      and a: "col_status c \<in> settled_statuses"
        "accountableCollectionMillimes c (disc_of (discrepancies db) (col_id c)) = Inr a"
        "allocated_amount (remittance_items db) (col_id c) + amount \<le> a"
      unfolding list_all_iff by blast
    from a new_item_amount(2) [OF new(1,2) req(1) m] show "col_status c \<in> settled_statuses
      \<and> (\<exists>a. accountableCollectionMillimes c (disc_of (discrepancies db) (col_id c)) = Inr a
            \<and> allocated_amount (remittance_items db) (col_id c) + allocated_amount new (col_id c) \<le> a)"
      by simp
  qed (use r' in simp_all)
  then show ?thesis using cash_inv_cong [OF same] db2 by (simp add: cash_inv_def)
qed

lemma createRemittance_inv:
  assumes "createRemittance e i db = Inr (v, db')" and "cash_inv db"
  shows "cash_inv db'"
proof -
  from assms(1) obtain u where "remittance_request i = Inr u" and "createRemittance_tx e i db = Inr (v, db')"
    by (auto simp: createRemittance_def split: sum.splits if_splits)
  then show ?thesis using assms(2) by (rule createRemittance_tx_inv)
qed

section \<open>Resolving discrepancies\<close>

lemma find_discrepancy_id: "find_discrepancy db did = Some d \<Longrightarrow> dc_id d = did \<and> d \<in> set (discrepancies db)"
  using find_SomeD [of _ "discrepancies db" d] by (auto simp: find_discrepancy_def)

lemma close_discrepancy_inv:
  assumes "close_discrepancy e d i db = Inr db'" and "cash_inv db" and "d \<in> set (discrepancies db)"
    and "\<And>cid. dc_collectionId d = Some cid \<Longrightarrow> \<not> has_items (remittance_items db) cid"
  shows "cash_inv db'"
  using assms unfolding cash_inv_def
  by (auto simp: close_discrepancy_def Let_def intro!: tables_close_discrepancy [of _ _ _ _ d])

lemma correct_collection_inv:
  assumes run: "correct_collection e op dl d i db = Inr db'" and inv: "cash_inv db"
  shows "cash_inv db' \<and> discrepancies db' = discrepancies db \<and> remittance_items db' = remittance_items db"
proof -
  let ?hit = "\<lambda>x. col_id x = col_id (co_collection op) \<and> col_status x = col_status (co_collection op)"
  let ?db1 = "db\<lparr> collections := update_where ?hit (\<lambda>x. x\<lparr> col_status := COLLECTED \<rparr>) (collections db) \<rparr>"
  from run obtain settle db2 where s: "(if settle then settle_order op dl ?db1 else Inr ?db1) = Inr db2"
    and same: "same_cash db2 db'"
    by (auto simp: correct_collection_def Let_def)
  have "cash_inv ?db1" using inv unfolding cash_inv_def by (auto intro!: tables_status simp: settled_statuses_def)
  moreover have "same_cash ?db1 db2" using s by (cases settle) (auto simp: settle_order_def Let_def)
  ultimately show ?thesis using same cash_inv_cong [of ?db1 db'] by simp
qed

lemma resolveCollectionDiscrepancy_inv:
  assumes run: "resolveCollectionDiscrepancy e cid did i db = Inr (v, db')" and inv: "cash_inv db"
  shows "cash_inv db'"
proof -
  from run obtain op d dl db1 db2 where op: "lockCollection db cid = Inr op" and
    d: "find_discrepancy db did = Some d" and g: "discrepancy_guard e db op d i = Inr dl" and
    c: "(if rs_resolution i = DC_RESOLVED then correct_collection e op dl d i db
         else require (rs_finalVerifiedMillimes i = None) (badRequest ''FINAL_VERIFIED_AMOUNT_NOT_APPLICABLE'') (Inr db)) = Inr db1" and
    cl: "close_discrepancy e d i db1 = Inr db2" and same: "same_cash db2 db'"
    by (auto simp: resolveCollectionDiscrepancy_def Let_def)
  have 1: "cash_inv db1 \<and> discrepancies db1 = discrepancies db \<and> remittance_items db1 = remittance_items db"
    using c inv correct_collection_inv [of e op dl d i db db1] by (auto split: if_splits)
  have "dc_collectionId d = Some cid" and "\<not> has_items (remittance_items db) cid"
    using g lockCollection_id [OF op]
    by (auto simp: discrepancy_guard_def discrepancy_linkage_def Let_def has_items_def list_ex_iff
        count_where_def filter_empty_conv)
  with close_discrepancy_inv [OF cl, of] 1 find_discrepancy_id [OF d] have "cash_inv db2" by simp
  then show ?thesis using cash_inv_cong [OF same] by simp
qed

lemma resolveRemittanceDiscrepancy_inv:
  assumes run: "resolveRemittanceDiscrepancy e rid did i db = Inr (v, db')" and inv: "cash_inv db"
  shows "cash_inv db'"
proof -
  from run obtain d r db1 db2 where
    d: "find_discrepancy db did = Some d" and g: "remittance_discrepancy_guard e db rid d i = Inr r" and
    c: "(if rs_resolution i = DC_RESOLVED then verify_after_all e r i db
         else require (rs_finalVerifiedMillimes i = None) (badRequest ''FINAL_VERIFIED_AMOUNT_NOT_APPLICABLE'') (Inr db)) = Inr db1" and
    cl: "close_discrepancy e d i db1 = Inr db2" and same: "same_cash db2 db'"
    by (auto simp: resolveRemittanceDiscrepancy_def Let_def)
  from g have r: "find_remittance db rid = Some r" and w: "\<exists>w. rm_receivedByUserId r = Some w \<and> w \<noteq> actor e"
    and free: "dc_collectionId d = None"
    by (auto simp: remittance_discrepancy_guard_def lockRemittance_def dest: assertIndependentActor_Inr)
  have "cash_inv db1 \<and> discrepancies db1 = discrepancies db"
  proof (cases "rs_resolution i = DC_RESOLVED")
    case True
    with c obtain cs d1 where a: "applyVerifiedAllocations (rm_id r) cs db = Inr d1"
      and s: "set_remittance (rm_id r) RM_DISCREPANCY
       (\<lambda>x. x\<lparr> rm_status := RM_VERIFIED, rm_verifiedMillimes := Some (rm_declaredMillimes r),
              rm_differenceMillimes := Some 0, rm_verifiedByUserId := Some (actor e),
              rm_verifiedAt := Some (now e) \<rparr>) (conflict ''DISCREPANCY_RESOLUTION_NOT_ALLOWED'') d1 = Inr db1"
      by (auto simp: verify_after_all_def)
    note A = applyVerifiedAllocations_inv [OF a inv]
    have "cash_inv db1"
    proof (rule set_remittance_inv [OF s])
      fix x assume x: "x \<in> set (remittances d1)" "rm_id x = rm_id r" "remittance_ok (remittance_items d1) x"
      have "x = r" by (rule key_unique [OF cash_invD(4) [OF inv]])
        (use x A find_SomeD [OF r [unfolded find_remittance_def]] in auto)
      with w x(3) show "remittance_ok (remittance_items d1) (x\<lparr> rm_status := RM_VERIFIED,
          rm_verifiedMillimes := Some (rm_declaredMillimes r), rm_differenceMillimes := Some 0,
          rm_verifiedByUserId := Some (actor e), rm_verifiedAt := Some (now e) \<rparr>)"
        by (auto simp: remittance_ok_def)
    qed (use A in simp_all)
    moreover have "discrepancies db1 = discrepancies d1" using s by (auto simp: set_remittance_def Let_def)
    ultimately show ?thesis using A by simp
  next
    case False
    with c inv show ?thesis by simp
  qed
  with close_discrepancy_inv [OF cl] find_discrepancy_id [OF d] free have "cash_inv db2" by simp
  then show ?thesis using cash_inv_cong [OF same] by simp
qed

lemma resolveDiscrepancy_inv:
  assumes "resolveDiscrepancy e did i db = Inr (v, db')" and "cash_inv db"
  shows "cash_inv db'"
  using assms
  by (auto simp: resolveDiscrepancy_def split: option.splits
      intro: resolveCollectionDiscrepancy_inv resolveRemittanceDiscrepancy_inv)

end
