(* ===== verification/CashSpec.thy ===== *)
theory CashSpec
  imports CashProofs OrdersDemo
begin

text \<open>
  The properties of the cash desk, over any run of its handlers, and the concrete cash desk of
  their witnesses.
\<close>

section \<open>Steps and runs\<close>

inductive cash_step :: "env \<Rightarrow> 'a cash_db_scheme \<Rightarrow> 'a cash_db_scheme \<Rightarrow> bool" for e where
  recorded: "recordCollection e cid i key db = Inr (cv, db') \<Longrightarrow> cash_step e db db'"
| drafted: "createRemittance e ri db = Inr (rv, db') \<Longrightarrow> cash_step e db db'"
| submitted: "submitRemittance e rid db = Inr (rv, db') \<Longrightarrow> cash_step e db db'"
| reconciled: "reconcileRemittance e rid rc db = Inr (rv, db') \<Longrightarrow> cash_step e db db'"
| resolved: "resolveDiscrepancy e did rs db = Inr (dv, db') \<Longrightarrow> cash_step e db db'"

inductive cash_run :: "'a cash_db_scheme \<Rightarrow> 'a cash_db_scheme \<Rightarrow> bool" for db where
  start: "cash_run db db"
| request: "cash_run db db1 \<Longrightarrow> cash_step e db1 db2 \<Longrightarrow> cash_run db db2"

lemma cash_step_inv: "cash_step e db db' \<Longrightarrow> cash_inv db \<Longrightarrow> cash_inv db'"
  by (induction rule: cash_step.induct)
    (auto simp: recordCollection_def intro: recordCollection_tx_inv createRemittance_inv submitRemittance_inv
      reconcileRemittance_inv resolveDiscrepancy_inv)

lemmas [trans] = cash_run.request

lemma cash_run_inv: "cash_run db db' \<Longrightarrow> cash_inv db \<Longrightarrow> cash_inv db'"
  by (induction rule: cash_run.induct) (auto intro: cash_step_inv)

section \<open>Recording a collection is idempotent\<close>

text \<open>The answer recorded under a key for the same request data.\<close>

definition recorded_collection ::
  "string \<Rightarrow> string \<Rightarrow> string \<Rightarrow> 'a cash_db_scheme \<Rightarrow> collection_view option" where
  "recorded_collection cid kh rh db =
     (case lockCollection db cid of
        Inl _ \<Rightarrow> None
      | Inr op \<Rightarrow>
          if or_null (col_keyHash (co_collection op)) \<noteq> None \<and> col_keyHash (co_collection op) = Some kh
             \<and> col_requestHash (co_collection op) = Some rh
          then (case collection_answer db cid of Inr v \<Rightarrow> Some v | Inl _ \<Rightarrow> None) else None)"

lemma replayed_collection:
  "recorded_collection cid kh rh db = Some v \<Longrightarrow> recordCollection_tx e cid i kh rh db = Inr (v, db)"
  by (auto simp: recorded_collection_def recordCollection_tx_def collection_replay_def split: sum.splits if_splits)

lemma lockCollection_parts:
  assumes "lockCollection db cid = Inr op"
  shows "find_collection db cid = Some (co_collection op)"
    and "find_order db (col_orderId (co_collection op)) = Some (co_order op)"
    and "\<exists>did. or_null (col_deliveryId (co_collection op)) = Some did \<and> co_delivery op = find_delivery db did"
  using assms by (auto simp: lockCollection_def)

lemma first_collection:
  assumes run: "recordCollection_tx e cid i kh rh db = Inr (v, db')" and kh: "kh \<noteq> []"
    and d: "distinct (map col_id (collections db))"
  shows "recorded_collection cid kh rh db' = Some v"
proof -
  from run obtain op replay where op: "lockCollection db cid = Inr op"
    and rep: "collection_replay (co_collection op) kh rh = Inr replay"
    by (auto simp: recordCollection_tx_def)
  show ?thesis
  proof (cases replay)
    case True
    with run op rep show ?thesis
      by (auto simp: recordCollection_tx_def recorded_collection_def collection_replay_def split: if_splits)
  next
    case False
    with run op rep obtain dl difference target db1 db2 where
      w: "write_collection e op dl i difference target kh rh db = Inr db1" and
      ev: "record_collection_events e op i difference db1 = Inr db2" and
      fin: "collections db' = collections db2" "orders db' = orders db2" and
      v: "collection_answer db' cid = Inr v"
      by (auto simp: recordCollection_tx_def Let_def)
    let ?c = "co_collection op" and ?f = "collected_row e op dl i target kh rh"
    note c = lockCollection_parts [OF op]
    let ?hit = "\<lambda>x. col_id x = col_id ?c \<and> col_status x = EXPECTED \<and> col_keyHash x = None"
    have same: "collections db' = collections db1" "orders db' = orders db1"
      using ev fin by (auto simp: record_collection_events_def Let_def split: if_splits)
    have cs: "collections db1 = update_where ?hit ?f (collections db)" and n: "count_where ?hit (collections db) = 1"
      using w by (auto simp: write_collection_def Let_def)
    have mem: "?c \<in> set (collections db)" "col_id ?c = cid" using find_collection_id [OF c(1)] by auto
    have "?hit ?c"
    proof -
      have "filter ?hit (collections db) \<noteq> []" using n by (auto simp: count_where_def)
      then obtain x where x: "x \<in> set (collections db)" "?hit x" by (auto simp: filter_empty_conv)
      with key_unique [OF d x(1) mem(1)] show ?thesis by simp
    qed
    then have "find_collection db' cid = Some (?f ?c)"
      using c(1) unfolding find_collection_def same cs
      by (simp add: find_update_where collected_row_def)
    moreover have "\<exists>o'. find_order db' (col_orderId ?c) = Some o'"
      using c(2) w unfolding find_order_def same
      by (auto simp: write_collection_def Let_def find_update_where)
    ultimately have "\<exists>op'. lockCollection db' cid = Inr op' \<and> co_collection op' = ?f ?c"
      using c(3) by (auto simp: lockCollection_def collected_row_def)
    then show ?thesis
      using v kh by (auto simp: recorded_collection_def collected_row_def or_null_def)
  qed
qed

text \<open>The key hash is a digest: it has a first character.\<close>

record collection_request =
  kr_env :: env
  kr_collectionId :: string
  kr_input :: collection_input
  kr_keyHash :: "char \<times> string"
  kr_requestHash :: string

definition digest_text :: "char \<times> string \<Rightarrow> string" where
  "digest_text h = fst h # snd h"

definition collection_run ::
  "collection_request \<Rightarrow> 'a cash_db_scheme \<Rightarrow> (collection_view \<times> 'a cash_db_scheme) result" where
  "collection_run q =
     recordCollection_tx (kr_env q) (kr_collectionId q) (kr_input q) (digest_text (kr_keyHash q)) (kr_requestHash q)"

interpretation collection_once: idempotent_run "\<lambda>db. distinct (map col_id (collections db))" collection_run
    "\<lambda>q. recorded_collection (kr_collectionId q) (digest_text (kr_keyHash q)) (kr_requestHash q)" "\<lambda>v. v"
  by unfold_locales
    (unfold collection_run_def digest_text_def, erule (1) first_collection [rotated 2, OF _ _ list.distinct(2)],
      erule replayed_collection)

section \<open>A cash desk with one parcel out for delivery\<close>

definition cash_env :: "string \<Rightarrow> int \<Rightarrow> env" where
  "cash_env who t = shop_env\<lparr> actor := who, now := t \<rparr>"

definition desk_courier :: courier where
  "desk_courier = \<lparr> cou_id = ''k1'', cou_code = ''K'', cou_name = ''K'', cou_companyName = None,
     cou_status = COURIER_ACTIVE, cou_availabilityStatus = AVAILABLE, cou_defaultFeeMillimes = None,
     cou_maximumActiveDeliveries = None, cou_deliveryZones = [], cou_phoneE164 = Some ''+21620000000'',
     cou_whatsappPhoneE164 = None, cou_whatsappTemplate = None, cou_contactName = None, cou_email = None,
     cou_notes = None, cou_integrations = [IT_MANUAL], cou_updatedAt = 0 \<rparr>"

definition cash_desk :: cash_db where
  "cash_desk = shop_db.extend
     (placed_shop\<lparr>
        orders := [placed_order\<lparr> ord_status := OUT_FOR_DELIVERY, ord_methodType := COURIER \<rparr>],
        deliveries := [placed_delivery\<lparr> dlv_status := OUT_FOR_DELIVERY, dlv_courierId := Some ''k1'' \<rparr>] \<rparr>)
     (cash_db.fields [desk_courier] [] [] [] [] [])"

definition desk_input :: collection_input where
  "desk_input = \<lparr> rc_collectedMillimes = 44625, rc_expectedOrderVersion = 1, rc_expectedDeliveryVersion = 1,
     rc_reasonCode = None, rc_reasonDetail = None \<rparr>"

definition desk_remittance :: remittance_input where
  "desk_remittance = \<lparr> rmi_courierId = ''k1'', rmi_number = ''RM-1'', rmi_declaredMillimes = 44625,
     rmi_allocations = [\<lparr> ai_collectionId = ''c1'', ai_amountMillimes = 44625 \<rparr>], rmi_note = None \<rparr>"

definition desk_recorded :: "(collection_view \<times> cash_db) result" where
  "desk_recorded = recordCollection_tx (cash_env ''u1'' 1000) ''c1'' desk_input ''kh'' ''rh'' cash_desk"

text \<open>Recorded, put in a remittance, submitted by \<open>u1\<close> and verified by \<open>u2\<close>.\<close>

definition desk_verified :: "(remittance_view \<times> cash_db) result" where
  "desk_verified =
     bindE (recordCollection (cash_env ''u1'' 1000) ''c1'' desk_input (Some ''0123456789abcdef'') cash_desk) (\<lambda>(_, db1).
     bindE (createRemittance (cash_env ''u1'' 1001) desk_remittance db1) (\<lambda>(v, db2).
     bindE (submitRemittance (cash_env ''u1'' 1002) (rm_id (rv_remittance v)) db2) (\<lambda>(_, db3).
     reconcileRemittance (cash_env ''u2'' 1003) (rm_id (rv_remittance v))
       \<lparr> ri_verifiedMillimes = 44625, ri_reasonCode = None, ri_reasonDetail = None \<rparr> db3)))"

text \<open>One evaluation, taken apart below.\<close>

lemma cash_desk_evaluated:
  "cash_inv cash_desk
   \<and> (case desk_recorded of Inr (v, db) \<Rightarrow> map col_status (collections db) = [COLLECTED] | Inl x \<Rightarrow> False)
   \<and> (case desk_verified of Inr (v, db) \<Rightarrow> map rm_status (remittances db) = [RM_VERIFIED]
     \<and> map col_status (collections db) = [REMITTED] \<and> map ord_paymentStatus (orders db) = [CASH_REMITTED]
     \<and> allocated_amount (remittance_items db) ''c1'' = 44625 \<and> map col_id (collections db) = [''c1''] | Inl x \<Rightarrow> False)"
  by code_simp

lemma cash_desk_inv: "cash_inv cash_desk"
  using cash_desk_evaluated by (elim conjE)

lemma desk_recorded_evaluated:
  "case desk_recorded of Inr (v, db) \<Rightarrow> map col_status (collections db) = [COLLECTED] | Inl x \<Rightarrow> False"
  using cash_desk_evaluated by (elim conjE)

lemma desk_verified_evaluated:
  "case desk_verified of Inr (v, db) \<Rightarrow> map rm_status (remittances db) = [RM_VERIFIED]
     \<and> map col_status (collections db) = [REMITTED] \<and> map ord_paymentStatus (orders db) = [CASH_REMITTED]
     \<and> allocated_amount (remittance_items db) ''c1'' = 44625 \<and> map col_id (collections db) = [''c1''] | Inl x \<Rightarrow> False"
  using cash_desk_evaluated by (elim conjE)

lemma desk_verified_run:
  obtains db where "cash_run cash_desk db" and "map rm_status (remittances db) = [RM_VERIFIED]"
    and "allocated_amount (remittance_items db) ''c1'' = 44625" and "map col_id (collections db) = [''c1'']"
proof -
  from desk_verified_evaluated obtain v db where v: "desk_verified = Inr (v, db)"
    and r: "map rm_status (remittances db) = [RM_VERIFIED]" "allocated_amount (remittance_items db) ''c1'' = 44625"
      "map col_id (collections db) = [''c1'']"
    by (auto split: sum.splits)
  from v obtain cv db1 rv db2 sv db3 where
    1: "recordCollection (cash_env ''u1'' 1000) ''c1'' desk_input (Some ''0123456789abcdef'') cash_desk = Inr (cv, db1)" and
    2: "createRemittance (cash_env ''u1'' 1001) desk_remittance db1 = Inr (rv, db2)" and
    3: "submitRemittance (cash_env ''u1'' 1002) (rm_id (rv_remittance rv)) db2 = Inr (sv, db3)" and
    4: "reconcileRemittance (cash_env ''u2'' 1003) (rm_id (rv_remittance rv))
       \<lparr> ri_verifiedMillimes = 44625, ri_reasonCode = None, ri_reasonDetail = None \<rparr> db3 = Inr (v, db)"
    unfolding desk_verified_def by auto
  note cash_run.start
  also note cash_step.recorded [OF 1]
  also note cash_step.drafted [OF 2]
  also note cash_step.submitted [OF 3]
  also note cash_step.reconciled [OF 4]
  finally have "cash_run cash_desk db" .
  then show ?thesis using r by (rule that)
qed

section \<open>Properties\<close>

text \<open>The amount the remittances count on, and the amount
  the administrators are shown, are the same: the one is an error exactly when the other is empty,
  and the adjustment shown is what separates it from the cash collected.\<close>

theorem accountable_matches_projection:
  "(accountableCollectionMillimes c d = Inr a)
   = (\<exists>p. collectionAccountingProjection c d = Inr p \<and> ap_accountableMillimes p = Some a
        \<and> ap_adjustmentMillimes p = Some (a - col_collectedMillimes c))"
proof (cases d)
  case None
  then show ?thesis
    by (auto simp: accountableCollectionMillimes_def collectionAccountingProjection_def)
next
  case (Some x)
  then show ?thesis
    by (cases "dc_status x")
      (auto simp: accountableCollectionMillimes_def collectionAccountingProjection_def)
qed

text \<open>Property C17 (never_over_allocated): in every run of the cash desk, whatever is recorded, remitted,
  reconciled or resolved, and in any order, the remittances never hold more of a collection than the
  cash it is accountable for.\<close>

theorem never_over_allocated:
  assumes "cash_run db db'" and "cash_inv db" and "c \<in> set (collections db')"
  shows "allocated_amount (remittance_items db') (col_id c) = 0
    \<or> (\<exists>a. accountableCollectionMillimes c (collection_discrepancy db' (col_id c)) = Inr a
          \<and> allocated_amount (remittance_items db') (col_id c) \<le> a)"
  using cash_invD(1) [OF cash_run_inv [OF assms(1,2)] assms(3)]
  by (auto simp: balance_ok_def collection_discrepancy_of remitted_none split: sum.splits)

lemma never_over_allocated_witness:
  "\<exists>db' c a. cash_run cash_desk db' \<and> c \<in> set (collections db')
     \<and> accountableCollectionMillimes c (collection_discrepancy db' (col_id c)) = Inr a \<and> 44625 \<le> a"
proof -
  obtain db where run: "cash_run cash_desk db" and a: "allocated_amount (remittance_items db) ''c1'' = 44625"
    and ids: "map col_id (collections db) = [''c1'']" by (rule desk_verified_run)
  from ids obtain c where c: "c \<in> set (collections db)" "col_id c = ''c1''" by auto
  from never_over_allocated [OF run cash_desk_inv c(1)] a c(2) obtain w where
    "accountableCollectionMillimes c (collection_discrepancy db (col_id c)) = Inr w" "44625 \<le> w" by auto
  with run c(1) show ?thesis by blast
qed

text \<open>Property C18 (verified_by_two): in every run of the cash desk, a verified remittance was received by
  one administrator and verified by another, for exactly the declared amount, which is what its
  items add up to.\<close>

theorem verified_by_two:
  assumes "cash_run db db'" and "cash_inv db" and "r \<in> set (remittances db')" and "rm_status r = RM_VERIFIED"
  shows "(\<exists>u w. rm_receivedByUserId r = Some u \<and> rm_verifiedByUserId r = Some w \<and> u \<noteq> w)
    \<and> rm_verifiedMillimes r = Some (rm_declaredMillimes r)
    \<and> sum_by ri_amountMillimes (items_of db' (rm_id r)) = rm_declaredMillimes r"
  using cash_invD(2) [OF cash_run_inv [OF assms(1,2)] assms(3)] assms(4)
  by (auto simp: remittance_ok_def items_of_def)

lemma verified_by_two_witness:
  "\<exists>db' r u w. cash_run cash_desk db' \<and> r \<in> set (remittances db') \<and> rm_receivedByUserId r = Some u
     \<and> rm_verifiedByUserId r = Some w \<and> u \<noteq> w"
proof -
  obtain db where run: "cash_run cash_desk db" and st: "map rm_status (remittances db) = [RM_VERIFIED]"
    by (rule desk_verified_run)
  from st obtain r where r: "r \<in> set (remittances db)" "rm_status r = RM_VERIFIED" by auto
  from verified_by_two [OF run cash_desk_inv r] r run show ?thesis by blast
qed

text \<open>Property C19 (collection_recorded_once): once a collection has been recorded under a key, every later
  request with the same key and the same data answers with the same record and writes nothing.\<close>

theorem collection_recorded_once:
  assumes "recordCollection_tx e cid i kh rh db = Inr (v, db')" and "kh \<noteq> []"
    and "distinct (map col_id (collections db))"
  shows "recordCollection_tx e' cid i' kh rh db' = Inr (v, db')"
proof -
  from assms(2) obtain h s where kh: "kh = h # s" by (cases kh) auto
  let ?q = "\<lparr> kr_env = e, kr_collectionId = cid, kr_input = i, kr_keyHash = (h, s), kr_requestHash = rh \<rparr>"
  have "collection_run ?q db = Inr (v, db')" using assms(1) by (simp add: collection_run_def digest_text_def kh)
  from collection_once.recorded [OF assms(3) this] have "recorded_collection cid kh rh db' = Some v"
    by (auto simp: digest_text_def kh)
  then show ?thesis by (rule replayed_collection)
qed

lemma collection_recorded_once_witness:
  "\<exists>v db. desk_recorded = Inr (v, db)
     \<and> recordCollection_tx (cash_env ''u1'' 9000) ''c1'' desk_input ''kh'' ''rh'' db = Inr (v, db)"
proof -
  from desk_recorded_evaluated obtain v db where d: "desk_recorded = Inr (v, db)" by (auto split: sum.splits)
  have "distinct (map col_id (collections cash_desk))" using cash_desk_inv by (rule cash_invD(3))
  from collection_recorded_once [OF d [unfolded desk_recorded_def] _ this]
  have "recordCollection_tx (cash_env ''u1'' 9000) ''c1'' desk_input ''kh'' ''rh'' db = Inr (v, db)" by simp
  with d show ?thesis by blast
qed

end
