(* ===== verification/Deliveries.thy ===== *)
theory Deliveries
  imports DeliverySchema
begin

text \<open>
  \<open>delivery/admin-deliveries.service.ts\<close>: couriers are assigned to deliveries and taken off them,
  deliveries move along the table of \<open>delivery-transition-policy.ts\<close> together with their order,
  failed attempts are recorded, and deliveries and returns are completed.  Every handler is one
  transaction.
\<close>

section \<open>Sets of statuses\<close>

definition NEGATIVE_AGE_RESULTS :: "age_result set" where
  "NEGATIVE_AGE_RESULTS = {AGE_FAILED, AGE_REFUSED, UNABLE_TO_VERIFY}"

definition COURIER_REQUIRED_TARGETS :: "delivery_status set" where
  "COURIER_REQUIRED_TARGETS = {ASSIGNED_TO_COURIER, HANDED_TO_COURIER}"

definition EXPLANATION_REQUIRED_TARGETS :: "delivery_status set" where
  "EXPLANATION_REQUIRED_TARGETS = {ON_HOLD, RETURN_TO_SENDER}"

definition COLLECTED_CASH_STATUSES :: "collection_status set" where
  "COLLECTED_CASH_STATUSES = {COLLECTED, REMITTED}"

definition CASH_PAYMENT_STATUSES :: "payment_status set" where
  "CASH_PAYMENT_STATUSES = {CASH_COLLECTED_BY_COURIER, CASH_COLLECTED_AT_STORE, CASH_REMITTED}"

definition TERMINAL_DELIVERY_STATUSES :: "delivery_status set" where
  "TERMINAL_DELIVERY_STATUSES = {DELIVERED, RETURNED, CANCELLED}"

definition COURIER_UNASSIGNMENT_STATUSES :: "delivery_status set" where
  "COURIER_UNASSIGNMENT_STATUSES = {CONFIRMED, PREPARING}"

fun age_result_name :: "age_result \<Rightarrow> string" where
  "age_result_name NOT_REQUIRED = ''NOT_REQUIRED''"
| "age_result_name AGE_PENDING = ''PENDING''"
| "age_result_name AGE_PASSED = ''PASSED''"
| "age_result_name AGE_FAILED = ''FAILED''"
| "age_result_name AGE_REFUSED = ''REFUSED''"
| "age_result_name UNABLE_TO_VERIFY = ''UNABLE_TO_VERIFY''"

fun outcome_name :: "attempt_outcome \<Rightarrow> string" where
  "outcome_name ATTEMPT_DELIVERED = ''DELIVERED''"
| "outcome_name CUSTOMER_UNAVAILABLE = ''CUSTOMER_UNAVAILABLE''"
| "outcome_name ADDRESS_NOT_FOUND = ''ADDRESS_NOT_FOUND''"
| "outcome_name CUSTOMER_REFUSED = ''CUSTOMER_REFUSED''"
| "outcome_name FAILED_AGE_VERIFICATION = ''FAILED_AGE_VERIFICATION''"
| "outcome_name PARTIAL_CASH_NOT_ALLOWED = ''PARTIAL_CASH_NOT_ALLOWED''"
| "outcome_name ATTEMPT_RESCHEDULED = ''RESCHEDULED''"
| "outcome_name OTHER_FAILED = ''OTHER_FAILED''"

section \<open>Reading a delivery\<close>

text \<open>\<open>DELIVERY_OPERATION_SELECT\<close>: the delivery with its order, the number of its last attempt and its cash.\<close>

record delivery_operation =
  dop_delivery :: delivery
  dop_order :: order
  dop_locale :: "string option"
  dop_lastAttempt :: nat
  dop_collections :: "(collection \<times> discrepancy option) list"

definition attempts_of :: "'a delivery_db_scheme \<Rightarrow> string \<Rightarrow> attempt list" where
  "attempts_of db did = filter (\<lambda>a. att_deliveryId a = did) (attempts db)"

definition delivery_operation_of :: "'a delivery_db_scheme \<Rightarrow> delivery \<Rightarrow> order \<Rightarrow> delivery_operation" where
  "delivery_operation_of db d o' =
     \<lparr> dop_delivery = d, dop_order = o', dop_locale = order_locale db o',
       dop_lastAttempt = foldr (\<lambda>a n. max (att_number a) n) (attempts_of db (dlv_id d)) 0,
       dop_collections = map (\<lambda>c. (c, collection_discrepancy db (col_id c)))
         (filter (\<lambda>c. col_deliveryId c = Some (dlv_id d)) (collections db)) \<rparr>"

definition lockDelivery :: "'a delivery_db_scheme \<Rightarrow> string \<Rightarrow> delivery_operation result" where
  "lockDelivery db did =
     bindE (some_or (find_delivery db did) (notFound ''DELIVERY_NOT_FOUND'')) (\<lambda>d.
     bindE (some_or (find_order db (dlv_orderId d)) (PrismaError ''INCONSISTENT'')) (\<lambda>o'.
     Inr (delivery_operation_of db d o')))"

definition assertDeliveryVersion :: "delivery_operation \<Rightarrow> int \<Rightarrow> unit result" where
  "assertDeliveryVersion op expectedVersion =
     require (dlv_version (dop_delivery op) = expectedVersion) (conflict ''VERSION_CONFLICT'') (Inr ())"

definition requireExplanation :: "string option \<Rightarrow> string \<Rightarrow> unit result" where
  "requireExplanation v code =
     require (case v of None \<Rightarrow> False | Some s \<Rightarrow> s \<noteq> [] \<and> \<not> length (trim s) < 4) (badRequest code) (Inr ())"

text \<open>The answer: the delivery with its courier, order, last hundred attempts and last two hundred events.\<close>

record delivery_detail =
  dd_delivery :: delivery
  dd_courier :: "courier option"
  dd_order :: order
  dd_attempts :: "attempt list"
  dd_events :: "delivery_event list"
  dd_historyTruncated :: bool

definition find_courier :: "'a cash_db_scheme \<Rightarrow> string \<Rightarrow> courier option" where
  "find_courier db cid = List.find (\<lambda>c. cou_id c = cid) (couriers db)"

definition delivery_answer :: "'a delivery_db_scheme \<Rightarrow> string \<Rightarrow> delivery_detail result" where
  "delivery_answer db did =
     bindE (some_or (find_delivery db did) (notFound ''DELIVERY_NOT_FOUND'')) (\<lambda>d.
     bindE (some_or (find_order db (dlv_orderId d)) (PrismaError ''INCONSISTENT'')) (\<lambda>o'.
     let atts = sort_key (\<lambda>a. (att_number a, att_id a)) (attempts_of db did);
         evs = sort_key (\<lambda>v. (de_occurredAt v, de_id v)) (filter (\<lambda>v. de_deliveryId v = did) (delivery_events db))
     in Inr \<lparr> dd_delivery = d, dd_courier = Option.bind (dlv_courierId d) (find_courier db), dd_order = o',
              dd_attempts = last_rows 100 atts, dd_events = last_rows 200 evs,
              dd_historyTruncated = (length atts > 100 \<or> length evs > 200) \<rparr>))"

section \<open>Records the handlers write\<close>

definition delivery_audit :: "env \<Rightarrow> delivery \<Rightarrow> string \<Rightarrow> json \<Rightarrow> json \<Rightarrow> audit_log" where
  "delivery_audit e d action before after =
     cash_audit e action ''Delivery'' (dlv_id d) before after"

definition delivery_note_event ::
  "env \<Rightarrow> delivery \<Rightarrow> string \<Rightarrow> string option \<Rightarrow> json \<Rightarrow> delivery_event" where
  "delivery_note_event e d reasonCode note payload =
     \<lparr> de_id = [], de_deliveryId = dlv_id d, de_fromStatus = Some (dlv_status d), de_toStatus = dlv_status d,
       de_occurredAt = now e, de_actorUserId = Some (actor e), de_source = ''MANUAL_ADMIN'',
       de_reasonCode = Some reasonCode, de_note = note, de_payload = payload, de_requestId = Some (requestId e) \<rparr>"

text \<open>The guarded update of one delivery; a tracking number that is taken violates its unique constraint.\<close>

definition hits_version :: "delivery \<Rightarrow> int \<Rightarrow> delivery \<Rightarrow> bool" where
  "hits_version d expectedVersion x = (dlv_id x = dlv_id d \<and> dlv_version x = expectedVersion)"

definition update_delivery ::
  "delivery \<Rightarrow> int \<Rightarrow> (delivery \<Rightarrow> delivery) \<Rightarrow> 'a shop_db_scheme \<Rightarrow> 'a shop_db_scheme result" where
  "update_delivery d expectedVersion f db =
     (let hit = hits_version d expectedVersion;
          t = update_where hit (\<lambda>x. (f x)\<lparr> dlv_version := dlv_version x + 1 \<rparr>) (deliveries db)
      in require (\<not> list_ex (\<lambda>x. hit x \<and> list_ex (\<lambda>y. dlv_id y \<noteq> dlv_id x
                      \<and> same_some (dlv_trackingNumber (f x)) (dlv_trackingNumber y)) (deliveries db)) (deliveries db))
           (PrismaError ''P2002'') (
         require (count_where hit (deliveries db) = 1) (conflict ''VERSION_CONFLICT'')
           (Inr (db\<lparr> deliveries := t \<rparr>))))"

section \<open>Taking a courier off a delivery\<close>

definition open_manifest_item :: "'a delivery_db_scheme \<Rightarrow> string \<Rightarrow> manifest_item \<Rightarrow> bool" where
  "open_manifest_item db did i =
     (mi_deliveryId i = did
      \<and> list_ex (\<lambda>m. mf_id m = mi_manifestId i \<and> mf_status m \<in> {MF_DRAFT, MF_SEALED, MF_HANDED_OVER}) (manifests db))"

definition delivery_unassign ::
  "env \<Rightarrow> string \<Rightarrow> int \<Rightarrow> string \<Rightarrow> 'a delivery_db_scheme \<Rightarrow> (delivery_detail \<times> 'a delivery_db_scheme) result" where
  "delivery_unassign e did expectedVersion reason db =
     bindE (lockDelivery db did) (\<lambda>op.
     bindE (assertDeliveryVersion op expectedVersion) (\<lambda>_.
     bindE (requireExplanation (Some reason) ''UNASSIGNMENT_REASON_REQUIRED'') (\<lambda>_.
     let d = dop_delivery op
     in
     require (\<not> (or_null (dlv_courierId d) = None \<or> dlv_status d \<notin> COURIER_UNASSIGNMENT_STATUSES
                 \<or> ord_status (dop_order op) \<noteq> dlv_status d))
       (conflict ''COURIER_UNASSIGNMENT_NOT_ALLOWED'') (
     require (count_where (open_manifest_item db did) (manifest_items db) = 0)
       (conflict ''COURIER_UNASSIGNMENT_MANIFEST_ACTIVE'') (
     bindE (update_delivery d expectedVersion
              (\<lambda>x. x\<lparr> dlv_courierId := None, dlv_trackingNumber := None, dlv_courierFeeMillimes := None,
                      dlv_assignedAt := None \<rparr>) db) (\<lambda>db1.
     bindE (create_delivery_event e
              (delivery_note_event e d ''COURIER_UNASSIGNED'' (Some (trim reason))
                 (JObj [(''previousCourierId'', jopt JStr (dlv_courierId d))])) db1) (\<lambda>(_, db2).
     bindE (create_audit e (delivery_audit e d ''delivery.courier.unassigned''
              (JObj [(''courierId'', jopt JStr (dlv_courierId d)), (''status'', JStr (order_status_name (dlv_status d))),
                     (''version'', JNum (dlv_version d))])
              (JObj [(''courierId'', JNull), (''status'', JStr (order_status_name (dlv_status d))),
                     (''version'', JNum (dlv_version d + 1))])) db2) (\<lambda>(_, db3).
     bindE (delivery_answer db3 did) (\<lambda>r. Inr (r, db3))))))))))"

section \<open>Internal notes\<close>

text \<open>\<open>internalNotes\<close> is absent, null or a text.\<close>

definition delivery_updateInternalNotes ::
  "env \<Rightarrow> string \<Rightarrow> int \<Rightarrow> string option option \<Rightarrow> 'a delivery_db_scheme
     \<Rightarrow> (delivery_detail \<times> 'a delivery_db_scheme) result" where
  "delivery_updateInternalNotes e did expectedVersion internalNotes db =
     bindE (some_or internalNotes (badRequest ''DELIVERY_INTERNAL_NOTES_REQUIRED'')) (\<lambda>given.
     bindE (lockDelivery db did) (\<lambda>op.
     bindE (assertDeliveryVersion op expectedVersion) (\<lambda>_.
     let d = dop_delivery op; notes = map_option trim given
     in
     bindE (update_delivery d expectedVersion (\<lambda>x. x\<lparr> dlv_internalNotes := notes \<rparr>) db) (\<lambda>db1.
     bindE (create_delivery_event e (delivery_note_event e d ''INTERNAL_NOTES_UPDATED'' None JNull) db1) (\<lambda>(_, db2).
     bindE (create_audit e (delivery_audit e d ''delivery.internal_notes.updated''
              (JObj [(''status'', JStr (order_status_name (dlv_status d))), (''version'', JNum (dlv_version d)),
                     (''notesPresent'', JBool (or_null (dlv_internalNotes d) \<noteq> None))])
              (JObj [(''status'', JStr (order_status_name (dlv_status d))), (''version'', JNum (dlv_version d + 1)),
                     (''notesPresent'', JBool (notes \<noteq> None)),
                     (''notesLength'', JNum (case notes of None \<Rightarrow> 0 | Some n \<Rightarrow> int (length n)))])) db2) (\<lambda>(_, db3).
     bindE (delivery_answer db3 did) (\<lambda>r. Inr (r, db3))))))))"

section \<open>Assigning a courier\<close>

definition assignmentWarnings :: "courier \<Rightarrow> nat \<Rightarrow> string option \<Rightarrow> string list" where
  "assignmentWarnings courier deliveryCount deliveryZoneId =
     (let zones = cou_deliveryZones courier; activeCoverage = filter cz_active zones
      in (if zones \<noteq> []
             \<and> (or_null deliveryZoneId = None
                \<or> \<not> list_ex (\<lambda>z. Some (cz_deliveryZoneId z) = deliveryZoneId) activeCoverage)
          then [''COURIER_OUTSIDE_DELIVERY_ZONE''] else [])
         @ (if (case cou_maximumActiveDeliveries courier of None \<Rightarrow> False | Some n \<Rightarrow> deliveryCount \<ge> n)
            then [''COURIER_CAPACITY_EXCEEDED''] else []))"

datatype assignment_action = ASSIGN | REASSIGN

record assignment_input =
  ass_courierId :: string
  ass_trackingNumber :: "string option"
  ass_note :: "string option"
  ass_reason :: "string option"
  ass_acknowledgedWarnings :: "string list"
  ass_expectedVersion :: int

definition assignment_guard :: "assignment_action \<Rightarrow> assignment_input \<Rightarrow> delivery_operation \<Rightarrow> unit result" where
  "assignment_guard action input op =
     (let d = dop_delivery op; o' = dop_order op
      in bindE (assertDeliveryVersion op (ass_expectedVersion input)) (\<lambda>_.
         require (ord_methodType o' = COURIER) (conflict ''COURIER_ASSIGNMENT_NOT_APPLICABLE'') (
         require (\<not> (dlv_status d \<notin> DELIVERY_ASSIGNMENT_STATUSES \<or> ord_status o' \<noteq> dlv_status d))
           (conflict ''COURIER_ASSIGNMENT_NOT_ALLOWED'') (
         require (\<not> (action = ASSIGN \<and> or_null (dlv_courierId d) \<noteq> None))
           (conflict ''DELIVERY_ALREADY_ASSIGNED'') (
         if action = REASSIGN then
           require (or_null (dlv_courierId d) \<noteq> None) (conflict ''DELIVERY_NOT_ASSIGNED'') (
           require (dlv_courierId d \<noteq> Some (ass_courierId input)) (conflict ''DELIVERY_COURIER_UNCHANGED'') (
           requireExplanation (ass_reason input) ''REASSIGNMENT_REASON_REQUIRED''))
         else Inr ())))))"

text \<open>The courier, active and on duty, and the warnings, all of them acknowledged.\<close>

definition choose_courier ::
  "assignment_input \<Rightarrow> delivery_operation \<Rightarrow> 'a delivery_db_scheme \<Rightarrow> (courier \<times> string list) result" where
  "choose_courier input op db =
     bindE (some_or (List.find (\<lambda>c. cou_id c = ass_courierId input \<and> cou_status c = COURIER_ACTIVE) (couriers db))
       (conflict ''COURIER_UNAVAILABLE'')) (\<lambda>courier.
     require (cou_availabilityStatus courier = AVAILABLE) (conflict ''COURIER_OFF_DUTY'') (
     let activeDeliveryCount = count_where (\<lambda>x. dlv_courierId x = Some (cou_id courier)
           \<and> dlv_status x \<notin> TERMINAL_DELIVERY_STATUSES) (deliveries db);
         warnings = assignmentWarnings courier activeDeliveryCount (ord_zoneId (dop_order op));
         unacknowledged = filter (\<lambda>w. w \<notin> set (ass_acknowledgedWarnings input)) warnings
     in
     require (unacknowledged = [])
       (Http Conflict ''COURIER_ASSIGNMENT_WARNING_ACKNOWLEDGEMENT_REQUIRED'' unacknowledged) (
     Inr (courier, warnings))))"

definition matching_zone :: "courier \<Rightarrow> order \<Rightarrow> courier_zone option" where
  "matching_zone courier o' =
     List.find (\<lambda>z. cz_active z \<and> Some (cz_deliveryZoneId z) = ord_zoneId o') (cou_deliveryZones courier)"

definition courier_fee :: "courier \<Rightarrow> order \<Rightarrow> int option" where
  "courier_fee courier o' =
     (case Option.bind (matching_zone courier o') cz_feeMillimes of
        Some f \<Rightarrow> Some f
      | None \<Rightarrow> cou_defaultFeeMillimes courier)"

definition fee_source :: "courier \<Rightarrow> order \<Rightarrow> string" where
  "fee_source courier o' =
     (if Option.bind (matching_zone courier o') cz_feeMillimes \<noteq> None then ''ZONE''
      else if cou_defaultFeeMillimes courier \<noteq> None then ''DEFAULT''
      else ''NONE'')"

definition assignment_tx ::
  "assignment_action \<Rightarrow> env \<Rightarrow> string \<Rightarrow> assignment_input \<Rightarrow> 'a delivery_db_scheme
     \<Rightarrow> (delivery_detail \<times> 'a delivery_db_scheme) result" where
  "assignment_tx action e did input db =
     bindE (lockDelivery db did) (\<lambda>op.
     bindE (assignment_guard action input op) (\<lambda>_.
     bindE (choose_courier input op db) (\<lambda>(courier, warnings).
     let d = dop_delivery op; fee = courier_fee courier (dop_order op);
         note = (if action = REASSIGN then map_option trim (ass_reason input) else map_option trim (ass_note input));
         acknowledged = filter (\<lambda>w. w \<in> set (ass_acknowledgedWarnings input)) warnings
     in
     bindE (update_delivery d (ass_expectedVersion input)
              (\<lambda>x. x\<lparr> dlv_courierId := Some (cou_id courier), dlv_assignedAt := Some (now e),
                      dlv_trackingNumber := (case ass_trackingNumber input of None \<Rightarrow> dlv_trackingNumber x
                                             | Some t \<Rightarrow> Some (trim t)),
                      dlv_courierFeeMillimes := fee \<rparr>) db) (\<lambda>db1.
     bindE (create_delivery_event e
              (delivery_note_event e d (if action = ASSIGN then ''COURIER_ASSIGNED'' else ''COURIER_REASSIGNED'') note
                 (JObj [(''previousCourierId'', jopt JStr (dlv_courierId d)), (''courierId'', JStr (cou_id courier)),
                        (''operationalWarnings'', JArr (map JStr warnings)),
                        (''acknowledgedWarnings'', JArr (map JStr acknowledged)),
                        (''internalFeeSource'', JStr (fee_source courier (dop_order op)))])) db1) (\<lambda>(_, db2).
     bindE (create_audit e (delivery_audit e d
              (if action = ASSIGN then ''delivery.courier.assigned'' else ''delivery.courier.reassigned'')
              (JObj [(''courierId'', jopt JStr (dlv_courierId d)), (''status'', JStr (order_status_name (dlv_status d))),
                     (''version'', JNum (dlv_version d))])
              (JObj [(''courierId'', JStr (cou_id courier)), (''status'', JStr (order_status_name (dlv_status d))),
                     (''version'', JNum (dlv_version d + 1)), (''operationalWarnings'', JArr (map JStr warnings)),
                     (''warningsAcknowledged'', JBool (warnings \<noteq> [])),
                     (''courierFeeMillimes'', jopt JNum fee)])) db2) (\<lambda>(_, db3).
     bindE (delivery_answer db3 did) (\<lambda>r. Inr (r, db3))))))))"

definition delivery_assignment ::
  "assignment_action \<Rightarrow> env \<Rightarrow> string \<Rightarrow> assignment_input \<Rightarrow> 'a delivery_db_scheme
     \<Rightarrow> (delivery_detail \<times> 'a delivery_db_scheme) result" where
  "delivery_assignment action e did input db =
     (case assignment_tx action e did input db of
        Inl x \<Rightarrow> Inl (if x = PrismaError ''P2002'' then conflict ''TRACKING_NUMBER_CONFLICT'' else x)
      | Inr r \<Rightarrow> Inr r)"

section \<open>Moving a delivery\<close>

definition hits_mirrored_delivery :: "delivery \<Rightarrow> delivery \<Rightarrow> bool" where
  "hits_mirrored_delivery d x = (dlv_id x = dlv_id d \<and> dlv_status x = dlv_status d \<and> dlv_version x = dlv_version d)"

definition hits_mirrored_order :: "order \<Rightarrow> order \<Rightarrow> bool" where
  "hits_mirrored_order o' x = (ord_id x = ord_id o' \<and> ord_status x = ord_status o' \<and> ord_version x = ord_version o')"

definition updateMirroredStatus ::
  "delivery_operation \<Rightarrow> delivery_status \<Rightarrow> (delivery \<Rightarrow> delivery) \<Rightarrow> 'a shop_db_scheme \<Rightarrow> 'a shop_db_scheme result" where
  "updateMirroredStatus op target f db =
     (let hit_delivery = hits_mirrored_delivery (dop_delivery op); hit_order = hits_mirrored_order (dop_order op)
      in require (count_where hit_delivery (deliveries db) = 1 \<and> count_where hit_order (orders db) = 1)
           (conflict ''VERSION_CONFLICT'')
           (Inr (db\<lparr> deliveries := update_where hit_delivery
                       (\<lambda>x. (f x)\<lparr> dlv_status := target, dlv_version := dlv_version x + 1 \<rparr>) (deliveries db),
                     orders := update_where hit_order
                       (\<lambda>x. x\<lparr> ord_status := target, ord_version := ord_version x + 1 \<rparr>) (orders db) \<rparr>)))"

text \<open>The four writes are awaited together; here they follow one another.\<close>

definition notify_delivery ::
  "env \<Rightarrow> delivery_operation \<Rightarrow> delivery_status \<Rightarrow> 'a shop_db_scheme \<Rightarrow> 'a shop_db_scheme result" where
  "notify_delivery e op target db =
     (case notificationEventForDeliveryStatus target of
        None \<Rightarrow> Inr db
      | Some ev \<Rightarrow>
          createOrderNotificationsWithOutbox e
            \<lparr> tgt_id = ord_id (dop_order op), tgt_orderNumber = ord_number (dop_order op),
              tgt_customerEmail = ord_customerEmail (dop_order op), tgt_customerPhone = ord_customerPhone (dop_order op),
              tgt_locale = (if dop_locale op = Some ''ar'' then ''ar-TN'' else ''fr-TN'') \<rparr>
            ev (now e)
            (Some (''delivery:'' @ lower_case (order_status_name target) @ '':v''
                   @ int_text (ord_version (dop_order op) + 1))) db)"

definition recordTransition ::
  "env \<Rightarrow> delivery_operation \<Rightarrow> delivery_status \<Rightarrow> string \<Rightarrow> string option \<Rightarrow> string \<Rightarrow> 'a shop_db_scheme
     \<Rightarrow> 'a shop_db_scheme result" where
  "recordTransition e op target reasonCode note action db =
     (let d = dop_delivery op; o' = dop_order op
      in bindE (create_delivery_event e
           \<lparr> de_id = [], de_deliveryId = dlv_id d, de_fromStatus = Some (dlv_status d), de_toStatus = target,
             de_occurredAt = now e, de_actorUserId = Some (actor e), de_source = ''MANUAL_ADMIN'',
             de_reasonCode = Some reasonCode, de_note = note, de_payload = JNull,
             de_requestId = Some (requestId e) \<rparr> db) (\<lambda>(_, db1).
         bindE (create_status_history e
           \<lparr> sh_id = [], sh_orderId = ord_id o', sh_fromStatus = Some (ord_status o'), sh_toStatus = target,
             sh_reasonCode = Some reasonCode, sh_note = note, sh_changedByUserId = Some (actor e),
             sh_requestId = Some (requestId e), sh_createdAt = now e \<rparr> db1) (\<lambda>(_, db2).
         bindE (create_audit e (delivery_audit e d action
           (JObj [(''status'', JStr (order_status_name (dlv_status d))), (''version'', JNum (dlv_version d))])
           (JObj [(''status'', JStr (order_status_name target)), (''version'', JNum (dlv_version d + 1))])) db2)
           (\<lambda>(_, db3).
         notify_delivery e op target db3))))"

record transition_input =
  tr_targetStatus :: delivery_status
  tr_reasonCode :: "string option"
  tr_explanation :: "string option"
  tr_expectedVersion :: int

definition transition_guard :: "transition_input \<Rightarrow> delivery_operation \<Rightarrow> unit result" where
  "transition_guard input op =
     (let d = dop_delivery op; target = tr_targetStatus input
      in bindE (assertDeliveryVersion op (tr_expectedVersion input)) (\<lambda>_.
         require (\<not> (\<not> canTransitionDelivery (dlv_status d) target \<or> ord_status (dop_order op) \<noteq> dlv_status d))
           (conflict ''DELIVERY_TRANSITION_NOT_ALLOWED'') (
         require (\<not> (target \<in> COURIER_REQUIRED_TARGETS \<and> or_null (dlv_courierId d) = None))
           (conflict ''DELIVERY_COURIER_REQUIRED'') (
         if target \<in> EXPLANATION_REQUIRED_TARGETS
         then requireExplanation (tr_explanation input) ''DELIVERY_EXPLANATION_REQUIRED'' else Inr ()))))"

definition transition_times :: "env \<Rightarrow> delivery_status \<Rightarrow> delivery \<Rightarrow> delivery" where
  "transition_times e target d =
     d\<lparr> dlv_handedToCourierAt := (if target = HANDED_TO_COURIER then Some (now e) else dlv_handedToCourierAt d),
        dlv_nextAttemptAt := (if target = OUT_FOR_DELIVERY then None else dlv_nextAttemptAt d) \<rparr>"

definition delivery_transition ::
  "env \<Rightarrow> string \<Rightarrow> transition_input \<Rightarrow> 'a delivery_db_scheme \<Rightarrow> (delivery_detail \<times> 'a delivery_db_scheme) result" where
  "delivery_transition e did input db =
     bindE (lockDelivery db did) (\<lambda>op.
     bindE (transition_guard input op) (\<lambda>_.
     bindE (updateMirroredStatus op (tr_targetStatus input) (transition_times e (tr_targetStatus input)) db) (\<lambda>db1.
     bindE (recordTransition e op (tr_targetStatus input)
              (case trim_or_null (tr_reasonCode input) of Some c \<Rightarrow> c | None \<Rightarrow> ''MANUAL_TRANSITION'')
              (map_option trim (tr_explanation input)) ''delivery.status.changed'' db1) (\<lambda>db2.
     bindE (delivery_answer db2 did) (\<lambda>r. Inr (r, db2))))))"

section \<open>Failed attempts\<close>

record attempt_input =
  atp_outcome :: attempt_outcome
  atp_explanation :: "string option"
  atp_nextAttemptAt :: "int option"
  atp_expectedVersion :: int

definition next_attempt :: "env \<Rightarrow> attempt_input \<Rightarrow> int option result" where
  "next_attempt e input =
     (if atp_outcome input = ATTEMPT_RESCHEDULED then
        bindE (some_or (atp_nextAttemptAt input) (badRequest ''NEXT_ATTEMPT_REQUIRED'')) (\<lambda>t.
        require (\<not> t \<le> now e) (badRequest ''NEXT_ATTEMPT_INVALID'') (Inr (Some t)))
      else require (atp_nextAttemptAt input = None) (badRequest ''NEXT_ATTEMPT_NOT_APPLICABLE'') (Inr None))"

text \<open>The guards of an attempt; their result is the time of the next one and the status to take on.\<close>

definition attempt_guard ::
  "env \<Rightarrow> attempt_input \<Rightarrow> delivery_operation \<Rightarrow> (int option \<times> delivery_status) result" where
  "attempt_guard e input op =
     bindE (assertDeliveryVersion op (atp_expectedVersion input)) (\<lambda>_.
     require (\<not> (dlv_status (dop_delivery op) \<noteq> OUT_FOR_DELIVERY \<or> ord_status (dop_order op) \<noteq> OUT_FOR_DELIVERY))
       (conflict ''DELIVERY_ATTEMPT_NOT_ALLOWED'') (
     bindE (if atp_outcome input = OTHER_FAILED
            then requireExplanation (atp_explanation input) ''OTHER_FAILURE_EXPLANATION_REQUIRED'' else Inr ()) (\<lambda>_.
     bindE (next_attempt e input) (\<lambda>nextAttemptAt.
     bindE (some_or (ATTEMPT_OUTCOME_STATUS (atp_outcome input))
              (conflict ''DELIVERY_ATTEMPT_OUTCOME_NOT_ALLOWED'')) (\<lambda>target.
     require (canTransitionDelivery (dlv_status (dop_delivery op)) target)
       (conflict ''DELIVERY_ATTEMPT_OUTCOME_NOT_ALLOWED'') (
     Inr (nextAttemptAt, target)))))))"

definition delivery_age_event ::
  "env \<Rightarrow> delivery_operation \<Rightarrow> age_result \<Rightarrow> string option \<Rightarrow> age_event" where
  "delivery_age_event e op result reasonCode =
     \<lparr> ae_id = [], ae_customerId = ord_customerId (dop_order op), ae_orderId = Some (ord_id (dop_order op)),
       ae_deliveryId = Some (dlv_id (dop_delivery op)), ae_phase = ''DELIVERY'', ae_result = result,
       ae_minimumAge = ord_minimumAge (dop_order op), ae_method = ''MANUAL_ADMIN'', ae_reasonCode = reasonCode,
       ae_verifierUserId = Some (actor e), ae_occurredAt = now e, ae_ipAddress = None, ae_userAgent = None \<rparr>"

definition attempt_age_result :: "attempt_input \<Rightarrow> delivery_operation \<Rightarrow> age_result" where
  "attempt_age_result input op =
     (if atp_outcome input = FAILED_AGE_VERIFICATION then AGE_FAILED
      else dlv_ageVerificationResult (dop_delivery op))"

definition attempt_row :: "env \<Rightarrow> attempt_input \<Rightarrow> delivery_operation \<Rightarrow> int option \<Rightarrow> attempt" where
  "attempt_row e input op nextAttemptAt =
     \<lparr> att_id = [], att_deliveryId = dlv_id (dop_delivery op), att_number = dop_lastAttempt op + 1,
       att_attemptedAt = now e, att_outcome = atp_outcome input,
       att_notes = map_option trim (atp_explanation input), att_nextAttemptAt = nextAttemptAt,
       att_ageVerificationResult = attempt_age_result input op,
       att_cashExpectedMillimes = Some (ord_expectedCodMillimes (dop_order op)),
       att_cashCollectedMillimes = None, att_recordedByUserId = Some (actor e) \<rparr>"

definition write_attempt ::
  "env \<Rightarrow> attempt_input \<Rightarrow> delivery_operation \<Rightarrow> int option \<Rightarrow> 'a delivery_db_scheme \<Rightarrow> 'a delivery_db_scheme result" where
  "write_attempt e input op nextAttemptAt db =
     bindE (create_attempt e (attempt_row e input op nextAttemptAt) db) (\<lambda>(_, db1).
     if atp_outcome input = FAILED_AGE_VERIFICATION
     then bindE (create_age_event e (delivery_age_event e op AGE_FAILED (Some ''FAILED_AGE_VERIFICATION'')) db1)
            (\<lambda>(_, db2). Inr db2)
     else Inr db1)"

definition delivery_recordAttempt ::
  "env \<Rightarrow> string \<Rightarrow> attempt_input \<Rightarrow> 'a delivery_db_scheme \<Rightarrow> (delivery_detail \<times> 'a delivery_db_scheme) result" where
  "delivery_recordAttempt e did input db =
     bindE (lockDelivery db did) (\<lambda>op.
     bindE (attempt_guard e input op) (\<lambda>(nextAttemptAt, target).
     bindE (write_attempt e input op nextAttemptAt db) (\<lambda>db1.
     bindE (updateMirroredStatus op target
              (\<lambda>x. x\<lparr> dlv_nextAttemptAt := nextAttemptAt,
                      dlv_ageVerificationResult := attempt_age_result input op \<rparr>) db1) (\<lambda>db2.
     bindE (recordTransition e op target (outcome_name (atp_outcome input))
              (map_option trim (atp_explanation input)) ''delivery.attempt.recorded'' db2) (\<lambda>db3.
     bindE (delivery_answer db3 did) (\<lambda>r. Inr (r, db3)))))))"

section \<open>Completing a delivery\<close>

definition accountableCashForDeliveryCompletion :: "collection \<times> discrepancy option \<Rightarrow> int result" where
  "accountableCashForDeliveryCompletion cd =
     (let c = fst cd; collected = (col_status c \<in> COLLECTED_CASH_STATUSES)
      in bindE (cashDifference (col_expectedMillimes c) (col_collectedMillimes c)) (\<lambda>difference.
         case snd cd of
           None \<Rightarrow>
             require (\<not> (difference \<noteq> 0 \<and> collected)) (conflict ''COD_COLLECTION_DISCREPANCY_LINK_MISSING'') (
             Inr (if collected then col_collectedMillimes c else 0))
         | Some d \<Rightarrow>
             require (\<not> (dc_collectionId d \<noteq> Some (col_id c) \<or> dc_expectedMillimes d \<noteq> col_expectedMillimes c
                         \<or> dc_actualMillimes d \<noteq> col_collectedMillimes c \<or> dc_differenceMillimes d \<noteq> difference))
               (conflict ''COD_COLLECTION_DISCREPANCY_INVALID'') (
             require (dc_status d = DC_RESOLVED) (conflict ''COD_COLLECTION_DISCREPANCY_UNRESOLVED'') (
             require collected (conflict ''COD_COLLECTION_DISCREPANCY_INVALID'') (
             Inr (col_expectedMillimes c))))))"

text \<open>\<open>reduce\<close> with exact sums.\<close>

definition collected_for_completion :: "delivery_operation \<Rightarrow> int result" where
  "collected_for_completion op =
     foldE (\<lambda>cd sum. bindE (accountableCashForDeliveryCompletion cd) (\<lambda>v. Inr (sum + v))) (dop_collections op) 0"

definition age_failure_recorded :: "'a delivery_db_scheme \<Rightarrow> string \<Rightarrow> bool" where
  "age_failure_recorded db did =
     (0 < count_where (\<lambda>a. att_deliveryId a = did \<and> att_outcome a = FAILED_AGE_VERIFICATION) (attempts db)
      \<or> 0 < count_where (\<lambda>v. ae_deliveryId v = Some did \<and> ae_phase v = ''DELIVERY''
               \<and> ae_result v \<in> NEGATIVE_AGE_RESULTS) (age_events db))"

definition completion_source :: "order \<Rightarrow> delivery_status" where
  "completion_source o' = (if ord_methodType o' = STORE_PICKUP then READY_FOR_PICKUP else OUT_FOR_DELIVERY)"

definition completion_guard ::
  "'a delivery_db_scheme \<Rightarrow> delivery_operation \<Rightarrow> int \<Rightarrow> age_result \<Rightarrow> int result" where
  "completion_guard db op expectedVersion ageResult =
     (let d = dop_delivery op; o' = dop_order op
      in bindE (assertDeliveryVersion op expectedVersion) (\<lambda>_.
         require (\<not> (dlv_status d \<noteq> completion_source o' \<or> ord_status o' \<noteq> completion_source o'
                     \<or> \<not> canTransitionDelivery (dlv_status d) DELIVERED))
           (conflict ''DELIVERY_COMPLETION_NOT_ALLOWED'') (
         require (\<not> (ord_methodType o' = COURIER \<and> or_null (dlv_courierId d) = None))
           (conflict ''DELIVERY_COURIER_REQUIRED'') (
         require (\<not> ((dlv_ageVerificationRequired d \<and> ageResult \<noteq> AGE_PASSED)
                     \<or> (\<not> dlv_ageVerificationRequired d \<and> ageResult \<noteq> NOT_REQUIRED)))
           (conflict ''AGE_VERIFICATION_RESULT_INVALID'') (
         require (dlv_ageVerificationResult d \<notin> NEGATIVE_AGE_RESULTS)
           (conflict ''AGE_VERIFICATION_FAILURE_TERMINAL'') (
         require (\<not> age_failure_recorded db (dlv_id d)) (conflict ''AGE_VERIFICATION_FAILURE_TERMINAL'') (
         bindE (collected_for_completion op) (\<lambda>collectedMillimes.
         require (\<not> (ord_expectedCodMillimes o' > 0
                     \<and> (collectedMillimes \<noteq> ord_expectedCodMillimes o'
                        \<or> ord_paymentStatus o' \<notin> CASH_PAYMENT_STATUSES)))
           (conflict ''COD_COLLECTION_REQUIRED'') (
         Inr collectedMillimes)))))))))"

definition completion_row :: "env \<Rightarrow> delivery_operation \<Rightarrow> age_result \<Rightarrow> int \<Rightarrow> attempt" where
  "completion_row e op ageResult collectedMillimes =
     \<lparr> att_id = [], att_deliveryId = dlv_id (dop_delivery op), att_number = dop_lastAttempt op + 1,
       att_attemptedAt = now e, att_outcome = ATTEMPT_DELIVERED, att_notes = None, att_nextAttemptAt = None,
       att_ageVerificationResult = ageResult,
       att_cashExpectedMillimes = Some (ord_expectedCodMillimes (dop_order op)),
       att_cashCollectedMillimes = Some collectedMillimes, att_recordedByUserId = Some (actor e) \<rparr>"

definition write_completion ::
  "env \<Rightarrow> delivery_operation \<Rightarrow> age_result \<Rightarrow> int \<Rightarrow> 'a delivery_db_scheme \<Rightarrow> 'a delivery_db_scheme result" where
  "write_completion e op ageResult collectedMillimes db =
     bindE (create_attempt e (completion_row e op ageResult collectedMillimes) db) (\<lambda>(_, db1).
     bindE (create_age_event e (delivery_age_event e op ageResult None) db1) (\<lambda>(_, db2). Inr db2))"

definition delivery_complete ::
  "env \<Rightarrow> string \<Rightarrow> int \<Rightarrow> age_result \<Rightarrow> 'a delivery_db_scheme \<Rightarrow> (delivery_detail \<times> 'a delivery_db_scheme) result" where
  "delivery_complete e did expectedVersion ageResult db =
     bindE (lockDelivery db did) (\<lambda>op.
     bindE (completion_guard db op expectedVersion ageResult) (\<lambda>collectedMillimes.
     bindE (write_completion e op ageResult collectedMillimes db) (\<lambda>db1.
     bindE (updateMirroredStatus op DELIVERED
              (\<lambda>x. x\<lparr> dlv_deliveredAt := Some (now e), dlv_ageVerificationResult := ageResult,
                      dlv_cashCollectedResult := (if ord_expectedCodMillimes (dop_order op) > 0 then Some True else None),
                      dlv_nextAttemptAt := None \<rparr>) db1) (\<lambda>db2.
     bindE (recordTransition e op DELIVERED ''MANUAL_DELIVERY_COMPLETED'' None ''delivery.completed'' db2) (\<lambda>db3.
     bindE (delivery_answer db3 did) (\<lambda>r. Inr (r, db3)))))))"

definition delivery_completeReturn ::
  "env \<Rightarrow> string \<Rightarrow> int \<Rightarrow> string \<Rightarrow> 'a delivery_db_scheme \<Rightarrow> (delivery_detail \<times> 'a delivery_db_scheme) result" where
  "delivery_completeReturn e did expectedVersion reason db =
     bindE (lockDelivery db did) (\<lambda>op.
     bindE (assertDeliveryVersion op expectedVersion) (\<lambda>_.
     bindE (requireExplanation (Some reason) ''RETURN_EXPLANATION_REQUIRED'') (\<lambda>_.
     require (\<not> (dlv_status (dop_delivery op) \<noteq> RETURN_TO_SENDER \<or> ord_status (dop_order op) \<noteq> RETURN_TO_SENDER
                 \<or> \<not> canTransitionDelivery (dlv_status (dop_delivery op)) RETURNED))
       (conflict ''DELIVERY_RETURN_COMPLETION_NOT_ALLOWED'') (
     bindE (updateMirroredStatus op RETURNED (\<lambda>x. x) db) (\<lambda>db1.
     bindE (recordTransition e op RETURNED ''RETURN_RECEIVED'' (Some (trim reason)) ''delivery.return.completed'' db1)
       (\<lambda>db2.
     bindE (delivery_answer db2 did) (\<lambda>r. Inr (r, db2))))))))"

end
