(* ===== verification/Characters.thy ===== *)
theory Characters
  imports Prelude
begin

text \<open>
  The character classes of the regular expressions: \<open>A-Z\<close>, \<open>a-z\<close> and \<open>\d\<close>, and what the decimal text
  of a number consists of.
\<close>

definition upper_letter :: "char \<Rightarrow> bool" where
  "upper_letter c = (65 \<le> (of_char c :: nat) \<and> (of_char c :: nat) \<le> 90)"

definition lower_letter :: "char \<Rightarrow> bool" where
  "lower_letter c = (97 \<le> (of_char c :: nat) \<and> (of_char c :: nat) \<le> 122)"

definition decimal_digit :: "char \<Rightarrow> bool" where
  "decimal_digit c = (48 \<le> (of_char c :: nat) \<and> (of_char c :: nat) \<le> 57)"

text \<open>\<open>Number\<close> on a text of digits.\<close>

definition read_number :: "string \<Rightarrow> int" where
  "read_number s = foldl (\<lambda>n c. n * 10 + (of_char c - 48)) 0 s"


lemma digit_code: "n < 10 \<Longrightarrow> (of_char (char_of (48 + n :: nat) :: char) :: int) = 48 + int n"
proof -
  assume "n < 10"
  have "char_of (48 + n) = (char_of (int (48 + n)) :: char)" by (simp only: char_of_nat)
  then show ?thesis using \<open>n < 10\<close> by simp
qed

lemma digits_digit: "list_all decimal_digit (digits n)"
proof (induction n rule: digits.induct)
  case (1 n)
  have "decimal_digit (char_of (48 + m))" if "m < 10" for m :: nat using that by (simp add: decimal_digit_def)
  then show ?case using 1 by (subst digits.simps) simp
qed

lemma read_digits: "read_number (digits n) = int n"
proof (induction n rule: digits.induct)
  case (1 n)
  show ?case
  proof (cases "n < 10")
    case True
    then have "digits n = [char_of (48 + n)]" by (simp add: digits.simps)
    then show ?thesis using True digit_code [of n] by (simp add: read_number_def)
  next
    case False
    then have "digits n = digits (n div 10) @ [char_of (48 + n mod 10)]" by (subst digits.simps) simp
    then have "read_number (digits n) = int (n div 10) * 10 + int (n mod 10)"
      using 1 False digit_code [of "n mod 10"] by (simp add: read_number_def)
    then show ?thesis by presburger
  qed
qed

lemma digits_length: "n < 10 ^ k \<Longrightarrow> 0 < k \<Longrightarrow> length (digits n) \<le> k"
proof (induction k arbitrary: n)
  case (Suc k)
  show ?case
  proof (cases "n < 10")
    case True
    then show ?thesis by (simp add: digits.simps)
  next
    case False
    then have "n div 10 < 10 ^ k" and "0 < k" using Suc.prems by (auto simp: less_mult_imp_div_less intro: gr0I)
    then show ?thesis using Suc.IH [of "n div 10"] False by (subst digits.simps) simp
  qed
qed simp

lemma digits_not_empty [simp]: "digits n \<noteq> []"
  by (subst digits.simps) simp

lemma hd_digits: "0 < n \<Longrightarrow> hd (digits n) \<noteq> CHR ''0''"
proof (induction n rule: digits.induct)
  case (1 n)
  show ?case
  proof (cases "n < 10")
    case True
    have "(of_char (char_of (48 + n) :: char) :: nat) \<noteq> of_char CHR ''0''" using True 1 by simp
    then have "char_of (48 + n) \<noteq> CHR ''0''" by metis
    then show ?thesis using True by (simp add: digits.simps)
  next
    case False
    then have "hd (digits n) = hd (digits (n div 10))" by (subst digits.simps) simp
    then show ?thesis using 1 False by simp
  qed
qed

end
