(* ===== verification/CourierMessage.thy ===== *)
theory CourierMessage
  imports Deliveries Characters
begin

text \<open>
  \<open>delivery/courier-whatsapp.ts\<close> and the two handlers of \<open>delivery/admin-deliveries.service.ts\<close> that
  use it: the message a courier is sent by hand, rendered from a template, cleaned of control
  characters and put into a link.  Texts are code units up to 255, so of the unsafe characters the soft
  hyphen and of the line separators the next-line character occur.
\<close>

section \<open>Rendering a template\<close>

definition COURIER_WHATSAPP_TEMPLATE_MAX_LENGTH :: nat where "COURIER_WHATSAPP_TEMPLATE_MAX_LENGTH = 2000"
definition COURIER_WHATSAPP_RENDERED_MAX_LENGTH :: nat where "COURIER_WHATSAPP_RENDERED_MAX_LENGTH = 4000"

definition line_break :: char where "line_break = CHR 0x0A"

definition DEFAULT_COURIER_WHATSAPP_TEMPLATE :: string where
  "DEFAULT_COURIER_WHATSAPP_TEMPLATE = join_with [line_break]
     [''Commande {{orderNumber}}'', ''Client : {{customerName}}'',
      ''T'' @ [CHR 0xE9] @ ''l'' @ [CHR 0xE9] @ ''phone : {{customerPhone}}'', ''Adresse : {{deliveryAddress}}'',
      ''Gouvernorat : {{governorate}}'', ''D'' @ [CHR 0xE9] @ ''l'' @ [CHR 0xE9] @ ''gation : {{delegation}}'',
      ''Localit'' @ [CHR 0xE9] @ '' : {{locality}}'', ''Montant '' @ [CHR 0xE0] @ '' encaisser : {{amountToCollect}}'',
      ''Notes : {{orderNotes}}'']"

definition COURIER_WHATSAPP_TEMPLATE_TOKENS :: "string list" where
  "COURIER_WHATSAPP_TEMPLATE_TOKENS =
     [''orderNumber'', ''customerName'', ''customerPhone'', ''deliveryAddress'', ''governorate'', ''delegation'',
      ''locality'', ''amountToCollect'', ''orderNotes'']"

text \<open>The values of the tokens; a token without one has a value that is not a string.\<close>

type_synonym template_values = "string \<Rightarrow> string option"

text \<open>Line breaks become line feeds; other control characters and unsafe format characters go.\<close>

fun normalize_breaks :: "string \<Rightarrow> string" where
  "normalize_breaks [] = []"
| "normalize_breaks (c # cs) =
     (if c = CHR 0x0D then
        (case cs of
           d # ds \<Rightarrow> if d = line_break then line_break # normalize_breaks ds else line_break # normalize_breaks cs
         | [] \<Rightarrow> [line_break])
      else if c = CHR 0x85 then line_break # normalize_breaks cs
      else c # normalize_breaks cs)"

definition kept_character :: "char \<Rightarrow> bool" where
  "kept_character c =
     (c = line_break
      \<or> (let n = (of_char c :: nat) in \<not> (n \<le> 31 \<or> (127 \<le> n \<and> n \<le> 159) \<or> n = 173)))"

definition sanitizeMessageText :: "string \<Rightarrow> string" where
  "sanitizeMessageText v = filter kept_character (normalize_breaks v)"

definition appendWithinRenderedLimit :: "string \<Rightarrow> string \<Rightarrow> string result" where
  "appendWithinRenderedLimit current v =
     require (\<not> length current + length v > COURIER_WHATSAPP_RENDERED_MAX_LENGTH)
       (conflict ''COURIER_WHATSAPP_MESSAGE_TOO_LONG'') (Inr (current @ v))"

text \<open>
  \<open>TEMPLATE_TOKEN_PATTERN\<close> at the start of a text: the name between the braces and what follows
  them.
\<close>

definition letter_char :: "char \<Rightarrow> bool" where
  "letter_char c = (upper_letter c \<or> lower_letter c)"

definition name_char :: "char \<Rightarrow> bool" where
  "name_char c = (letter_char c \<or> decimal_digit c)"

definition token_at :: "string \<Rightarrow> (string \<times> string) option" where
  "token_at s =
     (case s of
        a # b # r \<Rightarrow>
          if a = CHR ''{'' \<and> b = CHR ''{'' then
            (let name = takeWhile name_char r; r1 = dropWhile name_char r
             in if name \<noteq> [] \<and> letter_char (hd name) \<and> take 2 r1 = ''}}'' then Some (name, drop 2 r1) else None)
          else None
      | _ \<Rightarrow> None)"

text \<open>\<open>matchAll\<close>: the literal in front of the first token, its name and the rest.\<close>

fun next_token :: "string \<Rightarrow> (string \<times> string \<times> string) option" where
  "next_token s =
     (case token_at s of
        Some (name, rest) \<Rightarrow> Some ([], name, rest)
      | None \<Rightarrow> (case s of
          [] \<Rightarrow> None
        | c # cs \<Rightarrow> map_option (\<lambda>(literal, name, rest). (c # literal, name, rest)) (next_token cs)))"

declare next_token.simps [simp del]

definition plain_text :: "string \<Rightarrow> bool" where
  "plain_text s = list_all (\<lambda>c. c \<noteq> CHR ''{'' \<and> c \<noteq> CHR ''}'') s"

definition malformed_token :: exn where
  "malformed_token = conflict ''COURIER_WHATSAPP_TEMPLATE_TOKEN_MALFORMED''"

lemma token_at_shorter: "token_at s = Some (name, rest) \<Longrightarrow> length rest < length s"
proof -
  assume t: "token_at s = Some (name, rest)"
  then obtain r where r: "rest = drop 2 (dropWhile name_char r)" and "length r < length s"
    by (auto simp: token_at_def Let_def split: list.splits if_splits)
  moreover have "length (dropWhile name_char r) \<le> length r" by (rule length_dropWhile_le)
  ultimately show ?thesis by simp
qed

lemma next_token_shorter: "next_token s = Some (literal, name, rest) \<Longrightarrow> length rest < length s"
proof (induction s arbitrary: literal)
  case Nil
  then show ?case by (subst (asm) next_token.simps) (auto dest: token_at_shorter split: option.splits)
next
  case (Cons c cs)
  from Cons.prems consider (here) n r where "token_at (c # cs) = Some (n, r)" "rest = r"
    | (later) l where "next_token cs = Some (l, name, rest)"
    by (subst (asm) next_token.simps) (auto split: option.splits)
  then show ?case
  proof cases
    case here
    then show ?thesis using token_at_shorter [of "c # cs"] by simp
  next
    case later
    then show ?thesis using Cons.IH [of l] by simp
  qed
qed

function render_from :: "template_values \<Rightarrow> string \<Rightarrow> string \<Rightarrow> string result" where
  "render_from values rendered s =
     (case next_token s of
        None \<Rightarrow>
          require (plain_text s) malformed_token (
          appendWithinRenderedLimit rendered (sanitizeMessageText s))
      | Some (literal, name, rest) \<Rightarrow>
          require (plain_text literal) malformed_token (
          require (name \<in> set COURIER_WHATSAPP_TEMPLATE_TOKENS) (conflict ''COURIER_WHATSAPP_TEMPLATE_TOKEN_UNKNOWN'') (
          bindE (some_or (values name) (conflict ''COURIER_WHATSAPP_VALUE_INVALID'')) (\<lambda>value.
          require (\<not> length value > COURIER_WHATSAPP_RENDERED_MAX_LENGTH)
            (conflict ''COURIER_WHATSAPP_MESSAGE_TOO_LONG'') (
          bindE (appendWithinRenderedLimit rendered (sanitizeMessageText literal)) (\<lambda>r1.
          bindE (appendWithinRenderedLimit r1 (sanitizeMessageText value)) (\<lambda>r2.
          render_from values r2 rest)))))))"
  by pat_completeness auto
termination
  by (relation "measure (\<lambda>(_, _, s). length s)") (auto dest: next_token_shorter)

declare render_from.simps [simp del]

definition renderCourierWhatsAppTemplate :: "string \<Rightarrow> template_values \<Rightarrow> string result" where
  "renderCourierWhatsAppTemplate template values =
     require (template \<noteq> []) (conflict ''COURIER_WHATSAPP_TEMPLATE_EMPTY'') (
     require (\<not> length template > COURIER_WHATSAPP_TEMPLATE_MAX_LENGTH)
       (conflict ''COURIER_WHATSAPP_TEMPLATE_TOO_LONG'') (
     bindE (render_from values [] template) (\<lambda>renderedMessage.
     require (length (trim renderedMessage) \<noteq> 0) (conflict ''COURIER_WHATSAPP_MESSAGE_EMPTY'') (
     Inr renderedMessage))))"

section \<open>The link\<close>

text \<open>\<open>E164_PHONE_PATTERN\<close> and \<open>TUNISIAN_PHONE_PATTERN\<close>.\<close>

definition E164_PHONE_PATTERN :: "string \<Rightarrow> bool" where
  "E164_PHONE_PATTERN s =
     (case s of
        p # d # r \<Rightarrow> p = CHR ''+'' \<and> decimal_digit d \<and> d \<noteq> CHR ''0'' \<and> list_all decimal_digit r
                    \<and> 7 \<le> length r \<and> length r \<le> 14
      | _ \<Rightarrow> False)"

definition TUNISIAN_PHONE_PATTERN :: "string \<Rightarrow> bool" where
  "TUNISIAN_PHONE_PATTERN s =
     (length s = 12 \<and> take 4 s = ''+216'' \<and> s ! 4 \<in> {CHR ''2'', CHR ''4'', CHR ''5'', CHR ''7'', CHR ''9''}
      \<and> list_all decimal_digit (drop 5 s))"

definition validateCourierPhoneE164 :: "string \<Rightarrow> unit result" where
  "validateCourierPhoneE164 phone =
     require (\<not> (\<not> E164_PHONE_PATTERN phone \<or> (take 4 phone = ''+216'' \<and> \<not> TUNISIAN_PHONE_PATTERN phone)))
       (conflict ''COURIER_WHATSAPP_PHONE_INVALID'') (Inr ())"

text \<open>\<open>encodeURIComponent\<close> on code units up to 255: one byte below 128, two above.\<close>

definition uri_plain :: "char \<Rightarrow> bool" where
  "uri_plain c = (name_char c \<or> c \<in> set ''-_.!~*()'' \<or> c = CHR 0x27)"

definition upper_hex :: "nat \<Rightarrow> char" where
  "upper_hex n = (if n < 10 then char_of (48 + n) else char_of (55 + n))"

definition percent_byte :: "nat \<Rightarrow> string" where
  "percent_byte n = [CHR 0x25, upper_hex (n div 16), upper_hex (n mod 16)]"

definition encode_char :: "char \<Rightarrow> string" where
  "encode_char c =
     (let n = (of_char c :: nat)
      in if uri_plain c then [c]
         else if n < 128 then percent_byte n
         else percent_byte (192 + n div 64) @ percent_byte (128 + n mod 64))"

definition encodeURIComponent :: "string \<Rightarrow> string" where
  "encodeURIComponent s = concat (map encode_char s)"

record whatsapp_link =
  wl_renderedMessage :: string
  wl_url :: string

definition buildCourierWhatsAppLink :: "string \<Rightarrow> string \<Rightarrow> template_values \<Rightarrow> whatsapp_link result" where
  "buildCourierWhatsAppLink phone template values =
     bindE (validateCourierPhoneE164 phone) (\<lambda>_.
     bindE (renderCourierWhatsAppTemplate template values) (\<lambda>renderedMessage.
     Inr \<lparr> wl_renderedMessage = renderedMessage,
           wl_url = ''https://wa.me/'' @ tl phone @ ''?text='' @ encodeURIComponent renderedMessage \<rparr>))"

section \<open>The handlers\<close>

definition COURIER_WHATSAPP_STATUSES :: "delivery_status set" where
  "COURIER_WHATSAPP_STATUSES = {CONFIRMED, ON_HOLD, PREPARING, READY_FOR_PICKUP, ASSIGNED_TO_COURIER,
     HANDED_TO_COURIER, IN_TRANSIT, OUT_FOR_DELIVERY, DELIVERY_ATTEMPTED, RESCHEDULED}"

definition formatMillimes :: "int \<Rightarrow> string" where
  "formatMillimes value =
     int_text (value div 1000) @ ''.'' @ pad_start 3 CHR ''0'' (int_text (value mod 1000)) @ '' TND''"

record whatsapp_preview = whatsapp_link +
  wp_courierId :: string
  wp_courierName :: string
  wp_phoneE164 :: string

definition requireCourierWhatsAppRecord ::
  "'a delivery_db_scheme \<Rightarrow> string \<Rightarrow> (delivery \<times> courier \<times> order) result" where
  "requireCourierWhatsAppRecord db did =
     bindE (some_or (find_delivery db did) (notFound ''DELIVERY_NOT_FOUND'')) (\<lambda>d.
     bindE (some_or (find_order db (dlv_orderId d)) (PrismaError ''INCONSISTENT'')) (\<lambda>o'.
     bindE (some_or (Option.bind (or_null (dlv_courierId d)) (find_courier db))
              (conflict ''DELIVERY_COURIER_REQUIRED'')) (\<lambda>c.
     require (dlv_status d \<in> COURIER_WHATSAPP_STATUSES) (conflict ''DELIVERY_COURIER_CONTACT_NOT_ALLOWED'') (
     require (cou_status c = COURIER_ACTIVE) (conflict ''COURIER_UNAVAILABLE'') (
     Inr (d, c, o'))))))"

definition delivery_address_text :: "order_address \<Rightarrow> string" where
  "delivery_address_text a =
     join_with '', '' (filter (\<lambda>s. s \<noteq> [])
       ([oa_street a] @ map (\<lambda>v. case v of None \<Rightarrow> [] | Some s \<Rightarrow> s)
          [oa_building a, oa_floor a, oa_apartment a, oa_landmark a, oa_postalCode a]))"

definition courier_values :: "order \<Rightarrow> order_address \<Rightarrow> template_values" where
  "courier_values o' a = map_of
     [(''orderNumber'', ord_number o'), (''customerName'', ord_customerName o'),
      (''customerPhone'', ord_customerPhone o'), (''deliveryAddress'', delivery_address_text a),
      (''governorate'', oa_governorateName a), (''delegation'', oa_delegationName a),
      (''locality'', oa_localityName a), (''amountToCollect'', formatMillimes (ord_expectedCodMillimes o')),
      (''orderNotes'', (case ord_instructions o' of Some i \<Rightarrow> i
                        | None \<Rightarrow> (case oa_instructions a of Some i \<Rightarrow> i | None \<Rightarrow> [])))]"

definition courier_template :: "courier \<Rightarrow> string" where
  "courier_template c = (case cou_whatsappTemplate c of Some t \<Rightarrow> t | None \<Rightarrow> DEFAULT_COURIER_WHATSAPP_TEMPLATE)"

text \<open>The address is the first snapshot of the order of type \<open>DELIVERY\<close>.\<close>

definition buildCourierWhatsAppPreview ::
  "'a delivery_db_scheme \<Rightarrow> courier \<Rightarrow> order \<Rightarrow> whatsapp_preview result" where
  "buildCourierWhatsAppPreview db c o' =
     bindE (some_or (List.find (\<lambda>a. oa_orderId a = ord_id o' \<and> \<not> oa_pickupContact a) (addresses db))
       (conflict ''DELIVERY_ADDRESS_UNAVAILABLE'')) (\<lambda>a.
     bindE (some_or (or_null (case cou_whatsappPhoneE164 c of Some p \<Rightarrow> Some p | None \<Rightarrow> cou_phoneE164 c))
       (conflict ''COURIER_WHATSAPP_PHONE_MISSING'')) (\<lambda>phone.
     bindE (buildCourierWhatsAppLink phone
              (courier_template c)
              (courier_values o' a)) (\<lambda>link.
     Inr \<lparr> wl_renderedMessage = wl_renderedMessage link, wl_url = wl_url link, wp_courierId = cou_id c,
           wp_courierName = cou_name c, wp_phoneE164 = phone \<rparr>)))"

definition getCourierWhatsApp ::
  "env \<Rightarrow> string \<Rightarrow> 'a delivery_db_scheme \<Rightarrow> (whatsapp_preview \<times> 'a delivery_db_scheme) result" where
  "getCourierWhatsApp e did db =
     bindE (requireCourierWhatsAppRecord db did) (\<lambda>(d, c, o').
     bindE (buildCourierWhatsAppPreview db c o') (\<lambda>preview.
     bindE (create_audit e (delivery_audit e d ''delivery.courier.whatsapp_previewed'' JNull
              (JObj [(''courierId'', jopt JStr (dlv_courierId d)), (''channel'', JStr ''WHATSAPP''),
                     (''manualOnly'', JBool True),
                     (''messageTemplateHash'', JStr (sha256 e (courier_template c)))])) db) (\<lambda>(_, db1).
     Inr (preview, db1))))"

record contact_answer =
  ca_detail :: delivery_detail
  ca_preview :: whatsapp_preview
  ca_contactedAt :: string

definition recordCourierWhatsAppContact ::
  "env \<Rightarrow> string \<Rightarrow> int \<Rightarrow> 'a delivery_db_scheme \<Rightarrow> (contact_answer \<times> 'a delivery_db_scheme) result" where
  "recordCourierWhatsAppContact e did expectedVersion db =
     bindE (lockDelivery db did) (\<lambda>op.
     bindE (assertDeliveryVersion op expectedVersion) (\<lambda>_.
     bindE (requireCourierWhatsAppRecord db did) (\<lambda>(_, c, o').
     bindE (buildCourierWhatsAppPreview db c o') (\<lambda>preview.
     let d = dop_delivery op
     in
     bindE (update_delivery d expectedVersion (\<lambda>x. x) db) (\<lambda>db1.
     bindE (create_delivery_event e
              (delivery_note_event e d ''COURIER_CONTACTED'' None
                 (JObj [(''courierId'', jopt JStr (dlv_courierId d)), (''channel'', JStr ''WHATSAPP''),
                        (''manualOnly'', JBool True),
                        (''messageTemplateHash'', JStr (sha256 e (courier_template c)))])) db1) (\<lambda>(_, db2).
     bindE (create_audit e (delivery_audit e d ''delivery.courier.contacted''
              (JObj [(''status'', JStr (order_status_name (dlv_status d))), (''version'', JNum (dlv_version d))])
              (JObj [(''status'', JStr (order_status_name (dlv_status d))), (''version'', JNum (dlv_version d + 1)),
                     (''courierId'', jopt JStr (dlv_courierId d)), (''channel'', JStr ''WHATSAPP''),
                     (''manualOnly'', JBool True)])) db2) (\<lambda>(_, db3).
     bindE (delivery_answer db3 did) (\<lambda>r.
     Inr (\<lparr> ca_detail = r, ca_preview = preview, ca_contactedAt = iso_string (now e) \<rparr>, db3)))))))))"

end
