(* ===== verification/DeliveryProofs.thy ===== *)
theory DeliveryProofs
  imports CourierMessage OrdersSpec CashProofs
begin

text \<open>
  What the delivery handlers keep: the stock and the cash tables are not theirs to write, an order and
  its delivery move together along the table of transitions, attempts are only ever added and are
  numbered from one, and a delivery is completed only with the age verified and the exact cash.
\<close>

section \<open>Reading a delivery\<close>

lemma lockDelivery_Inr:
  "lockDelivery db did = Inr op \<longleftrightarrow>
     (\<exists>d o'. find_delivery db did = Some d \<and> find_order db (dlv_orderId d) = Some o'
        \<and> op = delivery_operation_of db d o')"
  by (auto simp: lockDelivery_def)

lemma delivery_operation_simps [simp]:
  "dop_delivery (delivery_operation_of db d o') = d" "dop_order (delivery_operation_of db d o') = o'"
  by (simp_all add: delivery_operation_of_def)

lemma find_delivery_id: "find_delivery db did = Some d \<Longrightarrow> dlv_id d = did \<and> d \<in> set (deliveries db)"
  using find_SomeD [of _ "deliveries db" d] by (auto simp: find_delivery_def)

text \<open>A delivery that was read, with its order: both are still there, whatever has become of them.\<close>

definition read_from :: "'a shop_db_scheme \<Rightarrow> delivery_operation \<Rightarrow> bool" where
  "read_from db op =
     ((\<exists>d\<in>set (deliveries db). dlv_id d = dlv_id (dop_delivery op) \<and> dlv_orderId d = ord_id (dop_order op))
      \<and> (\<exists>x\<in>set (orders db). ord_id x = ord_id (dop_order op)))"

lemma lockDelivery_read:
  assumes "lockDelivery db did = Inr op"
  shows "read_from db op" and "dlv_id (dop_delivery op) = did"
  using assms find_delivery_id find_order_id by (fastforce simp: lockDelivery_Inr read_from_def)+

text \<open>What \<open>in_step\<close> looks at.\<close>

definition order_key :: "order \<Rightarrow> string \<times> order_status" where
  "order_key o' = (ord_id o', ord_status o')"

definition delivery_key :: "delivery \<Rightarrow> string \<times> string \<times> delivery_status" where
  "delivery_key d = (dlv_id d, dlv_orderId d, dlv_status d)"

lemma in_step_keys:
  "in_step db =
     (let os = map order_key (orders db); ds = map delivery_key (deliveries db)
      in distinct (map fst os) \<and> distinct (map fst ds) \<and> distinct (map (fst \<circ> snd) ds)
         \<and> (\<forall>x\<in>set os. \<forall>y\<in>set ds. fst (snd y) = fst x \<longrightarrow> snd (snd y) = snd x))"
  by (simp add: in_step_def Let_def order_key_def delivery_key_def o_def)

lemma in_step_cong:
  "map order_key (orders db') = map order_key (orders db) \<Longrightarrow>
   map delivery_key (deliveries db') = map delivery_key (deliveries db) \<Longrightarrow> in_step db' = in_step db"
  by (simp only: in_step_keys)

lemma orders_progress_keys:
  "map order_key os' = map order_key os \<Longrightarrow> orders_progress os os'"
proof -
  assume keys: "map order_key os' = map order_key os"
  show ?thesis unfolding orders_progress_def
  proof
    fix x assume "x \<in> set os"
    then have "order_key x \<in> set (map order_key os')" unfolding keys by simp
    then obtain y where "y \<in> set os'" "order_key y = order_key x" by auto
    then show "\<exists>y\<in>set os'. ord_id y = ord_id x \<and> reaches ORDER_STATUS_TRANSITIONS (ord_status x) (ord_status y)"
      by (intro bexI [of _ y]) (simp_all add: order_key_def reaches.here)
  qed
qed

section \<open>What a delivery handler may write\<close>

text \<open>\<open>numbered db\<close>: the attempts of every delivery are numbered one, two, three and so on.\<close>

definition numbered :: "'a delivery_db_scheme \<Rightarrow> bool" where
  "numbered db = (\<forall>did. map att_number (attempts_of db did) = [1..<Suc (length (attempts_of db did))])"

definition attempts_grow :: "'a delivery_db_scheme \<Rightarrow> 'a delivery_db_scheme \<Rightarrow> bool" where
  "attempts_grow db db' = ((\<exists>new. attempts db' = attempts db @ new) \<and> (numbered db \<longrightarrow> numbered db'))"

lemma attempts_grow_refl [simp]: "attempts db' = attempts db \<Longrightarrow> attempts_grow db db'"
  by (simp add: attempts_grow_def numbered_def attempts_of_def)

lemma attempts_grow_trans: "attempts_grow a b \<Longrightarrow> attempts_grow b c \<Longrightarrow> attempts_grow a c"
  by (auto simp: attempts_grow_def)

definition delivery_frame :: "'a delivery_db_scheme \<Rightarrow> 'a delivery_db_scheme \<Rightarrow> bool" where
  "delivery_frame db db' =
     (items db' = items db \<and> movements db' = movements db \<and> reservations db' = reservations db
      \<and> same_cash db db' \<and> orders_progress (orders db) (orders db') \<and> (in_step db \<longrightarrow> in_step db')
      \<and> attempts_grow db db' \<and> carts db' = carts db)"

lemma delivery_frame_trans [trans]: "delivery_frame a b \<Longrightarrow> delivery_frame b c \<Longrightarrow> delivery_frame a c"
  unfolding delivery_frame_def by (auto intro: orders_progress_trans attempts_grow_trans)

text \<open>A record that is only added to a log.\<close>

definition logged :: "'a delivery_db_scheme \<Rightarrow> 'a delivery_db_scheme \<Rightarrow> bool" where
  "logged db db' = (untouched db db' \<and> cash_db.more db' = cash_db.more db \<and> same_cash db db')"

lemma logged_refl [simp]: "logged db db"
  by (simp add: logged_def)

lemma logged_trans [trans]: "logged a b \<Longrightarrow> logged b c \<Longrightarrow> logged a c"
  by (auto simp: logged_def intro: untouched_trans)

lemma more_attempts: "cash_db.more db' = cash_db.more db \<Longrightarrow> attempts db' = attempts db"
  by (cases db; cases db') simp

lemma logged_frame: "logged db db' \<Longrightarrow> delivery_frame db db'"
  using in_step_untouched [of db db'] more_attempts [of db' db]
  by (simp add: logged_def delivery_frame_def untouched_def)

lemma creates_logged:
  "create_delivery_event e row1 db = Inr (v, db') \<Longrightarrow> logged db db'"
  "create_status_history e row2 db = Inr (h, db') \<Longrightarrow> logged db db'"
  "create_audit e row3 db = Inr (a, db') \<Longrightarrow> logged db db'"
  "create_age_event e row4 db = Inr (ae, db') \<Longrightarrow> logged db db'"
  by (auto simp: logged_def untouched_def Let_def create_audit_Inr)

lemma create_attempt_frame:
  assumes "create_attempt e row db = Inr (a, db')"
    and "numbered db \<Longrightarrow> att_number row = Suc (length (attempts_of db (att_deliveryId row)))"
  shows "delivery_frame db db'" and "att_deliveryId a = att_deliveryId row" "att_outcome a = att_outcome row"
    and "attempts db' = attempts db @ [a]" and "orders db' = orders db" "deliveries db' = deliveries db"
proof -
  from assms(1) have a: "a = row\<lparr> att_id := fresh_id e db \<rparr>"
    and db': "db' = db\<lparr> attempts := attempts db @ [a], seq := Suc (seq db) \<rparr>" by (auto simp: Let_def)
  show "att_deliveryId a = att_deliveryId row" "att_outcome a = att_outcome row"
    "attempts db' = attempts db @ [a]" "orders db' = orders db" "deliveries db' = deliveries db"
    by (simp_all add: a db')
  have "numbered db'" if n: "numbered db"
    unfolding numbered_def
  proof
    fix did
    show "map att_number (attempts_of db' did) = [1..<Suc (length (attempts_of db' did))]"
      using n assms(2) by (auto simp: numbered_def attempts_of_def db' a)
  qed
  then show "delivery_frame db db'"
    by (auto simp: db' delivery_frame_def attempts_grow_def in_step_def)
qed

text \<open>The guarded update of one delivery.\<close>

lemma update_delivery_frame:
  assumes run: "update_delivery d v f db = Inr db'"
    and f: "\<And>x. dlv_id (f x) = dlv_id x" "\<And>x. dlv_orderId (f x) = dlv_orderId x" "\<And>x. dlv_status (f x) = dlv_status x"
  shows "delivery_frame db db'"
proof -
  from run have db': "db' = db\<lparr> deliveries := update_where (hits_version d v)
      (\<lambda>x. (f x)\<lparr> dlv_version := dlv_version x + 1 \<rparr>) (deliveries db) \<rparr>"
    by (auto simp: update_delivery_def Let_def)
  have "map delivery_key (deliveries db') = map delivery_key (deliveries db)"
    by (simp add: db' map_update_where delivery_key_def f)
  then have "in_step db' = in_step db" by (intro in_step_cong) (simp_all add: db')
  then show ?thesis by (simp add: db' delivery_frame_def)
qed

text \<open>The mirrored update of a delivery and its order.\<close>

lemma updateMirroredStatus_effect:
  assumes "updateMirroredStatus op target f db = Inr db'"
  shows "deliveries db' = update_where (hits_mirrored_delivery (dop_delivery op))
           (\<lambda>x. (f x)\<lparr> dlv_status := target, dlv_version := dlv_version x + 1 \<rparr>) (deliveries db)"
    and "orders db' = update_where (hits_mirrored_order (dop_order op))
           (\<lambda>x. x\<lparr> ord_status := target, ord_version := ord_version x + 1 \<rparr>) (orders db)"
    and "db' = db\<lparr> deliveries := deliveries db', orders := orders db' \<rparr>"
  using assms by (auto simp: updateMirroredStatus_def Let_def)

lemma updateMirroredStatus_hits:
  assumes "updateMirroredStatus op target f db = Inr db'"
  obtains d o' where "d \<in> set (deliveries db)" and "hits_mirrored_delivery (dop_delivery op) d"
    and "o' \<in> set (orders db)" and "hits_mirrored_order (dop_order op) o'"
proof -
  from assms have "0 < count_where (hits_mirrored_delivery (dop_delivery op)) (deliveries db)"
    "0 < count_where (hits_mirrored_order (dop_order op)) (orders db)"
    by (simp_all add: updateMirroredStatus_def Let_def)
  then show ?thesis by (auto simp: count_where_def filter_empty_conv intro: that)
qed

lemma updateMirroredStatus_read:
  assumes "updateMirroredStatus op target f db = Inr db'" and "read_from db op1"
    and f: "\<And>x. dlv_id (f x) = dlv_id x" "\<And>x. dlv_orderId (f x) = dlv_orderId x"
  shows "read_from db' op1"
proof -
  note eff = updateMirroredStatus_effect [OF assms(1)]
  have "map (\<lambda>d. (dlv_id d, dlv_orderId d)) (deliveries db') = map (\<lambda>d. (dlv_id d, dlv_orderId d)) (deliveries db)"
    "map ord_id (orders db') = map ord_id (orders db)"
    unfolding eff(1,2) by (simp_all add: map_update_where f)
  note same = this [THEN arg_cong [where f = set], unfolded set_map]
  have keys: "read_from x op1 \<longleftrightarrow>
      (dlv_id (dop_delivery op1), ord_id (dop_order op1)) \<in> (\<lambda>d. (dlv_id d, dlv_orderId d)) ` set (deliveries x)
      \<and> ord_id (dop_order op1) \<in> ord_id ` set (orders x)" for x :: "'a shop_db_scheme"
    unfolding read_from_def image_iff Bex_def prod.inject by metis
  show ?thesis using assms(2) unfolding keys same .
qed

lemma updateMirroredStatus_frame:
  assumes run: "updateMirroredStatus op target f db = Inr db'" and op: "read_from db op"
    and t: "canTransitionDelivery (dlv_status (dop_delivery op)) target"
    and same: "ord_status (dop_order op) = dlv_status (dop_delivery op)"
    and f: "\<And>x. dlv_id (f x) = dlv_id x" "\<And>x. dlv_orderId (f x) = dlv_orderId x"
  shows "delivery_frame db db'"
proof -
  note eff = updateMirroredStatus_effect [OF run]
  obtain d o' where d: "d \<in> set (deliveries db)" "hits_mirrored_delivery (dop_delivery op) d"
    and o': "o' \<in> set (orders db)" "hits_mirrored_order (dop_order op) o'"
    by (rule updateMirroredStatus_hits [OF run])
  have "orders_progress (orders db) (orders db')"
    by (rule step_progress [OF eff(2)])
      (use t same in \<open>auto simp: hits_mirrored_order_def canTransitionDelivery_def intro: delivery_step_reaches\<close>)
  moreover have "in_step db'" if st: "in_step db"
  proof -
    from op obtain d0 where d0: "d0 \<in> set (deliveries db)" "dlv_id d0 = dlv_id (dop_delivery op)"
      "dlv_orderId d0 = ord_id (dop_order op)" by (auto simp: read_from_def)
    have "d = d0"
      using key_unique [of dlv_id "deliveries db" d d0] st d d0 by (simp add: in_step_def hits_mirrored_delivery_def)
    then show ?thesis
      by (intro step_in_step [where target = target and o' = o' and d = d, OF st eff(2,1)])
        (use d o' d0 in \<open>simp_all add: hits_mirrored_order_def hits_mirrored_delivery_def f\<close>)
  qed
  moreover obtain os ds where "db' = db\<lparr> deliveries := ds, orders := os \<rparr>" using eff(3) by blast
  ultimately show ?thesis by (simp add: delivery_frame_def)
qed

lemma notify_delivery_logged:
  assumes "notify_delivery e op target db = Inr db'"
  shows "logged db db'"
proof -
  have "outbox_frame db db'"
    using assms by (auto simp: notify_delivery_def split: option.splits intro: createOrderNotificationsWithOutbox_frame)
  then show ?thesis by (auto simp: logged_def outbox_frame_untouched) (auto simp: outbox_frame_def)
qed

lemma recordTransition_logged:
  assumes "recordTransition e op target rc note action db = Inr db'"
  shows "logged db db'"
proof -
  from assms obtain row1 v db1 row2 h db2 row3 a db3 where
    v: "create_delivery_event e row1 db = Inr (v, db1)" and
    h: "create_status_history e row2 db1 = Inr (h, db2)" and
    a: "create_audit e row3 db2 = Inr (a, db3)" and
    n: "notify_delivery e op target db3 = Inr db'"
    by (auto simp: recordTransition_def Let_def
        simp del: create_status_history_Inr create_delivery_event_Inr create_audit_Inr)
  note creates_logged(1) [OF v]
  also note creates_logged(2) [OF h]
  also note creates_logged(3) [OF a]
  also note notify_delivery_logged [OF n]
  finally show ?thesis .
qed

section \<open>The handlers\<close>

text \<open>Every handler ends by reading its answer from the database it has written.\<close>

lemma answered: "bindE m (\<lambda>r. Inr (r, db)) = Inr (x, db') \<longleftrightarrow> m = Inr x \<and> db' = db"
  by auto

lemma note_written:
  assumes "update_delivery d v f db = Inr db1" and "create_delivery_event e row1 db1 = Inr (x, db2)"
    and "create_audit e row2 db2 = Inr (y, db3)"
    and "\<And>x. dlv_id (f x) = dlv_id x" "\<And>x. dlv_orderId (f x) = dlv_orderId x" "\<And>x. dlv_status (f x) = dlv_status x"
  shows "delivery_frame db db3"
proof -
  have "delivery_frame db db1" by (rule update_delivery_frame [OF assms(1,4-6)])
  also have "delivery_frame db1 db3"
    using logged_trans [OF creates_logged(1) [OF assms(2)] creates_logged(3) [OF assms(3)]] by (rule logged_frame)
  finally show ?thesis .
qed

lemma delivery_unassign_frame:
  assumes "delivery_unassign e did v reason db = Inr (r, db')"
  shows "delivery_frame db db'"
proof -
  from assms obtain d row1 x db1 row2 y db2 where
    "update_delivery d v
        (\<lambda>x. x\<lparr> dlv_courierId := None, dlv_trackingNumber := None, dlv_courierFeeMillimes := None,
                dlv_assignedAt := None \<rparr>) db = Inr db1" and
    "create_delivery_event e row1 db1 = Inr (x, db2)" and "create_audit e row2 db2 = Inr (y, db')"
    by (auto simp: delivery_unassign_def Let_def simp del: create_delivery_event_Inr create_audit_Inr)
  then show ?thesis by (rule note_written) simp_all
qed

lemma delivery_updateInternalNotes_frame:
  assumes "delivery_updateInternalNotes e did v notes db = Inr (r, db')"
  shows "delivery_frame db db'"
proof -
  from assms obtain d n row1 x db1 row2 y db2 where
    "update_delivery d v (\<lambda>x. x\<lparr> dlv_internalNotes := n \<rparr>) db = Inr db1" and
    "create_delivery_event e row1 db1 = Inr (x, db2)" and "create_audit e row2 db2 = Inr (y, db')"
    by (auto simp: delivery_updateInternalNotes_def Let_def simp del: create_delivery_event_Inr create_audit_Inr)
  then show ?thesis by (rule note_written) simp_all
qed

lemma delivery_assignment_frame:
  assumes "delivery_assignment action e did input db = Inr (r, db')"
  shows "delivery_frame db db'"
proof -
  from assms have "assignment_tx action e did input db = Inr (r, db')"
    by (auto simp: delivery_assignment_def split: sum.splits)
  then obtain d and c :: courier and fee row1 x db1 row2 y db2 where
    "update_delivery d (ass_expectedVersion input)
        (\<lambda>x. x\<lparr> dlv_courierId := Some (cou_id c), dlv_assignedAt := Some (now e),
                dlv_trackingNumber := (case ass_trackingNumber input of None \<Rightarrow> dlv_trackingNumber x
                                       | Some t \<Rightarrow> Some (trim t)),
                dlv_courierFeeMillimes := fee \<rparr>) db = Inr db1" and
    "create_delivery_event e row1 db1 = Inr (x, db2)" and "create_audit e row2 db2 = Inr (y, db')"
    by (auto simp: assignment_tx_def Let_def simp del: create_delivery_event_Inr create_audit_Inr)
  then show ?thesis by (rule note_written) simp_all
qed

lemma recordCourierWhatsAppContact_frame:
  assumes "recordCourierWhatsAppContact e did v db = Inr (r, db')"
  shows "delivery_frame db db'"
proof -
  from assms obtain d row1 x db1 row2 y db2 where
    "update_delivery d v (\<lambda>x. x) db = Inr db1" and
    "create_delivery_event e row1 db1 = Inr (x, db2)" and "create_audit e row2 db2 = Inr (y, db')"
    by (auto simp: recordCourierWhatsAppContact_def Let_def simp del: create_delivery_event_Inr create_audit_Inr)
  then show ?thesis by (rule note_written) simp_all
qed

lemma getCourierWhatsApp_frame:
  assumes "getCourierWhatsApp e did db = Inr (r, db')"
  shows "delivery_frame db db'"
proof -
  from assms obtain row x where "create_audit e row db = Inr (x, db')"
    by (auto simp: getCourierWhatsApp_def simp del: create_audit_Inr)
  then show ?thesis by (intro logged_frame creates_logged(3))
qed

text \<open>The mirrored update and its records.\<close>

lemma moved_and_recorded:
  assumes "updateMirroredStatus op target f db = Inr db1" and "recordTransition e op target rc note action db1 = Inr db2"
    and "read_from db op" and "canTransitionDelivery (dlv_status (dop_delivery op)) target"
    and "ord_status (dop_order op) = dlv_status (dop_delivery op)"
    and "\<And>x. dlv_id (f x) = dlv_id x" "\<And>x. dlv_orderId (f x) = dlv_orderId x"
  shows "delivery_frame db db2"
proof -
  have "delivery_frame db db1" by (rule updateMirroredStatus_frame [OF assms(1,3-7)])
  also have "delivery_frame db1 db2" by (intro logged_frame recordTransition_logged [OF assms(2)])
  finally show ?thesis .
qed

lemma transition_guard_Inr:
  "transition_guard input op = Inr u \<longleftrightarrow>
     dlv_version (dop_delivery op) = tr_expectedVersion input
     \<and> canTransitionDelivery (dlv_status (dop_delivery op)) (tr_targetStatus input)
     \<and> ord_status (dop_order op) = dlv_status (dop_delivery op)
     \<and> \<not> (tr_targetStatus input \<in> COURIER_REQUIRED_TARGETS \<and> or_null (dlv_courierId (dop_delivery op)) = None)
     \<and> (tr_targetStatus input \<in> EXPLANATION_REQUIRED_TARGETS \<longrightarrow>
          requireExplanation (tr_explanation input) ''DELIVERY_EXPLANATION_REQUIRED'' = Inr ())"
  by (auto simp: transition_guard_def assertDeliveryVersion_def Let_def)

lemma delivery_transition_frame:
  assumes "delivery_transition e did input db = Inr (r, db')"
  shows "delivery_frame db db'"
proof -
  from assms obtain op u db1 rc where
    op: "lockDelivery db did = Inr op" and g: "transition_guard input op = Inr u" and
    m: "updateMirroredStatus op (tr_targetStatus input) (transition_times e (tr_targetStatus input)) db = Inr db1" and
    t: "recordTransition e op (tr_targetStatus input) rc (map_option trim (tr_explanation input))
          ''delivery.status.changed'' db1 = Inr db'"
    by (auto simp: delivery_transition_def)
  show ?thesis
    by (rule moved_and_recorded [OF m t lockDelivery_read(1) [OF op]])
      (use g in \<open>simp_all add: transition_guard_Inr transition_times_def\<close>)
qed

lemma delivery_completeReturn_frame:
  assumes "delivery_completeReturn e did v reason db = Inr (r, db')"
  shows "delivery_frame db db'"
proof -
  from assms obtain op db1 where
    op: "lockDelivery db did = Inr op" and st: "dlv_status (dop_delivery op) = RETURN_TO_SENDER"
      "ord_status (dop_order op) = RETURN_TO_SENDER" and
    m: "updateMirroredStatus op RETURNED (\<lambda>x. x) db = Inr db1" and
    t: "recordTransition e op RETURNED ''RETURN_RECEIVED'' (Some (trim reason)) ''delivery.return.completed'' db1 = Inr db'"
    by (auto simp: delivery_completeReturn_def)
  show ?thesis
    by (rule moved_and_recorded [OF m t lockDelivery_read(1) [OF op]]) (simp_all add: st canTransitionDelivery_def)
qed

text \<open>The number of the last attempt, when they are numbered, is how many there are.\<close>

lemma last_number: "foldr (\<lambda>a n. max (att_number a) n) as 0 = foldr max (map att_number as) 0"
  by (induction as) simp_all

lemma foldr_max_upt: "foldr max [1..<Suc n] 0 = n"
proof -
  have *: "foldr max [1..<Suc n] k = max n k" for k
    by (induction n arbitrary: k) (simp_all add: max_def)
  show ?thesis using * [of 0] by simp
qed

lemma next_number:
  assumes "numbered db"
  shows "dop_lastAttempt (delivery_operation_of db d o') = length (attempts_of db (dlv_id d))"
  using assms unfolding numbered_def
  by (simp only: delivery_operation_of_def delivery_operation.simps last_number foldr_max_upt)

text \<open>The attempt of a delivery, recorded with or without an age verification.\<close>

lemma attempt_written:
  assumes op: "lockDelivery db did = Inr op" and c: "create_attempt e row db = Inr (a, db1)"
    and row: "att_deliveryId row = dlv_id (dop_delivery op)" "att_number row = dop_lastAttempt op + 1"
    and L: "logged db1 db'"
  shows "delivery_frame db db'" and "read_from db' op" and "attempts db' = attempts db @ [a]"
    and "att_deliveryId a = did" "att_outcome a = att_outcome row" "orders db' = orders db" "deliveries db' = deliveries db"
proof -
  have n: "att_number row = Suc (length (attempts_of db (att_deliveryId row)))" if "numbered db"
    using next_number [OF that] op by (auto simp: row lockDelivery_Inr)
  note A = create_attempt_frame [OF c n, simplified]
  show "delivery_frame db db'" by (rule delivery_frame_trans [OF A(1) logged_frame [OF L]])
  show same: "attempts db' = attempts db @ [a]" "orders db' = orders db" "deliveries db' = deliveries db"
    using L A(4-6) more_attempts [of db' db1] by (simp_all add: logged_def untouched_def)
  show "read_from db' op" using lockDelivery_read(1) [OF op] by (simp add: read_from_def same)
  show "att_deliveryId a = did" "att_outcome a = att_outcome row"
    using A(2,3) row(1) lockDelivery_read(2) [OF op] by simp_all
qed

lemma write_attempt_parts:
  assumes run: "write_attempt e input op t db = Inr db'" and op: "lockDelivery db did = Inr op"
  shows "delivery_frame db db'" and "read_from db' op"
    and "\<exists>a. attempts db' = attempts db @ [a] \<and> att_deliveryId a = did \<and> att_outcome a = atp_outcome input"
proof -
  let ?row = "attempt_row e input op t"
  from run obtain a db1 where a: "create_attempt e ?row db = Inr (a, db1)" and L: "logged db1 db'"
    by (auto simp: write_attempt_def simp del: create_attempt_Inr create_age_event_Inr split: if_splits
        intro: creates_logged(4))
  have r: "att_deliveryId ?row = dlv_id (dop_delivery op)" "att_number ?row = dop_lastAttempt op + 1"
    "att_outcome ?row = atp_outcome input" by (simp_all add: attempt_row_def)
  note W = attempt_written [OF op a r(1,2) L]
  show "delivery_frame db db'" "read_from db' op" by (fact W)+
  show "\<exists>a. attempts db' = attempts db @ [a] \<and> att_deliveryId a = did \<and> att_outcome a = atp_outcome input"
    by (intro exI [of _ a]) (simp add: W(3-5) r(3))
qed

lemma write_completion_parts:
  assumes run: "write_completion e op ageResult collected db = Inr db'" and op: "lockDelivery db did = Inr op"
  shows "delivery_frame db db'" and "read_from db' op" and "orders db' = orders db" "deliveries db' = deliveries db"
proof -
  let ?row = "completion_row e op ageResult collected"
  from run obtain a db1 where a: "create_attempt e ?row db = Inr (a, db1)" and L: "logged db1 db'"
    by (auto simp: write_completion_def simp del: create_attempt_Inr create_age_event_Inr intro: creates_logged(4))
  have r: "att_deliveryId ?row = dlv_id (dop_delivery op)" "att_number ?row = dop_lastAttempt op + 1"
    by (simp_all add: completion_row_def)
  note W = attempt_written [OF op a r L]
  show "delivery_frame db db'" "read_from db' op" "orders db' = orders db" "deliveries db' = deliveries db" by (fact W)+
qed

lemma attempt_guard_Inr:
  "attempt_guard e input op = Inr (t, target) \<Longrightarrow>
     dlv_version (dop_delivery op) = atp_expectedVersion input \<and> dlv_status (dop_delivery op) = OUT_FOR_DELIVERY
     \<and> ord_status (dop_order op) = OUT_FOR_DELIVERY \<and> ATTEMPT_OUTCOME_STATUS (atp_outcome input) = Some target
     \<and> canTransitionDelivery OUT_FOR_DELIVERY target"
  by (auto simp: attempt_guard_def assertDeliveryVersion_def)

lemma delivery_recordAttempt_parts:
  assumes "delivery_recordAttempt e did input db = Inr (r, db')"
  shows "delivery_frame db db'"
    and "\<exists>a\<in>set (attempts db'). att_deliveryId a = did \<and> att_outcome a = atp_outcome input"
proof -
  from assms obtain op t target db1 db2 where
    op: "lockDelivery db did = Inr op" and g: "attempt_guard e input op = Inr (t, target)" and
    w: "write_attempt e input op t db = Inr db1" and
    m: "updateMirroredStatus op target
          (\<lambda>x. x\<lparr> dlv_nextAttemptAt := t, dlv_ageVerificationResult := attempt_age_result input op \<rparr>) db1 = Inr db2" and
    rt: "recordTransition e op target (outcome_name (atp_outcome input)) (map_option trim (atp_explanation input))
          ''delivery.attempt.recorded'' db2 = Inr db'"
    by (auto simp: delivery_recordAttempt_def)
  note W = write_attempt_parts [OF w op] and G = attempt_guard_Inr [OF g]
  have M: "delivery_frame db1 db'"
    by (rule moved_and_recorded [OF m rt W(2)]) (use G in simp_all)
  show "delivery_frame db db'" by (rule delivery_frame_trans [OF W(1) M])
  from W(3) M show "\<exists>a\<in>set (attempts db'). att_deliveryId a = did \<and> att_outcome a = atp_outcome input"
    by (auto simp: delivery_frame_def attempts_grow_def)
qed

section \<open>Completing a delivery\<close>

text \<open>What the cash desk counts a collection of the delivery for.\<close>

definition settled_worth :: "'a cash_db_scheme \<Rightarrow> collection \<Rightarrow> int" where
  "settled_worth db c =
     (if col_status c \<in> COLLECTED_CASH_STATUSES
      then (case accountableCollectionMillimes c (collection_discrepancy db (col_id c)) of Inr a \<Rightarrow> a | Inl _ \<Rightarrow> 0)
      else 0)"

lemma completion_worth:
  assumes "accountableCashForDeliveryCompletion (c, collection_discrepancy db (col_id c)) = Inr a"
  shows "a = settled_worth db c"
    and "col_status c \<in> COLLECTED_CASH_STATUSES \<Longrightarrow>
           accountableCollectionMillimes c (collection_discrepancy db (col_id c)) = Inr a"
proof -
  have acc: "accountableCollectionMillimes c (collection_discrepancy db (col_id c)) = Inr a"
    if "col_status c \<in> COLLECTED_CASH_STATUSES"
    using assms that
    by (auto simp: accountableCashForDeliveryCompletion_def accountableCollectionMillimes_def
        discrepancy_linked_def Let_def split: option.splits)
  have "a = 0" if "col_status c \<notin> COLLECTED_CASH_STATUSES"
    using assms that by (auto simp: accountableCashForDeliveryCompletion_def Let_def split: option.splits)
  with acc show "a = settled_worth db c" by (simp add: settled_worth_def)
  show "col_status c \<in> COLLECTED_CASH_STATUSES \<Longrightarrow>
      accountableCollectionMillimes c (collection_discrepancy db (col_id c)) = Inr a" by (fact acc)
qed

lemma collected_sum:
  "foldE (\<lambda>cd s. bindE (accountableCashForDeliveryCompletion cd) (\<lambda>v. Inr (s + v)))
     (map (\<lambda>c. (c, collection_discrepancy db (col_id c))) cs) k = Inr a \<Longrightarrow>
   a = k + sum_by (settled_worth db) cs
   \<and> list_all (\<lambda>c. col_status c \<in> COLLECTED_CASH_STATUSES \<longrightarrow>
        accountableCollectionMillimes c (collection_discrepancy db (col_id c)) = Inr (settled_worth db c)) cs"
proof (induction cs arbitrary: k)
  case (Cons c cs)
  from Cons.prems obtain v where
    v: "accountableCashForDeliveryCompletion (c, collection_discrepancy db (col_id c)) = Inr v"
    and rest: "foldE (\<lambda>cd s. bindE (accountableCashForDeliveryCompletion cd) (\<lambda>v. Inr (s + v)))
     (map (\<lambda>c. (c, collection_discrepancy db (col_id c))) cs) (k + v) = Inr a" by auto
  from Cons.IH [OF rest] completion_worth [OF v] show ?case by auto
qed simp

definition delivery_cash :: "'a shop_db_scheme \<Rightarrow> string \<Rightarrow> collection list" where
  "delivery_cash db did = filter (\<lambda>c. col_deliveryId c = Some did) (collections db)"

lemma collected_for_completion_Inr:
  assumes "collected_for_completion (delivery_operation_of db d o') = Inr a"
  shows "a = sum_by (settled_worth db) (delivery_cash db (dlv_id d))"
    and "list_all (\<lambda>c. col_status c \<in> COLLECTED_CASH_STATUSES \<longrightarrow>
        accountableCollectionMillimes c (collection_discrepancy db (col_id c)) = Inr (settled_worth db c))
        (delivery_cash db (dlv_id d))"
  using collected_sum [of db "delivery_cash db (dlv_id d)" 0 a] assms
  by (simp_all add: collected_for_completion_def delivery_operation_of_def delivery_cash_def)

lemma completion_guard_Inr:
  assumes "completion_guard db op v age = Inr a"
  shows "dlv_version (dop_delivery op) = v"
    and "dlv_status (dop_delivery op) = completion_source (dop_order op)"
      "ord_status (dop_order op) = completion_source (dop_order op)"
      "canTransitionDelivery (dlv_status (dop_delivery op)) DELIVERED"
    and "ord_methodType (dop_order op) = COURIER \<Longrightarrow> or_null (dlv_courierId (dop_delivery op)) \<noteq> None"
    and "age = (if dlv_ageVerificationRequired (dop_delivery op) then AGE_PASSED else NOT_REQUIRED)"
    and "\<not> age_failure_recorded db (dlv_id (dop_delivery op))"
    and "dlv_ageVerificationResult (dop_delivery op) \<notin> NEGATIVE_AGE_RESULTS"
    and "collected_for_completion op = Inr a"
    and "0 < ord_expectedCodMillimes (dop_order op) \<Longrightarrow>
           a = ord_expectedCodMillimes (dop_order op) \<and> ord_paymentStatus (dop_order op) \<in> CASH_PAYMENT_STATUSES"
  using assms by (auto simp: completion_guard_def assertDeliveryVersion_def Let_def)

lemma delivery_complete_parts:
  assumes "delivery_complete e did v age db = Inr (r, db')"
  obtains op a where "lockDelivery db did = Inr op" and "completion_guard db op v age = Inr a"
    and "delivery_frame db db'"
    and "map_option dlv_status (find_delivery db' did) = Some DELIVERED"
    and "map_option ord_status (find_order db' (ord_id (dop_order op))) = Some DELIVERED"
proof -
  let ?f = "\<lambda>op x. x\<lparr> dlv_deliveredAt := Some (now e), dlv_ageVerificationResult := age,
      dlv_cashCollectedResult := (if ord_expectedCodMillimes (dop_order op) > 0 then Some True else None),
      dlv_nextAttemptAt := None \<rparr>"
  from assms obtain op a db1 db2 where
    op: "lockDelivery db did = Inr op" and g: "completion_guard db op v age = Inr a" and
    w: "write_completion e op age a db = Inr db1" and
    m: "updateMirroredStatus op DELIVERED (?f op) db1 = Inr db2" and
    rt: "recordTransition e op DELIVERED ''MANUAL_DELIVERY_COMPLETED'' None ''delivery.completed'' db2 = Inr db'"
    by (auto simp: delivery_complete_def)
  note W = write_completion_parts [OF w op] and G = completion_guard_Inr [OF g] and E = updateMirroredStatus_effect [OF m]
  have M: "delivery_frame db1 db'"
    by (rule moved_and_recorded [OF m rt W(2)]) (use G(2-4) in simp_all)
  have same: "deliveries db' = deliveries db2" "orders db' = orders db2"
    using recordTransition_logged [OF rt] by (simp_all add: logged_def untouched_def)
  from op obtain d o' where d: "find_delivery db did = Some d" "find_order db (dlv_orderId d) = Some o'"
    and op': "op = delivery_operation_of db d o'" by (auto simp: lockDelivery_Inr)
  have D: "map_option dlv_status (find_delivery db' did) = Some DELIVERED"
    using d(1) unfolding find_delivery_def same E(1) W(4)
    by (subst find_update_where) (auto simp: op' hits_mirrored_delivery_def)
  have "find_order db (ord_id o') = Some o'" using d(2) find_order_id [OF d(2)] by simp
  then have O: "map_option ord_status (find_order db' (ord_id (dop_order op))) = Some DELIVERED"
    unfolding find_order_def same E(2) W(3)
    by (subst find_update_where) (auto simp: op' hits_mirrored_order_def)
  show ?thesis by (rule that [OF op g delivery_frame_trans [OF W(1) M] D O])
qed

lemma delivery_complete_frame: "delivery_complete e did v age db = Inr (r, db') \<Longrightarrow> delivery_frame db db'"
  by (erule delivery_complete_parts)

end
