(* ===== verification/CashFrame.thy ===== *)
theory CashFrame
  imports CashSpec DeliveryProofs
begin

text \<open>
  What the cash handlers leave alone: the stock, the statuses of orders and deliveries and the tables
  of the deliveries.
\<close>

definition cash_frame :: "'a cash_db_scheme \<Rightarrow> 'a cash_db_scheme \<Rightarrow> bool" where
  "cash_frame db db' =
     (items db' = items db \<and> movements db' = movements db \<and> reservations db' = reservations db
      \<and> map order_key (orders db') = map order_key (orders db)
      \<and> map delivery_key (deliveries db') = map delivery_key (deliveries db)
      \<and> carts db' = carts db \<and> cash_db.more db' = cash_db.more db)"

lemma cash_frame_refl [simp]: "cash_frame db db"
  by (simp add: cash_frame_def)

lemma cash_frame_trans [trans]: "cash_frame a b \<Longrightarrow> cash_frame b c \<Longrightarrow> cash_frame a c"
  by (simp add: cash_frame_def)

lemma cash_frame_fold:
  assumes "foldE f xs db = Inr db'" and "\<And>x d d'. f x d = Inr d' \<Longrightarrow> cash_frame d d'"
  shows "cash_frame db db'"
  by (rule foldE_inv [OF assms(1), of "cash_frame db"]) (auto intro: cash_frame_trans assms(2))

named_theorems cash_frames

lemma cash_creates_frame [cash_frames]:
  "create_reconciliation_event e row1 db = Inr (r1, db') \<Longrightarrow> cash_frame db db'"
  "create_discrepancy e row2 db = Inr (r2, db') \<Longrightarrow> cash_frame db db'"
  "create_remittance e row3 db = Inr (r3, db') \<Longrightarrow> cash_frame db db'"
  "create_audit e row4 db = Inr (r4, db') \<Longrightarrow> cash_frame db db'"
  "create_allocation e rid a db = Inr db' \<Longrightarrow> cash_frame db db'"
  "set_remittance rid st f x db = Inr db' \<Longrightarrow> cash_frame db db'"
  "close_discrepancy e d i db = Inr db' \<Longrightarrow> cash_frame db db'"
  by (auto simp: cash_frame_def Let_def create_allocation_def set_remittance_def close_discrepancy_def)

lemma cash_updates_frame [cash_frames]:
  "write_collection e op dl i diff target kh rh db = Inr db' \<Longrightarrow> cash_frame db db'"
  "remit_collection amt disc c db = Inr db' \<Longrightarrow> cash_frame db db'"
  "remit_order o' db = Inr db' \<Longrightarrow> cash_frame db db'"
  "flag_order o' db = Inr db' \<Longrightarrow> cash_frame db db'"
  "settle_order op dl db = Inr db' \<Longrightarrow> cash_frame db db'"
  by (auto simp: cash_frame_def Let_def write_collection_def remit_collection_def remit_order_def flag_order_def
      settle_order_def map_update_where order_key_def delivery_key_def split: if_splits)

lemma cash_folds_frame [cash_frames]:
  "foldE (remit_collection amt disc) cs db = Inr db' \<Longrightarrow> cash_frame db db'"
  "foldE remit_order os db = Inr db' \<Longrightarrow> cash_frame db db'"
  "foldE flag_order os db = Inr db' \<Longrightarrow> cash_frame db db'"
  "foldE (create_allocation e rid) as db = Inr db' \<Longrightarrow> cash_frame db db'"
  by (erule cash_frame_fold, erule cash_updates_frame cash_creates_frame)+

lemmas cash_parts = create_reconciliation_event_Inr create_discrepancy_Inr create_remittance_Inr create_audit_Inr

lemma record_collection_events_frame [cash_frames]:
  "record_collection_events e op i diff db = Inr db' \<Longrightarrow> cash_frame db db'"
  by (auto simp: record_collection_events_def Let_def simp del: cash_parts split: if_splits
      dest!: cash_frames intro: cash_frame_trans)

lemma applyVerifiedAllocations_frame [cash_frames]:
  "applyVerifiedAllocations rid cs db = Inr db' \<Longrightarrow> cash_frame db db'"
  by (auto simp: applyVerifiedAllocations_def dest!: cash_frames intro: cash_frame_trans)

lemma open_remittance_discrepancy_frame [cash_frames]:
  "open_remittance_discrepancy e r cs i diff db = Inr db' \<Longrightarrow> cash_frame db db'"
  by (auto simp: open_remittance_discrepancy_def simp del: cash_parts
      dest!: cash_frames intro: cash_frame_trans)

lemma correct_collection_frame [cash_frames]:
  assumes "correct_collection e op dl d i db = Inr db'"
  shows "cash_frame db db'"
proof -
  from assms obtain cs db2 row r3 where
    1: "db2 = db\<lparr> collections := cs \<rparr> \<or> settle_order op dl (db\<lparr> collections := cs \<rparr>) = Inr db2" and
    2: "create_reconciliation_event e row db2 = Inr (r3, db')"
    by (auto simp: correct_collection_def Let_def simp del: cash_parts split: if_splits)
  have "cash_frame db (db\<lparr> collections := cs \<rparr>)" by (simp add: cash_frame_def)
  also have "cash_frame (db\<lparr> collections := cs \<rparr>) db2" using 1 cash_updates_frame(5) by auto
  also note cash_creates_frame(1) [OF 2]
  finally show ?thesis .
qed

lemma verify_after_all_frame [cash_frames]: "verify_after_all e r i db = Inr db' \<Longrightarrow> cash_frame db db'"
  by (auto simp: verify_after_all_def dest!: cash_frames intro: cash_frame_trans)

lemma recordCollection_frame: "recordCollection e cid i key db = Inr (v, db') \<Longrightarrow> cash_frame db db'"
  by (auto simp: recordCollection_def recordCollection_tx_def simp del: cash_parts split: if_splits
      dest!: cash_frames intro: cash_frame_trans)

lemma createRemittance_frame: "createRemittance e i db = Inr (v, db') \<Longrightarrow> cash_frame db db'"
  by (auto simp: createRemittance_def createRemittance_tx_def Let_def simp del: cash_parts split: sum.splits
      dest!: cash_frames intro: cash_frame_trans)

lemma submitRemittance_frame: "submitRemittance e rid db = Inr (v, db') \<Longrightarrow> cash_frame db db'"
  by (auto simp: submitRemittance_def simp del: cash_parts dest!: cash_frames intro: cash_frame_trans)

lemma reconcileRemittance_frame: "reconcileRemittance e rid i db = Inr (v, db') \<Longrightarrow> cash_frame db db'"
  by (auto simp: reconcileRemittance_def Let_def simp del: cash_parts split: if_splits
      dest!: cash_frames intro: cash_frame_trans)

lemma resolve_frames:
  "resolveCollectionDiscrepancy e cid did i db = Inr (cv, db') \<Longrightarrow> cash_frame db db'"
  "resolveRemittanceDiscrepancy e rid did i db = Inr (rv, db') \<Longrightarrow> cash_frame db db'"
  by (auto simp: resolveCollectionDiscrepancy_def resolveRemittanceDiscrepancy_def
      simp del: cash_parts split: if_splits dest!: cash_frames intro: cash_frame_trans)

lemma resolveDiscrepancy_frame: "resolveDiscrepancy e did i db = Inr (v, db') \<Longrightarrow> cash_frame db db'"
  by (auto simp: resolveDiscrepancy_def split: option.splits dest!: resolve_frames)

lemma cash_step_frame: "cash_step e db db' \<Longrightarrow> cash_frame db db'"
  by (induction rule: cash_step.induct)
    (auto intro: recordCollection_frame createRemittance_frame submitRemittance_frame reconcileRemittance_frame
      resolveDiscrepancy_frame)

end
