(* ===== verification/DeliveryCsv.thy ===== *)
theory DeliveryCsv
  imports CsvExport Machines Characters
begin

text \<open>
  \<open>delivery/delivery-csv.ts\<close>: the status file of the delivery operations.  The scanner
  \<open>parseCsvRows\<close> is the code's loop over the characters with its five variables as a record; the
  row checks of \<open>parseDeliveryStatusCsv\<close> follow in the order of the code.  The round trip with
  \<open>serializeCsv\<close> is proved cell by cell, row by row, for every table.
\<close>

section \<open>Scanning\<close>

text \<open>\<open>DeliveryCsvError\<close>: the code and the row it names, if any.\<close>

datatype csv_error = DeliveryCsvError string "nat option"

type_synonym 'a csv_result = "csv_error + 'a"

record csv_scan =
  sc_rows :: "string list list"
  sc_row :: "string list"
  sc_cell :: string
  sc_quoted :: bool
  sc_closedQuote :: bool

definition scan_start :: csv_scan where
  "scan_start = \<lparr> sc_rows = [], sc_row = [], sc_cell = [], sc_quoted = False, sc_closedQuote = False \<rparr>"

definition finishCell :: "csv_scan \<Rightarrow> csv_scan csv_result" where
  "finishCell s =
     require (length (sc_cell s) \<le> 2000) (DeliveryCsvError ''DELIVERY_CSV_CELL_TOO_LARGE'' None)
       (Inr (s \<lparr> sc_row := sc_row s @ [sc_cell s], sc_cell := [], sc_closedQuote := False \<rparr>))"

definition finishRow :: "csv_scan \<Rightarrow> csv_scan csv_result" where
  "finishRow s = bindE (finishCell s) (\<lambda>s1.
     Inr (s1 \<lparr> sc_rows := (if list_ex (\<lambda>v. v \<noteq> []) (sc_row s1) then sc_rows s1 @ [sc_row s1] else sc_rows s1),
               sc_row := [] \<rparr>))"

definition quote_error :: csv_error where
  "quote_error = DeliveryCsvError ''DELIVERY_CSV_QUOTE_INVALID'' None"

definition CR :: char where "CR = CHR 0x0D"
definition LF :: char where "LF = CHR 0x0A"

text \<open>The characters of a quoted cell, and those outside one; \<open>put_char\<close> appends to the cell.\<close>

definition put_char :: "char \<Rightarrow> csv_scan \<Rightarrow> csv_scan" where
  "put_char c s = s \<lparr> sc_cell := sc_cell s @ [c] \<rparr>"

fun scan_csv :: "csv_scan \<Rightarrow> string \<Rightarrow> csv_scan csv_result" where
  "scan_csv s [] = Inr s"
| "scan_csv s (c # cs) =
     (if sc_quoted s then
        (if c = QUOTE then
           (case cs of
              d # ds \<Rightarrow> if d = QUOTE then scan_csv (put_char QUOTE s) ds
                        else scan_csv (s \<lparr> sc_quoted := False, sc_closedQuote := True \<rparr>) cs
            | [] \<Rightarrow> scan_csv (s \<lparr> sc_quoted := False, sc_closedQuote := True \<rparr>) cs)
         else scan_csv (put_char c s) cs)
      else if sc_closedQuote s \<and> c \<noteq> CHR '','' \<and> c \<noteq> CR \<and> c \<noteq> LF then Inl quote_error
      else if c = QUOTE then
        (if sc_cell s \<noteq> [] then Inl quote_error else scan_csv (s \<lparr> sc_quoted := True \<rparr>) cs)
      else if c = CHR '','' then bindE (finishCell s) (\<lambda>s1. scan_csv s1 cs)
      else if c = LF then bindE (finishRow s) (\<lambda>s1. scan_csv s1 cs)
      else if c = CR then
        (case cs of
           d # ds \<Rightarrow> if d = LF then bindE (finishRow s) (\<lambda>s1. scan_csv s1 ds)
                     else bindE (finishRow s) (\<lambda>s1. scan_csv s1 cs)
         | [] \<Rightarrow> bindE (finishRow s) (\<lambda>s1. scan_csv s1 cs))
      else scan_csv (put_char c s) cs)"

definition parseCsvRows :: "string \<Rightarrow> string list list csv_result" where
  "parseCsvRows input =
     bindE (scan_csv scan_start input) (\<lambda>s.
     require (\<not> sc_quoted s) quote_error (
     bindE (if sc_cell s \<noteq> [] \<or> sc_row s \<noteq> [] then finishRow s else Inr s) (\<lambda>s1.
     Inr (sc_rows s1))))"

section \<open>The status file\<close>

definition DELIVERY_STATUS_CSV_SCHEMA :: string where
  "DELIVERY_STATUS_CSV_SCHEMA = ''DELIVERY_STATUS_V1''"

definition DELIVERY_STATUS_CSV_MAX_ROWS :: nat where "DELIVERY_STATUS_CSV_MAX_ROWS = 500"
definition DELIVERY_STATUS_CSV_MAX_BYTES :: int where "DELIVERY_STATUS_CSV_MAX_BYTES = 250000"

definition DELIVERY_STATUS_CSV_HEADERS :: "string list" where
  "DELIVERY_STATUS_CSV_HEADERS =
     [''schemaVersion'', ''deliveryId'', ''expectedVersion'', ''currentStatus'', ''targetStatus'', ''reasonCode'',
      ''note'', ''orderNumber'', ''trackingNumber'', ''courierCode'', ''expectedCodMillimes'',
      ''ageVerificationRequired'', ''updatedAt'']"

record csv_command =
  cc_row :: nat
  cc_deliveryId :: string
  cc_expectedVersion :: int
  cc_currentStatus :: delivery_status
  cc_targetStatus :: delivery_status
  cc_reasonCode :: "string option"
  cc_note :: "string option"

record csv_export_row =
  ce_deliveryId :: string
  ce_expectedVersion :: int
  ce_currentStatus :: delivery_status
  ce_orderNumber :: string
  ce_trackingNumber :: "string option"
  ce_courierCode :: "string option"
  ce_expectedCodMillimes :: int
  ce_ageVerificationRequired :: bool
  ce_updatedAt :: string

fun csv_opt :: "string option \<Rightarrow> csv_cell" where
  "csv_opt None = CsvNull"
| "csv_opt (Some s) = CsvText s"

definition export_cells :: "csv_export_row \<Rightarrow> csv_cell list" where
  "export_cells r =
     [CsvText DELIVERY_STATUS_CSV_SCHEMA, CsvText (ce_deliveryId r), CsvNumber (ce_expectedVersion r),
      CsvText (order_status_name (ce_currentStatus r)), CsvText [], CsvText [], CsvText [],
      CsvText (ce_orderNumber r), csv_opt (ce_trackingNumber r), csv_opt (ce_courierCode r),
      CsvNumber (ce_expectedCodMillimes r), CsvBool (ce_ageVerificationRequired r), CsvText (ce_updatedAt r)]"

definition serializeDeliveryStatusCsv :: "string \<Rightarrow> csv_export_row list \<Rightarrow> string" where
  "serializeDeliveryStatusCsv bom rows = serializeCsv bom DELIVERY_STATUS_CSV_HEADERS (map export_cells rows)"

text \<open>The identifier pattern \<open>/^[A-Za-z0-9_-]{1,30}$/\<close>, the version pattern \<open>/^[1-9]\d{0,9}$/\<close> and the
  reason pattern \<open>/^[A-Z0-9_-]+$/\<close>.\<close>

definition dash_char :: "char \<Rightarrow> bool" where
  "dash_char c = (c \<in> {CHR ''_'', CHR ''-''})"

definition delivery_id_pattern :: "string \<Rightarrow> bool" where
  "delivery_id_pattern s =
     (1 \<le> length s \<and> length s \<le> 30
      \<and> list_all (\<lambda>c. upper_letter c \<or> lower_letter c \<or> decimal_digit c \<or> dash_char c) s)"

definition version_pattern :: "string \<Rightarrow> bool" where
  "version_pattern s =
     (s \<noteq> [] \<and> length s \<le> 10 \<and> hd s \<noteq> CHR ''0'' \<and> list_all decimal_digit s)"

definition reason_pattern :: "string \<Rightarrow> bool" where
  "reason_pattern s = (s \<noteq> [] \<and> list_all (\<lambda>c. upper_letter c \<or> decimal_digit c \<or> dash_char c) s)"

text \<open>\<open>Object.values(DeliveryStatus).includes\<close>, with the status found.\<close>

definition DELIVERY_STATUS_VALUES :: "delivery_status list" where
  "DELIVERY_STATUS_VALUES =
     [PENDING_CONFIRMATION, CONFIRMED, ON_HOLD, PREPARING, READY_FOR_PICKUP, ASSIGNED_TO_COURIER, HANDED_TO_COURIER,
      IN_TRANSIT, OUT_FOR_DELIVERY, DELIVERY_ATTEMPTED, RESCHEDULED, DELIVERED, REFUSED, FAILED, RETURN_TO_SENDER,
      RETURNED, CANCELLED]"

definition status_among :: "delivery_status list \<Rightarrow> string \<Rightarrow> delivery_status option" where
  "status_among sts v = List.find (\<lambda>s. order_status_name s = v) sts"

text \<open>
  One data row: \<open>n\<close> is its number in the file, \<open>seen\<close> the identifiers of the rows before it.
\<close>

definition parse_command :: "nat \<Rightarrow> string list \<Rightarrow> string list \<Rightarrow> csv_command csv_result" where
  "parse_command n seen values =
     require (length values = length DELIVERY_STATUS_CSV_HEADERS)
       (DeliveryCsvError ''DELIVERY_CSV_COLUMN_COUNT_INVALID'' (Some n)) (
     let deliveryId = values ! 1; version = values ! 2; reasonCode = values ! 5; note = values ! 6
     in
     require (values ! 0 = DELIVERY_STATUS_CSV_SCHEMA)
       (DeliveryCsvError ''DELIVERY_CSV_SCHEMA_UNSUPPORTED'' (Some n)) (
     require (delivery_id_pattern deliveryId) (DeliveryCsvError ''DELIVERY_CSV_DELIVERY_ID_INVALID'' (Some n)) (
     require (deliveryId \<notin> set seen) (DeliveryCsvError ''DELIVERY_CSV_DUPLICATE_DELIVERY'' (Some n)) (
     require (version_pattern version) (DeliveryCsvError ''DELIVERY_CSV_VERSION_INVALID'' (Some n)) (
     bindE (some_or (status_among DELIVERY_STATUS_VALUES (values ! 3))
       (DeliveryCsvError ''DELIVERY_CSV_CURRENT_STATUS_INVALID'' (Some n))) (\<lambda>current.
     bindE (some_or (status_among OPERATIONAL_DELIVERY_TARGETS (values ! 4))
       (DeliveryCsvError ''DELIVERY_CSV_TARGET_STATUS_INVALID'' (Some n))) (\<lambda>target.
     require (\<not> (length reasonCode > 80 \<or> (length reasonCode > 0 \<and> \<not> reason_pattern reasonCode)))
       (DeliveryCsvError ''DELIVERY_CSV_REASON_CODE_INVALID'' (Some n)) (
     require (length note \<le> 1000) (DeliveryCsvError ''DELIVERY_CSV_NOTE_TOO_LONG'' (Some n)) (
     Inr \<lparr> cc_row = n, cc_deliveryId = deliveryId, cc_expectedVersion = read_number version,
           cc_currentStatus = current, cc_targetStatus = target, cc_reasonCode = or_null (Some reasonCode),
           cc_note = or_null (Some (trim note)) \<rparr>)))))))))"

fun parse_commands :: "nat \<Rightarrow> string list \<Rightarrow> string list list \<Rightarrow> csv_command list csv_result" where
  "parse_commands n seen [] = Inr []"
| "parse_commands n seen (values # rest) =
     bindE (parse_command n seen values) (\<lambda>cmd.
     bindE (parse_commands (n + 1) (cc_deliveryId cmd # seen) rest) (\<lambda>cmds. Inr (cmd # cmds)))"

text \<open>
  The whole file.  \<open>marked\<close> says that the text starts with the byte-order mark, which the code removes; the
  mark takes three bytes, a code unit below 128 one and the others, up to 255, two.
\<close>

definition utf8_length :: "bool \<Rightarrow> string \<Rightarrow> int" where
  "utf8_length marked s =
     (if marked then 3 else 0) + sum_list (map (\<lambda>c. if (of_char c :: int) < 128 then 1 else 2) s)"

definition parseDeliveryStatusCsv :: "bool \<Rightarrow> string \<Rightarrow> csv_command list csv_result" where
  "parseDeliveryStatusCsv marked input =
     require (utf8_length marked input \<le> DELIVERY_STATUS_CSV_MAX_BYTES)
       (DeliveryCsvError ''DELIVERY_CSV_TOO_LARGE'' None) (
     require (CHR 0x00 \<notin> set input) (DeliveryCsvError ''DELIVERY_CSV_INVALID'' None) (
     bindE (parseCsvRows input) (\<lambda>rows.
     require (2 \<le> length rows) (DeliveryCsvError ''DELIVERY_CSV_EMPTY'' None) (
     require (length rows - 1 \<le> DELIVERY_STATUS_CSV_MAX_ROWS) (DeliveryCsvError ''DELIVERY_CSV_ROW_LIMIT'' None) (
     require (rows ! 0 = DELIVERY_STATUS_CSV_HEADERS) (DeliveryCsvError ''DELIVERY_CSV_HEADER_INVALID'' (Some 1)) (
     parse_commands 2 [] (tl rows)))))))"

section \<open>Reading back a table\<close>

text \<open>The text a cell is written as: its value behind an apostrophe when it looks like a formula.\<close>

definition cell_value :: "csv_cell \<Rightarrow> string" where
  "cell_value v = neutralizeCsvFormula (csv_cell_text v)"

definition fresh_cell :: "csv_scan \<Rightarrow> bool" where
  "fresh_cell s = (\<not> sc_quoted s \<and> \<not> sc_closedQuote s \<and> sc_cell s = [])"

lemma special_distinct [simp]:
  "QUOTE \<noteq> CHR '',''" "QUOTE \<noteq> CR" "QUOTE \<noteq> LF" "CR \<noteq> CHR '',''" "LF \<noteq> CHR '',''" "LF \<noteq> CR"
  "CHR '','' \<noteq> QUOTE" "CR \<noteq> QUOTE" "LF \<noteq> QUOTE" "CHR '','' \<noteq> CR" "CHR '','' \<noteq> LF" "CR \<noteq> LF"
  by (simp_all add: QUOTE_def CR_def LF_def)

lemma csv_special_iff: "csv_special c \<longleftrightarrow> c = QUOTE \<or> c = CHR '','' \<or> c = CR \<or> c = LF"
  by (simp add: csv_special_def CR_def LF_def)

lemma CRLF_eq: "CRLF = [CR, LF]"
  by (simp add: CRLF_def CR_def LF_def)

lemma double_quotes_simps [simp]:
  "double_quotes [] = []"
  "double_quotes (c # v) = (if c = QUOTE then QUOTE # QUOTE # double_quotes v else c # double_quotes v)"
  by (simp_all add: double_quotes_def)

lemma scan_quoted_text:
  "sc_quoted s \<Longrightarrow> rest = [] \<or> hd rest \<noteq> QUOTE \<Longrightarrow>
   scan_csv s (double_quotes v @ QUOTE # rest)
     = scan_csv (s \<lparr> sc_cell := sc_cell s @ v, sc_quoted := False, sc_closedQuote := True \<rparr>) rest"
proof (induction v arbitrary: s)
  case Nil
  then show ?case by (cases rest) auto
next
  case (Cons c v)
  then show ?case by (simp add: put_char_def)
qed

lemma scan_plain_text:
  "\<not> sc_quoted s \<Longrightarrow> \<not> sc_closedQuote s \<Longrightarrow> \<not> list_ex csv_special v \<Longrightarrow>
   scan_csv s (v @ rest) = scan_csv (s \<lparr> sc_cell := sc_cell s @ v \<rparr>) rest"
  by (induction v arbitrary: s) (simp_all add: csv_special_iff put_char_def)

lemma scan_cell:
  assumes "fresh_cell s" and "rest = [] \<or> hd rest \<noteq> QUOTE"
  shows "\<exists>b. scan_csv s (escapeCsvCell v @ rest)
           = scan_csv (s \<lparr> sc_cell := neutralizeCsvFormula v, sc_closedQuote := b \<rparr>) rest"
proof (cases "list_ex csv_special (neutralizeCsvFormula v)")
  case True
  have "scan_csv s (escapeCsvCell v @ rest)
      = scan_csv (s \<lparr> sc_quoted := True \<rparr>) (double_quotes (neutralizeCsvFormula v) @ QUOTE # rest)"
    using assms(1) True by (simp add: escapeCsvCell_def fresh_cell_def)
  also have "\<dots> = scan_csv (s \<lparr> sc_cell := neutralizeCsvFormula v, sc_closedQuote := True \<rparr>) rest"
    using assms by (cases s) (simp add: scan_quoted_text fresh_cell_def)
  finally show ?thesis by blast
next
  case False
  then have "scan_csv s (escapeCsvCell v @ rest)
      = scan_csv (s \<lparr> sc_cell := neutralizeCsvFormula v, sc_closedQuote := False \<rparr>) rest"
    using assms(1) by (cases s) (simp add: escapeCsvCell_def Let_def fresh_cell_def scan_plain_text)
  then show ?thesis by blast
qed

lemma scan_cell_comma:
  assumes "fresh_cell s" and "length (cell_value v) \<le> 2000"
  shows "scan_csv s (escapeCsvCell (csv_cell_text v) @ CHR '','' # rest)
       = scan_csv (s \<lparr> sc_row := sc_row s @ [cell_value v] \<rparr>) rest"
proof -
  obtain b where "scan_csv s (escapeCsvCell (csv_cell_text v) @ CHR '','' # rest)
      = scan_csv (s \<lparr> sc_cell := cell_value v, sc_closedQuote := b \<rparr>) (CHR '','' # rest)"
    using scan_cell [OF assms(1), of "CHR '','' # rest"] unfolding cell_value_def by fastforce
  then show ?thesis using assms by (cases s) (simp add: finishCell_def fresh_cell_def)
qed

lemma scan_cell_end:
  assumes "fresh_cell s" and "length (cell_value v) \<le> 2000"
  shows "scan_csv s (escapeCsvCell (csv_cell_text v) @ CRLF @ rest)
       = scan_csv (s \<lparr> sc_rows := (let r = sc_row s @ [cell_value v] in
                      if list_ex (\<lambda>v. v \<noteq> []) r then sc_rows s @ [r] else sc_rows s), sc_row := [] \<rparr>) rest"
proof -
  obtain b where "scan_csv s (escapeCsvCell (csv_cell_text v) @ CR # LF # rest)
      = scan_csv (s \<lparr> sc_cell := cell_value v, sc_closedQuote := b \<rparr>) (CR # LF # rest)"
    using scan_cell [OF assms(1), of "CR # LF # rest"] unfolding cell_value_def by fastforce
  then show ?thesis using assms
    by (cases s) (simp add: finishCell_def finishRow_def fresh_cell_def CRLF_eq Let_def)
qed

text \<open>The row a list of cells is read back as; a line without cells reads as one empty cell.\<close>

definition row_values :: "csv_cell list \<Rightarrow> string list" where
  "row_values vs = (if vs = [] then [[]] else map cell_value vs)"

lemma scan_line:
  "fresh_cell s \<Longrightarrow> list_all (\<lambda>v. length (cell_value v) \<le> 2000) vs \<Longrightarrow>
   scan_csv s (csv_line vs @ CRLF @ rest)
     = scan_csv (s \<lparr> sc_rows := (let r = sc_row s @ row_values vs in
                      if list_ex (\<lambda>v. v \<noteq> []) r then sc_rows s @ [r] else sc_rows s), sc_row := [] \<rparr>) rest"
proof (induction vs arbitrary: s)
  case Nil
  then show ?case
    by (cases s) (simp add: csv_line_def row_values_def fresh_cell_def CRLF_eq finishRow_def finishCell_def Let_def)
next
  case (Cons v vs)
  show ?case
  proof (cases vs)
    case Nil
    then show ?thesis using Cons.prems scan_cell_end [of s v rest] by (simp add: csv_line_def row_values_def)
  next
    case (Cons w ws)
    have "scan_csv s (csv_line (v # vs) @ CRLF @ rest)
        = scan_csv (s \<lparr> sc_row := sc_row s @ [cell_value v] \<rparr>) (csv_line vs @ CRLF @ rest)"
      using Cons.prems Cons scan_cell_comma [of s v "csv_line vs @ CRLF @ rest"] by (simp add: csv_line_def)
    also have "\<dots> = scan_csv (s \<lparr> sc_rows := (let r = sc_row s @ row_values (v # vs) in
                      if list_ex (\<lambda>v. v \<noteq> []) r then sc_rows s @ [r] else sc_rows s), sc_row := [] \<rparr>) rest"
      using Cons Cons.prems by (subst Cons.IH) (simp_all add: fresh_cell_def row_values_def Let_def)
    finally show ?thesis .
  qed
qed

lemma scan_lines:
  "fresh_cell s \<Longrightarrow> sc_row s = [] \<Longrightarrow> list_all (list_all (\<lambda>v. length (cell_value v) \<le> 2000)) rows \<Longrightarrow>
   scan_csv s (concat (map (\<lambda>r. csv_line r @ CRLF) rows))
     = Inr (s \<lparr> sc_rows := sc_rows s @ filter (list_ex (\<lambda>v. v \<noteq> [])) (map row_values rows) \<rparr>)"
proof (induction rows arbitrary: s)
  case (Cons r rows)
  have "scan_csv s (concat (map (\<lambda>r. csv_line r @ CRLF) (r # rows)))
      = scan_csv (s \<lparr> sc_rows := (if list_ex (\<lambda>v. v \<noteq> []) (row_values r) then sc_rows s @ [row_values r]
                                 else sc_rows s) \<rparr>) (concat (map (\<lambda>r. csv_line r @ CRLF) rows))"
    using Cons.prems scan_line [of s r "concat (map (\<lambda>r. csv_line r @ CRLF) rows)"] by (cases s) (simp add: Let_def)
  then show ?case using Cons.prems by (cases s) (simp add: Cons.IH fresh_cell_def)
qed simp

lemma join_lines: "rows \<noteq> [] \<Longrightarrow> join_with CRLF rows @ CRLF = concat (map (\<lambda>r. r @ CRLF) rows)"
  by (induction CRLF rows rule: join_with.induct) auto

lemma drop_blank_rows:
  "filter (list_ex (\<lambda>v. v \<noteq> [])) (map row_values rows) = filter (list_ex (\<lambda>v. v \<noteq> [])) (map (map cell_value) rows)"
  by (induction rows) (simp_all add: row_values_def)

lemma read_back:
  assumes "list_all (list_all (\<lambda>v. length (cell_value v) \<le> 2000)) (map CsvText headers # rows)"
  shows "parseCsvRows (serializeCsv [] headers rows)
       = Inr (filter (list_ex (\<lambda>v. v \<noteq> [])) (map (map cell_value) (map CsvText headers # rows)))"
proof -
  let ?t = "map CsvText headers # rows"
  have "serializeCsv [] headers rows = concat (map (\<lambda>r. csv_line r @ CRLF) ?t)"
    unfolding serializeCsv_def using join_lines [of "map csv_line ?t"] by (simp add: o_def)
  moreover have "scan_csv scan_start (concat (map (\<lambda>r. csv_line r @ CRLF) ?t))
      = Inr (scan_start \<lparr> sc_rows := filter (list_ex (\<lambda>v. v \<noteq> [])) (map (map cell_value) ?t) \<rparr>)"
    using assms scan_lines [of scan_start ?t]
    by (simp add: fresh_cell_def scan_start_def drop_blank_rows del: map_map list.map filter.simps concat.simps)
  ultimately show ?thesis by (simp add: parseCsvRows_def scan_start_def)
qed

text \<open>Whatever table the export writes, the import's scanner reads back, row by
  row and cell by cell, the values written, with the apostrophe in front of those that look like a formula; only
  the rows without any text are dropped.  No separator, quote or line break in a cell can shift a column.\<close>

theorem csv_read_back:
  assumes "list_all (list_all (\<lambda>v. length (neutralizeCsvFormula (csv_cell_text v)) \<le> 2000))
             (map CsvText headers # rows)"
  shows "parseCsvRows (serializeCsv [] headers rows)
       = Inr (filter (list_ex (\<lambda>v. v \<noteq> []))
           (map (map (\<lambda>v. neutralizeCsvFormula (csv_cell_text v))) (map CsvText headers # rows)))"
  using read_back [of headers rows] assms by (simp add: cell_value_def [abs_def])

theorem csv_read_back_witness:
  "parseCsvRows (serializeCsv [] [''a'', ''b''] [[CsvText ''=1'', CsvNull], [CsvText [QUOTE, CHR '','', LF], CsvNumber 7]])
     = Inr [[''a'', ''b''], [[CHR 0x27, CHR ''='', CHR ''1''], []], [[QUOTE, CHR '','', LF], ''7'']]"
  by (subst csv_read_back) code_simp+

section \<open>Reading back an exported file\<close>

lemma version_text:
  assumes "1 \<le> v" and "v < 10000000000"
  shows "version_pattern (int_text v)" and "read_number (int_text v) = v"
proof -
  have "nat v < 10 ^ 10" using assms by simp
  then show "version_pattern (int_text v)"
    using digits_length [of "nat v" 10] digits_digit [of "nat v"] hd_digits [of "nat v"] assms
    by (simp add: version_pattern_def int_text_def)
  show "read_number (int_text v) = v" using assms by (simp add: int_text_def read_digits)
qed

text \<open>A row as an operator sends it back: the target column filled in.\<close>

definition filled_in :: "csv_export_row \<times> delivery_status \<Rightarrow> csv_cell list" where
  "filled_in x = (export_cells (fst x)) [4 := CsvText (order_status_name (snd x))]"

definition returned_file :: "(csv_export_row \<times> delivery_status) list \<Rightarrow> string" where
  "returned_file xs = serializeCsv [] DELIVERY_STATUS_CSV_HEADERS (map filled_in xs)"

definition fillable :: "csv_export_row \<times> delivery_status \<Rightarrow> bool" where
  "fillable x =
     (delivery_id_pattern (ce_deliveryId (fst x)) \<and> hd (ce_deliveryId (fst x)) \<noteq> CHR ''-''
      \<and> 1 \<le> ce_expectedVersion (fst x) \<and> ce_expectedVersion (fst x) < 10000000000
      \<and> List.member OPERATIONAL_DELIVERY_TARGETS (snd x)
      \<and> list_all (\<lambda>v. length (neutralizeCsvFormula (csv_cell_text v)) \<le> 2000) (filled_in x))"

definition filled_command :: "nat \<times> csv_export_row \<times> delivery_status \<Rightarrow> csv_command" where
  "filled_command n =
     \<lparr> cc_row = fst n, cc_deliveryId = ce_deliveryId (fst (snd n)),
       cc_expectedVersion = ce_expectedVersion (fst (snd n)), cc_currentStatus = ce_currentStatus (fst (snd n)),
       cc_targetStatus = snd (snd n), cc_reasonCode = None, cc_note = None \<rparr>"

lemma plain_start:
  "s \<noteq> [] \<Longrightarrow> upper_letter (hd s) \<or> lower_letter (hd s) \<or> decimal_digit (hd s) \<or> hd s = CHR ''_'' \<Longrightarrow>
   neutralizeCsvFormula s = s"
  by (cases s)
    (auto simp: neutralizeCsvFormula_def FORMULA_PREFIX_def formula_blank_def upper_letter_def lower_letter_def decimal_digit_def)

lemma plain_id:
  "delivery_id_pattern s \<Longrightarrow> hd s \<noteq> CHR ''-'' \<Longrightarrow> neutralizeCsvFormula s = s"
  by (cases s) (auto intro!: plain_start simp: delivery_id_pattern_def dash_char_def)

lemma plain_number: "neutralizeCsvFormula (int_text v) = int_text v"
proof (rule plain_start)
  show "upper_letter (hd (int_text v)) \<or> lower_letter (hd (int_text v)) \<or> decimal_digit (hd (int_text v)) \<or> hd (int_text v) = CHR ''_''"
    using digits_digit [of "nat v"] digits_not_empty [of "nat v"] by (cases "digits (nat v)") (simp_all add: int_text_def)
qed (simp add: int_text_def)

lemma plain_status: "neutralizeCsvFormula (order_status_name t) = order_status_name t"
  by (cases t) (simp_all add: plain_start upper_letter_def)

lemma status_read_back:
  "status_among DELIVERY_STATUS_VALUES (order_status_name t) = Some t"
  "List.member OPERATIONAL_DELIVERY_TARGETS t \<Longrightarrow> status_among OPERATIONAL_DELIVERY_TARGETS (order_status_name t) = Some t"
  by (cases t; simp add: status_among_def DELIVERY_STATUS_VALUES_def OPERATIONAL_DELIVERY_TARGETS_def)+

lemma plain_constants:
  "neutralizeCsvFormula [] = []" "neutralizeCsvFormula DELIVERY_STATUS_CSV_SCHEMA = DELIVERY_STATUS_CSV_SCHEMA"
  by (simp_all add: neutralizeCsvFormula_def FORMULA_PREFIX_def formula_blank_def DELIVERY_STATUS_CSV_SCHEMA_def)

lemma filled_values:
  assumes "fillable x"
  shows "\<exists>rest. length rest = 6 \<and> map cell_value (filled_in x)
       = [DELIVERY_STATUS_CSV_SCHEMA, ce_deliveryId (fst x), int_text (ce_expectedVersion (fst x)),
          order_status_name (ce_currentStatus (fst x)), order_status_name (snd x), [], []] @ rest"
proof -
  have "neutralizeCsvFormula (ce_deliveryId (fst x)) = ce_deliveryId (fst x)"
    using assms plain_id by (simp add: fillable_def)
  then show ?thesis
    by (simp add: filled_in_def export_cells_def cell_value_def plain_constants plain_number plain_status)
qed

lemma parse_filled:
  assumes "fillable x" and "ce_deliveryId (fst x) \<notin> set seen"
  shows "parse_command n seen (map cell_value (filled_in x)) = Inr (filled_command (n, x))"
proof -
  obtain rest where rest: "length rest = 6"
    and v: "map cell_value (filled_in x)
       = [DELIVERY_STATUS_CSV_SCHEMA, ce_deliveryId (fst x), int_text (ce_expectedVersion (fst x)),
          order_status_name (ce_currentStatus (fst x)), order_status_name (snd x), [], []] @ rest"
    using filled_values [OF assms(1)] by blast
  show ?thesis unfolding v
    using rest assms version_text [of "ce_expectedVersion (fst x)"]
    by (simp add: parse_command_def fillable_def DELIVERY_STATUS_CSV_HEADERS_def filled_command_def
        status_read_back or_null_def trim_def)
qed

lemma parse_all_filled:
  "list_all fillable xs \<Longrightarrow> distinct (map (\<lambda>x. ce_deliveryId (fst x)) xs) \<Longrightarrow>
   set seen \<inter> set (map (\<lambda>x. ce_deliveryId (fst x)) xs) = {} \<Longrightarrow>
   parse_commands n seen (map (\<lambda>x. map cell_value (filled_in x)) xs) = Inr (map filled_command (enumerate n xs))"
proof (induction xs arbitrary: n seen)
  case (Cons x xs)
  have "parse_commands (Suc n) (ce_deliveryId (fst x) # seen) (map (\<lambda>x. map cell_value (filled_in x)) xs)
      = Inr (map filled_command (enumerate (Suc n) xs))"
    using Cons.prems by (intro Cons.IH) auto
  then show ?case using Cons.prems parse_filled [of x seen n] by (simp add: filled_command_def)
qed simp

lemma filled_not_blank: "list_ex (\<lambda>v. v \<noteq> []) (map cell_value (filled_in x))"
  by (simp add: filled_in_def export_cells_def cell_value_def DELIVERY_STATUS_CSV_SCHEMA_def neutralizeCsvFormula_def)

lemma header_plain:
  "map (cell_value \<circ> CsvText) DELIVERY_STATUS_CSV_HEADERS = DELIVERY_STATUS_CSV_HEADERS"
  "list_all (\<lambda>v. length (neutralizeCsvFormula (csv_cell_text v)) \<le> 2000) (map CsvText DELIVERY_STATUS_CSV_HEADERS)"
  "list_ex (\<lambda>v. v \<noteq> []) DELIVERY_STATUS_CSV_HEADERS"
  by code_simp+

lemma read_returned_rows:
  assumes "list_all fillable xs"
  shows "parseCsvRows (returned_file xs)
       = Inr (DELIVERY_STATUS_CSV_HEADERS # map (\<lambda>x. map cell_value (filled_in x)) xs)"
proof -
  have "list_all (list_all (\<lambda>v. length (cell_value v) \<le> 2000)) (map CsvText DELIVERY_STATUS_CSV_HEADERS # map filled_in xs)"
    using assms header_plain(2) by (auto simp: list_all_iff fillable_def cell_value_def)
  then show ?thesis
    unfolding returned_file_def using read_back header_plain(1,3) filled_not_blank by simp
qed

text \<open>Property C40 (status_file_comes_back): an exported file that comes back with the target column filled in is
  accepted, whatever the other columns hold: every row becomes the command for its delivery with the version and
  status it was exported with, in the order of the file, provided the identifiers are well formed and distinct, the
  targets operational and the file within the limits.\<close>

theorem status_file_comes_back:
  assumes "list_all fillable xs" and "distinct (map (\<lambda>x. ce_deliveryId (fst x)) xs)"
    and "1 \<le> length xs" and "length xs \<le> DELIVERY_STATUS_CSV_MAX_ROWS"
    and "CHR 0x00 \<notin> set (returned_file xs)" and "utf8_length marked (returned_file xs) \<le> DELIVERY_STATUS_CSV_MAX_BYTES"
  shows "parseDeliveryStatusCsv marked (returned_file xs) = Inr (map filled_command (enumerate 2 xs))"
  using assms read_returned_rows [of xs] parse_all_filled [of xs "[]" 2]
  by (simp add: parseDeliveryStatusCsv_def)

definition demo_export :: "csv_export_row" where
  "demo_export = \<lparr> ce_deliveryId = ''d1'', ce_expectedVersion = 3, ce_currentStatus = HANDED_TO_COURIER,
     ce_orderNumber = ''TJ-1'', ce_trackingNumber = Some [CHR ''a'', QUOTE, CHR '',''], ce_courierCode = None,
     ce_expectedCodMillimes = 42000, ce_ageVerificationRequired = True, ce_updatedAt = ''2025'' \<rparr>"

theorem status_file_comes_back_witness:
  "parseDeliveryStatusCsv True (returned_file [(demo_export, IN_TRANSIT)])
     = Inr [\<lparr> cc_row = 2, cc_deliveryId = ''d1'', cc_expectedVersion = 3, cc_currentStatus = HANDED_TO_COURIER,
             cc_targetStatus = IN_TRANSIT, cc_reasonCode = None, cc_note = None \<rparr>]"
  by (subst status_file_comes_back) code_simp+

end
