(* ===== verification/DeliveryOperations.thy ===== *)
theory DeliveryOperations
  imports CourierMessage DeliveryCsv
begin

text \<open>
  \<open>delivery/admin-delivery-operations.service.ts\<close>: the couriers of the shop, the manifests they take
  parcels over with, and the status files imported in bulk.  The three list queries and the export of
  statuses only read; they and the rendering of a courier record are not modelled.
\<close>

section \<open>Couriers\<close>

definition upper_char :: "char \<Rightarrow> char" where
  "upper_char c = (if lower_letter c then char_of ((of_char c :: nat) - 32) else c)"

text \<open>\<open>toUpperCase\<close> on the letters that courier codes and hexadecimal numbers consist of.\<close>

definition upper_case :: "string \<Rightarrow> string" where
  "upper_case = map upper_char"

record zone_input =
  zi_deliveryZoneId :: string
  zi_active :: "bool option"
  zi_feeMillimes :: "int option"

definition coverage_zone :: "zone_input \<Rightarrow> courier_zone" where
  "coverage_zone z =
     \<lparr> cz_deliveryZoneId = zi_deliveryZoneId z,
       cz_active = (case zi_active z of None \<Rightarrow> True | Some a \<Rightarrow> a), cz_feeMillimes = zi_feeMillimes z \<rparr>"

definition validateCoverageZones :: "'a shop_db_scheme \<Rightarrow> zone_input list option \<Rightarrow> unit result" where
  "validateCoverageZones db zones =
     (case zones of
        None \<Rightarrow> Inr ()
      | Some zs \<Rightarrow>
          require (zs = [] \<or> length (filter (\<lambda>z. zone_id z \<in> set (map zi_deliveryZoneId zs)) (ref_zones (reference db)))
                             = length zs)
            (badRequest ''COURIER_COVERAGE_ZONE_INVALID'') (Inr ()))"

definition sample_values :: template_values where
  "sample_values = map_of
     [(''orderNumber'', ''ORDER''), (''customerName'', ''CUSTOMER''), (''customerPhone'', ''+21620000000''),
      (''deliveryAddress'', ''ADDRESS''), (''governorate'', ''GOVERNORATE''), (''delegation'', ''DELEGATION''),
      (''locality'', ''LOCALITY''), (''amountToCollect'', ''0.000 TND''), (''orderNotes'', ''NONE'')]"

text \<open>The template is tried out; whatever error it raises becomes a bad request with the same code.\<close>

definition validateWhatsAppConfiguration :: "string option \<Rightarrow> string option \<Rightarrow> unit result" where
  "validateWhatsAppConfiguration template phone =
     (case buildCourierWhatsAppLink (case phone of Some p \<Rightarrow> p | None \<Rightarrow> ''+21620000000'')
             (case template of Some t \<Rightarrow> t | None \<Rightarrow> DEFAULT_COURIER_WHATSAPP_TEMPLATE) sample_values of
        Inr _ \<Rightarrow> Inr ()
      | Inl (Http _ code _) \<Rightarrow> Inl (badRequest code)
      | Inl _ \<Rightarrow> Inl (badRequest ''COURIER_WHATSAPP_TEMPLATE_INVALID''))"

record courier_input =
  coi_code :: string
  coi_name :: string
  coi_companyName :: "string option"
  coi_availabilityStatus :: "availability option"
  coi_contactName :: "string option"
  coi_phoneE164 :: "string option"
  coi_whatsappPhoneE164 :: "string option"
  coi_email :: "string option"
  coi_defaultFeeMillimes :: "int option"
  coi_maximumActiveDeliveries :: "nat option"
  coi_whatsappTemplate :: "string option"
  coi_notes :: "string option"
  coi_coverageZones :: "zone_input list option"

definition option_or :: "'a option \<Rightarrow> 'a option \<Rightarrow> 'a option" where
  "option_or a b = (case a of Some _ \<Rightarrow> a | None \<Rightarrow> b)"

fun availability_name :: "availability \<Rightarrow> string" where
  "availability_name AVAILABLE = ''AVAILABLE''"
| "availability_name OFF_DUTY = ''OFF_DUTY''"

fun courier_status_name :: "courier_status \<Rightarrow> string" where
  "courier_status_name COURIER_ACTIVE = ''ACTIVE''"
| "courier_status_name COURIER_SUSPENDED = ''SUSPENDED''"
| "courier_status_name COURIER_ARCHIVED = ''ARCHIVED''"

definition operations_audit :: "env \<Rightarrow> string \<Rightarrow> string \<Rightarrow> string \<Rightarrow> json \<Rightarrow> json \<Rightarrow> audit_log" where
  "operations_audit e action resourceType resourceId before after =
     cash_audit e action resourceType resourceId before after"

definition courier_json :: "courier \<Rightarrow> (string \<times> json) list" where
  "courier_json c =
     [(''code'', JStr (cou_code c)), (''name'', JStr (cou_name c)), (''status'', JStr (courier_status_name (cou_status c))),
      (''availabilityStatus'', JStr (availability_name (cou_availabilityStatus c))),
      (''defaultFeeMillimes'', jopt JNum (cou_defaultFeeMillimes c)),
      (''maximumActiveDeliveries'', jopt (\<lambda>n. JNum (int n)) (cou_maximumActiveDeliveries c)),
      (''coverageZoneIds'', JArr (map (\<lambda>z. JStr (cz_deliveryZoneId z)) (cou_deliveryZones c)))]"

definition courier_row :: "env \<Rightarrow> courier_input \<Rightarrow> courier" where
  "courier_row e i =
     \<lparr> cou_id = [], cou_code = upper_case (trim (coi_code i)), cou_name = trim (coi_name i),
       cou_companyName = map_option trim (coi_companyName i), cou_status = COURIER_ACTIVE,
       cou_availabilityStatus = (case coi_availabilityStatus i of None \<Rightarrow> AVAILABLE | Some a \<Rightarrow> a),
       cou_defaultFeeMillimes = coi_defaultFeeMillimes i,
       cou_maximumActiveDeliveries = coi_maximumActiveDeliveries i,
       cou_deliveryZones = (case coi_coverageZones i of None \<Rightarrow> [] | Some zs \<Rightarrow> map coverage_zone zs),
       cou_phoneE164 = coi_phoneE164 i, cou_whatsappPhoneE164 = coi_whatsappPhoneE164 i,
       cou_whatsappTemplate = Some (case coi_whatsappTemplate i of Some t \<Rightarrow> trim t
                                    | None \<Rightarrow> DEFAULT_COURIER_WHATSAPP_TEMPLATE),
       cou_contactName = map_option trim (coi_contactName i),
       cou_email = map_option (\<lambda>m. lower_case (trim m)) (coi_email i), cou_notes = map_option trim (coi_notes i),
       cou_integrations = [IT_MANUAL], cou_updatedAt = now e \<rparr>"

text \<open>The unique code; \<open>catch\<close> of both courier handlers.\<close>

definition courier_code_conflict :: "'b result \<Rightarrow> 'b result" where
  "courier_code_conflict m =
     (case m of Inl x \<Rightarrow> Inl (if x = PrismaError ''P2002'' then conflict ''COURIER_CODE_CONFLICT'' else x) | Inr r \<Rightarrow> Inr r)"

definition createManualCourier ::
  "env \<Rightarrow> courier_input \<Rightarrow> 'a delivery_db_scheme \<Rightarrow> (courier \<times> 'a delivery_db_scheme) result" where
  "createManualCourier e i db = courier_code_conflict (
     bindE (validateCoverageZones db (coi_coverageZones i)) (\<lambda>_.
     bindE (validateWhatsAppConfiguration (coi_whatsappTemplate i)
              (option_or (coi_whatsappPhoneE164 i) (coi_phoneE164 i))) (\<lambda>_.
     bindE (create_courier e (courier_row e i) db) (\<lambda>(c, db1).
     bindE (create_audit e (operations_audit e ''delivery.courier.manual_created'' ''Courier'' (cou_id c) JNull
              (JObj (courier_json c @ [(''mode'', JStr ''MANUAL'')]))) db1) (\<lambda>(_, db2).
     Inr (c, db2))))))"

text \<open>An update: an absent field is \<open>None\<close>, a field set to null \<open>Some None\<close>.\<close>

record courier_update =
  cpu_code :: "string option"
  cpu_name :: "string option"
  cpu_companyName :: "string option option"
  cpu_availabilityStatus :: "availability option"
  cpu_contactName :: "string option option"
  cpu_phoneE164 :: "string option option"
  cpu_whatsappPhoneE164 :: "string option option"
  cpu_email :: "string option option"
  cpu_defaultFeeMillimes :: "int option option"
  cpu_maximumActiveDeliveries :: "nat option option"
  cpu_whatsappTemplate :: "string option option"
  cpu_coverageZones :: "zone_input list option"
  cpu_notes :: "string option option"
  cpu_status :: "courier_status option"
  cpu_expectedUpdatedAt :: int

definition given :: "'b option \<Rightarrow> string \<Rightarrow> string list" where
  "given x name = (case x of None \<Rightarrow> [] | Some _ \<Rightarrow> [name])"

text \<open>\<open>changeKeys.filter\<close>: the fields the request sets, in the order of the code.\<close>

definition changed_fields :: "courier_update \<Rightarrow> string list" where
  "changed_fields i =
     given (cpu_code i) ''code'' @ given (cpu_name i) ''name'' @ given (cpu_companyName i) ''companyName''
     @ given (cpu_availabilityStatus i) ''availabilityStatus'' @ given (cpu_contactName i) ''contactName''
     @ given (cpu_phoneE164 i) ''phoneE164'' @ given (cpu_whatsappPhoneE164 i) ''whatsappPhoneE164''
     @ given (cpu_email i) ''email'' @ given (cpu_defaultFeeMillimes i) ''defaultFeeMillimes''
     @ given (cpu_maximumActiveDeliveries i) ''maximumActiveDeliveries''
     @ given (cpu_whatsappTemplate i) ''whatsappTemplate'' @ given (cpu_coverageZones i) ''coverageZones''
     @ given (cpu_notes i) ''notes'' @ given (cpu_status i) ''status''"

definition set_field :: "'b option \<Rightarrow> 'b \<Rightarrow> 'b" where
  "set_field x old = (case x of None \<Rightarrow> old | Some v \<Rightarrow> v)"

definition updated_courier :: "env \<Rightarrow> courier_update \<Rightarrow> courier \<Rightarrow> courier" where
  "updated_courier e i c =
     c\<lparr> cou_updatedAt := now e, cou_code := set_field (map_option (\<lambda>s. upper_case (trim s)) (cpu_code i)) (cou_code c),
        cou_name := set_field (map_option trim (cpu_name i)) (cou_name c),
        cou_companyName := set_field (map_option (map_option trim) (cpu_companyName i)) (cou_companyName c),
        cou_availabilityStatus := set_field (cpu_availabilityStatus i) (cou_availabilityStatus c),
        cou_contactName := set_field (map_option (map_option trim) (cpu_contactName i)) (cou_contactName c),
        cou_phoneE164 := set_field (cpu_phoneE164 i) (cou_phoneE164 c),
        cou_whatsappPhoneE164 := set_field (cpu_whatsappPhoneE164 i) (cou_whatsappPhoneE164 c),
        cou_email := set_field (map_option (map_option (\<lambda>m. lower_case (trim m))) (cpu_email i)) (cou_email c),
        cou_defaultFeeMillimes := set_field (cpu_defaultFeeMillimes i) (cou_defaultFeeMillimes c),
        cou_maximumActiveDeliveries := set_field (cpu_maximumActiveDeliveries i) (cou_maximumActiveDeliveries c),
        cou_whatsappTemplate := set_field (map_option (map_option trim) (cpu_whatsappTemplate i)) (cou_whatsappTemplate c),
        cou_notes := set_field (map_option (map_option trim) (cpu_notes i)) (cou_notes c),
        cou_status := set_field (cpu_status i) (cou_status c),
        cou_deliveryZones := (case cpu_coverageZones i of None \<Rightarrow> cou_deliveryZones c | Some zs \<Rightarrow> map coverage_zone zs) \<rparr>"

definition ACTIVE_MANIFEST_STATUSES :: "manifest_status set" where
  "ACTIVE_MANIFEST_STATUSES = {MF_DRAFT, MF_SEALED, MF_HANDED_OVER}"

text \<open>Deliveries and manifests the courier still answers for.\<close>

definition active_custody :: "'a delivery_db_scheme \<Rightarrow> string \<Rightarrow> bool" where
  "active_custody db cid =
     (0 < count_where (\<lambda>d. dlv_courierId d = Some cid \<and> dlv_status d \<notin> TERMINAL_DELIVERY_STATUSES) (deliveries db)
      \<or> 0 < count_where (\<lambda>m. mf_courierId m = cid \<and> mf_status m \<in> ACTIVE_MANIFEST_STATUSES) (manifests db))"

definition courier_update_guard ::
  "'a delivery_db_scheme \<Rightarrow> courier_update \<Rightarrow> courier \<Rightarrow> unit result" where
  "courier_update_guard db i c =
     require (cou_updatedAt c = cpu_expectedUpdatedAt i) (conflict ''COURIER_VERSION_CONFLICT'') (
     require (\<not> list_ex (\<lambda>t. t \<noteq> IT_MANUAL) (cou_integrations c))
       (conflict ''COURIER_EXTERNAL_CONFIGURATION_MANAGED_ELSEWHERE'') (
     bindE (validateCoverageZones db (cpu_coverageZones i)) (\<lambda>_.
     bindE (validateWhatsAppConfiguration
              (case cpu_whatsappTemplate i of
                 Some None \<Rightarrow> Some DEFAULT_COURIER_WHATSAPP_TEMPLATE
               | Some (Some t) \<Rightarrow> Some t
               | None \<Rightarrow> cou_whatsappTemplate c)
              (option_or (set_field (cpu_whatsappPhoneE164 i) (cou_whatsappPhoneE164 c))
                 (set_field (cpu_phoneE164 i) (cou_phoneE164 c)))) (\<lambda>_.
     require (\<not> ((case cpu_status i of None \<Rightarrow> False | Some s \<Rightarrow> s \<noteq> COURIER_ACTIVE) \<and> cou_status c = COURIER_ACTIVE
                 \<and> active_custody db (cou_id c)))
       (conflict ''COURIER_HAS_ACTIVE_CUSTODY'') (Inr ())))))"

definition write_courier ::
  "env \<Rightarrow> courier_update \<Rightarrow> courier \<Rightarrow> 'a cash_db_scheme \<Rightarrow> 'a cash_db_scheme result" where
  "write_courier e i c db =
     (let hit = (\<lambda>x. cou_id x = cou_id c \<and> cou_updatedAt x = cou_updatedAt c)
      in require (\<not> (0 < count_where hit (couriers db)
                     \<and> list_ex (\<lambda>y. cou_id y \<noteq> cou_id c \<and> cou_code y = cou_code (updated_courier e i c)) (couriers db)))
           (PrismaError ''P2002'') (
         require (count_where hit (couriers db) = 1) (conflict ''COURIER_VERSION_CONFLICT'') (
         Inr (db\<lparr> couriers := update_where hit (updated_courier e i) (couriers db) \<rparr>))))"

definition updateManualCourier ::
  "env \<Rightarrow> string \<Rightarrow> courier_update \<Rightarrow> 'a delivery_db_scheme \<Rightarrow> (courier \<times> 'a delivery_db_scheme) result" where
  "updateManualCourier e cid i db =
     require (changed_fields i \<noteq> []) (badRequest ''COURIER_UPDATE_EMPTY'') (courier_code_conflict (
     bindE (some_or (find_courier db cid) (notFound ''COURIER_NOT_FOUND'')) (\<lambda>c.
     bindE (courier_update_guard db i c) (\<lambda>_.
     bindE (write_courier e i c db) (\<lambda>db1.
     bindE (create_audit e (operations_audit e ''delivery.courier.manual_updated'' ''Courier'' cid
              (JObj (courier_json c))
              (JObj (courier_json (updated_courier e i c)
                     @ [(''changedFields'', JArr (map JStr (changed_fields i)))]))) db1) (\<lambda>(_, db2).
     bindE (some_or (find_courier db2 cid) (notFound ''COURIER_NOT_FOUND'')) (\<lambda>r. Inr (r, db2))))))))"

section \<open>Deliveries in bulk\<close>

text \<open>\<open>findBulkDeliveries\<close>: the deliveries with these ids, by id, each with its order.\<close>

definition findBulkDeliveries :: "'a delivery_db_scheme \<Rightarrow> string list \<Rightarrow> delivery_operation list result" where
  "findBulkDeliveries db ids =
     mapE (\<lambda>d. bindE (some_or (find_order db (dlv_orderId d)) (PrismaError ''INCONSISTENT'')) (\<lambda>o'.
               Inr (delivery_operation_of db d o')))
       (sort_key dlv_id (filter (\<lambda>d. dlv_id d \<in> set ids) (deliveries db)))"

definition by_id :: "delivery_operation list \<Rightarrow> string \<Rightarrow> delivery_operation option" where
  "by_id ops did = List.find (\<lambda>op. dlv_id (dop_delivery op) = did) ops"

text \<open>The four records of a transition; the source is the file or the manifest.\<close>

definition bulk_records ::
  "env \<Rightarrow> delivery_operation \<Rightarrow> delivery_status \<Rightarrow> string \<Rightarrow> string option \<Rightarrow> string \<Rightarrow> string
     \<Rightarrow> 'a shop_db_scheme \<Rightarrow> 'a shop_db_scheme result" where
  "bulk_records e op target reasonCode note source action db =
     (let d = dop_delivery op; o' = dop_order op
      in bindE (create_delivery_event e
           \<lparr> de_id = [], de_deliveryId = dlv_id d, de_fromStatus = Some (dlv_status d), de_toStatus = target,
             de_occurredAt = now e, de_actorUserId = Some (actor e), de_source = source,
             de_reasonCode = Some reasonCode, de_note = note, de_payload = JNull,
             de_requestId = Some (requestId e) \<rparr> db) (\<lambda>(_, db1).
         bindE (create_status_history e
           \<lparr> sh_id = [], sh_orderId = ord_id o', sh_fromStatus = Some (ord_status o'), sh_toStatus = target,
             sh_reasonCode = Some reasonCode, sh_note = note, sh_changedByUserId = Some (actor e),
             sh_requestId = Some (requestId e), sh_createdAt = now e \<rparr> db1) (\<lambda>(_, db2).
         bindE (create_audit e (operations_audit e action ''Delivery'' (dlv_id d)
           (JObj [(''status'', JStr (order_status_name (dlv_status d))), (''version'', JNum (dlv_version d))])
           (JObj [(''status'', JStr (order_status_name target)), (''version'', JNum (dlv_version d + 1))])) db2)
           (\<lambda>(_, db3).
         notify_delivery e op target db3))))"

definition applyDeliveryTransition ::
  "env \<Rightarrow> delivery_operation \<Rightarrow> delivery_status \<Rightarrow> string \<Rightarrow> string option \<Rightarrow> string \<Rightarrow> string
     \<Rightarrow> (delivery \<Rightarrow> delivery) \<Rightarrow> 'a shop_db_scheme \<Rightarrow> 'a shop_db_scheme result" where
  "applyDeliveryTransition e op target reasonCode note source action deliveryData db =
     bindE (updateMirroredStatus op target deliveryData db) (\<lambda>db1.
     bulk_records e op target reasonCode note source action db1)"

section \<open>Manifests\<close>

fun manifest_status_name :: "manifest_status \<Rightarrow> string" where
  "manifest_status_name MF_DRAFT = ''DRAFT''"
| "manifest_status_name MF_SEALED = ''SEALED''"
| "manifest_status_name MF_HANDED_OVER = ''HANDED_OVER''"
| "manifest_status_name MF_CLOSED = ''CLOSED''"
| "manifest_status_name MF_CANCELLED = ''CANCELLED''"

fun MANIFEST_TRANSITIONS :: "manifest_status \<Rightarrow> manifest_status list" where
  "MANIFEST_TRANSITIONS MF_DRAFT = [MF_SEALED, MF_CANCELLED]"
| "MANIFEST_TRANSITIONS MF_SEALED = [MF_HANDED_OVER, MF_CANCELLED]"
| "MANIFEST_TRANSITIONS MF_HANDED_OVER = [MF_CLOSED]"
| "MANIFEST_TRANSITIONS MF_CLOSED = []"
| "MANIFEST_TRANSITIONS MF_CANCELLED = []"

definition canTransitionManifest :: "manifest_status \<Rightarrow> manifest_status \<Rightarrow> bool" where
  "canTransitionManifest from_status to_status = (to_status \<in> set (MANIFEST_TRANSITIONS from_status))"

record manifest_view =
  mv_manifest :: manifest
  mv_courier :: "courier option"
  mv_items :: "(manifest_item \<times> delivery option) list"

definition find_manifest :: "'a delivery_db_scheme \<Rightarrow> string \<Rightarrow> manifest option" where
  "find_manifest db mid = List.find (\<lambda>m. mf_id m = mid) (manifests db)"

definition items_of_manifest :: "'a delivery_db_scheme \<Rightarrow> string \<Rightarrow> manifest_item list" where
  "items_of_manifest db mid =
     sort_key (\<lambda>i. (mi_sequence i, mi_deliveryId i)) (filter (\<lambda>i. mi_manifestId i = mid) (manifest_items db))"

definition manifest_answer :: "'a delivery_db_scheme \<Rightarrow> string \<Rightarrow> manifest_view result" where
  "manifest_answer db mid =
     bindE (some_or (find_manifest db mid) (notFound ''DELIVERY_MANIFEST_NOT_FOUND'')) (\<lambda>m.
     Inr \<lparr> mv_manifest = m, mv_courier = find_courier db (mf_courierId m),
           mv_items = map (\<lambda>i. (i, find_delivery db (mi_deliveryId i))) (items_of_manifest db mid) \<rparr>)"

definition getManifest ::
  "env \<Rightarrow> string \<Rightarrow> 'a delivery_db_scheme \<Rightarrow> (manifest_view \<times> 'a delivery_db_scheme) result" where
  "getManifest e mid db =
     bindE (manifest_answer db mid) (\<lambda>v.
     bindE (create_audit e (operations_audit e ''delivery.manifest.viewed'' ''DeliveryManifest'' mid JNull
              (JObj [(''status'', JStr (manifest_status_name (mf_status (mv_manifest v)))),
                     (''itemCount'', JNum (int (length (mv_items v))))])) db) (\<lambda>(_, db1).
     Inr (v, db1)))"

text \<open>
  The day of a text \<open>YYYY-MM-DD\<close>, as the time of its midnight.  The code parses the text and compares the
  date it gets with it, so that a day the month does not have is refused.
\<close>

definition days_from_civil :: "int \<Rightarrow> int \<Rightarrow> int \<Rightarrow> int" where
  "days_from_civil y0 m d =
     (let y = (if m \<le> 2 then y0 - 1 else y0);
          era = y div 400;
          yoe = y - era * 400;
          doy = (153 * (m + (if m > 2 then -3 else 9)) + 2) div 5 + d - 1;
          doe = yoe * 365 + yoe div 4 - yoe div 100 + doy
      in era * 146097 + doe - 719468)"

definition date_pattern :: "string \<Rightarrow> bool" where
  "date_pattern s =
     (length s = 10 \<and> s ! 4 = CHR ''-'' \<and> s ! 7 = CHR ''-''
      \<and> list_all decimal_digit (take 4 s @ take 2 (drop 5 s) @ drop 8 s))"

definition parse_day :: "string \<Rightarrow> int option" where
  "parse_day s =
     (if date_pattern s then
        (let t = 86400000 * days_from_civil (read_number (take 4 s)) (read_number (take 2 (drop 5 s))) (read_number (drop 8 s))
         in if take 10 (iso_string t) = s then Some t else None)
      else None)"

definition newManifestNumber :: "env \<Rightarrow> int \<Rightarrow> string" where
  "newManifestNumber e date =
     ''MNF-'' @ filter (\<lambda>c. c \<noteq> CHR ''-'') (take 10 (iso_string date)) @ ''-'' @ upper_case (random_hex e)"

record manifest_input =
  mfi_courierId :: string
  mfi_manifestDate :: string
  mfi_deliveries :: "(string \<times> int) list"

definition check_manifest_delivery ::
  "'a delivery_db_scheme \<Rightarrow> manifest_input \<Rightarrow> delivery_operation list \<Rightarrow> string \<times> int \<Rightarrow> unit \<Rightarrow> unit result" where
  "check_manifest_delivery db i ops x _ =
     bindE (some_or (by_id ops (fst x)) (notFound ''DELIVERY_NOT_FOUND'')) (\<lambda>op.
     let d = dop_delivery op; o' = dop_order op
     in require (dlv_version d = snd x) (conflict ''VERSION_CONFLICT'') (
        require (\<not> (ord_methodType o' \<noteq> COURIER \<or> dlv_courierId d \<noteq> Some (mfi_courierId i)
                    \<or> dlv_status d \<noteq> ASSIGNED_TO_COURIER \<or> ord_status o' \<noteq> ASSIGNED_TO_COURIER))
          (conflict ''MANIFEST_DELIVERY_INELIGIBLE'') (
        require (count_where (open_manifest_item db (dlv_id d)) (manifest_items db) = 0)
          (conflict ''DELIVERY_ALREADY_ON_ACTIVE_MANIFEST'') (Inr ()))))"

definition add_manifest_item :: "string \<Rightarrow> nat \<times> string \<Rightarrow> 'a delivery_db_scheme \<Rightarrow> 'a delivery_db_scheme result" where
  "add_manifest_item mid x =
     create_manifest_item \<lparr> mi_manifestId = mid, mi_deliveryId = snd x, mi_sequence = fst x + 1 \<rparr>"

definition manifest_event ::
  "env \<Rightarrow> manifest \<Rightarrow> delivery_operation \<Rightarrow> 'a delivery_db_scheme \<Rightarrow> 'a delivery_db_scheme result" where
  "manifest_event e m op db =
     bindE (create_delivery_event e (delivery_note_event e (dop_delivery op) ''MANIFEST_ADDED'' None
              (JObj [(''manifestId'', JStr (mf_id m)), (''manifestNumber'', JStr (mf_number m))])) db)
       (\<lambda>(_, db1). Inr db1)"

definition createManifest_tx ::
  "env \<Rightarrow> manifest_input \<Rightarrow> int \<Rightarrow> 'a delivery_db_scheme \<Rightarrow> (manifest_view \<times> 'a delivery_db_scheme) result" where
  "createManifest_tx e i date db =
     require (list_ex (\<lambda>c. cou_id c = mfi_courierId i \<and> cou_status c = COURIER_ACTIVE) (couriers db))
       (conflict ''COURIER_UNAVAILABLE'') (
     bindE (findBulkDeliveries db (map fst (mfi_deliveries i))) (\<lambda>ops.
     bindE (foldE (check_manifest_delivery db i ops) (mfi_deliveries i) ()) (\<lambda>_.
     bindE (create_manifest e
       \<lparr> mf_id = [], mf_number = newManifestNumber e date, mf_courierId = mfi_courierId i, mf_status = MF_DRAFT,
         mf_manifestDate = date, mf_createdBy = actor e, mf_sealedAt = None, mf_handedOverAt = None,
         mf_closedAt = None \<rparr> db) (\<lambda>(m, db1).
     bindE (foldE (add_manifest_item (mf_id m)) (enumerate 0 (map fst (mfi_deliveries i))) db1) (\<lambda>db2.
     bindE (manifest_answer db2 (mf_id m)) (\<lambda>v.
     bindE (foldE (manifest_event e m) ops db2) (\<lambda>db3.
     bindE (create_audit e (operations_audit e ''delivery.manifest.created'' ''DeliveryManifest'' (mf_id m) JNull
              (JObj [(''manifestNumber'', JStr (mf_number m)), (''courierId'', JStr (mfi_courierId i)),
                     (''status'', JStr ''DRAFT''), (''itemCount'', JNum (int (length ops)))])) db3) (\<lambda>(_, db4).
     Inr (v, db4)))))))))"

definition createManifest ::
  "env \<Rightarrow> manifest_input \<Rightarrow> 'a delivery_db_scheme \<Rightarrow> (manifest_view \<times> 'a delivery_db_scheme) result" where
  "createManifest e i db =
     bindE (some_or (parse_day (mfi_manifestDate i)) (badRequest ''MANIFEST_DATE_INVALID'')) (\<lambda>date.
     case createManifest_tx e i date db of
       Inl x \<Rightarrow> Inl (if x = PrismaError ''P2002'' then conflict ''MANIFEST_CONFLICT'' else x)
     | Inr r \<Rightarrow> Inr r)"

record manifest_transition =
  mt_expectedStatus :: manifest_status
  mt_targetStatus :: manifest_status
  mt_reason :: "string option"

definition assertManifestAssignedDeliveries :: "delivery_operation list \<Rightarrow> string \<Rightarrow> unit result" where
  "assertManifestAssignedDeliveries ops courierId =
     require (\<not> list_ex (\<lambda>op. dlv_courierId (dop_delivery op) \<noteq> Some courierId
                 \<or> dlv_status (dop_delivery op) \<noteq> ASSIGNED_TO_COURIER
                 \<or> ord_status (dop_order op) \<noteq> ASSIGNED_TO_COURIER) ops)
       (conflict ''MANIFEST_DELIVERY_INELIGIBLE'') (Inr ())"

definition hand_over ::
  "env \<Rightarrow> delivery_operation \<Rightarrow> 'a delivery_db_scheme \<Rightarrow> 'a delivery_db_scheme result" where
  "hand_over e op =
     applyDeliveryTransition e op HANDED_TO_COURIER ''MANIFEST_HANDOVER'' None ''MANIFEST_HANDOFF''
       ''delivery.manifest.handed_over'' (\<lambda>x. x\<lparr> dlv_handedToCourierAt := Some (now e) \<rparr>)"

text \<open>What each target asks of the deliveries, and does to them.\<close>

definition manifest_target ::
  "env \<Rightarrow> manifest \<Rightarrow> manifest_status \<Rightarrow> delivery_operation list \<Rightarrow> 'a delivery_db_scheme
     \<Rightarrow> 'a delivery_db_scheme result" where
  "manifest_target e m target ops db =
     bindE (if target = MF_SEALED then
              require (list_ex (\<lambda>c. cou_id c = mf_courierId m \<and> cou_status c = COURIER_ACTIVE) (couriers db))
                (conflict ''COURIER_UNAVAILABLE'') (assertManifestAssignedDeliveries ops (mf_courierId m))
            else Inr ()) (\<lambda>_.
     bindE (if target = MF_HANDED_OVER then
              bindE (assertManifestAssignedDeliveries ops (mf_courierId m)) (\<lambda>_. foldE (hand_over e) ops db)
            else Inr db) (\<lambda>db1.
     require (\<not> (target = MF_CLOSED
                 \<and> list_ex (\<lambda>op. dlv_status (dop_delivery op) \<notin> TERMINAL_DELIVERY_STATUSES) ops))
       (conflict ''MANIFEST_DELIVERIES_NOT_TERMINAL'') (Inr db1)))"

definition manifest_times :: "env \<Rightarrow> manifest_status \<Rightarrow> manifest \<Rightarrow> manifest" where
  "manifest_times e target m =
     m\<lparr> mf_status := target,
        mf_sealedAt := (if target = MF_SEALED then Some (now e) else mf_sealedAt m),
        mf_handedOverAt := (if target = MF_HANDED_OVER then Some (now e) else mf_handedOverAt m),
        mf_closedAt := (if target = MF_CLOSED then Some (now e) else mf_closedAt m) \<rparr>"

definition set_manifest ::
  "env \<Rightarrow> string \<Rightarrow> manifest_transition \<Rightarrow> 'a delivery_db_scheme \<Rightarrow> 'a delivery_db_scheme result" where
  "set_manifest e mid i db =
     (let hit = (\<lambda>m. mf_id m = mid \<and> mf_status m = mt_expectedStatus i)
      in require (count_where hit (manifests db) = 1) (conflict ''MANIFEST_VERSION_CONFLICT'') (
         Inr (db\<lparr> manifests := update_where hit (manifest_times e (mt_targetStatus i)) (manifests db) \<rparr>)))"

definition transitionManifest ::
  "env \<Rightarrow> string \<Rightarrow> manifest_transition \<Rightarrow> 'a delivery_db_scheme \<Rightarrow> (manifest_view \<times> 'a delivery_db_scheme) result" where
  "transitionManifest e mid i db =
     bindE (some_or (find_manifest db mid) (notFound ''DELIVERY_MANIFEST_NOT_FOUND'')) (\<lambda>m.
     require (mf_status m = mt_expectedStatus i) (conflict ''MANIFEST_VERSION_CONFLICT'') (
     require (canTransitionManifest (mf_status m) (mt_targetStatus i)) (conflict ''MANIFEST_TRANSITION_NOT_ALLOWED'') (
     let its = items_of_manifest db mid
     in
     require (its \<noteq> []) (conflict ''MANIFEST_EMPTY'') (
     bindE (findBulkDeliveries db (map mi_deliveryId its)) (\<lambda>ops.
     require (length ops = length its) (conflict ''MANIFEST_DELIVERY_MISSING'') (
     bindE (manifest_target e m (mt_targetStatus i) ops db) (\<lambda>db1.
     bindE (set_manifest e mid i db1) (\<lambda>db2.
     bindE (create_audit e (operations_audit e
              (''delivery.manifest.'' @ lower_case (manifest_status_name (mt_targetStatus i))) ''DeliveryManifest'' mid
              (JObj [(''status'', JStr (manifest_status_name (mf_status m)))])
              (JObj [(''status'', JStr (manifest_status_name (mt_targetStatus i))),
                     (''reason'', jopt JStr (map_option trim (mt_reason i))),
                     (''itemCount'', JNum (int (length ops)))])) db2) (\<lambda>(_, db3).
     bindE (manifest_answer db3 mid) (\<lambda>v. Inr (v, db3)))))))))))"

section \<open>Exporting a manifest\<close>

definition MANIFEST_CSV_HEADERS :: "string list" where
  "MANIFEST_CSV_HEADERS =
     [''schemaVersion'', ''manifestNumber'', ''sequence'', ''deliveryId'', ''orderNumber'', ''trackingNumber'',
      ''recipientName'', ''recipientPhone'', ''governorate'', ''delegation'', ''locality'', ''postalCode'', ''street'',
      ''building'', ''landmark'', ''expectedCodMillimes'', ''ageVerificationRequired'']"

fun undefined_or :: "order_address option \<Rightarrow> (order_address \<Rightarrow> csv_cell) \<Rightarrow> csv_cell" where
  "undefined_or None f = CsvUndefined"
| "undefined_or (Some a) f = f a"

definition manifest_cells ::
  "'a delivery_db_scheme \<Rightarrow> manifest \<Rightarrow> manifest_item \<Rightarrow> csv_cell list result" where
  "manifest_cells db m i =
     bindE (some_or (find_delivery db (mi_deliveryId i)) (PrismaError ''INCONSISTENT'')) (\<lambda>d.
     bindE (some_or (find_order db (dlv_orderId d)) (PrismaError ''INCONSISTENT'')) (\<lambda>o'.
     let a = List.find (\<lambda>a. oa_orderId a = ord_id o') (addresses db)
     in Inr [CsvText ''DELIVERY_MANIFEST_V1'', CsvText (mf_number m), CsvNumber (int (mi_sequence i)), CsvText (dlv_id d),
             CsvText (ord_number o'), csv_opt (dlv_trackingNumber d), CsvText (ord_customerName o'),
             CsvText (ord_customerPhone o'), undefined_or a (\<lambda>a. CsvText (oa_governorateName a)),
             undefined_or a (\<lambda>a. CsvText (oa_delegationName a)), undefined_or a (\<lambda>a. CsvText (oa_localityName a)),
             undefined_or a (\<lambda>a. csv_opt (oa_postalCode a)), undefined_or a (\<lambda>a. CsvText (oa_street a)),
             undefined_or a (\<lambda>a. csv_opt (oa_building a)), undefined_or a (\<lambda>a. csv_opt (oa_landmark a)),
             CsvNumber (ord_expectedCodMillimes o'), CsvBool (dlv_ageVerificationRequired d)]))"

record csv_file =
  cf_csv :: string
  cf_filename :: string
  cf_rowCount :: nat

definition exportManifestCsv ::
  "env \<Rightarrow> string \<Rightarrow> string \<Rightarrow> 'a delivery_db_scheme \<Rightarrow> (csv_file \<times> 'a delivery_db_scheme) result" where
  "exportManifestCsv e bom mid db =
     bindE (some_or (find_manifest db mid) (notFound ''DELIVERY_MANIFEST_NOT_FOUND'')) (\<lambda>m.
     let its = items_of_manifest db mid
     in
     bindE (mapE (manifest_cells db m) its) (\<lambda>rows.
     bindE (create_audit e (operations_audit e ''delivery.manifest.csv_exported'' ''DeliveryManifest'' mid JNull
              (JObj [(''schemaVersion'', JStr ''DELIVERY_MANIFEST_V1''), (''rowCount'', JNum (int (length its)))])) db)
       (\<lambda>(_, db1).
     Inr (\<lparr> cf_csv = serializeCsv bom MANIFEST_CSV_HEADERS rows, cf_filename = mf_number m @ ''.csv'',
            cf_rowCount = length its \<rparr>, db1))))"

section \<open>Importing a status file\<close>

definition validateImportCommand :: "csv_command \<Rightarrow> delivery_operation option \<Rightarrow> import_row" where
  "validateImportCommand c found =
     (let verdict = (\<lambda>code. \<lparr> ir_row = cc_row c, ir_deliveryId = cc_deliveryId c,
            ir_currentStatus = map_option (\<lambda>op. dlv_status (dop_delivery op)) found,
            ir_targetStatus = cc_targetStatus c, ir_valid = (code = None), ir_code = code \<rparr>)
      in verdict (case found of
           None \<Rightarrow> Some ''DELIVERY_NOT_FOUND''
         | Some op \<Rightarrow>
             let d = dop_delivery op; target = cc_targetStatus c
             in if dlv_version d \<noteq> cc_expectedVersion c then Some ''VERSION_CONFLICT''
                else if dlv_status d \<noteq> cc_currentStatus c then Some ''DELIVERY_STATUS_CHANGED''
                else if ord_status (dop_order op) \<noteq> dlv_status d then Some ''DELIVERY_ORDER_STATUS_MISMATCH''
                else if \<not> canTransitionDelivery (dlv_status d) target then Some ''DELIVERY_TRANSITION_NOT_ALLOWED''
                else if target \<in> COURIER_REQUIRED_TARGETS \<and> or_null (dlv_courierId d) = None
                  then Some ''DELIVERY_COURIER_REQUIRED''
                else if target \<in> EXPLANATION_REQUIRED_TARGETS
                        \<and> (case or_null (cc_note c) of None \<Rightarrow> True | Some n \<Rightarrow> length (trim n) < 4)
                  then Some ''DELIVERY_EXPLANATION_REQUIRED''
                else None))"

record import_input =
  imp_importKey :: string
  imp_dryRun :: bool
  imp_csv :: string

record import_answer =
  ia_result :: import_result
  ia_replayed :: bool

definition find_import :: "'a delivery_db_scheme \<Rightarrow> import_input \<Rightarrow> status_import option" where
  "find_import db i =
     List.find (\<lambda>s. si_importKey s = imp_importKey i \<and> si_dryRun s = imp_dryRun i) (status_imports db)"

definition replayImport :: "status_import \<Rightarrow> string \<Rightarrow> import_answer result" where
  "replayImport s payloadHash =
     require (si_payloadHash s = payloadHash) (conflict ''DELIVERY_IMPORT_KEY_REUSED'') (
     Inr \<lparr> ia_result = si_result s, ia_replayed = True \<rparr>)"

definition import_command ::
  "env \<Rightarrow> delivery_operation list \<Rightarrow> csv_command \<Rightarrow> 'a delivery_db_scheme \<Rightarrow> 'a delivery_db_scheme result" where
  "import_command e ops c db =
     bindE (some_or (by_id ops (cc_deliveryId c)) (PrismaError ''INCONSISTENT'')) (\<lambda>op.
     applyDeliveryTransition e op (cc_targetStatus c)
       (case cc_reasonCode c of Some r \<Rightarrow> r | None \<Rightarrow> ''CSV_STATUS_IMPORT'') (cc_note c) ''MANUAL_CSV''
       ''delivery.status.csv_imported'' (\<lambda>x. x) db)"

definition import_action :: "bool \<Rightarrow> bool \<Rightarrow> string" where
  "import_action dryRun valid =
     (if dryRun then ''delivery.status.csv_dry_run''
      else if valid then ''delivery.status.csv_applied'' else ''delivery.status.csv_rejected'')"

definition import_tx ::
  "env \<Rightarrow> import_input \<Rightarrow> string \<Rightarrow> csv_command list \<Rightarrow> 'a delivery_db_scheme
     \<Rightarrow> (import_result \<times> 'a delivery_db_scheme) result" where
  "import_tx e i payloadHash commands db =
     bindE (findBulkDeliveries db (map cc_deliveryId commands)) (\<lambda>ops.
     let rows = map (\<lambda>c. validateImportCommand c (by_id ops (cc_deliveryId c))) commands;
         valid = list_all ir_valid rows;
         apply_them = (\<not> imp_dryRun i \<and> valid);
         r = \<lparr> im_importKey = imp_importKey i, im_dryRun = imp_dryRun i, im_valid = valid, im_applied = apply_them,
               im_rowCount = length commands, im_appliedCount = (if apply_them then length commands else 0),
               im_rows = rows \<rparr>
     in
     bindE (if apply_them then foldE (import_command e ops) commands db else Inr db) (\<lambda>db1.
     bindE (create_status_import e
       \<lparr> si_id = [], si_importKey = imp_importKey i, si_dryRun = imp_dryRun i, si_payloadHash = payloadHash,
         si_rowCount = length commands, si_appliedCount = im_appliedCount r, si_result = r,
         si_createdByUserId = actor e \<rparr> db1) (\<lambda>(_, db2).
     bindE (create_audit e (operations_audit e (import_action (imp_dryRun i) valid) ''DeliveryStatusImport''
              (take 80 (imp_importKey i)) JNull
              (JObj [(''schemaVersion'', JStr ''DELIVERY_STATUS_V1''), (''dryRun'', JBool (imp_dryRun i)),
                     (''rowCount'', JNum (int (length commands))), (''appliedCount'', JNum (int (im_appliedCount r))),
                     (''valid'', JBool valid), (''payloadHash'', JStr payloadHash)])) db2) (\<lambda>(_, db3).
     Inr (r, db3)))))"

text \<open>
  \<open>seen\<close> is the database the key is looked up in before the transaction, \<open>db\<close> the one the
  transaction runs on.  A file is a text without a byte-order mark.
\<close>

definition importStatusCsv ::
  "env \<Rightarrow> import_input \<Rightarrow> 'a delivery_db_scheme \<Rightarrow> 'a delivery_db_scheme
     \<Rightarrow> (import_answer \<times> 'a delivery_db_scheme) result" where
  "importStatusCsv e i seen db =
     (let payloadHash = sha256 e (imp_csv i)
      in case find_import seen i of
           Some s \<Rightarrow> bindE (replayImport s payloadHash) (\<lambda>a. Inr (a, db))
         | None \<Rightarrow>
             (case parseDeliveryStatusCsv False (imp_csv i) of
                Inl (DeliveryCsvError code row) \<Rightarrow>
                  Inl (Http BadRequest code (case row of None \<Rightarrow> [] | Some n \<Rightarrow> [int_text (int n)]))
              | Inr commands \<Rightarrow>
                  (case import_tx e i payloadHash commands db of
                     Inr (r, db') \<Rightarrow> Inr (\<lparr> ia_result = r, ia_replayed = False \<rparr>, db')
                   | Inl x \<Rightarrow>
                       if x = PrismaError ''P2002'' then
                         (case find_import db i of
                            Some s \<Rightarrow> bindE (replayImport s payloadHash) (\<lambda>a. Inr (a, db))
                          | None \<Rightarrow> Inl x)
                       else Inl x)))"

end
