(* ===== verification/DeliveryRuns.thy ===== *)
theory DeliveryRuns
  imports DeliveryOperations DeliveryProofs
begin

text \<open>
  The handlers of \<open>admin-delivery-operations.service.ts\<close> keep what those of
  \<open>admin-deliveries.service.ts\<close> keep, and both together are the steps of the delivery desk.
\<close>

section \<open>Transitions in bulk\<close>

lemma findBulkDeliveries_read:
  assumes "findBulkDeliveries db ids = Inr ops" and "op \<in> set ops"
  shows "read_from db op" and "dlv_id (dop_delivery op) \<in> set ids" and "dop_delivery op \<in> set (deliveries db)"
proof -
  from mapE_set [OF assms(1) [unfolded findBulkDeliveries_def] assms(2)]
  obtain d o' where d: "d \<in> set (deliveries db)" "dlv_id d \<in> set ids" and
    o': "find_order db (dlv_orderId d) = Some o'" and op: "op = delivery_operation_of db d o'" by auto
  show "read_from db op" using d find_order_id [OF o'] by (auto simp: op read_from_def)
  show "dlv_id (dop_delivery op) \<in> set ids" "dop_delivery op \<in> set (deliveries db)" using d by (simp_all add: op)
qed

lemma bulk_records_logged:
  assumes "bulk_records e op target rc note source action db = Inr db'"
  shows "logged db db'"
proof -
  from assms obtain row1 v db1 row2 h db2 row3 a db3 where
    v: "create_delivery_event e row1 db = Inr (v, db1)" and
    h: "create_status_history e row2 db1 = Inr (h, db2)" and
    a: "create_audit e row3 db2 = Inr (a, db3)" and
    n: "notify_delivery e op target db3 = Inr db'"
    by (auto simp: bulk_records_def Let_def
        simp del: create_status_history_Inr create_delivery_event_Inr create_audit_Inr)
  note creates_logged(1) [OF v]
  also note creates_logged(2) [OF h]
  also note creates_logged(3) [OF a]
  also note notify_delivery_logged [OF n]
  finally show ?thesis .
qed

text \<open>A transition that writes none of the delivery tables: the frame, and the rest of the database as it was.\<close>

definition moved_frame :: "'a delivery_db_scheme \<Rightarrow> 'a delivery_db_scheme \<Rightarrow> bool" where
  "moved_frame db db' = (delivery_frame db db' \<and> cash_db.more db' = cash_db.more db)"

lemma moved_frame_trans [trans]: "moved_frame a b \<Longrightarrow> moved_frame b c \<Longrightarrow> moved_frame a c"
  unfolding moved_frame_def by (auto intro: delivery_frame_trans)

lemma logged_moved: "logged db db' \<Longrightarrow> moved_frame db db'"
  using logged_frame [of db db'] by (simp add: moved_frame_def logged_def)

lemma moved_frame_refl [simp]: "moved_frame db db"
  by (rule logged_moved) simp

lemma applyDeliveryTransition_frame:
  assumes run: "applyDeliveryTransition e op target rc note source action f db = Inr db'" and op: "read_from db op"
    and t: "canTransitionDelivery (dlv_status (dop_delivery op)) target"
    and same: "ord_status (dop_order op) = dlv_status (dop_delivery op)"
    and f: "\<And>x. dlv_id (f x) = dlv_id x" "\<And>x. dlv_orderId (f x) = dlv_orderId x"
  shows "moved_frame db db'" and "read_from db op1 \<Longrightarrow> read_from db' op1"
proof -
  from run obtain db1 where m: "updateMirroredStatus op target f db = Inr db1" and
    b: "bulk_records e op target rc note source action db1 = Inr db'"
    by (auto simp: applyDeliveryTransition_def)
  note L = bulk_records_logged [OF b]
  obtain os ds where db1: "db1 = db\<lparr> deliveries := ds, orders := os \<rparr>"
    using updateMirroredStatus_effect(3) [OF m] by blast
  have "moved_frame db db1"
    using updateMirroredStatus_frame [OF m op t same f] by (cases db) (simp add: moved_frame_def db1)
  also note logged_moved [OF L]
  finally show "moved_frame db db'" .
  show "read_from db' op1" if "read_from db op1"
    using updateMirroredStatus_read [OF m that f] L by (simp add: read_from_def logged_def untouched_def)
qed

text \<open>A sequence of transitions of deliveries that were all read at the start.\<close>

lemma transitions_frame:
  assumes run: "foldE g xs db = Inr db'"
    and each: "\<And>x s s'. x \<in> set xs \<Longrightarrow> g x s = Inr s' \<Longrightarrow>
      \<exists>op target rc note source action f. op \<in> set ops
        \<and> applyDeliveryTransition e op target rc note source action f s = Inr s'
        \<and> canTransitionDelivery (dlv_status (dop_delivery op)) target
        \<and> ord_status (dop_order op) = dlv_status (dop_delivery op)
        \<and> (\<forall>y. dlv_id (f y) = dlv_id y) \<and> (\<forall>y. dlv_orderId (f y) = dlv_orderId y)"
    and read: "\<And>op. op \<in> set ops \<Longrightarrow> read_from db op"
  shows "moved_frame db db'"
proof -
  let ?P = "\<lambda>s. moved_frame db s \<and> (\<forall>op\<in>set ops. read_from s op)"
  have "?P db'"
  proof (rule foldE_inv [OF run, of ?P])
    show "?P db" using read by simp
    fix x s s' assume x: "x \<in> set xs" and g: "g x s = Inr s'" and P: "?P s"
    from each [OF x g] obtain op target rc nt source action f where
      op: "op \<in> set ops" and a: "applyDeliveryTransition e op target rc nt source action f s = Inr s'" and
      t: "canTransitionDelivery (dlv_status (dop_delivery op)) target"
        "ord_status (dop_order op) = dlv_status (dop_delivery op)" and
      f: "\<And>y. dlv_id (f y) = dlv_id y" "\<And>y. dlv_orderId (f y) = dlv_orderId y" by blast
    have r: "read_from s op" using P op by blast
    note A = applyDeliveryTransition_frame [OF a r t f]
    show "?P s'" using P A(1) by (auto intro: moved_frame_trans A(2))
  qed
  then show ?thesis by simp
qed

section \<open>The handlers\<close>

text \<open>A step that writes none of the tables of the frame.\<close>

lemma unwritten_frame:
  assumes "items db' = items db" "movements db' = movements db" "reservations db' = reservations db"
    and "orders db' = orders db" "deliveries db' = deliveries db" "same_cash db db'" "attempts db' = attempts db"
    and "carts db' = carts db"
  shows "delivery_frame db db'"
  using assms by (simp add: delivery_frame_def in_step_def)

named_theorems delivery_frames

lemma create_frames [delivery_frames]:
  "create_manifest e row1 db = Inr (m, db') \<Longrightarrow> delivery_frame db db'"
  "create_manifest_item row2 db = Inr db' \<Longrightarrow> delivery_frame db db'"
  "create_status_import e row3 db = Inr (si, db') \<Longrightarrow> delivery_frame db db'"
  "create_courier e row4 db = Inr (c, db') \<Longrightarrow> delivery_frame db db'"
  "create_audit e row5 db = Inr (a, db') \<Longrightarrow> delivery_frame db db'"
  "create_delivery_event e row6 db = Inr (v, db') \<Longrightarrow> delivery_frame db db'"
  "set_manifest e mid i db = Inr db' \<Longrightarrow> delivery_frame db db'"
  by (auto simp: Let_def set_manifest_def intro!: unwritten_frame)

lemma write_courier_frame [delivery_frames]:
  "write_courier e ui c db = Inr db' \<Longrightarrow> delivery_frame db db'"
  by (cases db) (auto simp: write_courier_def Let_def intro!: unwritten_frame)

lemma delivery_frame_refl [simp]: "delivery_frame db db"
  by (rule unwritten_frame) simp_all

lemma fold_frame:
  assumes "foldE f xs db = Inr db'" and "\<And>x s s'. f x s = Inr s' \<Longrightarrow> delivery_frame s s'"
  shows "delivery_frame db db'"
  by (rule foldE_inv [OF assms(1), of "delivery_frame db"]) (auto intro: delivery_frame_trans assms(2))

lemma manifest_folds_frame [delivery_frames]:
  "foldE (add_manifest_item mid) xs db = Inr db' \<Longrightarrow> delivery_frame db db'"
  "foldE (manifest_event e m) ops db = Inr db' \<Longrightarrow> delivery_frame db db'"
  by (erule fold_frame, auto simp: add_manifest_item_def manifest_event_def
      simp del: create_manifest_item_Inr create_delivery_event_Inr dest!: create_frames)+

lemmas delivery_parts = create_manifest_Inr create_manifest_item_Inr create_status_import_Inr create_courier_Inr
  create_audit_Inr create_delivery_event_Inr

lemma code_conflict_Inr [simp]: "courier_code_conflict m = Inr r \<longleftrightarrow> m = Inr r"
  by (auto simp: courier_code_conflict_def split: sum.splits)

lemma createManualCourier_frame: "createManualCourier e ci db = Inr (c, db') \<Longrightarrow> delivery_frame db db'"
  by (auto simp: createManualCourier_def simp del: delivery_parts dest!: delivery_frames intro: delivery_frame_trans)

lemma updateManualCourier_frame: "updateManualCourier e cid ui db = Inr (c, db') \<Longrightarrow> delivery_frame db db'"
  by (auto simp: updateManualCourier_def simp del: delivery_parts dest!: delivery_frames intro: delivery_frame_trans)

lemma getManifest_frame: "getManifest e mid db = Inr (v, db') \<Longrightarrow> delivery_frame db db'"
  by (auto simp: getManifest_def simp del: delivery_parts dest!: delivery_frames)

lemma exportManifestCsv_frame: "exportManifestCsv e bom mid db = Inr (f, db') \<Longrightarrow> delivery_frame db db'"
  by (auto simp: exportManifestCsv_def Let_def simp del: delivery_parts dest!: delivery_frames)

lemma createManifest_Inr:
  "createManifest e i db = Inr r \<longleftrightarrow> (\<exists>date. parse_day (mfi_manifestDate i) = Some date \<and> createManifest_tx e i date db = Inr r)"
  unfolding createManifest_def by (cases "parse_day (mfi_manifestDate i)") (auto split: sum.splits)

lemma createManifest_tx_parts:
  assumes "createManifest_tx e i date db = Inr (v, db')"
  obtains ops m db1 db2 db3 row a where "findBulkDeliveries db (map fst (mfi_deliveries i)) = Inr ops"
    and "foldE (check_manifest_delivery db i ops) (mfi_deliveries i) () = Inr ()"
    and "create_manifest e
       \<lparr> mf_id = [], mf_number = newManifestNumber e date, mf_courierId = mfi_courierId i, mf_status = MF_DRAFT,
         mf_manifestDate = date, mf_createdBy = actor e, mf_sealedAt = None, mf_handedOverAt = None,
         mf_closedAt = None \<rparr> db = Inr (m, db1)"
    and "foldE (add_manifest_item (mf_id m)) (enumerate 0 (map fst (mfi_deliveries i))) db1 = Inr db2"
    and "foldE (manifest_event e m) ops db2 = Inr db3" and "create_audit e row db3 = Inr (a, db')"
  using assms by (auto simp: createManifest_tx_def simp del: delivery_parts)

lemma createManifest_frame:
  assumes "createManifest e i db = Inr (v, db')"
  shows "delivery_frame db db'"
proof -
  from assms obtain date where "createManifest_tx e i date db = Inr (v, db')" by (auto simp: createManifest_Inr)
  then show ?thesis
    by (rule createManifest_tx_parts) (blast dest: delivery_frames intro: delivery_frame_trans)
qed

text \<open>Handing a manifest over moves every delivery on it.\<close>

lemma assigned_Inr:
  "assertManifestAssignedDeliveries ops cid = Inr u \<longleftrightarrow>
     (\<forall>op\<in>set ops. dlv_courierId (dop_delivery op) = Some cid \<and> dlv_status (dop_delivery op) = ASSIGNED_TO_COURIER
        \<and> ord_status (dop_order op) = ASSIGNED_TO_COURIER)"
  by (auto simp: assertManifestAssignedDeliveries_def list_ex_iff)

lemma hand_over_all_frame:
  fixes db db' :: "'a delivery_db_scheme"
  assumes "foldE (hand_over e) ops db = Inr db'" and "findBulkDeliveries db ids = Inr ops"
    and "assertManifestAssignedDeliveries ops cid = Inr u"
  shows "moved_frame db db'"
proof (rule transitions_frame [OF assms(1), of ops e])
  fix op and s s' :: "'a delivery_db_scheme" assume op: "op \<in> set ops" and h: "hand_over e op s = Inr s'"
  note a = h [unfolded hand_over_def]
  have t: "canTransitionDelivery (dlv_status (dop_delivery op)) HANDED_TO_COURIER"
    "ord_status (dop_order op) = dlv_status (dop_delivery op)"
    using assms(3) op by (simp_all add: assigned_Inr canTransitionDelivery_def)
  show "\<exists>op target rc note source action f. op \<in> set ops
        \<and> applyDeliveryTransition e op target rc note source action f s = Inr s'
        \<and> canTransitionDelivery (dlv_status (dop_delivery op)) target
        \<and> ord_status (dop_order op) = dlv_status (dop_delivery op)
        \<and> (\<forall>y. dlv_id (f y) = dlv_id y) \<and> (\<forall>y. dlv_orderId (f y) = dlv_orderId y)"
    by (intro exI conjI, rule op, rule a, rule t(1), rule t(2)) simp_all
qed (rule findBulkDeliveries_read [OF assms(2)])

lemma manifest_target_frame:
  "manifest_target e m target ops db = Inr db' \<Longrightarrow> findBulkDeliveries db ids = Inr ops \<Longrightarrow> moved_frame db db'"
  by (auto simp: manifest_target_def split: if_splits intro: hand_over_all_frame)

lemma transitionManifest_frame: "transitionManifest e mid i db = Inr (v, db') \<Longrightarrow> delivery_frame db db'"
  by (auto simp: transitionManifest_def Let_def moved_frame_def simp del: delivery_parts
      dest!: delivery_frames dest!: manifest_target_frame intro: delivery_frame_trans)

text \<open>Applying the rows of a status file.\<close>

lemma by_id_in: "by_id ops did = Some op \<Longrightarrow> op \<in> set ops"
  using find_SomeD by (fastforce simp: by_id_def)

lemma valid_row:
  assumes "ir_valid (validateImportCommand c (Some op))"
  shows "canTransitionDelivery (dlv_status (dop_delivery op)) (cc_targetStatus c)"
    and "ord_status (dop_order op) = dlv_status (dop_delivery op)"
    and "dlv_version (dop_delivery op) = cc_expectedVersion c"
  using assms by (simp_all add: validateImportCommand_def Let_def split: if_splits)

lemma import_commands_frame:
  fixes db db' :: "'a delivery_db_scheme"
  assumes "foldE (import_command e ops) cs db = Inr db'" and "findBulkDeliveries db ids = Inr ops"
    and "list_all ir_valid (map (\<lambda>c. validateImportCommand c (by_id ops (cc_deliveryId c))) cs)"
  shows "moved_frame db db'"
proof (rule transitions_frame [OF assms(1), of ops e])
  fix c and s s' :: "'a delivery_db_scheme" assume c: "c \<in> set cs" and "import_command e ops c s = Inr s'"
  then obtain op rc where op: "by_id ops (cc_deliveryId c) = Some op" and
    a: "applyDeliveryTransition e op (cc_targetStatus c) rc (cc_note c) ''MANUAL_CSV''
          ''delivery.status.csv_imported'' (\<lambda>x. x) s = Inr s'"
    by (auto simp: import_command_def)
  have "ir_valid (validateImportCommand c (Some op))" using assms(3) c op by (fastforce simp: list_all_iff)
  note V = valid_row [OF this]
  show "\<exists>op target rc note source action f. op \<in> set ops
        \<and> applyDeliveryTransition e op target rc note source action f s = Inr s'
        \<and> canTransitionDelivery (dlv_status (dop_delivery op)) target
        \<and> ord_status (dop_order op) = dlv_status (dop_delivery op)
        \<and> (\<forall>y. dlv_id (f y) = dlv_id y) \<and> (\<forall>y. dlv_orderId (f y) = dlv_orderId y)"
    by (intro exI conjI, rule by_id_in [OF op], rule a, rule V(1), rule V(2)) simp_all
qed (rule findBulkDeliveries_read [OF assms(2)])

lemma import_tx_frame: "import_tx e i h cs db = Inr (r, db') \<Longrightarrow> delivery_frame db db'"
  by (auto simp: import_tx_def Let_def moved_frame_def simp del: delivery_parts split: if_splits
      dest!: delivery_frames dest!: import_commands_frame intro: delivery_frame_trans)

lemma importStatusCsv_frame: "importStatusCsv e i seen db = Inr (r, db') \<Longrightarrow> delivery_frame db db'"
  by (auto simp: importStatusCsv_def Let_def split: option.splits sum.splits if_splits csv_error.splits
      dest!: import_tx_frame)

end
