(* ===== verification/DeliveryDemo.thy ===== *)
theory DeliveryDemo
  imports CashSpec DeliveryOperations
begin

text \<open>
  The concrete inputs of the witnesses about deliveries: the shop with one placed order, and the cash
  desk with that order out for delivery, each with the tables of the deliveries.
\<close>

definition placed_system :: delivery_db where
  "placed_system = cash_db.extend (shop_db.extend placed_shop (cash_db.fields [desk_courier] [] [] [] [] []))
     (delivery_db.fields [] [] [] [])"

definition delivery_desk :: delivery_db where
  "delivery_desk = cash_db.extend cash_desk (delivery_db.fields [] [] [] [])"

text \<open>The cash is collected, and the delivery completed with the age of the recipient verified.\<close>

definition desk_completed :: "(delivery_detail \<times> delivery_db) result" where
  "desk_completed =
     bindE (recordCollection_tx (cash_env ''u1'' 1000) ''c1'' desk_input ''kh'' ''rh'' delivery_desk) (\<lambda>(_, db).
     delivery_complete (cash_env ''u1'' 1001) ''d1'' 2 AGE_PASSED db)"

definition failed_attempt :: attempt_input where
  "failed_attempt = \<lparr> atp_outcome = FAILED_AGE_VERIFICATION, atp_explanation = None, atp_nextAttemptAt = None,
     atp_expectedVersion = 1 \<rparr>"

definition desk_refused :: "(delivery_detail \<times> delivery_db) result" where
  "desk_refused = delivery_recordAttempt (cash_env ''u1'' 1000) ''d1'' failed_attempt delivery_desk"

text \<open>One evaluation, taken apart below.\<close>

lemma delivery_demo_evaluated:
  "stock_inv (now shop_env) placed_system
   \<and> in_step placed_system
   \<and> (case order_confirm shop_env ''o1'' 1 placed_system of Inr (r, db) \<Rightarrow> True | Inl x \<Rightarrow> False)
   \<and> (case order_terminate CANCEL shop_env ''o1'' 1 ''changed'' placed_system of Inr (r, db) \<Rightarrow> True | Inl x \<Rightarrow> False)
   \<and> stock_inv (now shop_env) delivery_desk
   \<and> in_step delivery_desk
   \<and> (case desk_completed of Inr (r, db) \<Rightarrow> map dlv_status (deliveries db) = [DELIVERED]
     \<and> map att_number (attempts db) = [1] | Inl x \<Rightarrow> False)
   \<and> (case desk_refused of Inr (r, db) \<Rightarrow> map dlv_status (deliveries db) = [FAILED]
     \<and> map att_number (attempts db) = [1] | Inl x \<Rightarrow> False)"
  by code_simp

lemma placed_system_stock: "stock_inv (now shop_env) placed_system"
  using delivery_demo_evaluated by (elim conjE)

lemma placed_system_in_step: "in_step placed_system"
  using delivery_demo_evaluated by (elim conjE)

lemma placed_system_confirmed:
  "case order_confirm shop_env ''o1'' 1 placed_system of Inr (r, db) \<Rightarrow> True | Inl x \<Rightarrow> False"
  using delivery_demo_evaluated by (elim conjE)

lemma placed_system_cancelled:
  "case order_terminate CANCEL shop_env ''o1'' 1 ''changed'' placed_system of Inr (r, db) \<Rightarrow> True | Inl x \<Rightarrow> False"
  using delivery_demo_evaluated by (elim conjE)

lemma delivery_desk_stock: "stock_inv (now shop_env) delivery_desk"
  using delivery_demo_evaluated by (elim conjE)

lemma delivery_desk_in_step: "in_step delivery_desk"
  using delivery_demo_evaluated by (elim conjE)

lemma desk_completed_evaluated:
  "case desk_completed of Inr (r, db) \<Rightarrow> map dlv_status (deliveries db) = [DELIVERED]
     \<and> map att_number (attempts db) = [1] | Inl x \<Rightarrow> False"
  using delivery_demo_evaluated by (elim conjE)

lemma desk_refused_evaluated:
  "case desk_refused of Inr (r, db) \<Rightarrow> map dlv_status (deliveries db) = [FAILED]
     \<and> map att_number (attempts db) = [1] | Inl x \<Rightarrow> False"
  using delivery_demo_evaluated by (elim conjE)

end
