(* ===== verification/ShopSystem.thy ===== *)
theory ShopSystem
  imports CartSpec OrdersSpec InventoryProofs CashFrame DeliveryRuns DeliveryDemo
begin

text \<open>
  The shop as one system: customers fill carts and check out, administrators work on the orders, the stock, the
  deliveries and the cash, in any order and at any times.  Every such run keeps the stock sound, every
  order in step with its delivery and the attempts of a delivery numbered; a confirmed order is never
  confirmed again, and a delivery that failed for the age of its recipient is never completed.
\<close>

section \<open>The inventory handlers write nothing but the stock\<close>

lemma batch_for_receipt_more:
  "batch_for_receipt e input db = Inr (b, db') \<Longrightarrow> stock_db.more db' = stock_db.more db"
  by (auto simp: batch_for_receipt_def Let_def split: option.splits if_splits)

lemma receiveBatch_tx_more:
  "receiveBatch_tx e input kh fp db = Inr (r, db') \<Longrightarrow> stock_db.more db' = stock_db.more db"
  by (auto simp: receiveBatch_tx_def Let_def batch_for_receipt_more split: option.splits)

lemma receiveBatch_more:
  "receiveBatch e input key seen db = Inr (r, db') \<Longrightarrow> stock_db.more db' = stock_db.more db"
  by (erule receiveBatch_cases) (auto dest: receiveBatch_tx_more)

lemma decideAdjustment_tx_more:
  "decideAdjustment_tx e aid d reason db = Inr (out, db') \<Longrightarrow> stock_db.more db' = stock_db.more db"
  by (auto simp: decideAdjustment_tx_def apply_adjustment_def update_adjustment_def Let_def split: if_splits)

lemma decideAdjustment_more:
  "stock_db.more (snd (decideAdjustment e aid input db)) = stock_db.more db"
  by (auto simp: decideAdjustment_def Let_def
      split: sum.splits decide_outcome.splits dest: decideAdjustment_tx_more)

lemma record_transfer_more:
  "record_transfer e source dest rq sa input key kh fp db = Inr (r, db') \<Longrightarrow> stock_db.more db' = stock_db.more db"
  by (auto simp: record_transfer_def Let_def)

lemma move_stock_more:
  "move_stock e source dst input calc db = Inr (dest, db') \<Longrightarrow> stock_db.more db' = stock_db.more db"
  by (auto simp: move_stock_def Let_def split: option.splits)

lemma transfer_tx_more:
  "transfer_tx e sid loc input key kh fp db = Inr (r, db') \<Longrightarrow> stock_db.more db' = stock_db.more db"
  by (auto simp: transfer_tx_def Let_def dest!: move_stock_more record_transfer_more)

lemma transfer_more:
  assumes "transfer e sid input key seen db = Inr (r, db')"
  shows "stock_db.more db' = stock_db.more db"
proof -
  from assms obtain k replay where k: "requireIdempotencyKey key = Inr k"
    and rp: "replayTransfer (idempotency_key_hash e ''transfer'' (actor e) k)
         (request_fingerprint e (transfer_json sid input)) seen = Inr replay"
    by (auto simp: transfer_def Let_def)
  let ?run = "transfer_tx e sid (item_locationId (the (find_item seen sid))) input k
    (idempotency_key_hash e ''transfer'' (actor e) k) (request_fingerprint e (transfer_json sid input)) db"
  show ?thesis
  proof (cases replay)
    case (Some x)
    with assms k rp show ?thesis by (auto simp: transfer_def Let_def)
  next
    case None
    with assms k rp show ?thesis
      by (cases ?run) (auto simp: transfer_def Let_def split: if_splits option.splits dest: transfer_tx_more)
  qed
qed

lemma small_handlers_more:
  "createLocation e li db = Inr (lr, db') \<Longrightarrow> stock_db.more db' = stock_db.more db"
  "createItem e ii db = Inr (ir, db') \<Longrightarrow> stock_db.more db' = stock_db.more db"
  "adjust e iid ai db = Inr (ar, db') \<Longrightarrow> stock_db.more db' = stock_db.more db"
  "updateThreshold e vid ti db = Inr (tr, db') \<Longrightarrow> stock_db.more db' = stock_db.more db"
  by (auto simp: createLocation_def createItem_def adjust_def updateThreshold_def Let_def)

section \<open>Steps and runs\<close>

text \<open>One request to \<open>admin-inventory.service.ts\<close>; the quantities are those the request schemas let through.\<close>

inductive stock_step :: "env \<Rightarrow> 'a stock_db_scheme \<Rightarrow> 'a stock_db_scheme \<Rightarrow> bool" for e where
  location: "createLocation e li db = Inr (lr, db') \<Longrightarrow> stock_step e db db'"
| item: "createItem e ii db = Inr (ir, db') \<Longrightarrow> stock_step e db db'"
| receipt: "receiveBatch e bi key seen db = Inr (br, db') \<Longrightarrow> 0 \<le> bi_quantity bi \<Longrightarrow> stock_step e db db'"
| adjustment: "adjust e iid ai db = Inr (ar, db') \<Longrightarrow> stock_step e db db'"
| decision: "db' = snd (decideAdjustment e aid di db) \<Longrightarrow> stock_step e db db'"
| transfer: "transfer e sid ti key seen db = Inr (xr, db') \<Longrightarrow> 0 \<le> ti_quantity ti \<Longrightarrow> stock_step e db db'"
| threshold: "updateThreshold e vid th db = Inr (tr, db') \<Longrightarrow> stock_step e db db'"

inductive_cases stock_stepE: "stock_step e db db'"

lemma stock_step_inv:
  "stock_step e db db' \<Longrightarrow> stock_inv (now e) db \<Longrightarrow> stock_inv (now e) db'"
  by (erule stock_stepE)
    (auto intro: createLocation_inv createItem_inv receiveBatch_inv adjust_inv transfer_inv updateThreshold_inv
      decideAdjustment_inv)

lemma stock_step_more: "stock_step e db db' \<Longrightarrow> stock_db.more db' = stock_db.more db"
  by (erule stock_stepE)
    (auto intro: receiveBatch_more transfer_more small_handlers_more decideAdjustment_more)

lemma in_step_more: "stock_db.more db' = stock_db.more db \<Longrightarrow> in_step db' = in_step db \<and> orders db' = orders db"
  by (cases db; cases db') (simp add: in_step_def)

text \<open>One request to \<open>admin-deliveries.service.ts\<close> or \<open>admin-delivery-operations.service.ts\<close>.\<close>

inductive delivery_step :: "env \<Rightarrow> 'a delivery_db_scheme \<Rightarrow> 'a delivery_db_scheme \<Rightarrow> bool" for e where
  assigned: "delivery_assignment action e did ai db = Inr (r, db') \<Longrightarrow> delivery_step e db db'"
| unassigned: "delivery_unassign e did v reason db = Inr (r, db') \<Longrightarrow> delivery_step e db db'"
| noted: "delivery_updateInternalNotes e did v notes db = Inr (r, db') \<Longrightarrow> delivery_step e db db'"
| transitioned: "delivery_transition e did ti db = Inr (r, db') \<Longrightarrow> delivery_step e db db'"
| attempted: "delivery_recordAttempt e did ati db = Inr (r, db') \<Longrightarrow> delivery_step e db db'"
| completed: "delivery_complete e did v age db = Inr (r, db') \<Longrightarrow> delivery_step e db db'"
| returned: "delivery_completeReturn e did v reason db = Inr (r, db') \<Longrightarrow> delivery_step e db db'"
| previewed: "getCourierWhatsApp e did db = Inr (p, db') \<Longrightarrow> delivery_step e db db'"
| contacted: "recordCourierWhatsAppContact e did v db = Inr (ca, db') \<Longrightarrow> delivery_step e db db'"
| courier_created: "createManualCourier e ci db = Inr (c, db') \<Longrightarrow> delivery_step e db db'"
| courier_updated: "updateManualCourier e cid ui db = Inr (c, db') \<Longrightarrow> delivery_step e db db'"
| manifest_viewed: "getManifest e mid db = Inr (mv, db') \<Longrightarrow> delivery_step e db db'"
| manifest_created: "createManifest e mi db = Inr (mv, db') \<Longrightarrow> delivery_step e db db'"
| manifest_moved: "transitionManifest e mid mt db = Inr (mv, db') \<Longrightarrow> delivery_step e db db'"
| manifest_exported: "exportManifestCsv e bom mid db = Inr (f, db') \<Longrightarrow> delivery_step e db db'"
| imported: "importStatusCsv e ii seen db = Inr (ia, db') \<Longrightarrow> delivery_step e db db'"

lemmas delivery_handlers_frame =
  delivery_assignment_frame delivery_unassign_frame delivery_updateInternalNotes_frame delivery_transition_frame
  delivery_recordAttempt_parts(1) delivery_complete_frame delivery_completeReturn_frame getCourierWhatsApp_frame
  recordCourierWhatsAppContact_frame createManualCourier_frame updateManualCourier_frame getManifest_frame
  createManifest_frame transitionManifest_frame exportManifestCsv_frame importStatusCsv_frame

lemma delivery_step_frame: "delivery_step e db db' \<Longrightarrow> delivery_frame db db'"
  by (induction rule: delivery_step.induct) (erule delivery_handlers_frame)+

inductive shop_step :: "env \<Rightarrow> 'a delivery_db_scheme \<Rightarrow> 'a delivery_db_scheme \<Rightarrow> bool" for e where
  of_stock: "stock_step e db db' \<Longrightarrow> shop_step e db db'"
| of_orders: "order_step e db db' \<Longrightarrow> shop_step e db db'"
| of_cash: "cash_step e db db' \<Longrightarrow> shop_step e db db'"
| of_deliveries: "delivery_step e db db' \<Longrightarrow> shop_step e db db'"
| of_carts: "cart_step e db db' \<Longrightarrow> shop_step e db db'"

text \<open>\<open>shop_run t db t' db'\<close>: requests handled one after the other, the last one at \<open>t'\<close>.\<close>

inductive shop_run :: "int \<Rightarrow> 'a delivery_db_scheme \<Rightarrow> int \<Rightarrow> 'a delivery_db_scheme \<Rightarrow> bool" for t db where
  start: "shop_run t db t db"
| request: "shop_run t db u db1 \<Longrightarrow> u \<le> now e \<Longrightarrow> shop_step e db1 db2 \<Longrightarrow> shop_run t db (now e) db2"

text \<open>The order handlers and the stock handlers leave the tables of the deliveries alone.\<close>

lemma order_step_more:
  assumes "order_step e db db'" and inv: "orders_inv (now e) db"
  shows "shop_db.more db' = shop_db.more db"
proof -
  have st: "stock_inv (now e) db" using inv by (simp add: orders_inv_def)
  from assms(1) show ?thesis
  proof cases
    case (confirmed oid v r)
    from order_confirm_parts [OF this st] show ?thesis by (auto simp: moves_def)
  next
    case (terminated disp oid v reason r)
    from order_terminate_parts [OF this st] show ?thesis by (auto simp: gives_back_def moves_def)
  next
    case prepared
    then show ?thesis unfolding order_prepare_def by (auto dest: transitionIntake_parts(1) simp: moves_def)
  next
    case ready
    then show ?thesis unfolding order_readyForPickup_def by (auto dest: transitionIntake_parts(1) simp: moves_def)
  next
    case (checked_out aborted cfg input hdr u r)
    from checked_out(1) st checked_out(2) show ?thesis
      by (cases rule: checkout_create_cases) (auto simp: new_order_def)
  next
    case withdrawn
    from customer_order_cancel_parts [OF this inv] show ?thesis by (auto simp: gives_back_def moves_def)
  qed (auto dest: notes_frame simp: untouched_def)
qed

lemma more_grow:
  fixes db db' :: "'a delivery_db_scheme"
  shows "stock_db.more db' = stock_db.more db \<Longrightarrow> attempts_grow db db'"
    and "shop_db.more db' = shop_db.more db \<Longrightarrow> attempts_grow db db'"
    and "cash_db.more db' = cash_db.more db \<Longrightarrow> attempts_grow db db'"
  by (cases db; cases db'; intro attempts_grow_refl; simp)+

text \<open>The invariant of the shop: the stock is sound and every order agrees with its delivery.\<close>

lemma shop_step_keeps:
  assumes "shop_step e db db'" and inv: "orders_inv (now e) db"
  shows "orders_inv (now e) db' \<and> orders_progress (orders db) (orders db') \<and> attempts_grow db db'"
  using assms(1)
proof cases
  case of_stock
  from in_step_more [OF stock_step_more [OF this]] stock_step_inv [OF this] inv more_grow(1) [OF stock_step_more [OF this]]
  show ?thesis by (simp add: orders_inv_def)
next
  case of_orders
  from order_step_keeps [OF this inv] more_grow(2) [OF order_step_more [OF this inv]]
  show ?thesis by blast
next
  case of_cash
  note F = cash_step_frame [OF this, unfolded cash_frame_def]
  have "stock_inv (now e) db' = stock_inv (now e) db" using F by (intro stock_inv_cong) simp_all
  moreover have "in_step db' = in_step db" using F by (intro in_step_cong) simp_all
  moreover have "orders_progress (orders db) (orders db')" using F by (intro orders_progress_keys) simp
  ultimately show ?thesis using inv more_grow(3) [of db' db] F by (simp add: orders_inv_def)
next
  case of_deliveries
  note F = delivery_step_frame [OF this, unfolded delivery_frame_def]
  have "stock_inv (now e) db' = stock_inv (now e) db" using F by (intro stock_inv_cong) simp_all
  then show ?thesis using F inv by (simp add: orders_inv_def)
next
  case of_carts
  note F = cart_step_frame [OF this]
  have "in_step db' = in_step db" using cart_frame_same [OF F] by (intro in_step_cong) simp_all
  then show ?thesis
    using frame_reads(3) [OF F] cart_frame_same [OF F] inv more_grow(2) [of db' db] by (simp add: orders_inv_def)
qed

lemma orders_inv_later: "orders_inv t db \<Longrightarrow> t \<le> t' \<Longrightarrow> orders_inv t' db"
  by (auto simp: orders_inv_def intro: stock_inv_later)

lemma shop_run_keeps:
  assumes "shop_run t db t' db'" and "orders_inv t db"
  shows "orders_inv t' db' \<and> orders_progress (orders db) (orders db') \<and> attempts_grow db db'"
  using assms
proof induction
  case start
  then show ?case by simp
next
  case (request u db1 e db2)
  then have "orders_inv (now e) db1" by (auto intro: orders_inv_later)
  from shop_step_keeps [OF request.hyps(3) this] request show ?case
    by (auto intro: orders_progress_trans attempts_grow_trans)
qed

section \<open>Properties of every run\<close>

lemma status_reached:
  assumes "shop_run t db t' db'" and "orders_inv t db" and "find_order db oid = Some o1"
  shows "\<exists>o2. find_order db' oid = Some o2 \<and> reaches ORDER_STATUS_TRANSITIONS (ord_status o1) (ord_status o2)"
proof -
  note i = shop_run_keeps [OF assms(1,2)]
  from i find_order_id [OF assms(3)] obtain o2 where o2: "o2 \<in> set (orders db')" "ord_id o2 = oid"
    "reaches ORDER_STATUS_TRANSITIONS (ord_status o1) (ord_status o2)"
    unfolding orders_progress_def by blast
  from i have "distinct (map ord_id (orders db'))" by (simp add: orders_inv_def in_step_def)
  from find_key [OF this o2(1)] o2 show ?thesis by (auto simp: find_order_def)
qed

lemma reached_target: "reaches f s t \<Longrightarrow> t = s \<or> (\<exists>a. t \<in> set (f a))"
  by (induction rule: reaches.induct) auto

lemma confirmed_not_pending:
  assumes "reaches ORDER_STATUS_TRANSITIONS CONFIRMED s"
  shows "s \<noteq> PENDING_CONFIRMATION"
proof -
  have "PENDING_CONFIRMATION \<notin> set (ORDER_STATUS_TRANSITIONS a)" for a by (cases a) simp_all
  with reached_target [OF assms] show ?thesis by auto
qed

text \<open>Whatever requests customers and administrators make to the
  checkout, the orders, the stock, the deliveries and the cash, in any order, no bucket ever holds less than what is reserved in it, every bucket agrees with its ledger of
  movements, and every order has the status of its delivery.\<close>

theorem every_run_keeps_stock:
  assumes "shop_run t db t' db'" and "stock_inv t db" and "in_step db"
  shows "stock_inv t' db' \<and> in_step db'"
  using shop_run_keeps [OF assms(1)] assms(2,3) by (simp add: orders_inv_def)

lemma placed_system_run:
  obtains db where "shop_run (now shop_env) placed_system (now shop_env) db"
    and "map_option ord_status (find_order db ''o1'') = Some CANCELLED"
proof -
  from placed_system_cancelled obtain r db where
    c: "order_terminate CANCEL shop_env ''o1'' 1 ''changed'' placed_system = Inr (r, db)"
    by (auto split: sum.splits)
  have "shop_run (now shop_env) placed_system (now shop_env) db"
    by (rule shop_run.request [OF shop_run.start]) (auto intro: shop_step.of_orders order_step.terminated c)
  moreover have "map_option ord_status (find_order db ''o1'') = Some CANCELLED"
    using moves_effect(3) order_terminate_parts [OF c placed_system_stock]
    by (fastforce simp: gives_back_def)
  ultimately show ?thesis by (rule that)
qed

lemma placed_system_order: "find_order placed_system ''o1'' = Some placed_order"
  by code_simp

lemma every_run_keeps_stock_witness:
  "\<exists>t db'. shop_run t placed_system t db' \<and> stock_inv t db' \<and> in_step db' \<and> db' \<noteq> placed_system"
proof -
  obtain db where run: "shop_run (now shop_env) placed_system (now shop_env) db"
    and st: "map_option ord_status (find_order db ''o1'') = Some CANCELLED" by (rule placed_system_run)
  have "db \<noteq> placed_system" using st placed_system_order by (auto simp: placed_order_def)
  with every_run_keeps_stock [OF run placed_system_stock placed_system_in_step] run show ?thesis by blast
qed

text \<open>Property C20 (status_never_reverts): over any run, an order is never lost; the status it has afterwards can
  be reached from the one it had by transitions of the order table (if not always in one request by one of them,
  see \<open>delivery_refines_order\<close>), it is never one of an earlier stage, and an order that was delivered,
  returned or cancelled stays what it was.\<close>

theorem status_never_reverts:
  assumes "shop_run t db t' db'" and "stock_inv t db" and "in_step db" and "find_order db oid = Some o1"
  shows "\<exists>o2. find_order db' oid = Some o2 \<and> reaches ORDER_STATUS_TRANSITIONS (ord_status o1) (ord_status o2)
    \<and> order_stage (ord_status o1) \<le> order_stage (ord_status o2)
    \<and> (ord_status o1 \<in> {DELIVERED, RETURNED, CANCELLED} \<longrightarrow> ord_status o2 = ord_status o1)"
proof -
  obtain o2 where o2: "find_order db' oid = Some o2" "reaches ORDER_STATUS_TRANSITIONS (ord_status o1) (ord_status o2)"
    using status_reached [OF assms(1) _ assms(4)] assms(2,3) by (auto simp: orders_inv_def)
  then show ?thesis using reaches_stage [OF o2(2)] order_machine.final [OF _ o2(2)] unfolding order_final_iff by blast
qed

text \<open>Property C6 (confirmed_once): once an order has been confirmed, no later request confirms it again
  after any run, so that its stock is consumed once.\<close>

theorem confirmed_once:
  assumes "order_confirm e oid v db = Inr (r, db1)" and "stock_inv (now e) db" and "in_step db"
    and "shop_run (now e) db1 t db2"
  shows "order_confirm e' oid v' db2 \<in> {Inl (conflict ''VERSION_CONFLICT''), Inl (conflict ''ORDER_CONFIRMATION_NOT_ALLOWED'')}"
proof -
  have inv: "orders_inv (now e) db" using assms(2,3) by (simp add: orders_inv_def)
  have i: "orders_inv (now e) db1"
    using order_step_keeps [OF order_step.confirmed [OF assms(1)] inv] by blast
  from order_confirm_parts [OF assms(1,2)]
  have m: "moves oid CONFIRMED (\<lambda>o'. o'\<lparr> ord_confirmedAt := Some (now e) \<rparr>) db db1" by blast
  from moves_effect(3) [OF m] obtain o1 where o1: "find_order db1 oid = Some o1" "ord_status o1 = CONFIRMED" by auto
  from status_reached [OF assms(4) i o1(1)] obtain o2 where o2: "find_order db2 oid = Some o2"
    "reaches ORDER_STATUS_TRANSITIONS CONFIRMED (ord_status o2)" unfolding o1(2) by blast
  have "ord_status o2 \<noteq> PENDING_CONFIRMATION" using confirmed_not_pending [OF o2(2)] .
  then show ?thesis
    by (cases "ord_version o2 = v'")
      (simp_all add: order_confirm_def lockOrder_def o2(1) confirm_guard_def assertVersion_def)
qed

lemma confirmed_once_witness:
  "\<exists>db :: delivery_db. order_confirm shop_env ''o1'' 2 db
     \<in> {Inl (conflict ''VERSION_CONFLICT''), Inl (conflict ''ORDER_CONFIRMATION_NOT_ALLOWED'')} \<and> orders db \<noteq> []"
proof -
  from placed_system_confirmed obtain r db where c: "order_confirm shop_env ''o1'' 1 placed_system = Inr (r, db)"
    by (auto split: sum.splits)
  from order_confirm_parts [OF c placed_system_stock]
  have "moves ''o1'' CONFIRMED (\<lambda>o'. o'\<lparr> ord_confirmedAt := Some (now shop_env) \<rparr>) placed_system db" by blast
  from moves_effect(3) [OF this] have "orders db \<noteq> []" by (auto simp: find_order_def)
  with confirmed_once [OF c placed_system_stock placed_system_in_step shop_run.start, of shop_env 2] show ?thesis by blast
qed

lemma status_never_reverts_witness:
  "\<exists>(db :: delivery_db) o2. find_order db ''o1'' = Some o2 \<and> ord_status o2 = CANCELLED
     \<and> reaches ORDER_STATUS_TRANSITIONS PENDING_CONFIRMATION (ord_status o2)"
proof -
  obtain db where run: "shop_run (now shop_env) placed_system (now shop_env) db"
    and st: "map_option ord_status (find_order db ''o1'') = Some CANCELLED" by (rule placed_system_run)
  from status_never_reverts [OF run placed_system_stock placed_system_in_step placed_system_order] st
  show ?thesis by (intro exI [of _ db]) (auto simp: placed_order_def)
qed

text \<open>Property C34 (attempts_numbered): over any run, no attempt to deliver a parcel is ever lost or
  altered, and the attempts of each delivery stay numbered 1, 2, 3 and so on in the order they were made.\<close>

theorem attempts_numbered:
  assumes "shop_run t db t' db'" and "stock_inv t db" and "in_step db"
    and "\<And>did. map att_number (attempts_of db did) = [1..<Suc (length (attempts_of db did))]"
  shows "map att_number (attempts_of db' did) = [1..<Suc (length (attempts_of db' did))]
    \<and> take (length (attempts db)) (attempts db') = attempts db"
proof -
  have "attempts_grow db db'" using shop_run_keeps [OF assms(1)] assms(2,3) by (simp add: orders_inv_def)
  with assms(4) show ?thesis by (auto simp: attempts_grow_def numbered_def)
qed

text \<open>Property C35 (age_failure_is_terminal): once an attempt has been recorded as failed for the age of
  the recipient, no later request completes that delivery, whatever happens in between.\<close>

theorem age_failure_is_terminal:
  assumes "delivery_recordAttempt e did input db = Inr (r, db1)" and "atp_outcome input = FAILED_AGE_VERIFICATION"
    and "stock_inv (now e) db" and "in_step db" and "shop_run (now e) db1 t db2"
  shows "\<exists>x. delivery_complete e' did v age db2 = Inl x"
proof -
  have inv: "orders_inv (now e) db" using assms(3,4) by (simp add: orders_inv_def)
  have "orders_inv (now e) db1"
    using shop_step_keeps [OF shop_step.of_deliveries [OF delivery_step.attempted [OF assms(1)]] inv] by blast
  from shop_run_keeps [OF assms(5) this] have "attempts_grow db1 db2" by blast
  with delivery_recordAttempt_parts(2) [OF assms(1)] assms(2)
  have "\<exists>a\<in>set (attempts db2). att_deliveryId a = did \<and> att_outcome a = FAILED_AGE_VERIFICATION"
    by (auto simp: attempts_grow_def)
  then have rec: "age_failure_recorded db2 did" by (auto simp: age_failure_recorded_def count_where_def filter_empty_conv)
  show ?thesis
  proof (cases "delivery_complete e' did v age db2")
    case (Inr p)
    then obtain r3 db3 where "delivery_complete e' did v age db2 = Inr (r3, db3)" by (cases p) auto
    then show ?thesis
    proof (rule delivery_complete_parts)
      fix op b assume op: "lockDelivery db2 did = Inr op" and g: "completion_guard db2 op v age = Inr b"
      from completion_guard_Inr(7) [OF g] lockDelivery_read(2) [OF op] rec show ?thesis by simp
    qed
  qed blast
qed

lemma desk_refused_run:
  obtains r db where "delivery_recordAttempt (cash_env ''u1'' 1000) ''d1'' failed_attempt delivery_desk = Inr (r, db)"
    and "map att_number (attempts db) = [1]"
  using desk_refused_evaluated unfolding desk_refused_def by (auto split: sum.splits)

lemma desk_time: "now (cash_env who 1000) = now shop_env"
  by (simp add: cash_env_def shop_env_def)

lemma age_failure_is_terminal_witness:
  "\<exists>db :: delivery_db. attempts db \<noteq> [] \<and> (\<exists>x. delivery_complete (cash_env ''u2'' 2000) ''d1'' 2 AGE_PASSED db = Inl x)"
proof -
  obtain r db where run: "delivery_recordAttempt (cash_env ''u1'' 1000) ''d1'' failed_attempt delivery_desk = Inr (r, db)"
    and n: "map att_number (attempts db) = [1]" by (rule desk_refused_run)
  have "\<exists>x. delivery_complete (cash_env ''u2'' 2000) ''d1'' 2 AGE_PASSED db = Inl x"
    by (rule age_failure_is_terminal [OF run _ _ _ shop_run.start])
      (simp_all add: failed_attempt_def desk_time delivery_desk_stock delivery_desk_in_step)
  with n show ?thesis by (intro exI [of _ db]) auto
qed

lemma attempts_numbered_witness:
  "\<exists>t db. shop_run (now shop_env) delivery_desk t db \<and> attempts db \<noteq> []
     \<and> map att_number (attempts_of db ''d1'') = [1..<Suc (length (attempts_of db ''d1''))]"
proof -
  let ?e = "cash_env ''u1'' 1000"
  obtain r db where a: "delivery_recordAttempt ?e ''d1'' failed_attempt delivery_desk = Inr (r, db)"
    and n: "map att_number (attempts db) = [1]" by (rule desk_refused_run)
  have run: "shop_run (now shop_env) delivery_desk (now ?e) db"
    by (rule shop_run.request [OF shop_run.start _ shop_step.of_deliveries [OF delivery_step.attempted [OF a]]])
      (simp add: desk_time)
  have "attempts delivery_desk = []" by (simp add: delivery_desk_def cash_db.defs delivery_db.defs)
  with attempts_numbered [OF run delivery_desk_stock delivery_desk_in_step, of "''d1''"]
  have "map att_number (attempts_of db ''d1'') = [1..<Suc (length (attempts_of db ''d1''))]"
    by (simp add: attempts_of_def)
  with run n show ?thesis by (intro exI [of _ "now ?e"] exI [of _ db]) auto
qed

end
