(* ===== verification/Manifests.thy ===== *)
theory Manifests
  imports DeliveryRuns
begin

text \<open>
  Manifests: a delivery is on at most one manifest that is still open, and only \<open>createManifest\<close> and
  \<open>transitionManifest\<close> write the two tables of the manifests.
\<close>

section \<open>Who writes the manifests\<close>

definition same_manifests :: "'a delivery_db_scheme \<Rightarrow> 'a delivery_db_scheme \<Rightarrow> bool" where
  "same_manifests db db' = (manifests db' = manifests db \<and> manifest_items db' = manifest_items db)"

lemma same_manifests_refl [simp]: "same_manifests db db"
  by (simp add: same_manifests_def)

lemma same_manifests_trans [trans]: "same_manifests a b \<Longrightarrow> same_manifests b c \<Longrightarrow> same_manifests a c"
  by (simp add: same_manifests_def)

lemma more_same_manifests:
  fixes db db' :: "'a delivery_db_scheme"
  shows "stock_db.more db' = stock_db.more db \<Longrightarrow> same_manifests db db'"
    and "shop_db.more db' = shop_db.more db \<Longrightarrow> same_manifests db db'"
    and "cash_db.more db' = cash_db.more db \<Longrightarrow> same_manifests db db'"
  by (cases db; cases db'; simp add: same_manifests_def)+

lemma logged_manifests: "logged db db' \<Longrightarrow> same_manifests db db'"
  by (intro more_same_manifests(3)) (simp add: logged_def)

lemma moved_manifests: "moved_frame db db' \<Longrightarrow> same_manifests db db'"
  by (intro more_same_manifests(3)) (simp add: moved_frame_def)

named_theorems manifest_frames

lemma writes_manifests [manifest_frames]:
  "create_delivery_event e row1 db = Inr (v, db') \<Longrightarrow> same_manifests db db'"
  "create_audit e row2 db = Inr (a, db') \<Longrightarrow> same_manifests db db'"
  "create_age_event e row3 db = Inr (ae, db') \<Longrightarrow> same_manifests db db'"
  "create_attempt e row4 db = Inr (ta, db') \<Longrightarrow> same_manifests db db'"
  "create_courier e row5 db = Inr (c, db') \<Longrightarrow> same_manifests db db'"
  "create_status_import e row6 db = Inr (si, db') \<Longrightarrow> same_manifests db db'"
  "update_delivery d ver f db = Inr db' \<Longrightarrow> same_manifests db db'"
  "updateMirroredStatus op target f db = Inr db' \<Longrightarrow> same_manifests db db'"
  "write_courier e ui c0 db = Inr db' \<Longrightarrow> same_manifests db db'"
  by (auto simp: same_manifests_def Let_def update_delivery_def updateMirroredStatus_def write_courier_def)

lemma records_manifests [manifest_frames]:
  "recordTransition e op target rc note action db = Inr db' \<Longrightarrow> same_manifests db db'"
  by (intro logged_manifests recordTransition_logged)

lemmas manifest_parts = delivery_parts create_attempt_Inr create_age_event_Inr

lemma delivery_unassign_manifests [manifest_frames]:
  "delivery_unassign e did v reason db = Inr (r, db') \<Longrightarrow> same_manifests db db'"
  by (auto simp: delivery_unassign_def Let_def simp del: manifest_parts dest!: manifest_frames intro: same_manifests_trans)

lemma delivery_updateInternalNotes_manifests [manifest_frames]:
  "delivery_updateInternalNotes e did v notes db = Inr (r, db') \<Longrightarrow> same_manifests db db'"
  by (auto simp: delivery_updateInternalNotes_def Let_def simp del: manifest_parts dest!: manifest_frames intro: same_manifests_trans)

lemma delivery_transition_manifests [manifest_frames]:
  "delivery_transition e did ti db = Inr (r, db') \<Longrightarrow> same_manifests db db'"
  by (auto simp: delivery_transition_def simp del: manifest_parts dest!: manifest_frames intro: same_manifests_trans)

lemma delivery_completeReturn_manifests [manifest_frames]:
  "delivery_completeReturn e did v reason db = Inr (r, db') \<Longrightarrow> same_manifests db db'"
  by (auto simp: delivery_completeReturn_def simp del: manifest_parts dest!: manifest_frames intro: same_manifests_trans)

lemma getCourierWhatsApp_manifests [manifest_frames]:
  "getCourierWhatsApp e did db = Inr (p, db') \<Longrightarrow> same_manifests db db'"
  by (auto simp: getCourierWhatsApp_def simp del: manifest_parts dest!: manifest_frames intro: same_manifests_trans)

lemma recordCourierWhatsAppContact_manifests [manifest_frames]:
  "recordCourierWhatsAppContact e did v db = Inr (ca, db') \<Longrightarrow> same_manifests db db'"
  by (auto simp: recordCourierWhatsAppContact_def Let_def simp del: manifest_parts dest!: manifest_frames intro: same_manifests_trans)

lemma createManualCourier_manifests [manifest_frames]:
  "createManualCourier e ci db = Inr (c, db') \<Longrightarrow> same_manifests db db'"
  by (auto simp: createManualCourier_def simp del: manifest_parts dest!: manifest_frames intro: same_manifests_trans)

lemma updateManualCourier_manifests [manifest_frames]:
  "updateManualCourier e cid ui db = Inr (c, db') \<Longrightarrow> same_manifests db db'"
  by (auto simp: updateManualCourier_def simp del: manifest_parts dest!: manifest_frames intro: same_manifests_trans)

lemma getManifest_manifests [manifest_frames]:
  "getManifest e mid db = Inr (mv, db') \<Longrightarrow> same_manifests db db'"
  by (auto simp: getManifest_def simp del: manifest_parts dest!: manifest_frames intro: same_manifests_trans)

lemma exportManifestCsv_manifests [manifest_frames]:
  "exportManifestCsv e bom mid db = Inr (f, db') \<Longrightarrow> same_manifests db db'"
  by (auto simp: exportManifestCsv_def Let_def simp del: manifest_parts dest!: manifest_frames intro: same_manifests_trans)

lemma delivery_assignment_manifests [manifest_frames]:
  assumes "delivery_assignment action e did ai db = Inr (r, db')"
  shows "same_manifests db db'"
proof -
  from assms have "assignment_tx action e did ai db = Inr (r, db')"
    by (auto simp: delivery_assignment_def split: sum.splits)
  then show ?thesis
    by (auto simp: assignment_tx_def Let_def simp del: manifest_parts dest!: manifest_frames intro: same_manifests_trans)
qed

lemma attempt_writes_manifests [manifest_frames]:
  "write_attempt e ati op t db = Inr db' \<Longrightarrow> same_manifests db db'"
  "write_completion e op age cash db = Inr db' \<Longrightarrow> same_manifests db db'"
  by (auto simp: write_attempt_def write_completion_def simp del: manifest_parts split: if_splits
      dest!: manifest_frames intro: same_manifests_trans)

lemma delivery_recordAttempt_manifests [manifest_frames]:
  "delivery_recordAttempt e did ati db = Inr (r, db') \<Longrightarrow> same_manifests db db'"
  by (auto simp: delivery_recordAttempt_def simp del: manifest_parts dest!: manifest_frames intro: same_manifests_trans)

lemma delivery_complete_manifests [manifest_frames]:
  "delivery_complete e did v age db = Inr (r, db') \<Longrightarrow> same_manifests db db'"
  by (auto simp: delivery_complete_def simp del: manifest_parts dest!: manifest_frames intro: same_manifests_trans)

lemma import_tx_manifests: "import_tx e i h cs db = Inr (r, db') \<Longrightarrow> same_manifests db db'"
  by (auto simp: import_tx_def Let_def simp del: manifest_parts split: if_splits
      dest!: manifest_frames dest!: import_commands_frame [THEN moved_manifests] intro: same_manifests_trans)

lemma importStatusCsv_manifests [manifest_frames]:
  "importStatusCsv e i seen db = Inr (r, db') \<Longrightarrow> same_manifests db db'"
  by (auto simp: importStatusCsv_def Let_def split: option.splits sum.splits if_splits csv_error.splits
      dest!: import_tx_manifests)

section \<open>One open manifest at most\<close>

definition open_manifest :: "manifest \<Rightarrow> bool" where
  "open_manifest m = (mf_status m \<in> {MF_DRAFT, MF_SEALED, MF_HANDED_OVER})"

text \<open>Every item belongs to a manifest, and no delivery is an item of two open ones.\<close>

definition manifests_ok :: "'a delivery_db_scheme \<Rightarrow> bool" where
  "manifests_ok db =
     (list_all (\<lambda>i. mi_manifestId i \<in> mf_id ` set (manifests db)) (manifest_items db)
      \<and> (\<forall>did. count_where (open_manifest_item db did) (manifest_items db) \<le> 1))"

lemma manifests_ok_same: "same_manifests db db' \<Longrightarrow> manifests_ok db' = manifests_ok db"
  unfolding same_manifests_def manifests_ok_def open_manifest_item_def count_where_def by simp

lemma open_item_iff:
  "open_manifest_item db did i \<longleftrightarrow>
     mi_deliveryId i = did \<and> (\<exists>m\<in>set (manifests db). mf_id m = mi_manifestId i \<and> open_manifest m)"
  by (simp add: open_manifest_item_def open_manifest_def list_ex_iff)

lemma count_where_le: "(\<And>x. x \<in> set xs \<Longrightarrow> P x \<Longrightarrow> Q x) \<Longrightarrow> count_where P xs \<le> count_where Q xs"
  unfolding count_where_def by (induction xs) auto

lemma count_where_distinct:
  "distinct (map k xs) \<Longrightarrow> (\<And>x. x \<in> set xs \<Longrightarrow> P x \<Longrightarrow> k x = v) \<Longrightarrow> count_where P xs \<le> 1"
proof (induction xs)
  case (Cons x xs)
  show ?case
  proof (cases "P x")
    case True
    then have "count_where P xs = 0"
      using Cons.prems by (force simp: count_where_def filter_empty_conv)
    then show ?thesis by (simp add: count_where_def)
  next
    case False
    then show ?thesis using Cons by (simp add: count_where_def)
  qed
qed (simp add: count_where_def)

subsection \<open>A new manifest\<close>

lemma check_all_free:
  assumes "foldE (check_manifest_delivery db i ops) xs u = Inr w"
  shows "\<forall>x\<in>set xs. count_where (open_manifest_item db (fst x)) (manifest_items db) = 0"
  using assms
proof (induction xs arbitrary: u)
  case (Cons x xs)
  from Cons.prems obtain u1 where c: "check_manifest_delivery db i ops x u = Inr u1"
    and r: "foldE (check_manifest_delivery db i ops) xs u1 = Inr w" by auto
  from c obtain op where "by_id ops (fst x) = Some op"
    "count_where (open_manifest_item db (dlv_id (dop_delivery op))) (manifest_items db) = 0"
    by (auto simp: check_manifest_delivery_def Let_def)
  then show ?case using Cons.IH [OF r] find_SomeD by (fastforce simp: by_id_def)
qed simp

definition new_item :: "string \<Rightarrow> nat \<times> string \<Rightarrow> manifest_item" where
  "new_item mid x = \<lparr> mi_manifestId = mid, mi_deliveryId = snd x, mi_sequence = fst x + 1 \<rparr>"

lemma add_manifest_item_Inr:
  "add_manifest_item mid x db = Inr db' \<longleftrightarrow>
     \<not> (\<exists>i\<in>set (manifest_items db). mi_manifestId i = mid \<and> (mi_deliveryId i = snd x \<or> mi_sequence i = fst x + 1))
     \<and> db' = db\<lparr> manifest_items := manifest_items db @ [new_item mid x] \<rparr>"
  by (auto simp: add_manifest_item_def new_item_def)

lemma add_items_effect:
  assumes "foldE (add_manifest_item mid) xs db = Inr db'"
  shows "manifests db' = manifests db \<and> manifest_items db' = manifest_items db @ map (new_item mid) xs
    \<and> distinct (map snd xs) \<and> (\<forall>x\<in>set xs. \<forall>i\<in>set (manifest_items db). mi_manifestId i = mid \<longrightarrow> mi_deliveryId i \<noteq> snd x)"
  using assms
proof (induction xs arbitrary: db)
  case (Cons x xs)
  let ?db = "db\<lparr> manifest_items := manifest_items db @ [new_item mid x] \<rparr>"
  from Cons.prems have a: "\<not> (\<exists>i\<in>set (manifest_items db). mi_manifestId i = mid \<and> (mi_deliveryId i = snd x \<or> mi_sequence i = fst x + 1))"
    and r: "foldE (add_manifest_item mid) xs ?db = Inr db'"
    by (auto simp: add_manifest_item_Inr)
  from Cons.IH [OF r] a show ?case by (force simp: new_item_def)
qed simp

lemma createManifest_ok:
  assumes run: "createManifest e i db = Inr (v, db')" and ok: "manifests_ok db"
  shows "manifests_ok db'"
proof -
  from run obtain date where "createManifest_tx e i date db = Inr (v, db')" by (auto simp: createManifest_Inr)
  then obtain ops m db1 db2 db3 row a where
    c: "foldE (check_manifest_delivery db i ops) (mfi_deliveries i) () = Inr ()" and
    m: "create_manifest e \<lparr> mf_id = [], mf_number = newManifestNumber e date, mf_courierId = mfi_courierId i,
         mf_status = MF_DRAFT, mf_manifestDate = date, mf_createdBy = actor e, mf_sealedAt = None,
         mf_handedOverAt = None, mf_closedAt = None \<rparr> db = Inr (m, db1)" and
    it: "foldE (add_manifest_item (mf_id m)) (enumerate 0 (map fst (mfi_deliveries i))) db1 = Inr db2" and
    ev: "foldE (manifest_event e m) ops db2 = Inr db3" and au: "create_audit e row db3 = Inr (a, db')"
    by (rule createManifest_tx_parts) blast
  let ?new = "map (new_item (mf_id m)) (enumerate 0 (map fst (mfi_deliveries i)))"
  have "same_manifests db2 db3"
    by (rule foldE_inv [OF ev, of "same_manifests db2"])
      (auto simp: manifest_event_def simp del: delivery_parts dest!: manifest_frames intro: same_manifests_trans)
  with au have "same_manifests db2 db'" by (blast dest: manifest_frames intro: same_manifests_trans)
  then have same: "manifests db' = manifests db2" "manifest_items db' = manifest_items db2" by (simp_all add: same_manifests_def)
  from m have M: "manifests db1 = manifests db @ [m]" "manifest_items db1 = manifest_items db"
    "mf_id m \<notin> mf_id ` set (manifests db)" by (auto simp: Let_def)
  note I = add_items_effect [OF it]
  have ms: "manifests db' = manifests db @ [m]" and is_new: "manifest_items db' = manifest_items db @ ?new"
    and d: "distinct (map fst (mfi_deliveries i))"
    using I M same by (simp_all add: o_def)
  have old: "open_manifest_item db' did x = open_manifest_item db did x" if "x \<in> set (manifest_items db)" for did x
    using ok M(3) that by (auto simp: open_item_iff ms manifests_ok_def list_all_iff)
  have "count_where (open_manifest_item db' did) (manifest_items db') \<le> 1" for did
  proof -
    let ?P = "open_manifest_item db' did"
    have 1: "count_where ?P (manifest_items db) = count_where (open_manifest_item db did) (manifest_items db)"
      using old by (simp add: count_where_def cong: filter_cong)
    have 2: "count_where ?P ?new \<le> 1"
      by (rule count_where_distinct [where k = mi_deliveryId and v = did])
        (use d in \<open>auto simp: open_item_iff new_item_def o_def\<close>)
    have 3: "count_where (open_manifest_item db did) (manifest_items db) = 0" if "0 < count_where ?P ?new"
    proof -
      from that obtain x where "x \<in> set ?new" "?P x" by (auto simp: count_where_def filter_empty_conv)
      then have "did \<in> snd ` set (enumerate 0 (map fst (mfi_deliveries i)))" by (force simp: open_item_iff new_item_def)
      then have "did \<in> fst ` set (mfi_deliveries i)" by (metis list.set_map map_snd_enumerate)
      then show ?thesis using check_all_free [OF c] by auto
    qed
    have "count_where ?P (manifest_items db') = count_where ?P (manifest_items db) + count_where ?P ?new"
      by (simp add: is_new count_where_def)
    moreover have "count_where (open_manifest_item db did) (manifest_items db) \<le> 1" using ok by (simp add: manifests_ok_def)
    ultimately show ?thesis using 1 2 3 by linarith
  qed
  moreover have "list_all (\<lambda>x. mi_manifestId x \<in> mf_id ` set (manifests db')) (manifest_items db')"
    using ok by (auto simp: manifests_ok_def ms is_new new_item_def list_all_iff)
  ultimately show ?thesis by (simp add: manifests_ok_def)
qed

subsection \<open>Moving a manifest\<close>

lemma no_reopening:
  "canTransitionManifest f t \<Longrightarrow> t \<in> {MF_DRAFT, MF_SEALED, MF_HANDED_OVER} \<Longrightarrow> f \<in> {MF_DRAFT, MF_SEALED, MF_HANDED_OVER}"
  by (cases f) (auto simp: canTransitionManifest_def)

lemma set_manifest_ok:
  assumes run: "set_manifest e mid i db = Inr db'" and t: "canTransitionManifest (mt_expectedStatus i) (mt_targetStatus i)"
    and ok: "manifests_ok db"
  shows "manifests_ok db'"
proof -
  let ?hit = "\<lambda>m. mf_id m = mid \<and> mf_status m = mt_expectedStatus i"
  from run have ms: "manifests db' = update_where ?hit (manifest_times e (mt_targetStatus i)) (manifests db)"
    and items: "manifest_items db' = manifest_items db" by (auto simp: set_manifest_def Let_def)
  have ids: "mf_id ` set (manifests db') = mf_id ` set (manifests db)"
    unfolding set_map [symmetric] by (simp add: ms map_update_where manifest_times_def)
  have still: "open_manifest_item db did x" if o': "open_manifest_item db' did x" for did x
  proof -
    from o' obtain m1 where m1: "m1 \<in> set (manifests db')" "mf_id m1 = mi_manifestId x" "open_manifest m1"
      and x: "mi_deliveryId x = did" unfolding open_item_iff by blast
    from m1 obtain m0 where m0: "m0 \<in> set (manifests db)"
      and op: "mf_id (if ?hit m0 then manifest_times e (mt_targetStatus i) m0 else m0) = mi_manifestId x"
        "open_manifest (if ?hit m0 then manifest_times e (mt_targetStatus i) m0 else m0)"
      unfolding ms set_update_where by blast
    have "mf_id m0 = mi_manifestId x" using op(1) by (simp add: manifest_times_def split: if_splits)
    moreover have "open_manifest m0"
    proof (cases "?hit m0")
      case True
      then have "mt_targetStatus i \<in> {MF_DRAFT, MF_SEALED, MF_HANDED_OVER}"
        using op(2) by (simp add: open_manifest_def manifest_times_def)
      from no_reopening [OF t this] True show ?thesis by (simp add: open_manifest_def)
    next
      case False
      with op(2) show ?thesis by (simp only: if_False)
    qed
    ultimately show ?thesis using m0 x by (auto simp: open_item_iff)
  qed
  have "count_where (open_manifest_item db' did) (manifest_items db') \<le> 1" for did
    using ok count_where_le [of "manifest_items db" "open_manifest_item db' did" "open_manifest_item db did"] still
    by (fastforce simp: manifests_ok_def items intro: order_trans)
  then show ?thesis using ok by (simp add: manifests_ok_def ids items)
qed

lemma transitionManifest_parts:
  assumes "transitionManifest e mid i db = Inr (v, db')"
  obtains m ops db1 db2 row a where "find_manifest db mid = Some m" and "mf_status m = mt_expectedStatus i"
    and "canTransitionManifest (mt_expectedStatus i) (mt_targetStatus i)"
    and "findBulkDeliveries db (map mi_deliveryId (items_of_manifest db mid)) = Inr ops"
    and "manifest_target e m (mt_targetStatus i) ops db = Inr db1" and "set_manifest e mid i db1 = Inr db2"
    and "create_audit e row db2 = Inr (a, db')"
  using assms by (auto simp: transitionManifest_def Let_def simp del: delivery_parts)

lemma transitionManifest_ok:
  assumes run: "transitionManifest e mid i db = Inr (v, db')" and ok: "manifests_ok db"
  shows "manifests_ok db'"
  using run
proof (rule transitionManifest_parts)
  fix m ops db1 db2 row a
  assume t: "canTransitionManifest (mt_expectedStatus i) (mt_targetStatus i)"
    and ops: "findBulkDeliveries db (map mi_deliveryId (items_of_manifest db mid)) = Inr ops"
    and m: "manifest_target e m (mt_targetStatus i) ops db = Inr db1" and s: "set_manifest e mid i db1 = Inr db2"
    and a: "create_audit e row db2 = Inr (a, db')"
  have "manifests_ok db1" using manifests_ok_same [OF moved_manifests [OF manifest_target_frame [OF m ops]]] ok by simp
  then have "manifests_ok db2" by (rule set_manifest_ok [OF s t])
  then show ?thesis using manifests_ok_same [OF writes_manifests(2) [OF a]] by simp
qed

end
