(* ===== verification/DeliverySpec.thy ===== *)
theory DeliverySpec
  imports ShopSystem Manifests
begin

text \<open>
  What the delivery desk promises: a delivery is completed only with the age verified and the exact
  cash, a status file is applied as a whole or not at all, a manifest that is handed over hands over
  every parcel on it, and no parcel is on two open manifests.
\<close>

section \<open>One delivery\<close>

lemma completion_evidence:
  assumes "delivery_complete e did v age db = Inr (r, db')"
  shows "\<exists>d o'. find_delivery db did = Some d \<and> find_order db (dlv_orderId d) = Some o'
    \<and> \<not> age_failure_recorded db did \<and> (dlv_ageVerificationRequired d \<longrightarrow> age = AGE_PASSED)
    \<and> (0 < ord_expectedCodMillimes o' \<longrightarrow>
         sum_by (settled_worth db) (delivery_cash db did) = ord_expectedCodMillimes o'
         \<and> ord_paymentStatus o' \<in> {CASH_COLLECTED_BY_COURIER, CASH_COLLECTED_AT_STORE, CASH_REMITTED})
    \<and> map_option dlv_status (find_delivery db' did) = Some DELIVERED
    \<and> map_option ord_status (find_order db' (dlv_orderId d)) = Some DELIVERED"
proof -
  obtain op a where op: "lockDelivery db did = Inr op" and g: "completion_guard db op v age = Inr a"
    and D: "map_option dlv_status (find_delivery db' did) = Some DELIVERED"
    and O: "map_option ord_status (find_order db' (ord_id (dop_order op))) = Some DELIVERED"
    by (rule delivery_complete_parts [OF assms])
  from op obtain d o' where d: "find_delivery db did = Some d" and o': "find_order db (dlv_orderId d) = Some o'"
    and op': "op = delivery_operation_of db d o'" by (auto simp: lockDelivery_Inr)
  have id: "dlv_id d = did" using find_delivery_id [OF d] by simp
  note G = completion_guard_Inr [OF g, unfolded op', simplified]
  have cash: "a = sum_by (settled_worth db) (delivery_cash db did)"
    using collected_for_completion_Inr(1) [OF G(9)] by (simp add: id)
  show ?thesis
    using d o' D O G(6,7) completion_guard_Inr(10) [OF g] find_order_id [OF o']
    by (intro exI [of _ d] exI [of _ o']) (simp add: id cash op' CASH_PAYMENT_STATUSES_def)
qed

section \<open>Several deliveries at once\<close>

definition moved_row :: "delivery_status \<Rightarrow> (delivery \<Rightarrow> delivery) \<Rightarrow> delivery \<Rightarrow> delivery" where
  "moved_row target f d = (f d)\<lparr> dlv_status := target, dlv_version := dlv_version d + 1 \<rparr>"

lemma applied_deliveries:
  fixes db db' :: "'a delivery_db_scheme"
  assumes run: "applyDeliveryTransition e op target rc note source action f db = Inr db'"
    and f: "\<And>x. dlv_id (f x) = dlv_id x" and d: "distinct (map dlv_id (deliveries db))"
  shows "\<exists>d0. find_delivery db (dlv_id (dop_delivery op)) = Some d0
       \<and> find_delivery db' (dlv_id (dop_delivery op)) = Some (moved_row target f d0)"
    and "did \<noteq> dlv_id (dop_delivery op) \<Longrightarrow> find_delivery db' did = find_delivery db did"
    and "map dlv_id (deliveries db') = map dlv_id (deliveries db)"
proof -
  from run obtain db1 where m: "updateMirroredStatus op target f db = Inr db1" and
    b: "bulk_records e op target rc note source action db1 = Inr db'"
    by (auto simp: applyDeliveryTransition_def)
  have ds: "deliveries db' = update_where (hits_mirrored_delivery (dop_delivery op)) (moved_row target f) (deliveries db)"
    using updateMirroredStatus_effect(1) [OF m] bulk_records_logged [OF b]
    by (simp add: logged_def untouched_def moved_row_def [abs_def])
  show "map dlv_id (deliveries db') = map dlv_id (deliveries db)"
    by (simp add: ds map_update_where moved_row_def f)
  have find: "find_delivery db' x = map_option (\<lambda>d. if hits_mirrored_delivery (dop_delivery op) d then moved_row target f d else d)
      (find_delivery db x)" for x
    unfolding find_delivery_def ds by (rule find_update_where) (simp add: moved_row_def f)
  obtain d0 o0 where d0: "d0 \<in> set (deliveries db)" "hits_mirrored_delivery (dop_delivery op) d0"
    by (rule updateMirroredStatus_hits [OF m])
  then have "find_delivery db (dlv_id (dop_delivery op)) = Some d0"
    using find_key [OF d d0(1)] by (simp add: find_delivery_def hits_mirrored_delivery_def)
  then show "\<exists>d0. find_delivery db (dlv_id (dop_delivery op)) = Some d0
       \<and> find_delivery db' (dlv_id (dop_delivery op)) = Some (moved_row target f d0)"
    using d0 by (simp add: find)
  show "find_delivery db' did = find_delivery db did" if "did \<noteq> dlv_id (dop_delivery op)"
    using that find_delivery_id [of db did]
    by (cases "find_delivery db did") (auto simp: find hits_mirrored_delivery_def)
qed

lemma all_applied:
  fixes db db' :: "'a delivery_db_scheme"
  assumes "foldE g xs db = Inr db'"
    and "\<And>x s s'. x \<in> set xs \<Longrightarrow> g x s = Inr s' \<Longrightarrow>
      \<exists>rc nt src act. applyDeliveryTransition e (op x) (tgt x) rc nt src act f s = Inr s'"
    and f: "\<And>x. dlv_id (f x) = dlv_id x"
    and "distinct (map (\<lambda>x. dlv_id (dop_delivery (op x))) xs)" and "distinct (map dlv_id (deliveries db))"
  shows "(\<forall>x\<in>set xs. \<exists>d0. find_delivery db (dlv_id (dop_delivery (op x))) = Some d0
        \<and> find_delivery db' (dlv_id (dop_delivery (op x))) = Some (moved_row (tgt x) f d0))
    \<and> (\<forall>did. did \<notin> (\<lambda>x. dlv_id (dop_delivery (op x))) ` set xs \<longrightarrow> find_delivery db' did = find_delivery db did)"
  using assms(1,2,4,5)
proof (induction xs arbitrary: db)
  case (Cons x xs)
  from Cons.prems(1) obtain s where g: "g x db = Inr s" and rest: "foldE g xs s = Inr db'" by auto
  from Cons.prems(2) [OF _ g] obtain rc nt src act where
    a: "applyDeliveryTransition e (op x) (tgt x) rc nt src act f db = Inr s" by auto
  note A = applied_deliveries [OF a f Cons.prems(4)]
  have d: "distinct (map dlv_id (deliveries s))" using A(3) Cons.prems(4) by simp
  have "\<exists>rc nt src act. applyDeliveryTransition e (op y) (tgt y) rc nt src act f s0 = Inr s1"
    if "y \<in> set xs" "g y s0 = Inr s1" for y s0 s1 using Cons.prems(2) [of y] that by simp
  moreover have "distinct (map (\<lambda>x. dlv_id (dop_delivery (op x))) xs)" using Cons.prems(3) by simp
  ultimately have IH: "\<forall>x\<in>set xs. \<exists>d0. find_delivery s (dlv_id (dop_delivery (op x))) = Some d0
        \<and> find_delivery db' (dlv_id (dop_delivery (op x))) = Some (moved_row (tgt x) f d0)"
    "\<And>did. did \<notin> (\<lambda>x. dlv_id (dop_delivery (op x))) ` set xs \<Longrightarrow> find_delivery db' did = find_delivery s did"
    using Cons.IH [OF rest _ _ d] by blast+
  let ?id = "\<lambda>x. dlv_id (dop_delivery (op x))"
  have new: "?id x \<notin> ?id ` set xs" using Cons.prems(3) by simp
  have other: "find_delivery s (?id y) = find_delivery db (?id y)" if "y \<in> set xs" for y
    using new that by (intro A(2)) (metis imageI)
  show ?case
  proof (intro conjI ballI allI impI)
    fix y assume "y \<in> set (x # xs)"
    then consider (head) "y = x" | (tail) "y \<in> set xs" by auto
    then show "\<exists>d0. find_delivery db (?id y) = Some d0 \<and> find_delivery db' (?id y) = Some (moved_row (tgt y) f d0)"
    proof cases
      case head
      have "find_delivery db' (?id x) = find_delivery s (?id x)" by (rule IH(2) [OF new])
      with A(1) head show ?thesis by simp
    next
      case tail
      from bspec [OF IH(1) this] other [OF this] show ?thesis by auto
    qed
  next
    fix did assume "did \<notin> ?id ` set (x # xs)"
    then show "find_delivery db' did = find_delivery db did" using A(2) IH(2) by simp
  qed
qed simp

lemma bulk_ids_distinct:
  assumes "findBulkDeliveries db ids = Inr ops" and "distinct (map dlv_id (deliveries db))"
  shows "distinct (map (\<lambda>op. dlv_id (dop_delivery op)) ops)"
proof -
  let ?ds = "sort_key dlv_id (filter (\<lambda>d. dlv_id d \<in> set ids) (deliveries db))"
  have "map (\<lambda>op. dop_delivery op) ops = ?ds"
  proof (rule nth_equalityI)
    note M = assms(1) [unfolded findBulkDeliveries_def mapE_Inr]
    show "length (map (\<lambda>op. dop_delivery op) ops) = length ?ds" using list_all2_lengthD [OF M] by simp
    show "map (\<lambda>op. dop_delivery op) ops ! k = ?ds ! k" if "k < length (map (\<lambda>op. dop_delivery op) ops)" for k
    proof -
      have "k < length ops" using that by simp
      from list_all2_nthD2 [OF M this] obtain o' where "delivery_operation_of db (?ds ! k) o' = ops ! k" by auto
      from arg_cong [OF this, of dop_delivery] show ?thesis using that by simp
    qed
  qed
  then have "map (\<lambda>op. dlv_id (dop_delivery op)) ops = map dlv_id ?ds"
    by (auto dest: arg_cong [where f = "map dlv_id"] simp: o_def)
  moreover have "distinct (map dlv_id (filter (\<lambda>d. dlv_id d \<in> set ids) (deliveries db)))"
    using assms(2) by (simp add: distinct_map_filter)
  then have "distinct (map dlv_id ?ds)" by (simp add: distinct_map)
  ultimately show ?thesis by simp
qed

section \<open>The status file\<close>

lemma parsed_ids:
  "parse_commands n seen vs = Inr cs \<Longrightarrow> distinct (map cc_deliveryId cs) \<and> set (map cc_deliveryId cs) \<inter> set seen = {}"
proof (induction vs arbitrary: n seen cs)
  case (Cons v vs)
  from Cons.prems obtain c cs0 where c: "parse_command n seen v = Inr c" and
    r: "parse_commands (n + 1) (cc_deliveryId c # seen) vs = Inr cs0" and cs: "cs = c # cs0" by auto
  have "cc_deliveryId c \<notin> set seen" using c by (auto simp: parse_command_def Let_def)
  then show ?case using Cons.IH [OF r] by (auto simp: cs)
qed simp

lemma parsed_file_ids: "parseDeliveryStatusCsv b s = Inr cs \<Longrightarrow> distinct (map cc_deliveryId cs)"
  by (auto simp: parseDeliveryStatusCsv_def dest: parsed_ids)

lemma by_id_Some: "by_id ops did = Some op \<Longrightarrow> dlv_id (dop_delivery op) = did \<and> op \<in> set ops"
  using find_SomeD [of _ ops op] by (auto simp: by_id_def)

definition row_applied :: "'a delivery_db_scheme \<Rightarrow> 'a delivery_db_scheme \<Rightarrow> import_row \<Rightarrow> bool" where
  "row_applied db db' r =
     (\<exists>d. find_delivery db (ir_deliveryId r) = Some d
        \<and> find_delivery db' (ir_deliveryId r)
            = Some (d\<lparr> dlv_status := ir_targetStatus r, dlv_version := dlv_version d + 1 \<rparr>))"

lemma verdict_simps [simp]:
  "ir_deliveryId (validateImportCommand c f) = cc_deliveryId c" "ir_targetStatus (validateImportCommand c f) = cc_targetStatus c"
  by (simp_all add: validateImportCommand_def Let_def)

lemma import_commands_applied:
  fixes db db' :: "'a delivery_db_scheme"
  assumes run: "foldE (import_command e ops) cs db = Inr db'" and ids: "distinct (map cc_deliveryId cs)"
    and d: "distinct (map dlv_id (deliveries db))"
  shows "list_all (row_applied db db') (map (\<lambda>c. validateImportCommand c (by_id ops (cc_deliveryId c))) cs)"
proof -
  let ?op = "\<lambda>c. the (by_id ops (cc_deliveryId c))"
  have some: "\<exists>op. by_id ops (cc_deliveryId c) = Some op" if "c \<in> set cs" for c
    using that run
  proof (induction cs arbitrary: db)
    case (Cons b cs)
    then show ?case by (auto simp: import_command_def)
  qed simp
  have id: "dlv_id (dop_delivery (?op c)) = cc_deliveryId c" if "c \<in> set cs" for c
    using some [OF that] by (auto dest: by_id_Some)
  have "distinct (map (\<lambda>c. dlv_id (dop_delivery (?op c))) cs)"
    using ids id by (simp cong: map_cong)
  moreover have "\<exists>rc nt src act. applyDeliveryTransition e (?op c) (cc_targetStatus c) rc nt src act (\<lambda>x. x) s = Inr s'"
    if "import_command e ops c s = Inr s'" for c and s s' :: "'a delivery_db_scheme"
  proof -
    from that obtain op where "by_id ops (cc_deliveryId c) = Some op" and
      "applyDeliveryTransition e op (cc_targetStatus c) (case cc_reasonCode c of Some r \<Rightarrow> r | None \<Rightarrow> ''CSV_STATUS_IMPORT'')
        (cc_note c) ''MANUAL_CSV'' ''delivery.status.csv_imported'' (\<lambda>x. x) s = Inr s'"
      by (auto simp: import_command_def)
    then show ?thesis by (intro exI) simp
  qed
  ultimately have "\<forall>c\<in>set cs. \<exists>d0. find_delivery db (dlv_id (dop_delivery (?op c))) = Some d0
        \<and> find_delivery db' (dlv_id (dop_delivery (?op c))) = Some (moved_row (cc_targetStatus c) (\<lambda>x. x) d0)"
    using all_applied [OF run _ refl _ d, where op = ?op and e = e and tgt = cc_targetStatus] by blast
  then show ?thesis using id by (auto simp: list_all_iff row_applied_def moved_row_def)
qed

text \<open>What is written besides the deliveries is logs.\<close>

lemma import_tx_applied:
  assumes run: "import_tx e i h cs db = Inr (r, db')" and ids: "distinct (map cc_deliveryId cs)"
    and d: "distinct (map dlv_id (deliveries db))"
  shows "if im_applied r then \<not> imp_dryRun i \<and> list_all ir_valid (im_rows r) \<and> list_all (row_applied db db') (im_rows r)
    else orders db' = orders db \<and> deliveries db' = deliveries db"
proof -
  from run obtain ops where f: "findBulkDeliveries db (map cc_deliveryId cs) = Inr ops" by (auto simp: import_tx_def)
  let ?rows = "map (\<lambda>c. validateImportCommand c (by_id ops (cc_deliveryId c))) cs"
  have "\<exists>db1 row1 si db2 row2 ta. (if \<not> imp_dryRun i \<and> list_all ir_valid ?rows then foldE (import_command e ops) cs db
        else Inr db) = Inr db1 \<and> create_status_import e row1 db1 = Inr (si, db2) \<and> create_audit e row2 db2 = Inr (ta, db')
      \<and> im_rows r = ?rows \<and> im_applied r = (\<not> imp_dryRun i \<and> list_all ir_valid ?rows)"
    using run unfolding import_tx_def f Let_def bindE.simps
    by (clarsimp simp del: delivery_parts split del: if_split) blast
  then obtain db1 row1 si db2 row2 ta where
    w: "(if \<not> imp_dryRun i \<and> list_all ir_valid ?rows then foldE (import_command e ops) cs db else Inr db) = Inr db1" and
    c: "create_status_import e row1 db1 = Inr (si, db2)" and a: "create_audit e row2 db2 = Inr (ta, db')" and
    r: "im_rows r = ?rows" "im_applied r = (\<not> imp_dryRun i \<and> list_all ir_valid ?rows)" by blast
  from c a have same: "orders db' = orders db1" "deliveries db' = deliveries db1" by (auto simp: Let_def)
  have rows: "row_applied db db' = row_applied db db1"
    by (rule ext) (simp add: row_applied_def find_delivery_def same)
  show ?thesis
  proof (cases "im_applied r")
    case True
    with w r have "foldE (import_command e ops) cs db = Inr db1" by (simp split: if_splits)
    from import_commands_applied [OF this ids d] r True show ?thesis by (simp add: rows)
  qed (use w r same in \<open>auto split: if_splits\<close>)
qed

lemma importStatusCsv_fresh:
  assumes "importStatusCsv e i seen db = Inr (a, db')" and "\<not> ia_replayed a"
  obtains cs h where "parseDeliveryStatusCsv False (imp_csv i) = Inr cs" and "import_tx e i h cs db = Inr (ia_result a, db')"
proof -
  have replay: "ia_replayed b" if "replayImport s h = Inr b" for s h b using that by (auto simp: replayImport_def)
  have none: "find_import seen i = None" using assms replay by (auto simp: importStatusCsv_def Let_def split: option.splits)
  with assms obtain cs where cs: "parseDeliveryStatusCsv False (imp_csv i) = Inr cs"
    by (auto simp: importStatusCsv_def Let_def split: sum.splits csv_error.splits)
  show ?thesis
  proof (cases "import_tx e i (sha256 e (imp_csv i)) cs db")
    case (Inl x)
    with assms none cs replay show ?thesis
      by (auto simp: importStatusCsv_def Let_def split: if_splits option.splits)
  next
    case (Inr p)
    with assms none cs that [OF cs] show ?thesis by (auto simp: importStatusCsv_def Let_def split: prod.splits)
  qed
qed

text \<open>What a line of a status file needs to be applied, and what applying it does.\<close>

definition command_ok :: "'a delivery_db_scheme \<Rightarrow> csv_command \<Rightarrow> bool" where
  "command_ok db c =
     (\<exists>d o'. find_delivery db (cc_deliveryId c) = Some d \<and> find_order db (dlv_orderId d) = Some o'
        \<and> dlv_version d = cc_expectedVersion c \<and> dlv_status d = cc_currentStatus c \<and> ord_status o' = dlv_status d
        \<and> canTransitionDelivery (dlv_status d) (cc_targetStatus c)
        \<and> (cc_targetStatus c \<in> COURIER_REQUIRED_TARGETS \<longrightarrow> or_null (dlv_courierId d) \<noteq> None)
        \<and> (cc_targetStatus c \<in> EXPLANATION_REQUIRED_TARGETS
             \<longrightarrow> (\<exists>n. or_null (cc_note c) = Some n \<and> 4 \<le> length (trim n))))"

definition command_applied :: "'a delivery_db_scheme \<Rightarrow> 'a delivery_db_scheme \<Rightarrow> csv_command \<Rightarrow> bool" where
  "command_applied db db' c =
     (\<exists>d. find_delivery db (cc_deliveryId c) = Some d
        \<and> find_delivery db' (cc_deliveryId c)
            = Some (d\<lparr> dlv_status := cc_targetStatus c, dlv_version := dlv_version d + 1 \<rparr>)
        \<and> map_option ord_status (find_order db' (dlv_orderId d)) = Some (cc_targetStatus c))"

lemma mapE_in: "mapE f xs = Inr ys \<Longrightarrow> x \<in> set xs \<Longrightarrow> \<exists>y\<in>set ys. f x = Inr y"
  by (induction xs arbitrary: ys) auto

text \<open>The operation the rows of a file are checked on is the delivery with its order.\<close>

lemma bulk_lookup:
  assumes f: "findBulkDeliveries db ids = Inr ops" and d: "distinct (map dlv_id (deliveries db))" and i: "did \<in> set ids"
  shows "by_id ops did = (case find_delivery db did of None \<Rightarrow> None
      | Some x \<Rightarrow> (case find_order db (dlv_orderId x) of None \<Rightarrow> None | Some o' \<Rightarrow> Some (delivery_operation_of db x o')))
    \<and> (\<forall>x. find_delivery db did = Some x \<longrightarrow> find_order db (dlv_orderId x) \<noteq> None)"
proof -
  let ?g = "\<lambda>d. bindE (some_or (find_order db (dlv_orderId d)) (PrismaError ''INCONSISTENT'')) (\<lambda>o'.
               Inr (delivery_operation_of db d o'))"
  from f have m: "mapE ?g (sort_key dlv_id (filter (\<lambda>d. dlv_id d \<in> set ids) (deliveries db))) = Inr ops"
    by (simp add: findBulkDeliveries_def)
  show ?thesis
  proof (cases "find_delivery db did")
    case None
    have "by_id ops did = None"
    proof (rule ccontr)
      assume "by_id ops did \<noteq> None"
      then obtain op where "by_id ops did = Some op" by blast
      from by_id_Some [OF this] findBulkDeliveries_read(3) [OF f] have "dop_delivery op \<in> set (deliveries db)"
        "dlv_id (dop_delivery op) = did" by auto
      with find_key [OF d, of "dop_delivery op"] None show False by (simp add: find_delivery_def)
    qed
    with None show ?thesis by simp
  next
    case (Some x)
    have x: "x \<in> set (deliveries db)" "dlv_id x = did" using find_SomeD [of _ "deliveries db" x] Some by (auto simp: find_delivery_def)
    with i have "x \<in> set (sort_key dlv_id (filter (\<lambda>d. dlv_id d \<in> set ids) (deliveries db)))" by simp
    from mapE_in [OF m this] obtain o' where o': "find_order db (dlv_orderId x) = Some o'"
      and op: "delivery_operation_of db x o' \<in> set ops" by auto
    have "by_id ops did = Some (delivery_operation_of db x o')"
      using find_key [OF bulk_ids_distinct [OF f d] op] x(2) by (simp add: by_id_def delivery_operation_of_def)
    with Some o' show ?thesis by simp
  qed
qed

lemma if_None_eq: "((if b then Some x else y) = None) = (\<not> b \<and> y = None)"
  by simp

lemma verdict_none: "\<not> ir_valid (validateImportCommand c None)"
  by (simp add: validateImportCommand_def)

lemma note_long: "(\<not> (case n of None \<Rightarrow> True | Some x \<Rightarrow> length (trim x) < 4)) = (\<exists>x. n = Some x \<and> 4 \<le> length (trim x))"
  by (cases n) (simp_all add: not_less)

lemma verdict_some: "ir_valid (validateImportCommand c (Some (delivery_operation_of db d o'))) =
    (dlv_version d = cc_expectedVersion c \<and> dlv_status d = cc_currentStatus c \<and> ord_status o' = dlv_status d
        \<and> canTransitionDelivery (dlv_status d) (cc_targetStatus c)
        \<and> (cc_targetStatus c \<in> COURIER_REQUIRED_TARGETS \<longrightarrow> or_null (dlv_courierId d) \<noteq> None)
        \<and> (cc_targetStatus c \<in> EXPLANATION_REQUIRED_TARGETS
             \<longrightarrow> (\<exists>n. or_null (cc_note c) = Some n \<and> 4 \<le> length (trim n))))"
proof -
  let ?T = "cc_targetStatus c \<in> COURIER_REQUIRED_TARGETS" and ?X = "cc_targetStatus c \<in> EXPLANATION_REQUIRED_TARGETS"
  let ?s = "case or_null (cc_note c) of None \<Rightarrow> True | Some n \<Rightarrow> length (trim n) < 4"
  have "ir_valid (validateImportCommand c (Some (delivery_operation_of db d o'))) =
    (dlv_version d = cc_expectedVersion c \<and> dlv_status d = cc_currentStatus c \<and> ord_status o' = dlv_status d
        \<and> canTransitionDelivery (dlv_status d) (cc_targetStatus c)
        \<and> \<not> (?T \<and> or_null (dlv_courierId d) = None) \<and> \<not> (?X \<and> ?s))"
    unfolding validateImportCommand_def Let_def delivery_operation_of_def option.case delivery_operation.select_convs
      import_row.select_convs
    by (simp only: if_None_eq simp_thms not_not)
  then show ?thesis unfolding note_long [symmetric] by (simp only: de_Morgan_conj not_not imp_conv_disj)
qed

lemma valid_iff_ok:
  assumes f: "findBulkDeliveries db (map cc_deliveryId cs) = Inr ops" and d: "distinct (map dlv_id (deliveries db))"
    and c: "c \<in> set cs"
  shows "ir_valid (validateImportCommand c (by_id ops (cc_deliveryId c))) = command_ok db c"
proof -
  have "cc_deliveryId c \<in> set (map cc_deliveryId cs)" using c by simp
  note b = bulk_lookup [OF f d this]
  show ?thesis
  proof (cases "find_delivery db (cc_deliveryId c)")
    case None
    with b show ?thesis by (simp add: command_ok_def verdict_none)
  next
    case (Some x)
    with b obtain o' where o': "find_order db (dlv_orderId x) = Some o'" by auto
    have "by_id ops (cc_deliveryId c) = Some (delivery_operation_of db x o')" using b Some o' by simp
    then show ?thesis by (simp add: verdict_some command_ok_def Some o')
  qed
qed

lemma import_tx_exact:
  assumes run: "import_tx e i h cs db = Inr (r, db')" and d: "distinct (map dlv_id (deliveries db))"
  shows "im_applied r = (\<not> imp_dryRun i \<and> list_all (command_ok db) cs)" and "im_valid r = list_all (command_ok db) cs"
    and "map ir_deliveryId (im_rows r) = map cc_deliveryId cs" and "map ir_valid (im_rows r) = map (command_ok db) cs"
    and "map ir_targetStatus (im_rows r) = map cc_targetStatus cs"
proof -
  from run obtain ops where f: "findBulkDeliveries db (map cc_deliveryId cs) = Inr ops" by (auto simp: import_tx_def)
  let ?rows = "map (\<lambda>c. validateImportCommand c (by_id ops (cc_deliveryId c))) cs"
  have r: "im_rows r = ?rows \<and> im_applied r = (\<not> imp_dryRun i \<and> list_all ir_valid ?rows) \<and> im_valid r = list_all ir_valid ?rows"
    using run unfolding import_tx_def f Let_def bindE.simps by (auto simp del: delivery_parts split del: if_split)
  have v: "map ir_valid ?rows = map (command_ok db) cs" using valid_iff_ok [OF f d] by simp
  have "list_all ir_valid ?rows = list_all id (map ir_valid ?rows)" by (simp add: list_all_iff)
  also have "\<dots> = list_all (command_ok db) cs" unfolding v by (simp add: list_all_iff)
  finally show "im_applied r = (\<not> imp_dryRun i \<and> list_all (command_ok db) cs)" "im_valid r = list_all (command_ok db) cs"
    using r by simp_all
  show "map ir_valid (im_rows r) = map (command_ok db) cs" using r v by simp
  show "map ir_deliveryId (im_rows r) = map cc_deliveryId cs" "map ir_targetStatus (im_rows r) = map cc_targetStatus cs"
    using r by simp_all
qed

lemma order_kept:
  assumes "delivery_frame db db'" and "find_order db oid = Some o'"
  shows "\<exists>o2. find_order db' oid = Some o2"
proof -
  have o': "o' \<in> set (orders db)" "ord_id o' = oid" using find_order_id [OF assms(2)] by simp_all
  have "orders_progress (orders db) (orders db')" using assms(1) by (simp add: delivery_frame_def)
  with o' obtain o2 where o2: "o2 \<in> set (orders db')" "ord_id o2 = oid" by (auto simp: orders_progress_def)
  then have "List.find (\<lambda>x. ord_id x = oid) (orders db') \<noteq> None" by (auto simp: find_None_iff)
  then show ?thesis by (simp add: find_order_def)
qed

lemma in_step_status:
  assumes "in_step db" and "find_order db oid = Some o'" and "find_delivery db did = Some d" and "dlv_orderId d = oid"
  shows "ord_status o' = dlv_status d"
proof -
  have "d \<in> set (deliveries db)" using find_SomeD assms(3) by (fastforce simp: find_delivery_def)
  moreover have "o' \<in> set (orders db)" "ord_id o' = oid" using find_order_id [OF assms(2)] by simp_all
  ultimately show ?thesis using assms(1,4) by (simp add: in_step_def)
qed

lemma import_exact:
  assumes run: "importStatusCsv e i seen db = Inr (a, db')" and new: "\<not> ia_replayed a" and st: "in_step db"
  shows "\<exists>cs. parseDeliveryStatusCsv False (imp_csv i) = Inr cs
    \<and> map ir_deliveryId (im_rows (ia_result a)) = map cc_deliveryId cs
    \<and> map ir_valid (im_rows (ia_result a)) = map (command_ok db) cs
    \<and> im_applied (ia_result a) = (\<not> imp_dryRun i \<and> list_all (command_ok db) cs)
    \<and> (if im_applied (ia_result a) then list_all (command_applied db db') cs
       else orders db' = orders db \<and> deliveries db' = deliveries db)"
  using run new
proof (rule importStatusCsv_fresh)
  fix cs h assume cs: "parseDeliveryStatusCsv False (imp_csv i) = Inr cs" and t: "import_tx e i h cs db = Inr (ia_result a, db')"
  have d: "distinct (map dlv_id (deliveries db))" using st by (simp add: in_step_def)
  note E = import_tx_exact [OF t d] and A = import_tx_applied [OF t parsed_file_ids [OF cs] d]
  have frame: "delivery_frame db db'" by (rule importStatusCsv_frame [OF run])
  have "list_all (command_applied db db') cs" if ap: "im_applied (ia_result a)"
    unfolding list_all_iff
  proof
    fix c assume c: "c \<in> set cs"
    from A ap have rows: "list_all (row_applied db db') (im_rows (ia_result a))" by simp
    from c obtain k where k: "k < length cs" "c = cs ! k" by (auto simp: in_set_conv_nth)
    have len: "length (im_rows (ia_result a)) = length cs" using arg_cong [OF E(3), of length] by simp
    have row: "ir_deliveryId (im_rows (ia_result a) ! k) = cc_deliveryId c" "ir_targetStatus (im_rows (ia_result a) ! k) = cc_targetStatus c"
      using arg_cong [OF E(3), of "\<lambda>z. z ! k"] arg_cong [OF E(5), of "\<lambda>z. z ! k"] k len by simp_all
    have "row_applied db db' (im_rows (ia_result a) ! k)" using rows k(1) len by (simp add: list_all_length)
    then obtain x where x: "find_delivery db (cc_deliveryId c) = Some x" "find_delivery db' (cc_deliveryId c)
        = Some (x\<lparr> dlv_status := cc_targetStatus c, dlv_version := dlv_version x + 1 \<rparr>)"
      by (auto simp: row_applied_def row)
    from E(1) ap c have "command_ok db c" by (simp add: list_all_iff)
    with x(1) obtain o' where o': "find_order db (dlv_orderId x) = Some o'" by (auto simp: command_ok_def)
    have st': "in_step db'" using frame st by (simp add: delivery_frame_def)
    obtain o2 where o2: "find_order db' (dlv_orderId x) = Some o2" using order_kept [OF frame o'] by blast
    have "ord_status o2 = dlv_status (x\<lparr> dlv_status := cc_targetStatus c, dlv_version := dlv_version x + 1 \<rparr>)"
      by (rule in_step_status [OF st' o2 x(2)]) simp
    then have "ord_status o2 = cc_targetStatus c" by simp
    with x o2 show "command_applied db db' c" by (simp add: command_applied_def)
  qed
  moreover have "orders db' = orders db \<and> deliveries db' = deliveries db" if "\<not> im_applied (ia_result a)"
    using A that by simp
  ultimately have "if im_applied (ia_result a) then list_all (command_applied db db') cs
       else orders db' = orders db \<and> deliveries db' = deliveries db" by (cases "im_applied (ia_result a)") simp_all
  with cs E(1,3,4) show ?thesis by blast
qed

section \<open>Handing a manifest over\<close>

text \<open>The row of a delivery that has just been handed to its courier.\<close>

definition handed_over :: "env \<Rightarrow> delivery \<Rightarrow> delivery" where
  "handed_over e = moved_row HANDED_TO_COURIER (\<lambda>x. x\<lparr> dlv_handedToCourierAt := Some (now e) \<rparr>)"

lemma handover_effect:
  assumes run: "transitionManifest e mid i db = Inr (v, db')" and t: "mt_targetStatus i = MF_HANDED_OVER"
    and d: "distinct (map dlv_id (deliveries db))"
  shows "\<exists>m. find_manifest db mid = Some m \<and> items_of_manifest db mid \<noteq> []
    \<and> (\<forall>x\<in>set (items_of_manifest db mid). \<exists>d. find_delivery db (mi_deliveryId x) = Some d
         \<and> dlv_courierId d = Some (mf_courierId m) \<and> dlv_status d = ASSIGNED_TO_COURIER
         \<and> find_delivery db' (mi_deliveryId x) = Some (handed_over e d))"
proof -
  obtain m ops db1 db2 row a where m: "find_manifest db mid = Some m" and
    ops: "findBulkDeliveries db (map mi_deliveryId (items_of_manifest db mid)) = Inr ops" and
    len: "items_of_manifest db mid \<noteq> []" "length ops = length (items_of_manifest db mid)" and
    mt: "manifest_target e m MF_HANDED_OVER ops db = Inr db1" and
    s: "set_manifest e mid i db1 = Inr db2" and a: "create_audit e row db2 = Inr (a, db')"
    using run t by (auto simp: transitionManifest_def Let_def simp del: delivery_parts)
  from mt have as: "assertManifestAssignedDeliveries ops (mf_courierId m) = Inr ()" and
    h: "foldE (hand_over e) ops db = Inr db1" by (auto simp: manifest_target_def)
  have same: "deliveries db' = deliveries db1" using s a by (auto simp: set_manifest_def Let_def)
  have "\<exists>rc nt src act. applyDeliveryTransition e op HANDED_TO_COURIER rc nt src act
      (\<lambda>x. x\<lparr> dlv_handedToCourierAt := Some (now e) \<rparr>) s = Inr s'"
    if "hand_over e op s = Inr s'" for op and s s' :: "'a delivery_db_scheme"
    using that unfolding hand_over_def by blast
  from all_applied [OF h this _ bulk_ids_distinct [OF ops d] d]
  have moved: "\<exists>d0. find_delivery db (dlv_id (dop_delivery op)) = Some d0
      \<and> find_delivery db1 (dlv_id (dop_delivery op)) = Some (handed_over e d0)" if "op \<in> set ops" for op
    using that by (auto simp: handed_over_def)
  let ?ids = "map mi_deliveryId (items_of_manifest db mid)"
  have "set (map (\<lambda>op. dlv_id (dop_delivery op)) ops) \<subseteq> set ?ids" using findBulkDeliveries_read(2) [OF ops] by auto
  moreover have "length (map (\<lambda>op. dlv_id (dop_delivery op)) ops) = length ?ids" using len by simp
  ultimately have all: "set (map (\<lambda>op. dlv_id (dop_delivery op)) ops) = set ?ids"
    using bulk_ids_distinct [OF ops d] by (metis card_length card_subset_eq distinct_card List.finite_set card_mono order_antisym)
  show ?thesis
  proof (intro exI [of _ m] conjI ballI)
    fix x assume "x \<in> set (items_of_manifest db mid)"
    then have "mi_deliveryId x \<in> set (map (\<lambda>op. dlv_id (dop_delivery op)) ops)" unfolding all by simp
    then obtain op where op: "op \<in> set ops" "mi_deliveryId x = dlv_id (dop_delivery op)" by auto
    have "find_delivery db (dlv_id (dop_delivery op)) = Some (dop_delivery op)"
      using find_key [OF d findBulkDeliveries_read(3) [OF ops op(1)]] by (simp add: find_delivery_def)
    then show "\<exists>d. find_delivery db (mi_deliveryId x) = Some d \<and> dlv_courierId d = Some (mf_courierId m)
        \<and> dlv_status d = ASSIGNED_TO_COURIER \<and> find_delivery db' (mi_deliveryId x) = Some (handed_over e d)"
      using moved [OF op(1)] as op by (simp add: assigned_Inr find_delivery_def same)
  qed (use m len in simp_all)
qed

section \<open>Manifests in every run\<close>

lemma delivery_step_manifests:
  assumes "delivery_step e db db'" and "manifests_ok db"
  shows "manifests_ok db'"
  using assms(1)
proof cases
  case manifest_created
  then show ?thesis by (rule createManifest_ok [OF _ assms(2)])
next
  case manifest_moved
  then show ?thesis by (rule transitionManifest_ok [OF _ assms(2)])
qed (use assms(2) in \<open>auto dest!: manifest_frames manifests_ok_same\<close>)

lemma shop_step_manifests:
  assumes "shop_step e db db'" and "orders_inv (now e) db" and ok: "manifests_ok db"
  shows "manifests_ok db'"
  using assms(1)
proof cases
  case of_stock
  from manifests_ok_same [OF more_same_manifests(1) [OF stock_step_more [OF this]]] ok show ?thesis by simp
next
  case of_orders
  from manifests_ok_same [OF more_same_manifests(2) [OF order_step_more [OF this assms(2)]]] ok show ?thesis by simp
next
  case of_cash
  then have "cash_db.more db' = cash_db.more db" using cash_step_frame by (auto simp: cash_frame_def)
  from manifests_ok_same [OF more_same_manifests(3) [OF this]] ok show ?thesis by simp
next
  case of_deliveries
  then show ?thesis by (rule delivery_step_manifests [OF _ ok])
next
  case of_carts
  from manifests_ok_same [OF more_same_manifests(2)] cart_frame_same [OF cart_step_frame [OF this]] ok
  show ?thesis by blast
qed

lemma shop_run_manifests:
  assumes "shop_run t db t' db'" and "orders_inv t db" and "manifests_ok db"
  shows "manifests_ok db'"
  using assms
proof induction
  case start
  then show ?case by simp
next
  case (request u db1 e db2)
  have "orders_inv u db1" using shop_run_keeps [OF request.hyps(1) request.prems(1)] by blast
  from orders_inv_later [OF this request.hyps(2)] show ?case using shop_step_manifests [OF request.hyps(3)] request by blast
qed

section \<open>Properties\<close>

text \<open>Property C36 (completion_needs_age_and_cash): a delivery is completed only when its recipient's age has
  been verified where that is required and never failed before, and when the cash expected on delivery,
  if any, has been recorded to the millime; delivery and order are then both delivered.\<close>

theorem completion_needs_age_and_cash:
  assumes "delivery_complete e did v age db = Inr (r, db')"
  shows "\<exists>d o'. find_delivery db did = Some d \<and> find_order db (dlv_orderId d) = Some o'
    \<and> \<not> age_failure_recorded db did \<and> (dlv_ageVerificationRequired d \<longrightarrow> age = AGE_PASSED)
    \<and> (0 < ord_expectedCodMillimes o' \<longrightarrow>
         sum_by (settled_worth db) (delivery_cash db did) = ord_expectedCodMillimes o'
         \<and> ord_paymentStatus o' \<in> {CASH_COLLECTED_BY_COURIER, CASH_COLLECTED_AT_STORE, CASH_REMITTED})
    \<and> map_option dlv_status (find_delivery db' did) = Some DELIVERED
    \<and> map_option ord_status (find_order db' (dlv_orderId d)) = Some DELIVERED"
  by (rule completion_evidence [OF assms])

lemma completion_needs_age_and_cash_witness:
  "\<exists>(db :: delivery_db) db' r d o'. delivery_complete (cash_env ''u1'' 1001) ''d1'' 2 AGE_PASSED db = Inr (r, db')
     \<and> find_delivery db ''d1'' = Some d \<and> find_order db (dlv_orderId d) = Some o'
     \<and> map_option ord_status (find_order db' (dlv_orderId d)) = Some DELIVERED"
proof -
  from desk_completed_evaluated obtain r db' where "desk_completed = Inr (r, db')" by (auto split: sum.splits)
  then obtain db :: delivery_db where "delivery_complete (cash_env ''u1'' 1001) ''d1'' 2 AGE_PASSED db = Inr (r, db')"
    by (auto simp: desk_completed_def)
  from completion_needs_age_and_cash [OF this] this show ?thesis by blast
qed

section \<open>A manifest and a status file\<close>

definition parcel_manifest :: manifest where
  "parcel_manifest = \<lparr> mf_id = ''m1'', mf_number = ''MNF-1'', mf_courierId = ''k1'', mf_status = MF_SEALED,
     mf_manifestDate = 0, mf_createdBy = ''u1'', mf_sealedAt = Some 900, mf_handedOverAt = None, mf_closedAt = None \<rparr>"

definition parcel_desk :: delivery_db where
  "parcel_desk = delivery_desk\<lparr>
     orders := [placed_order\<lparr> ord_status := ASSIGNED_TO_COURIER, ord_methodType := COURIER \<rparr>],
     deliveries := [placed_delivery\<lparr> dlv_status := ASSIGNED_TO_COURIER, dlv_courierId := Some ''k1'' \<rparr>],
     manifests := [parcel_manifest],
     manifest_items := [\<lparr> mi_manifestId = ''m1'', mi_deliveryId = ''d1'', mi_sequence = 1 \<rparr>] \<rparr>"

definition parcel_handover :: manifest_transition where
  "parcel_handover = \<lparr> mt_expectedStatus = MF_SEALED, mt_targetStatus = MF_HANDED_OVER, mt_reason = None \<rparr>"

definition parcel_row :: csv_export_row where
  "parcel_row = \<lparr> ce_deliveryId = ''d1'', ce_expectedVersion = 1, ce_currentStatus = ASSIGNED_TO_COURIER,
     ce_orderNumber = ''TV-1'', ce_trackingNumber = None, ce_courierCode = Some ''K'',
     ce_expectedCodMillimes = 44625, ce_ageVerificationRequired = True, ce_updatedAt = ''2025'' \<rparr>"

definition parcel_import :: import_input where
  "parcel_import = \<lparr> imp_importKey = ''import-1'', imp_dryRun = False,
     imp_csv = returned_file [(parcel_row, HANDED_TO_COURIER)] \<rparr>"

text \<open>One evaluation, taken apart below.\<close>

lemma parcel_desk_evaluated:
  "stock_inv (now shop_env) parcel_desk
   \<and> in_step parcel_desk
   \<and> (case transitionManifest (cash_env ''u1'' 1000) ''m1'' parcel_handover parcel_desk of
     Inr (v, db) \<Rightarrow> map mf_status (manifests db) = [MF_HANDED_OVER] | Inl x \<Rightarrow> False)
   \<and> (case importStatusCsv (cash_env ''u1'' 1000) parcel_import parcel_desk parcel_desk of
     Inr (a, db) \<Rightarrow> \<not> ia_replayed a \<and> im_applied (ia_result a) \<and> map ir_deliveryId (im_rows (ia_result a)) = [''d1'']
       \<and> map ir_targetStatus (im_rows (ia_result a)) = [HANDED_TO_COURIER]
       \<and> map dlv_handedToCourierAt (deliveries db) = [None]
   | Inl x \<Rightarrow> False)
   \<and> (case importStatusCsv (cash_env ''u1'' 1000) parcel_import parcel_desk parcel_desk of
     Inl x \<Rightarrow> False | Inr (a, db1) \<Rightarrow> (case transitionManifest (cash_env ''u1'' 1000) ''m1'' parcel_handover parcel_desk of
     Inl x \<Rightarrow> False | Inr (v, db2) \<Rightarrow> map dlv_status (deliveries db1) = [HANDED_TO_COURIER]
       \<and> map dlv_status (deliveries db2) = [HANDED_TO_COURIER]
       \<and> map dlv_handedToCourierAt (deliveries db1) = [None]
       \<and> map dlv_handedToCourierAt (deliveries db2) = [Some (now (cash_env ''u1'' 1000))]))"
  by code_simp

lemma parcel_desk_ok: "stock_inv (now shop_env) parcel_desk" "in_step parcel_desk"
  using parcel_desk_evaluated by - (elim conjE, assumption)+

lemma parcel_desk_handed_over:
  "case transitionManifest (cash_env ''u1'' 1000) ''m1'' parcel_handover parcel_desk of
     Inr (v, db) \<Rightarrow> map mf_status (manifests db) = [MF_HANDED_OVER] | Inl x \<Rightarrow> False"
  using parcel_desk_evaluated by (elim conjE)

lemma parcel_desk_imported:
  "case importStatusCsv (cash_env ''u1'' 1000) parcel_import parcel_desk parcel_desk of
     Inr (a, db) \<Rightarrow> \<not> ia_replayed a \<and> im_applied (ia_result a) \<and> map ir_deliveryId (im_rows (ia_result a)) = [''d1'']
       \<and> map ir_targetStatus (im_rows (ia_result a)) = [HANDED_TO_COURIER]
       \<and> map dlv_handedToCourierAt (deliveries db) = [None]
   | Inl x \<Rightarrow> False"
  using parcel_desk_evaluated by (elim conjE)

lemma parcel_manifests_ok: "manifests_ok parcel_desk"
proof -
  have "length (filter (open_manifest_item parcel_desk did) (manifest_items parcel_desk)) \<le> 1" for did
    by (rule order_trans [OF length_filter_le]) (simp add: parcel_desk_def)
  moreover have "list_all (\<lambda>i. mi_manifestId i \<in> mf_id ` set (manifests parcel_desk)) (manifest_items parcel_desk)"
    by (simp add: parcel_desk_def parcel_manifest_def)
  ultimately show ?thesis by (simp add: manifests_ok_def count_where_def)
qed

lemma parcel_desk_run:
  obtains v db' where "transitionManifest (cash_env ''u1'' 1000) ''m1'' parcel_handover parcel_desk = Inr (v, db')"
    and "shop_run (now shop_env) parcel_desk (now (cash_env ''u1'' 1000)) db'"
proof -
  obtain v db' where t: "transitionManifest (cash_env ''u1'' 1000) ''m1'' parcel_handover parcel_desk = Inr (v, db')"
    using parcel_desk_handed_over by (auto split: sum.splits)
  from delivery_step.manifest_moved [OF t] have "shop_step (cash_env ''u1'' 1000) parcel_desk db'"
    by (rule shop_step.of_deliveries)
  from shop_run.request [OF shop_run.start _ this, of "now shop_env"] have
    "shop_run (now shop_env) parcel_desk (now (cash_env ''u1'' 1000)) db'" by (simp add: desk_time)
  with t that show thesis by blast
qed

lemma parcel_import_run:
  obtains a db' where "importStatusCsv (cash_env ''u1'' 1000) parcel_import parcel_desk parcel_desk = Inr (a, db')"
    and "\<not> ia_replayed a" and "im_applied (ia_result a)" and "dlv_handedToCourierAt (hd (deliveries db')) = None"
    and "map ir_deliveryId (im_rows (ia_result a)) = [''d1'']"
proof -
  note E = parcel_desk_imported
  from E obtain a db' where i: "importStatusCsv (cash_env ''u1'' 1000) parcel_import parcel_desk parcel_desk = Inr (a, db')"
    by (auto split: sum.splits)
  have "map dlv_handedToCourierAt (deliveries db') = [None]" using E i by simp
  then have "dlv_handedToCourierAt (hd (deliveries db')) = None" by (cases "deliveries db'") auto
  with i E that show thesis by simp
qed

text \<open>Property C39 (one_open_manifest): whatever requests are answered in whatever order, no parcel ever lies on
  two manifests that are not closed or cancelled.\<close>

theorem one_open_manifest:
  fixes db db' :: "'a delivery_db_scheme"
  assumes "shop_run t db t' db'" and "stock_inv t db" and "in_step db" and "manifests_ok db"
  shows "length (filter (open_manifest_item db' did) (manifest_items db')) \<le> 1"
  using shop_run_manifests [OF assms(1) _ assms(4)] assms(2,3)
  by (auto simp: orders_inv_def manifests_ok_def count_where_def)

lemma one_open_manifest_witness:
  "\<exists>v (db' :: delivery_db). transitionManifest (cash_env ''u1'' 1000) ''m1'' parcel_handover parcel_desk = Inr (v, db')
     \<and> length (filter (open_manifest_item db' ''d1'') (manifest_items db')) \<le> 1"
proof (rule parcel_desk_run)
  fix v and db' :: delivery_db
  assume t: "transitionManifest (cash_env ''u1'' 1000) ''m1'' parcel_handover parcel_desk = Inr (v, db')"
    and r: "shop_run (now shop_env) parcel_desk (now (cash_env ''u1'' 1000)) db'"
  from one_open_manifest [OF r parcel_desk_ok parcel_manifests_ok] t show ?thesis by blast
qed

text \<open>Property C38 (handover_moves_every_parcel): when a manifest is handed over, every parcel on it was assigned
  to the manifest's courier, and every one of them is handed to that courier, with the time; none is
  left behind.\<close>

theorem handover_moves_every_parcel:
  assumes "transitionManifest e mid i db = Inr (v, db')" and "mt_targetStatus i = MF_HANDED_OVER" and "in_step db"
  shows "\<exists>m. find_manifest db mid = Some m \<and> items_of_manifest db mid \<noteq> []
    \<and> (\<forall>x\<in>set (items_of_manifest db mid). \<exists>d. find_delivery db (mi_deliveryId x) = Some d
         \<and> dlv_courierId d = Some (mf_courierId m) \<and> dlv_status d = ASSIGNED_TO_COURIER
         \<and> find_delivery db' (mi_deliveryId x) = Some (handed_over e d))"
  using handover_effect [OF assms(1,2)] assms(3) by (simp add: in_step_def)

lemma handover_moves_every_parcel_witness:
  "\<exists>v (db' :: delivery_db). transitionManifest (cash_env ''u1'' 1000) ''m1'' parcel_handover parcel_desk = Inr (v, db')
     \<and> (\<exists>m. find_manifest parcel_desk ''m1'' = Some m \<and> items_of_manifest parcel_desk ''m1'' \<noteq> [])"
proof (rule parcel_desk_run)
  fix v and db' :: delivery_db
  assume t: "transitionManifest (cash_env ''u1'' 1000) ''m1'' parcel_handover parcel_desk = Inr (v, db')"
  have "mt_targetStatus parcel_handover = MF_HANDED_OVER" by (simp add: parcel_handover_def)
  from handover_moves_every_parcel [OF t this parcel_desk_ok(2)] t show ?thesis by blast
qed

text \<open>Property C37 (import_all_or_nothing): a status file that has not been seen before is read in full, and the
  answer has one row for each of its lines, valid exactly when the delivery is known, has the version and status of
  the line (as has its order), may be moved to the target, and has the courier and the explanation the target asks for.
  The file is applied exactly when all lines are valid and it is no dry run: then every delivery it names, and its
  order, has its target status; otherwise no order and no delivery is touched.\<close>

theorem import_all_or_nothing:
  assumes "importStatusCsv e i seen db = Inr (a, db')" and "\<not> ia_replayed a" and "in_step db"
  shows "\<exists>cs. parseDeliveryStatusCsv False (imp_csv i) = Inr cs
    \<and> map ir_deliveryId (im_rows (ia_result a)) = map cc_deliveryId cs
    \<and> map ir_valid (im_rows (ia_result a)) = map (command_ok db) cs
    \<and> im_applied (ia_result a) = (\<not> imp_dryRun i \<and> list_all (command_ok db) cs)
    \<and> (if im_applied (ia_result a) then list_all (command_applied db db') cs
       else orders db' = orders db \<and> deliveries db' = deliveries db)"
  by (rule import_exact [OF assms])

lemma import_all_or_nothing_witness:
  "\<exists>a cs (db' :: delivery_db). importStatusCsv (cash_env ''u1'' 1000) parcel_import parcel_desk parcel_desk = Inr (a, db')
     \<and> map cc_deliveryId cs = [''d1''] \<and> list_all (command_ok parcel_desk) cs \<and> list_all (command_applied parcel_desk db') cs"
proof (rule parcel_import_run)
  fix a and db' :: delivery_db
  assume i: "importStatusCsv (cash_env ''u1'' 1000) parcel_import parcel_desk parcel_desk = Inr (a, db')"
    and r: "\<not> ia_replayed a" and p: "im_applied (ia_result a)" and ids: "map ir_deliveryId (im_rows (ia_result a)) = [''d1'']"
  from import_all_or_nothing [OF i r parcel_desk_ok(2)] obtain cs where
    c: "map ir_deliveryId (im_rows (ia_result a)) = map cc_deliveryId cs"
    and ap: "im_applied (ia_result a) = (\<not> imp_dryRun parcel_import \<and> list_all (command_ok parcel_desk) cs)"
    and all: "if im_applied (ia_result a) then list_all (command_applied parcel_desk db') cs
       else orders db' = orders parcel_desk \<and> deliveries db' = deliveries parcel_desk" by blast
  have "list_all (command_ok parcel_desk) cs" using ap p by blast
  moreover have "list_all (command_applied parcel_desk db') cs" using all p by simp
  ultimately show ?thesis using i c ids by (intro exI [of _ a] exI [of _ cs] exI [of _ db'] conjI) simp_all
qed

text \<open>
  The status file and the courier's own handover write different rows: a parcel handed over by a
  manifest has the time of its handover, one whose new status comes from a file has none.
\<close>

lemma handover_times_differ:
  "\<exists>a v (db1 :: delivery_db) db2. importStatusCsv (cash_env ''u1'' 1000) parcel_import parcel_desk parcel_desk = Inr (a, db1)
     \<and> transitionManifest (cash_env ''u1'' 1000) ''m1'' parcel_handover parcel_desk = Inr (v, db2)
     \<and> map dlv_status (deliveries db1) = [HANDED_TO_COURIER] \<and> map dlv_status (deliveries db2) = [HANDED_TO_COURIER]
     \<and> map dlv_handedToCourierAt (deliveries db1) = [None]
     \<and> map dlv_handedToCourierAt (deliveries db2) = [Some (now (cash_env ''u1'' 1000))]"
proof -
  have "case importStatusCsv (cash_env ''u1'' 1000) parcel_import parcel_desk parcel_desk of
     Inl x \<Rightarrow> False | Inr (a, db1) \<Rightarrow> (case transitionManifest (cash_env ''u1'' 1000) ''m1'' parcel_handover parcel_desk of
     Inl x \<Rightarrow> False | Inr (v, db2) \<Rightarrow> map dlv_status (deliveries db1) = [HANDED_TO_COURIER]
       \<and> map dlv_status (deliveries db2) = [HANDED_TO_COURIER]
       \<and> map dlv_handedToCourierAt (deliveries db1) = [None]
       \<and> map dlv_handedToCourierAt (deliveries db2) = [Some (now (cash_env ''u1'' 1000))])"
    using parcel_desk_evaluated by (elim conjE)
  then show ?thesis
    by (cases "transitionManifest (cash_env ''u1'' 1000) ''m1'' parcel_handover parcel_desk") (auto split: sum.splits)
qed

end
