(* ===== verification/WorkerDemo.thy ===== *)
theory WorkerDemo
  imports NotificationWorker DeliveryDemo
begin

text \<open>
  The concrete inputs of the witnesses about the worker: the shop with one placed order, an event that
  expires its reservations and an event that dispatches a notification on its only attempt.
\<close>

definition demo_worker :: worker_env where
  "demo_worker = \<lparr> WORKER_INSTANCE_ID = ''w1'', OUTBOX_BATCH_SIZE = 10, OUTBOX_LEASE_MS = 30000,
     OUTBOX_PUBLISHED_LEASE_MS = 60000, OUTBOX_MAX_ATTEMPTS = 8, OUTBOX_RETRY_BASE_MS = 1000,
     OUTBOX_RETRY_MAX_MS = 60000, RESERVATION_EXPIRY_INTERVAL_MS = 60000, RESERVATION_EXPIRY_BATCH_SIZE = 50,
     NOTIFICATION_BRIDGE_ENABLED = False, json_parse = (\<lambda>_. None), iso_datetime = (\<lambda>_. True),
     date_parse = (\<lambda>_. Some 5500) \<rparr>"

definition expiry_event :: outbox_event where
  "expiry_event = scheduled_event demo_worker ''reservation-expiry:v1:0'' ''Inventory'' ''reservations'' RESERVATION_EXPIRY
     (JObj [(''cutoff'', JStr ''t''), (''batchSize'', JNum 50)]) 5500\<lparr> ob_id := ''x1'' \<rparr>"

definition expiry_job :: outbox_job where
  "expiry_job = \<lparr> job_outboxEventId = ''x1'', job_eventType = RESERVATION_EXPIRY, job_eventVersion = 1 \<rparr>"

definition queued_notification :: notification where
  "queued_notification = \<lparr> nt_id = ''n1'', nt_orderId = None, nt_idempotencyKey = ''k'', nt_event = ORDER_RECEIVED,
     nt_channel = CONSOLE, nt_recipientHash = ''h'', nt_encryptedRecipient = None, nt_locale = ''fr'',
     nt_payload = JObj [], nt_status = NT_QUEUED, nt_scheduledAt = 1000, nt_deliveredAt = None \<rparr>"

definition last_event :: outbox_event where
  "last_event = dispatch_event queued_notification\<lparr> ob_id := ''x2'', ob_maxAttempts := 1 \<rparr>"

definition dispatch_job :: outbox_job where
  "dispatch_job = \<lparr> job_outboxEventId = ''x2'', job_eventType = NOTIFICATION_DISPATCH, job_eventVersion = 1 \<rparr>"

definition worker_shop :: worker_db where
  "worker_shop = delivery_db.extend (placed_system\<lparr> outbox := [expiry_event, last_event], notifications := [queued_notification] \<rparr>)
     (worker_db.fields [])"

definition console_provider :: "notification_channel \<Rightarrow> string" where
  "console_provider c = ''console''"

definition demo_expired :: "((process_outcome \<times> nat) \<times> worker_db) worker_result" where
  "demo_expired = processTransaction (cash_env ''w'' 6000) demo_worker expiry_job worker_shop"

text \<open>The only attempt: claimed, given to the provider, claimed again by another poll, and failed.\<close>

definition demo_claimed :: "outbox_event list \<times> worker_db" where
  "demo_claimed = claimAvailable (cash_env ''w'' 1000) demo_worker worker_shop"

definition demo_sent :: "(notification_claim \<times> worker_db) worker_result" where
  "demo_sent = claimNotification (cash_env ''w'' 1001) demo_worker console_provider dispatch_job (snd demo_claimed)"

text \<open>One evaluation, taken apart below.\<close>

lemma worker_demo_evaluated:
  "stock_inv 6000 worker_shop
   \<and> stock_inv (now shop_env) worker_shop
   \<and> in_step worker_shop
   \<and> (case demo_expired of Inr (r, db) \<Rightarrow> fst r = PROCESSED \<and> snd r = length (reservations worker_shop)
     \<and> snd r \<noteq> 0 | Inl x \<Rightarrow> False)
   \<and> map ob_id (fst demo_claimed) = [''x2''] \<and> list_all (\<lambda>v. ob_maxAttempts v \<le> ob_attemptCount v) (fst demo_claimed)
   \<and> (case demo_sent of Inr (SEND work, db) \<Rightarrow>
     (case finalizeNotificationFailure (cash_env ''w'' 1003) demo_worker work ''TIMEOUT''
             (snd (claimAvailable (cash_env ''w'' 1002) demo_worker db)) of Inr p \<Rightarrow> True | Inl x \<Rightarrow> False)
   | _ \<Rightarrow> False)"
  by code_simp

lemma worker_shop_stock: "stock_inv 6000 worker_shop" "stock_inv (now shop_env) worker_shop"
  using worker_demo_evaluated by - (elim conjE, assumption)+

lemma worker_shop_in_step: "in_step worker_shop"
  using worker_demo_evaluated by (elim conjE)

lemma demo_expired_evaluated:
  "case demo_expired of Inr (r, db) \<Rightarrow> fst r = PROCESSED \<and> snd r = length (reservations worker_shop)
     \<and> snd r \<noteq> 0 | Inl x \<Rightarrow> False"
  using worker_demo_evaluated by (elim conjE)

lemma demo_claimed_evaluated: "map ob_id (fst demo_claimed) = [''x2''] \<and> list_all (\<lambda>v. ob_maxAttempts v \<le> ob_attemptCount v) (fst demo_claimed)"
  using worker_demo_evaluated by (elim conjE, intro conjI)

lemma demo_failed_evaluated:
  "case demo_sent of Inr (SEND work, db) \<Rightarrow>
     (case finalizeNotificationFailure (cash_env ''w'' 1003) demo_worker work ''TIMEOUT''
             (snd (claimAvailable (cash_env ''w'' 1002) demo_worker db)) of Inr p \<Rightarrow> True | Inl x \<Rightarrow> False)
   | _ \<Rightarrow> False"
  using worker_demo_evaluated by (elim conjE)

end
