(* ===== verification/WorkerSpec.thy ===== *)
theory WorkerSpec
  imports LeaseRuns DeliverySpec WorkerDemo
begin

text \<open>
  The worker beside the shop: expiring reservations frees exactly what was due and keeps the stock
  contract, a job is a sequence of the transactions of \<open>worker_step\<close>, and runs of the API and of any
  number of workers together keep what the shop promises.
\<close>

section \<open>Expiring reservations\<close>

lemma expired_row_simps [simp]:
  "res_itemId (expired_row e r) = res_itemId r" "res_quantity (expired_row e r) = res_quantity r"
  "res_id (expired_row e r) = res_id r" "res_state (expired_row e r) = RS_EXPIRED"
  "\<not> active_at t (expired_row e r)" "\<not> due_reservation t (expired_row e r)"
  by (simp_all add: expired_row_def active_at_def due_reservation_def)

lemma expire_reservation_step:
  assumes run: "expire_reservation e eid cutoff its r (n, db) = Inr (n', db')" and inv: "stock_inv t db"
    and its: "set its \<subseteq> set (items db)"
  shows "stock_inv t db'" and "items db' = items db"
    and "reservations db' = update_where (\<lambda>x. res_id x = res_id r \<and> due_reservation cutoff x) (expired_row e) (reservations db)"
    and "n' = (if count_where (\<lambda>x. res_id x = res_id r \<and> due_reservation cutoff x) (reservations db) = 1 then n + 1 else n)"
    and "stock_db.more db' = stock_db.more db"
proof -
  let ?hit = "\<lambda>x. res_id x = res_id r \<and> due_reservation cutoff x"
  let ?db1 = "db\<lparr> reservations := update_where ?hit (expired_row e) (reservations db) \<rparr>"
  from run obtain i where i: "List.find (\<lambda>i. item_id i = res_itemId r) its = Some i"
    and rest: "(if count_where ?hit (reservations db) \<noteq> 1 then Inr (n, ?db1)
            else bindE (thrown (create_movement e (expiry_movement e eid i r) ?db1)) (\<lambda>(_, db2).
              bindE (thrown (create_audit e (expiry_audit e eid r) db2)) (\<lambda>(_, db3). Inr (n + 1, db3)))) = Inr (n', db')"
    unfolding expire_reservation_def by (clarsimp simp: Let_def split: option.splits split del: if_split)
  have inv1: "stock_inv t ?db1" by (rule stock_inv_close [OF inv, of "expired_row e" _ ?hit]) simp_all
  let ?goal = "stock_inv t db' \<and> items db' = items db \<and> reservations db' = reservations ?db1
    \<and> n' = (if count_where ?hit (reservations db) = 1 then n + 1 else n) \<and> stock_db.more db' = stock_db.more db"
  have ?goal
  proof (cases "count_where ?hit (reservations db) = 1")
    case False
    with rest inv1 show ?thesis by auto
  next
    case True
    with rest obtain m where m: "items db' = items db" "reservations db' = reservations ?db1" "n' = n + 1"
      "movements db' = movements db @ [m]" "stock_db.more db' = stock_db.more db"
      "mv_itemId m = item_id i" "mv_delta m = 0" "mv_onHandAfter m = item_onHand i"
      by (auto simp: Let_def expiry_movement_def)
    have "stock_inv t db'"
      by (rule stock_inv_note [OF inv1, of i m]) (use m find_SomeD [OF i] its in auto)
    with m True show ?thesis by simp
  qed
  then show "stock_inv t db'" "items db' = items db" "reservations db' = update_where ?hit (expired_row e) (reservations db)"
    "n' = (if count_where ?hit (reservations db) = 1 then n + 1 else n)" "stock_db.more db' = stock_db.more db" by simp_all
qed

lemma update_where_twice:
  assumes "\<And>x. P x \<Longrightarrow> \<not> Q (f x)"
  shows "update_where Q f (update_where P f t) = update_where (\<lambda>x. P x \<or> Q x) f t"
  using assms by (auto simp: update_where_def)

text \<open>The loop over the rows that were locked.\<close>

lemma expire_all:
  assumes "foldE (expire_reservation e eid cutoff its) rs (n, db) = Inr (n', db')" and "stock_inv t db"
    and "set its \<subseteq> set (items db)"
  shows "stock_inv t db' \<and> items db' = items db \<and> stock_db.more db' = stock_db.more db
    \<and> reservations db' = update_where (\<lambda>x. res_id x \<in> set (map res_id rs) \<and> due_reservation cutoff x) (expired_row e) (reservations db)"
  using assms
proof (induction rs arbitrary: n db)
  case Nil
  then show ?case by simp
next
  case (Cons r rs)
  from Cons.prems(1) obtain n1 db1 where s: "expire_reservation e eid cutoff its r (n, db) = Inr (n1, db1)"
    and rest: "foldE (expire_reservation e eid cutoff its) rs (n1, db1) = Inr (n', db')" by auto
  note S = expire_reservation_step [OF s Cons.prems(2,3)]
  have "set its \<subseteq> set (items db1)" using S(2) Cons.prems(3) by simp
  note IH = Cons.IH [OF rest S(1) this]
  have "update_where (\<lambda>x. res_id x \<in> set (map res_id rs) \<and> due_reservation cutoff x) (expired_row e) (reservations db1)
      = update_where (\<lambda>x. (res_id x = res_id r \<and> due_reservation cutoff x)
           \<or> (res_id x \<in> set (map res_id rs) \<and> due_reservation cutoff x)) (expired_row e) (reservations db)"
    unfolding S(3) by (rule update_where_twice) simp
  also have "\<dots> = update_where (\<lambda>x. res_id x \<in> set (map res_id (r # rs)) \<and> due_reservation cutoff x) (expired_row e) (reservations db)"
    by (rule arg_cong [where f = "\<lambda>P. update_where P _ _"]) auto
  finally show ?case using IH S(2,5) by simp
qed

lemma expire_reservation_items:
  "expire_reservation e eid cutoff its r (n, db) = Inr (n', db') \<Longrightarrow> items db' = items db"
  by (auto simp: expire_reservation_def Let_def split: option.splits if_splits)

lemma expire_due_items:
  assumes "expire_due e eid cutoff batch db = Inr (n, db')"
  shows "items db' = items db"
proof (cases "n = 0 \<and> db' = db")
  case False
  with assms obtain its rs where "foldE (expire_reservation e eid cutoff its) rs (0, db) = Inr (n, db')"
    by (auto simp: expire_due_def Let_def split: if_splits)
  then have "items (snd (n, db')) = items db"
    by (rule foldE_inv [where P = "\<lambda>p. items (snd p) = items db"]) (auto dest: expire_reservation_items)
  then show ?thesis by simp
qed simp

text \<open>With distinct ids every locked row is hit once, and counted.\<close>

lemma expire_all_count:
  assumes "foldE (expire_reservation e eid cutoff its) rs (n, db) = Inr (n', db')" and "stock_inv t db"
    and "set its \<subseteq> set (items db)" and "distinct (map res_id (reservations db))" and "distinct (map res_id rs)"
    and "\<And>r. r \<in> set rs \<Longrightarrow> \<exists>x\<in>set (reservations db). res_id x = res_id r \<and> due_reservation cutoff x"
  shows "n' = n + length rs"
  using assms
proof (induction rs arbitrary: n db)
  case Nil
  then show ?case by simp
next
  case (Cons r rs)
  let ?hit = "\<lambda>x. res_id x = res_id r \<and> due_reservation cutoff x"
  from Cons.prems(1) obtain n1 db1 where s: "expire_reservation e eid cutoff its r (n, db) = Inr (n1, db1)"
    and rest: "foldE (expire_reservation e eid cutoff its) rs (n1, db1) = Inr (n', db')" by auto
  note S = expire_reservation_step [OF s Cons.prems(2,3)]
  have its: "set its \<subseteq> set (items db1)" using S(2) Cons.prems(3) by simp
  have ids: "map res_id (reservations db1) = map res_id (reservations db)"
    unfolding S(3) by (rule map_update_where) simp
  obtain x where x: "x \<in> set (reservations db)" "res_id x = res_id r" "due_reservation cutoff x"
    using Cons.prems(6) [of r] by auto
  have "count_where (\<lambda>y. res_id y = res_id x \<and> due_reservation cutoff y) (reservations db) = 1"
    using count_where_cas [OF Cons.prems(4) x(1), of "due_reservation cutoff"] x(3) by simp
  then have n1: "n1 = n + 1" using S(4) by (simp add: x(2))
  have later: "\<exists>x\<in>set (reservations db1). res_id x = res_id r' \<and> due_reservation cutoff x" if r': "r' \<in> set rs" for r'
  proof -
    from Cons.prems(6) [of r'] r' obtain y where y: "y \<in> set (reservations db)" "res_id y = res_id r'" "due_reservation cutoff y"
      by auto
    have "res_id y \<noteq> res_id r" using Cons.prems(5) r' y(2) by (auto simp: image_iff)
    then have "y \<in> set (reservations db1)" using y(1) by (auto simp: S(3) set_update_where)
    with y show ?thesis by blast
  qed
  from Cons.IH [OF rest S(1) its _ _ later] Cons.prems(4,5) n1 ids show ?case by simp
qed

lemma expire_due_parts:
  assumes run: "expire_due e eid cutoff batch db = Inr (n, db')" and inv: "stock_inv t db"
  obtains locked where
    "locked = take (nat batch) (sort_key by_item (filter (due_reservation cutoff) (reservations db)))"
    and "stock_inv t db'" and "items db' = items db" and "stock_db.more db' = stock_db.more db"
    and "reservations db' = update_where (\<lambda>x. res_id x \<in> set (map res_id locked) \<and> due_reservation cutoff x)
           (expired_row e) (reservations db)"
    and "distinct (map res_id (reservations db)) \<Longrightarrow> n = length locked"
proof -
  define locked where "locked = take (nat batch) (sort_key by_item (filter (due_reservation cutoff) (reservations db)))"
  have sub: "set locked \<subseteq> {r \<in> set (reservations db). due_reservation cutoff r}"
    using set_take_subset [of "nat batch" "sort_key by_item (filter (due_reservation cutoff) (reservations db))"]
    by (auto simp: locked_def)
  show thesis
  proof (cases "locked = []")
    case True
    with run have "n = 0" "db' = db" by (simp_all add: expire_due_def Let_def locked_def [symmetric])
    with True inv show thesis by (intro that [OF locked_def]) auto
  next
    case False
    define rs where "rs = sort_key by_item (filter (\<lambda>r. res_id r \<in> set (map res_id locked) \<and> due_reservation cutoff r) (reservations db))"
    define its where "its = sort_key item_id (filter (\<lambda>i. item_id i \<in> set (sort (remdups (map res_itemId locked)))) (items db))"
    from run False have f: "foldE (expire_reservation e eid cutoff its) rs (0, db) = Inr (n, db')"
      unfolding expire_due_def Let_def locked_def [symmetric] rs_def [symmetric] its_def [symmetric] by auto
    have its: "set its \<subseteq> set (items db)" by (auto simp: its_def)
    note A = expire_all [OF f inv its]
    have "set locked \<subseteq> set rs" using sub by (auto simp: rs_def)
    then have ids: "set (map res_id rs) = set (map res_id locked)" by (auto simp: rs_def)
    have len: "n = length locked" if d: "distinct (map res_id (reservations db))"
    proof -
      have drs: "distinct (map res_id rs)"
        unfolding rs_def distinct_map_sort_key using d by (simp add: distinct_map_filter)
      have "distinct (map res_id (sort_key by_item (filter (due_reservation cutoff) (reservations db))))"
        unfolding distinct_map_sort_key using d by (simp add: distinct_map_filter)
      then have dl: "distinct (map res_id locked)" unfolding locked_def take_map [symmetric] by (rule distinct_take)
      have "n = 0 + length rs"
        by (rule expire_all_count [OF f inv its d drs]) (auto simp: rs_def)
      also have "length rs = length locked"
        using distinct_card [OF drs] distinct_card [OF dl] ids by simp
      finally show ?thesis by simp
    qed
    show thesis
      by (rule that [OF locked_def]) (use A ids len in simp_all)
  qed
qed

lemma stock_tables_of_event [simp]:
  "items (set_event eid f db) = items db" "movements (set_event eid f db) = movements db"
  "reservations (set_event eid f db) = reservations db" "orders (set_event eid f db) = orders db"
  by (simp_all add: set_event_def)

lemma stock_inv_set_event [simp]: "stock_inv t (set_event eid f db) = stock_inv t db"
  by (rule stock_inv_cong) simp_all

text \<open>Expiry as the processor runs it: the event's row is updated before and after.\<close>

lemma expireReservations_cutoff:
  "expireReservations e w eid t batch db = Inr r
     \<Longrightarrow> \<exists>cutoff. date_parse w t = Some cutoff \<and> cutoff \<le> now e + 5000 \<and> expire_due e eid cutoff batch db = Inr r"
  by (auto simp: expireReservations_def not_less split: option.splits)

lemma expiry_processed:
  assumes run: "processTransaction e w job db = Inr ((PROCESSED, n), db')"
    and v: "find_event db (job_outboxEventId job) = Some v" "ob_eventType v = RESERVATION_EXPIRY"
    and inv: "stock_inv (now e) db" and ids: "distinct (map res_id (reservations db))"
  shows "\<exists>t batch cutoff gone. job_event_payload w job v = Inr (ReservationExpiry t batch)
    \<and> date_parse w t = Some cutoff \<and> cutoff \<le> now e + 5000
    \<and> gone = take (nat batch) (sort_key (\<lambda>r. (res_itemId r, res_id r))
        (filter (\<lambda>r. res_state r = RS_ACTIVE \<and> res_expiresAt r \<le> cutoff) (reservations db)))
    \<and> n = length gone
    \<and> reservations db' = map (\<lambda>r. if r \<in> set gone
        then r\<lparr> res_state := RS_EXPIRED, res_activeKey := None, res_releasedAt := Some (now e),
                res_releaseReason := Some ''RESERVATION_EXPIRED'' \<rparr>
        else r) (reservations db)
    \<and> items db' = items db \<and> orders db' = orders db \<and> stock_inv (now e) db'"
  using run
proof (cases rule: processTransaction_Inr)
  case (before v')
  then show ?thesis by (simp add: handled_before_def split: if_splits)
next
  case (now v' p db1)
  have vv: "v' = v" using v now(1) by simp
  from parsed_expiry [OF now(3)] v(2) obtain t batch where p: "p = ReservationExpiry t batch"
    unfolding vv by blast
  let ?d = "set_event (ob_id v) (processing_event e w) db"
  from now(4) have "expireReservations e w (ob_id v) t batch ?d = Inr (n, db1)"
    by (simp add: handle_payload_def p vv)
  from expireReservations_cutoff [OF this] obtain cutoff where cut: "date_parse w t = Some cutoff" "cutoff \<le> env.now e + 5000"
    and x: "expire_due e (ob_id v) cutoff batch ?d = Inr (n, db1)" by blast
  define gone where "gone = take (nat batch) (sort_key (\<lambda>r. (res_itemId r, res_id r))
        (filter (\<lambda>r. res_state r = RS_ACTIVE \<and> res_expiresAt r \<le> cutoff) (reservations db)))"
  have gone: "gone = take (nat batch) (sort_key by_item (filter (due_reservation cutoff) (reservations db)))"
    by (simp add: gone_def by_item_def [abs_def] due_reservation_def [abs_def])
  have "stock_inv (env.now e) ?d" using inv by simp
  with x show ?thesis
  proof (rule expire_due_parts)
    fix locked
    assume l: "locked = take (nat batch) (sort_key by_item (filter (due_reservation cutoff) (reservations ?d)))"
      and s: "stock_inv (env.now e) db1" "items db1 = items ?d" "stock_db.more db1 = stock_db.more ?d"
      and r: "reservations db1 = update_where (\<lambda>x. res_id x \<in> set (map res_id locked) \<and> due_reservation cutoff x)
           (expired_row e) (reservations ?d)"
      and n: "distinct (map res_id (reservations ?d)) \<Longrightarrow> n = length locked"
    have lg: "locked = gone" by (simp add: l gone)
    have sub: "set gone \<subseteq> {r \<in> set (reservations db). due_reservation cutoff r}"
      using set_take_subset [of "nat batch" "sort_key by_item (filter (due_reservation cutoff) (reservations db))"]
      by (auto simp: gone)
    have same: "(res_id x \<in> set (map res_id gone) \<and> due_reservation cutoff x) = (x \<in> set gone)"
      if x: "x \<in> set (reservations db)" for x
      using sub key_unique [OF ids x] by auto
    have "reservations db' = update_where (\<lambda>x. res_id x \<in> set (map res_id gone) \<and> due_reservation cutoff x)
        (expired_row e) (reservations db)" using r now(6) by (simp add: vv lg)
    also have "\<dots> = map (\<lambda>r. if r \<in> set gone then expired_row e r else r) (reservations db)"
      unfolding update_where_def using same by (intro map_cong refl) simp
    finally have rs: "reservations db' = map (\<lambda>r. if r \<in> set gone
        then r\<lparr> res_state := RS_EXPIRED, res_activeKey := None, res_releasedAt := Some (env.now e),
                res_releaseReason := Some ''RESERVATION_EXPIRED'' \<rparr>
        else r) (reservations db)" by (simp add: expired_row_def)
    have "orders db1 = orders ?d" using s(3) by (cases db1; cases ?d) simp
    then have rest: "items db' = items db" "orders db' = orders db" "stock_inv (env.now e) db'"
      using s now(6) by (simp_all add: vv)
    have len: "n = length gone" using n ids lg by simp
    have pay: "job_event_payload w job v = Inr (ReservationExpiry t batch)" using now(3) by (simp add: vv p)
    show ?thesis by (intro exI conjI, rule pay, rule cut, rule cut, rule gone_def, rule len, rule rs, (rule rest)+)
  qed
qed

section \<open>A job is a sequence of transactions\<close>

lemma run_step: "outbox_run db cs db1 \<Longrightarrow> worker_step e w [] db1 db2 \<Longrightarrow> outbox_run db cs db2"
  using outbox_run.act [OF _ outbox_act.of_worker, of db cs db1 e w "[]" db2] by simp

lemma run_retry:
  assumes "outbox_run db cs db1"
  shows "outbox_run db cs (snd (scheduleRetry e w eid code db1))"
  by (rule run_step [OF assms worker_step.deferred [OF prod.collapse [symmetric]]])

lemma process_other_run: "outbox_run db [] (process_other e w job db)"
  by (auto simp: process_other_def split: sum.splits
      intro: outbox_run.start run_retry run_step [OF outbox_run.start worker_step.processed])

lemma processMediaDeletion_run: "outbox_run db [] (processMediaDeletion e e' w del job db)"
proof (cases "claimMediaDeletion e w job db")
  case (Inl x)
  then show ?thesis by (simp add: processMediaDeletion_def run_retry outbox_run.start)
next
  case (Inr p)
  obtain c db1 where p: "p = (c, db1)" by (cases p)
  have r: "outbox_run db [] db1" by (rule run_step [OF outbox_run.start worker_step.media_claimed [OF Inr [unfolded p]]])
  show ?thesis
    by (auto simp: processMediaDeletion_def Inr p r split: media_claim.splits sum.splits
        intro: run_retry [OF r] run_step [OF r worker_step.media_completed])
qed

lemma finish_attempt_run:
  assumes "outbox_run db [] db1"
  shows "outbox_run db [] (finish_attempt e w work sent db1)"
proof (cases "bindE sent (\<lambda>delivery. finalizeNotificationSuccess e work delivery db1)")
  case (Inr db2)
  then obtain delivery where "finalizeNotificationSuccess e work delivery db1 = Inr db2" by auto
  with Inr show ?thesis by (simp add: finish_attempt_def run_step [OF assms worker_step.delivered] del: bindE_Inr)
next
  case (Inl x)
  show ?thesis
  proof (cases "finalizeNotificationFailure e w work (safeErrorCode x) db1")
    case (Inr p)
    obtain r db2 where p: "p = (r, db2)" by (cases p)
    show ?thesis using Inl run_step [OF assms worker_step.failed [OF Inr [unfolded p]]] by (simp add: finish_attempt_def Inr p)
  qed (simp add: finish_attempt_def Inl run_retry [OF assms])
qed

lemma processNotification_run: "outbox_run db [] (processNotification e e' w me adapter job db)"
proof (cases "claimNotification e w (providerFor adapter) job db")
  case (Inl x)
  then show ?thesis by (simp add: processNotification_def run_retry outbox_run.start)
next
  case (Inr p)
  obtain c db1 where p: "p = (c, db1)" by (cases p)
  have r: "outbox_run db [] db1"
    by (rule run_step [OF outbox_run.start worker_step.notification_claimed [OF Inr [unfolded p]]])
  then show ?thesis
    by (simp add: processNotification_def Inr p finish_attempt_run split: notification_claim.splits)
qed

lemma process_job_run: "outbox_run db [] (process_job e e' w me adapter del job db)"
  by (simp add: process_job_def process_other_run processMediaDeletion_run processNotification_run)

lemma publish_run:
  "outbox_run db cs db1 \<Longrightarrow> outbox_run db cs (snd (fold (publish_event e w add) evs (jobs, db1)))"
proof (induction evs arbitrary: jobs db1)
  case (Cons v evs)
  obtain jobs' db2 where f: "publish_event e w add v (jobs, db1) = (jobs', db2)" by (cases "publish_event e w add v (jobs, db1)")
  have "db2 = snd (markPublished e w (ob_id v) (deterministicJobId e (ob_deterministicKey v)) db1)
      \<or> (\<exists>code. db2 = snd (scheduleRetry e w (ob_id v) code db1))"
    using f by (auto simp: publish_event_def Let_def split: sum.splits)
  then have "outbox_run db cs db2"
    using run_retry [OF Cons.prems] run_step [OF Cons.prems worker_step.published [OF prod.collapse [symmetric]]] by auto
  from Cons.IH [OF this, of jobs'] f show ?case by simp
qed simp

text \<open>One poll: its claim, then a transaction for every event claimed.\<close>

lemma pollOnce_run:
  assumes "pollOnce e e' w add polling db = (n, jobs, db')"
  shows "\<exists>cs. length cs = n \<and> outbox_run db cs db'"
proof (cases polling)
  case True
  with assms outbox_run.start show ?thesis by (auto simp: pollOnce_def)
next
  case False
  obtain evs db1 where c: "claimAvailable e w db = (evs, db1)" by (cases "claimAvailable e w db")
  have "outbox_run db (map ob_id evs) db1"
    using outbox_run.act [OF outbox_run.start outbox_act.of_worker [OF worker_step.claimed [OF c]]] by simp
  from publish_run [OF this, of e' w add evs "[]"] assms False c show ?thesis
    by (intro exI [of _ "map ob_id evs"]) (auto simp: pollOnce_def)
qed

section \<open>Workers beside the shop\<close>

definition keeps_shop :: "int \<Rightarrow> 'a worker_db_scheme \<Rightarrow> 'a worker_db_scheme \<Rightarrow> bool" where
  "keeps_shop t db db' =
     ((stock_inv t db \<longrightarrow> stock_inv t db') \<and> items db' = items db \<and> orders db' = orders db
      \<and> deliveries db' = deliveries db \<and> collections db' = collections db \<and> attempts db' = attempts db)"

lemma keeps_shop_same:
  "items db' = items db \<Longrightarrow> movements db' = movements db \<Longrightarrow> reservations db' = reservations db \<Longrightarrow>
   orders db' = orders db \<Longrightarrow> deliveries db' = deliveries db \<Longrightarrow> collections db' = collections db \<Longrightarrow>
   attempts db' = attempts db \<Longrightarrow> keeps_shop t db db'"
  using stock_inv_cong [of db' db t] by (simp add: keeps_shop_def)

lemma keeps_shop_trans: "keeps_shop t a b \<Longrightarrow> keeps_shop t b c \<Longrightarrow> keeps_shop t a c"
  by (simp add: keeps_shop_def)

lemma keeps_refl [simp]: "keeps_shop t db db"
  by (simp add: keeps_shop_def)

lemma keeps_cong:
  assumes "items d' = items d" "movements d' = movements d" "reservations d' = reservations d" "orders d' = orders d"
    "deliveries d' = deliveries d" "collections d' = collections d" "attempts d' = attempts d"
  shows "keeps_shop t db d' = keeps_shop t db d"
  using assms stock_inv_cong [OF assms(1-3), of t] by (simp add: keeps_shop_def)

lemma keeps_updates [simp]:
  "keeps_shop t db (d\<lparr> outbox := os \<rparr>) = keeps_shop t db d" "keeps_shop t db (set_event eid f d) = keeps_shop t db d"
  "keeps_shop t db (set_notification nid g d) = keeps_shop t db d" "keeps_shop t db (set_attempts P h d) = keeps_shop t db d"
  "keeps_shop t db (fail_open_attempts nid d) = keeps_shop t db d"
  by (rule keeps_cong; simp add: set_event_def set_notification_def set_attempts_def fail_open_attempts_def)+

lemma keeps_attempt: "create_notification_attempt e row db = Inr (a, db') \<Longrightarrow> keeps_shop t db db'"
  by (rule keeps_shop_same) (auto simp: Let_def)

lemma handle_payload_keeps:
  assumes "handle_payload e w eid p db = Inr (n, db')"
  shows "keeps_shop (now e) db db'"
proof -
  from assms have "db' = db \<or> (\<exists>t batch. expireReservations e w eid t batch db = Inr (n, db'))"
    by (auto simp: handle_payload_def split: event_payload.splits)
  then show ?thesis
  proof
    assume "\<exists>t batch. expireReservations e w eid t batch db = Inr (n, db')"
    then obtain cutoff batch where x: "expire_due e eid cutoff batch db = Inr (n, db')"
      by (auto dest: expireReservations_Inr)
    have more: "stock_db.more db' = stock_db.more db" by (rule expire_due_more [OF x])
    have same: "orders db' = orders db" "deliveries db' = deliveries db" "collections db' = collections db" "attempts db' = attempts db"
      using more by (cases db; cases db'; simp)+
    have "stock_inv (now e) db' \<and> items db' = items db" if "stock_inv (now e) db"
      by (rule expire_due_parts [OF x that]) simp
    moreover have "items db' = items db" by (rule expire_due_items [OF x])
    ultimately show ?thesis using same by (simp add: keeps_shop_def)
  qed (simp add: keeps_shop_def)
qed

lemma upsert_event_keeps: "upsert_event e row db = Inr db' \<Longrightarrow> keeps_shop t db db'"
  by (auto simp: upsert_event_def Let_def split: option.splits intro!: keeps_shop_same)

lemma claim_keeps:
  assumes "claimAvailable e w db = (evs, db')"
  shows "keeps_shop t db db'"
proof -
  have "keeps_shop t db (snd (claimAvailable e w db))" by (simp add: claimAvailable_def Let_def)
  with assms show ?thesis by simp
qed

lemma retry_keeps:
  assumes "scheduleRetry e w eid code db = (r, db')"
  shows "keeps_shop t db db'"
proof -
  have "keeps_shop t db (snd (scheduleRetry e w eid code db))"
    by (simp add: scheduleRetry_def Let_def split: option.splits)
  with assms show ?thesis by simp
qed

lemma claimNotification_keeps:
  assumes "claimNotification e w pf job db = Inr (c, db')"
  shows "keeps_shop t db db'"
  using assms
proof (cases rule: claimNotification_cases)
  case (opened v p m n)
  let ?pr = "take 100 (pf (nt_channel m))" and ?db1 = "fail_open_attempts (nt_id m) db"
  have "\<exists>row a db2. create_notification_attempt e row ?db1 = Inr (a, db2) \<and> keeps_shop t db2 db'"
  proof (cases "?pr = ''disabled''")
    case True
    from opened(7) [unfolded if_P [OF True]] show ?thesis
      unfolding skip_disabled_def by (force simp del: create_notification_attempt_Inr)
  next
    case False
    from opened(7) [unfolded if_not_P [OF False]] show ?thesis
      unfolding start_attempt_def by (force simp del: create_notification_attempt_Inr)
  qed
  then show ?thesis by (auto simp del: create_notification_attempt_Inr
      intro: keeps_shop_trans [OF _ keeps_shop_trans [OF keeps_attempt], of _ _ ?db1])
qed auto

lemma delivered_keeps:
  assumes "finalizeNotificationSuccess e work delivery db = Inr db'"
  shows "keeps_shop t db db'"
  using assms unfolding finalizeNotificationSuccess_def Let_def
  by (auto split: if_splits)

lemma failed_keeps:
  assumes "finalizeNotificationFailure e w work code db = Inr (r, db')"
  shows "keeps_shop t db db'"
  using assms unfolding finalizeNotificationFailure_def Let_def
  by (auto split: if_splits)

lemma media_keeps:
  "claimMediaDeletion e w job db = Inr (c, db') \<Longrightarrow> keeps_shop t db db'"
  "completeMediaDeletion e job db = Inr db' \<Longrightarrow> keeps_shop t db db'"
  by (auto simp: claimMediaDeletion_def completeMediaDeletion_def split: option.splits if_splits)

lemma processTransaction_keeps:
  assumes "processTransaction e w job db = Inr (r, db')"
  shows "keeps_shop (now e) db db'"
proof -
  obtain out n where r: "r = (out, n)" by (cases r)
  from assms [unfolded r] show ?thesis
  proof (cases rule: processTransaction_Inr)
    case (now v p db1)
    have "keeps_shop (env.now e) db (set_event (ob_id v) (processing_event e w) db)" by simp
    from keeps_shop_trans [OF this handle_payload_keeps [OF now(4)]] now(6) show ?thesis by simp
  qed simp
qed

lemma published_keeps: "markPublished e w eid jobId db = (b, db') \<Longrightarrow> keeps_shop t db db'"
  by (auto simp: markPublished_def Let_def)

lemma sources_keep:
  "enqueueReservationExpiry e w db = Inr db' \<Longrightarrow> keeps_shop t db db'"
  "bridge_notification e w n db = Inr db' \<Longrightarrow> keeps_shop t db db'"
  by (auto simp: enqueueReservationExpiry_def bridge_notification_def Let_def intro: upsert_event_keeps)

lemma worker_step_keeps: "worker_step e w cs db db' \<Longrightarrow> keeps_shop (now e) db db'"
  by (erule worker_step.cases)
    (simp_all add: claim_keeps published_keeps retry_keeps sources_keep processTransaction_keeps media_keeps
      claimNotification_keeps delivered_keeps failed_keeps)

text \<open>\<open>system_run t db t' db'\<close>: requests to the API and transactions of workers, one after the other.\<close>

inductive system_run :: "int \<Rightarrow> 'a worker_db_scheme \<Rightarrow> int \<Rightarrow> 'a worker_db_scheme \<Rightarrow> bool" for t db where
  start: "system_run t db t db"
| request: "system_run t db u db1 \<Longrightarrow> u \<le> now e \<Longrightarrow> shop_step e db1 db2 \<Longrightarrow> system_run t db (now e) db2"
| work: "system_run t db u db1 \<Longrightarrow> u \<le> now e \<Longrightarrow> worker_step e w cs db1 db2 \<Longrightarrow> system_run t db (now e) db2"

lemma worker_step_orders_inv:
  assumes "worker_step e w cs db db'" and "orders_inv (now e) db"
  shows "orders_inv (now e) db' \<and> orders db' = orders db"
proof -
  note k = worker_step_keeps [OF assms(1), unfolded keeps_shop_def]
  have "in_step db' = in_step db" using k by (intro in_step_cong) simp_all
  with k assms(2) show ?thesis by (simp add: orders_inv_def)
qed

lemma system_run_keeps:
  assumes "system_run t db t' db'" and "orders_inv t db"
  shows "orders_inv t' db' \<and> orders_progress (orders db) (orders db')"
  using assms
proof induction
  case start
  then show ?case by simp
next
  case (request u db1 e db2)
  then have "orders_inv (now e) db1" by (auto intro: orders_inv_later)
  from shop_step_keeps [OF request.hyps(3) this] request show ?case by (auto intro: orders_progress_trans)
next
  case (work u db1 e w cs db2)
  then have "orders_inv (now e) db1" by (auto intro: orders_inv_later)
  from worker_step_orders_inv [OF work.hyps(3) this] work show ?case by simp
qed

section \<open>The last attempt\<close>

lemma exhausted_dead:
  assumes c: "claimAvailable e w db = (evs, db')" and ids: "event_ids db"
    and v: "find_event db eid = Some v" "exhausted v"
  shows "map_option ob_status (find_event db' eid) = Some OB_DEAD_LETTER" and "notifications db' = notifications db"
proof -
  have "notifications (snd (claimAvailable e w db)) = notifications db" by (simp add: claimAvailable_def Let_def)
  with c show "notifications db' = notifications db" by simp
  from c ids show "map_option ob_status (find_event db' eid) = Some OB_DEAD_LETTER"
  proof (rule claimAvailable_parts)
    fix rs
    assume db': "db' = db\<lparr> outbox := update_where (\<lambda>v. ob_id v \<in> set rs) (lease_event e w)
        (update_where exhausted (exhaust_event e) (outbox db)) \<rparr>"
      and old: "\<And>eid. eid \<in> set rs \<Longrightarrow> \<exists>v. find_event db eid = Some v \<and> claimable e v \<and> \<not> exhausted v"
    have "ob_id v \<notin> set rs" using old [of eid] v find_event_id [OF v(1)] by auto
    with claimed_event [OF db', of eid] v show ?thesis by simp
  qed
qed

lemma find_notification_id: "find_notification db nid = Some n \<Longrightarrow> nt_id n = nid"
  using find_SomeD [of "\<lambda>n. nt_id n = nid" "notifications db" n] by (simp add: find_notification_def)

lemma find_notification_update:
  assumes "notifications db' = update_where (\<lambda>x. nt_id x = nid) f (notifications db)" and "\<And>x. nt_id (f x) = nt_id x"
  shows "find_notification db' nid = map_option f (find_notification db nid)"
proof -
  have e: "find_notification db' nid = map_option (\<lambda>x. if nt_id x = nid then f x else x) (find_notification db nid)"
    unfolding find_notification_def assms(1) by (rule find_update_where) (simp add: assms(2))
  show ?thesis
  proof (cases "find_notification db nid")
    case (Some n)
    with e find_notification_id [OF Some] show ?thesis by simp
  qed (simp add: e)
qed

lemma sent_claim:
  assumes "claimNotification e w pf job db = Inr (SEND work, db')"
  obtains v where "find_event db (job_outboxEventId job) = Some v" and "\<not> finished (ob_status v)"
    and "wk_outboxEventId work = ob_id v" and "outbox db' = outbox (set_event (ob_id v) (processing_event e w) db)"
    and "map_option nt_status (find_notification db' (wk_notificationId work)) = Some NT_PROCESSING"
  using assms
proof (cases rule: claimNotification_cases)
  case (opened v p m n)
  have nd: "\<not> take 100 (pf (nt_channel m)) = ''disabled''"
  proof
    assume d: "take 100 (pf (nt_channel m)) = ''disabled''"
    from skip_disabled_Inr(1) [OF opened(7) [unfolded if_P [OF d]]] show False by simp
  qed
  note S = start_attempt_Inr [OF opened(7) [unfolded if_not_P [OF nd]]]
  have nid: "wk_notificationId work = nt_id m" "wk_outboxEventId work = ob_id v" using S(1) by auto
  have "find_notification db (nt_id m) = Some m"
    using opened(4) find_SomeD by (fastforce simp: dispatched_notification_def find_notification_def split: event_payload.splits)
  with find_notification_update [OF S(3)] have "map_option nt_status (find_notification db' (nt_id m)) = Some NT_PROCESSING"
    by (simp add: find_notification_def)
  then show thesis
    by (intro that [OF opened(1) handled_before_None [OF opened(2)]]) (use nid S(2) in simp_all)
qed auto

lemma final_attempt_abandoned:
  assumes c1: "claimAvailable e1 w1 db = (evs, db1)" and ids: "event_ids db" and v: "v \<in> set evs"
    and last: "ob_maxAttempts v \<le> ob_attemptCount v" and job: "job_outboxEventId job = ob_id v"
    and n: "claimNotification e2 w2 pf job db1 = Inr (SEND work, db2)"
    and c2: "claimAvailable e3 w3 db2 = (evs3, db3)"
    and f: "finalizeNotificationFailure e4 w4 work code db3 = Inr (out, db4)"
  shows "out = RETRY_TERMINAL \<and> map_option ob_status (find_event db4 (ob_id v)) = Some OB_DEAD_LETTER
    \<and> map_option nt_status (find_notification db4 (wk_notificationId work)) = Some NT_PROCESSING"
proof -
  have ids1: "event_ids db1" using claimAvailable_change [OF c1 ids] ids by (simp add: outbox_change_def)
  have ids2: "event_ids db2" using claimNotification_change [OF n ids1] ids1 by (simp add: outbox_change_def)
  from claimAvailable_parts [OF c1 ids] v have fv: "find_event db1 (ob_id v) = Some v" by blast
  from n obtain u where u: "find_event db1 (ob_id v) = Some u" and wk: "wk_outboxEventId work = ob_id u"
    and o2: "outbox db2 = outbox (set_event (ob_id u) (processing_event e2 w2) db1)"
    and nt: "map_option nt_status (find_notification db2 (wk_notificationId work)) = Some NT_PROCESSING"
    unfolding job [symmetric] by (rule sent_claim)
  have uv: "u = v" using u fv by simp
  have "find_event db2 (ob_id v) = find_event (set_event (ob_id v) (processing_event e2 w2) db1) (ob_id v)"
    using o2 by (simp add: find_event_def uv)
  then have e2: "find_event db2 (ob_id v) = Some (processing_event e2 w2 v)" by (simp add: find_set_event fv)
  have "exhausted (processing_event e2 w2 v)" using last by (simp add: exhausted_def processing_event_def)
  note D = exhausted_dead [OF c2 ids2 e2 this]
  have nt3: "map_option nt_status (find_notification db3 (wk_notificationId work)) = Some NT_PROCESSING"
    using nt D(2) by (simp add: find_notification_def)
  from f show ?thesis
  proof (cases rule: finalizeNotificationFailure_cases)
    case (terminal x n)
    have "nt_status n = NT_PROCESSING" using terminal(2) nt3 by simp
    then have "outbox db4 = outbox db3" using terminal(6) by simp
    with D(1) nt3 terminal(4,5) show ?thesis by (simp add: find_event_def find_notification_def)
  next
    case (failed x n g s)
    have "find_event db3 (ob_id v) = Some x" using failed(1) by (simp add: wk uv)
    with D(1) failed(3) show ?thesis by (simp add: finished_def)
  qed
qed

section \<open>A processed job\<close>

lemma processed_job_noop:
  assumes v: "find_event db (job_outboxEventId job) = Some v" and p: "ob_status v = OB_PROCESSED"
  shows "process_job e e' w me adapter del job db = db"
proof -
  have h: "handled_before v = Some ALREADY_PROCESSED" by (simp add: handled_before_def p)
  have "processNotification e e' w me adapter job db = db"
    by (simp add: processNotification_def claimNotification_def v h)
  moreover have "processMediaDeletion e e' w del job db = db"
    by (simp add: processMediaDeletion_def claimMediaDeletion_def v h)
  moreover have "process_other e w job db = db"
    by (simp add: process_other_def processTransaction_def v h)
  ultimately show ?thesis by (simp add: process_job_def)
qed

lemma processed_for_good:
  assumes run: "processTransaction e w job db = Inr ((PROCESSED, n), db1)" and ids: "event_ids db"
    and r: "outbox_run db1 cs db2"
  shows "(\<exists>v. find_event db2 (job_outboxEventId job) = Some v \<and> ob_status v = OB_PROCESSED)
    \<and> job_outboxEventId job \<notin> set cs"
proof -
  have ids1: "event_ids db1" using processTransaction_change [OF run ids] ids by (simp add: outbox_change_def)
  from run have "\<exists>v. find_event db1 (job_outboxEventId job) = Some v \<and> ob_status v = OB_PROCESSED"
  proof (cases rule: processTransaction_Inr)
    case (before v)
    then show ?thesis by (simp add: handled_before_def split: if_splits)
  next
    case (now v p d)
    have id: "ob_id v = job_outboxEventId job" using find_event_id [OF now(1)] by simp
    have "find_event d (job_outboxEventId job) = Some (processing_event e w v)"
      using find_set_event [of "processing_event e w" "ob_id v" db "job_outboxEventId job"] now(1)
        handle_payload_outbox [OF now(4)] by (simp add: find_event_def id)
    then show ?thesis by (simp add: now(6) id find_set_event)
  qed
  then obtain v where v: "find_event db1 (job_outboxEventId job) = Some v" "ob_status v = OB_PROCESSED" by blast
  have id: "ob_id v = job_outboxEventId job" using find_event_id [OF v(1)] by simp
  from outbox_run_events [OF r ids1] have "case find_event db1 (job_outboxEventId job) of
       Some v \<Rightarrow> \<exists>v'. find_event db2 (job_outboxEventId job) = Some v' \<and> event_later cs v v'
     | None \<Rightarrow> (case find_event db2 (job_outboxEventId job) of None \<Rightarrow> job_outboxEventId job \<notin> set cs
         | Some v' \<Rightarrow> fresh_event cs v')" by blast
  then show ?thesis using v id by (auto simp: event_later_def)
qed

lemma claims_counted:
  assumes "outbox_run db cs db'" and "event_ids db" and "find_event db' eid = Some v'"
    and "\<And>v. find_event db eid = Some v \<Longrightarrow> 0 \<le> ob_attemptCount v"
  shows "int (count_list cs eid) \<le> max 0 (ob_maxAttempts v')"
proof (cases "eid \<in> set cs")
  case False
  then show ?thesis by (simp add: count_notin)
next
  case True
  have id: "ob_id v' = eid" using find_event_id [OF assms(3)] by simp
  from outbox_run_events [OF assms(1,2)] have E: "case find_event db eid of
       Some v \<Rightarrow> \<exists>v'. find_event db' eid = Some v' \<and> event_later cs v v'
     | None \<Rightarrow> (case find_event db' eid of None \<Rightarrow> eid \<notin> set cs | Some v' \<Rightarrow> fresh_event cs v')" by blast
  show ?thesis
  proof (cases "find_event db eid")
    case None
    with E assms(3) True id show ?thesis by (auto simp: fresh_event_def)
  next
    case (Some v)
    have "ob_id v = eid" using find_event_id [OF Some] by simp
    moreover have "0 \<le> ob_attemptCount v" by (rule assms(4) [OF Some])
    ultimately show ?thesis using E Some assms(3) True by (auto simp: event_later_def)
  qed
qed

section \<open>The demonstration runs\<close>

lemma demo_expiry_run:
  obtains n db where "processTransaction (cash_env ''w'' 6000) demo_worker expiry_job worker_shop = Inr ((PROCESSED, n), db)"
    and "n = length (reservations worker_shop)" and "n \<noteq> 0"
proof (cases demo_expired)
  case (Inl x)
  have False using demo_expired_evaluated unfolding Inl by simp
  then show thesis ..
next
  case (Inr p)
  obtain out n db where p: "p = ((out, n), db)" by (metis surj_pair)
  from demo_expired_evaluated show thesis
    by (intro that [of n db]) (auto simp: Inr p demo_expired_def [symmetric])
qed

lemma worker_shop_ids: "event_ids worker_shop" "distinct (map res_id (reservations worker_shop))"
  by code_simp+

lemma worker_shop_events:
  "find_event worker_shop ''x1'' = Some expiry_event" "find_event worker_shop ''x2'' = Some last_event"
  by code_simp+

lemma demo_last_attempt:
  obtains evs db1 work db2 evs3 db3 out db4 v where
    "claimAvailable (cash_env ''w'' 1000) demo_worker worker_shop = (evs, db1)" and "v \<in> set evs"
    and "ob_maxAttempts v \<le> ob_attemptCount v" and "job_outboxEventId dispatch_job = ob_id v"
    and "claimNotification (cash_env ''w'' 1001) demo_worker console_provider dispatch_job db1 = Inr (SEND work, db2)"
    and "claimAvailable (cash_env ''w'' 1002) demo_worker db2 = (evs3, db3)"
    and "finalizeNotificationFailure (cash_env ''w'' 1003) demo_worker work ''TIMEOUT'' db3 = Inr (out, db4)"
    and "map ob_id evs = [''x2'']"
proof -
  obtain evs db1 where c: "demo_claimed = (evs, db1)" by (cases demo_claimed)
  from demo_claimed_evaluated have ev: "map ob_id evs = [''x2'']" "list_all (\<lambda>v. ob_maxAttempts v \<le> ob_attemptCount v) evs"
    by (simp_all add: c)
  then obtain v where v: "evs = [v]" "ob_id v = ''x2''" by auto
  obtain work db2 where s: "demo_sent = Inr (SEND work, db2)"
    using demo_failed_evaluated by (simp split: sum.split_asm prod.split_asm notification_claim.split_asm)
  obtain evs3 db3 where c3: "claimAvailable (cash_env ''w'' 1002) demo_worker db2 = (evs3, db3)" by (metis surj_pair)
  from demo_failed_evaluated obtain out db4 where
    f: "finalizeNotificationFailure (cash_env ''w'' 1003) demo_worker work ''TIMEOUT'' db3 = Inr (out, db4)"
    by (auto simp: s c3 split: sum.splits)
  show thesis
    by (rule that [OF _ _ _ _ _ c3 f, of evs db1 v])
      (use c s ev v in \<open>simp_all add: demo_claimed_def demo_sent_def dispatch_job_def\<close>)
qed

section \<open>Properties\<close>

text \<open>Property C2 (system_keeps_stock): whatever requests customers, administrators and couriers make, and
  whatever transactions any number of workers run between them, in any order, no bucket ever holds less
  than what is reserved in it, every bucket agrees with its ledger of movements, and every order has the
  status of its delivery.\<close>

theorem system_keeps_stock:
  assumes "system_run t db t' db'" and "stock_inv t db" and "in_step db"
  shows "stock_inv t' db' \<and> in_step db'"
  using system_run_keeps [OF assms(1)] assms(2,3) by (simp add: orders_inv_def)

lemma system_keeps_stock_witness:
  "\<exists>t' db'. system_run (now shop_env) worker_shop t' db' \<and> stock_inv t' db' \<and> in_step db' \<and> db' \<noteq> worker_shop"
proof (rule demo_expiry_run)
  fix n db
  assume p: "processTransaction (cash_env ''w'' 6000) demo_worker expiry_job worker_shop = Inr ((PROCESSED, n), db)"
  have run: "system_run (now shop_env) worker_shop (now (cash_env ''w'' 6000)) db"
    by (rule system_run.work [OF system_run.start _ worker_step.processed [OF p]]) (simp add: cash_env_def shop_env_def)
  have "ob_status expiry_event \<noteq> OB_PROCESSED" by code_simp
  moreover have "\<exists>v. find_event db ''x1'' = Some v \<and> ob_status v = OB_PROCESSED"
    using processed_for_good [OF p worker_shop_ids(1) outbox_run.start] by (simp add: expiry_job_def)
  ultimately have "db \<noteq> worker_shop" using worker_shop_events(1) by auto
  with run system_keeps_stock [OF run worker_shop_stock(2) worker_shop_in_step] show ?thesis by blast
qed

text \<open>Property C12 (expiry_is_exact): when the job of an expiry event is processed, exactly the reservations that
  are active and expired by the cutoff written in the event's payload, in the order of their buckets and at most
  as many as the payload's batch, become expired and are counted in the answer; the cutoff is at most five seconds
  ahead of the clock; every other reservation, the buckets and the orders stay as they were, and the stock keeps
  its contract.\<close>

theorem expiry_is_exact:
  assumes "processTransaction e w job db = Inr ((PROCESSED, n), db')"
    and "find_event db (job_outboxEventId job) = Some v" and "ob_eventType v = RESERVATION_EXPIRY"
    and "stock_inv (now e) db" and "distinct (map res_id (reservations db))"
  shows "\<exists>t batch cutoff gone. job_event_payload w job v = Inr (ReservationExpiry t batch)
    \<and> date_parse w t = Some cutoff \<and> cutoff \<le> now e + 5000
    \<and> gone = take (nat batch) (sort_key (\<lambda>r. (res_itemId r, res_id r))
        (filter (\<lambda>r. res_state r = RS_ACTIVE \<and> res_expiresAt r \<le> cutoff) (reservations db)))
    \<and> n = length gone
    \<and> reservations db' = map (\<lambda>r. if r \<in> set gone
        then r\<lparr> res_state := RS_EXPIRED, res_activeKey := None, res_releasedAt := Some (now e),
                res_releaseReason := Some ''RESERVATION_EXPIRED'' \<rparr>
        else r) (reservations db)
    \<and> items db' = items db \<and> orders db' = orders db \<and> stock_inv (now e) db'"
  by (rule expiry_processed [OF assms])

lemma expiry_is_exact_witness:
  "\<exists>n db'. processTransaction (cash_env ''w'' 6000) demo_worker expiry_job worker_shop = Inr ((PROCESSED, n), db')
     \<and> n \<noteq> 0 \<and> items db' = items worker_shop \<and> stock_inv 6000 db'"
proof (rule demo_expiry_run)
  fix n db
  assume p: "processTransaction (cash_env ''w'' 6000) demo_worker expiry_job worker_shop = Inr ((PROCESSED, n), db)"
    and n: "n \<noteq> 0"
  have t: "now (cash_env ''w'' 6000) = 6000" by (simp add: cash_env_def)
  have "items db = items worker_shop \<and> stock_inv (now (cash_env ''w'' 6000)) db"
    using expiry_is_exact [OF p, of expiry_event] worker_shop_stock(1) worker_shop_ids(2) worker_shop_events(1)
    by (auto simp: t expiry_job_def expiry_event_def scheduled_event_def)
  with p n show ?thesis unfolding t by blast
qed

text \<open>Property C13 (processed_once): once an event has been processed, then whatever the workers and the API do
  to the outbox, the event stays processed, no poll ever claims it again, and a job that still carries it
  changes nothing at all.\<close>

theorem processed_once:
  assumes "processTransaction e w job db = Inr ((PROCESSED, n), db1)" and "event_ids db" and "outbox_run db1 cs db2"
  shows "map_option ob_status (find_event db2 (job_outboxEventId job)) = Some OB_PROCESSED
    \<and> job_outboxEventId job \<notin> set cs \<and> process_job e1 e2 w2 me adapter del job db2 = db2"
  using processed_for_good [OF assms] processed_job_noop by fastforce

lemma processed_once_witness:
  "\<exists>n db1. processTransaction (cash_env ''w'' 6000) demo_worker expiry_job worker_shop = Inr ((PROCESSED, n), db1)
     \<and> process_other (cash_env ''w'' 6001) demo_worker expiry_job db1 = db1"
proof (rule demo_expiry_run)
  fix n db
  assume p: "processTransaction (cash_env ''w'' 6000) demo_worker expiry_job worker_shop = Inr ((PROCESSED, n), db)"
  have "process_job (cash_env ''w'' 6001) e2 demo_worker me adapter del expiry_job db = db" for e2 me adapter del
    using processed_once [OF p worker_shop_ids(1) outbox_run.start] by blast
  then have "process_other (cash_env ''w'' 6001) demo_worker expiry_job db = db"
    by (simp add: process_job_def expiry_job_def RESERVATION_EXPIRY_def NOTIFICATION_DISPATCH_def MEDIA_OBJECT_DELETE_def)
  with p show ?thesis by blast
qed

text \<open>Property C14 (claims_bounded): in any interleaving of workers and requests, an event is claimed at most as
  often as its maximum of attempts allows, whoever claims it.\<close>

theorem claims_bounded:
  assumes "outbox_run db cs db'" and "event_ids db" and "find_event db' eid = Some v'"
    and "\<And>v. find_event db eid = Some v \<Longrightarrow> 0 \<le> ob_attemptCount v"
  shows "int (count_list cs eid) \<le> max 0 (ob_maxAttempts v')"
  by (rule claims_counted [OF assms])

lemma claims_bounded_witness:
  "\<exists>cs db' v'. outbox_run worker_shop cs db' \<and> ''x2'' \<in> set cs \<and> find_event db' ''x2'' = Some v'
     \<and> int (count_list cs ''x2'') \<le> max 0 (ob_maxAttempts v')"
proof (rule demo_last_attempt)
  fix evs db1 and v :: outbox_event
  assume c: "claimAvailable (cash_env ''w'' 1000) demo_worker worker_shop = (evs, db1)" and ids: "map ob_id evs = [''x2'']"
  have r: "outbox_run worker_shop [''x2''] db1"
    using outbox_run.act [OF outbox_run.start outbox_act.of_worker [OF worker_step.claimed [OF c]]] by (simp add: ids)
  from outbox_run_events [OF r worker_shop_ids(1)] worker_shop_events(2)
  obtain v' where v': "find_event db1 ''x2'' = Some v'" by (fastforce split: option.splits)
  have "0 \<le> ob_attemptCount last_event" by code_simp
  then have "int (count_list [''x2''] ''x2'') \<le> max 0 (ob_maxAttempts v')"
    by (intro claims_bounded [OF r worker_shop_ids(1) v']) (simp add: worker_shop_events(2))
  with r v' show ?thesis by (intro exI [of _ "[''x2'']"] exI [of _ db1] exI [of _ v']) simp
qed

text \<open>Property C15 (claims_disjoint): the events one poll claims are claimed by no other poll while their leases
  run, whatever polls, published jobs and other transactions of any workers and requests of the API come in
  between, unless a retry of the event has been scheduled.\<close>

theorem claims_disjoint:
  assumes "claimAvailable e w db = (evs, db1)" and "event_ids db"
    and "lease_run (now e) (OUTBOX_LEASE_MS w) (set (map ob_id evs)) db1 cs db2"
  shows "set cs \<inter> set (map ob_id evs) = {}"
  using lease_run_held [OF assms(3)] claims_held [OF assms(1,2)] by blast

lemma claims_disjoint_witness:
  "\<exists>evs db1 evs3 db3. claimAvailable (cash_env ''w'' 1000) demo_worker worker_shop = (evs, db1) \<and> map ob_id evs = [''x2'']
     \<and> claimAvailable (cash_env ''w'' 1001) demo_worker db1 = (evs3, db3) \<and> ''x2'' \<notin> set (map ob_id evs3)"
proof (rule demo_last_attempt)
  fix evs db1 and v :: outbox_event
  assume c: "claimAvailable (cash_env ''w'' 1000) demo_worker worker_shop = (evs, db1)" and ids: "map ob_id evs = [''x2'']"
    and v: "v \<in> set evs" "ob_maxAttempts v \<le> ob_attemptCount v"
  obtain evs3 db3 where c3: "claimAvailable (cash_env ''w'' 1001) demo_worker db1 = (evs3, db3)" by (metis surj_pair)
  have ids1: "event_ids db1" by (rule claims_held(1) [OF c worker_shop_ids(1) order_refl])
  from claimAvailable_parts [OF c worker_shop_ids(1)] v(1) have f: "find_event db1 (ob_id v) = Some v" "ob_status v = OB_LEASED"
    by blast+
  have x2: "ob_id v = ''x2''" using v(1) ids by auto
  have "exhausted v" using f(2) v(2) by (simp add: exhausted_def)
  from exhausted_dead(1) [OF c3 ids1 f(1) this] have "no_retry {''x2''} db3" by (auto simp: no_retry_def x2)
  then have "lease_run (now (cash_env ''w'' 1000)) (OUTBOX_LEASE_MS demo_worker) (set (map ob_id evs)) db1 ([] @ map ob_id evs3) db3"
    by (intro lease_run.worker [OF lease_run.start worker_step.claimed [OF c3]])
      (simp_all add: ids cash_env_def demo_worker_def del: set_map)
  from claims_disjoint [OF c worker_shop_ids(1) this] c c3 ids show ?thesis by auto
qed

text \<open>Property C16 (last_attempt_abandoned): when the last attempt of a notification is under way and any poll
  runs before the provider has failed, the poll buries the event although its lease has not run out; the
  failure is then not recorded on the notification, which stays in processing for good.\<close>

theorem last_attempt_abandoned:
  assumes "claimAvailable e1 w1 db = (evs, db1)" and "event_ids db" and "v \<in> set evs"
    and "ob_maxAttempts v \<le> ob_attemptCount v" and "job_outboxEventId job = ob_id v"
    and "claimNotification e2 w2 pf job db1 = Inr (SEND work, db2)"
    and "claimAvailable e3 w3 db2 = (evs3, db3)"
    and "finalizeNotificationFailure e4 w4 work code db3 = Inr (out, db4)"
  shows "out = RETRY_TERMINAL \<and> map_option ob_status (find_event db4 (ob_id v)) = Some OB_DEAD_LETTER
    \<and> map_option nt_status (find_notification db4 (wk_notificationId work)) = Some NT_PROCESSING"
  by (rule final_attempt_abandoned [OF assms])

lemma last_attempt_abandoned_witness:
  "\<exists>(work :: notification_work) (db4 :: worker_db). map_option ob_status (find_event db4 ''x2'') = Some OB_DEAD_LETTER
     \<and> map_option nt_status (find_notification db4 (wk_notificationId work)) = Some NT_PROCESSING"
proof (rule demo_last_attempt)
  fix evs db1 work db2 evs3 db3 out db4 v
  assume c1: "claimAvailable (cash_env ''w'' 1000) demo_worker worker_shop = (evs, db1)" and v: "v \<in> set evs"
    and last: "ob_maxAttempts v \<le> ob_attemptCount v" and j: "job_outboxEventId dispatch_job = ob_id v"
    and n: "claimNotification (cash_env ''w'' 1001) demo_worker console_provider dispatch_job db1 = Inr (SEND work, db2)"
    and c2: "claimAvailable (cash_env ''w'' 1002) demo_worker db2 = (evs3, db3)"
    and f: "finalizeNotificationFailure (cash_env ''w'' 1003) demo_worker work ''TIMEOUT'' db3 = Inr (out, db4)"
  have "ob_id v = ''x2''" using j by (simp add: dispatch_job_def)
  with last_attempt_abandoned [OF c1 worker_shop_ids(1) v last j n c2 f] show ?thesis
    by (intro exI [of _ work] exI [of _ db4]) simp
qed

end
