(* ===== verification/CartRuns.thy ===== *)
theory CartRuns
  imports ShopSystem
begin

text \<open>
  Carts in the runs of the whole shop: only the requests to the cart and the checkout write carts, so
  their limits and versions hold along every run.
\<close>

lemma stock_more_carts: "stock_db.more db' = stock_db.more db \<Longrightarrow> carts db' = carts db"
  by (cases db; cases db') simp

lemma order_step_carts:
  assumes "order_step e db db'" and inv: "orders_inv (now e) db" and ok: "carts_ok db"
  shows "carts_ok db' \<and> versioned db db'"
proof -
  have st: "stock_inv (now e) db" using inv by (simp add: orders_inv_def)
  have moved: "carts db' = carts db" if "moves oid target f db db'" for oid target f using that by (auto simp: moves_def)
  have same: ?thesis if "carts db' = carts db" using that ok versioned_same [OF that] by (simp add: carts_ok_def)
  from assms(1) show ?thesis
  proof cases
    case (confirmed oid v r)
    from confirmed st show ?thesis by (rule order_confirm_parts) (rule same [OF moved])
  next
    case (terminated disp oid v reason r)
    from order_terminate_parts [OF this st] moved have "carts db' = carts db" unfolding gives_back_def by blast
    then show ?thesis by (rule same)
  next
    case (prepared oid v r)
    from transitionIntake_parts(1) [OF this [unfolded order_prepare_def] refl] show ?thesis by (rule same [OF moved])
  next
    case (ready oid v r)
    from transitionIntake_parts(1) [OF this [unfolded order_readyForPickup_def] refl] show ?thesis by (rule same [OF moved])
  next
    case (checked_out aborted cfg input hdr u r)
    show ?thesis by (rule checked_out_carts [OF checked_out(1) st checked_out(2) ok])
  next
    case (withdrawn n v reason cd)
    from this inv show ?thesis
      by (rule customer_order_cancel_parts) (rule same, auto simp: gives_back_def moves_def)
  qed (rule same, drule notes_frame, simp add: untouched_def)+
qed

lemma shop_step_carts:
  assumes "shop_step e db db'" and inv: "orders_inv (now e) db" and ok: "carts_ok db"
  shows "carts_ok db' \<and> versioned db db'"
proof -
  have same: ?thesis if "carts db' = carts db" using that ok versioned_same [OF that] by (simp add: carts_ok_def)
  from assms(1) show ?thesis
  proof cases
    case of_stock
    then show ?thesis by (intro same stock_more_carts stock_step_more)
  next
    case of_orders
    then show ?thesis by (rule order_step_carts [OF _ inv ok])
  next
    case of_cash
    then show ?thesis using cash_step_frame by (intro same) (auto simp: cash_frame_def)
  next
    case of_deliveries
    then show ?thesis using delivery_step_frame by (intro same) (auto simp: delivery_frame_def)
  next
    case of_carts
    from cart_step_kept [OF this ok] show ?thesis by (simp add: cart_kept_def)
  qed
qed

lemma shop_run_carts:
  assumes "shop_run t db t' db'" and "orders_inv t db" and "carts_ok db"
  shows "carts_ok db' \<and> versioned db db'"
  using assms
proof induction
  case start
  then show ?case by simp
next
  case (request u db1 e db2)
  then have k: "carts_ok db1" "versioned db db1" by auto
  have "orders_inv u db1" using shop_run_keeps [OF request.hyps(1) request.prems(1)] by blast
  from shop_step_carts [OF request.hyps(3) orders_inv_later [OF this request.hyps(2)] k(1)] versioned_trans [OF k(2)]
  show ?case by blast
qed

text \<open>The shop of the demonstration with its desks, and a request to its cart.\<close>

definition cart_system :: delivery_db where
  "cart_system = cash_db.extend (shop_db.extend demo_shop (cash_db.fields [] [] [] [] [] [])) (delivery_db.fields [] [] [] [])"

lemma cart_system_evaluated:
  "stock_inv (now shop_env) cart_system \<and> in_step cart_system \<and> carts_ok cart_system
   \<and> map (\<lambda>c. map citem_quantity (cart_items c)) (carts (snd (cart_add shop_env ''v1'' 1 cart_system))) = [[4]]"
  by code_simp

text \<open>
  Property C9 (carts_stay_within_limits): whatever requests customers and administrators make, in any
  order, a customer has at most one active cart, a cart has at most fifty lines of one to
  twenty units of distinct variants, no cart is lost, and the version of a cart grows whenever its lines
  change, which is what the checkout compares to notice a cart changed under it.
\<close>

theorem carts_stay_within_limits:
  assumes "shop_run t db t' db'" and "orders_inv t db" and "carts_ok db"
  shows "carts_ok db' \<and> versioned db db'"
  by (rule shop_run_carts [OF assms])

theorem carts_stay_within_limits_witness:
  "\<exists>db'. carts_ok db' \<and> versioned cart_system db' \<and> map (\<lambda>c. map citem_quantity (cart_items c)) (carts db') = [[4]]"
proof -
  note E = cart_system_evaluated
  have "cart_step shop_env cart_system (snd (cart_add shop_env ''v1'' 1 cart_system))"
    by (rule added [OF surjective_pairing])
  then have "shop_run (now shop_env) cart_system (now shop_env) (snd (cart_add shop_env ''v1'' 1 cart_system))"
    by (intro shop_run.request [OF shop_run.start _ shop_step.of_carts]) simp_all
  from carts_stay_within_limits [OF this] E show ?thesis by (auto simp: orders_inv_def)
qed

end
