(* ===== verification/FingerprintSpec.thy ===== *)
theory FingerprintSpec
  imports Fingerprint "HOL-Library.Finite_Map" "HOL-Library.Multiset"
begin

text \<open>
  What the fingerprint of a request identifies: the value of its JSON body, not the order its fields
  were written in.  Canonicalising neither loses a part of the value nor keeps anything of the order.
\<close>

section \<open>The value of a request\<close>

text \<open>
  What a JSON value means, independently of how it is written down: an object is a finite map from its
  keys to values.  A value is well formed when no object has a key twice, as in JavaScript.
\<close>

datatype json_value =
    VNull
  | VBool bool
  | VNum int
  | VStr string
  | VArr "json_value list"
  | VObj "(string, json_value) fmap"

primrec meaning :: "json \<Rightarrow> json_value" where
  "meaning JNull = VNull"
| "meaning (JBool b) = VBool b"
| "meaning (JNum n) = VNum n"
| "meaning (JStr s) = VStr s"
| "meaning (JArr xs) = VArr (map meaning xs)"
| "meaning (JObj fs) = VObj (fmap_of_list (map (map_prod id meaning) fs))"

primrec well_formed :: "json \<Rightarrow> bool" where
  "well_formed JNull = True"
| "well_formed (JBool b) = True"
| "well_formed (JNum n) = True"
| "well_formed (JStr s) = True"
| "well_formed (JArr xs) = list_all id (map well_formed xs)"
| "well_formed (JObj fs) =
     (distinct (map fst fs) \<and> list_all snd (map (map_prod id well_formed) fs))"

lemma well_formed_arr [simp]: "well_formed (JArr xs) = list_all well_formed xs"
  by (simp add: list_all_iff)

lemma well_formed_obj [simp]:
  "well_formed (JObj fs) = (distinct (map fst fs) \<and> (\<forall>kv\<in>set fs. well_formed (snd kv)))"
  by (auto simp: list_all_iff)

declare well_formed.simps(5,6) [simp del]

lemma swap_case_inj:
  assumes "swap_case c = swap_case d"
  shows "c = d"
proof -
  have nats: "(if 65 \<le> m \<and> m \<le> 90 then m + 32 else if 97 \<le> m \<and> m \<le> 122 then m - 32 else m)
      = (if 65 \<le> n \<and> n \<le> 90 then n + 32 else if 97 \<le> n \<and> n \<le> 122 then n - 32 else n) \<Longrightarrow> m = n" for m n :: nat
    by (auto split: if_splits)
  show ?thesis
    by (rule of_char_eqI [where ?'a = nat], rule nats) (use assms in \<open>simp only: swap_case_def Let_def\<close>)
qed

lemma locale_key_inj: "locale_key s = locale_key t \<longleftrightarrow> s = t"
proof
  assume "locale_key s = locale_key t"
  then have "map swap_case s = map swap_case t" by (simp add: locale_key_def)
  then show "s = t" by (rule list.inj_map_strong [rotated]) (rule swap_case_inj)
qed simp

text \<open>The fields in canonical order; sorting by distinct keys depends on nothing but the fields.\<close>

lemma sort_fields_cong:
  assumes "distinct (map fst fs)" and "distinct (map fst gs)" and "set fs = set gs"
  shows "sort_key (\<lambda>kv. locale_key (fst kv)) fs = sort_key (\<lambda>kv. locale_key (fst kv)) gs"
proof (rule sort_key_inj_key_eq)
  have "distinct fs" "distinct gs" using assms(1,2) by (auto simp: distinct_map)
  with assms(3) show "mset fs = mset (sort_key (\<lambda>kv. locale_key (fst kv)) gs)"
    by (simp add: set_eq_iff_mset_eq_distinct)
  show "inj_on (\<lambda>kv. locale_key (fst kv)) (set fs)"
    using assms(1) by (auto simp: inj_on_def locale_key_inj distinct_map)
qed simp

lemma fmap_of_sorted:
  assumes "distinct (map fst fs)"
  shows "fmap_of_list (sort_key (\<lambda>kv. locale_key (fst kv)) fs) = fmap_of_list fs"
proof (rule fmap_ext)
  fix k
  let ?s = "sort_key (\<lambda>kv. locale_key (fst kv)) fs"
  have d: "distinct (map fst ?s)" using assms by (simp add: distinct_map)
  have "map_of ?s k = Some v \<longleftrightarrow> map_of fs k = Some v" for v
    unfolding map_of_eq_Some_iff [OF assms] map_of_eq_Some_iff [OF d] by simp
  then have "map_of ?s k = map_of fs k" by (metis option.exhaust)
  then show "fmlookup (fmap_of_list ?s) k = fmlookup (fmap_of_list fs) k" by (simp add: fmlookup_of_list)
qed

lemma map_insort_fields:
  "map (map_prod id g) (insort_key (\<lambda>kv. locale_key (fst kv)) x xs)
     = insort_key (\<lambda>kv. locale_key (fst kv)) (map_prod id g x) (map (map_prod id g) xs)"
  by (induction xs) auto

lemma map_sort_fields:
  "map (map_prod id g) (sort_key (\<lambda>kv. locale_key (fst kv)) xs)
     = sort_key (\<lambda>kv. locale_key (fst kv)) (map (map_prod id g) xs)"
  by (induction xs) (simp_all only: list.map sort_key_simps map_insort_fields)

text \<open>Canonicalising keeps the meaning.\<close>

lemma meaning_canonicalize: "well_formed a \<Longrightarrow> meaning (canonicalize a) = meaning a"
proof (induction a)
  case (JArr xs)
  then show ?case by (auto simp: list_all_iff)
next
  case (JObj fs)
  have IH: "meaning (canonicalize (snd kv)) = meaning (snd kv)" if "kv \<in> set fs" for kv
    using JObj that by (cases kv) (auto simp: snds.simps)
  have "map (map_prod id meaning) (map (map_prod id canonicalize) fs) = map (map_prod id meaning) fs"
    using IH by (auto simp: map_prod_def split: prod.splits)
  moreover have "distinct (map fst (map (map_prod id meaning) fs))" using JObj.prems by (simp add: comp_def)
  ultimately show ?case by (simp only: canonicalize.simps meaning.simps map_sort_fields fmap_of_sorted)
qed simp_all

text \<open>Values with the same meaning have the same canonical form.\<close>

lemma canonicalize_meaning: "well_formed a \<Longrightarrow> well_formed b \<Longrightarrow> meaning a = meaning b \<Longrightarrow> canonicalize a = canonicalize b"
proof (induction a arbitrary: b)
  case (JArr xs)
  from JArr.prems(3) obtain ys where b: "b = JArr ys" and m: "map meaning xs = map meaning ys" by (cases b) auto
  have len: "length xs = length ys" using m map_eq_imp_length_eq by blast
  have "canonicalize (xs ! k) = canonicalize (ys ! k)" if k: "k < length xs" for k
  proof (rule JArr.IH)
    show "meaning (xs ! k) = meaning (ys ! k)" using arg_cong [OF m, of "\<lambda>z. z ! k"] k len by simp
  qed (use k len JArr.prems b in \<open>auto simp: list_all_length\<close>)
  with len show ?case by (simp add: b list_eq_iff_nth_eq)
next
  case (JObj fs)
  from JObj.prems(3) obtain gs where b: "b = JObj gs"
    and m: "fmap_of_list (map (map_prod id meaning) fs) = fmap_of_list (map (map_prod id meaning) gs)" by (cases b) auto
  have d: "distinct (map fst fs)" "distinct (map fst gs)" using JObj.prems b by auto
  have look: "map_option meaning (map_of fs k) = map_option meaning (map_of gs k)" for k
  proof -
    have "map_of (map (map_prod id meaning) hs) k = map_option meaning (map_of hs k)" for hs :: "(string \<times> json) list"
      by (induction hs) auto
    with arg_cong [OF m, of "\<lambda>x. fmlookup x k"] show ?thesis by (simp add: fmlookup_of_list)
  qed
  have "map_of (map (map_prod id canonicalize) fs) k = map_of (map (map_prod id canonicalize) gs) k" for k
  proof -
    have c: "map_of (map (map_prod id canonicalize) hs) k = map_option canonicalize (map_of hs k)" for hs :: "(string \<times> json) list"
      by (induction hs) auto
    show ?thesis
    proof (cases "map_of fs k")
      case None
      with look [of k] show ?thesis by (simp add: c)
    next
      case (Some x)
      with look [of k] obtain y where y: "map_of gs k = Some y" "meaning x = meaning y"
          by (cases "map_of gs k") auto
      have in': "(k, x) \<in> set fs" "(k, y) \<in> set gs" using Some y(1) by (auto dest: map_of_SomeD)
      have "canonicalize x = canonicalize y"
        by (rule JObj.IH [OF in'(1)]) (use JObj.prems b in' y(2) in auto)
      then show ?thesis by (simp add: c Some y(1))
    qed
  qed
  then have "map_of (map (map_prod id canonicalize) fs) = map_of (map (map_prod id canonicalize) gs)" by (rule ext)
  then have "set (map (map_prod id canonicalize) fs) = set (map (map_prod id canonicalize) gs)"
    by (rule map_of_inject_set [THEN iffD1, rotated 2]) (use d in \<open>simp_all add: comp_def\<close>)
  then show ?case unfolding b canonicalize.simps
    by (intro arg_cong [where f = JObj] sort_fields_cong) (use d in \<open>simp_all add: comp_def\<close>)
qed (case_tac b; simp)+

lemma fmupd_same_key: "fmupd k v m = fmupd k w m \<longleftrightarrow> v = w"
  by (auto dest: arg_cong [where f = "\<lambda>m. fmlookup m k"])

section \<open>Properties\<close>

text \<open>Property C24 (fingerprint_collision): two request bodies have the same fingerprint exactly when they are the
  same JSON value, objects taken as finite maps from their keys, whatever order their fields were written in, or when
  SHA-256 itself collides on their canonical texts: sorting, escaping and nesting neither tell equal requests
  apart nor make different ones look alike.\<close>

theorem fingerprint_collision:
  assumes "well_formed a" and "well_formed b"
  shows "request_fingerprint e a = request_fingerprint e b \<longleftrightarrow>
     meaning a = meaning b \<or> hash_collision e (stringify (canonicalize a)) (stringify (canonicalize b))"
  using canonicalize_meaning [OF assms] meaning_canonicalize [OF assms(1)] meaning_canonicalize [OF assms(2)]
  by (auto simp: fingerprint_texts)

lemma fingerprint_collision_witness:
  "\<forall>e. request_fingerprint e (JObj [(''a'', JNum 1), (''b'', JObj [(''x'', JNull), (''y'', JBool True)])])
     = request_fingerprint e (JObj [(''b'', JObj [(''y'', JBool True), (''x'', JNull)]), (''a'', JNum 1)])
   \<and> (request_fingerprint e (JObj [(''a'', JNum 1)]) = request_fingerprint e (JObj [(''a'', JNum 2)])
        \<longrightarrow> (\<exists>s t. hash_collision e s t))"
proof (intro allI conjI impI)
  fix e
  let ?x = "JObj [(''a'', JNum 1), (''b'', JObj [(''x'', JNull), (''y'', JBool True)])]"
  let ?y = "JObj [(''b'', JObj [(''y'', JBool True), (''x'', JNull)]), (''a'', JNum 1)]"
  have "well_formed ?x" "well_formed ?y" by simp_all
  moreover have "meaning ?x = meaning ?y"
    by (simp add: fmupd_reorder_neq [of "''a''" "''b''"] fmupd_reorder_neq [of "''x''" "''y''"])
  ultimately show "request_fingerprint e ?x = request_fingerprint e ?y" by (simp only: fingerprint_collision simp_thms)
next
  fix e
  assume "request_fingerprint e (JObj [(''a'', JNum 1)]) = request_fingerprint e (JObj [(''a'', JNum 2)])"
  then show "\<exists>s t. hash_collision e s t"
    using fingerprint_collision [of "JObj [(''a'', JNum 1)]" "JObj [(''a'', JNum 2)]" e] by (auto simp: fmupd_same_key)
qed
end
