(* ===== verification/Spec2Isabelle.thy ===== *)
theory Spec2Isabelle
  imports WorkerSpec CartRuns FingerprintSpec Pricing Money
begin

text \<open>
  A verification of the commerce core of the Tunisia vape shop: what its API services do to the
  database when a customer fills a cart, checks out or cancels, when administrators work on the orders, the stock and
  the cash, and what its worker does with the events they leave in the outbox.

  The program and how its parts interact.  The API (\<open>apps/api/src\<close>) is a NestJS application over a
  MySQL database accessed through Prisma.  A service method runs one serializable transaction, which
  either commits or, when it throws, leaves the database as it was.  A customer's cart reserves nothing;
  its requests check what is sellable at their time.  A checkout reads the catalogue,
  the settings and the delivery rates, prices the cart, splits every line over the buckets of stock,
  writes the order with active reservations, its delivery and the cash expected for it, and queues
  notifications in the outbox of the same transaction.  An administrator then confirms the order
  (its reservations become consumed stock), or cancels or rejects it (they are released and the
  expected cash is voided), and prepares it; the customer may still cancel it while it is unconfirmed.
  The inventory service receives batches, transfers and
  corrects stock under dual control.  The cash desk records what couriers and the store collected,
  groups collections into remittances, and has them verified by a second administrator.  The delivery
  desk assigns couriers, writes them the message they are contacted with, groups their parcels into
  manifests, moves deliveries (one by one, by manifest or by a status file), and completes one when the
  age of the recipient was verified and the exact cash collected.  Any number of workers
  (\<open>apps/worker/src\<close>) poll the outbox: a poll leases events for a time and hands them to a queue, a job
  of the queue expires reservations, deletes media objects or sends a notification, and what fails is
  retried later until its attempts are used up.

  Conventions.  A database is a record of tables, a table a list of rows in the order of creation
  (\<open>stock_db\<close>, extended by \<open>shop_db\<close>, \<open>cash_db\<close>, \<open>delivery_db\<close> and \<open>worker_db\<close>, so that a handler of a smaller database works
  on the larger ones); a row is a record named after its Prisma model.  A handler is a function from
  the request environment \<open>env\<close> (time, actor, request data, and as parameters the hash, the cipher
  and the id generator, which are libraries outside the repository), its input and the database to
  \<open>Inl\<close> the exception it throws or \<open>Inr\<close> its answer and the new database.  Loops are \<open>foldE\<close> and
  \<open>mapE\<close>; \<open>updateMany\<close> is \<open>update_where\<close> with the count of the rows it hits; a violated unique key
  is Prisma's \<open>P2002\<close>.  Integers are the mathematical ones where the code checks their range and
  IEEE doubles (\<open>js_round\<close>) in \<open>Money\<close>, where the rounding matters.  Nothing runs on fuel: every
  loop of the modelled code is structural or bounded, and the retry loop of the checkout is a
  recursion on the attempts it has left.

  Theories and the code they model.
  \<^item> \<open>Prelude\<close>, \<open>Schema\<close>, \<open>ShopSchema\<close>, \<open>CashSchema\<close>, \<open>DeliverySchema\<close>: results, tables, JSON and strings; the models and
    enums of \<open>prisma/schema.prisma\<close> the services use, with the creates.
  \<^item> \<open>Stock\<close>: the contract \<open>stock_inv\<close> of the stock tables: every bucket agrees with its ledger of
    movements and holds at least what is actively reserved in it; the elementary changes that keep it.
  \<^item> \<open>Fingerprint\<close>, \<open>FingerprintSpec\<close>: canonical JSON and request fingerprints; equal texts mean equal
    requests, and equal requests are equal JSON values, in whatever order their fields were written.
  \<^item> \<open>Contracts\<close>: the locales of the handlers with an idempotency key.  They are interpreted on batch
    receipts and transfers (\<open>InventoryProofs\<close>), checkouts (\<open>CheckoutSpec\<close>) and cash collections
    (\<open>CashSpec\<close>), whose retry properties rest on them.
  \<^item> \<open>Inventory\<close>, \<open>InventoryProofs\<close>: \<open>inventory/admin-inventory.service.ts\<close>; each handler keeps
    \<open>stock_inv\<close>, decisions are under dual control and applied once, transfers conserve stock.
  \<^item> \<open>Money\<close>: \<open>common/money/money.ts\<close> and \<open>cash/cash-calculations.ts\<close> on doubles: when they are exact.
  \<^item> \<open>Pricing\<close>: \<open>checkout/checkout-pricing.ts\<close>: line totals, the unique best delivery rate.
  \<^item> \<open>Eligibility\<close>, \<open>CheckoutPolicy\<close>, \<open>Allocation\<close>, \<open>Calendar\<close>, \<open>Fulfillment\<close>, \<open>Outbox\<close>: the catalogue
    and stock filters, the checkout policy, the allocation of stock, dates, the delivery choice, and
    \<open>common/outbox\<close>; the allocation is characterised against availability, the outbox by the
    one-event-per-notification invariant.
  \<^item> \<open>Checkout\<close>, \<open>CheckoutProofs\<close>, \<open>CheckoutSpec\<close>, \<open>ShopDemo\<close>:
    \<open>checkout/checkout-order.service.ts\<close> as a whole; what a placed order is worth and holds, retries,
    the cart, and one checkout evaluated from end to end.
  \<^item> \<open>Cart\<close>, \<open>CartSpec\<close>, \<open>CartRuns\<close>: \<open>cart/cart-policy.ts\<close> and \<open>cart/cart.service.ts\<close>; what adding a
    line does, that the availability shown is the one the checkout allocates from, and the limits and
    versions of carts along the runs of the whole shop.
  \<^item> \<open>Machines\<close>: \<open>orders/order-state-machine.ts\<close> and \<open>delivery/delivery-transition-policy.ts\<close> as
    instances of two locales of status machines; the delivery machine follows
    the order machine, but for the one step back to rescheduled that only deliveries have.
  \<^item> \<open>Orders\<close>, \<open>OrdersProofs\<close>, \<open>OrdersSpec\<close>, \<open>OrdersDemo\<close>: \<open>orders/admin-orders.service.ts\<close>;
    confirming consumes exactly the stock reserved for the order, terminating gives it back, and each
    handler is a step that keeps every order in the status of its delivery.
  \<^item> \<open>CustomerOrders\<close>: \<open>customer-orders/customer-orders.service.ts\<close>; a customer's cancellation is shown
    to write what an administrator's does, so that it is one more step of the orders.
  \<^item> \<open>Cash\<close>, \<open>CashProofs\<close>, \<open>CashSpec\<close>: \<open>cash/admin-cash.service.ts\<close> and \<open>cash/cash-state-policy.ts\<close>;
    runs of the cash desk never allocate a collection beyond its worth and verify remittances by two
    people.
  \<^item> \<open>Deliveries\<close>, \<open>CourierMessage\<close>, \<open>DeliveryOperations\<close>: \<open>delivery/admin-deliveries.service.ts\<close>,
    \<open>courier-whatsapp.ts\<close> and \<open>admin-delivery-operations.service.ts\<close>; \<open>DeliveryProofs\<close> and
    \<open>DeliveryRuns\<close> show what each handler may write, \<open>DeliveryDemo\<close> evaluates two deliveries.
  \<^item> \<open>Characters\<close>, \<open>CsvExport\<close>, \<open>DeliveryCsv\<close>: \<open>common/export/csv.ts\<close> and \<open>delivery/delivery-csv.ts\<close>;
    what is written is read back, and an exported status file is accepted when it comes back.
  \<^item> \<open>CashFrame\<close>, \<open>ShopSystem\<close>: runs of cart requests, checkouts, order administration, inventory, deliveries and
    cash together, and the invariants that hold in all of them.
  \<^item> \<open>Manifests\<close>, \<open>DeliverySpec\<close>: the manifests and their items in every handler; what completes a
    delivery, what a status file applies, what handing a manifest over does, no parcel on two open
    manifests.
  \<^item> \<open>WorkerContracts\<close>, \<open>OutboxWorker\<close>, \<open>NotificationWorker\<close>: \<open>outbox-contracts.ts\<close>,
    \<open>outbox-repository.ts\<close>, \<open>outbox-publisher.ts\<close>, \<open>outbox-sources.ts\<close> and \<open>outbox-processor.ts\<close> of the
    worker, every transaction of it a function of its own; the queue, the object storage and the
    providers answer or fail as their parameters say.
  \<^item> \<open>MediaQueue\<close>: the deletion event \<open>product-media/product-media.service.ts\<close> queues for the objects of an
    image that was replaced or removed; the worker accepts it.
  \<^item> \<open>OutboxRuns\<close>, \<open>LeaseRuns\<close>, \<open>WorkerSpec\<close>, \<open>WorkerDemo\<close>: runs of workers and requests, transaction by
    transaction.  An event is claimed at most as often as it allows, by no second poll while its lease runs and
    no retry of it was scheduled, is processed once; an expiry frees exactly what was due by the cutoff of its
    event, and the shop keeps its promises beside the workers.

  What is not modelled, and why.  Row locks and the interleaving of transactions inside the database
  are replaced by the serializable order of whole transactions; where a service reads before its
  transaction, the two databases are separate arguments.  The read models, list queries and exports
  only project rows.  Catalogue, geography and delivery-provider administration write reference
  data that the modelled services only read; of the product images only the queueing of deletions is modelled, not the upload, the validation
  and the storage of the files.  Authentication, the HTTP layer and the DTO decorators are
  framework code; a precondition the decorators guarantee (a positive quantity) is a hypothesis where it
  is needed; a remittance without any allocation, which its DTO rejects, is accepted by the model of the service.  The storefront and the administration pages in \<open>apps/web\<close> are presentation.  Of the
  worker, the process itself, its environment variables, the texts of the messages and the clients of
  the providers and of the object storage are left out; a job is the sequence of its transactions, and
  the result of a call between two of them is a parameter.
\<close>

end
